(* ===== verification/Prelude.thy ===== *)
theory Prelude
  imports Main "HOL-Library.Word" "HOL-Library.Multiset" "HOL-Library.Sublist"
begin

text \<open>
  What every component theory shares: identifiers and times, Go's string functions as far as
  the board uses them, Go's insertion-based sorts, and the lemmas about lists that the
  component proofs rest on.

  \<^item> A \<open>uuid.UUID\<close> is sixteen bytes, a \<open>128 word\<close> here; \<open>uuid.Nil\<close> is the zero word.
  \<^item> A \<open>time.Time\<close> is the number of nanoseconds since Go's zero time, so \<open>IsZero\<close> is
    equality with 0; a \<open>time.Duration\<close> is a number of nanoseconds.
  \<^item> A Go string is a sequence of bytes: \<open>string\<close>, whose characters are bytes.
  \<^item> A pointer that may be nil is an \<open>option\<close>; a Go \<open>error\<close> return is the left summand.
\<close>

section \<open>Identifiers and times\<close>

type_synonym uuid = "128 word"
type_synonym time = int
type_synonym duration = int

definition uuid_Nil :: uuid where
  "uuid_Nil = 0"

definition time_IsZero :: "time \<Rightarrow> bool" where
  "time_IsZero t \<longleftrightarrow> t = 0"

section \<open>Collections of facts\<close>

text \<open>
  \<open>col_defs\<close> unfolds the string constants of the board (columns, task types, behaviour
  keys); \<open>gate_simps\<close> collects when a gate lets a move through; \<open>str_simps\<close> the string
  functions.
\<close>

named_theorems col_defs \<open>string constants of the board\<close>
named_theorems gate_simps \<open>when a gate passes\<close>
named_theorems str_simps \<open>string functions\<close>

section \<open>Go strings\<close>

text \<open>
  The whitespace of \<open>unicode.IsSpace\<close>, each character as its UTF-8 bytes: TAB, LF, VT, FF,
  CR, SPACE, U+0085, U+00A0, U+1680, U+2000 to U+200A, U+2028, U+2029, U+202F, U+205F,
  U+3000.
\<close>

definition utf8_spaces :: "string list" where
  "utf8_spaces =
     [[CHR 0x09], [CHR 0x0A], [CHR 0x0B], [CHR 0x0C], [CHR 0x0D], [CHR 0x20],
      [CHR 0xC2, CHR 0x85], [CHR 0xC2, CHR 0xA0], [CHR 0xE1, CHR 0x9A, CHR 0x80],
      [CHR 0xE2, CHR 0x80, CHR 0x80], [CHR 0xE2, CHR 0x80, CHR 0x81],
      [CHR 0xE2, CHR 0x80, CHR 0x82], [CHR 0xE2, CHR 0x80, CHR 0x83],
      [CHR 0xE2, CHR 0x80, CHR 0x84], [CHR 0xE2, CHR 0x80, CHR 0x85],
      [CHR 0xE2, CHR 0x80, CHR 0x86], [CHR 0xE2, CHR 0x80, CHR 0x87],
      [CHR 0xE2, CHR 0x80, CHR 0x88], [CHR 0xE2, CHR 0x80, CHR 0x89],
      [CHR 0xE2, CHR 0x80, CHR 0x8A], [CHR 0xE2, CHR 0x80, CHR 0xA8],
      [CHR 0xE2, CHR 0x80, CHR 0xA9], [CHR 0xE2, CHR 0x80, CHR 0xAF],
      [CHR 0xE2, CHR 0x81, CHR 0x9F], [CHR 0xE3, CHR 0x80, CHR 0x80]]"

definition space_at_front :: "string \<Rightarrow> nat" where
  "space_at_front s =
     (case find (\<lambda>sp. prefix sp s) utf8_spaces of None \<Rightarrow> 0 | Some sp \<Rightarrow> length sp)"

definition space_at_back :: "string \<Rightarrow> nat" where
  "space_at_back s =
     (case find (\<lambda>sp. suffix sp s) utf8_spaces of None \<Rightarrow> 0 | Some sp \<Rightarrow> length sp)"

lemma find_prefix_le: "find (\<lambda>sp. prefix sp s) sps = Some sp \<Longrightarrow> length sp \<le> length s"
  by (auto simp: find_Some_iff dest: prefix_length_le)

lemma find_suffix_le: "find (\<lambda>sp. suffix sp s) sps = Some sp \<Longrightarrow> length sp \<le> length s"
  by (auto simp: find_Some_iff dest: suffix_length_le)

lemma space_at_front_le: "space_at_front s \<le> length s"
  by (auto simp: space_at_front_def dest: find_prefix_le split: option.splits)

lemma space_at_back_le: "space_at_back s \<le> length s"
  by (auto simp: space_at_back_def dest: find_suffix_le split: option.splits)

function trim_left :: "string \<Rightarrow> string" where
  "trim_left s =
     (if space_at_front s = 0 then s else trim_left (drop (space_at_front s) s))"
  by pat_completeness auto
termination
proof (relation "measure length", simp)
  fix s :: string
  assume "space_at_front s \<noteq> 0"
  with space_at_front_le [of s] show "(drop (space_at_front s) s, s) \<in> measure length"
    by simp
qed

function trim_right :: "string \<Rightarrow> string" where
  "trim_right s =
     (if space_at_back s = 0 then s
      else trim_right (take (length s - space_at_back s) s))"
  by pat_completeness auto
termination
proof (relation "measure length", simp)
  fix s :: string
  assume "space_at_back s \<noteq> 0"
  with space_at_back_le [of s]
  show "(take (length s - space_at_back s) s, s) \<in> measure length"
    by simp
qed

declare trim_left.simps [simp del] trim_right.simps [simp del]

definition TrimSpace :: "string \<Rightarrow> string" where
  "TrimSpace s = trim_right (trim_left s)"

text \<open>\<open>strings.Index\<close>: the first position of a substring, \<open>None\<close> for Go's \<open>-1\<close>.\<close>

fun str_Index :: "string \<Rightarrow> string \<Rightarrow> nat option" where
  "str_Index [] sub = (if sub = [] then Some 0 else None)"
| "str_Index (c # cs) sub =
     (if prefix sub (c # cs) then Some 0 else map_option Suc (str_Index cs sub))"

definition str_Contains :: "string \<Rightarrow> string \<Rightarrow> bool" where
  "str_Contains s sub \<longleftrightarrow> str_Index s sub \<noteq> None"

text \<open>
  \<open>strings.ToLower\<close> and \<open>strings.EqualFold\<close> on ASCII letters; the bytes of other characters
  are compared as they are.
\<close>

definition lower_char :: "char \<Rightarrow> char" where
  "lower_char c =
     (let n = of_char c :: nat in if 65 \<le> n \<and> n \<le> 90 then char_of (n + 32) else c)"

definition upper_char :: "char \<Rightarrow> char" where
  "upper_char c =
     (let n = of_char c :: nat in if 97 \<le> n \<and> n \<le> 122 then char_of (n - 32) else c)"

definition ToLower :: "string \<Rightarrow> string" where
  "ToLower s = map lower_char s"

definition ToUpper :: "string \<Rightarrow> string" where
  "ToUpper s = map upper_char s"

definition EqualFold :: "string \<Rightarrow> string \<Rightarrow> bool" where
  "EqualFold s t \<longleftrightarrow> ToLower s = ToLower t"

section \<open>Searching and trimming\<close>

lemma str_Index_None: "str_Index s sub = None \<longleftrightarrow> \<not> sublist sub s"
proof (induction s)
  case (Cons c s)
  then show ?case by (auto simp: sublist_Cons_right)
qed simp

lemma str_Contains_sublist: "str_Contains s sub \<longleftrightarrow> sublist sub s"
  using str_Index_None [of s sub] by (auto simp: str_Contains_def)

lemma str_Index_Some:
  "str_Index s sub = Some i \<Longrightarrow> i + length sub \<le> length s \<and> prefix sub (drop i s)"
proof (induction s arbitrary: i)
  case Nil
  then show ?case by (auto split: if_splits)
next
  case (Cons c s)
  show ?case
  proof (cases "prefix sub (c # s)")
    case True
    then show ?thesis using Cons.prems by (auto dest: prefix_length_le)
  next
    case False
    then obtain j where "str_Index s sub = Some j" "i = Suc j" using Cons.prems by auto
    then show ?thesis using Cons.IH by simp
  qed
qed

text \<open>
  The first occurrence of a word whose first letter occurs only at its front: what precedes it
  cannot run into it.
\<close>

lemma str_Index_first:
  assumes "sub = c # cs" and "c \<notin> set cs" and "\<not> sublist sub xs"
  shows "str_Index (xs @ sub @ ys) sub = Some (length xs)"
  using assms(3)
proof (induction xs)
  case Nil
  then show ?case using assms(1) by simp
next
  case (Cons x xs)
  have "\<not> prefix sub (x # xs @ sub @ ys)"
  proof
    assume pre: "prefix sub (x # xs @ sub @ ys)"
    show False
    proof (cases "length sub \<le> Suc (length xs)")
      case True
      then have "prefix sub (x # xs)"
        using pre by (metis append_Cons length_Cons prefix_length_prefix prefixI)
      then show False using Cons.prems prefix_imp_sublist by blast
    next
      case False
      have len: "Suc (length xs) < length sub" using False by simp
      have "sub ! Suc (length xs) = (x # xs @ sub @ ys) ! Suc (length xs)"
        using pre len by (metis prefix_def nth_append)
      also have "\<dots> = c" using assms(1) by (simp add: nth_append)
      finally have "cs ! length xs = c" using assms(1) by simp
      moreover have "length xs < length cs" using len assms(1) by simp
      ultimately show False using assms(2) by (metis nth_mem)
    qed
  qed
  moreover have "\<not> sublist sub xs" using Cons.prems by (simp add: sublist_Cons_right)
  ultimately show ?case using Cons.IH by simp
qed

lemma trim_left_suffix: "suffix (trim_left s) s"
proof (induction s rule: trim_left.induct)
  case (1 s)
  show ?case
  proof (cases "space_at_front s = 0")
    case False
    then have "suffix (trim_left (drop (space_at_front s) s)) (drop (space_at_front s) s)"
      using 1 by simp
    then show ?thesis
      by (metis suffix_drop suffix_order.trans trim_left.simps False)
  qed (simp add: trim_left.simps)
qed

lemma trim_right_prefix: "prefix (trim_right s) s"
proof (induction s rule: trim_right.induct)
  case (1 s)
  show ?case
  proof (cases "space_at_back s = 0")
    case False
    then have "prefix (trim_right (take (length s - space_at_back s) s)) (take (length s - space_at_back s) s)"
      using 1 by simp
    then show ?thesis
      by (metis take_is_prefix prefix_order.trans trim_right.simps False)
  qed (simp add: trim_right.simps)
qed

lemma TrimSpace_sublist: "sublist (TrimSpace s) s"
  unfolding TrimSpace_def
  using trim_right_prefix [of "trim_left s"] trim_left_suffix [of s]
  by (meson prefix_imp_sublist suffix_imp_sublist sublist_order.order.trans)

lemma space_front_trim_left: "space_at_front (trim_left s) = 0"
  by (induction s rule: trim_left.induct) (subst trim_left.simps, simp)

lemma space_back_trim_right: "space_at_back (trim_right s) = 0"
  by (induction s rule: trim_right.induct) (subst trim_right.simps, simp)

lemma utf8_spaces_nonempty: "sp \<in> set utf8_spaces \<Longrightarrow> sp \<noteq> []"
  by (auto simp: utf8_spaces_def)

lemma space_at_front_0: "space_at_front s = 0 \<longleftrightarrow> (\<forall>sp \<in> set utf8_spaces. \<not> prefix sp s)"
  by (auto simp: space_at_front_def find_None_iff find_Some_iff split: option.splits
      dest: utf8_spaces_nonempty nth_mem)

lemma space_front_prefix: "prefix t s \<Longrightarrow> space_at_front s = 0 \<Longrightarrow> space_at_front t = 0"
  by (auto simp: space_at_front_0 dest: prefix_order.trans)

lemma TrimSpace_idem [simp]: "TrimSpace (TrimSpace s) = TrimSpace s"
proof -
  have "space_at_front (TrimSpace s) = 0"
    unfolding TrimSpace_def by (rule space_front_prefix [OF trim_right_prefix space_front_trim_left])
  then have "trim_left (TrimSpace s) = TrimSpace s" by (simp add: trim_left.simps)
  moreover have "trim_right (TrimSpace s) = TrimSpace s"
    unfolding TrimSpace_def using space_back_trim_right by (simp add: trim_right.simps)
  ultimately show ?thesis by (simp add: TrimSpace_def)
qed

section \<open>Go's sorts\<close>

text \<open>
  \<open>sort.SliceStable\<close> is an insertion sort on at most twenty elements and \<open>sort.Slice\<close>
  one on at most twelve: each element in turn moves left while it is less than its left
  neighbour. The sorted prefix is kept reversed, so that moving left is walking down the
  list. Nothing is assumed of \<open>lt\<close>; where it compares a key, the result is the stable
  sort by that key (\<open>go_sort_key\<close>), which is what both functions promise for longer lists
  too (\<open>sort.Slice\<close> when the keys are distinct).
\<close>

fun insert_back :: "('a \<Rightarrow> 'a \<Rightarrow> bool) \<Rightarrow> 'a \<Rightarrow> 'a list \<Rightarrow> 'a list" where
  "insert_back lt x [] = [x]"
| "insert_back lt x (y # ys) = (if lt x y then y # insert_back lt x ys else x # y # ys)"

definition go_sort :: "('a \<Rightarrow> 'a \<Rightarrow> bool) \<Rightarrow> 'a list \<Rightarrow> 'a list" where
  "go_sort lt xs = rev (fold (insert_back lt) xs [])"

lemma mset_insert_back: "mset (insert_back lt x ys) = add_mset x (mset ys)"
  by (induction ys) auto

lemma mset_fold_insert_back:
  "mset (fold (insert_back lt) xs acc) = mset xs + mset acc"
  by (induction xs arbitrary: acc) (auto simp: mset_insert_back)

lemma mset_go_sort [simp]: "mset (go_sort lt xs) = mset xs"
  by (simp add: go_sort_def mset_fold_insert_back)

lemma set_go_sort [simp]: "set (go_sort lt xs) = set xs"
  by (metis mset_go_sort set_mset_mset)

lemma length_go_sort [simp]: "length (go_sort lt xs) = length xs"
  by (metis mset_go_sort size_mset)

lemma sorted_insert_back:
  fixes k :: "'a \<Rightarrow> 'k::linorder"
  assumes "sorted_wrt (\<lambda>a b. k b \<le> k a) ys"
  shows "sorted_wrt (\<lambda>a b. k b \<le> k a) (insert_back (\<lambda>a b. k a < k b) x ys)"
  using assms
proof (induction ys)
  case (Cons y ys)
  have "set (insert_back (\<lambda>a b. k a < k b) x ys) = insert x (set ys)"
    by (metis mset_insert_back set_mset_add_mset_insert set_mset_mset)
  with Cons show ?case by auto
qed simp

lemma sorted_fold_insert_back:
  fixes k :: "'a \<Rightarrow> 'k::linorder"
  shows "sorted_wrt (\<lambda>a b. k b \<le> k a) acc \<Longrightarrow>
    sorted_wrt (\<lambda>a b. k b \<le> k a) (fold (insert_back (\<lambda>a b. k a < k b)) xs acc)"
  by (induction xs arbitrary: acc) (auto simp: sorted_insert_back)

lemma sorted_go_sort:
  fixes k :: "'a \<Rightarrow> 'k::linorder"
  shows "sorted (map k (go_sort (\<lambda>a b. k a < k b) xs))"
  using sorted_fold_insert_back [of k "[]" xs]
  by (simp add: go_sort_def sorted_map sorted_wrt_rev)

lemma filter_insert_back:
  fixes k :: "'a \<Rightarrow> 'k::linorder"
  shows "filter (\<lambda>z. k z = c) (insert_back (\<lambda>a b. k a < k b) x ys) =
    filter (\<lambda>z. k z = c) (x # ys)"
  by (induction ys) auto

lemma filter_fold_insert_back:
  fixes k :: "'a \<Rightarrow> 'k::linorder"
  shows "filter (\<lambda>z. k z = c) (fold (insert_back (\<lambda>a b. k a < k b)) xs acc) =
    rev (filter (\<lambda>z. k z = c) xs) @ filter (\<lambda>z. k z = c) acc"
  by (induction xs arbitrary: acc) (simp_all add: filter_insert_back)

lemma filter_go_sort:
  fixes k :: "'a \<Rightarrow> 'k::linorder"
  shows "filter (\<lambda>z. k z = c) (go_sort (\<lambda>a b. k a < k b) xs) = filter (\<lambda>z. k z = c) xs"
  by (simp add: go_sort_def filter_fold_insert_back flip: rev_filter)

theorem go_sort_key:
  fixes k :: "'a \<Rightarrow> 'k::linorder"
  shows "go_sort (\<lambda>a b. k a < k b) xs = sort_key k xs"
proof (rule properties_for_sort_key [symmetric])
  show "mset (go_sort (\<lambda>a b. k a < k b) xs) = mset xs" by simp
  show "sorted (map k (go_sort (\<lambda>a b. k a < k b) xs))" by (rule sorted_go_sort)
  show "filter (\<lambda>x. k a = k x) (go_sort (\<lambda>a b. k a < k b) xs) = filter (\<lambda>x. k a = k x) xs"
    for a
    using filter_go_sort [of k "k a" xs] by (simp add: eq_commute)
qed

text \<open>
  The contract a caller of a sort relies on: the same elements, in the order of a key. What
  follows from it is proved once here; a component that sorts interprets it on its own
  sorted list.
\<close>

locale key_sorter =
  fixes srt :: "'a list \<Rightarrow> 'a list" and key :: "'a \<Rightarrow> 'k::linorder"
  assumes srt_mset: "mset (srt xs) = mset xs"
    and srt_sorted: "sorted (map key (srt xs))"
begin

lemma srt_set: "set (srt xs) = set xs"
  by (metis srt_mset set_mset_mset)

lemma srt_length: "length (srt xs) = length xs"
  by (metis srt_mset size_mset)

lemma srt_distinct: "distinct (srt xs) \<longleftrightarrow> distinct xs"
  by (metis srt_mset mset_eq_imp_distinct_iff)

lemma srt_key_mono:
  "i < j \<Longrightarrow> j < length (srt xs) \<Longrightarrow> key (srt xs ! i) \<le> key (srt xs ! j)"
  using srt_sorted [of xs] by (simp add: sorted_iff_nth_mono_less)

lemma srt_unique:
  assumes "distinct (map key xs)" and "mset ys = mset xs" and "sorted (map key ys)"
  shows "ys = srt xs"
proof -
  have d: "distinct (map key ys)" "distinct (map key (srt xs))"
    using assms(1,2) srt_mset [of xs]
    by (metis mset_eq_imp_distinct_iff mset_map)+
  have "map key ys = map key (srt xs)"
    using assms(2,3) srt_mset [of xs] srt_sorted [of xs]
    by (metis mset_map properties_for_sort)
  moreover have "inj_on key (set ys \<union> set (srt xs))"
    using assms(1,2) by (metis distinct_map set_mset_mset srt_set sup.idem)
  ultimately show ?thesis by (rule map_inj_on)
qed

end

section \<open>Lists\<close>

text \<open>The first element a loop with an early return stops at.\<close>

lemma find_None_all: "find P xs = None \<longleftrightarrow> (\<forall>x \<in> set xs. \<not> P x)"
  by (auto simp: find_None_iff)

lemma find_SomeD: "find P xs = Some x \<Longrightarrow> x \<in> set xs \<and> P x"
  by (auto simp: find_Some_iff)

text \<open>A sort only compares the elements of its list.\<close>

lemma insert_back_cong:
  assumes "\<And>y. y \<in> set ys \<Longrightarrow> lt x y = lt' x y"
  shows "insert_back lt x ys = insert_back lt' x ys"
  using assms by (induction ys) auto

lemma fold_insert_back_cong:
  assumes "\<And>a b. a \<in> set xs \<union> set acc \<Longrightarrow> b \<in> set xs \<union> set acc \<Longrightarrow> lt a b = lt' a b"
  shows "fold (insert_back lt) xs acc = fold (insert_back lt') xs acc"
  using assms
proof (induction xs arbitrary: acc)
  case (Cons x xs)
  have eq: "insert_back lt x acc = insert_back lt' x acc"
    by (rule insert_back_cong) (simp add: Cons.prems)
  have set: "set (insert_back lt' x acc) = insert x (set acc)"
    by (metis mset_insert_back set_mset_add_mset_insert set_mset_mset)
  have "fold (insert_back lt) xs (insert_back lt' x acc) =
      fold (insert_back lt') xs (insert_back lt' x acc)"
    by (rule Cons.IH) (simp add: set Cons.prems)
  with eq show ?case by simp
qed simp

lemma go_sort_cong:
  assumes "\<And>a b. a \<in> set xs \<Longrightarrow> b \<in> set xs \<Longrightarrow> lt a b = lt' a b"
  shows "go_sort lt xs = go_sort lt' xs"
  unfolding go_sort_def by (rule arg_cong [of _ _ rev], rule fold_insert_back_cong) (simp add: assms)

lemma distinct_map_Cons_nth:
  "distinct (map f (x # xs)) \<Longrightarrow> j < length xs \<Longrightarrow> f x \<noteq> f (xs ! j)"
  by (metis distinct.simps(2) image_eqI list.set_map list.simps(9) nth_mem)

end
