(* ===== verification/Columns.thy ===== *)
theory Columns
  imports Prelude
begin

text \<open>
  The board's columns and its transition graph: \<open>server/internal/domain/project.go\<close>, the
  graph half of \<open>domain/board_config.go\<close>, and the two operations of
  \<open>application/workspace/service.go\<close> that read or guard it (\<open>ValidateTransition\<close>,
  \<open>UpdateColumns\<close>). A column is a slug, so a board may have columns of its own beside the
  stock ones; the type is the string type of the source.
\<close>

section \<open>Column slugs\<close>

type_synonym TaskColumn = string

definition TaskColumnBacklog :: TaskColumn where [col_defs]: "TaskColumnBacklog = ''backlog''"
definition TaskColumnTodo :: TaskColumn where [col_defs]: "TaskColumnTodo = ''todo''"
definition TaskColumnInProgress :: TaskColumn where [col_defs]: "TaskColumnInProgress = ''in_progress''"
definition TaskColumnAnalizReview :: TaskColumn where [col_defs]: "TaskColumnAnalizReview = ''analiz_review''"
definition TaskColumnCodeReview :: TaskColumn where [col_defs]: "TaskColumnCodeReview = ''code_review''"
definition TaskColumnReadyForQA :: TaskColumn where [col_defs]: "TaskColumnReadyForQA = ''ready_for_qa''"
definition TaskColumnInQA :: TaskColumn where [col_defs]: "TaskColumnInQA = ''in_qa''"
definition TaskColumnNeedRevision :: TaskColumn where [col_defs]: "TaskColumnNeedRevision = ''need_revision''"
definition TaskColumnPMUAT :: TaskColumn where [col_defs]: "TaskColumnPMUAT = ''pm_uat''"
definition TaskColumnHumanUAT :: TaskColumn where [col_defs]: "TaskColumnHumanUAT = ''human_uat''"
definition TaskColumnBlocked :: TaskColumn where [col_defs]: "TaskColumnBlocked = ''blocked''"
definition TaskColumnDone :: TaskColumn where [col_defs]: "TaskColumnDone = ''done''"
definition TaskColumnReleased :: TaskColumn where [col_defs]: "TaskColumnReleased = ''released''"

definition BoardColumns :: "TaskColumn list" where
  "BoardColumns =
     [TaskColumnTodo, TaskColumnInProgress, TaskColumnAnalizReview, TaskColumnCodeReview,
      TaskColumnReadyForQA, TaskColumnInQA, TaskColumnNeedRevision, TaskColumnPMUAT,
      TaskColumnHumanUAT, TaskColumnBlocked, TaskColumnDone, TaskColumnReleased]"

definition ValidTaskColumn :: "TaskColumn \<Rightarrow> bool" where
  "ValidTaskColumn c \<longleftrightarrow>
     c \<in> set [TaskColumnBacklog, TaskColumnTodo, TaskColumnInProgress, TaskColumnAnalizReview,
       TaskColumnCodeReview, TaskColumnReadyForQA, TaskColumnInQA, TaskColumnNeedRevision,
       TaskColumnPMUAT, TaskColumnHumanUAT, TaskColumnBlocked, TaskColumnDone,
       TaskColumnReleased]"

definition AssigneeOnlyColumn :: "TaskColumn \<Rightarrow> bool" where
  "AssigneeOnlyColumn col \<longleftrightarrow> col = TaskColumnTodo \<or> col = TaskColumnNeedRevision"

definition SpanCountsForSpeed :: "TaskColumn \<Rightarrow> bool" where
  "SpanCountsForSpeed col \<longleftrightarrow>
     col \<in> set [TaskColumnInProgress, TaskColumnCodeReview, TaskColumnReadyForQA,
       TaskColumnInQA, TaskColumnPMUAT]"

definition QuorumReviewColumn :: "TaskColumn \<Rightarrow> bool" where
  "QuorumReviewColumn col \<longleftrightarrow> col = TaskColumnCodeReview"

definition holdsForHumanApproval :: "TaskColumn \<Rightarrow> bool" where
  "holdsForHumanApproval from = (from = TaskColumnCodeReview)"

section \<open>The transition graph\<close>

record BoardTransition =
  btr_From :: string
  btr_To :: string

record BoardColumnInput =
  bci_Slug :: string
  bci_Label :: string
  bci_Position :: int
  bci_IsBacklog :: bool

definition transition :: "string \<Rightarrow> string \<Rightarrow> BoardTransition" where
  "transition f t = \<lparr>btr_From = f, btr_To = t\<rparr>"

definition requiredTransitions :: "BoardTransition list" where
  "requiredTransitions =
     [transition ''backlog'' ''todo'',
      transition ''todo'' ''in_progress'',
      transition ''in_progress'' ''code_review'',
      transition ''in_progress'' ''analiz_review'',
      transition ''in_progress'' ''need_revision'',
      transition ''in_progress'' ''human_uat'',
      transition ''analiz_review'' ''done'',
      transition ''analiz_review'' ''need_revision'',
      transition ''code_review'' ''ready_for_qa'',
      transition ''code_review'' ''need_revision'',
      transition ''ready_for_qa'' ''in_qa'',
      transition ''ready_for_qa'' ''need_revision'',
      transition ''in_qa'' ''pm_uat'',
      transition ''in_qa'' ''human_uat'',
      transition ''in_qa'' ''need_revision'',
      transition ''need_revision'' ''in_progress'',
      transition ''need_revision'' ''code_review'',
      transition ''need_revision'' ''analiz_review'',
      transition ''pm_uat'' ''human_uat'',
      transition ''pm_uat'' ''need_revision'',
      transition ''human_uat'' ''done'',
      transition ''human_uat'' ''need_revision'',
      transition ''done'' ''released'',
      transition ''done'' ''need_revision'',
      transition ''released'' ''need_revision'']"

definition DefaultBoardTransitions :: "BoardTransition list" where
  "DefaultBoardTransitions =
     requiredTransitions @
     [transition ''todo'' ''need_revision'',
      transition ''in_progress'' ''todo'',
      transition ''ready_for_qa'' ''pm_uat'',
      transition ''ready_for_qa'' ''human_uat''] @
     map (\<lambda>from. transition from ''blocked'')
       [''todo'', ''in_progress'', ''analiz_review'', ''code_review'', ''ready_for_qa'',
        ''in_qa'', ''need_revision'', ''pm_uat'', ''human_uat'', ''done'']"

definition RequiredBoardTransitions :: "BoardTransition list" where
  "RequiredBoardTransitions = requiredTransitions"

definition defaultColumnLabel :: "TaskColumn \<Rightarrow> string" where
  "defaultColumnLabel col =
     (case map_of
        [(TaskColumnTodo, ''Todo''), (TaskColumnInProgress, ''In Progress''),
         (TaskColumnAnalizReview, ''Analiz Review''), (TaskColumnCodeReview, ''Code Review''),
         (TaskColumnReadyForQA, ''Ready for QA''), (TaskColumnInQA, ''In QA''),
         (TaskColumnNeedRevision, ''Need Revision''), (TaskColumnPMUAT, ''PM UAT''),
         (TaskColumnHumanUAT, ''Human UAT''), (TaskColumnBlocked, ''Blocked''),
         (TaskColumnDone, ''Done''), (TaskColumnReleased, ''Released'')] col of
        Some label \<Rightarrow> label
      | None \<Rightarrow> col)"

fun columnInputs :: "int \<Rightarrow> TaskColumn list \<Rightarrow> BoardColumnInput list" where
  "columnInputs pos [] = []"
| "columnInputs pos (col # cols) =
     \<lparr>bci_Slug = col, bci_Label = defaultColumnLabel col, bci_Position = pos,
      bci_IsBacklog = False\<rparr> # columnInputs (pos + 1) cols"

definition DefaultBoardColumnTemplate :: "BoardColumnInput list" where
  "DefaultBoardColumnTemplate =
     \<lparr>bci_Slug = TaskColumnBacklog, bci_Label = ''Backlog'', bci_Position = 0,
      bci_IsBacklog = True\<rparr> # columnInputs 1 BoardColumns"

end
