(* ===== verification/Errors.thy ===== *)
theory Errors
  imports Columns
begin

text \<open>
  The errors the board's operations return, as values. \<open>fmt.Errorf\<close> with \<open>%w\<close> wraps an
  error (\<open>ErrWrap\<close>); the typed gate errors of \<open>server/internal/domain\<close> (\<open>move_refusal.go\<close>,
  \<open>criteria_gate_error.go\<close>, \<open>work_order_gate_error.go\<close>, \<open>stage_not_on_workflow_error.go\<close>,
  \<open>lifecycle_gate.go\<close>) are constructors with the fields the source gives them. A message
  rendered from the prompt catalog is kept as the name of its template and its inputs
  (\<open>ErrText\<close>); a failure of a store or another process is \<open>ErrStore\<close>.
\<close>

type_synonym TaskType = string

definition TaskTypeTask :: TaskType where [col_defs]: "TaskTypeTask = ''task''"
definition TaskTypeAnaliz :: TaskType where [col_defs]: "TaskTypeAnaliz = ''analiz''"
definition TaskTypeBug :: TaskType where [col_defs]: "TaskTypeBug = ''bug''"
definition TaskTypeTechnical :: TaskType where [col_defs]: "TaskTypeTechnical = ''technical''"
definition TaskTypeDesign :: TaskType where [col_defs]: "TaskTypeDesign = ''design''"

datatype CriteriaGateReason =
    CriteriaGateReasonIncomplete
  | CriteriaGateReasonUnchecked
  | CriteriaGateReasonRejected

record CriteriaGateCriterion =
  cgc_ID :: uuid
  cgc_Text :: string

record WorkOrderGateBlocker =
  wgb_Key :: string
  wgb_Title :: string

datatype go_error =
    ErrText string "string list"
  | ErrStore string
  | ErrWrap string go_error
  | MoveRefusedError go_error
  | CriteriaGateError TaskColumn CriteriaGateReason "CriteriaGateCriterion list"
  | WorkOrderGateError TaskColumn "WorkOrderGateBlocker list"
  | StageNotOnWorkflowError TaskType TaskColumn
  | ErrReviewChainIncomplete
  | ErrReviewStageRejected
  | ErrReviewStageSkipped
  | ErrAssigneeNotAssignable
  | ErrColumnHasWorkflowStages
  | ErrReleaseTargetMoved
  | ErrReleaseTargetUnverified
  | ErrNotFound
  | ErrBoardTaskNotFound
  | ErrTaskAlreadyClaimed
  | ErrCriterionNotFound
  | ErrMobileAppNotLive
  | ErrMobileAppNotTestReady
  | ErrTaskAgentRunNotFound
  | ErrRunNotLive
  | ErrRunNotTerminal
  | ErrTaskBlockedForRerun

text \<open>\<open>domain.RefuseMove\<close>: a nil error stays nil.\<close>

definition RefuseMove :: "go_error option \<Rightarrow> go_error option" where
  "RefuseMove err = (case err of None \<Rightarrow> None | Some e \<Rightarrow> Some (MoveRefusedError e))"

text \<open>
  \<open>errors.As\<close> and \<open>errors.Is\<close> look through the chain of \<open>Unwrap\<close> calls.
\<close>

fun err_chain :: "go_error \<Rightarrow> go_error list" where
  "err_chain (ErrWrap m e) = ErrWrap m e # err_chain e"
| "err_chain (MoveRefusedError e) = MoveRefusedError e # err_chain e"
| "err_chain e = [e]"

fun refusal_link :: "go_error \<Rightarrow> bool" where
  "refusal_link (MoveRefusedError e) = True"
| "refusal_link (CriteriaGateError c r cs) = True"
| "refusal_link (WorkOrderGateError c bs) = True"
| "refusal_link (StageNotOnWorkflowError t c) = True"
| "refusal_link ErrReviewChainIncomplete = True"
| "refusal_link ErrReviewStageRejected = True"
| "refusal_link ErrReviewStageSkipped = True"
| "refusal_link e = False"

definition IsMoveRefusal :: "go_error option \<Rightarrow> bool" where
  "IsMoveRefusal err =
     (case err of None \<Rightarrow> False | Some e \<Rightarrow> list_ex refusal_link (err_chain e))"

text \<open>\<open>errors.Is\<close> against a sentinel.\<close>

definition errors_Is :: "go_error \<Rightarrow> go_error \<Rightarrow> bool" where
  "errors_Is e sentinel \<longleftrightarrow> sentinel \<in> set (err_chain e)"

lemma err_chain_self: "e \<in> set (err_chain e)"
  by (cases e) auto

lemma IsMoveRefusal_wrap [simp]:
  "IsMoveRefusal (Some (ErrWrap m e)) = IsMoveRefusal (Some e)"
  by (simp add: IsMoveRefusal_def)

lemma IsMoveRefusal_link: "refusal_link e \<Longrightarrow> IsMoveRefusal (Some e)"
  using err_chain_self [of e] by (auto simp: IsMoveRefusal_def list_ex_iff)

end
