(* ===== verification/Transitions.thy ===== *)
theory Transitions
  imports Errors
begin

text \<open>
  The guards of \<open>application/workspace/service.go\<close>: \<open>ValidateTransition\<close> over the
  transitions the board store lists (a store failure is returned as it is) and
  \<open>UpdateColumns\<close>, which refuses to drop a column a workflow stage with behaviours uses.
  The lemmas characterise the guard and show that the required moves form a graph in which
  a task can always reach \<open>released\<close>.
\<close>

section \<open>ValidateTransition\<close>

text \<open>
  The loop over the listed transitions with its early return; the flag is the source's
  \<open>hasOutgoing\<close>.
\<close>

fun transition_loop :: "string \<Rightarrow> string \<Rightarrow> bool \<Rightarrow> BoardTransition list \<Rightarrow> go_error option" where
  "transition_loop from to hasOutgoing [] =
     (if hasOutgoing then RefuseMove (Some (ErrText ''transition_not_allowed'' [])) else None)"
| "transition_loop from to hasOutgoing (t # ts) =
     (if btr_From t = from
      then (if btr_To t = to then None else transition_loop from to True ts)
      else transition_loop from to hasOutgoing ts)"

definition ValidateTransition ::
  "(go_error + BoardTransition list) \<Rightarrow> string \<Rightarrow> string \<Rightarrow> go_error option" where
  "ValidateTransition listed from to =
     (if from = '''' \<or> to = '''' \<or> from = to then None
      else case listed of
          Inl err \<Rightarrow> Some err
        | Inr transitions \<Rightarrow> transition_loop from to False transitions)"

lemma transition_loop_None [gate_simps]:
  "transition_loop from to h ts = None \<longleftrightarrow>
     (\<exists>t \<in> set ts. btr_From t = from \<and> btr_To t = to) \<or>
     (\<not> h \<and> (\<forall>t \<in> set ts. btr_From t \<noteq> from))"
  by (induction ts arbitrary: h) (auto simp: RefuseMove_def)

lemma transition_loop_refusal:
  "transition_loop from to h ts = Some e \<Longrightarrow> IsMoveRefusal (Some e)"
  by (induction ts arbitrary: h)
    (auto simp: RefuseMove_def IsMoveRefusal_link split: if_splits)

section \<open>UpdateColumns\<close>

text \<open>
  \<open>stages\<close> is the optional \<open>WorkflowStageChecker\<close>, \<open>existing\<close> the columns the store lists.
  The result is the error, or the rows handed to \<open>ReplaceColumns\<close>.
\<close>

fun orphan_loop ::
  "(string \<Rightarrow> go_error + bool) \<Rightarrow> string set \<Rightarrow> string list \<Rightarrow> go_error option" where
  "orphan_loop hasStages next_slugs [] = None"
| "orphan_loop hasStages next_slugs (slug # slugs) =
     (if slug \<in> next_slugs then orphan_loop hasStages next_slugs slugs
      else case hasStages slug of
          Inl err \<Rightarrow> Some err
        | Inr has \<Rightarrow>
            (if has then Some (ErrWrap slug ErrColumnHasWorkflowStages)
             else orphan_loop hasStages next_slugs slugs))"

definition UpdateColumns ::
  "(string \<Rightarrow> go_error + bool) option \<Rightarrow> (go_error + string list) \<Rightarrow> BoardColumnInput list
   \<Rightarrow> go_error + BoardColumnInput list" where
  "UpdateColumns stages existing columns =
     (if columns = [] then Inl (ErrText ''columns are required'' [])
      else case stages of
          None \<Rightarrow> Inr columns
        | Some hasStages \<Rightarrow>
            (case existing of
               Inl err \<Rightarrow> Inl err
             | Inr slugs \<Rightarrow>
                 (case orphan_loop hasStages (set (map bci_Slug columns)) slugs of
                    Some err \<Rightarrow> Inl err
                  | None \<Rightarrow> Inr columns)))"

lemma orphan_loop_None [gate_simps]:
  "orphan_loop hasStages next_slugs slugs = None \<longleftrightarrow>
     (\<forall>slug \<in> set slugs. slug \<in> next_slugs \<or> hasStages slug = Inr False)"
  by (induction slugs) (auto split: sum.splits)

section \<open>Moves a board accepts\<close>

definition move_accepted :: "BoardTransition list \<Rightarrow> string \<Rightarrow> string \<Rightarrow> bool" where
  "move_accepted ts from to \<longleftrightarrow> ValidateTransition (Inr ts) from to = None"

inductive move_path :: "BoardTransition list \<Rightarrow> string \<Rightarrow> string \<Rightarrow> bool"
  for ts where
  path_refl: "move_path ts c c"
| path_step: "move_accepted ts a b \<Longrightarrow> move_path ts b c \<Longrightarrow> move_path ts a c"

lemma move_accepted_listed:
  "t \<in> set ts \<Longrightarrow> move_accepted ts (btr_From t) (btr_To t)"
  by (auto simp: move_accepted_def ValidateTransition_def gate_simps)

lemma move_path_trans: "move_path ts a b \<Longrightarrow> move_path ts b c \<Longrightarrow> move_path ts a c"
  by (induction rule: move_path.induct) (auto intro: move_path.intros)

lemma move_path_listed:
  "transition a b \<in> set ts \<Longrightarrow> move_path ts b c \<Longrightarrow> move_path ts a c"
  using move_accepted_listed [of "transition a b" ts]
  by (auto simp: transition_def intro: path_step)

text \<open>
  The happy path of a coding task, read off the required moves, and the entry of every other
  stock column into it.
\<close>

lemma required_path_released:
  assumes "set requiredTransitions \<subseteq> set ts"
    and "c \<in> set (TaskColumnBacklog # BoardColumns)" and "c \<noteq> TaskColumnBlocked"
  shows "move_path ts c ''released''"
proof -
  have step: "transition a b \<in> set requiredTransitions \<Longrightarrow> move_path ts b d \<Longrightarrow> move_path ts a d"
    for a b d
    using assms(1) by (auto intro: move_path_listed)
  have fin: "move_path ts ''done'' ''released''"
    by (rule step [OF _ path_refl]) (simp add: requiredTransitions_def)
  have human: "move_path ts ''human_uat'' ''released''"
    by (rule step [OF _ fin]) (simp add: requiredTransitions_def)
  have pm: "move_path ts ''pm_uat'' ''released''"
    by (rule step [OF _ human]) (simp add: requiredTransitions_def)
  have qa: "move_path ts ''in_qa'' ''released''"
    by (rule step [OF _ pm]) (simp add: requiredTransitions_def)
  have ready: "move_path ts ''ready_for_qa'' ''released''"
    by (rule step [OF _ qa]) (simp add: requiredTransitions_def)
  have code: "move_path ts ''code_review'' ''released''"
    by (rule step [OF _ ready]) (simp add: requiredTransitions_def)
  have analiz: "move_path ts ''analiz_review'' ''released''"
    by (rule step [OF _ fin]) (simp add: requiredTransitions_def)
  have progress: "move_path ts ''in_progress'' ''released''"
    by (rule step [OF _ code]) (simp add: requiredTransitions_def)
  have revision: "move_path ts ''need_revision'' ''released''"
    by (rule step [OF _ progress]) (simp add: requiredTransitions_def)
  have todo: "move_path ts ''todo'' ''released''"
    by (rule step [OF _ progress]) (simp add: requiredTransitions_def)
  have backlog: "move_path ts ''backlog'' ''released''"
    by (rule step [OF _ todo]) (simp add: requiredTransitions_def)
  show ?thesis
    using assms(2,3) fin human pm qa ready code analiz progress revision todo backlog
      path_refl [of ts "''released''"]
    by (auto simp: BoardColumns_def col_defs)
qed

end
