(* ===== verification/Tasks.thy ===== *)
theory Tasks
  imports Transitions
begin

text \<open>
  The board's task data: \<open>server/internal/domain/board_task.go\<close>, the pipeline and document
  types it carries, and the task keys (\<open>TaskKeyPrefix\<close>, \<open>FormatTaskKey\<close> and
  \<open>parseTaskKey\<close> of \<open>application/repository/service.go\<close>). Fields keep the source's names
  behind the record's prefix; a JSON \<open>omitempty\<close> pointer is an \<open>option\<close>. Attachment
  metadata is carried as the list of attachment ids.
\<close>

section \<open>Task types\<close>

definition ValidTaskType :: "TaskType \<Rightarrow> bool" where
  "ValidTaskType t \<longleftrightarrow>
     t \<in> set [TaskTypeTask, TaskTypeAnaliz, TaskTypeBug, TaskTypeTechnical, TaskTypeDesign]"

definition IsDocumentWork :: "TaskType \<Rightarrow> bool" where
  "IsDocumentWork t \<longleftrightarrow> t = TaskTypeAnaliz \<or> t = TaskTypeDesign"

definition PublishesBranch :: "TaskType \<Rightarrow> bool" where
  "PublishesBranch t \<longleftrightarrow> \<not> IsDocumentWork t"

definition TaskKeyPrefix :: "TaskType \<Rightarrow> string" where
  "TaskKeyPrefix t =
     (if t = TaskTypeBug then ''B''
      else if t = TaskTypeAnaliz then ''A''
      else if t = TaskTypeTechnical then ''TC''
      else if t = TaskTypeDesign then ''D''
      else ''T'')"

definition TaskTypeForKeyPrefix :: "string \<Rightarrow> TaskType option" where
  "TaskTypeForKeyPrefix pfx =
     (let p = ToUpper (TrimSpace pfx) in
      if p = ''T'' then Some TaskTypeTask
      else if p = ''B'' then Some TaskTypeBug
      else if p = ''A'' then Some TaskTypeAnaliz
      else if p = ''TC'' then Some TaskTypeTechnical
      else if p = ''D'' then Some TaskTypeDesign
      else None)"

section \<open>Priorities and relations\<close>

type_synonym TaskPriority = string

definition TaskPriorityLow :: TaskPriority where [col_defs]: "TaskPriorityLow = ''low''"
definition TaskPriorityMedium :: TaskPriority where [col_defs]: "TaskPriorityMedium = ''medium''"
definition TaskPriorityHigh :: TaskPriority where [col_defs]: "TaskPriorityHigh = ''high''"
definition TaskPriorityCritical :: TaskPriority where [col_defs]: "TaskPriorityCritical = ''critical''"

definition ValidTaskPriority :: "TaskPriority \<Rightarrow> bool" where
  "ValidTaskPriority p \<longleftrightarrow>
     p \<in> set [TaskPriorityLow, TaskPriorityMedium, TaskPriorityHigh, TaskPriorityCritical]"

type_synonym TaskRelationType = string

definition TaskRelationBlocks :: TaskRelationType where
  [col_defs]: "TaskRelationBlocks = ''blocks''"
definition TaskRelationDeployDependsOn :: TaskRelationType where
  [col_defs]: "TaskRelationDeployDependsOn = ''deploy_depends_on''"
definition TaskRelationDerivedFrom :: TaskRelationType where
  [col_defs]: "TaskRelationDerivedFrom = ''derived_from''"
definition TaskRelationDiscoveredFrom :: TaskRelationType where
  [col_defs]: "TaskRelationDiscoveredFrom = ''discovered_from''"

definition ValidTaskRelationType :: "TaskRelationType \<Rightarrow> bool" where
  "ValidTaskRelationType t \<longleftrightarrow>
     t \<in> set [TaskRelationBlocks, TaskRelationDeployDependsOn, TaskRelationDerivedFrom,
       TaskRelationDiscoveredFrom]"

record TaskRelation =
  rel_ID :: uuid
  rel_SourceTaskID :: uuid
  rel_TargetTaskID :: uuid
  rel_RelationType :: TaskRelationType
  rel_TargetKey :: string
  rel_TargetTitle :: string
  rel_SourceKey :: string
  rel_SourceTitle :: string
  rel_CreatedAt :: time

record TaskRelationInput =
  rin_TargetTaskID :: uuid
  rin_TargetKey :: string
  rin_RelationType :: TaskRelationType

text \<open>\<open>uuid.UUID.String\<close>: the canonical form, 32 hexadecimal digits in five groups.\<close>

definition hex_digit :: "nat \<Rightarrow> char" where
  "hex_digit n = (if n < 10 then char_of (48 + n) else char_of (87 + n))"

definition uuid_nibbles :: "uuid \<Rightarrow> string" where
  "uuid_nibbles u = map (\<lambda>i. hex_digit (nat (uint u div 16 ^ i mod 16))) (rev [0..<32])"

definition uuid_String :: "uuid \<Rightarrow> string" where
  "uuid_String u =
     (let h = uuid_nibbles u in
      take 8 h @ ''-'' @ take 4 (drop 8 h) @ ''-'' @ take 4 (drop 12 h) @ ''-'' @
      take 4 (drop 16 h) @ ''-'' @ drop 20 h)"

text \<open>Two uuids with the same text are the same.\<close>

lemma length_uuid_String: "length (uuid_String u) = 36"
  by (simp add: uuid_String_def uuid_nibbles_def Let_def)

lemma hex_digit_inj:
  assumes "m < 16" and "n < 16" and "hex_digit m = hex_digit n"
  shows "m = n"
proof -
  have code: "(of_char (hex_digit k) :: nat) = (if k < 10 then 48 + k else 87 + k)" if "k < 16" for k
    using that by (simp add: hex_digit_def)
  have "(of_char (hex_digit m) :: nat) = of_char (hex_digit n)" by (simp only: assms(3))
  then show ?thesis using assms(1,2) by (simp add: code split: if_splits)
qed

lemma hex_digits_determine:
  fixes m n :: int
  assumes "\<And>i. i < k \<Longrightarrow> m div 16 ^ i mod 16 = n div 16 ^ i mod 16"
  shows "m mod 16 ^ k = n mod 16 ^ k"
  using assms
proof (induction k)
  case (Suc k)
  have split: "a mod 16 ^ Suc k = 16 ^ k * (a div 16 ^ k mod 16) + a mod 16 ^ k" for a :: int
    using zmod_zmult2_eq [of 16 a "16 ^ k"] by (simp add: mult.commute)
  show ?case unfolding split using Suc by simp
qed simp

lemma uuid_nibbles_inj:
  assumes "uuid_nibbles u = uuid_nibbles v"
  shows "u = v"
proof -
  have "uint u div 16 ^ i mod 16 = uint v div 16 ^ i mod 16" if "i < 32" for i
  proof -
    have "hex_digit (nat (uint u div 16 ^ i mod 16)) = hex_digit (nat (uint v div 16 ^ i mod 16))"
      using assms that by (auto simp: uuid_nibbles_def)
    then have "nat (uint u div 16 ^ i mod 16) = nat (uint v div 16 ^ i mod 16)"
      by (rule hex_digit_inj [rotated 2]) (simp_all add: nat_less_iff)
    then show ?thesis by simp
  qed
  then have "uint u mod 16 ^ 32 = uint v mod 16 ^ 32" by (rule hex_digits_determine)
  moreover have "uint w mod 16 ^ 32 = uint w" for w :: uuid
    using uint_bounded [of w] by (intro mod_pos_pos_trivial) simp_all
  ultimately have "uint u = uint v" by simp
  then show ?thesis by (simp only: word_uint_eq_iff)
qed

lemma uuid_String_inj: "uuid_String u = uuid_String v \<longleftrightarrow> u = v"
proof
  assume eq: "uuid_String u = uuid_String v"
  have len: "length (uuid_nibbles w) = 32" for w by (simp add: uuid_nibbles_def)
  have parts: "h = take 8 h @ take 4 (drop 8 h) @ take 4 (drop 12 h) @ take 4 (drop 16 h) @ drop 20 h"
    for h :: string
    using append_take_drop_id [of 8 h] append_take_drop_id [of 4 "drop 8 h"]
      append_take_drop_id [of 4 "drop 12 h"] append_take_drop_id [of 4 "drop 16 h"]
    by simp
  have "uuid_nibbles u = uuid_nibbles v"
    using eq by (subst (1 2) parts) (simp add: uuid_String_def Let_def len)
  then show "u = v" by (rule uuid_nibbles_inj)
qed simp

definition RelationLabel :: "string \<Rightarrow> string \<Rightarrow> uuid \<Rightarrow> string" where
  "RelationLabel key0 title0 i =
     (let key = TrimSpace key0; title = TrimSpace title0 in
      if key \<noteq> '''' \<and> title \<noteq> '''' then key @ '' ('' @ title @ '')''
      else if key \<noteq> '''' then key
      else if title \<noteq> '''' then title
      else uuid_String i)"

section \<open>Acceptance criteria\<close>

datatype CriterionReviewRole = CriterionReviewRoleQA | CriterionReviewRolePM

record CriterionCheck =
  chk_ID :: uuid
  chk_CriterionID :: uuid
  chk_Role :: CriterionReviewRole
  chk_AgentID :: "uuid option"
  chk_Approved :: bool
  chk_Note :: string
  chk_CheckedAt :: time
  chk_VerifiedSHA :: string
  chk_VerifiedPatchID :: string

record AcceptanceCriterion =
  crit_ID :: uuid
  crit_TaskID :: uuid
  crit_Text :: string
  crit_Position :: int
  crit_Completed :: bool
  crit_CreatedAt :: time
  crit_Canceled :: bool
  crit_CancelReason :: string
  crit_Checks :: "CriterionCheck list"

record AcceptanceCriterionInput =
  cin_Text :: string
  cin_Position :: int
  cin_Completed :: bool

definition Settled :: "AcceptanceCriterion \<Rightarrow> bool" where
  "Settled c \<longleftrightarrow> crit_Completed c \<or> crit_Canceled c"

section \<open>Documents and test cases\<close>

type_synonym DocumentFormat = string

record TaskDocument =
  doc_ID :: uuid
  doc_TaskID :: uuid
  doc_Title :: string
  doc_Content :: string
  doc_Format :: DocumentFormat
  doc_Position :: int
  doc_CreatedByType :: string
  doc_CreatedByID :: string
  doc_CreatedAt :: time
  doc_UpdatedAt :: time

record CreateTaskDocumentRequest =
  dreq_Title :: string
  dreq_Content :: string
  dreq_Format :: DocumentFormat
  dreq_Position :: int
  dreq_CreatedByType :: string
  dreq_CreatedByID :: string

type_synonym TestCaseStatus = string
type_synonym TestCaseCategory = string

record TaskTestCase =
  tc_ID :: uuid
  tc_TaskID :: uuid
  tc_CriterionID :: "uuid option"
  tc_Title :: string
  tc_Category :: TestCaseCategory
  tc_Status :: TestCaseStatus
  tc_Expected :: string
  tc_Actual :: string
  tc_Evidence :: string
  tc_Notes :: string
  tc_Position :: int
  tc_CreatedAt :: time
  tc_UpdatedAt :: time
  tc_ScoredAt :: "time option"

section \<open>Tasks and requests\<close>

record BoardTask =
  bt_ID :: uuid
  bt_RepositoryID :: uuid
  bt_Key :: string
  bt_TaskNumber :: int
  bt_Title :: string
  bt_TaskType :: TaskType
  bt_Description :: string
  bt_TechnicalDescription :: string
  bt_InitiativeProjectID :: "uuid option"
  bt_ComponentID :: "uuid option"
  bt_Column :: TaskColumn
  bt_Position :: int
  bt_Priority :: TaskPriority
  bt_CreatedBy :: string
  bt_AssigneeAgentID :: "uuid option"
  bt_CreatedAt :: time
  bt_UpdatedAt :: time
  bt_AcceptanceCriteria :: "AcceptanceCriterion list"
  bt_TestCases :: "TaskTestCase list"
  bt_Relations :: "TaskRelation list"
  bt_BlockedBy :: "TaskRelation list"
  bt_Documents :: "TaskDocument list"
  bt_Attachments :: "uuid list"
  bt_LatestPipelineStatus :: string
  bt_LatestPipelineGateReason :: string
  bt_BlockedQuestion :: string
  bt_BlockedSessionID :: "uuid option"
  bt_BlockedAt :: "time option"
  bt_ClarificationSessionID :: "uuid option"
  bt_BlockedOriginColumn :: TaskColumn
  bt_BlockedResource :: string
  bt_BlockedResumeAt :: "time option"
  bt_HasMigration :: bool
  bt_StageVerifiedAt :: "time option"
  bt_VerifiedSHA :: string
  bt_ColumnEnteredAt :: "time option"
  bt_AgentRunning :: bool
  bt_BeforeDeploy :: "string option"
  bt_AfterDeploy :: "string option"
  bt_RollbackPlan :: "string option"
  bt_BeforeDeployConfirmedAt :: "time option"
  bt_PRURL :: string
  bt_PRNumber :: int
  bt_MergeCommitSHA :: string

text \<open>The zero value of the struct, which Go returns beside an error and starts literals from.\<close>

definition zero_BoardTask :: BoardTask where
  "zero_BoardTask =
     \<lparr>bt_ID = 0, bt_RepositoryID = 0, bt_Key = '''', bt_TaskNumber = 0, bt_Title = '''',
      bt_TaskType = '''', bt_Description = '''', bt_TechnicalDescription = '''',
      bt_InitiativeProjectID = None, bt_ComponentID = None, bt_Column = '''', bt_Position = 0,
      bt_Priority = '''', bt_CreatedBy = '''', bt_AssigneeAgentID = None, bt_CreatedAt = 0,
      bt_UpdatedAt = 0, bt_AcceptanceCriteria = [], bt_TestCases = [], bt_Relations = [],
      bt_BlockedBy = [], bt_Documents = [], bt_Attachments = [],
      bt_LatestPipelineStatus = '''', bt_LatestPipelineGateReason = '''',
      bt_BlockedQuestion = '''', bt_BlockedSessionID = None, bt_BlockedAt = None,
      bt_ClarificationSessionID = None, bt_BlockedOriginColumn = '''', bt_BlockedResource = '''',
      bt_BlockedResumeAt = None, bt_HasMigration = False, bt_StageVerifiedAt = None,
      bt_VerifiedSHA = '''', bt_ColumnEnteredAt = None, bt_AgentRunning = False,
      bt_BeforeDeploy = None, bt_AfterDeploy = None, bt_RollbackPlan = None,
      bt_BeforeDeployConfirmedAt = None, bt_PRURL = '''', bt_PRNumber = 0,
      bt_MergeCommitSHA = ''''\<rparr>"

datatype TaskActor = TaskActorSystem | TaskActorAgent | TaskActorHuman

text \<open>
  \<open>domain.Nullable\<close>: a field that was not mentioned, was cleared, or carries a value.
\<close>

record 'a Nullable =
  nul_Present :: bool
  nul_Value :: "'a option"

definition SetNullable :: "'a \<Rightarrow> 'a Nullable" where
  "SetNullable v = \<lparr>nul_Present = True, nul_Value = Some v\<rparr>"

definition ClearNullable :: "'a Nullable" where
  "ClearNullable = \<lparr>nul_Present = True, nul_Value = None\<rparr>"

definition OmittedNullable :: "'a Nullable" where
  "OmittedNullable = \<lparr>nul_Present = False, nul_Value = None\<rparr>"

record CreateBoardTaskRequest =
  creq_Title :: string
  creq_TaskType :: TaskType
  creq_Description :: string
  creq_TechnicalDescription :: string
  creq_InitiativeProjectID :: "uuid option"
  creq_ComponentID :: "uuid option"
  creq_Column :: TaskColumn
  creq_Priority :: TaskPriority
  creq_CreatedBy :: string
  creq_AssigneeAgentID :: "uuid option"
  creq_AcceptanceCriteria :: "AcceptanceCriterionInput list"
  creq_Relations :: "TaskRelationInput list"
  creq_BlockedBy :: "TaskRelationInput list"
  creq_Documents :: "CreateTaskDocumentRequest list"
  creq_BeforeDeploy :: "string option"
  creq_AfterDeploy :: "string option"
  creq_RollbackPlan :: "string option"

record UpdateBoardTaskRequest =
  req_Title :: "string option"
  req_TaskType :: "TaskType option"
  req_Description :: "string option"
  req_TechnicalDescription :: "string option"
  req_InitiativeProjectID :: "uuid option"
  req_ComponentID :: "uuid Nullable"
  req_Column :: "TaskColumn option"
  req_Position :: "int option"
  req_Priority :: "TaskPriority option"
  req_AssigneeAgentID :: "uuid Nullable"
  req_BeforeDeploy :: "string option"
  req_AfterDeploy :: "string option"
  req_RollbackPlan :: "string option"
  req_DeployDependsOn :: "TaskRelationInput list option"
  req_BlockedBy :: "TaskRelationInput list"
  req_Actor :: TaskActor
  req_ActorAgentID :: "uuid option"
  req_SystemReason :: string

definition empty_UpdateBoardTaskRequest :: UpdateBoardTaskRequest where
  "empty_UpdateBoardTaskRequest =
     \<lparr>req_Title = None, req_TaskType = None, req_Description = None,
      req_TechnicalDescription = None, req_InitiativeProjectID = None,
      req_ComponentID = OmittedNullable, req_Column = None, req_Position = None,
      req_Priority = None, req_AssigneeAgentID = OmittedNullable, req_BeforeDeploy = None,
      req_AfterDeploy = None, req_RollbackPlan = None, req_DeployDependsOn = None,
      req_BlockedBy = [], req_Actor = TaskActorSystem, req_ActorAgentID = None,
      req_SystemReason = ''''\<rparr>"

definition taskLabel :: "BoardTask \<Rightarrow> string" where
  "taskLabel task = (if TrimSpace (bt_Key task) \<noteq> '''' then bt_Key task else uuid_String (bt_ID task))"

end
