(* ===== verification/Behaviours.thy ===== *)
theory Behaviours
  imports Tasks
begin

text \<open>
  The behaviours a workflow stage or a task type can carry:
  \<open>server/internal/domain/workflow_behaviour.go\<close> and the stage kinds of
  \<open>domain/workflow.go\<close>. Keys, kinds and modes are strings, as they come from the client and
  may be unknown; \<open>BehaviourRegistry\<close> is the association list of the source's map literal.
\<close>

section \<open>Kinds and modes\<close>

type_synonym StageKind = string
type_synonym AssigneeMode = string
type_synonym ParticipantMode = string
type_synonym BehaviourKey = string

definition StageKindIntake :: StageKind where [col_defs]: "StageKindIntake = ''intake''"
definition StageKindQueue :: StageKind where [col_defs]: "StageKindQueue = ''queue''"
definition StageKindWork :: StageKind where [col_defs]: "StageKindWork = ''work''"
definition StageKindReview :: StageKind where [col_defs]: "StageKindReview = ''review''"
definition StageKindApproval :: StageKind where [col_defs]: "StageKindApproval = ''approval''"
definition StageKindRework :: StageKind where [col_defs]: "StageKindRework = ''rework''"
definition StageKindParked :: StageKind where [col_defs]: "StageKindParked = ''parked''"
definition StageKindTerminal :: StageKind where [col_defs]: "StageKindTerminal = ''terminal''"

definition ValidStageKind :: "StageKind \<Rightarrow> bool" where
  "ValidStageKind k \<longleftrightarrow>
     k \<in> set [StageKindIntake, StageKindQueue, StageKindWork,
       StageKindReview, StageKindApproval, StageKindRework,
       StageKindParked, StageKindTerminal]"

definition AssigneeModeNone :: AssigneeMode where [col_defs]: "AssigneeModeNone = ''none''"
definition AssigneeModeDefault :: AssigneeMode where [col_defs]: "AssigneeModeDefault = ''default''"
definition AssigneeModeOverride :: AssigneeMode where [col_defs]: "AssigneeModeOverride = ''override''"

definition ValidAssigneeMode :: "AssigneeMode \<Rightarrow> bool" where
  "ValidAssigneeMode m \<longleftrightarrow>
     m \<in> set [AssigneeModeNone, AssigneeModeDefault, AssigneeModeOverride]"

definition ParticipantModeWorker :: ParticipantMode where [col_defs]: "ParticipantModeWorker = ''worker''"
definition ParticipantModeApprover :: ParticipantMode where [col_defs]: "ParticipantModeApprover = ''approver''"

definition ValidParticipantMode :: "ParticipantMode \<Rightarrow> bool" where
  "ValidParticipantMode m \<longleftrightarrow> m \<in> set [ParticipantModeWorker, ParticipantModeApprover]"

section \<open>Behaviour keys\<close>

definition BehaviourDispatchSuspended :: BehaviourKey where
  [col_defs]: "BehaviourDispatchSuspended = ''dispatch_suspended''"
definition BehaviourRouteToSubscribers :: BehaviourKey where
  [col_defs]: "BehaviourRouteToSubscribers = ''route_to_subscribers''"
definition BehaviourMergePROnEnter :: BehaviourKey where
  [col_defs]: "BehaviourMergePROnEnter = ''merge_pr_on_enter''"
definition BehaviourWatchDeployOnResume :: BehaviourKey where
  [col_defs]: "BehaviourWatchDeployOnResume = ''watch_deploy_on_resume''"
definition BehaviourBlockOnDependencies :: BehaviourKey where
  [col_defs]: "BehaviourBlockOnDependencies = ''block_on_dependencies''"
definition BehaviourWaitForCI :: BehaviourKey where
  [col_defs]: "BehaviourWaitForCI = ''wait_for_ci''"
definition BehaviourEnsurePROnEnter :: BehaviourKey where
  [col_defs]: "BehaviourEnsurePROnEnter = ''ensure_pr_on_enter''"
definition BehaviourDetectMigrationOnEnter :: BehaviourKey where
  [col_defs]: "BehaviourDetectMigrationOnEnter = ''detect_migration_on_enter''"
definition BehaviourStageDeployOnEnter :: BehaviourKey where
  [col_defs]: "BehaviourStageDeployOnEnter = ''stage_deploy_on_enter''"
definition BehaviourStoreTestBuildOnEnter :: BehaviourKey where
  [col_defs]: "BehaviourStoreTestBuildOnEnter = ''store_test_build_on_enter''"
definition BehaviourApproveDesignSystem :: BehaviourKey where
  [col_defs]: "BehaviourApproveDesignSystem = ''approve_design_system_on_enter''"
definition BehaviourAutoEnter :: BehaviourKey where
  [col_defs]: "BehaviourAutoEnter = ''auto_enter''"
definition BehaviourAdvanceOnDiff :: BehaviourKey where
  [col_defs]: "BehaviourAdvanceOnDiff = ''advance_on_diff''"
definition BehaviourAdvanceOnDocument :: BehaviourKey where
  [col_defs]: "BehaviourAdvanceOnDocument = ''advance_on_document''"
definition BehaviourBuildVerify :: BehaviourKey where
  [col_defs]: "BehaviourBuildVerify = ''build_verify''"
definition BehaviourCommitOnFinish :: BehaviourKey where
  [col_defs]: "BehaviourCommitOnFinish = ''commit_on_finish''"
definition BehaviourRequirePRForReview :: BehaviourKey where
  [col_defs]: "BehaviourRequirePRForReview = ''require_pr_for_review''"
definition BehaviourRequireCriteriaComplete :: BehaviourKey where
  [col_defs]: "BehaviourRequireCriteriaComplete = ''require_criteria_complete''"
definition BehaviourCriterionVerdict :: BehaviourKey where
  [col_defs]: "BehaviourCriterionVerdict = ''criterion_verdict''"
definition BehaviourForwardExit :: BehaviourKey where
  [col_defs]: "BehaviourForwardExit = ''forward_exit''"
definition BehaviourRequireTestCases :: BehaviourKey where
  [col_defs]: "BehaviourRequireTestCases = ''require_test_cases''"
definition BehaviourReviewVerdictSweep :: BehaviourKey where
  [col_defs]: "BehaviourReviewVerdictSweep = ''review_verdict_sweep''"
definition BehaviourRequireExecutionEvidence :: BehaviourKey where
  [col_defs]: "BehaviourRequireExecutionEvidence = ''require_execution_evidence''"
definition BehaviourRequireProductCheck :: BehaviourKey where
  [col_defs]: "BehaviourRequireProductCheck = ''require_product_check''"
definition BehaviourReviewChainStage :: BehaviourKey where
  [col_defs]: "BehaviourReviewChainStage = ''review_chain_stage''"
definition BehaviourStripWriters :: BehaviourKey where
  [col_defs]: "BehaviourStripWriters = ''strip_writers''"
definition BehaviourNoCodeReading :: BehaviourKey where
  [col_defs]: "BehaviourNoCodeReading = ''no_code_reading''"
definition BehaviourNoWorkspaceWrites :: BehaviourKey where
  [col_defs]: "BehaviourNoWorkspaceWrites = ''no_workspace_writes''"
definition BehaviourRequireRepoGrounding :: BehaviourKey where
  [col_defs]: "BehaviourRequireRepoGrounding = ''require_repo_grounding''"

section \<open>The registry\<close>

datatype BehaviourScope = BehaviourScopeStage | BehaviourScopeType

datatype BehaviourGroup = BehaviourGroupEntry | BehaviourGroupExit | BehaviourGroupOther

datatype ParamType = ParamTypeColumn | ParamTypeString | ParamTypeEnum | ParamTypeBool

record ParamSpec =
  ps_Name :: string
  ps_Type :: ParamType
  ps_Options :: "string list"
  ps_Required :: bool

definition param_spec :: "string \<Rightarrow> ParamType \<Rightarrow> string list \<Rightarrow> bool \<Rightarrow> ParamSpec" where
  "param_spec n t opts req =
     \<lparr>ps_Name = n, ps_Type = t, ps_Options = opts, ps_Required = req\<rparr>"

record BehaviourSpec =
  bs_Scope :: BehaviourScope
  bs_Group :: BehaviourGroup
  bs_Kinds :: "StageKind list"
  bs_Label :: string
  bs_Description :: string
  bs_Params :: "ParamSpec list"

definition AppliesToKind :: "BehaviourSpec \<Rightarrow> StageKind \<Rightarrow> bool" where
  "AppliesToKind s kind =
     (if length (bs_Kinds s) = 0 then True else list_ex (\<lambda>k. k = kind) (bs_Kinds s))"

definition BehaviourRegistry :: "(BehaviourKey \<times> BehaviourSpec) list" where
  "BehaviourRegistry =
     [
      (BehaviourDispatchSuspended,
       \<lparr>bs_Scope = BehaviourScopeStage, bs_Group = BehaviourGroupEntry,
        bs_Kinds = [StageKindTerminal],
        bs_Label = ''Dispatch suspended'',
        bs_Description = ''The dispatcher never starts a run for a task sitting in this stage.'',
        bs_Params = []\<rparr>),
      (BehaviourRouteToSubscribers,
       \<lparr>bs_Scope = BehaviourScopeStage, bs_Group = BehaviourGroupEntry,
        bs_Kinds = [StageKindQueue, StageKindReview, StageKindApproval],
        bs_Label = ''Route to subscribers'',
        bs_Description = ''A task entering this stage wakes every agent subscribed to the column instead of only its assignee.'',
        bs_Params = []\<rparr>),
      (BehaviourMergePROnEnter,
       \<lparr>bs_Scope = BehaviourScopeStage, bs_Group = BehaviourGroupEntry,
        bs_Kinds = [StageKindTerminal],
        bs_Label = ''Merge PR on enter'',
        bs_Description = ''Entering this stage wakes the merge flow for the task's pull request.'',
        bs_Params = []\<rparr>),
      (BehaviourWatchDeployOnResume,
       \<lparr>bs_Scope = BehaviourScopeStage, bs_Group = BehaviourGroupEntry,
        bs_Kinds = [StageKindTerminal],
        bs_Label = ''Watch deploy on resume'',
        bs_Description = ''A task resuming into this stage is watched for its production deploy.'',
        bs_Params = []\<rparr>),
      (BehaviourBlockOnDependencies,
       \<lparr>bs_Scope = BehaviourScopeStage, bs_Group = BehaviourGroupEntry,
        bs_Kinds = [StageKindQueue, StageKindWork],
        bs_Label = ''Block on dependencies'',
        bs_Description = ''The task parks here while an unfinished blocker (`blocks`) exists.'',
        bs_Params = [param_spec ''refuse_move'' ParamTypeBool [] False]\<rparr>),
      (BehaviourWaitForCI,
       \<lparr>bs_Scope = BehaviourScopeStage, bs_Group = BehaviourGroupEntry,
        bs_Kinds = [StageKindQueue, StageKindReview],
        bs_Label = ''Wait for CI'',
        bs_Description = ''Dispatch into this stage waits for the pipeline gate to open.'',
        bs_Params = []\<rparr>),
      (BehaviourEnsurePROnEnter,
       \<lparr>bs_Scope = BehaviourScopeStage, bs_Group = BehaviourGroupEntry,
        bs_Kinds = [StageKindReview, StageKindTerminal],
        bs_Label = ''Ensure PR on enter'',
        bs_Description = ''Entering this stage opens the task's pull request if it does not exist yet.'',
        bs_Params = []\<rparr>),
      (BehaviourDetectMigrationOnEnter,
       \<lparr>bs_Scope = BehaviourScopeStage, bs_Group = BehaviourGroupEntry,
        bs_Kinds = [StageKindQueue, StageKindReview],
        bs_Label = ''Detect migration on enter'',
        bs_Description = ''Entering this stage checks the branch diff for a schema migration.'',
        bs_Params = []\<rparr>),
      (BehaviourStageDeployOnEnter,
       \<lparr>bs_Scope = BehaviourScopeStage, bs_Group = BehaviourGroupEntry,
        bs_Kinds = [StageKindQueue, StageKindReview],
        bs_Label = ''Stage deploy on enter'',
        bs_Description = ''Entering this stage triggers a stage deploy, per the repository's test strategy.'',
        bs_Params = [param_spec ''when'' ParamTypeEnum [''qa'', ''per_step''] True]\<rparr>),
      (BehaviourStoreTestBuildOnEnter,
       \<lparr>bs_Scope = BehaviourScopeStage, bs_Group = BehaviourGroupEntry,
        bs_Kinds = [StageKindQueue, StageKindReview, StageKindApproval],
        bs_Label = ''Store test build on enter'',
        bs_Description = ''Entering this stage builds the task for each linked store app and uploads it to TestFlight / Play internal app sharing.'',
        bs_Params = []\<rparr>),
      (BehaviourApproveDesignSystem,
       \<lparr>bs_Scope = BehaviourScopeStage, bs_Group = BehaviourGroupEntry,
        bs_Kinds = [StageKindTerminal],
        bs_Label = ''Approve design system on enter'',
        bs_Description = ''Entering this stage approves every design system version the task proposed and supersedes the one each replaces.'',
        bs_Params = []\<rparr>),
      (BehaviourAutoEnter,
       \<lparr>bs_Scope = BehaviourScopeStage, bs_Group = BehaviourGroupExit,
        bs_Kinds = [StageKindQueue, StageKindRework],
        bs_Label = ''Auto-enter'',
        bs_Description = ''The dispatcher moves the task straight into the named column on assignment/wake.'',
        bs_Params = [param_spec ''to'' ParamTypeColumn [] True,
          param_spec ''assignee_only'' ParamTypeBool [] False]\<rparr>),
      (BehaviourAdvanceOnDiff,
       \<lparr>bs_Scope = BehaviourScopeStage, bs_Group = BehaviourGroupExit,
        bs_Kinds = [StageKindWork, StageKindRework],
        bs_Label = ''Advance on diff'',
        bs_Description = ''A run that ends with a green build and a real diff is moved to the named column automatically.'',
        bs_Params = [param_spec ''to'' ParamTypeColumn [] True]\<rparr>),
      (BehaviourAdvanceOnDocument,
       \<lparr>bs_Scope = BehaviourScopeStage, bs_Group = BehaviourGroupExit,
        bs_Kinds = [StageKindWork, StageKindRework],
        bs_Label = ''Advance on document'',
        bs_Description = ''A run that ends with a document attached is moved to the named column automatically.'',
        bs_Params = [param_spec ''to'' ParamTypeColumn [] True]\<rparr>),
      (BehaviourBuildVerify,
       \<lparr>bs_Scope = BehaviourScopeStage, bs_Group = BehaviourGroupExit,
        bs_Kinds = [],
        bs_Label = ''Build verify'',
        bs_Description = ''A run in this stage runs the build-gate fix round before finishing.'',
        bs_Params = []\<rparr>),
      (BehaviourCommitOnFinish,
       \<lparr>bs_Scope = BehaviourScopeStage, bs_Group = BehaviourGroupExit,
        bs_Kinds = [],
        bs_Label = ''Commit on finish'',
        bs_Description = ''A run in this stage commits its diff on the way out.'',
        bs_Params = []\<rparr>),
      (BehaviourRequirePRForReview,
       \<lparr>bs_Scope = BehaviourScopeStage, bs_Group = BehaviourGroupExit,
        bs_Kinds = [StageKindReview],
        bs_Label = ''Require PR for review'',
        bs_Description = ''A run here refuses without an open pull request to review.'',
        bs_Params = []\<rparr>),
      (BehaviourRequireCriteriaComplete,
       \<lparr>bs_Scope = BehaviourScopeStage, bs_Group = BehaviourGroupEntry,
        bs_Kinds = [StageKindQueue, StageKindReview, StageKindTerminal],
        bs_Label = ''Require criteria complete'',
        bs_Description = ''Entering this stage is refused while an acceptance criterion is still open.'',
        bs_Params = []\<rparr>),
      (BehaviourCriterionVerdict,
       \<lparr>bs_Scope = BehaviourScopeStage, bs_Group = BehaviourGroupOther,
        bs_Kinds = [StageKindQueue, StageKindReview],
        bs_Label = ''Criterion verdict'',
        bs_Description = ''A verdict recorded in this stage is attributed to the named review channel.'',
        bs_Params = [param_spec ''channel'' ParamTypeEnum [''qa'', ''pm''] True]\<rparr>),
      (BehaviourForwardExit,
       \<lparr>bs_Scope = BehaviourScopeStage, bs_Group = BehaviourGroupExit,
        bs_Kinds = [StageKindReview, StageKindApproval, StageKindTerminal],
        bs_Label = ''Forward exit'',
        bs_Description = ''A move out of this stage counts as a forward review exit for scoring.'',
        bs_Params = []\<rparr>),
      (BehaviourRequireTestCases,
       \<lparr>bs_Scope = BehaviourScopeStage, bs_Group = BehaviourGroupExit,
        bs_Kinds = [StageKindQueue, StageKindReview],
        bs_Label = ''Require test cases'',
        bs_Description = ''This stage requires the task's generated test cases to be scored.'',
        bs_Params = []\<rparr>),
      (BehaviourReviewVerdictSweep,
       \<lparr>bs_Scope = BehaviourScopeStage, bs_Group = BehaviourGroupExit,
        bs_Kinds = [StageKindQueue, StageKindReview, StageKindApproval],
        bs_Label = ''Review verdict sweep'',
        bs_Description = ''A finished review round in this stage is swept to a verdict and passed on.'',
        bs_Params = [param_spec ''pass_to'' ParamTypeColumn [] True]\<rparr>),
      (BehaviourRequireExecutionEvidence,
       \<lparr>bs_Scope = BehaviourScopeStage, bs_Group = BehaviourGroupExit,
        bs_Kinds = [StageKindQueue, StageKindReview],
        bs_Label = ''Require execution evidence'',
        bs_Description = ''A QA round in this stage is rejected as ungrounded without evidence the product was actually run.'',
        bs_Params = []\<rparr>),
      (BehaviourRequireProductCheck,
       \<lparr>bs_Scope = BehaviourScopeStage, bs_Group = BehaviourGroupExit,
        bs_Kinds = [StageKindReview, StageKindApproval],
        bs_Label = ''Require product check'',
        bs_Description = ''A UAT round in this stage is rejected without evidence the product was checked.'',
        bs_Params = []\<rparr>),
      (BehaviourReviewChainStage,
       \<lparr>bs_Scope = BehaviourScopeStage, bs_Group = BehaviourGroupExit,
        bs_Kinds = [StageKindReview, StageKindApproval],
        bs_Label = ''Review chain stage'',
        bs_Description = ''This stage is a mandatory step of the type's review chain, required before done/released.'',
        bs_Params = [param_spec ''label'' ParamTypeString [] True,
          param_spec ''remedy'' ParamTypeString [] True]\<rparr>),
      (BehaviourStripWriters,
       \<lparr>bs_Scope = BehaviourScopeStage, bs_Group = BehaviourGroupOther,
        bs_Kinds = [StageKindQueue, StageKindReview, StageKindApproval, StageKindTerminal],
        bs_Label = ''Strip writers'',
        bs_Description = ''Write/verdict tools are stripped from the policy in this stage, except any named in allow.'',
        bs_Params = [param_spec ''allow'' ParamTypeString [] False]\<rparr>),
      (BehaviourNoCodeReading,
       \<lparr>bs_Scope = BehaviourScopeStage, bs_Group = BehaviourGroupOther,
        bs_Kinds = [StageKindReview, StageKindApproval],
        bs_Label = ''No code reading'',
        bs_Description = ''Code-reading tools are stripped from the policy in this stage.'',
        bs_Params = []\<rparr>),
      (BehaviourNoWorkspaceWrites,
       \<lparr>bs_Scope = BehaviourScopeType, bs_Group = BehaviourGroupOther,
        bs_Kinds = [],
        bs_Label = ''No workspace writes'',
        bs_Description = ''Runs on this task type never get workspace write tools.'',
        bs_Params = []\<rparr>),
      (BehaviourRequireRepoGrounding,
       \<lparr>bs_Scope = BehaviourScopeType, bs_Group = BehaviourGroupOther,
        bs_Kinds = [],
        bs_Label = ''Require repo grounding'',
        bs_Description = ''A run on this task type is rejected as ungrounded without evidence the repository was actually read.'',
        bs_Params = []\<rparr>)
     ]"

definition registry_lookup :: "BehaviourKey \<Rightarrow> BehaviourSpec option" where
  "registry_lookup key = map_of BehaviourRegistry key"

text \<open>What the registry holds under each key.\<close>

lemma registry_keys_distinct: "distinct (map fst BehaviourRegistry)"
  by code_simp

lemma registry_lookups:
  "registry_lookup BehaviourDispatchSuspended = Some \<lparr>bs_Scope = BehaviourScopeStage, bs_Group = BehaviourGroupEntry,
        bs_Kinds = [StageKindTerminal],
        bs_Label = ''Dispatch suspended'',
        bs_Description = ''The dispatcher never starts a run for a task sitting in this stage.'',
        bs_Params = []\<rparr>"
  "registry_lookup BehaviourRouteToSubscribers = Some \<lparr>bs_Scope = BehaviourScopeStage, bs_Group = BehaviourGroupEntry,
        bs_Kinds = [StageKindQueue, StageKindReview, StageKindApproval],
        bs_Label = ''Route to subscribers'',
        bs_Description = ''A task entering this stage wakes every agent subscribed to the column instead of only its assignee.'',
        bs_Params = []\<rparr>"
  "registry_lookup BehaviourMergePROnEnter = Some \<lparr>bs_Scope = BehaviourScopeStage, bs_Group = BehaviourGroupEntry,
        bs_Kinds = [StageKindTerminal],
        bs_Label = ''Merge PR on enter'',
        bs_Description = ''Entering this stage wakes the merge flow for the task's pull request.'',
        bs_Params = []\<rparr>"
  "registry_lookup BehaviourWatchDeployOnResume = Some \<lparr>bs_Scope = BehaviourScopeStage, bs_Group = BehaviourGroupEntry,
        bs_Kinds = [StageKindTerminal],
        bs_Label = ''Watch deploy on resume'',
        bs_Description = ''A task resuming into this stage is watched for its production deploy.'',
        bs_Params = []\<rparr>"
  "registry_lookup BehaviourBlockOnDependencies = Some \<lparr>bs_Scope = BehaviourScopeStage, bs_Group = BehaviourGroupEntry,
        bs_Kinds = [StageKindQueue, StageKindWork],
        bs_Label = ''Block on dependencies'',
        bs_Description = ''The task parks here while an unfinished blocker (`blocks`) exists.'',
        bs_Params = [param_spec ''refuse_move'' ParamTypeBool [] False]\<rparr>"
  "registry_lookup BehaviourWaitForCI = Some \<lparr>bs_Scope = BehaviourScopeStage, bs_Group = BehaviourGroupEntry,
        bs_Kinds = [StageKindQueue, StageKindReview],
        bs_Label = ''Wait for CI'',
        bs_Description = ''Dispatch into this stage waits for the pipeline gate to open.'',
        bs_Params = []\<rparr>"
  "registry_lookup BehaviourEnsurePROnEnter = Some \<lparr>bs_Scope = BehaviourScopeStage, bs_Group = BehaviourGroupEntry,
        bs_Kinds = [StageKindReview, StageKindTerminal],
        bs_Label = ''Ensure PR on enter'',
        bs_Description = ''Entering this stage opens the task's pull request if it does not exist yet.'',
        bs_Params = []\<rparr>"
  "registry_lookup BehaviourDetectMigrationOnEnter = Some \<lparr>bs_Scope = BehaviourScopeStage, bs_Group = BehaviourGroupEntry,
        bs_Kinds = [StageKindQueue, StageKindReview],
        bs_Label = ''Detect migration on enter'',
        bs_Description = ''Entering this stage checks the branch diff for a schema migration.'',
        bs_Params = []\<rparr>"
  "registry_lookup BehaviourStageDeployOnEnter = Some \<lparr>bs_Scope = BehaviourScopeStage, bs_Group = BehaviourGroupEntry,
        bs_Kinds = [StageKindQueue, StageKindReview],
        bs_Label = ''Stage deploy on enter'',
        bs_Description = ''Entering this stage triggers a stage deploy, per the repository's test strategy.'',
        bs_Params = [param_spec ''when'' ParamTypeEnum [''qa'', ''per_step''] True]\<rparr>"
  "registry_lookup BehaviourStoreTestBuildOnEnter = Some \<lparr>bs_Scope = BehaviourScopeStage, bs_Group = BehaviourGroupEntry,
        bs_Kinds = [StageKindQueue, StageKindReview, StageKindApproval],
        bs_Label = ''Store test build on enter'',
        bs_Description = ''Entering this stage builds the task for each linked store app and uploads it to TestFlight / Play internal app sharing.'',
        bs_Params = []\<rparr>"
  "registry_lookup BehaviourApproveDesignSystem = Some \<lparr>bs_Scope = BehaviourScopeStage, bs_Group = BehaviourGroupEntry,
        bs_Kinds = [StageKindTerminal],
        bs_Label = ''Approve design system on enter'',
        bs_Description = ''Entering this stage approves every design system version the task proposed and supersedes the one each replaces.'',
        bs_Params = []\<rparr>"
  "registry_lookup BehaviourAutoEnter = Some \<lparr>bs_Scope = BehaviourScopeStage, bs_Group = BehaviourGroupExit,
        bs_Kinds = [StageKindQueue, StageKindRework],
        bs_Label = ''Auto-enter'',
        bs_Description = ''The dispatcher moves the task straight into the named column on assignment/wake.'',
        bs_Params = [param_spec ''to'' ParamTypeColumn [] True,
          param_spec ''assignee_only'' ParamTypeBool [] False]\<rparr>"
  "registry_lookup BehaviourAdvanceOnDiff = Some \<lparr>bs_Scope = BehaviourScopeStage, bs_Group = BehaviourGroupExit,
        bs_Kinds = [StageKindWork, StageKindRework],
        bs_Label = ''Advance on diff'',
        bs_Description = ''A run that ends with a green build and a real diff is moved to the named column automatically.'',
        bs_Params = [param_spec ''to'' ParamTypeColumn [] True]\<rparr>"
  "registry_lookup BehaviourAdvanceOnDocument = Some \<lparr>bs_Scope = BehaviourScopeStage, bs_Group = BehaviourGroupExit,
        bs_Kinds = [StageKindWork, StageKindRework],
        bs_Label = ''Advance on document'',
        bs_Description = ''A run that ends with a document attached is moved to the named column automatically.'',
        bs_Params = [param_spec ''to'' ParamTypeColumn [] True]\<rparr>"
  "registry_lookup BehaviourBuildVerify = Some \<lparr>bs_Scope = BehaviourScopeStage, bs_Group = BehaviourGroupExit,
        bs_Kinds = [],
        bs_Label = ''Build verify'',
        bs_Description = ''A run in this stage runs the build-gate fix round before finishing.'',
        bs_Params = []\<rparr>"
  "registry_lookup BehaviourCommitOnFinish = Some \<lparr>bs_Scope = BehaviourScopeStage, bs_Group = BehaviourGroupExit,
        bs_Kinds = [],
        bs_Label = ''Commit on finish'',
        bs_Description = ''A run in this stage commits its diff on the way out.'',
        bs_Params = []\<rparr>"
  "registry_lookup BehaviourRequirePRForReview = Some \<lparr>bs_Scope = BehaviourScopeStage, bs_Group = BehaviourGroupExit,
        bs_Kinds = [StageKindReview],
        bs_Label = ''Require PR for review'',
        bs_Description = ''A run here refuses without an open pull request to review.'',
        bs_Params = []\<rparr>"
  "registry_lookup BehaviourRequireCriteriaComplete = Some \<lparr>bs_Scope = BehaviourScopeStage, bs_Group = BehaviourGroupEntry,
        bs_Kinds = [StageKindQueue, StageKindReview, StageKindTerminal],
        bs_Label = ''Require criteria complete'',
        bs_Description = ''Entering this stage is refused while an acceptance criterion is still open.'',
        bs_Params = []\<rparr>"
  "registry_lookup BehaviourCriterionVerdict = Some \<lparr>bs_Scope = BehaviourScopeStage, bs_Group = BehaviourGroupOther,
        bs_Kinds = [StageKindQueue, StageKindReview],
        bs_Label = ''Criterion verdict'',
        bs_Description = ''A verdict recorded in this stage is attributed to the named review channel.'',
        bs_Params = [param_spec ''channel'' ParamTypeEnum [''qa'', ''pm''] True]\<rparr>"
  "registry_lookup BehaviourForwardExit = Some \<lparr>bs_Scope = BehaviourScopeStage, bs_Group = BehaviourGroupExit,
        bs_Kinds = [StageKindReview, StageKindApproval, StageKindTerminal],
        bs_Label = ''Forward exit'',
        bs_Description = ''A move out of this stage counts as a forward review exit for scoring.'',
        bs_Params = []\<rparr>"
  "registry_lookup BehaviourRequireTestCases = Some \<lparr>bs_Scope = BehaviourScopeStage, bs_Group = BehaviourGroupExit,
        bs_Kinds = [StageKindQueue, StageKindReview],
        bs_Label = ''Require test cases'',
        bs_Description = ''This stage requires the task's generated test cases to be scored.'',
        bs_Params = []\<rparr>"
  "registry_lookup BehaviourReviewVerdictSweep = Some \<lparr>bs_Scope = BehaviourScopeStage, bs_Group = BehaviourGroupExit,
        bs_Kinds = [StageKindQueue, StageKindReview, StageKindApproval],
        bs_Label = ''Review verdict sweep'',
        bs_Description = ''A finished review round in this stage is swept to a verdict and passed on.'',
        bs_Params = [param_spec ''pass_to'' ParamTypeColumn [] True]\<rparr>"
  "registry_lookup BehaviourRequireExecutionEvidence = Some \<lparr>bs_Scope = BehaviourScopeStage, bs_Group = BehaviourGroupExit,
        bs_Kinds = [StageKindQueue, StageKindReview],
        bs_Label = ''Require execution evidence'',
        bs_Description = ''A QA round in this stage is rejected as ungrounded without evidence the product was actually run.'',
        bs_Params = []\<rparr>"
  "registry_lookup BehaviourRequireProductCheck = Some \<lparr>bs_Scope = BehaviourScopeStage, bs_Group = BehaviourGroupExit,
        bs_Kinds = [StageKindReview, StageKindApproval],
        bs_Label = ''Require product check'',
        bs_Description = ''A UAT round in this stage is rejected without evidence the product was checked.'',
        bs_Params = []\<rparr>"
  "registry_lookup BehaviourReviewChainStage = Some \<lparr>bs_Scope = BehaviourScopeStage, bs_Group = BehaviourGroupExit,
        bs_Kinds = [StageKindReview, StageKindApproval],
        bs_Label = ''Review chain stage'',
        bs_Description = ''This stage is a mandatory step of the type's review chain, required before done/released.'',
        bs_Params = [param_spec ''label'' ParamTypeString [] True,
          param_spec ''remedy'' ParamTypeString [] True]\<rparr>"
  "registry_lookup BehaviourStripWriters = Some \<lparr>bs_Scope = BehaviourScopeStage, bs_Group = BehaviourGroupOther,
        bs_Kinds = [StageKindQueue, StageKindReview, StageKindApproval, StageKindTerminal],
        bs_Label = ''Strip writers'',
        bs_Description = ''Write/verdict tools are stripped from the policy in this stage, except any named in allow.'',
        bs_Params = [param_spec ''allow'' ParamTypeString [] False]\<rparr>"
  "registry_lookup BehaviourNoCodeReading = Some \<lparr>bs_Scope = BehaviourScopeStage, bs_Group = BehaviourGroupOther,
        bs_Kinds = [StageKindReview, StageKindApproval],
        bs_Label = ''No code reading'',
        bs_Description = ''Code-reading tools are stripped from the policy in this stage.'',
        bs_Params = []\<rparr>"
  "registry_lookup BehaviourNoWorkspaceWrites = Some \<lparr>bs_Scope = BehaviourScopeType, bs_Group = BehaviourGroupOther,
        bs_Kinds = [],
        bs_Label = ''No workspace writes'',
        bs_Description = ''Runs on this task type never get workspace write tools.'',
        bs_Params = []\<rparr>"
  "registry_lookup BehaviourRequireRepoGrounding = Some \<lparr>bs_Scope = BehaviourScopeType, bs_Group = BehaviourGroupOther,
        bs_Kinds = [],
        bs_Label = ''Require repo grounding'',
        bs_Description = ''A run on this task type is rejected as ungrounded without evidence the repository was actually read.'',
        bs_Params = []\<rparr>"
  by (simp_all add: registry_lookup_def map_of_eq_Some_iff [OF registry_keys_distinct]) (simp_all add: BehaviourRegistry_def)

text \<open>The same without labels and descriptions.\<close>

lemma registry_facts:
  "registry_lookup BehaviourDispatchSuspended \<noteq> None"
  "bs_Scope (the (registry_lookup BehaviourDispatchSuspended)) = BehaviourScopeStage"
  "bs_Kinds (the (registry_lookup BehaviourDispatchSuspended)) = [StageKindTerminal]"
  "bs_Params (the (registry_lookup BehaviourDispatchSuspended)) = []"
  "registry_lookup BehaviourRouteToSubscribers \<noteq> None"
  "bs_Scope (the (registry_lookup BehaviourRouteToSubscribers)) = BehaviourScopeStage"
  "bs_Kinds (the (registry_lookup BehaviourRouteToSubscribers)) = [StageKindQueue, StageKindReview, StageKindApproval]"
  "bs_Params (the (registry_lookup BehaviourRouteToSubscribers)) = []"
  "registry_lookup BehaviourMergePROnEnter \<noteq> None"
  "bs_Scope (the (registry_lookup BehaviourMergePROnEnter)) = BehaviourScopeStage"
  "bs_Kinds (the (registry_lookup BehaviourMergePROnEnter)) = [StageKindTerminal]"
  "bs_Params (the (registry_lookup BehaviourMergePROnEnter)) = []"
  "registry_lookup BehaviourWatchDeployOnResume \<noteq> None"
  "bs_Scope (the (registry_lookup BehaviourWatchDeployOnResume)) = BehaviourScopeStage"
  "bs_Kinds (the (registry_lookup BehaviourWatchDeployOnResume)) = [StageKindTerminal]"
  "bs_Params (the (registry_lookup BehaviourWatchDeployOnResume)) = []"
  "registry_lookup BehaviourBlockOnDependencies \<noteq> None"
  "bs_Scope (the (registry_lookup BehaviourBlockOnDependencies)) = BehaviourScopeStage"
  "bs_Kinds (the (registry_lookup BehaviourBlockOnDependencies)) = [StageKindQueue, StageKindWork]"
  "bs_Params (the (registry_lookup BehaviourBlockOnDependencies)) = [param_spec ''refuse_move'' ParamTypeBool [] False]"
  "registry_lookup BehaviourWaitForCI \<noteq> None"
  "bs_Scope (the (registry_lookup BehaviourWaitForCI)) = BehaviourScopeStage"
  "bs_Kinds (the (registry_lookup BehaviourWaitForCI)) = [StageKindQueue, StageKindReview]"
  "bs_Params (the (registry_lookup BehaviourWaitForCI)) = []"
  "registry_lookup BehaviourEnsurePROnEnter \<noteq> None"
  "bs_Scope (the (registry_lookup BehaviourEnsurePROnEnter)) = BehaviourScopeStage"
  "bs_Kinds (the (registry_lookup BehaviourEnsurePROnEnter)) = [StageKindReview, StageKindTerminal]"
  "bs_Params (the (registry_lookup BehaviourEnsurePROnEnter)) = []"
  "registry_lookup BehaviourDetectMigrationOnEnter \<noteq> None"
  "bs_Scope (the (registry_lookup BehaviourDetectMigrationOnEnter)) = BehaviourScopeStage"
  "bs_Kinds (the (registry_lookup BehaviourDetectMigrationOnEnter)) = [StageKindQueue, StageKindReview]"
  "bs_Params (the (registry_lookup BehaviourDetectMigrationOnEnter)) = []"
  "registry_lookup BehaviourStageDeployOnEnter \<noteq> None"
  "bs_Scope (the (registry_lookup BehaviourStageDeployOnEnter)) = BehaviourScopeStage"
  "bs_Kinds (the (registry_lookup BehaviourStageDeployOnEnter)) = [StageKindQueue, StageKindReview]"
  "bs_Params (the (registry_lookup BehaviourStageDeployOnEnter)) = [param_spec ''when'' ParamTypeEnum [''qa'', ''per_step''] True]"
  "registry_lookup BehaviourStoreTestBuildOnEnter \<noteq> None"
  "bs_Scope (the (registry_lookup BehaviourStoreTestBuildOnEnter)) = BehaviourScopeStage"
  "bs_Kinds (the (registry_lookup BehaviourStoreTestBuildOnEnter)) = [StageKindQueue, StageKindReview, StageKindApproval]"
  "bs_Params (the (registry_lookup BehaviourStoreTestBuildOnEnter)) = []"
  "registry_lookup BehaviourApproveDesignSystem \<noteq> None"
  "bs_Scope (the (registry_lookup BehaviourApproveDesignSystem)) = BehaviourScopeStage"
  "bs_Kinds (the (registry_lookup BehaviourApproveDesignSystem)) = [StageKindTerminal]"
  "bs_Params (the (registry_lookup BehaviourApproveDesignSystem)) = []"
  "registry_lookup BehaviourAutoEnter \<noteq> None"
  "bs_Scope (the (registry_lookup BehaviourAutoEnter)) = BehaviourScopeStage"
  "bs_Kinds (the (registry_lookup BehaviourAutoEnter)) = [StageKindQueue, StageKindRework]"
  "bs_Params (the (registry_lookup BehaviourAutoEnter)) = [param_spec ''to'' ParamTypeColumn [] True, param_spec ''assignee_only'' ParamTypeBool [] False]"
  "registry_lookup BehaviourAdvanceOnDiff \<noteq> None"
  "bs_Scope (the (registry_lookup BehaviourAdvanceOnDiff)) = BehaviourScopeStage"
  "bs_Kinds (the (registry_lookup BehaviourAdvanceOnDiff)) = [StageKindWork, StageKindRework]"
  "bs_Params (the (registry_lookup BehaviourAdvanceOnDiff)) = [param_spec ''to'' ParamTypeColumn [] True]"
  "registry_lookup BehaviourAdvanceOnDocument \<noteq> None"
  "bs_Scope (the (registry_lookup BehaviourAdvanceOnDocument)) = BehaviourScopeStage"
  "bs_Kinds (the (registry_lookup BehaviourAdvanceOnDocument)) = [StageKindWork, StageKindRework]"
  "bs_Params (the (registry_lookup BehaviourAdvanceOnDocument)) = [param_spec ''to'' ParamTypeColumn [] True]"
  "registry_lookup BehaviourBuildVerify \<noteq> None"
  "bs_Scope (the (registry_lookup BehaviourBuildVerify)) = BehaviourScopeStage"
  "bs_Kinds (the (registry_lookup BehaviourBuildVerify)) = []"
  "bs_Params (the (registry_lookup BehaviourBuildVerify)) = []"
  "registry_lookup BehaviourCommitOnFinish \<noteq> None"
  "bs_Scope (the (registry_lookup BehaviourCommitOnFinish)) = BehaviourScopeStage"
  "bs_Kinds (the (registry_lookup BehaviourCommitOnFinish)) = []"
  "bs_Params (the (registry_lookup BehaviourCommitOnFinish)) = []"
  "registry_lookup BehaviourRequirePRForReview \<noteq> None"
  "bs_Scope (the (registry_lookup BehaviourRequirePRForReview)) = BehaviourScopeStage"
  "bs_Kinds (the (registry_lookup BehaviourRequirePRForReview)) = [StageKindReview]"
  "bs_Params (the (registry_lookup BehaviourRequirePRForReview)) = []"
  "registry_lookup BehaviourRequireCriteriaComplete \<noteq> None"
  "bs_Scope (the (registry_lookup BehaviourRequireCriteriaComplete)) = BehaviourScopeStage"
  "bs_Kinds (the (registry_lookup BehaviourRequireCriteriaComplete)) = [StageKindQueue, StageKindReview, StageKindTerminal]"
  "bs_Params (the (registry_lookup BehaviourRequireCriteriaComplete)) = []"
  "registry_lookup BehaviourCriterionVerdict \<noteq> None"
  "bs_Scope (the (registry_lookup BehaviourCriterionVerdict)) = BehaviourScopeStage"
  "bs_Kinds (the (registry_lookup BehaviourCriterionVerdict)) = [StageKindQueue, StageKindReview]"
  "bs_Params (the (registry_lookup BehaviourCriterionVerdict)) = [param_spec ''channel'' ParamTypeEnum [''qa'', ''pm''] True]"
  "registry_lookup BehaviourForwardExit \<noteq> None"
  "bs_Scope (the (registry_lookup BehaviourForwardExit)) = BehaviourScopeStage"
  "bs_Kinds (the (registry_lookup BehaviourForwardExit)) = [StageKindReview, StageKindApproval, StageKindTerminal]"
  "bs_Params (the (registry_lookup BehaviourForwardExit)) = []"
  "registry_lookup BehaviourRequireTestCases \<noteq> None"
  "bs_Scope (the (registry_lookup BehaviourRequireTestCases)) = BehaviourScopeStage"
  "bs_Kinds (the (registry_lookup BehaviourRequireTestCases)) = [StageKindQueue, StageKindReview]"
  "bs_Params (the (registry_lookup BehaviourRequireTestCases)) = []"
  "registry_lookup BehaviourReviewVerdictSweep \<noteq> None"
  "bs_Scope (the (registry_lookup BehaviourReviewVerdictSweep)) = BehaviourScopeStage"
  "bs_Kinds (the (registry_lookup BehaviourReviewVerdictSweep)) = [StageKindQueue, StageKindReview, StageKindApproval]"
  "bs_Params (the (registry_lookup BehaviourReviewVerdictSweep)) = [param_spec ''pass_to'' ParamTypeColumn [] True]"
  "registry_lookup BehaviourRequireExecutionEvidence \<noteq> None"
  "bs_Scope (the (registry_lookup BehaviourRequireExecutionEvidence)) = BehaviourScopeStage"
  "bs_Kinds (the (registry_lookup BehaviourRequireExecutionEvidence)) = [StageKindQueue, StageKindReview]"
  "bs_Params (the (registry_lookup BehaviourRequireExecutionEvidence)) = []"
  "registry_lookup BehaviourRequireProductCheck \<noteq> None"
  "bs_Scope (the (registry_lookup BehaviourRequireProductCheck)) = BehaviourScopeStage"
  "bs_Kinds (the (registry_lookup BehaviourRequireProductCheck)) = [StageKindReview, StageKindApproval]"
  "bs_Params (the (registry_lookup BehaviourRequireProductCheck)) = []"
  "registry_lookup BehaviourReviewChainStage \<noteq> None"
  "bs_Scope (the (registry_lookup BehaviourReviewChainStage)) = BehaviourScopeStage"
  "bs_Kinds (the (registry_lookup BehaviourReviewChainStage)) = [StageKindReview, StageKindApproval]"
  "bs_Params (the (registry_lookup BehaviourReviewChainStage)) = [param_spec ''label'' ParamTypeString [] True, param_spec ''remedy'' ParamTypeString [] True]"
  "registry_lookup BehaviourStripWriters \<noteq> None"
  "bs_Scope (the (registry_lookup BehaviourStripWriters)) = BehaviourScopeStage"
  "bs_Kinds (the (registry_lookup BehaviourStripWriters)) = [StageKindQueue, StageKindReview, StageKindApproval, StageKindTerminal]"
  "bs_Params (the (registry_lookup BehaviourStripWriters)) = [param_spec ''allow'' ParamTypeString [] False]"
  "registry_lookup BehaviourNoCodeReading \<noteq> None"
  "bs_Scope (the (registry_lookup BehaviourNoCodeReading)) = BehaviourScopeStage"
  "bs_Kinds (the (registry_lookup BehaviourNoCodeReading)) = [StageKindReview, StageKindApproval]"
  "bs_Params (the (registry_lookup BehaviourNoCodeReading)) = []"
  "registry_lookup BehaviourNoWorkspaceWrites \<noteq> None"
  "bs_Scope (the (registry_lookup BehaviourNoWorkspaceWrites)) = BehaviourScopeType"
  "bs_Kinds (the (registry_lookup BehaviourNoWorkspaceWrites)) = []"
  "bs_Params (the (registry_lookup BehaviourNoWorkspaceWrites)) = []"
  "registry_lookup BehaviourRequireRepoGrounding \<noteq> None"
  "bs_Scope (the (registry_lookup BehaviourRequireRepoGrounding)) = BehaviourScopeType"
  "bs_Kinds (the (registry_lookup BehaviourRequireRepoGrounding)) = []"
  "bs_Params (the (registry_lookup BehaviourRequireRepoGrounding)) = []"
  by (simp_all only: registry_lookups option.sel BehaviourSpec.select_convs option.distinct not_False_eq_True)

end
