(* ===== verification/Workflow.thy ===== *)
theory Workflow
  imports Behaviours
begin

text \<open>
  A task type's workflow: \<open>server/internal/domain/workflow.go\<close>. A stage's behaviour
  parameters are an association list, one entry per key of the source's map. \<open>sortedOnPath\<close>
  sorts with \<open>sort.Slice\<close>, \<open>ReviewChain\<close> with \<open>sort.SliceStable\<close> over a comparison that
  answers "not less" for a column off the path; both are \<open>go_sort\<close> (exact up to twelve and
  twenty elements; a type has at most one stage per board column).
\<close>

section \<open>Stages and workflows\<close>

record BehaviourRef =
  br_Key :: BehaviourKey
  br_Params :: "(string \<times> string) list"

record TaskTypeDef =
  td_Key :: TaskType
  td_Label :: string
  td_KeyPrefix :: string
  td_Position :: int
  td_IsDefault :: bool
  td_IsDefect :: bool
  td_AssigneeRoleID :: "uuid option"
  td_AssigneeMode :: AssigneeMode
  td_Behaviours :: "BehaviourRef list"
  td_BuiltIn :: bool
  td_TaskCount :: int

record StageParticipant =
  sp_RoleID :: uuid
  sp_Mode :: ParticipantMode
  sp_Instructions :: string
  sp_Position :: int

record WorkflowStage =
  ws_ID :: uuid
  ws_TaskType :: TaskType
  ws_Column :: TaskColumn
  ws_Position :: int
  ws_OnPath :: bool
  ws_Kind :: StageKind
  ws_Behaviours :: "BehaviourRef list"
  ws_Instructions :: string
  ws_Participants :: "StageParticipant list"

record Workflow =
  wf_Type :: TaskTypeDef
  wf_Stages :: "WorkflowStage list"

record ReviewStage =
  rs_Column :: TaskColumn
  rs_Label :: string
  rs_Remedy :: string

definition TaskTypeDef_Has :: "TaskTypeDef \<Rightarrow> BehaviourKey \<Rightarrow> bool" where
  "TaskTypeDef_Has t key = list_ex (\<lambda>b. br_Key b = key) (td_Behaviours t)"

definition WorkflowStage_Has :: "WorkflowStage \<Rightarrow> BehaviourKey \<Rightarrow> bool" where
  "WorkflowStage_Has s key = list_ex (\<lambda>b. br_Key b = key) (ws_Behaviours s)"

text \<open>
  The first behaviour with the key decides, whether or not it carries the parameter.
\<close>

fun behaviour_param :: "BehaviourRef list \<Rightarrow> BehaviourKey \<Rightarrow> string \<Rightarrow> string option" where
  "behaviour_param [] key name = None"
| "behaviour_param (b # bs) key name =
     (if br_Key b \<noteq> key then behaviour_param bs key name else map_of (br_Params b) name)"

definition WorkflowStage_Param :: "WorkflowStage \<Rightarrow> BehaviourKey \<Rightarrow> string \<Rightarrow> string option" where
  "WorkflowStage_Param s key name = behaviour_param (ws_Behaviours s) key name"

definition ReservedForRole :: "Workflow \<Rightarrow> bool" where
  "ReservedForRole w \<longleftrightarrow>
     td_AssigneeRoleID (wf_Type w) \<noteq> None \<and>
     (td_AssigneeMode (wf_Type w) = AssigneeModeOverride \<or>
      td_AssigneeMode (wf_Type w) = AssigneeModeDefault)"

definition Stage :: "Workflow \<Rightarrow> TaskColumn \<Rightarrow> WorkflowStage option" where
  "Stage w col = find (\<lambda>s. ws_Column s = col) (wf_Stages w)"

definition wf_Has :: "Workflow \<Rightarrow> TaskColumn \<Rightarrow> BehaviourKey \<Rightarrow> bool" where
  "wf_Has w col key =
     (case Stage w col of None \<Rightarrow> False | Some stage \<Rightarrow> WorkflowStage_Has stage key)"

definition wf_Param :: "Workflow \<Rightarrow> TaskColumn \<Rightarrow> BehaviourKey \<Rightarrow> string \<Rightarrow> string option" where
  "wf_Param w col key name =
     (case Stage w col of None \<Rightarrow> None | Some stage \<Rightarrow> WorkflowStage_Param stage key name)"

definition TypeHas :: "Workflow \<Rightarrow> BehaviourKey \<Rightarrow> bool" where
  "TypeHas w key = TaskTypeDef_Has (wf_Type w) key"

definition KindOf :: "Workflow \<Rightarrow> TaskColumn \<Rightarrow> StageKind" where
  "KindOf w col = (case Stage w col of None \<Rightarrow> '''' | Some stage \<Rightarrow> ws_Kind stage)"

section \<open>The happy path\<close>

definition sort_path :: "WorkflowStage list \<Rightarrow> WorkflowStage list" where
  "sort_path ss = go_sort (\<lambda>a b. ws_Position a < ws_Position b) ss"

definition sortedOnPath :: "Workflow \<Rightarrow> WorkflowStage list" where
  "sortedOnPath w = sort_path (filter ws_OnPath (wf_Stages w))"

fun next_on_path :: "WorkflowStage list \<Rightarrow> TaskColumn \<Rightarrow> TaskColumn option" where
  "next_on_path (s # t # ss) col =
     (if ws_Column s = col then Some (ws_Column t) else next_on_path (t # ss) col)"
| "next_on_path _ col = None"

definition NextOnPath :: "Workflow \<Rightarrow> TaskColumn \<Rightarrow> TaskColumn option" where
  "NextOnPath w col = next_on_path (sortedOnPath w) col"

definition WorkColumn :: "Workflow \<Rightarrow> TaskColumn option" where
  "WorkColumn w =
     map_option ws_Column (find (\<lambda>s. ws_Kind s = StageKindWork) (sortedOnPath w))"

text \<open>\<open>order[s.Column] = i\<close> over the path: a later stage of the same column overwrites.\<close>

definition path_order :: "WorkflowStage list \<Rightarrow> TaskColumn \<Rightarrow> nat option" where
  "path_order path col =
     map_of (rev (zip (map ws_Column path) [0..<length path])) col"

definition chain_less :: "WorkflowStage list \<Rightarrow> ReviewStage \<Rightarrow> ReviewStage \<Rightarrow> bool" where
  "chain_less path a b =
     (case (path_order path (rs_Column a), path_order path (rs_Column b)) of
        (Some oi, Some oj) \<Rightarrow> oi < oj
      | _ \<Rightarrow> False)"

fun chain_stages :: "WorkflowStage list \<Rightarrow> ReviewStage list" where
  "chain_stages [] = []"
| "chain_stages (s # ss) =
     (case WorkflowStage_Param s BehaviourReviewChainStage ''label'' of
        None \<Rightarrow> chain_stages ss
      | Some label \<Rightarrow>
          \<lparr>rs_Column = ws_Column s, rs_Label = label,
           rs_Remedy = (case WorkflowStage_Param s BehaviourReviewChainStage ''remedy'' of
                          None \<Rightarrow> '''' | Some remedy \<Rightarrow> remedy)\<rparr> # chain_stages ss)"

definition ReviewChain :: "Workflow \<Rightarrow> ReviewStage list" where
  "ReviewChain w = go_sort (chain_less (sortedOnPath w)) (chain_stages (wf_Stages w))"

text \<open>
  The two indices of \<open>ReviewStagesBetween\<close>, \<open>-1\<close> where the column is not on the path. The
  loop's \<open>switch\<close> tries \<open>from\<close> first.
\<close>

fun between_indices ::
  "WorkflowStage list \<Rightarrow> TaskColumn \<Rightarrow> TaskColumn \<Rightarrow> int \<Rightarrow> int \<Rightarrow> int \<Rightarrow> int \<times> int" where
  "between_indices [] from to i fromIdx toIdx = (fromIdx, toIdx)"
| "between_indices (s # ss) from to i fromIdx toIdx =
     (if ws_Column s = from then between_indices ss from to (i + 1) i toIdx
      else if ws_Column s = to then between_indices ss from to (i + 1) fromIdx i
      else between_indices ss from to (i + 1) fromIdx toIdx)"

definition ReviewStagesBetween :: "Workflow \<Rightarrow> TaskColumn \<Rightarrow> TaskColumn \<Rightarrow> ReviewStage list" where
  "ReviewStagesBetween w from to =
     (let path = sortedOnPath w;
          (fromIdx, toIdx) = between_indices path from to 0 (-1) (-1)
      in if fromIdx < 0 \<or> toIdx \<le> fromIdx + 1 then []
         else let between = map ws_Column (take (nat (toIdx - fromIdx - 1)) (drop (nat (fromIdx + 1)) path))
              in filter (\<lambda>stage. rs_Column stage \<in> set between) (ReviewChain w))"

section \<open>Lookups\<close>

lemma Stage_SomeD: "Stage w col = Some s \<Longrightarrow> s \<in> set (wf_Stages w) \<and> ws_Column s = col"
  by (auto simp: Stage_def dest: find_SomeD)

lemma Stage_distinct:
  assumes "distinct (map ws_Column (wf_Stages w))" and "s \<in> set (wf_Stages w)"
  shows "Stage w (ws_Column s) = Some s"
proof -
  obtain t where t: "Stage w (ws_Column s) = Some t"
    using assms(2) by (cases "Stage w (ws_Column s)") (auto simp: Stage_def find_None_all)
  with assms have "t = s"
    by (auto dest!: Stage_SomeD simp: distinct_map inj_on_def)
  with t show ?thesis by simp
qed

lemma wf_Param_Has: "wf_Param w col key name = Some v \<Longrightarrow> wf_Has w col key"
proof -
  have "behaviour_param bs key name = Some v \<Longrightarrow> list_ex (\<lambda>b. br_Key b = key) bs" for bs
    by (induction bs) (auto split: if_splits)
  then show "wf_Param w col key name = Some v \<Longrightarrow> wf_Has w col key"
    by (auto simp: wf_Param_def wf_Has_def WorkflowStage_Param_def WorkflowStage_Has_def
        split: option.splits)
qed

section \<open>The path is the on-path stages by position\<close>

interpretation path_sort: key_sorter sort_path ws_Position
  by unfold_locales (simp_all add: sort_path_def sorted_go_sort)

lemma set_sortedOnPath: "set (sortedOnPath w) = {s \<in> set (wf_Stages w). ws_OnPath s}"
  by (simp add: sortedOnPath_def path_sort.srt_set)

lemma sorted_sortedOnPath: "sorted (map ws_Position (sortedOnPath w))"
  by (simp add: sortedOnPath_def path_sort.srt_sorted)

lemma sortedOnPath_columns_distinct:
  assumes "distinct (map ws_Column (wf_Stages w))"
  shows "distinct (map ws_Column (sortedOnPath w))"
proof -
  have "mset (map ws_Column (sortedOnPath w)) = mset (map ws_Column (filter ws_OnPath (wf_Stages w)))"
    by (simp add: sortedOnPath_def path_sort.srt_mset mset_map)
  with assms show ?thesis
    by (metis distinct_map_filter mset_eq_imp_distinct_iff)
qed

lemma next_on_path_SomeD:
  "next_on_path ss col = Some d \<Longrightarrow>
     \<exists>i. Suc i < length ss \<and> ws_Column (ss ! i) = col \<and> ws_Column (ss ! Suc i) = d"
proof (induction ss col rule: next_on_path.induct)
  case (1 s t ss col)
  show ?case
  proof (cases "ws_Column s = col")
    case True
    with 1 show ?thesis by (intro exI [of _ 0]) simp
  next
    case False
    with 1 obtain i where "Suc i < length (t # ss)" "ws_Column ((t # ss) ! i) = col"
      "ws_Column ((t # ss) ! Suc i) = d" by auto
    then show ?thesis by (intro exI [of _ "Suc i"]) simp
  qed
qed auto

lemma next_on_path_nth:
  "distinct (map ws_Column ss) \<Longrightarrow> Suc i < length ss \<Longrightarrow>
     next_on_path ss (ws_Column (ss ! i)) = Some (ws_Column (ss ! Suc i))"
proof (induction ss "ws_Column (ss ! i)" arbitrary: i rule: next_on_path.induct)
  case (1 s t ss)
  show ?case
  proof (cases i)
    case 0
    then show ?thesis by simp
  next
    case (Suc j)
    with 1(2,3) have "ws_Column s \<noteq> ws_Column ((t # ss) ! j)"
      by (intro distinct_map_Cons_nth) simp_all
    with 1 Suc show ?thesis by simp
  qed
qed auto

section \<open>The review chain\<close>

lemma chain_stages_column:
  "st \<in> set (chain_stages ss) \<Longrightarrow>
     \<exists>s \<in> set ss. ws_Column s = rs_Column st \<and>
       WorkflowStage_Param s BehaviourReviewChainStage ''label'' = Some (rs_Label st)"
  by (induction ss) (auto split: option.splits)

lemma chain_stages_complete:
  "s \<in> set ss \<Longrightarrow> WorkflowStage_Param s BehaviourReviewChainStage ''label'' = Some l \<Longrightarrow>
     \<exists>st \<in> set (chain_stages ss). rs_Column st = ws_Column s \<and> rs_Label st = l"
  by (induction ss) (auto split: option.splits)

lemma set_ReviewChain: "set (ReviewChain w) = set (chain_stages (wf_Stages w))"
  by (simp add: ReviewChain_def)

lemma path_order_None: "path_order path col = None \<longleftrightarrow> col \<notin> set (map ws_Column path)"
proof -
  have "set (map fst (rev (zip (map ws_Column path) [0..<length path]))) = set (map ws_Column path)"
    by (simp flip: rev_map)
  then show ?thesis unfolding path_order_def map_of_eq_None_iff by simp
qed

lemma path_order_nth:
  assumes "distinct (map ws_Column path)" and "i < length path"
  shows "path_order path (ws_Column (path ! i)) = Some i"
proof -
  let ?z = "zip (map ws_Column path) [0..<length path]"
  have d: "distinct (map fst (rev ?z))"
    using assms(1) by (simp flip: rev_map)
  have "(ws_Column (path ! i), i) \<in> set (rev ?z)"
    using assms(2) by (auto simp: in_set_zip intro!: exI [of _ i])
  with d show ?thesis unfolding path_order_def by (simp add: map_of_is_SomeI)
qed

text \<open>
  When every stage of the chain lies on the path, the comparison is by path order, so the
  chain is the stable sort of its stages by the place of their column on the path.
\<close>

lemma ReviewChain_sort_key:
  assumes "\<forall>st \<in> set (chain_stages (wf_Stages w)).
      rs_Column st \<in> set (map ws_Column (sortedOnPath w))"
  shows "ReviewChain w =
    sort_key (\<lambda>st. the (path_order (sortedOnPath w) (rs_Column st))) (chain_stages (wf_Stages w))"
proof -
  let ?k = "\<lambda>st. the (path_order (sortedOnPath w) (rs_Column st))"
  have "chain_less (sortedOnPath w) a b = (?k a < ?k b)"
    if "a \<in> set (chain_stages (wf_Stages w))" "b \<in> set (chain_stages (wf_Stages w))" for a b
  proof -
    have "path_order (sortedOnPath w) (rs_Column a) \<noteq> None"
      "path_order (sortedOnPath w) (rs_Column b) \<noteq> None"
      using assms that unfolding path_order_None by blast+
    then show ?thesis by (auto simp: chain_less_def)
  qed
  then have "ReviewChain w = go_sort (\<lambda>a b. ?k a < ?k b) (chain_stages (wf_Stages w))"
    unfolding ReviewChain_def by (rule go_sort_cong)
  then show ?thesis by (simp add: go_sort_key)
qed

section \<open>Stages strictly between two columns\<close>

lemma between_from_absent:
  "from \<notin> set (map ws_Column ss) \<Longrightarrow> fst (between_indices ss from to i f t) = f"
  by (induction ss arbitrary: i f t) auto

lemma between_to_absent:
  "to \<notin> set (map ws_Column ss) \<Longrightarrow> snd (between_indices ss from to i f t) = t"
  by (induction ss arbitrary: i f t) auto

lemma between_from_nth:
  "distinct (map ws_Column ss) \<Longrightarrow> k < length ss \<Longrightarrow> ws_Column (ss ! k) = from \<Longrightarrow>
     fst (between_indices ss from to i f t) = i + int k"
proof (induction ss arbitrary: i f t k)
  case (Cons s ss)
  show ?case
  proof (cases k)
    case 0
    with Cons.prems have "from \<notin> set (map ws_Column ss)" by auto
    with 0 Cons.prems show ?thesis using between_from_absent by simp
  next
    case (Suc j)
    with Cons.prems have "ws_Column s \<noteq> from"
      using distinct_map_Cons_nth [of ws_Column s ss j] by simp
    with Suc Cons show ?thesis by simp
  qed
qed simp

lemma between_to_nth:
  "distinct (map ws_Column ss) \<Longrightarrow> k < length ss \<Longrightarrow> ws_Column (ss ! k) = to \<Longrightarrow> from \<noteq> to \<Longrightarrow>
     snd (between_indices ss from to i f t) = i + int k"
proof (induction ss arbitrary: i f t k)
  case (Cons s ss)
  show ?case
  proof (cases k)
    case 0
    with Cons.prems have "to \<notin> set (map ws_Column ss)" by auto
    with 0 Cons.prems show ?thesis using between_to_absent by simp
  next
    case (Suc j)
    with Cons.prems have "ws_Column s \<noteq> to"
      using distinct_map_Cons_nth [of ws_Column s ss j] by simp
    with Suc Cons show ?thesis by simp
  qed
qed simp

lemma set_slice: "set (take n (drop m xs)) = {xs ! k | k. m \<le> k \<and> k < m + n \<and> k < length xs}"
proof -
  have "x \<in> set (take n (drop m xs)) \<longleftrightarrow> (\<exists>j. j < n \<and> j < length xs - m \<and> xs ! (m + j) = x)" for x
    by (auto simp: in_set_conv_nth)
  moreover have "(\<exists>j. j < n \<and> j < length xs - m \<and> xs ! (m + j) = x) \<longleftrightarrow>
      (\<exists>k. x = xs ! k \<and> m \<le> k \<and> k < m + n \<and> k < length xs)" for x
  proof
    assume "\<exists>j. j < n \<and> j < length xs - m \<and> xs ! (m + j) = x"
    then obtain j where "j < n" "j < length xs - m" "xs ! (m + j) = x" by blast
    then show "\<exists>k. x = xs ! k \<and> m \<le> k \<and> k < m + n \<and> k < length xs"
      by (intro exI [of _ "m + j"]) auto
  next
    assume "\<exists>k. x = xs ! k \<and> m \<le> k \<and> k < m + n \<and> k < length xs"
    then obtain k where "x = xs ! k" "m \<le> k" "k < m + n" "k < length xs" by blast
    then show "\<exists>j. j < n \<and> j < length xs - m \<and> xs ! (m + j) = x"
      by (intro exI [of _ "k - m"]) auto
  qed
  ultimately show ?thesis by auto
qed

text \<open>\<open>strictly_between path from to c\<close>: on the path, \<open>c\<close> comes after \<open>from\<close> and before \<open>to\<close>.\<close>

definition strictly_between :: "TaskColumn list \<Rightarrow> TaskColumn \<Rightarrow> TaskColumn \<Rightarrow> TaskColumn \<Rightarrow> bool" where
  "strictly_between path from to c \<longleftrightarrow>
     (\<exists>i k j. i < k \<and> k < j \<and> j < length path \<and> path ! i = from \<and> path ! k = c \<and> path ! j = to)"

lemma set_ReviewStagesBetween:
  assumes d: "distinct (map ws_Column (sortedOnPath w))" and ne: "from \<noteq> to"
  shows "set (ReviewStagesBetween w from to) =
    {st \<in> set (ReviewChain w). strictly_between (map ws_Column (sortedOnPath w)) from to (rs_Column st)}"
proof -
  let ?p = "sortedOnPath w" and ?c = "map ws_Column (sortedOnPath w)"
  obtain fi ti where ft: "between_indices ?p from to 0 (-1) (-1) = (fi, ti)" by force
  show ?thesis
  proof (cases "from \<in> set ?c \<and> to \<in> set ?c")
    case False
    then have "fi = -1 \<or> ti = -1"
      using between_from_absent [of "from" ?p to 0 "-1" "-1"]
        between_to_absent [of to ?p "from" 0 "-1" "-1"] ft by auto
    moreover have "\<not> strictly_between ?c from to x" for x
      using False unfolding strictly_between_def
      by (metis dual_order.strict_trans nth_mem)
    moreover have "fi \<ge> -1" using between_from_absent [of "from" ?p to 0 "-1" "-1"]
        between_from_nth [OF d, of _ "from" to 0 "-1" "-1"] ft
      by (cases "from \<in> set ?c") (auto simp: in_set_conv_nth)
    ultimately show ?thesis by (auto simp: ReviewStagesBetween_def ft)
  next
    case True
    then obtain a b where a: "a < length ?p" "ws_Column (?p ! a) = from"
      and b: "b < length ?p" "ws_Column (?p ! b) = to"
      by (auto simp: in_set_conv_nth)
    have fi: "fi = int a" and ti: "ti = int b"
      using between_from_nth [OF d a, of to 0 "-1" "-1"] between_to_nth [OF d b ne, of 0 "-1" "-1"]
        ft by auto
    have "strictly_between ?c from to x \<longleftrightarrow> (\<exists>k. x = ?c ! k \<and> Suc a \<le> k \<and> k < b)" for x
    proof
      assume "strictly_between ?c from to x"
      then obtain i k j where *: "i < k" "k < j" "j < length ?c" "?c ! i = from" "?c ! k = x" "?c ! j = to"
        by (auto simp: strictly_between_def)
      have "i = a" "j = b"
        using * a b d by (auto simp: nth_eq_iff_index_eq [OF d, symmetric])
      with * show "\<exists>k. x = ?c ! k \<and> Suc a \<le> k \<and> k < b"
        by (intro exI [of _ k]) auto
    next
      assume "\<exists>k. x = ?c ! k \<and> Suc a \<le> k \<and> k < b"
      then obtain k where "x = ?c ! k" "Suc a \<le> k" "k < b" by blast
      with a b show "strictly_between ?c from to x"
        unfolding strictly_between_def by (intro exI [of _ a] exI [of _ k] exI [of _ b]) auto
    qed
    moreover have "set (map ws_Column (take (nat (ti - fi - 1)) (drop (nat (fi + 1)) ?p))) =
        {?c ! k | k. Suc a \<le> k \<and> k < b}"
    proof -
      have n1: "nat (ti - fi - 1) = b - a - 1" and n2: "nat (fi + 1) = Suc a"
        using fi ti by arith+
      have "set (map ws_Column (take (nat (ti - fi - 1)) (drop (nat (fi + 1)) ?p))) =
          set (take (b - a - 1) (drop (Suc a) ?c))"
        using n1 n2 by (simp add: take_map drop_map)
      also have "\<dots> = {?c ! k | k. Suc a \<le> k \<and> k < b}"
        using b by (auto simp: set_slice)
      finally show ?thesis .
    qed
    ultimately show ?thesis
      using fi ti by (auto simp: ReviewStagesBetween_def ft)
  qed
qed

end
