(* ===== verification/Workflow_Validate.thy ===== *)
theory Workflow_Validate
  imports Workflow
begin

text \<open>
  Validation of a proposed workflow: \<open>server/internal/application/workflow/validate.go\<close>. The
  board's columns are an optional predicate (\<open>None\<close> is the nil map, which switches the column
  checks off). A message is its format string and the values put into it.

  \<open>stage_ok\<close> states what a stage must satisfy; \<open>ValidateStages_ok\<close> shows that the checker
  reports nothing exactly for such stages, and \<open>validated_column_param\<close> what the engine may
  rely on afterwards.
\<close>

section \<open>The checker\<close>

record StageProblem =
  prob_ColumnSlug :: string
  prob_Field :: string
  prob_Message :: "string \<times> string list"

definition problem :: "string \<Rightarrow> string \<Rightarrow> string \<Rightarrow> string list \<Rightarrow> StageProblem" where
  "problem col field fmt args =
     \<lparr>prob_ColumnSlug = col, prob_Field = field, prob_Message = (fmt, args)\<rparr>"

definition containsStr :: "string list \<Rightarrow> string \<Rightarrow> bool" where
  "containsStr xs v = list_ex (\<lambda>s. s = v) xs"

definition hasParamSpec :: "ParamSpec list \<Rightarrow> string \<Rightarrow> bool" where
  "hasParamSpec specs name = list_ex (\<lambda>s. ps_Name s = name) specs"

definition column_missing :: "(string \<Rightarrow> bool) option \<Rightarrow> string \<Rightarrow> bool" where
  "column_missing validColumns c =
     (case validColumns of None \<Rightarrow> False | Some valid \<Rightarrow> \<not> valid c)"

text \<open>One round of the loop over the behaviour's parameters.\<close>

definition param_problems ::
  "string \<Rightarrow> BehaviourRef \<Rightarrow> (string \<Rightarrow> bool) option \<Rightarrow> ParamSpec \<Rightarrow> StageProblem list" where
  "param_problems columnSlug ref validColumns p =
     (let has = map_of (br_Params ref) (ps_Name p) \<noteq> None;
          v = (case map_of (br_Params ref) (ps_Name p) of None \<Rightarrow> '''' | Some x \<Rightarrow> x)
      in if ps_Required p \<and> (\<not> has \<or> v = '''')
         then [problem columnSlug (br_Key ref) ''missing required param'' [ps_Name p]]
         else if \<not> has \<or> v = '''' then []
         else case ps_Type p of
             ParamTypeColumn \<Rightarrow>
               (if column_missing validColumns v
                then [problem columnSlug (br_Key ref) ''param names unknown column'' [ps_Name p, v]]
                else [])
           | ParamTypeEnum \<Rightarrow>
               (if \<not> containsStr (ps_Options p) v
                then [problem columnSlug (br_Key ref) ''param must be one of'' (ps_Name p # ps_Options p)]
                else [])
           | ParamTypeBool \<Rightarrow>
               (if v \<noteq> ''true'' \<and> v \<noteq> ''false''
                then [problem columnSlug (br_Key ref) ''param must be true or false'' [ps_Name p]]
                else [])
           | ParamTypeString \<Rightarrow> [])"

definition validateBehaviourRef ::
  "string \<Rightarrow> BehaviourRef \<Rightarrow> BehaviourScope \<Rightarrow> (string \<Rightarrow> bool) option \<Rightarrow> StageProblem list" where
  "validateBehaviourRef columnSlug ref wantScope validColumns =
     (case registry_lookup (br_Key ref) of
        None \<Rightarrow> [problem columnSlug ''behaviours'' ''unknown behaviour'' [br_Key ref]]
      | Some spec \<Rightarrow>
          (if bs_Scope spec \<noteq> wantScope
           then [problem columnSlug ''behaviours'' ''wrong scope'' [br_Key ref]] else []) @
          concat (map (param_problems columnSlug ref validColumns) (bs_Params spec)) @
          concat (map (\<lambda>(name, _).
            if \<not> hasParamSpec (bs_Params spec) name
            then [problem columnSlug (br_Key ref) ''unknown param'' [name]] else [])
            (br_Params ref)))"

text \<open>The participant loop counts workers and approvers and reports unknown modes.\<close>

fun participant_loop ::
  "string \<Rightarrow> StageParticipant list \<Rightarrow> int \<Rightarrow> int \<Rightarrow> StageProblem list \<Rightarrow> int \<times> int \<times> StageProblem list"
where
  "participant_loop col [] workers approvers problems = (workers, approvers, problems)"
| "participant_loop col (p # ps) workers approvers problems =
     (if sp_Mode p = ParticipantModeWorker
      then participant_loop col ps (workers + 1) approvers problems
      else if sp_Mode p = ParticipantModeApprover
      then participant_loop col ps workers (approvers + 1) problems
      else participant_loop col ps workers approvers
        (problems @ [problem col ''participants'' ''unknown participant mode'' [sp_Mode p]]))"

definition kind_problems :: "string \<Rightarrow> StageKind \<Rightarrow> BehaviourRef \<Rightarrow> StageProblem list" where
  "kind_problems col kind b =
     (case registry_lookup (br_Key b) of
        None \<Rightarrow> []
      | Some spec \<Rightarrow>
          if \<not> AppliesToKind spec kind
          then [problem col ''behaviours'' ''behaviour does not apply to stage kind'' [br_Key b, kind]]
          else [])"

definition stage_problems :: "(string \<Rightarrow> bool) option \<Rightarrow> WorkflowStage \<Rightarrow> StageProblem list" where
  "stage_problems validColumns st =
     (let col = ws_Column st;
          (workers, approvers, unknown) = participant_loop col (ws_Participants st) 0 0 []
      in (if \<not> ValidStageKind (ws_Kind st)
          then [problem col ''kind'' ''unknown stage kind'' [ws_Kind st]] else []) @
         (if column_missing validColumns col
          then [problem col ''column_slug'' ''not a board column'' []] else []) @
         unknown @
         (if workers > 1
          then [problem col ''participants'' ''at most one worker role per stage'' []] else []) @
         (if approvers > 1
          then [problem col ''participants'' ''at most one approver role per stage'' []] else []) @
         concat (map (\<lambda>b. validateBehaviourRef col b BehaviourScopeStage validColumns @
                         kind_problems col (ws_Kind st) b) (ws_Behaviours st)))"

definition ValidateStages :: "WorkflowStage list \<Rightarrow> (string \<Rightarrow> bool) option \<Rightarrow> StageProblem list" where
  "ValidateStages stages validColumns = concat (map (stage_problems validColumns) stages)"

definition ValidateTypeBehaviours ::
  "BehaviourRef list \<Rightarrow> (string \<Rightarrow> bool) option \<Rightarrow> StageProblem list" where
  "ValidateTypeBehaviours behaviours validColumns =
     concat (map (\<lambda>b. validateBehaviourRef '''' b BehaviourScopeType validColumns) behaviours)"

section \<open>What a valid stage is\<close>

definition value_ok :: "(string \<Rightarrow> bool) option \<Rightarrow> ParamSpec \<Rightarrow> string \<Rightarrow> bool" where
  "value_ok validColumns p v \<longleftrightarrow>
     (case ps_Type p of
        ParamTypeColumn \<Rightarrow> \<not> column_missing validColumns v
      | ParamTypeEnum \<Rightarrow> v \<in> set (ps_Options p)
      | ParamTypeBool \<Rightarrow> v = ''true'' \<or> v = ''false''
      | ParamTypeString \<Rightarrow> True)"

definition ref_ok :: "BehaviourScope \<Rightarrow> (string \<Rightarrow> bool) option \<Rightarrow> BehaviourRef \<Rightarrow> bool" where
  "ref_ok scope validColumns ref \<longleftrightarrow>
     (\<exists>spec. registry_lookup (br_Key ref) = Some spec \<and> bs_Scope spec = scope \<and>
       (\<forall>p \<in> set (bs_Params spec).
          case map_of (br_Params ref) (ps_Name p) of
            None \<Rightarrow> \<not> ps_Required p
          | Some v \<Rightarrow> if v = '''' then \<not> ps_Required p else value_ok validColumns p v) \<and>
       fst ` set (br_Params ref) \<subseteq> ps_Name ` set (bs_Params spec))"

definition stage_ok :: "(string \<Rightarrow> bool) option \<Rightarrow> WorkflowStage \<Rightarrow> bool" where
  "stage_ok validColumns st \<longleftrightarrow>
     ValidStageKind (ws_Kind st) \<and> \<not> column_missing validColumns (ws_Column st) \<and>
     (\<forall>p \<in> set (ws_Participants st). ValidParticipantMode (sp_Mode p)) \<and>
     length (filter (\<lambda>p. sp_Mode p = ParticipantModeWorker) (ws_Participants st)) \<le> 1 \<and>
     length (filter (\<lambda>p. sp_Mode p = ParticipantModeApprover) (ws_Participants st)) \<le> 1 \<and>
     (\<forall>b \<in> set (ws_Behaviours st).
        ref_ok BehaviourScopeStage validColumns b \<and>
        (\<forall>spec. registry_lookup (br_Key b) = Some spec \<longrightarrow> AppliesToKind spec (ws_Kind st)))"

lemma param_problems_Nil:
  "param_problems col ref cols p = [] \<longleftrightarrow>
     (case map_of (br_Params ref) (ps_Name p) of
        None \<Rightarrow> \<not> ps_Required p
      | Some v \<Rightarrow> if v = '''' then \<not> ps_Required p else value_ok cols p v)"
  by (auto simp: param_problems_def value_ok_def containsStr_def list_ex_iff Let_def
      split: option.splits ParamType.splits if_splits)

lemma unknown_params_Nil:
  "concat (map (\<lambda>(name, _). if \<not> hasParamSpec specs name then [f name] else []) ps) = [] \<longleftrightarrow>
     fst ` set ps \<subseteq> ps_Name ` set specs"
proof (induction ps)
  case (Cons a ps)
  obtain n v where a: "a = (n, v)" by (cases a)
  have "hasParamSpec specs n \<longleftrightarrow> n \<in> ps_Name ` set specs"
    by (auto simp: hasParamSpec_def list_ex_iff)
  then show ?case using Cons by (simp add: a)
qed simp

lemma validateBehaviourRef_Nil:
  "validateBehaviourRef col ref scope cols = [] \<longleftrightarrow> ref_ok scope cols ref"
  by (cases "registry_lookup (br_Key ref)")
    (simp_all add: validateBehaviourRef_def ref_ok_def param_problems_Nil unknown_params_Nil
      del: concat_eq_Nil_conv concat_map_singleton, auto simp: param_problems_Nil)

lemma participant_loop_result:
  "participant_loop col ps w a probs =
     (w + int (length (filter (\<lambda>p. sp_Mode p = ParticipantModeWorker) ps)),
      a + int (length (filter (\<lambda>p. sp_Mode p = ParticipantModeApprover) ps)),
      probs @ map (\<lambda>p. problem col ''participants'' ''unknown participant mode'' [sp_Mode p])
        (filter (\<lambda>p. \<not> ValidParticipantMode (sp_Mode p)) ps))"
  by (induction ps arbitrary: w a probs) (auto simp: ValidParticipantMode_def col_defs)

lemma kind_problems_Nil:
  "kind_problems col kind b = [] \<longleftrightarrow>
     (\<forall>spec. registry_lookup (br_Key b) = Some spec \<longrightarrow> AppliesToKind spec kind)"
  by (auto simp: kind_problems_def split: option.splits)

lemma stage_problems_Nil: "stage_problems cols st = [] \<longleftrightarrow> stage_ok cols st"
  unfolding stage_problems_def stage_ok_def Let_def participant_loop_result
  by (auto simp: filter_empty_conv validateBehaviourRef_Nil kind_problems_Nil)

lemma ValidateStages_Nil:
  "ValidateStages stages cols = [] \<longleftrightarrow> (\<forall>st \<in> set stages. stage_ok cols st)"
  by (auto simp: ValidateStages_def stage_problems_Nil)

section \<open>What the engine may rely on\<close>

text \<open>
  A stage that carries a behaviour and passed validation has every required parameter of
  that behaviour, with a value of the parameter's type.
\<close>

lemma behaviour_param_first:
  "list_ex (\<lambda>b. br_Key b = key) bs \<Longrightarrow>
     \<exists>b \<in> set bs. br_Key b = key \<and> behaviour_param bs key name = map_of (br_Params b) name"
  by (induction bs) auto

lemma validated_required_param:
  assumes ok: "\<forall>st \<in> set (wf_Stages w). stage_ok cols st"
    and has: "wf_Has w col key"
    and spec: "registry_lookup key = Some spec" and p: "p \<in> set (bs_Params spec)"
    and req: "ps_Required p"
  shows "\<exists>v. wf_Param w col key (ps_Name p) = Some v \<and> v \<noteq> '''' \<and> value_ok cols p v"
proof -
  obtain st where st: "Stage w col = Some st" and key: "list_ex (\<lambda>b. br_Key b = key) (ws_Behaviours st)"
    using has by (auto simp: wf_Has_def WorkflowStage_Has_def split: option.splits)
  obtain b where b: "b \<in> set (ws_Behaviours st)" "br_Key b = key"
    and v: "wf_Param w col key (ps_Name p) = map_of (br_Params b) (ps_Name p)"
    using behaviour_param_first [OF key, of "ps_Name p"] st
    by (auto simp: wf_Param_def WorkflowStage_Param_def)
  have "stage_ok cols st" using ok st by (auto dest: Stage_SomeD)
  with b have "ref_ok BehaviourScopeStage cols b" by (simp add: stage_ok_def)
  with b spec p req v show ?thesis
    by (fastforce simp: ref_ok_def split: option.splits if_splits)
qed

end
