(* ===== verification/Roles.thy ===== *)
theory Roles
  imports Workflow
begin

text \<open>
  Roles and the repository areas they are scoped by: \<open>server/internal/domain/role.go\<close> and
  \<open>server/internal/domain/repo_area.go\<close>.
\<close>

section \<open>Repository kinds and areas\<close>

definition RepoKindBackend :: string where [col_defs]: "RepoKindBackend = ''backend''"
definition RepoKindFrontend :: string where [col_defs]: "RepoKindFrontend = ''frontend''"
definition RepoKindMobile :: string where [col_defs]: "RepoKindMobile = ''mobile''"
definition RepoKindWorker :: string where [col_defs]: "RepoKindWorker = ''worker''"
definition RepoKindData :: string where [col_defs]: "RepoKindData = ''data''"
definition RepoKindGame :: string where [col_defs]: "RepoKindGame = ''game''"
definition RepoKindMonorepo :: string where [col_defs]: "RepoKindMonorepo = ''monorepo''"

definition areaForSingleKind :: "string \<Rightarrow> string" where
  "areaForSingleKind kind =
     (if kind = RepoKindFrontend \<or> kind = RepoKindMobile \<or> kind = RepoKindData \<or>
         kind = RepoKindGame
      then kind else RepoKindBackend)"

definition RoleAreas :: "string list" where
  "RoleAreas = [RepoKindBackend, RepoKindFrontend, RepoKindMobile, RepoKindData, RepoKindGame]"

text \<open>A sub-project is its kind here; \<open>counts\<close> is the map the source fills.\<close>

fun area_counts :: "string list \<Rightarrow> (string \<Rightarrow> nat) \<Rightarrow> string \<Rightarrow> nat" where
  "area_counts [] counts = counts"
| "area_counts (kind # kinds) counts =
     (if kind = RepoKindMonorepo then area_counts kinds counts
      else area_counts kinds
             (counts(areaForSingleKind kind := counts (areaForSingleKind kind) + 1)))"

fun best_area :: "(string \<Rightarrow> nat) \<Rightarrow> string list \<Rightarrow> string \<Rightarrow> nat \<Rightarrow> string" where
  "best_area counts [] best bestCount = best"
| "best_area counts (area # areas) best bestCount =
     (if bestCount < counts area then best_area counts areas area (counts area)
      else best_area counts areas best bestCount)"

definition RepoArea :: "string \<Rightarrow> string list \<Rightarrow> string" where
  "RepoArea kind subProjectKinds =
     (if kind \<noteq> RepoKindMonorepo then areaForSingleKind kind
      else best_area (area_counts subProjectKinds (\<lambda>_. 0)) RoleAreas RepoKindBackend 0)"

definition AreaFallbacks :: "string \<Rightarrow> string list" where
  "AreaFallbacks area =
     (if area = RepoKindData \<or> area = RepoKindGame then [RepoKindBackend] else [])"

lemma area_counts_sum:
  "area_counts kinds counts a =
     counts a + length (filter (\<lambda>k. k \<noteq> RepoKindMonorepo \<and> areaForSingleKind k = a) kinds)"
  by (induction kinds arbitrary: counts) auto

lemma best_area_mem: "best_area counts areas best n \<in> insert best (set areas)"
  by (induction areas arbitrary: best n) auto

lemma best_area_max:
  "n \<le> counts best \<Longrightarrow>
     (\<forall>a \<in> set areas. counts a \<le> counts (best_area counts areas best n)) \<and>
     n \<le> counts (best_area counts areas best n)"
proof (induction areas arbitrary: best n)
  case (Cons a areas)
  show ?case
  proof (cases "n < counts a")
    case True
    then show ?thesis using Cons.IH [of "counts a" a] by auto
  next
    case False
    then show ?thesis using Cons.IH [OF Cons.prems] by auto
  qed
qed simp

section \<open>Roles\<close>

type_synonym RolePurposeKey = string

definition PurposeSystemTaskAssignee :: RolePurposeKey where
  [col_defs]: "PurposeSystemTaskAssignee = ''system_task_assignee''"
definition PurposeRepoProfiler :: RolePurposeKey where
  [col_defs]: "PurposeRepoProfiler = ''repo_profiler''"
definition RoleKeyProductManager :: string where
  [col_defs]: "RoleKeyProductManager = ''product_manager''"

record RoleAssignment =
  ra_AgentID :: uuid
  ra_AgentName :: string
  ra_Areas :: "string list"
  ra_Priority :: int

record AgentRole =
  role_ID :: uuid
  role_Key :: string
  role_Name :: string
  role_Description :: string
  role_RequiredTools :: "string list"
  role_Assignments :: "RoleAssignment list"
  role_Purposes :: "RolePurposeKey list"

record AgentRoleMembership =
  arm_RoleID :: uuid
  arm_Areas :: "string list"

record RolePurpose =
  rp_Purpose :: RolePurposeKey
  rp_RoleID :: "uuid option"

definition ValidRolePurposeKey :: "RolePurposeKey \<Rightarrow> bool" where
  "ValidRolePurposeKey p \<longleftrightarrow> p = PurposeSystemTaskAssignee \<or> p = PurposeRepoProfiler"

definition char_between :: "char \<Rightarrow> char \<Rightarrow> char \<Rightarrow> bool" where
  "char_between lo hi c \<longleftrightarrow> (of_char lo :: nat) \<le> of_char c \<and> (of_char c :: nat) \<le> of_char hi"

text \<open>The bytes of a rune outside ASCII are outside every range, like the rune itself.\<close>

definition ValidRoleKey :: "string \<Rightarrow> bool" where
  "ValidRoleKey key =
     (case key of
        [] \<Rightarrow> False
      | c # _ \<Rightarrow>
          if \<not> char_between CHR ''a'' CHR ''z'' c then False
          else list_all (\<lambda>r. char_between CHR ''a'' CHR ''z'' r \<or>
                             char_between CHR ''0'' CHR ''9'' r \<or> r = CHR ''_'') key)"

end
