(* ===== verification/Tool_Policy.thy ===== *)
theory Tool_Policy
  imports Roles
begin

text \<open>
  What tools a run may call: \<open>server/internal/domain/tool_policy.go\<close>. A policy is two allow
  lists of patterns; an empty list of tools is unrestricted. The operations widen a policy
  (\<open>UpliftWorkspaceTools\<close>), narrow it to a stage (\<open>RestrictToolsForStage\<close>), to a plan
  (\<open>RestrictToPlannedTools\<close>) or to a ceiling (\<open>CeilToolPolicy\<close>). Because an empty list means
  everything, the theorems are about what a narrowed policy permits, not about its list.

  \<open>path.Match\<close> is the standard library's: a pattern is read into tokens and matched against
  the name, \<open>'*'\<close> and \<open>'?'\<close> never matching a slash. A malformed pattern matches nothing, as
  its error does in \<open>matchesToolPattern\<close>.
\<close>

section \<open>Glob patterns\<close>

text \<open>
  The rune at the front of a string and the bytes it takes: UTF-8 as \<open>utf8.DecodeRuneInString\<close>
  reads it, U+FFFD and one byte where the bytes are no rune.
\<close>

definition byte :: "char \<Rightarrow> nat" where
  "byte c = of_char c"

definition cont :: "char \<Rightarrow> bool" where
  "cont c \<longleftrightarrow> 128 \<le> byte c \<and> byte c < 192"

definition rune_error :: nat where "rune_error = 0xFFFD"

fun DecodeRune :: "string \<Rightarrow> nat \<times> nat" where
  "DecodeRune [] = (rune_error, 0)"
| "DecodeRune (a # s) =
     (let x = byte a in
      if x < 128 then (x, 1)
      else case s of
          b # s' \<Rightarrow>
            (if 194 \<le> x \<and> x < 224 \<and> cont b then ((x - 192) * 64 + (byte b - 128), 2)
             else case s' of
                 c # s'' \<Rightarrow>
                   (let r = (x - 224) * 4096 + (byte b - 128) * 64 + (byte c - 128) in
                    if 224 \<le> x \<and> x < 240 \<and> cont b \<and> cont c \<and>
                       2048 \<le> r \<and> \<not> (0xD800 \<le> r \<and> r < 0xE000)
                    then (r, 3)
                    else case s'' of
                        d # _ \<Rightarrow>
                          (let r = (x - 240) * 262144 + (byte b - 128) * 4096
                                 + (byte c - 128) * 64 + (byte d - 128) in
                           if 240 \<le> x \<and> x < 245 \<and> cont b \<and> cont c \<and> cont d \<and>
                              0x10000 \<le> r \<and> r < 0x110000
                           then (r, 4) else (rune_error, 1))
                      | [] \<Rightarrow> (rune_error, 1))
               | [] \<Rightarrow> (rune_error, 1))
        | [] \<Rightarrow> (rune_error, 1))"

datatype glob_token =
    GStar
  | GAny
  | GByte char
  | GClass bool "(nat \<times> nat) list"

text \<open>\<open>getEsc\<close>: one possibly escaped rune of a class, after which something must follow.\<close>

definition getEsc :: "string \<Rightarrow> (nat \<times> string) option" where
  "getEsc p =
     (if p = [] \<or> hd p = CHR ''-'' \<or> hd p = CHR '']'' then None
      else let q = (if hd p = CHR 0x5C then tl p else p) in
        if q = [] then None
        else let (r, n) = DecodeRune q; rest = drop n q in
          if (r = rune_error \<and> n = 1) \<or> rest = [] then None else Some (r, rest))"

fun glob_class :: "nat \<Rightarrow> string \<Rightarrow> (nat \<times> nat) list \<Rightarrow> ((nat \<times> nat) list \<times> string) option" where
  "glob_class 0 p ranges = None"
| "glob_class (Suc fuel) p ranges =
     (if p \<noteq> [] \<and> hd p = CHR '']'' \<and> ranges \<noteq> [] then Some (ranges, tl p)
      else case getEsc p of
          None \<Rightarrow> None
        | Some (lo, q) \<Rightarrow>
            (if hd q = CHR ''-''
             then (case getEsc (tl q) of
                     None \<Rightarrow> None
                   | Some (hi, q') \<Rightarrow> glob_class fuel q' (ranges @ [(lo, hi)]))
             else glob_class fuel q (ranges @ [(lo, lo)])))"

fun glob_tokens :: "nat \<Rightarrow> string \<Rightarrow> glob_token list option" where
  "glob_tokens fuel [] = Some []"
| "glob_tokens 0 (c # p) = None"
| "glob_tokens (Suc fuel) (c # p) =
     (if c = CHR ''*'' then map_option ((#) GStar) (glob_tokens fuel p)
      else if c = CHR ''?'' then map_option ((#) GAny) (glob_tokens fuel p)
      else if c = CHR ''['' then
        (let negated = (p \<noteq> [] \<and> hd p = CHR 0x5E);
             body = (if negated then tl p else p) in
         case glob_class (Suc (length body)) body [] of
           None \<Rightarrow> None
         | Some (ranges, rest) \<Rightarrow>
             map_option ((#) (GClass negated ranges)) (glob_tokens fuel rest))
      else if c = CHR 0x5C then
        (case p of [] \<Rightarrow> None | d # q \<Rightarrow> map_option ((#) (GByte d)) (glob_tokens fuel q))
      else map_option ((#) (GByte c)) (glob_tokens fuel p))"

fun glob_match :: "glob_token list \<Rightarrow> string \<Rightarrow> bool" where
  "glob_match [] s = (s = [])"
| "glob_match (GStar # ts) [] = glob_match ts []"
| "glob_match (GStar # ts) (c # s) =
     (glob_match ts (c # s) \<or> (c \<noteq> CHR ''/'' \<and> glob_match (GStar # ts) s))"
| "glob_match (t # ts) [] = False"
| "glob_match (GAny # ts) (c # s) =
     (c \<noteq> CHR ''/'' \<and> glob_match ts (drop (snd (DecodeRune (c # s))) (c # s)))"
| "glob_match (GByte d # ts) (c # s) = (c = d \<and> glob_match ts s)"
| "glob_match (GClass negated ranges # ts) (c # s) =
     (list_ex (\<lambda>(lo, hi). lo \<le> fst (DecodeRune (c # s)) \<and> fst (DecodeRune (c # s)) \<le> hi) ranges
        \<noteq> negated \<and>
      glob_match ts (drop (snd (DecodeRune (c # s))) (c # s)))"

definition path_Match :: "string \<Rightarrow> string \<Rightarrow> bool" where
  "path_Match pattern name =
     (case glob_tokens (length pattern) pattern of None \<Rightarrow> False | Some ts \<Rightarrow> glob_match ts name)"

lemma path_Match_star: "path_Match ''*'' name \<longleftrightarrow> CHR ''/'' \<notin> set name"
proof -
  have "glob_match [GStar] s \<longleftrightarrow> CHR ''/'' \<notin> set s" for s
    by (induction s) auto
  then show ?thesis by (simp add: path_Match_def)
qed

section \<open>Policies\<close>

record ToolPolicy =
  tp_AllowMCPServers :: "string list"
  tp_AllowTools :: "string list"

definition IsZero :: "ToolPolicy \<Rightarrow> bool" where
  "IsZero p \<longleftrightarrow> tp_AllowMCPServers p = [] \<and> tp_AllowTools p = []"

definition MergeToolPolicy :: "ToolPolicy \<Rightarrow> ToolPolicy \<Rightarrow> ToolPolicy" where
  "MergeToolPolicy base override =
     (let merged = base;
          merged = (if tp_AllowMCPServers override \<noteq> []
                    then merged\<lparr>tp_AllowMCPServers := tp_AllowMCPServers override\<rparr> else merged);
          merged = (if tp_AllowTools override \<noteq> []
                    then merged\<lparr>tp_AllowTools := tp_AllowTools override\<rparr> else merged)
      in merged)"

definition matchesToolPattern :: "string \<Rightarrow> string \<Rightarrow> bool" where
  "matchesToolPattern name pattern =
     (if pattern = name then True
      else if str_Contains pattern ''*'' then path_Match pattern name
      else False)"

definition matchesAnyToolPattern :: "string \<Rightarrow> string list \<Rightarrow> bool" where
  "matchesAnyToolPattern name patterns = list_ex (matchesToolPattern name) patterns"

definition ToolAllowedByPolicy :: "string \<Rightarrow> ToolPolicy \<Rightarrow> bool" where
  "ToolAllowedByPolicy name p =
     (if tp_AllowTools p = [] then True else matchesAnyToolPattern name (tp_AllowTools p))"

definition MissingTools :: "ToolPolicy \<Rightarrow> string list \<Rightarrow> string list" where
  "MissingTools p required =
     (if IsZero p then [] else filter (\<lambda>name. \<not> ToolAllowedByPolicy name p) required)"

lemma matchesToolPattern_refl [simp]: "matchesToolPattern name name"
  by (simp add: matchesToolPattern_def)

lemma matchesAny_mem: "name \<in> set ps \<Longrightarrow> matchesAnyToolPattern name ps"
  by (auto simp: matchesAnyToolPattern_def list_ex_iff intro: bexI [of _ name])

lemma matchesAny_append [simp]:
  "matchesAnyToolPattern name (ps @ qs) \<longleftrightarrow>
     matchesAnyToolPattern name ps \<or> matchesAnyToolPattern name qs"
  by (simp add: matchesAnyToolPattern_def)

lemma matchesAny_mono:
  "set ps \<subseteq> set qs \<Longrightarrow> matchesAnyToolPattern name ps \<Longrightarrow> matchesAnyToolPattern name qs"
  by (auto simp: matchesAnyToolPattern_def list_ex_iff)

section \<open>The tool lists\<close>

definition AskUserToolName :: string where "AskUserToolName = ''ask_user''"
definition ReservedMCPServerID :: string where "ReservedMCPServerID = ''tasktrooper''"
definition MergePullRequestToolName :: string where
  "MergePullRequestToolName = ''merge_task_pull_request''"

definition CodeExplorationTools :: "string list" where
  "CodeExplorationTools =
     [''codebase_search'', ''grep_code'', ''get_repo_tree'', ''get_symbol_skeleton'',
      ''expand_symbol_context'', ''read_file'']"

definition QAExecutionTools :: "string list" where
  "QAExecutionTools =
     [''run_terminal'', ''browser_navigate'', ''browser_click'', ''browser_fill'',
      ''browser_wait_for'', ''browser_read_dom'', ''browser_screenshot'',
      ''browser_set_viewport'', ''mobile_launch_app'', ''mobile_tap'', ''mobile_type_text'',
      ''mobile_swipe'', ''mobile_wait_for'', ''mobile_read_ui'', ''mobile_screenshot'',
      ''mobile_press_button'', ''mobile_rotate'']"

definition UIObservationTools :: "string list" where
  "UIObservationTools =
     [''browser_screenshot'', ''browser_read_dom'', ''mobile_screenshot'', ''mobile_read_ui'']"

definition PMUATExecutionTools :: "string list" where
  "PMUATExecutionTools =
     [''browser_navigate'', ''browser_click'', ''browser_fill'', ''browser_wait_for'',
      ''browser_read_dom'', ''browser_screenshot'', ''browser_set_viewport'',
      ''mobile_launch_app'', ''mobile_tap'', ''mobile_type_text'', ''mobile_swipe'',
      ''mobile_wait_for'', ''mobile_read_ui'', ''mobile_screenshot'', ''mobile_press_button'',
      ''mobile_rotate'']"

definition ImplementationVerificationTools :: "string list" where
  "ImplementationVerificationTools =
     [''run_terminal'']"

definition AnalizDocumentTools :: "string list" where
  "AnalizDocumentTools =
     [''add_task_document'', ''update_task_document'']"

definition OpenQuestionsTools :: "string list" where
  "OpenQuestionsTools =
     [''record_open_questions'', ''list_open_questions'']"

definition BoardProgressTools :: "string list" where
  "BoardProgressTools =
     [''claim_board_task'', ''move_board_task'']"

definition BoardWriteTools :: "string list" where
  "BoardWriteTools =
     [''create_board_task'', ''move_board_task'', ''update_board_task'']"

definition WorkspaceWriteTools :: "string list" where
  "WorkspaceWriteTools =
     [''write_file'', ''edit_file'', ''edit_lines'', ''delete_file'', ''move_file'',
      ''download_file'']"

definition workspaceToolAllowPatterns :: "string list" where
  "workspaceToolAllowPatterns =
     [''run_terminal'', ''mcp_filesystem_*'', ''get_task_pull_request'',
      ''commit_task_changes'', ''comment_on_pull_request''] @ WorkspaceWriteTools"

definition workspaceReadAlwaysTools :: "string list" where
  "workspaceReadAlwaysTools =
     [''list_projects'', ''list_repositories'', ''get_board_summary'', ''list_team'',
      ''get_design_system'']"

definition nonUIPathExtensions :: "string list" where
  "nonUIPathExtensions =
     [''.md'', ''.mdx'', ''.rst'', ''.txt'', ''.sh'', ''.bash'', ''.zsh'', ''.sql'',
      ''.prisma'', ''.toml'']"

definition nonUIPathBasenames :: "string list" where
  "nonUIPathBasenames =
     [''license'', ''license.md'', ''changelog.md'', ''notice'', ''package-lock.json'',
      ''yarn.lock'', ''pnpm-lock.yaml'', ''go.sum'', ''go.mod'', ''package.json'',
      ''tsconfig.json'', ''vercel.json'', ''netlify.toml'', ''.gitignore'', ''.npmrc'',
      ''.nvmrc'', ''dockerfile'', ''docker-compose.yml'', ''docker-compose.yaml'']"

definition nonUIPathDirs :: "string list" where
  "nonUIPathDirs =
     [''.ai'', ''.github'', ''docs'', ''scripts'', ''api'', ''server'', ''functions'',
      ''supabase'', ''prisma'', ''migrations'', ''__tests__'', ''test'', ''tests'', ''e2e'',
      ''cypress'', ''playwright'', ''__mocks__'', ''mocks'']"

definition nonUIPathBasenamePrefixes :: "string list" where
  "nonUIPathBasenamePrefixes = [''.env'', ''.eslintrc'', ''.prettierrc'']"

definition ReleaseControlTools :: "string list" where
  "ReleaseControlTools = [''deploy_release'', ''finish_release'', ''rollback_release'']"

definition IsReleaseControlTool :: "string \<Rightarrow> bool" where
  "IsReleaseControlTool name = list_ex (\<lambda>t. t = name) ReleaseControlTools"

definition IsBoardProgressTool :: "string \<Rightarrow> bool" where
  "IsBoardProgressTool name = list_ex (\<lambda>t. t = name) BoardProgressTools"

definition IsBoardWriteTool :: "string \<Rightarrow> bool" where
  "IsBoardWriteTool name = list_ex (\<lambda>t. t = name) BoardWriteTools"

definition isWorkspaceWriteTool :: "string \<Rightarrow> bool" where
  "isWorkspaceWriteTool name = list_ex (\<lambda>w. w = name) WorkspaceWriteTools"

definition containsToolName :: "string list \<Rightarrow> string \<Rightarrow> bool" where
  "containsToolName names name = list_ex (\<lambda>n. n = name) names"

definition hasExactAllowPattern :: "string list \<Rightarrow> string \<Rightarrow> bool" where
  "hasExactAllowPattern allow pattern = list_ex (\<lambda>a. a = pattern) allow"

definition hasRoleScopedBoardTools :: "string list \<Rightarrow> bool" where
  "hasRoleScopedBoardTools allow = list_ex (\<lambda>name. str_Contains name ''_board_'') allow"

text \<open>The \<open>add\<close> closure of \<open>buildRequiredAnalizTools\<close>: append what was not seen.\<close>

fun add_unseen :: "string list \<Rightarrow> string list \<Rightarrow> string list" where
  "add_unseen out [] = out"
| "add_unseen out (name # names) =
     (if name \<in> set out then add_unseen out names else add_unseen (out @ [name]) names)"

definition RequiredAnalizTools :: "string list" where
  "RequiredAnalizTools =
     (let out = add_unseen [] CodeExplorationTools;
          out = add_unseen out AnalizDocumentTools;
          out = add_unseen out OpenQuestionsTools;
          out = add_unseen out BoardProgressTools
      in add_unseen out [''add_task_comment'', ''list_task_comments'',
                         ''list_task_documents'', ''create_board_task''])"

definition MissingAnalizTools :: "ToolPolicy \<Rightarrow> string list" where
  "MissingAnalizTools p = MissingTools p RequiredAnalizTools"

section \<open>Widening and narrowing a policy\<close>

fun add_patterns :: "string list \<Rightarrow> string list \<Rightarrow> string list" where
  "add_patterns allow [] = allow"
| "add_patterns allow (pattern # patterns) =
     (if \<not> hasExactAllowPattern allow pattern then add_patterns (allow @ [pattern]) patterns
      else add_patterns allow patterns)"

definition UpliftWorkspaceTools :: "ToolPolicy \<Rightarrow> ToolPolicy" where
  "UpliftWorkspaceTools p =
     (if tp_AllowTools p = [] then p
      else let reads = add_patterns (tp_AllowTools p) workspaceReadAlwaysTools;
               reads = add_patterns reads CodeExplorationTools
        in if hasRoleScopedBoardTools (tp_AllowTools p) then p\<lparr>tp_AllowTools := reads\<rparr>
           else p\<lparr>tp_AllowTools := add_patterns reads workspaceToolAllowPatterns\<rparr>)"

definition dropTools :: "ToolPolicy \<Rightarrow> (string \<Rightarrow> bool) \<Rightarrow> ToolPolicy" where
  "dropTools p dropped = p\<lparr>tp_AllowTools := filter (\<lambda>name. \<not> dropped name) (tp_AllowTools p)\<rparr>"

text \<open>\<open>strings.Split\<close> at one separating character.\<close>

fun str_Split :: "char \<Rightarrow> string \<Rightarrow> string list" where
  "str_Split sep [] = [[]]"
| "str_Split sep (c # cs) =
     (if c = sep then [] # str_Split sep cs
      else case str_Split sep cs of
          [] \<Rightarrow> [[c]]
        | part # parts \<Rightarrow> (c # part) # parts)"

definition allowListNames :: "string \<Rightarrow> string \<Rightarrow> bool" where
  "allowListNames csv name \<longleftrightarrow>
     name \<noteq> '''' \<and> list_ex (\<lambda>part. TrimSpace part = name) (str_Split CHR '','' csv)"

text \<open>What a stage with the writers stripped drops: the predicate handed to \<open>dropTools\<close>.\<close>

definition stripped_name :: "bool \<Rightarrow> bool \<Rightarrow> string \<Rightarrow> bool" where
  "stripped_name keepMerge keepRelease name =
     (if isWorkspaceWriteTool name \<or> name = ''commit_task_changes'' then True
      else if name = MergePullRequestToolName \<and> \<not> keepMerge then True
      else if IsReleaseControlTool name \<and> \<not> keepRelease then True
      else False)"

definition RestrictToolsForStage :: "ToolPolicy \<Rightarrow> WorkflowStage \<Rightarrow> TaskTypeDef \<Rightarrow> ToolPolicy" where
  "RestrictToolsForStage p stage typeDef =
     (if tp_AllowTools p = [] then p
      else let out = p;
               out = (if TaskTypeDef_Has typeDef BehaviourNoWorkspaceWrites
                      then dropTools out isWorkspaceWriteTool else out);
               allow = (case WorkflowStage_Param stage BehaviourStripWriters ''allow'' of
                          None \<Rightarrow> '''' | Some v \<Rightarrow> v);
               out = (if WorkflowStage_Has stage BehaviourStripWriters
                      then dropTools out
                             (stripped_name (allowListNames allow ''merge_task_pull_request'')
                                            (allowListNames allow ''release_control''))
                      else out);
               out = (if WorkflowStage_Has stage BehaviourNoCodeReading
                      then dropTools out (containsToolName CodeExplorationTools) else out)
           in out)"

definition IntersectToolPolicy :: "ToolPolicy \<Rightarrow> string list \<Rightarrow> ToolPolicy" where
  "IntersectToolPolicy base toolNames =
     (if toolNames = [] then base
      else if IsZero base then \<lparr>tp_AllowMCPServers = [], tp_AllowTools = toolNames\<rparr>
      else base\<lparr>tp_AllowTools :=
             filter (\<lambda>name. tp_AllowTools base = [] \<or>
                            matchesAnyToolPattern name (tp_AllowTools base)) toolNames\<rparr>)"

definition EnsureAskUserTool :: "ToolPolicy \<Rightarrow> ToolPolicy" where
  "EnsureAskUserTool p =
     (if IsZero p then \<lparr>tp_AllowMCPServers = [], tp_AllowTools = [AskUserToolName]\<rparr>
      else if matchesAnyToolPattern AskUserToolName (tp_AllowTools p) then p
      else p\<lparr>tp_AllowTools := tp_AllowTools p @ [AskUserToolName]\<rparr>)"

fun keep_patterns :: "string list \<Rightarrow> string list \<Rightarrow> string list" where
  "keep_patterns allow [] = allow"
| "keep_patterns allow (pattern # keep) =
     (if IsBoardWriteTool pattern \<or> hasExactAllowPattern allow pattern
      then keep_patterns allow keep
      else keep_patterns (allow @ [pattern]) keep)"

definition RestrictToPlannedTools :: "ToolPolicy \<Rightarrow> string list \<Rightarrow> ToolPolicy" where
  "RestrictToPlannedTools base declared =
     (if declared = [] then base
      else let out = IntersectToolPolicy base declared;
               keep = (if tp_AllowTools base = [] then CodeExplorationTools
                       else tp_AllowTools base)
           in EnsureAskUserTool (out\<lparr>tp_AllowTools := keep_patterns (tp_AllowTools out) keep\<rparr>))"

definition IntersectMCPServers :: "ToolPolicy \<Rightarrow> string list \<Rightarrow> ToolPolicy" where
  "IntersectMCPServers base names =
     (if names = [] then base
      else if tp_AllowMCPServers base = [] then base\<lparr>tp_AllowMCPServers := names\<rparr>
      else base\<lparr>tp_AllowMCPServers :=
             filter (\<lambda>name. matchesAnyToolPattern name (tp_AllowMCPServers base)) names\<rparr>)"

definition CeilToolPolicy :: "ToolPolicy \<Rightarrow> string list \<Rightarrow> ToolPolicy" where
  "CeilToolPolicy p ceiling =
     (if ceiling = [] then p
      else let allowed = filter (\<lambda>name. tp_AllowTools p = [] \<or>
                                   matchesAnyToolPattern name (tp_AllowTools p)) ceiling;
               allowed = (if allowed = [] then [AskUserToolName] else allowed)
           in \<lparr>tp_AllowMCPServers = [ReservedMCPServerID], tp_AllowTools = allowed\<rparr>)"

definition ToolPolicy_Equal :: "ToolPolicy \<Rightarrow> ToolPolicy \<Rightarrow> bool" where
  "ToolPolicy_Equal p other =
     (if length (tp_AllowTools p) \<noteq> length (tp_AllowTools other) \<or>
         length (tp_AllowMCPServers p) \<noteq> length (tp_AllowMCPServers other) then False
      else if \<not> list_all2 (=) (tp_AllowTools p) (tp_AllowTools other) then False
      else list_all2 (=) (tp_AllowMCPServers p) (tp_AllowMCPServers other))"

section \<open>Evidence a change needs\<close>

definition RepoHasUI :: "string \<Rightarrow> bool" where
  "RepoHasUI kind \<longleftrightarrow> kind = RepoKindFrontend \<or> kind = RepoKindMobile"

definition after_last :: "char \<Rightarrow> string \<Rightarrow> string" where
  "after_last c s = rev (takeWhile (\<lambda>x. x \<noteq> c) (rev s))"

definition path_Base :: "string \<Rightarrow> string" where
  "path_Base p =
     (if p = '''' then ''.''
      else let q = rev (dropWhile (\<lambda>x. x = CHR ''/'') (rev p));
               b = after_last CHR ''/'' q
           in if b = '''' then ''/'' else b)"

definition path_Ext :: "string \<Rightarrow> string" where
  "path_Ext p =
     (let b = after_last CHR ''/'' p in
      if CHR ''.'' \<in> set b then CHR ''.'' # after_last CHR ''.'' b else '''')"

text \<open>\<open>testFileName\<close>: a dot, \<open>test\<close> or \<open>spec\<close>, a dot, and an alphanumeric end.\<close>

definition testFileName :: "string \<Rightarrow> bool" where
  "testFileName base =
     (let ext = after_last CHR ''.'' base; stem = take (length base - length ext) base in
      ext \<noteq> '''' \<and>
      list_all (\<lambda>c. char_between CHR ''a'' CHR ''z'' c \<or> char_between CHR ''0'' CHR ''9'' c) ext \<and>
      (suffix ''.test.'' stem \<or> suffix ''.spec.'' stem))"

definition isUIRelevantPath :: "string \<Rightarrow> bool" where
  "isUIRelevantPath path =
     (let p = TrimSpace (map (\<lambda>c. if c = CHR 0x5C then CHR ''/'' else c) path) in
      if p = '''' then False
      else let lower = ToLower p; base = path_Base lower in
        if base \<in> set nonUIPathBasenames \<or> path_Ext base \<in> set nonUIPathExtensions then False
        else if list_ex (\<lambda>pre. prefix pre base) nonUIPathBasenamePrefixes then False
        else if (prefix ''tsconfig'' base \<and> suffix ''.json'' base) \<or>
                (prefix ''.'' base \<and> suffix ''ignore'' base) then False
        else if testFileName base \<or> suffix ''_test.go'' base then False
        else if CHR ''/'' \<in> set lower \<and>
                list_ex (\<lambda>seg. seg \<in> set nonUIPathDirs)
                  (butlast (str_Split CHR ''/'' lower)) then False
        else True)"

definition DiffNeedsUIEvidence :: "string list \<Rightarrow> bool" where
  "DiffNeedsUIEvidence paths =
     (if paths = [] then True else list_ex isUIRelevantPath paths)"

section \<open>What a narrowed policy permits\<close>

text \<open>A list without wildcards permits exactly the names on it.\<close>

definition plain_names :: "string list \<Rightarrow> bool" where
  "plain_names ps \<longleftrightarrow> list_all (\<lambda>p. CHR ''*'' \<notin> set p) ps"

lemma str_Contains_char: "str_Contains s [c] \<longleftrightarrow> c \<in> set s"
proof -
  have "str_Index s [c] \<noteq> None \<longleftrightarrow> c \<in> set s"
    by (induction s) auto
  then show ?thesis by (simp add: str_Contains_def)
qed

lemma matches_plain: "CHR ''*'' \<notin> set p \<Longrightarrow> matchesToolPattern name p \<longleftrightarrow> p = name"
  by (simp add: matchesToolPattern_def str_Contains_char)

lemma matchesAny_plain: "plain_names ps \<Longrightarrow> matchesAnyToolPattern name ps \<longleftrightarrow> name \<in> set ps"
  by (auto simp: matchesAnyToolPattern_def list_ex_iff plain_names_def list_all_iff matches_plain)

lemma plain_names_subset: "plain_names ps \<Longrightarrow> set qs \<subseteq> set ps \<Longrightarrow> plain_names qs"
  by (auto simp: plain_names_def list_all_iff)

lemma set_add_patterns: "set (add_patterns allow ps) = set allow \<union> set ps"
  by (induction allow ps rule: add_patterns.induct)
    (auto simp: hasExactAllowPattern_def list_ex_iff)

lemma add_patterns_Nil: "add_patterns allow ps = [] \<longleftrightarrow> allow = [] \<and> ps = []"
  by (induction allow ps rule: add_patterns.induct)
    (auto simp: hasExactAllowPattern_def list_ex_iff)

lemma set_keep_patterns:
  "set (keep_patterns allow keep) = set allow \<union> {p \<in> set keep. \<not> IsBoardWriteTool p}"
  by (induction allow keep rule: keep_patterns.induct)
    (auto simp: hasExactAllowPattern_def list_ex_iff)

lemma set_Uplift:
  "tp_AllowTools p \<noteq> [] \<Longrightarrow>
     set (tp_AllowTools (UpliftWorkspaceTools p)) =
       set (tp_AllowTools p) \<union> set workspaceReadAlwaysTools \<union> set CodeExplorationTools \<union>
       (if hasRoleScopedBoardTools (tp_AllowTools p) then {} else set workspaceToolAllowPatterns)"
  by (auto simp: UpliftWorkspaceTools_def set_add_patterns Let_def)

definition stage_drops :: "WorkflowStage \<Rightarrow> TaskTypeDef \<Rightarrow> string \<Rightarrow> bool" where
  "stage_drops stage typeDef name \<longleftrightarrow>
     (let allow = (case WorkflowStage_Param stage BehaviourStripWriters ''allow'' of
                     None \<Rightarrow> '''' | Some v \<Rightarrow> v) in
      (TaskTypeDef_Has typeDef BehaviourNoWorkspaceWrites \<and> isWorkspaceWriteTool name) \<or>
      (WorkflowStage_Has stage BehaviourStripWriters \<and>
       stripped_name (allowListNames allow ''merge_task_pull_request'')
                     (allowListNames allow ''release_control'') name) \<or>
      (WorkflowStage_Has stage BehaviourNoCodeReading \<and> containsToolName CodeExplorationTools name))"

lemma set_Restrict:
  "set (tp_AllowTools (RestrictToolsForStage p stage typeDef)) =
     {name \<in> set (tp_AllowTools p). \<not> stage_drops stage typeDef name}"
  by (auto simp: RestrictToolsForStage_def stage_drops_def dropTools_def Let_def)

lemma read_always_kept:
  "''list_projects'' \<in> set workspaceReadAlwaysTools \<and>
   \<not> stage_drops stage typeDef ''list_projects''"
  by (simp add: workspaceReadAlwaysTools_def stage_drops_def stripped_name_def Let_def
      isWorkspaceWriteTool_def WorkspaceWriteTools_def MergePullRequestToolName_def
      IsReleaseControlTool_def ReleaseControlTools_def containsToolName_def
      CodeExplorationTools_def)

lemma glob_match_literal: "glob_match (map GByte bs @ ts) s \<Longrightarrow> prefix bs s"
proof (induction bs arbitrary: s)
  case (Cons b bs)
  then show ?case by (cases s) auto
qed simp

lemma filesystem_pattern:
  "matchesToolPattern name ''mcp_filesystem_*'' \<Longrightarrow> prefix ''mcp_filesystem_'' name"
proof -
  assume "matchesToolPattern name ''mcp_filesystem_*''"
  then consider "name = ''mcp_filesystem_*''" | "path_Match ''mcp_filesystem_*'' name"
    by (auto simp: matchesToolPattern_def split: if_splits)
  then show ?thesis
  proof cases
    case 2
    then have m: "glob_match (map GByte ''mcp_filesystem_'' @ [GStar]) name"
      by (simp add: path_Match_def)
    then show ?thesis by (rule glob_match_literal)
  qed (simp add: prefix_def)
qed

section \<open>Properties\<close>

definition runner_policy :: "ToolPolicy \<Rightarrow> WorkflowStage \<Rightarrow> TaskTypeDef \<Rightarrow> ToolPolicy" where
  "runner_policy policy stage typeDef =
     RestrictToolsForStage (UpliftWorkspaceTools policy) stage typeDef"

lemma uplift_patterns:
  "list_all (\<lambda>q. CHR ''*'' \<notin> set q \<or> q = ''mcp_filesystem_*'')
     (workspaceReadAlwaysTools @ CodeExplorationTools @ workspaceToolAllowPatterns)"
  by (simp add: workspaceReadAlwaysTools_def CodeExplorationTools_def
      workspaceToolAllowPatterns_def WorkspaceWriteTools_def)

lemma uplifted_match:
  assumes plain: "plain_names (tp_AllowTools p)" and ne: "tp_AllowTools p \<noteq> []"
    and no: "\<not> prefix ''mcp_filesystem_'' name"
    and m: "matchesAnyToolPattern name (tp_AllowTools (RestrictToolsForStage
              (UpliftWorkspaceTools p) stage typeDef))"
  shows "\<not> stage_drops stage typeDef name"
proof -
  obtain pat where pat: "matchesToolPattern name pat" "\<not> stage_drops stage typeDef pat"
    "pat \<in> set (tp_AllowTools (UpliftWorkspaceTools p))"
    using m unfolding matchesAnyToolPattern_def list_ex_iff by (auto simp: set_Restrict)
  have "pat \<in> set (tp_AllowTools p) \<union> set (workspaceReadAlwaysTools @ CodeExplorationTools @
      workspaceToolAllowPatterns)"
    using pat(3) by (auto simp: set_Uplift [OF ne] split: if_splits)
  then have "CHR ''*'' \<notin> set pat \<or> pat = ''mcp_filesystem_*''"
    using plain uplift_patterns by (auto simp: plain_names_def list_all_iff simp del: set_append)
  then show ?thesis
    using pat no by (auto simp: matches_plain dest: filesystem_pattern)
qed

lemma uplifted_nonempty:
  assumes "tp_AllowTools p \<noteq> []"
  shows "tp_AllowTools (RestrictToolsForStage (UpliftWorkspaceTools p) stage typeDef) \<noteq> []"
proof -
  have "''list_projects'' \<in>
      set (tp_AllowTools (RestrictToolsForStage (UpliftWorkspaceTools p) stage typeDef))"
    using read_always_kept [of stage typeDef] assms by (simp add: set_Restrict set_Uplift)
  then show ?thesis by auto
qed

lemma stage_drops_listed:
  "stage_drops stage typeDef name \<Longrightarrow>
     name \<in> set (WorkspaceWriteTools @ ''commit_task_changes'' # MergePullRequestToolName #
       ReleaseControlTools @ CodeExplorationTools)"
  by (auto simp: stage_drops_def stripped_name_def isWorkspaceWriteTool_def
      IsReleaseControlTool_def containsToolName_def list_ex_iff Let_def split: if_splits)

lemma dropped_no_filesystem:
  "list_all (\<lambda>n. \<not> prefix ''mcp_filesystem_'' n)
     (WorkspaceWriteTools @ ''commit_task_changes'' # MergePullRequestToolName #
      ReleaseControlTools @ CodeExplorationTools)"
  by (simp add: WorkspaceWriteTools_def MergePullRequestToolName_def ReleaseControlTools_def
      CodeExplorationTools_def)

lemma dropped_not_allowed:
  assumes "tp_AllowTools policy \<noteq> []" and "plain_names (tp_AllowTools policy)"
    and "stage_drops stage typeDef name"
  shows "\<not> ToolAllowedByPolicy name (runner_policy policy stage typeDef)"
proof -
  have no: "\<not> prefix ''mcp_filesystem_'' name"
    using stage_drops_listed [OF assms(3)] dropped_no_filesystem
    unfolding list_all_iff by blast
  show ?thesis
    using uplifted_match [OF assms(2,1) no, of stage typeDef] uplifted_nonempty [OF assms(1)] assms(3)
    by (auto simp: runner_policy_def ToolAllowedByPolicy_def)
qed

lemma own_kept_allowed:
  assumes "name \<in> set (tp_AllowTools policy)" and "\<not> stage_drops stage typeDef name"
  shows "ToolAllowedByPolicy name (runner_policy policy stage typeDef)"
proof -
  have ne: "tp_AllowTools policy \<noteq> []" using assms(1) by auto
  then have "name \<in> set (tp_AllowTools (runner_policy policy stage typeDef))"
    using assms by (auto simp: runner_policy_def set_Restrict set_Uplift)
  then show ?thesis
    by (auto simp: ToolAllowedByPolicy_def matchesAnyToolPattern_def matchesToolPattern_def list_ex_iff)
qed

text \<open>The tools a strip may let through, as its \<open>allow\<close> parameter lists them.\<close>

definition strip_allows :: "WorkflowStage \<Rightarrow> string \<Rightarrow> bool" where
  "strip_allows stage name \<longleftrightarrow>
     (case WorkflowStage_Param stage BehaviourStripWriters ''allow'' of
        None \<Rightarrow> False
      | Some csv \<Rightarrow> name \<in> TrimSpace ` set (str_Split CHR '','' csv))"

lemma strip_allows_names:
  "name \<noteq> '''' \<Longrightarrow>
   allowListNames (case WorkflowStage_Param stage BehaviourStripWriters ''allow'' of
      None \<Rightarrow> '''' | Some v \<Rightarrow> v) name \<longleftrightarrow> strip_allows stage name"
proof -
  have "TrimSpace [] = []" by code_simp
  then show "name \<noteq> '''' \<Longrightarrow> ?thesis"
    by (cases "WorkflowStage_Param stage BehaviourStripWriters ''allow''")
      (auto simp: strip_allows_def allowListNames_def list_ex_iff)
qed

text \<open>
  C38: The policy of a board run is uplifted and then narrowed to its stage. Let the agent's own
  allow list be scoped (not empty) and without wildcards. Where the type or the stage forbids
  writing, the run may call none of the six tools that write files. On a stage that strips the writers
  it may not commit either; it may merge a pull request, and deploy, finish or roll back a release,
  only if the strip's allow parameter names \<open>merge_task_pull_request\<close> or \<open>release_control\<close>, and then a
  tool of these its own list names stays. Where the stage forbids reading code, it may call none of the
  six tools that read it.
\<close>
theorem stage_policy_permits_nothing_dropped:
  assumes "tp_AllowTools policy \<noteq> []" and "plain_names (tp_AllowTools policy)"
  shows "(TaskTypeDef_Has typeDef BehaviourNoWorkspaceWrites \<or> WorkflowStage_Has stage BehaviourStripWriters \<longrightarrow>
      (\<forall>name \<in> {''write_file'', ''edit_file'', ''edit_lines'', ''delete_file'', ''move_file'', ''download_file''}.
        \<not> ToolAllowedByPolicy name (runner_policy policy stage typeDef))) \<and>
    (WorkflowStage_Has stage BehaviourStripWriters \<longrightarrow>
      \<not> ToolAllowedByPolicy ''commit_task_changes'' (runner_policy policy stage typeDef) \<and>
      (\<forall>(name, grant) \<in> {(''merge_task_pull_request'', ''merge_task_pull_request''),
          (''deploy_release'', ''release_control''), (''finish_release'', ''release_control''),
          (''rollback_release'', ''release_control'')}.
        (strip_allows stage grant \<longrightarrow> name \<in> set (tp_AllowTools policy) \<longrightarrow>
          ToolAllowedByPolicy name (runner_policy policy stage typeDef)) \<and>
        (\<not> strip_allows stage grant \<longrightarrow>
          \<not> ToolAllowedByPolicy name (runner_policy policy stage typeDef)))) \<and>
    (WorkflowStage_Has stage BehaviourNoCodeReading \<longrightarrow>
      (\<forall>name \<in> {''codebase_search'', ''grep_code'', ''get_repo_tree'', ''get_symbol_skeleton'',
          ''expand_symbol_context'', ''read_file''}.
        \<not> ToolAllowedByPolicy name (runner_policy policy stage typeDef)))"
proof -
  note names = stage_drops_def stripped_name_def isWorkspaceWriteTool_def WorkspaceWriteTools_def
    MergePullRequestToolName_def IsReleaseControlTool_def ReleaseControlTools_def containsToolName_def
    CodeExplorationTools_def strip_allows_names
  have drops: "\<not> stage_drops stage typeDef name"
    if "ToolAllowedByPolicy name (runner_policy policy stage typeDef)" for name
    using dropped_not_allowed [OF assms] that by blast
  have keeps: "ToolAllowedByPolicy name (runner_policy policy stage typeDef)"
    if "name \<in> set (tp_AllowTools policy)" "\<not> stage_drops stage typeDef name" for name
    using that by (rule own_kept_allowed)
  show ?thesis
    by (intro conjI impI ballI; clarsimp simp only: split_paired_all) (auto dest!: drops intro!: keeps simp: names)
qed

lemma set_planned:
  assumes "declared \<noteq> []"
  shows "set (tp_AllowTools (RestrictToPlannedTools base declared)) \<union> {AskUserToolName} =
    {name \<in> set declared. tp_AllowTools base = [] \<or> matchesAnyToolPattern name (tp_AllowTools base)} \<union>
    {p \<in> set (if tp_AllowTools base = [] then CodeExplorationTools else tp_AllowTools base).
       \<not> IsBoardWriteTool p} \<union> {AskUserToolName}"
  using assms
  by (auto simp: RestrictToPlannedTools_def IntersectToolPolicy_def EnsureAskUserTool_def IsZero_def
      set_keep_patterns Let_def simp flip: set_empty split: if_splits)

lemma planned_nonempty:
  assumes "declared \<noteq> []"
  shows "tp_AllowTools (RestrictToPlannedTools base declared) \<noteq> []"
  using assms
  by (auto simp: RestrictToPlannedTools_def EnsureAskUserTool_def IsZero_def
      matchesAnyToolPattern_def Let_def)

text \<open>
  A plan's tool names fence board writes off and widen nothing: under
  \<open>RestrictToPlannedTools\<close> a run may call no tool its own policy does not permit, except
  \<open>ask_user\<close>; and it may call a tool that writes a board record only if the plan declared it.
  (For lists without wildcards.)
\<close>
theorem planned_tools_never_widen:
  assumes "declared \<noteq> []" and "plain_names declared" and "plain_names (tp_AllowTools base)"
    and "ToolAllowedByPolicy name (RestrictToPlannedTools base declared)"
  shows "(name = AskUserToolName \<or> ToolAllowedByPolicy name base) \<and>
         (IsBoardWriteTool name \<longrightarrow> name \<in> set declared)"
proof -
  let ?out = "tp_AllowTools (RestrictToPlannedTools base declared)"
  have "plain_names CodeExplorationTools" "plain_names [AskUserToolName]"
    by (simp_all add: plain_names_def CodeExplorationTools_def AskUserToolName_def)
  then have "plain_names (declared @ tp_AllowTools base @ CodeExplorationTools @ [AskUserToolName])"
    using assms(2,3) by (simp add: plain_names_def)
  moreover have "set ?out \<subseteq> set (declared @ tp_AllowTools base @ CodeExplorationTools @ [AskUserToolName])"
    using set_planned [OF assms(1), of base] by (auto split: if_splits)
  ultimately have "plain_names ?out" by (rule plain_names_subset)
  then have "name \<in> set ?out \<union> {AskUserToolName}"
    using assms(4) planned_nonempty [OF assms(1)]
    by (simp add: ToolAllowedByPolicy_def matchesAny_plain)
  then show ?thesis
    unfolding set_planned [OF assms(1)]
    by (auto simp: ToolAllowedByPolicy_def matchesAny_mem IsBoardWriteTool_def BoardWriteTools_def
        AskUserToolName_def CodeExplorationTools_def)
qed

text \<open>
  A tool ceiling never widens a policy, whatever the agent's own list says: under
  \<open>CeilToolPolicy\<close> with a ceiling of plain names, a permitted tool is named by the ceiling and
  permitted by the agent's policy, or it is \<open>ask_user\<close>; and no MCP server but the reserved one
  is admitted.
\<close>
theorem ceiling_never_widens:
  assumes "ceiling \<noteq> []" and "plain_names ceiling"
    and "ToolAllowedByPolicy name (CeilToolPolicy p ceiling)"
  shows "(name = AskUserToolName \<or> name \<in> set ceiling \<and> ToolAllowedByPolicy name p) \<and>
         tp_AllowMCPServers (CeilToolPolicy p ceiling) = [ReservedMCPServerID]"
proof -
  let ?kept = "filter (\<lambda>n. tp_AllowTools p = [] \<or> matchesAnyToolPattern n (tp_AllowTools p)) ceiling"
  have out: "CeilToolPolicy p ceiling =
      \<lparr>tp_AllowMCPServers = [ReservedMCPServerID],
       tp_AllowTools = (if ?kept = [] then [AskUserToolName] else ?kept)\<rparr>"
    using assms(1) unfolding CeilToolPolicy_def Let_def by (simp only: if_False)
  have "plain_names ?kept" using assms(2) by (rule plain_names_subset) auto
  moreover have "plain_names [AskUserToolName]" by (simp add: plain_names_def AskUserToolName_def)
  ultimately show ?thesis
    using assms(3) unfolding out
    by (auto simp: ToolAllowedByPolicy_def matchesAny_plain split: if_splits)
qed

lemma ceiling_never_widens_witness:
  "(''grep_code'' = AskUserToolName \<or> ''grep_code'' \<in> set [''grep_code'', ''write_file''] \<and>
    ToolAllowedByPolicy ''grep_code'' \<lparr>tp_AllowMCPServers = [], tp_AllowTools = [''grep_*'']\<rparr>) \<and>
   tp_AllowMCPServers (CeilToolPolicy \<lparr>tp_AllowMCPServers = [], tp_AllowTools = [''grep_*'']\<rparr>
     [''grep_code'', ''write_file'']) = [ReservedMCPServerID]"
  by (rule ceiling_never_widens)
    (simp_all add: plain_names_def, code_simp)

lemma planned_tools_never_widen_witness:
  "(''read_file'' = AskUserToolName \<or>
    ToolAllowedByPolicy ''read_file''
      \<lparr>tp_AllowMCPServers = [], tp_AllowTools = [''read_file'', ''move_board_task'']\<rparr>)"
  by (rule planned_tools_never_widen [of "[''read_file'']", THEN conjunct1])
    (simp_all add: plain_names_def, code_simp)

definition behaviour_stage :: "BehaviourRef list \<Rightarrow> WorkflowStage" where
  "behaviour_stage bs =
     \<lparr>ws_ID = 1, ws_TaskType = TaskTypeTask, ws_Column = TaskColumnCodeReview, ws_Position = 4,
      ws_OnPath = True, ws_Kind = StageKindReview, ws_Behaviours = bs, ws_Instructions = '''',
      ws_Participants = []\<rparr>"

definition plain_type :: "TaskType \<Rightarrow> TaskTypeDef" where
  "plain_type key =
     \<lparr>td_Key = key, td_Label = key, td_KeyPrefix = ''T'', td_Position = 0, td_IsDefault = True,
      td_IsDefect = False, td_AssigneeRoleID = None, td_AssigneeMode = AssigneeModeNone,
      td_Behaviours = [], td_BuiltIn = True, td_TaskCount = 0\<rparr>"

lemma stage_policy_permits_nothing_dropped_witness:
  "let policy = runner_policy \<lparr>tp_AllowMCPServers = [], tp_AllowTools = [''write_file'', ''merge_task_pull_request'']\<rparr>
        (behaviour_stage [\<lparr>br_Key = BehaviourStripWriters, br_Params = [(''allow'', ''merge_task_pull_request'')]\<rparr>])
        (plain_type TaskTypeTask)
   in \<not> ToolAllowedByPolicy ''write_file'' policy \<and> \<not> ToolAllowedByPolicy ''deploy_release'' policy \<and>
      ToolAllowedByPolicy ''merge_task_pull_request'' policy"
proof -
  let ?stage = "behaviour_stage
    [\<lparr>br_Key = BehaviourStripWriters, br_Params = [(''allow'', ''merge_task_pull_request'')]\<rparr>]"
  have "WorkflowStage_Has ?stage BehaviourStripWriters" "strip_allows ?stage ''merge_task_pull_request''"
    "\<not> strip_allows ?stage ''release_control''"
    by code_simp+
  then show ?thesis
    using stage_policy_permits_nothing_dropped [of "\<lparr>tp_AllowMCPServers = [],
        tp_AllowTools = [''write_file'', ''merge_task_pull_request'']\<rparr>" "plain_type TaskTypeTask" ?stage]
    by (simp add: plain_names_def)
qed

text \<open>
  The order matters: narrowed without the uplift, a policy that names only writers is left with
  an empty list, and an empty list permits everything.
\<close>

lemma restrict_alone_unrestricts:
  "ToolAllowedByPolicy name
     (RestrictToolsForStage \<lparr>tp_AllowMCPServers = [], tp_AllowTools = [''write_file'']\<rparr>
        (behaviour_stage [\<lparr>br_Key = BehaviourStripWriters, br_Params = []\<rparr>])
        (plain_type TaskTypeTask))"
proof -
  have "tp_AllowTools
     (RestrictToolsForStage \<lparr>tp_AllowMCPServers = [], tp_AllowTools = [''write_file'']\<rparr>
        (behaviour_stage [\<lparr>br_Key = BehaviourStripWriters, br_Params = []\<rparr>])
        (plain_type TaskTypeTask)) = []"
    by code_simp
  then show ?thesis by (simp add: ToolAllowedByPolicy_def)
qed

end
