(* ===== verification/Workflow_Service.thy ===== *)
theory Workflow_Service
  imports Workflow_Validate Tool_Policy "HOL-Library.AList" "HOL-Library.Char_ord"
    "HOL-Library.List_Lexorder"
begin

text \<open>
  The workflow service: \<open>server/internal/application/workflow/service.go\<close> (the snapshot and its
  reader), \<open>resolver.go\<close> (which agent works a role) and \<open>admin.go\<close> (the writes).

  The role store, the workflow store and the agent catalog are other processes: a record of
  functions over a state \<open>'s\<close> of their own. A write returns the new state also when it fails. The
  service's state is that state and the snapshot, \<open>None\<close> until the first successful \<open>Reload\<close>.
  The source's maps by id are association lists; where it ranges over such a map the model goes
  through the list in order.
\<close>

section \<open>Snapshot\<close>

record snapshot =
  snap_workflows :: "(TaskType \<times> Workflow) list"
  snap_defaultType :: TaskType
  snap_defectType :: TaskType
  snap_roles :: "(uuid \<times> AgentRole) list"
  snap_purposes :: "(RolePurposeKey \<times> uuid option) list"

record Agent =
  agent_ID :: uuid
  agent_Name :: string
  agent_Description :: string
  agent_SubagentType :: string
  agent_SystemPrompt :: string
  agent_ProviderType :: string
  agent_Model :: string
  agent_ModelHeavy :: string
  agent_MaxTurns :: int
  agent_Effort :: string
  agent_ToolPolicy :: ToolPolicy
  agent_Enabled :: bool
  agent_SelfEvolutionEnabled :: bool

datatype service_error =
    ErrFrom go_error
  | ErrSnapshotEmpty
  | ErrPrefixChangeWithTasks TaskType
  | ErrTaskTypeInUse TaskType
  | ValidationError "StageProblem list"
  | MissingToolsError "(uuid \<times> string list) list"

text \<open>The stores' operations, as far as the service calls them.\<close>

record 's stores =
  st_LoadAll :: "'s \<Rightarrow> go_error + Workflow list"
  st_ListRoles :: "'s \<Rightarrow> go_error + AgentRole list"
  st_ListPurposes :: "'s \<Rightarrow> go_error + RolePurpose list"
  st_GetRole :: "'s \<Rightarrow> uuid \<Rightarrow> go_error + AgentRole"
  st_CreateRole :: "AgentRole \<Rightarrow> 's \<Rightarrow> (go_error + AgentRole) \<times> 's"
  st_UpdateRole :: "AgentRole \<Rightarrow> 's \<Rightarrow> (go_error + AgentRole) \<times> 's"
  st_DeleteRole :: "uuid \<Rightarrow> 's \<Rightarrow> go_error option \<times> 's"
  st_SetAssignments :: "uuid \<Rightarrow> RoleAssignment list \<Rightarrow> 's \<Rightarrow> go_error option \<times> 's"
  st_SetAgentRoles :: "uuid \<Rightarrow> AgentRoleMembership list \<Rightarrow> 's \<Rightarrow> go_error option \<times> 's"
  st_SetPurpose :: "RolePurposeKey \<Rightarrow> uuid option \<Rightarrow> 's \<Rightarrow> go_error option \<times> 's"
  st_GetTaskType :: "'s \<Rightarrow> TaskType \<Rightarrow> go_error + TaskTypeDef"
  st_CreateTaskType :: "TaskTypeDef \<Rightarrow> TaskType \<Rightarrow> 's \<Rightarrow> (go_error + TaskTypeDef) \<times> 's"
  st_UpdateTaskType :: "TaskTypeDef \<Rightarrow> 's \<Rightarrow> (go_error + TaskTypeDef) \<times> 's"
  st_DeleteTaskType :: "TaskType \<Rightarrow> 's \<Rightarrow> go_error option \<times> 's"
  st_ReplaceStages :: "TaskType \<Rightarrow> WorkflowStage list \<Rightarrow> 's \<Rightarrow> go_error option \<times> 's"

record 's AgentCatalog =
  ac_GetAgent :: "'s \<Rightarrow> uuid \<Rightarrow> go_error + Agent"
  ac_UpdateAgent :: "uuid \<Rightarrow> Agent \<Rightarrow> 's \<Rightarrow> (go_error + Agent) \<times> 's"

record 's Service =
  sv_stores :: "'s stores"
  sv_board :: "('s \<Rightarrow> go_error + string list) option"
  sv_agentCatalog :: "'s AgentCatalog option"
  sv_state :: 's
  sv_snap :: "snapshot option"

definition build_snapshot ::
  "Workflow list \<Rightarrow> AgentRole list \<Rightarrow> RolePurpose list \<Rightarrow> snapshot" where
  "build_snapshot workflows roleList purposeList =
     \<lparr>snap_workflows = fold (\<lambda>w m. AList.update (td_Key (wf_Type w)) w m) workflows [],
      snap_defaultType =
        fold (\<lambda>w d. if td_IsDefault (wf_Type w) then td_Key (wf_Type w) else d) workflows '''',
      snap_defectType =
        fold (\<lambda>w d. if td_IsDefect (wf_Type w) then td_Key (wf_Type w) else d) workflows '''',
      snap_roles = fold (\<lambda>r m. AList.update (role_ID r) r m) roleList [],
      snap_purposes = fold (\<lambda>p m. AList.update (rp_Purpose p) (rp_RoleID p) m) purposeList []\<rparr>"

definition Reload :: "'s Service \<Rightarrow> service_error option \<times> 's Service" where
  "Reload s =
     (case st_LoadAll (sv_stores s) (sv_state s) of
        Inl err \<Rightarrow> (Some (ErrFrom (ErrWrap ''reload workflows'' err)), s)
      | Inr workflows \<Rightarrow>
          (case st_ListRoles (sv_stores s) (sv_state s) of
             Inl err \<Rightarrow> (Some (ErrFrom (ErrWrap ''reload roles'' err)), s)
           | Inr roleList \<Rightarrow>
               (case st_ListPurposes (sv_stores s) (sv_state s) of
                  Inl err \<Rightarrow> (Some (ErrFrom (ErrWrap ''reload role purposes'' err)), s)
                | Inr purposeList \<Rightarrow>
                    (None, s\<lparr>sv_snap := Some (build_snapshot workflows roleList purposeList)\<rparr>))))"

definition getSnapshot :: "'s Service \<Rightarrow> service_error + snapshot" where
  "getSnapshot s = (case sv_snap s of None \<Rightarrow> Inl ErrSnapshotEmpty | Some snap \<Rightarrow> Inr snap)"

section \<open>The workflow reader\<close>

definition service_Workflow :: "'s Service \<Rightarrow> TaskType \<Rightarrow> service_error + Workflow" where
  "service_Workflow s taskType =
     (case getSnapshot s of
        Inl err \<Rightarrow> Inl err
      | Inr snap \<Rightarrow>
          (case map_of (snap_workflows snap) taskType of
             Some w \<Rightarrow> Inr w
           | None \<Rightarrow>
               if snap_defaultType snap = ''''
               then Inl (ErrFrom (ErrText ''unknown task type and no default type configured'' [taskType]))
               else case map_of (snap_workflows snap) (snap_defaultType snap) of
                   None \<Rightarrow> Inl (ErrFrom (ErrText ''default task type not loaded'' [snap_defaultType snap]))
                 | Some w \<Rightarrow> Inr w))"

definition DefaultTaskType :: "'s Service \<Rightarrow> service_error + TaskType" where
  "DefaultTaskType s =
     (case getSnapshot s of
        Inl err \<Rightarrow> Inl err
      | Inr snap \<Rightarrow>
          if snap_defaultType snap = ''''
          then Inl (ErrFrom (ErrText ''no default task type configured'' []))
          else Inr (snap_defaultType snap))"

definition DefectTaskType :: "'s Service \<Rightarrow> service_error + TaskType" where
  "DefectTaskType s =
     (case getSnapshot s of
        Inl err \<Rightarrow> Inl err
      | Inr snap \<Rightarrow>
          if snap_defectType snap = ''''
          then Inl (ErrFrom (ErrText ''no defect task type configured'' []))
          else Inr (snap_defectType snap))"

definition TaskTypeExists :: "'s Service \<Rightarrow> TaskType \<Rightarrow> service_error + bool" where
  "TaskTypeExists s taskType =
     (case getSnapshot s of
        Inl err \<Rightarrow> Inl err
      | Inr snap \<Rightarrow> Inr (map_of (snap_workflows snap) taskType \<noteq> None))"

definition KeyPrefix :: "'s Service \<Rightarrow> TaskType \<Rightarrow> service_error + string" where
  "KeyPrefix s taskType =
     (case service_Workflow s taskType of
        Inl err \<Rightarrow> Inl err | Inr w \<Rightarrow> Inr (td_KeyPrefix (wf_Type w)))"

section \<open>Who works a role\<close>

definition containsArea :: "string list \<Rightarrow> string \<Rightarrow> bool" where
  "containsArea areas area = list_ex (\<lambda>a. a = area) areas"

text \<open>The first loop: an exact match returns, the first any-area assignment is remembered.\<close>

fun exact_or_any :: "string \<Rightarrow> RoleAssignment list \<Rightarrow> uuid option \<Rightarrow> uuid option" where
  "exact_or_any area [] anyAreaMatch = anyAreaMatch"
| "exact_or_any area (a # as) anyAreaMatch =
     (if ra_Areas a = [] then
        exact_or_any area as (if anyAreaMatch = None then Some (ra_AgentID a) else anyAreaMatch)
      else if containsArea (ra_Areas a) area then Some (ra_AgentID a)
      else exact_or_any area as anyAreaMatch)"

fun fallback_match :: "RoleAssignment list \<Rightarrow> string list \<Rightarrow> uuid option" where
  "fallback_match as [] = None"
| "fallback_match as (fb # fbs) =
     (case find (\<lambda>a. containsArea (ra_Areas a) fb) as of
        Some a \<Rightarrow> Some (ra_AgentID a)
      | None \<Rightarrow> fallback_match as fbs)"

definition AgentForRole :: "'s Service \<Rightarrow> uuid \<Rightarrow> string \<Rightarrow> service_error + uuid option" where
  "AgentForRole s roleID area =
     (case getSnapshot s of
        Inl err \<Rightarrow> Inl err
      | Inr snap \<Rightarrow>
          (case map_of (snap_roles snap) roleID of
             None \<Rightarrow> Inr None
           | Some role \<Rightarrow>
               (case exact_or_any area (role_Assignments role) None of
                  Some agent \<Rightarrow> Inr (Some agent)
                | None \<Rightarrow> Inr (fallback_match (role_Assignments role) (AreaFallbacks area)))))"

definition AgentForPurpose ::
  "'s Service \<Rightarrow> RolePurposeKey \<Rightarrow> string \<Rightarrow> service_error + uuid option" where
  "AgentForPurpose s purpose area =
     (case getSnapshot s of
        Inl err \<Rightarrow> Inl err
      | Inr snap \<Rightarrow>
          (case map_of (snap_purposes snap) purpose of
             Some (Some roleID) \<Rightarrow> AgentForRole s roleID area
           | _ \<Rightarrow> Inr None))"

fun add_areas :: "string list \<Rightarrow> string list \<Rightarrow> string list" where
  "add_areas areas [] = areas"
| "add_areas areas (ar # ars) =
     (if ar \<notin> set areas then add_areas (areas @ [ar]) ars else add_areas areas ars)"

definition AgentAreas :: "'s Service \<Rightarrow> uuid \<Rightarrow> string list" where
  "AgentAreas s agentID =
     (case getSnapshot s of
        Inl err \<Rightarrow> []
      | Inr snap \<Rightarrow>
          go_sort (\<lambda>a b. a < b)
            (fold (\<lambda>role areas.
               fold (\<lambda>a areas. if ra_AgentID a \<noteq> agentID then areas
                               else add_areas areas (ra_Areas a))
                 (role_Assignments role) areas)
               (map snd (snap_roles snap)) []))"

definition AgentArea :: "'s Service \<Rightarrow> uuid \<Rightarrow> string" where
  "AgentArea s agentID =
     (case AgentAreas s agentID of [area] \<Rightarrow> area | _ \<Rightarrow> '''')"

definition AssigneeForNewTask ::
  "'s Service \<Rightarrow> TaskType \<Rightarrow> string \<Rightarrow> uuid option \<Rightarrow> service_error + uuid option" where
  "AssigneeForNewTask s taskType area requested =
     (case service_Workflow s taskType of
        Inl err \<Rightarrow> Inl err
      | Inr w \<Rightarrow>
          if td_AssigneeMode (wf_Type w) = AssigneeModeOverride
          then (case td_AssigneeRoleID (wf_Type w) of
                  None \<Rightarrow> Inr requested
                | Some role \<Rightarrow>
                    (case AgentForRole s role area of
                       Inl err \<Rightarrow> Inl err
                     | Inr (Some agent) \<Rightarrow> Inr (Some agent)
                     | Inr None \<Rightarrow> Inr requested))
          else if td_AssigneeMode (wf_Type w) = AssigneeModeDefault
          then (if requested \<noteq> None then Inr requested
                else case td_AssigneeRoleID (wf_Type w) of
                    None \<Rightarrow> Inr None
                  | Some role \<Rightarrow> AgentForRole s role area)
          else Inr requested)"

definition AgentHoldsRole :: "'s Service \<Rightarrow> uuid \<Rightarrow> string \<Rightarrow> service_error + bool" where
  "AgentHoldsRole s agentID roleKey =
     (case getSnapshot s of
        Inl err \<Rightarrow> Inl err
      | Inr snap \<Rightarrow>
          Inr (list_ex (\<lambda>r. role_Key r = roleKey \<and>
                 list_ex (\<lambda>a. ra_AgentID a = agentID) (role_Assignments r))
               (map snd (snap_roles snap))))"

definition RoleByKey :: "'s Service \<Rightarrow> string \<Rightarrow> service_error + AgentRole" where
  "RoleByKey s key =
     (case getSnapshot s of
        Inl err \<Rightarrow> Inl err
      | Inr snap \<Rightarrow>
          (case find (\<lambda>r. role_Key r = key) (map snd (snap_roles snap)) of
             Some r \<Rightarrow> Inr r
           | None \<Rightarrow> Inl (ErrFrom (ErrText ''unknown role'' [key]))))"

section \<open>Administration\<close>

text \<open>\<open>_ = s.Reload(ctx)\<close> after a write, and \<open>return s.Reload(ctx)\<close>.\<close>

definition columnSet :: "'s Service \<Rightarrow> service_error + (string \<Rightarrow> bool) option" where
  "columnSet s =
     (case sv_board s of
        None \<Rightarrow> Inr None
      | Some listColumns \<Rightarrow>
          (case listColumns (sv_state s) of
             Inl err \<Rightarrow> Inl (ErrFrom err)
           | Inr cols \<Rightarrow> Inr (Some (\<lambda>slug. list_ex (\<lambda>c. c = slug) cols))))"

definition write_reload ::
  "(go_error + 'a) \<times> 's \<Rightarrow> 's Service \<Rightarrow> (service_error + 'a) \<times> 's Service" where
  "write_reload result s =
     (let s' = s\<lparr>sv_state := snd result\<rparr> in
      case fst result of
        Inl err \<Rightarrow> (Inl (ErrFrom err), s')
      | Inr x \<Rightarrow> (Inr x, snd (Reload s')))"

definition write_then_Reload ::
  "go_error option \<times> 's \<Rightarrow> 's Service \<Rightarrow> service_error option \<times> 's Service" where
  "write_then_Reload result s =
     (let s' = s\<lparr>sv_state := snd result\<rparr> in
      case fst result of Some err \<Rightarrow> (Some (ErrFrom err), s') | None \<Rightarrow> Reload s')"

definition CreateRole :: "AgentRole \<Rightarrow> 's Service \<Rightarrow> (service_error + AgentRole) \<times> 's Service" where
  "CreateRole role s =
     (if \<not> ValidRoleKey (role_Key role)
      then (Inl (ErrFrom (ErrText ''invalid role key'' [role_Key role])), s)
      else write_reload (st_CreateRole (sv_stores s) role (sv_state s)) s)"

definition UpdateRole :: "AgentRole \<Rightarrow> 's Service \<Rightarrow> (service_error + AgentRole) \<times> 's Service" where
  "UpdateRole role s = write_reload (st_UpdateRole (sv_stores s) role (sv_state s)) s"

definition DeleteRole :: "uuid \<Rightarrow> 's Service \<Rightarrow> service_error option \<times> 's Service" where
  "DeleteRole roleID s = write_then_Reload (st_DeleteRole (sv_stores s) roleID (sv_state s)) s"

definition SetRoleAssignments ::
  "uuid \<Rightarrow> RoleAssignment list \<Rightarrow> 's Service \<Rightarrow> service_error option \<times> 's Service" where
  "SetRoleAssignments roleID assignments s =
     write_then_Reload (st_SetAssignments (sv_stores s) roleID assignments (sv_state s)) s"

definition SetAgentRoles ::
  "uuid \<Rightarrow> AgentRoleMembership list \<Rightarrow> 's Service \<Rightarrow> service_error option \<times> 's Service" where
  "SetAgentRoles agentID roles s =
     write_then_Reload (st_SetAgentRoles (sv_stores s) agentID roles (sv_state s)) s"

text \<open>
  The loop of \<open>checkAndGrant\<close>: what is missing is collected, or granted one agent at a time.
  The result carries the state, which earlier grants have already changed when a later agent
  fails.
\<close>

definition with_granted :: "Agent \<Rightarrow> string list \<Rightarrow> Agent" where
  "with_granted agent missing =
     agent\<lparr>agent_ToolPolicy := (agent_ToolPolicy agent)
       \<lparr>tp_AllowTools := tp_AllowTools (agent_ToolPolicy agent) @ missing\<rparr>\<rparr>"

fun grant_loop ::
  "'s AgentCatalog \<Rightarrow> string list \<Rightarrow> bool \<Rightarrow> RoleAssignment list \<Rightarrow>
   (uuid \<times> string list) list \<Rightarrow> (uuid \<times> string list) list \<Rightarrow> 's \<Rightarrow>
   (service_error + (uuid \<times> string list) list \<times> (uuid \<times> string list) list) \<times> 's" where
  "grant_loop cat required confirm [] missingByAgent grantedByAgent st =
     (Inr (missingByAgent, grantedByAgent), st)"
| "grant_loop cat required confirm (a # as) missingByAgent grantedByAgent st =
     (case ac_GetAgent cat st (ra_AgentID a) of
        Inl err \<Rightarrow> (Inl (ErrFrom (ErrWrap ''get agent'' err)), st)
      | Inr agent \<Rightarrow>
          (let missing = MissingTools (agent_ToolPolicy agent) required in
           if missing = [] then grant_loop cat required confirm as missingByAgent grantedByAgent st
           else if \<not> confirm
           then grant_loop cat required confirm as
                  (AList.update (agent_ID agent) missing missingByAgent) grantedByAgent st
           else case ac_UpdateAgent cat (agent_ID agent) (with_granted agent missing) st of
               (Inl err, st') \<Rightarrow> (Inl (ErrFrom (ErrWrap ''grant tools to agent'' err)), st')
             | (Inr _, st') \<Rightarrow>
                 grant_loop cat required confirm as missingByAgent
                   (AList.update (agent_ID agent) missing grantedByAgent) st'))"

definition checkAndGrant ::
  "string list \<Rightarrow> RoleAssignment list \<Rightarrow> bool \<Rightarrow> 's Service \<Rightarrow>
   (service_error + (uuid \<times> string list) list) \<times> 's Service" where
  "checkAndGrant required assignments confirm s =
     (case sv_agentCatalog s of
        None \<Rightarrow> (Inr [], s)
      | Some cat \<Rightarrow>
          if required = [] then (Inr [], s)
          else let (result, st') = grant_loop cat required confirm assignments [] [] (sv_state s);
                   s' = s\<lparr>sv_state := st'\<rparr>
               in case result of
                   Inl err \<Rightarrow> (Inl err, s')
                 | Inr (missingByAgent, grantedByAgent) \<Rightarrow>
                     if missingByAgent \<noteq> [] then (Inl (MissingToolsError missingByAgent), s')
                     else (Inr grantedByAgent, s'))"

definition SetRoleAssignmentsChecked ::
  "uuid \<Rightarrow> RoleAssignment list \<Rightarrow> bool \<Rightarrow> 's Service \<Rightarrow>
   (service_error + (uuid \<times> string list) list) \<times> 's Service" where
  "SetRoleAssignmentsChecked roleID assignments confirm s =
     (case st_GetRole (sv_stores s) (sv_state s) roleID of
        Inl err \<Rightarrow> (Inl (ErrFrom err), s)
      | Inr role \<Rightarrow>
          (case checkAndGrant (role_RequiredTools role) assignments confirm s of
             (Inl err, s') \<Rightarrow> (Inl err, s')
           | (Inr granted, s') \<Rightarrow>
               (case SetRoleAssignments roleID assignments s' of
                  (Some err, s'') \<Rightarrow> (Inl err, s'')
                | (None, s'') \<Rightarrow> (Inr granted, s''))))"

fun required_of_roles ::
  "'s stores \<Rightarrow> 's \<Rightarrow> AgentRoleMembership list \<Rightarrow> string list \<Rightarrow> service_error + string list" where
  "required_of_roles stores st [] required = Inr required"
| "required_of_roles stores st (m # ms) required =
     (case st_GetRole stores st (arm_RoleID m) of
        Inl err \<Rightarrow> Inl (ErrFrom err)
      | Inr role \<Rightarrow>
          required_of_roles stores st ms (add_unseen required (role_RequiredTools role)))"

definition SetAgentRolesChecked ::
  "uuid \<Rightarrow> AgentRoleMembership list \<Rightarrow> bool \<Rightarrow> 's Service \<Rightarrow>
   (service_error + (uuid \<times> string list) list) \<times> 's Service" where
  "SetAgentRolesChecked agentID roles confirm s =
     (let finish = (\<lambda>granted s'.
            case SetAgentRoles agentID roles s' of
              (Some err, s'') \<Rightarrow> (Inl err, s'')
            | (None, s'') \<Rightarrow> (Inr granted, s'')) in
      case sv_agentCatalog s of
        None \<Rightarrow> finish [] s
      | Some cat \<Rightarrow>
          if roles = [] then finish [] s
          else case ac_GetAgent cat (sv_state s) agentID of
              Inl err \<Rightarrow> (Inl (ErrFrom (ErrWrap ''get agent'' err)), s)
            | Inr agent \<Rightarrow>
                (case required_of_roles (sv_stores s) (sv_state s) roles [] of
                   Inl err \<Rightarrow> (Inl err, s)
                 | Inr required \<Rightarrow>
                     (let missing = MissingTools (agent_ToolPolicy agent) required in
                      if missing = [] then finish [] s
                      else if \<not> confirm
                      then (Inl (MissingToolsError [(agent_ID agent, missing)]), s)
                      else case ac_UpdateAgent cat (agent_ID agent) (with_granted agent missing)
                                  (sv_state s) of
                          (Inl err, st') \<Rightarrow>
                            (Inl (ErrFrom (ErrWrap ''grant tools to agent'' err)), s\<lparr>sv_state := st'\<rparr>)
                        | (Inr _, st') \<Rightarrow>
                            finish [(agent_ID agent, missing)] (s\<lparr>sv_state := st'\<rparr>))))"

definition service_SetPurpose ::
  "RolePurposeKey \<Rightarrow> uuid option \<Rightarrow> 's Service \<Rightarrow> service_error option \<times> 's Service" where
  "service_SetPurpose purpose roleID s =
     (if \<not> ValidRolePurposeKey purpose
      then (Some (ErrFrom (ErrText ''unknown purpose'' [purpose])), s)
      else write_then_Reload (st_SetPurpose (sv_stores s) purpose roleID (sv_state s)) s)"

definition refuseUnassignableRole :: "'s Service \<Rightarrow> uuid option \<Rightarrow> service_error option" where
  "refuseUnassignableRole s roleID =
     (case roleID of
        None \<Rightarrow> None
      | Some r \<Rightarrow>
          (case getSnapshot s of
             Inl err \<Rightarrow> Some err
           | Inr snap \<Rightarrow>
               (case map_of (snap_roles snap) r of
                  None \<Rightarrow> None
                | Some role \<Rightarrow>
                    if role_Key role = RoleKeyProductManager
                    then Some (ErrFrom ErrAssigneeNotAssignable) else None)))"

text \<open>The checks \<open>CreateTaskType\<close> and \<open>UpdateTaskType\<close> share: the vetted definition, or the error.\<close>

definition vet_task_type :: "TaskTypeDef \<Rightarrow> 's Service \<Rightarrow> service_error + TaskTypeDef" where
  "vet_task_type def s =
     (let def' = (if \<not> ValidAssigneeMode (td_AssigneeMode def)
                  then def\<lparr>td_AssigneeMode := AssigneeModeNone\<rparr> else def) in
      case refuseUnassignableRole s (td_AssigneeRoleID def') of
        Some err \<Rightarrow> Inl err
      | None \<Rightarrow>
          (case columnSet s of
             Inl err \<Rightarrow> Inl err
           | Inr cols \<Rightarrow>
               (let problems = ValidateTypeBehaviours (td_Behaviours def') cols in
                if problems \<noteq> [] then Inl (ValidationError problems) else Inr def')))"

definition CreateTaskType ::
  "TaskTypeDef \<Rightarrow> TaskType \<Rightarrow> 's Service \<Rightarrow> (service_error + TaskTypeDef) \<times> 's Service" where
  "CreateTaskType def cloneFrom s =
     (if \<not> ValidRoleKey (td_Key def)
      then (Inl (ErrFrom (ErrText ''invalid task type key'' [td_Key def])), s)
      else case vet_task_type def s of
          Inl err \<Rightarrow> (Inl err, s)
        | Inr def' \<Rightarrow> write_reload (st_CreateTaskType (sv_stores s) def' cloneFrom (sv_state s)) s)"

definition UpdateTaskType ::
  "TaskTypeDef \<Rightarrow> 's Service \<Rightarrow> (service_error + TaskTypeDef) \<times> 's Service" where
  "UpdateTaskType def s =
     (case vet_task_type def s of
        Inl err \<Rightarrow> (Inl err, s)
      | Inr def' \<Rightarrow>
          (case st_GetTaskType (sv_stores s) (sv_state s) (td_Key def') of
             Inl err \<Rightarrow> (Inl (ErrFrom err), s)
           | Inr current \<Rightarrow>
               if td_KeyPrefix current \<noteq> td_KeyPrefix def' \<and> td_TaskCount current > 0
               then (Inl (ErrPrefixChangeWithTasks (td_Key def')), s)
               else write_reload (st_UpdateTaskType (sv_stores s) def' (sv_state s)) s))"

definition DeleteTaskType :: "TaskType \<Rightarrow> 's Service \<Rightarrow> service_error option \<times> 's Service" where
  "DeleteTaskType key s =
     (case st_GetTaskType (sv_stores s) (sv_state s) key of
        Inl err \<Rightarrow> (Some (ErrFrom err), s)
      | Inr current \<Rightarrow>
          if td_IsDefault current \<or> td_TaskCount current > 0
          then (Some (ErrTaskTypeInUse key), s)
          else write_then_Reload (st_DeleteTaskType (sv_stores s) key (sv_state s)) s)"

definition ReplaceStages ::
  "TaskType \<Rightarrow> WorkflowStage list \<Rightarrow> 's Service \<Rightarrow> service_error option \<times> 's Service" where
  "ReplaceStages taskType stages s =
     (case columnSet s of
        Inl err \<Rightarrow> (Some err, s)
      | Inr cols \<Rightarrow>
          (let problems = ValidateStages stages cols in
           if problems \<noteq> [] then (Some (ValidationError problems), s)
           else write_then_Reload (st_ReplaceStages (sv_stores s) taskType stages (sv_state s)) s))"

section \<open>Properties\<close>

subsection \<open>Resolving a role\<close>

definition first_of :: "'a list \<Rightarrow> 'a option" where
  "first_of xs = (case xs of [] \<Rightarrow> None | x # _ \<Rightarrow> Some x)"

lemma first_of_simps [simp]: "first_of [] = None" "first_of (x # xs) = Some x"
  by (simp_all add: first_of_def)

lemma first_of_append:
  "first_of (xs @ ys) = (case first_of xs of None \<Rightarrow> first_of ys | Some x \<Rightarrow> Some x)"
  by (cases xs) (auto simp: first_of_def)

lemma find_first_of: "find P xs = first_of (filter P xs)"
  by (induction xs) (auto simp: first_of_def)

text \<open>The assignments of a role in the order the contract ranks them for an area.\<close>

definition ranked_assignments :: "string \<Rightarrow> RoleAssignment list \<Rightarrow> RoleAssignment list" where
  "ranked_assignments area as =
     filter (\<lambda>a. area \<in> set (ra_Areas a)) as @
     filter (\<lambda>a. ra_Areas a = []) as @
     concat (map (\<lambda>fb. filter (\<lambda>a. fb \<in> set (ra_Areas a)) as) (AreaFallbacks area))"

lemma exact_or_any_find:
  "exact_or_any area as m =
     (case find (\<lambda>a. area \<in> set (ra_Areas a)) as of
        Some a \<Rightarrow> Some (ra_AgentID a)
      | None \<Rightarrow> (case m of Some x \<Rightarrow> Some x
                 | None \<Rightarrow> map_option ra_AgentID (find (\<lambda>a. ra_Areas a = []) as)))"
  by (induction as arbitrary: m) (auto simp: containsArea_def list_ex_iff split: option.splits)

lemma fallback_match_first:
  "fallback_match as fbs =
     map_option ra_AgentID
       (first_of (concat (map (\<lambda>fb. filter (\<lambda>a. fb \<in> set (ra_Areas a)) as) fbs)))"
  by (induction fbs)
    (auto simp: find_first_of first_of_append containsArea_def list_ex_iff
      split: option.splits)

text \<open>
  \<open>AgentForRole\<close> resolves a role for an area by tiers: an assignment naming the area, in
  the store's order, else one that covers any area, else one that covers a fallback area, and
  nobody when no tier has one. A role the snapshot does not know resolves to nobody.
\<close>
theorem AgentForRole_tiers:
  assumes "sv_snap s = Some snap"
  shows "AgentForRole s roleID area =
    Inr (case map_of (snap_roles snap) roleID of
           None \<Rightarrow> None
         | Some role \<Rightarrow> map_option ra_AgentID
             (first_of (ranked_assignments area (role_Assignments role))))"
  using assms
  by (auto simp: AgentForRole_def getSnapshot_def exact_or_any_find fallback_match_first
      find_first_of first_of_append ranked_assignments_def split: option.splits)

lemma AgentForRole_tiers_witness:
  "let s = \<lparr>sv_stores = undefined, sv_board = None, sv_agentCatalog = None, sv_state = (),
            sv_snap = Some (build_snapshot []
              [\<lparr>role_ID = 7, role_Key = ''dev'', role_Name = '''', role_Description = '''',
                role_RequiredTools = [],
                role_Assignments =
                  [\<lparr>ra_AgentID = 1, ra_AgentName = '''', ra_Areas = [], ra_Priority = 0\<rparr>,
                   \<lparr>ra_AgentID = 2, ra_AgentName = '''', ra_Areas = [''mobile''], ra_Priority = 1\<rparr>],
                role_Purposes = []\<rparr>] [])\<rparr> in
   AgentForRole s 7 ''mobile'' = Inr (Some 2) \<and> AgentForRole s 7 ''data'' = Inr (Some 1)"
  unfolding Let_def
  by (subst AgentForRole_tiers, simp)+
    (simp add: build_snapshot_def ranked_assignments_def first_of_def AreaFallbacks_def)

subsection \<open>Reload\<close>

lemma map_of_AList_update: "map_of (AList.update k v m) = (map_of m)(k \<mapsto> v)"
  by (rule update_conv')

lemma build_lookup_workflow:
  assumes "distinct (map key ws)" and "w \<in> set ws"
  shows "map_of (fold (\<lambda>w m. AList.update (key w) w m) ws m0) (key w) = Some w"
proof -
  have keep: "k \<notin> key ` set ws \<Longrightarrow>
      map_of (fold (\<lambda>w m. AList.update (key w) w m) ws m0) k = map_of m0 k" for k ws m0
    by (induction ws arbitrary: m0) (auto simp: map_of_AList_update)
  show ?thesis using assms
    by (induction ws arbitrary: m0) (auto simp: keep map_of_AList_update)
qed

text \<open>
  \<open>Reload\<close> is all or nothing. When any of its three reads fails the service is unchanged,
  so the reader keeps answering from the previous snapshot (and stays closed when there was
  none); when all succeed, every workflow the store holds is what \<open>Workflow\<close> answers for its
  type, and nothing else of the service changes.
\<close>
theorem Reload_all_or_nothing:
  "case Reload s of
     (Some err, s') \<Rightarrow> s' = s
   | (None, s') \<Rightarrow>
       (\<exists>ws. st_LoadAll (sv_stores s) (sv_state s) = Inr ws \<and>
         (distinct (map (td_Key \<circ> wf_Type) ws) \<longrightarrow>
            (\<forall>w \<in> set ws. service_Workflow s' (td_Key (wf_Type w)) = Inr w)) \<and>
         sv_state s' = sv_state s \<and> sv_snap s' \<noteq> None)"
proof -
  have "service_Workflow (s\<lparr>sv_snap := Some (build_snapshot ws rs ps)\<rparr>) (td_Key (wf_Type w)) = Inr w"
    if "distinct (map (td_Key \<circ> wf_Type) ws)" and "w \<in> set ws" for ws rs ps w
    using build_lookup_workflow [OF that, of "[]"]
    by (simp add: service_Workflow_def getSnapshot_def build_snapshot_def)
  then show ?thesis
    by (auto simp: Reload_def split: sum.splits)
qed

text \<open>
  No move is decided without a workflow: until a snapshot has loaded, every question of the
  engine is answered with \<open>ErrSnapshotEmpty\<close>, never as if the type or the stage were absent.
\<close>
theorem snapshot_empty_fails_closed:
  assumes "sv_snap s = None"
  shows "service_Workflow s t = Inl ErrSnapshotEmpty \<and> DefaultTaskType s = Inl ErrSnapshotEmpty \<and>
    DefectTaskType s = Inl ErrSnapshotEmpty \<and> TaskTypeExists s t = Inl ErrSnapshotEmpty \<and>
    KeyPrefix s t = Inl ErrSnapshotEmpty \<and> AgentForRole s r area = Inl ErrSnapshotEmpty \<and>
    AgentForPurpose s p area = Inl ErrSnapshotEmpty \<and>
    AssigneeForNewTask s t area requested = Inl ErrSnapshotEmpty \<and>
    AgentHoldsRole s a key = Inl ErrSnapshotEmpty"
  using assms
  by (simp add: service_Workflow_def DefaultTaskType_def DefectTaskType_def TaskTypeExists_def
      KeyPrefix_def AgentForRole_def AgentForPurpose_def AssigneeForNewTask_def AgentHoldsRole_def
      getSnapshot_def)

subsection \<open>Writes\<close>

lemma Reload_state: "sv_state (snd (Reload s)) = sv_state s"
  by (auto simp: Reload_def split: sum.splits)

lemma write_then_Reload_state: "sv_state (snd (write_then_Reload r s)) = snd r"
  by (auto simp: write_then_Reload_def Reload_state Let_def split: option.splits)

lemma write_reload_state: "sv_state (snd (write_reload r s)) = snd r"
  by (auto simp: write_reload_def Reload_state Let_def split: sum.splits)

text \<open>
  Only valid stages reach the store. \<open>ReplaceStages\<close> either hands the store stages that are
  all well formed against the board's columns, or returns the problems and changes nothing.
\<close>
theorem ReplaceStages_only_valid:
  "(\<exists>cols. columnSet s = Inr cols \<and> (\<forall>st \<in> set stages. stage_ok cols st) \<and>
      sv_state (snd (ReplaceStages t stages s)) =
        snd (st_ReplaceStages (sv_stores s) t stages (sv_state s))) \<or>
   (snd (ReplaceStages t stages s) = s \<and> fst (ReplaceStages t stages s) \<noteq> None)"
proof (cases "columnSet s")
  case (Inr cols)
  show ?thesis
  proof (cases "ValidateStages stages cols = []")
    case True
    then have "ReplaceStages t stages s =
        write_then_Reload (st_ReplaceStages (sv_stores s) t stages (sv_state s)) s"
      using Inr by (simp add: ReplaceStages_def Let_def)
    then show ?thesis
      using True Inr by (simp add: write_then_Reload_state ValidateStages_Nil)
  next
    case False
    then show ?thesis using Inr by (simp add: ReplaceStages_def Let_def)
  qed
qed (simp add: ReplaceStages_def)

lemma grant_loop_unconfirmed:
  assumes "grant_loop cat required False as m g st = (Inr (m', g'), st')"
  shows "st' = st \<and> g' = g \<and> (m' = [] \<longrightarrow> m = [] \<and>
    (\<forall>a \<in> set as. \<exists>agent. ac_GetAgent cat st (ra_AgentID a) = Inr agent \<and>
       MissingTools (agent_ToolPolicy agent) required = []))"
  using assms
proof (induction as arbitrary: m)
  case (Cons a as)
  have ne: "AList.update k v xs \<noteq> []" for k v and xs :: "(uuid \<times> string list) list"
    by (cases xs) auto
  from Cons.prems show ?case
    by (auto simp: Let_def ne dest!: Cons.IH split: sum.splits if_splits)
qed auto

lemma grant_loop_unconfirmed_state:
  "snd (grant_loop cat required False as m g st) = st"
  by (induction as arbitrary: m) (auto simp: Let_def split: sum.splits)

text \<open>
  Without a confirmed grant, an assignment write goes through only when every agent it names
  already holds the role's required tools; otherwise it is refused and no agent and no role is
  changed.
\<close>
theorem unconfirmed_assignment_needs_tools:
  assumes "sv_agentCatalog s = Some cat"
    and "st_GetRole (sv_stores s) (sv_state s) roleID = Inr role" and "role_RequiredTools role \<noteq> []"
  shows "(\<forall>a \<in> set as. \<exists>agent. ac_GetAgent cat (sv_state s) (ra_AgentID a) = Inr agent \<and>
            MissingTools (agent_ToolPolicy agent) (role_RequiredTools role) = []) \<and>
         SetRoleAssignmentsChecked roleID as False s =
           (case SetRoleAssignments roleID as s of
              (Some err, s') \<Rightarrow> (Inl err, s') | (None, s') \<Rightarrow> (Inr [], s')) \<or>
         (\<exists>err. SetRoleAssignmentsChecked roleID as False s = (Inl err, s))"
proof -
  obtain r st' where loop: "grant_loop cat (role_RequiredTools role) False as [] [] (sv_state s) = (r, st')"
    by fastforce
  have st': "st' = sv_state s"
    using grant_loop_unconfirmed_state [of cat "role_RequiredTools role" as "[]" "[]" "sv_state s"]
    by (simp add: loop)
  show ?thesis
  proof (cases r)
    case (Inl err)
    then show ?thesis
      using assms loop st' by (simp add: SetRoleAssignmentsChecked_def checkAndGrant_def)
  next
    case (Inr p)
    obtain m g where p: "p = (m, g)" by fastforce
    have "g = []" "m = [] \<longrightarrow> (\<forall>a \<in> set as. \<exists>agent. ac_GetAgent cat (sv_state s) (ra_AgentID a) =
        Inr agent \<and> MissingTools (agent_ToolPolicy agent) (role_RequiredTools role) = [])"
      using grant_loop_unconfirmed [OF loop [unfolded Inr p]] by auto
    then show ?thesis
      using assms loop st' Inr p
      by (cases "m = []") (auto simp: SetRoleAssignmentsChecked_def checkAndGrant_def
          split: option.splits prod.splits)
  qed
qed

text \<open>
  A task type's key prefix is fixed once it has tasks: the error is returned and nothing is
  written.
\<close>

lemma vet_task_type_fixed:
  "vet_task_type def s = Inr def' \<Longrightarrow> td_Key def' = td_Key def \<and> td_KeyPrefix def' = td_KeyPrefix def"
  by (auto simp: vet_task_type_def Let_def split: option.splits sum.splits if_splits)

lemma prefix_fixed_with_tasks:
  assumes "st_GetTaskType (sv_stores s) (sv_state s) (td_Key def) = Inr current"
    and "td_TaskCount current > 0" and "td_KeyPrefix current \<noteq> td_KeyPrefix def"
  shows "snd (UpdateTaskType def s) = s \<and> (\<exists>err. fst (UpdateTaskType def s) = Inl err)"
proof (cases "vet_task_type def s")
  case (Inr def')
  then show ?thesis
    using assms vet_task_type_fixed [OF Inr] by (simp add: UpdateTaskType_def)
qed (simp add: UpdateTaskType_def)

text \<open>Stores with one role and no state, for the examples.\<close>

definition one_role_stores :: "AgentRole \<Rightarrow> unit stores" where
  "one_role_stores role =
     \<lparr>st_LoadAll = (\<lambda>_. Inr []), st_ListRoles = (\<lambda>_. Inr [role]), st_ListPurposes = (\<lambda>_. Inr []),
      st_GetRole = (\<lambda>_ _. Inr role), st_CreateRole = (\<lambda>r st. (Inr r, st)),
      st_UpdateRole = (\<lambda>r st. (Inr r, st)), st_DeleteRole = (\<lambda>_ st. (None, st)),
      st_SetAssignments = (\<lambda>_ _ st. (None, st)), st_SetAgentRoles = (\<lambda>_ _ st. (None, st)),
      st_SetPurpose = (\<lambda>_ _ st. (None, st)), st_GetTaskType = (\<lambda>_ t. Inr (plain_type t)),
      st_CreateTaskType = (\<lambda>t _ st. (Inr t, st)), st_UpdateTaskType = (\<lambda>t st. (Inr t, st)),
      st_DeleteTaskType = (\<lambda>_ st. (None, st)), st_ReplaceStages = (\<lambda>_ _ st. (None, st))\<rparr>"

definition tool_role :: AgentRole where
  "tool_role =
     \<lparr>role_ID = 7, role_Key = ''dev'', role_Name = '''', role_Description = '''',
      role_RequiredTools = [''read_file''], role_Assignments = [], role_Purposes = []\<rparr>"

definition scoped_agent :: Agent where
  "scoped_agent =
     \<lparr>agent_ID = 1, agent_Name = ''a'', agent_Description = '''', agent_SubagentType = '''',
      agent_SystemPrompt = '''', agent_ProviderType = '''', agent_Model = '''', agent_ModelHeavy = '''',
      agent_MaxTurns = 0, agent_Effort = '''',
      agent_ToolPolicy = \<lparr>tp_AllowMCPServers = [], tp_AllowTools = [''write_file'']\<rparr>,
      agent_Enabled = True, agent_SelfEvolutionEnabled = False\<rparr>"

definition one_role_service :: "unit Service" where
  "one_role_service =
     \<lparr>sv_stores = one_role_stores tool_role, sv_board = None,
      sv_agentCatalog = Some \<lparr>ac_GetAgent = (\<lambda>_ _. Inr scoped_agent),
        ac_UpdateAgent = (\<lambda>_ agent st. (Inr agent, st))\<rparr>,
      sv_state = (), sv_snap = None\<rparr>"

lemma snapshot_empty_fails_closed_witness:
  "service_Workflow one_role_service ''task'' = Inl ErrSnapshotEmpty"
  using snapshot_empty_fails_closed [of one_role_service "''task''" 7 "''''" "''''" None 1 "''''"]
  by (simp add: one_role_service_def)

lemma unconfirmed_assignment_needs_tools_witness:
  "\<exists>err. SetRoleAssignmentsChecked 7
     [\<lparr>ra_AgentID = 1, ra_AgentName = '''', ra_Areas = [], ra_Priority = 0\<rparr>] False one_role_service =
     (Inl err, one_role_service)"
proof -
  let ?as = "[\<lparr>ra_AgentID = 1, ra_AgentName = '''', ra_Areas = [], ra_Priority = 0\<rparr>] :: RoleAssignment list"
  have "MissingTools (agent_ToolPolicy scoped_agent) [''read_file''] \<noteq> []"
    by code_simp
  then show ?thesis
    using unconfirmed_assignment_needs_tools [of one_role_service _ 7 tool_role ?as]
    by (simp add: one_role_service_def one_role_stores_def tool_role_def)
qed

lemma Reload_all_or_nothing_witness:
  "sv_snap (snd (Reload one_role_service)) \<noteq> None"
proof -
  have "fst (Reload one_role_service) = None"
    by (simp add: Reload_def one_role_service_def one_role_stores_def)
  then show ?thesis
    using Reload_all_or_nothing [of one_role_service]
    by (cases "Reload one_role_service") auto
qed

definition odd_stage :: WorkflowStage where
  "odd_stage =
     \<lparr>ws_ID = 1, ws_TaskType = TaskTypeTask, ws_Column = TaskColumnCodeReview, ws_Position = 4,
      ws_OnPath = True, ws_Kind = ''gate'', ws_Behaviours = [], ws_Instructions = '''',
      ws_Participants = []\<rparr>"

lemma ReplaceStages_only_valid_witness:
  "\<exists>err. ReplaceStages ''task'' [odd_stage] one_role_service = (Some err, one_role_service)"
proof -
  have "\<not> stage_ok cols odd_stage" for cols
    by (simp add: stage_ok_def odd_stage_def ValidStageKind_def col_defs)
  then have "snd (ReplaceStages ''task'' [odd_stage] one_role_service) = one_role_service \<and>
      fst (ReplaceStages ''task'' [odd_stage] one_role_service) \<noteq> None"
    using ReplaceStages_only_valid [of one_role_service "[odd_stage]" "''task''"] by auto
  then show ?thesis
    by (cases "ReplaceStages ''task'' [odd_stage] one_role_service") auto
qed

end
