(* ===== verification/Default_Workflow.thy ===== *)
theory Default_Workflow
  imports Workflow_Service Transitions
begin

text \<open>
  The workflows a fresh install has: \<open>server/internal/application/workflow/workflowtest\<close>, which
  holds in Go what the migrations write. \<open>newSHA1\<close> is \<open>uuid.NewSHA1\<close> in the OID name space, a
  parameter. A column missing from one of the source's maps has no behaviours.

  The lemmas evaluate the model on this data: the default stages pass validation, their review
  chains are the documented ones, and every move the engine makes on its own is one the default
  board accepts.
\<close>

section \<open>The fixture\<close>

definition AgentID :: "(string \<Rightarrow> uuid) \<Rightarrow> string \<Rightarrow> uuid" where
  "AgentID newSHA1 name = newSHA1 (''tasktrooper-agent:'' @ name)"

definition RoleID :: "(string \<Rightarrow> uuid) \<Rightarrow> string \<Rightarrow> uuid" where
  "RoleID newSHA1 key = newSHA1 (''tasktrooper-role:'' @ key)"

definition ref :: "BehaviourKey \<Rightarrow> (string \<times> string) list \<Rightarrow> BehaviourRef" where
  "ref key params = \<lparr>br_Key = key, br_Params = params\<rparr>"

definition columns :: "(TaskColumn \<times> StageKind) list" where
  "columns =
     [(TaskColumnBacklog, StageKindIntake),
      (TaskColumnTodo, StageKindQueue),
      (TaskColumnInProgress, StageKindWork),
      (TaskColumnAnalizReview, StageKindApproval),
      (TaskColumnCodeReview, StageKindReview),
      (TaskColumnReadyForQA, StageKindQueue),
      (TaskColumnInQA, StageKindReview),
      (TaskColumnNeedRevision, StageKindRework),
      (TaskColumnPMUAT, StageKindReview),
      (TaskColumnHumanUAT, StageKindApproval),
      (TaskColumnBlocked, StageKindParked),
      (TaskColumnDone, StageKindTerminal),
      (TaskColumnReleased, StageKindTerminal)]"

definition allTypesBehaviours :: "TaskColumn \<Rightarrow> BehaviourRef list" where
  "allTypesBehaviours c =
     (if c = TaskColumnBacklog then
        []
      else if c = TaskColumnTodo then
        [ref BehaviourAutoEnter [(''to'', ''in_progress''), (''assignee_only'', ''true'')],
         ref BehaviourBlockOnDependencies [],
         ref BehaviourCommitOnFinish []]
      else if c = TaskColumnInProgress then
        [ref BehaviourBlockOnDependencies [(''refuse_move'', ''true'')],
         ref BehaviourCommitOnFinish []]
      else if c = TaskColumnAnalizReview then
        [ref BehaviourRouteToSubscribers [],
         ref BehaviourStripWriters []]
      else if c = TaskColumnCodeReview then
        [ref BehaviourRouteToSubscribers [],
         ref BehaviourWaitForCI [],
         ref BehaviourEnsurePROnEnter [],
         ref BehaviourDetectMigrationOnEnter [],
         ref BehaviourStageDeployOnEnter [(''when'', ''per_step'')],
         ref BehaviourRequirePRForReview [],
         ref BehaviourRequireCriteriaComplete [],
         ref BehaviourStripWriters []]
      else if c = TaskColumnReadyForQA then
        [ref BehaviourRouteToSubscribers [],
         ref BehaviourDetectMigrationOnEnter [],
         ref BehaviourStageDeployOnEnter [(''when'', ''qa'')],
         ref BehaviourRequireCriteriaComplete [],
         ref BehaviourCriterionVerdict [(''channel'', ''qa'')],
         ref BehaviourRequireTestCases [],
         ref BehaviourStripWriters [],
         ref BehaviourCommitOnFinish []]
      else if c = TaskColumnInQA then
        [ref BehaviourRouteToSubscribers [],
         ref BehaviourCriterionVerdict [(''channel'', ''qa'')],
         ref BehaviourRequireTestCases [],
         ref BehaviourStripWriters [],
         ref BehaviourCommitOnFinish []]
      else if c = TaskColumnNeedRevision then
        [ref BehaviourAutoEnter [(''to'', ''in_progress''), (''assignee_only'', ''true'')],
         ref BehaviourCommitOnFinish []]
      else if c = TaskColumnPMUAT then
        [ref BehaviourRouteToSubscribers [],
         ref BehaviourEnsurePROnEnter [],
         ref BehaviourForwardExit [],
         ref BehaviourCriterionVerdict [(''channel'', ''pm'')],
         ref BehaviourRequireProductCheck [],
         ref BehaviourStripWriters [],
         ref BehaviourNoCodeReading []]
      else if c = TaskColumnHumanUAT then
        [ref BehaviourRouteToSubscribers [],
         ref BehaviourForwardExit [],
         ref BehaviourStripWriters [],
         ref BehaviourNoCodeReading [],
         ref BehaviourCommitOnFinish []]
      else if c = TaskColumnBlocked then
        []
      else if c = TaskColumnDone then
        [ref BehaviourEnsurePROnEnter [],
         ref BehaviourForwardExit [],
         ref BehaviourRequireCriteriaComplete [],
         ref BehaviourStripWriters [(''allow'', ''merge_task_pull_request,release_control'')]]
      else if c = TaskColumnReleased then
        [ref BehaviourForwardExit [],
         ref BehaviourRequireCriteriaComplete [],
         ref BehaviourStripWriters [(''allow'', ''release_control'')]]
      else [])"

definition codingExtra :: "TaskColumn \<Rightarrow> BehaviourRef list" where
  "codingExtra c =
     (if c = TaskColumnTodo then
        [ref BehaviourBuildVerify []]
      else if c = TaskColumnInProgress then
        [ref BehaviourBuildVerify [],
         ref BehaviourAdvanceOnDiff [(''to'', ''code_review'')]]
      else if c = TaskColumnCodeReview then
        [ref BehaviourReviewVerdictSweep [(''pass_to'', ''ready_for_qa'')],
         ref BehaviourReviewChainStage [(''label'', ''code review''), (''remedy'', ''move it to code_review so the diff is reviewed'')]]
      else if c = TaskColumnReadyForQA then
        [ref BehaviourBuildVerify [],
         ref BehaviourAutoEnter [(''to'', ''in_qa''), (''assignee_only'', ''false'')],
         ref BehaviourRequireExecutionEvidence [],
         ref BehaviourReviewVerdictSweep [(''pass_to'', ''pm_uat'')]]
      else if c = TaskColumnInQA then
        [ref BehaviourBuildVerify [],
         ref BehaviourRequireExecutionEvidence [],
         ref BehaviourReviewVerdictSweep [(''pass_to'', ''pm_uat'')],
         ref BehaviourReviewChainStage [(''label'', ''QA''), (''remedy'', ''move it to ready_for_qa; QA takes it into in_qa and tests it there'')]]
      else if c = TaskColumnNeedRevision then
        [ref BehaviourBuildVerify [],
         ref BehaviourAdvanceOnDiff [(''to'', ''code_review'')]]
      else if c = TaskColumnPMUAT then
        [ref BehaviourReviewVerdictSweep [(''pass_to'', ''human_uat'')],
         ref BehaviourReviewChainStage [(''label'', ''UAT''), (''remedy'', ''move it to pm_uat so every acceptance criterion is verified against QA's evidence'')]]
      else if c = TaskColumnHumanUAT then
        [ref BehaviourBuildVerify [],
         ref BehaviourStoreTestBuildOnEnter []]
      else if c = TaskColumnDone then
        [ref BehaviourDispatchSuspended [],
         ref BehaviourMergePROnEnter [],
         ref BehaviourWatchDeployOnResume []]
      else if c = TaskColumnReleased then
        [ref BehaviourWatchDeployOnResume []]
      else [])"

definition analizExtraBehaviours :: "TaskColumn \<Rightarrow> BehaviourRef list" where
  "analizExtraBehaviours c =
     (if c = TaskColumnInProgress then
        [ref BehaviourAdvanceOnDocument [(''to'', ''analiz_review'')]]
      else if c = TaskColumnAnalizReview then
        [ref BehaviourReviewChainStage [(''label'', ''analiz review''), (''remedy'', ''move it to analiz_review and approve the spec/plan there'')]]
      else if c = TaskColumnNeedRevision then
        [ref BehaviourAdvanceOnDocument [(''to'', ''analiz_review'')]]
      else [])"

definition designExtraBehaviours :: "TaskColumn \<Rightarrow> BehaviourRef list" where
  "designExtraBehaviours c =
     (if c = TaskColumnInProgress then
        [ref BehaviourAdvanceOnDocument [(''to'', ''analiz_review'')]]
      else if c = TaskColumnAnalizReview then
        [ref BehaviourReviewChainStage [(''label'', ''design review''), (''remedy'', ''move it to analiz_review and approve the design there'')]]
      else if c = TaskColumnNeedRevision then
        [ref BehaviourAdvanceOnDocument [(''to'', ''analiz_review'')]]
      else if c = TaskColumnDone then
        [ref BehaviourApproveDesignSystem []]
      else [])"

definition onPath :: "TaskType \<Rightarrow> TaskColumn \<Rightarrow> bool" where
  "onPath taskType col =
     (if col = TaskColumnNeedRevision \<or> col = TaskColumnBlocked then False
      else if taskType = TaskTypeAnaliz \<or> taskType = TaskTypeDesign then
        col = TaskColumnBacklog \<or> col = TaskColumnTodo \<or> col = TaskColumnInProgress \<or>
        col = TaskColumnAnalizReview \<or> col = TaskColumnDone \<or> col = TaskColumnReleased
      else if taskType = TaskTypeTechnical \<and> col = TaskColumnPMUAT then False
      else col \<noteq> TaskColumnAnalizReview)"

definition analizRemovedColumns :: "TaskColumn \<Rightarrow> bool" where
  "analizRemovedColumns col \<longleftrightarrow>
     col = TaskColumnCodeReview \<or> col = TaskColumnReadyForQA \<or> col = TaskColumnInQA \<or>
     col = TaskColumnPMUAT \<or> col = TaskColumnHumanUAT"

definition technicalOverride :: "TaskColumn \<Rightarrow> BehaviourRef list \<Rightarrow> BehaviourRef list" where
  "technicalOverride col extra =
     (if col = TaskColumnReadyForQA \<or> col = TaskColumnInQA
      then map (\<lambda>b. if br_Key b = BehaviourReviewVerdictSweep
                    then ref BehaviourReviewVerdictSweep [(''pass_to'', ''human_uat'')] else b) extra
      else if col = TaskColumnPMUAT
      then filter (\<lambda>b. br_Key b \<noteq> BehaviourReviewChainStage) extra
      else extra)"

definition participant :: "ParticipantMode \<Rightarrow> uuid \<Rightarrow> StageParticipant" where
  "participant mode roleID =
     \<lparr>sp_RoleID = roleID, sp_Mode = mode, sp_Instructions = '''', sp_Position = 0\<rparr>"

definition participantsFor ::
  "(string \<Rightarrow> uuid) \<Rightarrow> TaskType \<Rightarrow> TaskColumn \<Rightarrow> StageParticipant list" where
  "participantsFor newSHA1 taskType col =
     (let worker = (\<lambda>key. participant ParticipantModeWorker (RoleID newSHA1 key));
          approver = (\<lambda>key. participant ParticipantModeApprover (RoleID newSHA1 key)) in
      if taskType = TaskTypeAnaliz then
        (if col = TaskColumnInProgress \<or> col = TaskColumnNeedRevision \<or> col = TaskColumnDone
         then [worker ''analyst''] else [])
      else if taskType = TaskTypeDesign then
        (if col = TaskColumnInProgress \<or> col = TaskColumnNeedRevision \<or> col = TaskColumnDone
         then [worker ''designer''] else [])
      else if col = TaskColumnInProgress \<or> col = TaskColumnNeedRevision then [worker ''developer'']
      else if col = TaskColumnCodeReview then [approver ''architect'']
      else if col = TaskColumnReadyForQA \<or> col = TaskColumnInQA then [worker ''qa'']
      else if col = TaskColumnDone \<or> col = TaskColumnReleased then [worker ''release'']
      else if col = TaskColumnPMUAT then [approver ''product_manager'']
      else [])"

definition stage_behaviours :: "TaskType \<Rightarrow> TaskColumn \<Rightarrow> BehaviourRef list" where
  "stage_behaviours taskType col =
     allTypesBehaviours col @
     (if taskType = TaskTypeAnaliz then analizExtraBehaviours col
      else if taskType = TaskTypeDesign then designExtraBehaviours col
      else let extra = codingExtra col
        in if taskType = TaskTypeTechnical then technicalOverride col extra else extra)"

text \<open>\<open>for i, c := range columns\<close>, with \<open>continue\<close> for the columns the type lacks.\<close>

fun stages_loop ::
  "(string \<Rightarrow> uuid) \<Rightarrow> TaskType \<Rightarrow> int \<Rightarrow> (TaskColumn \<times> StageKind) list \<Rightarrow> WorkflowStage list" where
  "stages_loop newSHA1 taskType i [] = []"
| "stages_loop newSHA1 taskType i ((slug, kind) # cols) =
     (if (taskType = TaskTypeAnaliz \<or> taskType = TaskTypeDesign) \<and> analizRemovedColumns slug
      then stages_loop newSHA1 taskType (i + 1) cols
      else \<lparr>ws_ID = uuid_Nil, ws_TaskType = taskType, ws_Column = slug, ws_Position = i,
            ws_OnPath = onPath taskType slug, ws_Kind = kind,
            ws_Behaviours = stage_behaviours taskType slug, ws_Instructions = '''',
            ws_Participants = participantsFor newSHA1 taskType slug\<rparr>
           # stages_loop newSHA1 taskType (i + 1) cols)"

definition stagesFor :: "(string \<Rightarrow> uuid) \<Rightarrow> TaskType \<Rightarrow> WorkflowStage list" where
  "stagesFor newSHA1 taskType = stages_loop newSHA1 taskType 0 columns"

definition requiredAnalizToolsSnapshot :: "string list" where
  "requiredAnalizToolsSnapshot =
     [''codebase_search'', ''grep_code'', ''get_repo_tree'', ''get_symbol_skeleton'',
      ''expand_symbol_context'', ''read_file'',
      ''add_task_document'', ''update_task_document'',
      ''claim_board_task'', ''move_board_task'',
      ''add_task_comment'', ''list_task_comments'', ''list_task_documents'', ''create_board_task'',
      ''record_open_questions'', ''list_open_questions'']"

definition assignment :: "(string \<Rightarrow> uuid) \<Rightarrow> string \<Rightarrow> string list \<Rightarrow> RoleAssignment" where
  "assignment newSHA1 agentName areas =
     \<lparr>ra_AgentID = AgentID newSHA1 agentName, ra_AgentName = agentName, ra_Areas = areas,
      ra_Priority = 0\<rparr>"

definition default_role ::
  "(string \<Rightarrow> uuid) \<Rightarrow> string \<Rightarrow> string \<Rightarrow> string \<Rightarrow> string list \<Rightarrow> RoleAssignment list \<Rightarrow> AgentRole" where
  "default_role newSHA1 key name desc tools assignments =
     \<lparr>role_ID = RoleID newSHA1 key, role_Key = key, role_Name = name, role_Description = desc,
      role_RequiredTools = tools, role_Assignments = assignments, role_Purposes = []\<rparr>"

definition Default_roles :: "(string \<Rightarrow> uuid) \<Rightarrow> AgentRole list" where
  "Default_roles newSHA1 =
     [default_role newSHA1 ''developer'' ''Developer''
        ''Writes the implementation for task/bug/technical work.'' []
        [assignment newSHA1 ''backend-developer'' [''backend''],
         assignment newSHA1 ''frontend-developer'' [''frontend''],
         assignment newSHA1 ''mobile-developer'' [''mobile'']],
      default_role newSHA1 ''analyst'' ''Analyst''
        ''Produces the spec and implementation plan for an analiz task.''
        requiredAnalizToolsSnapshot [assignment newSHA1 ''system-architect'' []],
      default_role newSHA1 ''architect'' ''Architect''
        ''Reviews diffs and designs rather than writing code.'' []
        [assignment newSHA1 ''system-architect'' []],
      default_role newSHA1 ''qa'' ''QA'' ''Tests the product as a black box before UAT.'' []
        [assignment newSHA1 ''qa-agent'' []],
      default_role newSHA1 ''product_manager'' ''Product Manager''
        ''Verifies acceptance criteria against QA's evidence.'' []
        [assignment newSHA1 ''product-manager'' []],
      default_role newSHA1 ''release'' ''Release Engineer''
        (''Merges signed-off work, ships it, verifies production after the deploy '' @
         ''and rolls back what breaks.'') [] [],
      default_role newSHA1 ''designer'' ''Designer''
        ''Owns the design system and designs screens before they are built.'' [] [],
      default_role newSHA1 ''security'' ''Security Reviewer''
        (''Reviews every pull request in code_review for security issues '' @
         ''and blocks the ones that introduce an exploitable vulnerability.'') [] []]"

definition Default_purposes :: "(string \<Rightarrow> uuid) \<Rightarrow> RolePurpose list" where
  "Default_purposes newSHA1 =
     [\<lparr>rp_Purpose = PurposeSystemTaskAssignee, rp_RoleID = Some (RoleID newSHA1 ''developer'')\<rparr>,
      \<lparr>rp_Purpose = PurposeRepoProfiler, rp_RoleID = Some (RoleID newSHA1 ''architect'')\<rparr>]"

definition default_type ::
  "TaskType \<Rightarrow> string \<Rightarrow> string \<Rightarrow> int \<Rightarrow> bool \<Rightarrow> bool \<Rightarrow> uuid option \<Rightarrow> AssigneeMode \<Rightarrow>
   BehaviourRef list \<Rightarrow> TaskTypeDef" where
  "default_type key label prefx position isDefault isDefect role mode behaviours =
     \<lparr>td_Key = key, td_Label = label, td_KeyPrefix = prefx, td_Position = position,
      td_IsDefault = isDefault, td_IsDefect = isDefect, td_AssigneeRoleID = role,
      td_AssigneeMode = mode, td_Behaviours = behaviours, td_BuiltIn = True, td_TaskCount = 0\<rparr>"

definition Default_taskTypes :: "(string \<Rightarrow> uuid) \<Rightarrow> TaskTypeDef list" where
  "Default_taskTypes newSHA1 =
     [default_type TaskTypeTask ''Task'' ''T'' 0 True False None AssigneeModeNone [],
      default_type TaskTypeAnaliz ''Analysis'' ''A'' 1 False False
        (Some (RoleID newSHA1 ''analyst'')) AssigneeModeOverride
        [ref BehaviourNoWorkspaceWrites [], ref BehaviourRequireRepoGrounding []],
      default_type TaskTypeBug ''Bug'' ''B'' 2 False True None AssigneeModeNone [],
      default_type TaskTypeTechnical ''Technical'' ''TC'' 3 False False None AssigneeModeNone [],
      default_type TaskTypeDesign ''Design'' ''D'' 4 False False
        (Some (RoleID newSHA1 ''designer'')) AssigneeModeOverride
        [ref BehaviourNoWorkspaceWrites []]]"

definition Default_workflows :: "(string \<Rightarrow> uuid) \<Rightarrow> Workflow list" where
  "Default_workflows newSHA1 =
     map (\<lambda>t. \<lparr>wf_Type = t, wf_Stages = stagesFor newSHA1 (td_Key t)\<rparr>) (Default_taskTypes newSHA1)"

definition Default_snapshot :: "(string \<Rightarrow> uuid) \<Rightarrow> snapshot" where
  "Default_snapshot newSHA1 =
     build_snapshot (Default_workflows newSHA1) (Default_roles newSHA1) (Default_purposes newSHA1)"

section \<open>What the default data satisfies\<close>

definition default_board :: "string \<Rightarrow> bool" where
  "default_board slug \<longleftrightarrow> slug \<in> set (TaskColumnBacklog # BoardColumns)"

definition default_workflow :: "(string \<Rightarrow> uuid) \<Rightarrow> TaskType \<Rightarrow> Workflow" where
  "default_workflow newSHA1 t =
     \<lparr>wf_Type = hd (filter (\<lambda>d. td_Key d = t) (Default_taskTypes newSHA1)),
      wf_Stages = stagesFor newSHA1 t\<rparr>"

text \<open>Where the engine moves a task without being asked: a stage's column and its target.\<close>

definition automatic_moves :: "WorkflowStage \<Rightarrow> (TaskColumn \<times> TaskColumn) list" where
  "automatic_moves st =
     concat (map (\<lambda>(key, name).
        case WorkflowStage_Param st key name of
          None \<Rightarrow> [] | Some to_col \<Rightarrow> [(ws_Column st, to_col)])
       [(BehaviourAutoEnter, ''to''), (BehaviourAdvanceOnDiff, ''to''),
        (BehaviourAdvanceOnDocument, ''to''), (BehaviourReviewVerdictSweep, ''pass_to'')])"

lemma columns_distinct: "distinct (map fst columns)"
  by code_simp

lemma column_neqs:
  "TaskColumnBacklog \<noteq> TaskColumnTodo" "TaskColumnBacklog \<noteq> TaskColumnInProgress"
  "TaskColumnBacklog \<noteq> TaskColumnAnalizReview"
  "TaskColumnBacklog \<noteq> TaskColumnCodeReview"
  "TaskColumnBacklog \<noteq> TaskColumnReadyForQA" "TaskColumnBacklog \<noteq> TaskColumnInQA"
  "TaskColumnBacklog \<noteq> TaskColumnNeedRevision" "TaskColumnBacklog \<noteq> TaskColumnPMUAT"
  "TaskColumnBacklog \<noteq> TaskColumnHumanUAT" "TaskColumnBacklog \<noteq> TaskColumnBlocked"
  "TaskColumnBacklog \<noteq> TaskColumnDone" "TaskColumnBacklog \<noteq> TaskColumnReleased"
  "TaskColumnTodo \<noteq> TaskColumnBacklog" "TaskColumnTodo \<noteq> TaskColumnInProgress"
  "TaskColumnTodo \<noteq> TaskColumnAnalizReview" "TaskColumnTodo \<noteq> TaskColumnCodeReview"
  "TaskColumnTodo \<noteq> TaskColumnReadyForQA" "TaskColumnTodo \<noteq> TaskColumnInQA"
  "TaskColumnTodo \<noteq> TaskColumnNeedRevision" "TaskColumnTodo \<noteq> TaskColumnPMUAT"
  "TaskColumnTodo \<noteq> TaskColumnHumanUAT" "TaskColumnTodo \<noteq> TaskColumnBlocked"
  "TaskColumnTodo \<noteq> TaskColumnDone" "TaskColumnTodo \<noteq> TaskColumnReleased"
  "TaskColumnInProgress \<noteq> TaskColumnBacklog" "TaskColumnInProgress \<noteq> TaskColumnTodo"
  "TaskColumnInProgress \<noteq> TaskColumnAnalizReview"
  "TaskColumnInProgress \<noteq> TaskColumnCodeReview"
  "TaskColumnInProgress \<noteq> TaskColumnReadyForQA"
  "TaskColumnInProgress \<noteq> TaskColumnInQA"
  "TaskColumnInProgress \<noteq> TaskColumnNeedRevision"
  "TaskColumnInProgress \<noteq> TaskColumnPMUAT" "TaskColumnInProgress \<noteq> TaskColumnHumanUAT"
  "TaskColumnInProgress \<noteq> TaskColumnBlocked" "TaskColumnInProgress \<noteq> TaskColumnDone"
  "TaskColumnInProgress \<noteq> TaskColumnReleased"
  "TaskColumnAnalizReview \<noteq> TaskColumnBacklog"
  "TaskColumnAnalizReview \<noteq> TaskColumnTodo"
  "TaskColumnAnalizReview \<noteq> TaskColumnInProgress"
  "TaskColumnAnalizReview \<noteq> TaskColumnCodeReview"
  "TaskColumnAnalizReview \<noteq> TaskColumnReadyForQA"
  "TaskColumnAnalizReview \<noteq> TaskColumnInQA"
  "TaskColumnAnalizReview \<noteq> TaskColumnNeedRevision"
  "TaskColumnAnalizReview \<noteq> TaskColumnPMUAT"
  "TaskColumnAnalizReview \<noteq> TaskColumnHumanUAT"
  "TaskColumnAnalizReview \<noteq> TaskColumnBlocked"
  "TaskColumnAnalizReview \<noteq> TaskColumnDone"
  "TaskColumnAnalizReview \<noteq> TaskColumnReleased"
  "TaskColumnCodeReview \<noteq> TaskColumnBacklog" "TaskColumnCodeReview \<noteq> TaskColumnTodo"
  "TaskColumnCodeReview \<noteq> TaskColumnInProgress"
  "TaskColumnCodeReview \<noteq> TaskColumnAnalizReview"
  "TaskColumnCodeReview \<noteq> TaskColumnReadyForQA"
  "TaskColumnCodeReview \<noteq> TaskColumnInQA"
  "TaskColumnCodeReview \<noteq> TaskColumnNeedRevision"
  "TaskColumnCodeReview \<noteq> TaskColumnPMUAT" "TaskColumnCodeReview \<noteq> TaskColumnHumanUAT"
  "TaskColumnCodeReview \<noteq> TaskColumnBlocked" "TaskColumnCodeReview \<noteq> TaskColumnDone"
  "TaskColumnCodeReview \<noteq> TaskColumnReleased"
  "TaskColumnReadyForQA \<noteq> TaskColumnBacklog" "TaskColumnReadyForQA \<noteq> TaskColumnTodo"
  "TaskColumnReadyForQA \<noteq> TaskColumnInProgress"
  "TaskColumnReadyForQA \<noteq> TaskColumnAnalizReview"
  "TaskColumnReadyForQA \<noteq> TaskColumnCodeReview"
  "TaskColumnReadyForQA \<noteq> TaskColumnInQA"
  "TaskColumnReadyForQA \<noteq> TaskColumnNeedRevision"
  "TaskColumnReadyForQA \<noteq> TaskColumnPMUAT" "TaskColumnReadyForQA \<noteq> TaskColumnHumanUAT"
  "TaskColumnReadyForQA \<noteq> TaskColumnBlocked" "TaskColumnReadyForQA \<noteq> TaskColumnDone"
  "TaskColumnReadyForQA \<noteq> TaskColumnReleased" "TaskColumnInQA \<noteq> TaskColumnBacklog"
  "TaskColumnInQA \<noteq> TaskColumnTodo" "TaskColumnInQA \<noteq> TaskColumnInProgress"
  "TaskColumnInQA \<noteq> TaskColumnAnalizReview" "TaskColumnInQA \<noteq> TaskColumnCodeReview"
  "TaskColumnInQA \<noteq> TaskColumnReadyForQA" "TaskColumnInQA \<noteq> TaskColumnNeedRevision"
  "TaskColumnInQA \<noteq> TaskColumnPMUAT" "TaskColumnInQA \<noteq> TaskColumnHumanUAT"
  "TaskColumnInQA \<noteq> TaskColumnBlocked" "TaskColumnInQA \<noteq> TaskColumnDone"
  "TaskColumnInQA \<noteq> TaskColumnReleased" "TaskColumnNeedRevision \<noteq> TaskColumnBacklog"
  "TaskColumnNeedRevision \<noteq> TaskColumnTodo"
  "TaskColumnNeedRevision \<noteq> TaskColumnInProgress"
  "TaskColumnNeedRevision \<noteq> TaskColumnAnalizReview"
  "TaskColumnNeedRevision \<noteq> TaskColumnCodeReview"
  "TaskColumnNeedRevision \<noteq> TaskColumnReadyForQA"
  "TaskColumnNeedRevision \<noteq> TaskColumnInQA" "TaskColumnNeedRevision \<noteq> TaskColumnPMUAT"
  "TaskColumnNeedRevision \<noteq> TaskColumnHumanUAT"
  "TaskColumnNeedRevision \<noteq> TaskColumnBlocked"
  "TaskColumnNeedRevision \<noteq> TaskColumnDone"
  "TaskColumnNeedRevision \<noteq> TaskColumnReleased" "TaskColumnPMUAT \<noteq> TaskColumnBacklog"
  "TaskColumnPMUAT \<noteq> TaskColumnTodo" "TaskColumnPMUAT \<noteq> TaskColumnInProgress"
  "TaskColumnPMUAT \<noteq> TaskColumnAnalizReview" "TaskColumnPMUAT \<noteq> TaskColumnCodeReview"
  "TaskColumnPMUAT \<noteq> TaskColumnReadyForQA" "TaskColumnPMUAT \<noteq> TaskColumnInQA"
  "TaskColumnPMUAT \<noteq> TaskColumnNeedRevision" "TaskColumnPMUAT \<noteq> TaskColumnHumanUAT"
  "TaskColumnPMUAT \<noteq> TaskColumnBlocked" "TaskColumnPMUAT \<noteq> TaskColumnDone"
  "TaskColumnPMUAT \<noteq> TaskColumnReleased" "TaskColumnHumanUAT \<noteq> TaskColumnBacklog"
  "TaskColumnHumanUAT \<noteq> TaskColumnTodo" "TaskColumnHumanUAT \<noteq> TaskColumnInProgress"
  "TaskColumnHumanUAT \<noteq> TaskColumnAnalizReview"
  "TaskColumnHumanUAT \<noteq> TaskColumnCodeReview"
  "TaskColumnHumanUAT \<noteq> TaskColumnReadyForQA" "TaskColumnHumanUAT \<noteq> TaskColumnInQA"
  "TaskColumnHumanUAT \<noteq> TaskColumnNeedRevision" "TaskColumnHumanUAT \<noteq> TaskColumnPMUAT"
  "TaskColumnHumanUAT \<noteq> TaskColumnBlocked" "TaskColumnHumanUAT \<noteq> TaskColumnDone"
  "TaskColumnHumanUAT \<noteq> TaskColumnReleased" "TaskColumnBlocked \<noteq> TaskColumnBacklog"
  "TaskColumnBlocked \<noteq> TaskColumnTodo" "TaskColumnBlocked \<noteq> TaskColumnInProgress"
  "TaskColumnBlocked \<noteq> TaskColumnAnalizReview"
  "TaskColumnBlocked \<noteq> TaskColumnCodeReview"
  "TaskColumnBlocked \<noteq> TaskColumnReadyForQA" "TaskColumnBlocked \<noteq> TaskColumnInQA"
  "TaskColumnBlocked \<noteq> TaskColumnNeedRevision" "TaskColumnBlocked \<noteq> TaskColumnPMUAT"
  "TaskColumnBlocked \<noteq> TaskColumnHumanUAT" "TaskColumnBlocked \<noteq> TaskColumnDone"
  "TaskColumnBlocked \<noteq> TaskColumnReleased" "TaskColumnDone \<noteq> TaskColumnBacklog"
  "TaskColumnDone \<noteq> TaskColumnTodo" "TaskColumnDone \<noteq> TaskColumnInProgress"
  "TaskColumnDone \<noteq> TaskColumnAnalizReview" "TaskColumnDone \<noteq> TaskColumnCodeReview"
  "TaskColumnDone \<noteq> TaskColumnReadyForQA" "TaskColumnDone \<noteq> TaskColumnInQA"
  "TaskColumnDone \<noteq> TaskColumnNeedRevision" "TaskColumnDone \<noteq> TaskColumnPMUAT"
  "TaskColumnDone \<noteq> TaskColumnHumanUAT" "TaskColumnDone \<noteq> TaskColumnBlocked"
  "TaskColumnDone \<noteq> TaskColumnReleased" "TaskColumnReleased \<noteq> TaskColumnBacklog"
  "TaskColumnReleased \<noteq> TaskColumnTodo" "TaskColumnReleased \<noteq> TaskColumnInProgress"
  "TaskColumnReleased \<noteq> TaskColumnAnalizReview"
  "TaskColumnReleased \<noteq> TaskColumnCodeReview"
  "TaskColumnReleased \<noteq> TaskColumnReadyForQA" "TaskColumnReleased \<noteq> TaskColumnInQA"
  "TaskColumnReleased \<noteq> TaskColumnNeedRevision" "TaskColumnReleased \<noteq> TaskColumnPMUAT"
  "TaskColumnReleased \<noteq> TaskColumnHumanUAT" "TaskColumnReleased \<noteq> TaskColumnBlocked"
  "TaskColumnReleased \<noteq> TaskColumnDone"
  by (simp_all add: col_defs)

text \<open>A behaviour as it stands in a stage of the default board.\<close>

definition good_ref :: "StageKind \<Rightarrow> BehaviourRef \<Rightarrow> bool" where
  "good_ref kind b \<longleftrightarrow> ref_ok BehaviourScopeStage (Some default_board) b \<and>
     (\<forall>spec. registry_lookup (br_Key b) = Some spec \<longrightarrow> AppliesToKind spec kind)"

definition good_in :: "(TaskColumn \<Rightarrow> BehaviourRef list) \<Rightarrow> bool" where
  "good_in table \<longleftrightarrow> (\<forall>(slug, kind) \<in> set columns. \<forall>b \<in> set (table slug). good_ref kind b)"

lemma good_ref_ref:
  "good_ref kind (ref key ps) \<longleftrightarrow>
     ref_ok BehaviourScopeStage (Some default_board) (ref key ps) \<and>
     AppliesToKind (the (registry_lookup key)) kind"
  by (auto simp: good_ref_def ref_def ref_ok_def)

lemma ref_ok_ref:
  "ref_ok scope cols (ref key ps) \<longleftrightarrow>
     registry_lookup key \<noteq> None \<and> bs_Scope (the (registry_lookup key)) = scope \<and>
     (\<forall>p \<in> set (bs_Params (the (registry_lookup key))).
        case map_of ps (ps_Name p) of
          None \<Rightarrow> \<not> ps_Required p
        | Some v \<Rightarrow> if v = '''' then \<not> ps_Required p else value_ok cols p v) \<and>
     fst ` set ps \<subseteq> ps_Name ` set (bs_Params (the (registry_lookup key)))"
  by (auto simp: ref_ok_def ref_def)

lemmas good_simps = good_in_def columns_def good_ref_ref ref_ok_ref registry_facts
  AppliesToKind_def param_spec_def value_ok_def column_missing_def

lemma default_board_slugs:
  "default_board ''in_progress''" "default_board ''code_review''" "default_board ''ready_for_qa''"
  "default_board ''in_qa''" "default_board ''pm_uat''" "default_board ''human_uat''"
  "default_board ''analiz_review''"
  by (code_simp)+

lemma good_allTypes: "good_in allTypesBehaviours"
  by (simp add: good_simps default_board_slugs allTypesBehaviours_def column_neqs)

lemma good_coding: "good_in codingExtra"
  by (simp add: good_simps default_board_slugs codingExtra_def column_neqs)

lemma good_analiz: "good_in analizExtraBehaviours"
  by (simp add: good_simps default_board_slugs analizExtraBehaviours_def column_neqs)

lemma good_design: "good_in designExtraBehaviours"
  by (simp add: good_simps default_board_slugs designExtraBehaviours_def column_neqs)

lemma good_technical:
  assumes "good_in table"
  shows "good_in (\<lambda>c. technicalOverride c (table c))"
proof -
  have "good_ref StageKindQueue (ref BehaviourReviewVerdictSweep [(''pass_to'', ''human_uat'')])"
    "good_ref StageKindReview (ref BehaviourReviewVerdictSweep [(''pass_to'', ''human_uat'')])"
    by (simp_all add: good_simps default_board_slugs)
  then show ?thesis
    using assms unfolding good_in_def columns_def
    by (auto simp: technicalOverride_def column_neqs)
qed

lemma good_append: "good_in f \<Longrightarrow> good_in g \<Longrightarrow> good_in (\<lambda>c. f c @ g c)"
  by (auto simp: good_in_def)

lemma good_stage_behaviours: "good_in (stage_behaviours t)"
  unfolding stage_behaviours_def Let_def
  using good_allTypes good_coding good_analiz good_design good_technical [OF good_coding]
  by (cases "t = TaskTypeAnaliz"; cases "t = TaskTypeDesign"; cases "t = TaskTypeTechnical")
    (simp_all add: good_append)

lemma stages_loop_member:
  "st \<in> set (stages_loop newSHA1 t i cols) \<Longrightarrow>
     (ws_Column st, ws_Kind st) \<in> set cols \<and>
     ws_Behaviours st = stage_behaviours t (ws_Column st) \<and>
     ws_Participants st = participantsFor newSHA1 t (ws_Column st)"
proof (induction cols arbitrary: i)
  case (Cons c cols)
  then show ?case
    using Cons.IH [of "i + 1"] by (cases c) (auto split: if_splits)
qed simp

lemma participantsFor_one:
  "length (participantsFor newSHA1 t col) \<le> 1"
  "p \<in> set (participantsFor newSHA1 t col) \<Longrightarrow> ValidParticipantMode (sp_Mode p)"
  by (auto simp: participantsFor_def participant_def Let_def ValidParticipantMode_def
      split: if_splits)

lemma columns_ok:
  "(slug, kind) \<in> set columns \<Longrightarrow> ValidStageKind kind \<and> default_board slug"
  by (auto simp: columns_def ValidStageKind_def default_board_def BoardColumns_def)

text \<open>
  Every stage of every built-in task type passes the validation the admin API applies: the
  kinds, behaviours and parameters are known, each behaviour applies to its stage's kind, every
  target column exists on the default board, and no stage has two workers or two approvers.
\<close>
theorem default_stages_valid:
  "ValidateStages (stagesFor newSHA1 t) (Some default_board) = []"
proof -
  have "stage_ok (Some default_board) st" if "st \<in> set (stagesFor newSHA1 t)" for st
  proof -
    note st = stages_loop_member [OF that [unfolded stagesFor_def]]
    have refs: "\<forall>b \<in> set (ws_Behaviours st). good_ref (ws_Kind st) b"
      using good_stage_behaviours [of t] st unfolding good_in_def by auto
    have "length (filter P (ws_Participants st)) \<le> 1" for P
      using participantsFor_one(1) [of newSHA1 t "ws_Column st"] st
      by (metis le_trans length_filter_le)
    then show ?thesis
      using st refs columns_ok [of "ws_Column st" "ws_Kind st"] participantsFor_one(2)
      by (auto simp: stage_ok_def good_ref_def column_missing_def)
  qed
  then show ?thesis by (simp add: ValidateStages_Nil)
qed

definition builtin_types :: "TaskType list" where
  "builtin_types =
     [TaskTypeTask, TaskTypeAnaliz, TaskTypeBug, TaskTypeTechnical, TaskTypeDesign]"

text \<open>
  The review chains of the built-in types: code work is reviewed in code_review, in_qa and
  pm_uat, technical work skips the product check, and analyses and designs are approved in
  analiz_review.
\<close>
theorem default_review_chains:
  "map (\<lambda>t. map rs_Column (ReviewChain (default_workflow newSHA1 t))) builtin_types =
     [[TaskColumnCodeReview, TaskColumnInQA, TaskColumnPMUAT],
      [TaskColumnAnalizReview],
      [TaskColumnCodeReview, TaskColumnInQA, TaskColumnPMUAT],
      [TaskColumnCodeReview, TaskColumnInQA],
      [TaskColumnAnalizReview]]"
  by code_simp

definition path_moves :: "Workflow \<Rightarrow> (TaskColumn \<times> TaskColumn) list" where
  "path_moves w =
     (let cols = map ws_Column (sortedOnPath w) in zip cols (tl cols))"

text \<open>
  No automatic move of a built-in workflow is refused by the default board: entering work,
  advancing on a diff or a document and passing a finished review all go along transitions the
  default board lists, and so does every step of a type's happy path.
\<close>
theorem default_moves_accepted:
  "list_all (\<lambda>t. list_all (\<lambda>(a, b). move_accepted DefaultBoardTransitions a b)
       (concat (map automatic_moves (stagesFor newSHA1 t)) @
        path_moves (default_workflow newSHA1 t))) builtin_types"
  by code_simp

end
