(* ===== verification/Reviews.thy ===== *)
theory Reviews
  imports Tasks Workflow "HOL-Library.AList"
begin

text \<open>
  Review rounds and verdicts: \<open>server/internal/domain/task_review.go\<close>,
  \<open>server/internal/domain/task_span.go\<close>, and the verdict tables behind
  \<open>server/internal/adapter/storage/postgres/task_review.go\<close>, whose SQL is modelled as
  operations on lists of rows.

  \<open>ReviewRoundSpans\<close> groups a task's visits to a column: the theorems show it cuts the history
  at every visit to another column except blocked. \<open>LatestVerdictPerReviewer\<close> keeps one verdict
  per reviewer, the latest.
\<close>

section \<open>Spans and verdicts\<close>

record TaskColumnSpan =
  span_ID :: uuid
  span_TaskID :: uuid
  span_RepositoryID :: uuid
  span_BoardColumn :: string
  span_AgentID :: "uuid option"
  span_EnteredAt :: time
  span_LeftAt :: "time option"
  span_DurationSeconds :: "int option"
  span_VisitNo :: int
  span_ReviewVerdict :: string
  span_PatchID :: string

definition ReviewVerdictApprove :: string where [col_defs]: "ReviewVerdictApprove = ''approve''"
definition ReviewVerdictReject :: string where [col_defs]: "ReviewVerdictReject = ''reject''"
definition ReviewVerdictPending :: string where [col_defs]: "ReviewVerdictPending = ''pending''"

definition ReviewRoundOpen :: string where [col_defs]: "ReviewRoundOpen = ''open''"
definition ReviewRoundApproved :: string where [col_defs]: "ReviewRoundApproved = ''approved''"
definition ReviewRoundRejected :: string where [col_defs]: "ReviewRoundRejected = ''rejected''"
definition ReviewRoundClosed :: string where [col_defs]: "ReviewRoundClosed = ''closed''"

record TaskReviewVerdict =
  trv_TaskID :: uuid
  trv_SpanID :: uuid
  trv_AgentID :: "uuid option"
  trv_AgentName :: string
  trv_Verdict :: string
  trv_DecidedAt :: time

record ReviewerRef =
  rref_ID :: uuid
  rref_Name :: string

record ReviewerStatus =
  rstat_AgentID :: "uuid option"
  rstat_AgentName :: string
  rstat_Verdict :: string
  rstat_DecidedAt :: "time option"
  rstat_Required :: bool

record TaskReviewRound =
  rr_Round :: nat
  rr_EnteredAt :: time
  rr_LeftAt :: "time option"
  rr_Outcome :: string
  rr_Reviewers :: "ReviewerStatus list"

record TaskReviews =
  trs_Column :: string
  trs_Rounds :: "TaskReviewRound list"

section \<open>Rounds\<close>

text \<open>The loop: the rounds so far, and whether the last one is still open.\<close>

fun round_loop ::
  "string \<Rightarrow> TaskColumnSpan list \<Rightarrow> TaskColumnSpan list list \<Rightarrow> bool \<Rightarrow> TaskColumnSpan list list" where
  "round_loop column [] rounds open = rounds"
| "round_loop column (sp # sps) rounds open =
     (if span_BoardColumn sp = column then
        (if open then round_loop column sps (butlast rounds @ [last rounds @ [sp]]) open
         else round_loop column sps (rounds @ [[sp]]) True)
      else if span_BoardColumn sp = TaskColumnBlocked then round_loop column sps rounds open
      else round_loop column sps rounds False)"

definition ReviewRoundSpans :: "TaskColumnSpan list \<Rightarrow> string \<Rightarrow> TaskColumnSpan list list" where
  "ReviewRoundSpans spans column = round_loop column spans [] False"

text \<open>
  The specification: cut the history at the visits to other columns, keep the visits to the
  column, drop the empty pieces.
\<close>

fun cut_at :: "('a \<Rightarrow> bool) \<Rightarrow> 'a list \<Rightarrow> 'a list list" where
  "cut_at P [] = [[]]"
| "cut_at P (x # xs) =
     (if P x then [] # cut_at P xs
      else (x # hd (cut_at P xs)) # tl (cut_at P xs))"

definition ends_round :: "string \<Rightarrow> TaskColumnSpan \<Rightarrow> bool" where
  "ends_round column sp \<longleftrightarrow> span_BoardColumn sp \<noteq> column \<and> span_BoardColumn sp \<noteq> TaskColumnBlocked"

definition rounds_of :: "string \<Rightarrow> TaskColumnSpan list list \<Rightarrow> TaskColumnSpan list list" where
  "rounds_of column pieces =
     filter (\<lambda>r. r \<noteq> []) (map (filter (\<lambda>sp. span_BoardColumn sp = column)) pieces)"

lemma cut_at_not_Nil [simp]: "cut_at P xs \<noteq> []"
  by (cases xs) auto

lemma rounds_of_Cons:
  "rounds_of column (p # ps) =
     (if filter (\<lambda>sp. span_BoardColumn sp = column) p = [] then rounds_of column ps
      else filter (\<lambda>sp. span_BoardColumn sp = column) p # rounds_of column ps)"
  by (simp add: rounds_of_def)

lemma round_loop_open:
  "round_loop column sps (rounds @ [r]) True =
     rounds @ [r @ filter (\<lambda>sp. span_BoardColumn sp = column) (hd (cut_at (ends_round column) sps))] @
     rounds_of column (tl (cut_at (ends_round column) sps))
   \<and> round_loop column sps rounds False =
     rounds @ rounds_of column (cut_at (ends_round column) sps)"
proof (induction sps arbitrary: rounds r)
  case (Cons sp sps)
  obtain p ps where split: "cut_at (ends_round column) sps = p # ps"
    by (cases "cut_at (ends_round column) sps") auto
  show ?case
    using Cons.IH [of rounds "r @ [sp]"] Cons.IH [of rounds "[sp]"] Cons.IH [of rounds r]
      Cons.IH [of "rounds @ [r]" r]
      ends_round_def [of column sp]
    by (simp add: split rounds_of_Cons)
qed (simp add: rounds_of_def)

lemma ReviewRoundSpans_spec:
  "ReviewRoundSpans spans column = rounds_of column (cut_at (ends_round column) spans)"
  using round_loop_open [of column spans "[]" "[]"] by (simp add: ReviewRoundSpans_def)

lemma concat_rounds_of: "concat (rounds_of column pieces) =
    filter (\<lambda>sp. span_BoardColumn sp = column) (concat pieces)"
  by (induction pieces) (auto simp: rounds_of_def)

lemma concat_cut_at: "concat (cut_at P xs) = filter (\<lambda>x. \<not> P x) xs"
proof (induction xs)
  case (Cons x xs)
  have "cut_at P xs = hd (cut_at P xs) # tl (cut_at P xs)" by simp
  with Cons show ?case by (metis (no_types, lifting) append_Cons append_Nil concat.simps(2) cut_at.simps(2) filter.simps(2))
qed simp

text \<open>Every visit is in exactly one round, in order; no round is empty.\<close>

lemma concat_ReviewRoundSpans:
  "concat (ReviewRoundSpans spans column) = filter (\<lambda>sp. span_BoardColumn sp = column) spans"
  by (auto simp: ReviewRoundSpans_spec concat_rounds_of concat_cut_at ends_round_def
      intro!: filter_cong)

lemma ReviewRoundSpans_nonempty: "r \<in> set (ReviewRoundSpans spans column) \<Longrightarrow> r \<noteq> []"
  by (simp add: ReviewRoundSpans_spec rounds_of_def)

section \<open>The latest verdict of each reviewer\<close>

definition reviewer_key :: "TaskReviewVerdict \<Rightarrow> string" where
  "reviewer_key v =
     (case trv_AgentID v of None \<Rightarrow> trv_AgentName v | Some agent \<Rightarrow> uuid_String agent)"

text \<open>The loop, with the map from reviewer to index in \<open>out\<close>.\<close>

fun verdict_loop ::
  "(uuid \<Rightarrow> bool) \<Rightarrow> TaskReviewVerdict list \<Rightarrow> (string \<times> nat) list \<Rightarrow> TaskReviewVerdict list \<Rightarrow>
   TaskReviewVerdict list" where
  "verdict_loop spanIDs [] latest out = out"
| "verdict_loop spanIDs (v # vs) latest out =
     (if \<not> spanIDs (trv_SpanID v) then verdict_loop spanIDs vs latest out
      else case map_of latest (reviewer_key v) of
          Some i \<Rightarrow>
            verdict_loop spanIDs vs latest
              (if trv_DecidedAt (out ! i) < trv_DecidedAt v then out[i := v] else out)
        | None \<Rightarrow>
            verdict_loop spanIDs vs ((reviewer_key v, length out) # latest) (out @ [v]))"

definition LatestVerdictPerReviewer ::
  "TaskReviewVerdict list \<Rightarrow> (uuid \<Rightarrow> bool) \<Rightarrow> TaskReviewVerdict list" where
  "LatestVerdictPerReviewer verdicts spanIDs = verdict_loop spanIDs verdicts [] []"

text \<open>
  The index map is the positions of the reviewers in \<open>out\<close>, so looking a key up in \<open>out\<close> itself
  decides the same.
\<close>

definition index_ok :: "(string \<times> nat) list \<Rightarrow> TaskReviewVerdict list \<Rightarrow> bool" where
  "index_ok latest out \<longleftrightarrow> distinct (map reviewer_key out) \<and>
     (\<forall>k i. map_of latest k = Some i \<longleftrightarrow> i < length out \<and> reviewer_key (out ! i) = k)"

lemma index_ok_append:
  assumes "index_ok latest out" and "map_of latest (reviewer_key v) = None"
  shows "index_ok ((reviewer_key v, length out) # latest) (out @ [v])"
proof -
  have none: "i < length out \<Longrightarrow> reviewer_key (out ! i) \<noteq> reviewer_key v" for i
    using assms unfolding index_ok_def by (metis option.distinct(1))
  then have "reviewer_key v \<notin> reviewer_key ` set out"
    by (metis imageE in_set_conv_nth)
  then have "distinct (map reviewer_key (out @ [v]))"
    using assms(1) by (simp add: index_ok_def)
  moreover have "map_of ((reviewer_key v, length out) # latest) k = Some i \<longleftrightarrow>
      i < length (out @ [v]) \<and> reviewer_key ((out @ [v]) ! i) = k" for k i
  proof (cases "i < length out")
    case True
    then show ?thesis
      using assms(1) none [OF True] by (auto simp: index_ok_def nth_append)
  next
    case False
    then have "map_of latest k \<noteq> Some i" using assms(1) by (auto simp: index_ok_def)
    then show ?thesis using False by (auto simp: nth_append)
  qed
  ultimately show ?thesis unfolding index_ok_def by blast
qed

lemma index_ok_update:
  assumes "index_ok latest out" and "map_of latest (reviewer_key v) = Some i"
  shows "index_ok latest (out[i := v])"
proof -
  have i: "i < length out" "reviewer_key (out ! i) = reviewer_key v"
    using assms by (auto simp: index_ok_def)
  then have "map reviewer_key (out[i := v]) = map reviewer_key out"
    by (simp add: map_update) (metis i(1) list_update_id length_map nth_map)
  then show ?thesis
    using assms i unfolding index_ok_def by (metis length_list_update length_map nth_map)
qed

text \<open>What the loop has established when it is done with the verdicts seen so far.\<close>

definition latest_of :: "(uuid \<Rightarrow> bool) \<Rightarrow> TaskReviewVerdict list \<Rightarrow> TaskReviewVerdict list \<Rightarrow> bool" where
  "latest_of spanIDs seen out \<longleftrightarrow>
     distinct (map reviewer_key out) \<and>
     (\<forall>v \<in> set out. v \<in> set seen \<and> spanIDs (trv_SpanID v)) \<and>
     (\<forall>v \<in> set seen. spanIDs (trv_SpanID v) \<longrightarrow>
        (\<exists>w \<in> set out. reviewer_key w = reviewer_key v \<and> trv_DecidedAt v \<le> trv_DecidedAt w))"

lemma latest_step:
  assumes "latest_of spanIDs seen out" and "spanIDs (trv_SpanID v)"
    and i: "i < length out" "reviewer_key (out ! i) = reviewer_key v"
  shows "latest_of spanIDs (seen @ [v])
    (if trv_DecidedAt (out ! i) < trv_DecidedAt v then out[i := v] else out)"
proof (cases "trv_DecidedAt (out ! i) < trv_DecidedAt v")
  case True
  have "map reviewer_key (out[i := v]) = map reviewer_key out"
    using i by (simp add: map_update) (metis i(1) list_update_id length_map nth_map)
  moreover have "\<exists>w \<in> set (out[i := v]). reviewer_key w = reviewer_key u \<and>
      trv_DecidedAt u \<le> trv_DecidedAt w"
    if u: "u \<in> set seen" "spanIDs (trv_SpanID u)" for u
  proof -
    obtain w where w: "w \<in> set out" "reviewer_key w = reviewer_key u"
      "trv_DecidedAt u \<le> trv_DecidedAt w"
      using assms(1) u unfolding latest_of_def by blast
    then obtain j where j: "j < length out" "reviewer_key (out ! j) = reviewer_key u"
      "trv_DecidedAt u \<le> trv_DecidedAt (out ! j)"
      by (auto simp: in_set_conv_nth)
    show ?thesis
    proof (cases "j = i")
      case True
      then show ?thesis
        using j i \<open>trv_DecidedAt (out ! i) < trv_DecidedAt v\<close>
        by (intro bexI [of _ v]) (auto simp: set_update_memI)
    next
      case False
      then have "out ! j \<in> set (out[i := v])"
        using j by (metis length_list_update nth_list_update_neq nth_mem)
      then show ?thesis using j by auto
    qed
  qed
  moreover have "v \<in> set (out[i := v])" using i by (simp add: set_update_memI)
  moreover have "set (out[i := v]) \<subseteq> insert v (set out)" by (rule set_update_subset_insert)
  ultimately show ?thesis
    using assms True unfolding latest_of_def by (simp, blast)
next
  case False
  then show ?thesis
    using assms by (auto simp: latest_of_def)
qed

lemma verdict_loop_latest:
  "index_ok latest out \<Longrightarrow> latest_of spanIDs seen out \<Longrightarrow>
     latest_of spanIDs (seen @ vs) (verdict_loop spanIDs vs latest out)"
proof (induction vs arbitrary: latest out seen)
  case (Cons v vs)
  show ?case
  proof (cases "spanIDs (trv_SpanID v)")
    case False
    then have "latest_of spanIDs (seen @ [v]) out"
      using Cons.prems(2) by (auto simp: latest_of_def)
    then show ?thesis
      using False Cons.IH [OF Cons.prems(1), of "seen @ [v]"] by simp
  next
    case True
    show ?thesis
    proof (cases "map_of latest (reviewer_key v)")
      case None
      note ok = index_ok_append [OF Cons.prems(1) None]
      have "latest_of spanIDs (seen @ [v]) (out @ [v])"
        using Cons.prems(2) True ok by (fastforce simp: latest_of_def index_ok_def)
      then show ?thesis
        using True None Cons.IH [OF ok, of "seen @ [v]"] by simp
    next
      case (Some i)
      have i: "i < length out" "reviewer_key (out ! i) = reviewer_key v"
        using Cons.prems(1) Some by (auto simp: index_ok_def)
      let ?out = "if trv_DecidedAt (out ! i) < trv_DecidedAt v then out[i := v] else out"
      have ok: "index_ok latest ?out"
        using Cons.prems(1) index_ok_update [OF Cons.prems(1) Some] by simp
      have "latest_of spanIDs (seen @ [v]) ?out"
        using latest_step [OF Cons.prems(2) True i] ok by (simp add: index_ok_def)
      then show ?thesis
        using True Some Cons.IH [OF ok, of "seen @ [v]"] by simp
    qed
  qed
qed simp

lemma LatestVerdictPerReviewer_latest:
  "latest_of spanIDs verdicts (LatestVerdictPerReviewer verdicts spanIDs)"
  using verdict_loop_latest [of "[]" "[]" spanIDs "[]" verdicts]
  by (simp add: LatestVerdictPerReviewer_def index_ok_def latest_of_def)

text \<open>No two standing verdicts are of the same reviewer.\<close>

lemma latest_unique:
  assumes "latest_of spanIDs seen out" and "v \<in> set out" and "w \<in> set out"
    and "reviewer_key v = reviewer_key w"
  shows "v = w"
  using assms by (auto simp: latest_of_def distinct_map dest: inj_onD)

lemma latest_listed: "v \<in> set (LatestVerdictPerReviewer verdicts spanIDs) \<Longrightarrow> v \<in> set verdicts"
  using LatestVerdictPerReviewer_latest [of spanIDs verdicts] by (simp add: latest_of_def)

end
