(* ===== verification/Span_Ledger.thy ===== *)
theory Span_Ledger
  imports Reviews
begin

text \<open>
  The ledger of a task's stays in the board's columns:
  \<open>server/internal/adapter/storage/postgres/task_span.go\<close>. The table is a list of rows in the
  order they were inserted; each SQL statement is an operation on it. \<open>gen_random_uuid\<close> and the
  clock are arguments of \<open>RecordMove\<close>.

  The reachable ledgers are the ones built by these operations; the theorems are their
  invariants: one open stay per task, contiguous stays in different columns, visits counted.
\<close>

section \<open>The statements\<close>

text \<open>\<open>ORDER BY entered_at DESC LIMIT 1\<close>: of rows entered at the same time, the first.\<close>

fun newest :: "TaskColumnSpan list \<Rightarrow> TaskColumnSpan option" where
  "newest [] = None"
| "newest (s # ss) =
     (case newest ss of
        None \<Rightarrow> Some s
      | Some t \<Rightarrow> if span_EnteredAt s < span_EnteredAt t then Some t else Some s)"

definition is_open :: "TaskColumnSpan \<Rightarrow> bool" where
  "is_open s \<longleftrightarrow> span_LeftAt s = None"

definition spans_of :: "uuid \<Rightarrow> TaskColumnSpan list \<Rightarrow> TaskColumnSpan list" where
  "spans_of task spans = filter (\<lambda>s. span_TaskID s = task) spans"

definition open_row :: "uuid \<Rightarrow> TaskColumnSpan list \<Rightarrow> TaskColumnSpan option" where
  "open_row task spans = newest (filter is_open (spans_of task spans))"

text \<open>\<open>GREATEST(0, EXTRACT(EPOCH FROM d)::int)\<close>: whole seconds, rounded.\<close>

definition duration_seconds :: "duration \<Rightarrow> int" where
  "duration_seconds d = max 0 ((d + 500000000) div 1000000000)"

definition close_row :: "time \<Rightarrow> TaskColumnSpan \<Rightarrow> TaskColumnSpan" where
  "close_row at s =
     s\<lparr>span_LeftAt := Some at, span_DurationSeconds := Some (duration_seconds (at - span_EnteredAt s))\<rparr>"

definition update_row ::
  "uuid \<Rightarrow> (TaskColumnSpan \<Rightarrow> TaskColumnSpan) \<Rightarrow> TaskColumnSpan list \<Rightarrow> TaskColumnSpan list" where
  "update_row rowID f spans = map (\<lambda>s. if span_ID s = rowID then f s else s) spans"

definition max_visit :: "uuid \<Rightarrow> string \<Rightarrow> TaskColumnSpan list \<Rightarrow> int" where
  "max_visit task column spans =
     fold max (map span_VisitNo (filter (\<lambda>s. span_BoardColumn s = column) (spans_of task spans))) 0"

definition new_row ::
  "uuid \<Rightarrow> uuid \<Rightarrow> uuid \<Rightarrow> string \<Rightarrow> time \<Rightarrow> TaskColumnSpan list \<Rightarrow> TaskColumnSpan" where
  "new_row rowID repositoryID task toColumn at spans =
     \<lparr>span_ID = rowID, span_TaskID = task, span_RepositoryID = repositoryID,
      span_BoardColumn = toColumn, span_AgentID = None, span_EnteredAt = at, span_LeftAt = None,
      span_DurationSeconds = None, span_VisitNo = max_visit task toColumn spans + 1,
      span_ReviewVerdict = '''', span_PatchID = ''''\<rparr>"

definition RecordMove ::
  "uuid \<Rightarrow> uuid \<Rightarrow> uuid \<Rightarrow> string \<Rightarrow> time \<Rightarrow> TaskColumnSpan list \<Rightarrow> TaskColumnSpan list" where
  "RecordMove rowID repositoryID task toColumn at spans =
     (case open_row task spans of
        None \<Rightarrow> spans @ [new_row rowID repositoryID task toColumn at spans]
      | Some opn \<Rightarrow>
          if span_BoardColumn opn = toColumn then spans
          else update_row (span_ID opn) (close_row at) spans @
                 [new_row rowID repositoryID task toColumn at spans])"

definition AttachAgent :: "uuid \<Rightarrow> uuid \<Rightarrow> TaskColumnSpan list \<Rightarrow> TaskColumnSpan list" where
  "AttachAgent task agent spans =
     (case newest (filter (\<lambda>s. is_open s \<and> span_AgentID s = None) (spans_of task spans)) of
        None \<Rightarrow> spans
      | Some row \<Rightarrow> update_row (span_ID row) (\<lambda>s. s\<lparr>span_AgentID := Some agent\<rparr>) spans)"

definition SetReviewVerdict ::
  "uuid \<Rightarrow> string \<Rightarrow> string \<Rightarrow> TaskColumnSpan list \<Rightarrow> TaskColumnSpan list" where
  "SetReviewVerdict task column verdict spans =
     (case newest (filter (\<lambda>s. is_open s \<and> span_BoardColumn s = column) (spans_of task spans)) of
        None \<Rightarrow> spans
      | Some row \<Rightarrow> update_row (span_ID row) (\<lambda>s. s\<lparr>span_ReviewVerdict := verdict\<rparr>) spans)"

definition SetReviewPatchID ::
  "uuid \<Rightarrow> string \<Rightarrow> string \<Rightarrow> TaskColumnSpan list \<Rightarrow> TaskColumnSpan list" where
  "SetReviewPatchID task column patchID spans =
     (case newest (filter (\<lambda>s. is_open s \<and> span_BoardColumn s = column) (spans_of task spans)) of
        None \<Rightarrow> spans
      | Some row \<Rightarrow> update_row (span_ID row) (\<lambda>s. s\<lparr>span_PatchID := patchID\<rparr>) spans)"

definition OpenSpan :: "uuid \<Rightarrow> TaskColumnSpan list \<Rightarrow> TaskColumnSpan option" where
  "OpenSpan task spans = map_option (\<lambda>s. s\<lparr>span_PatchID := ''''\<rparr>) (open_row task spans)"

definition HasVisited :: "uuid \<Rightarrow> string \<Rightarrow> TaskColumnSpan list \<Rightarrow> bool" where
  "HasVisited task column spans =
     list_ex (\<lambda>s. span_BoardColumn s = column) (spans_of task spans)"

text \<open>\<open>ORDER BY left_at DESC LIMIT 1\<close> over the closed rows with a patch id.\<close>

definition LatestApprovedPatchID ::
  "uuid \<Rightarrow> string \<Rightarrow> TaskColumnSpan list \<Rightarrow> (string \<times> time) option" where
  "LatestApprovedPatchID task column spans =
     (case go_sort (\<lambda>a b. the (span_LeftAt b) < the (span_LeftAt a))
             (filter (\<lambda>s. span_BoardColumn s = column \<and> span_PatchID s \<noteq> '''' \<and> \<not> is_open s)
               (spans_of task spans)) of
        [] \<Rightarrow> None
      | s # _ \<Rightarrow> (case span_LeftAt s of None \<Rightarrow> None | Some left \<Rightarrow> Some (span_PatchID s, left)))"

text \<open>\<open>DISTINCT ON (board_column) \<dots> ORDER BY entered_at DESC, visit_no DESC\<close>.\<close>

definition later_visit :: "TaskColumnSpan \<Rightarrow> TaskColumnSpan \<Rightarrow> bool" where
  "later_visit a b \<longleftrightarrow>
     span_EnteredAt b < span_EnteredAt a \<or>
     (span_EnteredAt a = span_EnteredAt b \<and> span_VisitNo b < span_VisitNo a)"

definition last_visit :: "uuid \<Rightarrow> string \<Rightarrow> TaskColumnSpan list \<Rightarrow> TaskColumnSpan option" where
  "last_visit task column spans =
     (case go_sort later_visit (filter (\<lambda>s. span_BoardColumn s = column) (spans_of task spans)) of
        [] \<Rightarrow> None | s # _ \<Rightarrow> Some s)"

definition LatestVerdicts :: "uuid \<Rightarrow> TaskColumnSpan list \<Rightarrow> (string \<times> string) list" where
  "LatestVerdicts task spans =
     concat (map (\<lambda>column.
        case last_visit task column spans of
          None \<Rightarrow> [] | Some s \<Rightarrow> [(column, span_ReviewVerdict s)])
       (remdups (map span_BoardColumn (spans_of task spans))))"

definition OwnersForTask :: "uuid \<Rightarrow> TaskColumnSpan list \<Rightarrow> string \<Rightarrow> uuid option" where
  "OwnersForTask task spans column =
     (case go_sort (\<lambda>a b. span_EnteredAt a < span_EnteredAt b)
             (filter (\<lambda>s. span_BoardColumn s = column \<and> span_AgentID s \<noteq> None)
               (spans_of task spans)) of
        [] \<Rightarrow> None | s # _ \<Rightarrow> span_AgentID s)"

definition TaskSpans :: "uuid \<Rightarrow> TaskColumnSpan list \<Rightarrow> TaskColumnSpan list" where
  "TaskSpans task spans =
     map (\<lambda>s. s\<lparr>span_ReviewVerdict := '''', span_PatchID := ''''\<rparr>)
       (go_sort (\<lambda>a b. span_EnteredAt a < span_EnteredAt b \<or>
                   (span_EnteredAt a = span_EnteredAt b \<and> span_VisitNo a < span_VisitNo b))
         (spans_of task spans))"

section \<open>Reachable ledgers\<close>

text \<open>
  Rows get fresh ids, and the clock does not run backwards between two moves of a task.
\<close>

inductive ledger :: "TaskColumnSpan list \<Rightarrow> bool" where
  ledger_empty: "ledger []"
| ledger_move:
    "ledger spans \<Longrightarrow> rowID \<notin> span_ID ` set spans \<Longrightarrow>
     \<forall>s \<in> set (spans_of task spans). span_EnteredAt s \<le> at \<Longrightarrow>
     ledger (RecordMove rowID repositoryID task toColumn at spans)"
| ledger_agent: "ledger spans \<Longrightarrow> ledger (AttachAgent task agent spans)"
| ledger_verdict: "ledger spans \<Longrightarrow> ledger (SetReviewVerdict task column verdict spans)"
| ledger_patch: "ledger spans \<Longrightarrow> ledger (SetReviewPatchID task column patchID spans)"

fun contiguous :: "TaskColumnSpan list \<Rightarrow> bool" where
  "contiguous [] = True"
| "contiguous [s] = is_open s"
| "contiguous (s # t # ss) =
     (span_LeftAt s = Some (span_EnteredAt t) \<and> span_EnteredAt s \<le> span_EnteredAt t \<and>
      span_BoardColumn s \<noteq> span_BoardColumn t \<and> contiguous (t # ss))"

text \<open>The number of a visit: how often the column was entered up to it.\<close>

definition visits_counted :: "TaskColumnSpan list \<Rightarrow> bool" where
  "visits_counted hs \<longleftrightarrow>
     (\<forall>i < length hs. span_VisitNo (hs ! i) =
        int (length (filter (\<lambda>s. span_BoardColumn s = span_BoardColumn (hs ! i)) (take (Suc i) hs))))"

definition ledger_inv :: "TaskColumnSpan list \<Rightarrow> bool" where
  "ledger_inv spans \<longleftrightarrow> distinct (map span_ID spans) \<and>
     (\<forall>task. contiguous (spans_of task spans) \<and> visits_counted (spans_of task spans))"

section \<open>The invariant\<close>

lemma contiguous_open: "contiguous hs \<Longrightarrow> hs \<noteq> [] \<Longrightarrow> filter is_open hs = [last hs]"
  by (induction hs rule: contiguous.induct) (auto simp: is_open_def)

lemma open_row_last:
  assumes "contiguous (spans_of task spans)"
  shows "open_row task spans =
    (if spans_of task spans = [] then None else Some (last (spans_of task spans)))"
  using contiguous_open [OF assms] by (auto simp: open_row_def)

lemma newest_mem: "newest ss = Some s \<Longrightarrow> s \<in> set ss"
  by (induction ss arbitrary: s) (auto split: option.splits if_splits)

lemma spans_of_update_row:
  assumes "\<And>s. span_TaskID (f s) = span_TaskID s"
  shows "spans_of task (update_row rowID f spans) = update_row rowID f (spans_of task spans)"
  by (induction spans) (auto simp: spans_of_def update_row_def assms)

lemma update_row_absent: "rowID \<notin> span_ID ` set spans \<Longrightarrow> update_row rowID f spans = spans"
  by (induction spans) (auto simp: update_row_def)

lemma update_row_last:
  assumes "distinct (map span_ID (hs @ [s]))"
  shows "update_row (span_ID s) f (hs @ [s]) = hs @ [f s]"
proof -
  have "update_row (span_ID s) f hs = hs"
    using assms by (intro update_row_absent) auto
  then show ?thesis by (simp add: update_row_def)
qed

lemma map_update_row:
  assumes "\<And>s. g (f s) = g s"
  shows "map g (update_row rowID f spans) = map g spans"
  by (induction spans) (auto simp: update_row_def assms)

lemma contiguous_cong:
  assumes "map (\<lambda>s. (span_BoardColumn s, span_EnteredAt s, span_LeftAt s)) hs =
    map (\<lambda>s. (span_BoardColumn s, span_EnteredAt s, span_LeftAt s)) ks"
  shows "contiguous hs = contiguous ks"
  using assms
proof (induction hs arbitrary: ks rule: contiguous.induct)
  case (2 s)
  then show ?case by (cases ks) (auto simp: is_open_def)
next
  case (3 s t ss)
  then obtain s' t' ss' where ks: "ks = s' # t' # ss'"
    by (cases ks; cases "tl ks") auto
  show ?case using "3.IH" [of "t' # ss'"] "3.prems" by (simp add: ks)
qed simp

lemma visits_counted_cong:
  assumes "map (\<lambda>s. (span_BoardColumn s, span_VisitNo s)) hs =
    map (\<lambda>s. (span_BoardColumn s, span_VisitNo s)) ks"
  shows "visits_counted hs = visits_counted ks"
proof -
  have len: "length hs = length ks" using assms by (metis length_map)
  have nth: "span_BoardColumn (hs ! i) = span_BoardColumn (ks ! i) \<and>
      span_VisitNo (hs ! i) = span_VisitNo (ks ! i)" if "i < length hs" for i
    using assms that len by (metis (no_types, lifting) Pair_inject nth_map)
  have cols: "map span_BoardColumn hs = map span_BoardColumn ks"
    using nth len by (intro nth_equalityI) auto
  have "length (filter (\<lambda>s. span_BoardColumn s = c) (take n hs)) =
      length (filter (\<lambda>c'. c' = c) (take n (map span_BoardColumn hs)))" for c n and hs :: "TaskColumnSpan list"
    by (simp add: take_map filter_map o_def)
  then show ?thesis
    unfolding visits_counted_def using nth len cols by simp
qed

lemma contiguous_move:
  assumes "contiguous (hs @ [s])" and "span_BoardColumn s \<noteq> span_BoardColumn n"
    and "span_EnteredAt s \<le> span_EnteredAt n" and "is_open n"
  shows "contiguous (hs @ [close_row (span_EnteredAt n) s, n])"
  using assms
proof (induction hs rule: contiguous.induct)
  case 1
  then show ?case by (simp add: close_row_def)
next
  case (2 t)
  then show ?case by (simp add: close_row_def)
next
  case (3 t u ss)
  then show ?case by simp
qed

lemma visits_counted_snoc:
  "visits_counted (hs @ [s]) \<longleftrightarrow> visits_counted hs \<and>
     span_VisitNo s =
       int (length (filter (\<lambda>t. span_BoardColumn t = span_BoardColumn s) hs)) + 1"
  by (auto simp: visits_counted_def nth_append less_Suc_eq all_conj_distrib)

lemma visits_counted_Nil [simp]: "visits_counted []"
  by (simp add: visits_counted_def)

lemma spans_of_new_row [simp]:
  "spans_of task (xs @ [new_row rowID repositoryID task column at spans]) =
     spans_of task xs @ [new_row rowID repositoryID task column at spans]"
  by (simp add: spans_of_def new_row_def)

lemma max_visit_count:
  assumes "visits_counted hs"
  shows "fold max (map span_VisitNo (filter (\<lambda>s. span_BoardColumn s = column) hs)) 0 =
    int (length (filter (\<lambda>s. span_BoardColumn s = column) hs))"
  using assms by (induction hs rule: rev_induct) (auto simp: visits_counted_snoc)

lemma ledger_inv_annotate:
  assumes "ledger_inv spans"
    and "\<And>s. span_TaskID (f s) = span_TaskID s" "\<And>s. span_ID (f s) = span_ID s"
    and "\<And>s. (span_BoardColumn (f s), span_EnteredAt (f s), span_LeftAt (f s)) =
      (span_BoardColumn s, span_EnteredAt s, span_LeftAt s)"
    and "\<And>s. (span_BoardColumn (f s), span_VisitNo (f s)) = (span_BoardColumn s, span_VisitNo s)"
  shows "ledger_inv (update_row rowID f spans)"
proof -
  have "contiguous (update_row rowID f hs) = contiguous hs" for hs
    by (rule contiguous_cong, rule map_update_row, rule assms(4))
  moreover have "visits_counted (update_row rowID f hs) = visits_counted hs" for hs
    by (rule visits_counted_cong, rule map_update_row, rule assms(5))
  moreover have "map span_ID (update_row rowID f spans) = map span_ID spans"
    by (rule map_update_row, rule assms(3))
  ultimately show ?thesis
    using assms(1) by (simp add: ledger_inv_def spans_of_update_row [OF assms(2)])
qed

lemma spans_of_append [simp]: "spans_of task (xs @ ys) = spans_of task xs @ spans_of task ys"
  by (simp add: spans_of_def)

lemma RecordMove_inv:
  assumes inv: "ledger_inv spans" and fresh: "rowID \<notin> span_ID ` set spans"
    and clock: "\<forall>s \<in> set (spans_of task spans). span_EnteredAt s \<le> at"
  shows "ledger_inv (RecordMove rowID repositoryID task toColumn at spans)"
proof -
  let ?n = "new_row rowID repositoryID task toColumn at spans"
  let ?hs = "spans_of task spans"
  have hs: "contiguous ?hs" "visits_counted ?hs" and ids: "distinct (map span_ID spans)"
    using inv by (auto simp: ledger_inv_def)
  have n: "span_TaskID ?n = task" "span_BoardColumn ?n = toColumn" "span_EnteredAt ?n = at"
    "is_open ?n" "span_ID ?n = rowID"
    by (simp_all add: new_row_def is_open_def)
  have visit: "span_VisitNo ?n =
      int (length (filter (\<lambda>t. span_BoardColumn t = span_BoardColumn ?n) ?hs)) + 1"
    using max_visit_count [OF hs(2), of toColumn] by (simp add: new_row_def max_visit_def)
  have other: "spans_of t [?n] = (if t = task then [?n] else [])" for t
    using n by (simp add: spans_of_def)
  show ?thesis
  proof (cases "?hs = []")
    case True
    then show ?thesis
      using inv fresh n visit
      by (auto simp: RecordMove_def open_row_last [OF hs(1)] ledger_inv_def other
          visits_counted_snoc [of "[]", simplified] visits_counted_def)
  next
    case False
    then obtain ks s where ks: "?hs = ks @ [s]" by (metis append_butlast_last_id)
    have last: "open_row task spans = Some s" using ks by (simp add: open_row_last [OF hs(1)])
    show ?thesis
    proof (cases "span_BoardColumn s = toColumn")
      case True
      then show ?thesis using inv last by (simp add: RecordMove_def)
    next
      case move: False
      let ?upd = "update_row (span_ID s) (close_row at)"
      have s_in: "s \<in> set spans" "span_TaskID s = task" "span_EnteredAt s \<le> at"
      proof -
        have "s \<in> set ?hs" by (simp add: ks)
        then show "s \<in> set spans" "span_TaskID s = task" "span_EnteredAt s \<le> at"
          using clock by (auto simp: spans_of_def)
      qed
      have task: "spans_of t (?upd spans) = ?upd (spans_of t spans)" for t
        by (rule spans_of_update_row) (simp add: close_row_def)
      have "distinct (map span_ID ?hs)" using ids by (simp add: spans_of_def distinct_map_filter)
      then have this_task: "?upd ?hs = ks @ [close_row at s]"
        unfolding ks by (rule update_row_last)
      have other_task: "?upd (spans_of t spans) = spans_of t spans" if "t \<noteq> task" for t
      proof (rule update_row_absent)
        show "span_ID s \<notin> span_ID ` set (spans_of t spans)"
          using ids s_in that by (auto simp: spans_of_def distinct_map dest: inj_onD)
      qed
      have "contiguous (ks @ [close_row at s, ?n])"
        using contiguous_move [of ks s ?n] hs(1) ks move n s_in by simp
      moreover have "visits_counted (ks @ [close_row at s, ?n])"
      proof -
        have "visits_counted ((ks @ [close_row at s]) @ [?n])"
          using hs(2) visit unfolding ks visits_counted_snoc by (simp add: close_row_def)
        then show ?thesis by simp
      qed
      moreover have "distinct (map span_ID (?upd spans @ [?n]))"
      proof -
        have same: "map span_ID (?upd spans) = map span_ID spans"
          by (rule map_update_row) (simp add: close_row_def)
        show ?thesis unfolding map_append same using ids fresh n(5) by simp
      qed
      moreover have "RecordMove rowID repositoryID task toColumn at spans = ?upd spans @ [?n]"
        using move last by (simp add: RecordMove_def)
      moreover have "contiguous (spans_of t (?upd spans @ [?n])) \<and>
          visits_counted (spans_of t (?upd spans @ [?n]))" if "t \<noteq> task" for t
        using inv that by (simp add: task other other_task ledger_inv_def)
      moreover have "spans_of task (?upd spans @ [?n]) = ks @ [close_row at s, ?n]"
        by (simp add: task other this_task)
      ultimately show ?thesis unfolding ledger_inv_def by metis
    qed
  qed
qed

lemma AttachAgent_inv: "ledger_inv spans \<Longrightarrow> ledger_inv (AttachAgent task agent spans)"
  by (auto simp: AttachAgent_def intro!: ledger_inv_annotate split: option.splits)

lemma SetReviewVerdict_inv: "ledger_inv spans \<Longrightarrow> ledger_inv (SetReviewVerdict task col v spans)"
  by (auto simp: SetReviewVerdict_def intro!: ledger_inv_annotate split: option.splits)

lemma SetReviewPatchID_inv: "ledger_inv spans \<Longrightarrow> ledger_inv (SetReviewPatchID task col p spans)"
  by (auto simp: SetReviewPatchID_def intro!: ledger_inv_annotate split: option.splits)

lemma ledger_invariant: "ledger spans \<Longrightarrow> ledger_inv spans"
proof (induction rule: ledger.induct)
  case ledger_empty
  show ?case by (simp add: ledger_inv_def spans_of_def visits_counted_def)
qed (simp_all add: RecordMove_inv AttachAgent_inv SetReviewVerdict_inv SetReviewPatchID_inv)

section \<open>Properties\<close>

text \<open>
  C39: The span ledger is well formed after any sequence of moves, agent attachments and verdicts:
  ids are unique, and the stays of each task follow one another without gap or overlap in
  columns that differ, only the last one is open, and a stay's visit number counts how often its
  column was entered.
\<close>
theorem ledger_well_formed:
  assumes "ledger spans"
  shows "distinct (map span_ID spans) \<and>
    contiguous (spans_of task spans) \<and> visits_counted (spans_of task spans) \<and>
    length (filter is_open (spans_of task spans)) \<le> 1"
  using ledger_invariant [OF assms] contiguous_open [of "spans_of task spans"]
  by (cases "spans_of task spans = []") (simp_all add: ledger_inv_def)

text \<open>
  After a recorded move the task's open stay is in the column it moved to; recording the
  column it is already in changes nothing.
\<close>
theorem RecordMove_opens:
  assumes "ledger spans" and "rowID \<notin> span_ID ` set spans"
    and "\<forall>s \<in> set (spans_of task spans). span_EnteredAt s \<le> at"
  shows "\<exists>s. OpenSpan task (RecordMove rowID repositoryID task column at spans) = Some s \<and>
      span_BoardColumn s = column \<and>
      RecordMove rowID' repositoryID task column at'
        (RecordMove rowID repositoryID task column at spans) =
      RecordMove rowID repositoryID task column at spans"
proof -
  let ?spans = "RecordMove rowID repositoryID task column at spans"
  have inv: "ledger_inv spans" "ledger_inv ?spans"
    using ledger_invariant [OF assms(1)] RecordMove_inv assms(2,3) by auto
  have last: "open_row task ?spans =
      (if spans_of task ?spans = [] then None else Some (last (spans_of task ?spans)))"
    using inv(2) by (intro open_row_last) (simp add: ledger_inv_def)
  obtain s where s: "open_row task ?spans = Some s" "span_BoardColumn s = column"
  proof (cases "\<exists>opn. open_row task spans = Some opn \<and> span_BoardColumn opn = column")
    case True
    then show ?thesis using that by (auto simp: RecordMove_def)
  next
    case False
    then have "\<exists>xs. ?spans = xs @ [new_row rowID repositoryID task column at spans]"
      by (cases "open_row task spans") (auto simp: RecordMove_def)
    then obtain xs where xs: "?spans = xs @ [new_row rowID repositoryID task column at spans]"
      by blast
    have "open_row task ?spans = Some (new_row rowID repositoryID task column at spans)"
      using last unfolding xs spans_of_new_row by simp
    moreover have "span_BoardColumn (new_row rowID repositoryID task column at spans) = column"
      by (simp add: new_row_def)
    ultimately show ?thesis by (rule that)
  qed
  then have "RecordMove rowID' repositoryID task column at' ?spans = ?spans"
    by (simp add: RecordMove_def [of rowID'])
  then show ?thesis using s by (auto simp: OpenSpan_def)
qed

lemma RecordMove_two:
  "ledger (RecordMove 2 9 7 ''code_review'' 5 (RecordMove 1 9 7 ''todo'' 3 []))"
proof (intro ledger_move ledger_empty)
qed (simp_all add: RecordMove_def spans_of_def open_row_def new_row_def)

lemma ledger_well_formed_witness:
  "contiguous (spans_of 7 (RecordMove 2 9 7 ''code_review'' 5 (RecordMove 1 9 7 ''todo'' 3 [])))"
  using ledger_well_formed [OF RecordMove_two, of 7] by blast

lemma RecordMove_opens_witness:
  "\<exists>s. OpenSpan 7 (RecordMove 2 9 7 ''code_review'' 5 (RecordMove 1 9 7 ''todo'' 3 [])) = Some s \<and>
     span_BoardColumn s = ''code_review''"
proof -
  have l: "ledger (RecordMove 1 9 7 ''todo'' 3 [])"
    by (intro ledger_move ledger_empty) (simp_all add: spans_of_def)
  have rows: "RecordMove 1 9 7 ''todo'' 3 [] = [new_row 1 9 7 ''todo'' 3 []]"
    by (simp add: RecordMove_def open_row_def spans_of_def)
  show ?thesis
    using RecordMove_opens [OF l, of 2 7 5 9 "''code_review''" 4 6]
    by (auto simp: rows spans_of_def new_row_def)
qed

end
