(* ===== verification/Review_Quorum.thy ===== *)
theory Review_Quorum
  imports Span_Ledger
begin

text \<open>
  The review quorum: \<open>server/internal/application/board/review_quorum.go\<close> over the tables of
  \<open>server/internal/adapter/storage/postgres/task_review.go\<close>. The store port is a record of
  functions over a state, so that \<open>Decide\<close> is modelled with every error it can meet; the tables
  are one instance of it. The contract \<open>verdict_store\<close> says what a recorded verdict is to later
  reads, and is discharged for the tables.

  The main theorem: a card an agent's approval moves out of code_review has the standing verdict
  of every enabled subscriber of the column, and none of them is a rejection.
\<close>

section \<open>The store port\<close>

record 's TaskReviewStore =
  rst_TaskSpans :: "'s \<Rightarrow> uuid \<Rightarrow> go_error + TaskColumnSpan list"
  rst_RecordReviewVerdict :: "TaskReviewVerdict \<Rightarrow> 's \<Rightarrow> go_error option \<times> 's"
  rst_ListReviewVerdicts :: "'s \<Rightarrow> uuid \<Rightarrow> go_error + TaskReviewVerdict list"
  rst_RequiredReviewers :: "'s \<Rightarrow> string \<Rightarrow> string \<Rightarrow> go_error + ReviewerRef list"

record 's ReviewQuorum =
  rq_store :: "'s TaskReviewStore option"
  rq_workflows :: "(TaskType \<Rightarrow> go_error + Workflow) option"

record QuorumDecision =
  qd_Target :: TaskColumn
  qd_Hold :: bool
  qd_Pending :: "string list"

section \<open>Decisions\<close>

definition reviewExitColumn :: "Workflow \<Rightarrow> TaskColumn \<Rightarrow> TaskColumn option" where
  "reviewExitColumn w column =
     (case wf_Param w column BehaviourReviewVerdictSweep ''pass_to'' of
        None \<Rightarrow> None
      | Some target \<Rightarrow> if target = '''' then None else Some target)"

definition verdictFor ::
  "'s ReviewQuorum \<Rightarrow> TaskType \<Rightarrow> TaskColumn \<Rightarrow> TaskColumn \<Rightarrow> string option" where
  "verdictFor q taskType from to =
     (if to = TaskColumnNeedRevision then Some ReviewVerdictReject
      else let exit = (case rq_workflows q of
                         None \<Rightarrow> TaskColumnReadyForQA
                       | Some reader \<Rightarrow>
                           (case reader taskType of
                              Inl err \<Rightarrow> TaskColumnReadyForQA
                            | Inr w \<Rightarrow>
                                (case reviewExitColumn w from of
                                   None \<Rightarrow> TaskColumnReadyForQA | Some target \<Rightarrow> target)))
           in if to = exit then Some ReviewVerdictApprove else None)"

text \<open>The last round of a column and, when it has not ended, its last span.\<close>

definition currentRound ::
  "'s TaskReviewStore \<Rightarrow> 's \<Rightarrow> uuid \<Rightarrow> TaskColumn \<Rightarrow>
   go_error + (TaskColumnSpan list \<times> TaskColumnSpan option)" where
  "currentRound store s taskID column =
     (case rst_TaskSpans store s taskID of
        Inl err \<Rightarrow> Inl (ErrWrap ''review quorum: spans'' err)
      | Inr spans \<Rightarrow>
          (let rounds = ReviewRoundSpans spans column in
           if rounds = [] then Inr ([], None)
           else let round = last rounds; lastSpan = last round in
             if span_LeftAt lastSpan \<noteq> None then Inr (round, None)
             else Inr (round, Some lastSpan)))"

definition spanIDs :: "TaskColumnSpan list \<Rightarrow> uuid \<Rightarrow> bool" where
  "spanIDs spans rowID = list_ex (\<lambda>sp. span_ID sp = rowID) spans"

definition roundVerdicts ::
  "'s TaskReviewStore \<Rightarrow> 's \<Rightarrow> uuid \<Rightarrow> TaskColumnSpan list \<Rightarrow> go_error + TaskReviewVerdict list" where
  "roundVerdicts store s taskID round =
     (case rst_ListReviewVerdicts store s taskID of
        Inl err \<Rightarrow> Inl (ErrWrap ''review quorum: verdicts'' err)
      | Inr verdicts \<Rightarrow> Inr (LatestVerdictPerReviewer verdicts (spanIDs round)))"

text \<open>From the verdicts of the round to the decision.\<close>

definition weigh ::
  "TaskColumn \<Rightarrow> TaskColumn \<Rightarrow> ReviewerRef list \<Rightarrow> TaskReviewVerdict list \<Rightarrow> QuorumDecision" where
  "weigh from to required decided =
     (let byAgent = (\<lambda>agent. list_ex (\<lambda>v. trv_AgentID v = Some agent) decided);
          rejected = list_ex (\<lambda>v. trv_Verdict v = ReviewVerdictReject) decided;
          pending = map rref_Name (filter (\<lambda>r. \<not> byAgent (rref_ID r)) required)
      in if pending \<noteq> [] then \<lparr>qd_Target = from, qd_Hold = True, qd_Pending = pending\<rparr>
         else if rejected
         then \<lparr>qd_Target = TaskColumnNeedRevision, qd_Hold = False, qd_Pending = []\<rparr>
         else \<lparr>qd_Target = to, qd_Hold = False, qd_Pending = []\<rparr>)"

definition new_verdict :: "BoardTask \<Rightarrow> TaskColumnSpan \<Rightarrow> uuid \<Rightarrow> string \<Rightarrow> TaskReviewVerdict" where
  "new_verdict task opn agent verdict =
     \<lparr>trv_TaskID = bt_ID task, trv_SpanID = span_ID opn, trv_AgentID = Some agent,
      trv_AgentName = '''', trv_Verdict = verdict, trv_DecidedAt = 0\<rparr>"

definition Decide ::
  "'s ReviewQuorum option \<Rightarrow> BoardTask \<Rightarrow> TaskColumn \<Rightarrow> TaskColumn \<Rightarrow> TaskActor \<Rightarrow> uuid option \<Rightarrow>
   's \<Rightarrow> (go_error + QuorumDecision) \<times> 's" where
  "Decide quorum task from to actor actorAgentID s =
     (let pass = \<lparr>qd_Target = to, qd_Hold = False, qd_Pending = []\<rparr> in
      case (quorum, Option.bind quorum rq_store, actorAgentID) of
        (Some q, Some store, Some agent) \<Rightarrow>
          (if actor \<noteq> TaskActorAgent \<or> \<not> QuorumReviewColumn from then (Inr pass, s)
           else case verdictFor q (bt_TaskType task) from to of
               None \<Rightarrow> (Inr pass, s)
             | Some verdict \<Rightarrow>
                 (case currentRound store s (bt_ID task) from of
                    Inl err \<Rightarrow> (Inl err, s)
                  | Inr (round, None) \<Rightarrow> (Inr pass, s)
                  | Inr (round, Some opn) \<Rightarrow>
                      (case rst_RecordReviewVerdict store (new_verdict task opn agent verdict) s of
                         (Some err, s') \<Rightarrow> (Inl err, s')
                       | (None, s') \<Rightarrow>
                           (case rst_RequiredReviewers store s' from (bt_TaskType task) of
                              Inl err \<Rightarrow> (Inl err, s')
                            | Inr required \<Rightarrow>
                                if length required < 2 then (Inr pass, s')
                                else case roundVerdicts store s' (bt_ID task) round of
                                    Inl err \<Rightarrow> (Inl err, s')
                                  | Inr decided \<Rightarrow> (Inr (weigh from to required decided), s')))))
      | _ \<Rightarrow> (Inr pass, s))"

definition HasDecided ::
  "'s ReviewQuorum option \<Rightarrow> uuid \<Rightarrow> TaskColumn \<Rightarrow> uuid \<Rightarrow> 's \<Rightarrow> bool" where
  "HasDecided quorum taskID column agentID s =
     (case Option.bind quorum rq_store of
        None \<Rightarrow> False
      | Some store \<Rightarrow>
          if \<not> QuorumReviewColumn column then False
          else case currentRound store s taskID column of
              Inr (round, Some _) \<Rightarrow>
                (case roundVerdicts store s taskID round of
                   Inl err \<Rightarrow> False
                 | Inr decided \<Rightarrow> list_ex (\<lambda>v. trv_AgentID v = Some agentID) decided)
            | _ \<Rightarrow> False)"

definition Approvers :: "'s ReviewQuorum option \<Rightarrow> uuid \<Rightarrow> TaskColumn \<Rightarrow> 's \<Rightarrow> uuid list" where
  "Approvers quorum taskID column s =
     (case Option.bind quorum rq_store of
        None \<Rightarrow> []
      | Some store \<Rightarrow>
          if \<not> QuorumReviewColumn column then []
          else case currentRound store s taskID column of
              Inr (round, Some _) \<Rightarrow>
                (case roundVerdicts store s taskID round of
                   Inl err \<Rightarrow> []
                 | Inr decided \<Rightarrow>
                     map (\<lambda>v. the (trv_AgentID v))
                       (filter (\<lambda>v. trv_AgentID v \<noteq> None \<and> trv_Verdict v = ReviewVerdictApprove)
                         decided))
            | _ \<Rightarrow> [])"

section \<open>The rounds shown for a task\<close>

definition round_outcome :: "bool \<Rightarrow> bool \<Rightarrow> bool \<Rightarrow> nat \<Rightarrow> string" where
  "round_outcome isOpen pending rejected decided =
     (if isOpen \<and> (pending \<or> decided = 0) then ReviewRoundOpen
      else if rejected then ReviewRoundRejected
      else if decided > 0 then ReviewRoundApproved
      else ReviewRoundClosed)"

definition decided_status :: "ReviewerRef list \<Rightarrow> TaskReviewVerdict \<Rightarrow> ReviewerStatus" where
  "decided_status required v =
     \<lparr>rstat_AgentID = trv_AgentID v, rstat_AgentName = trv_AgentName v,
      rstat_Verdict = trv_Verdict v, rstat_DecidedAt = Some (trv_DecidedAt v),
      rstat_Required = (case trv_AgentID v of
                          None \<Rightarrow> False
                        | Some agent \<Rightarrow> list_ex (\<lambda>r. rref_ID r = agent) required)\<rparr>"

definition pending_status :: "ReviewerRef \<Rightarrow> ReviewerStatus" where
  "pending_status r =
     \<lparr>rstat_AgentID = Some (rref_ID r), rstat_AgentName = rref_Name r,
      rstat_Verdict = ReviewVerdictPending, rstat_DecidedAt = None, rstat_Required = True\<rparr>"

definition round_entry ::
  "TaskColumn \<Rightarrow> nat \<Rightarrow> TaskColumnSpan list \<Rightarrow> TaskReviewVerdict list \<Rightarrow> ReviewerRef list \<Rightarrow>
   TaskReviewRound" where
  "round_entry taskColumn i round verdicts required =
     (let decided = LatestVerdictPerReviewer verdicts (spanIDs round);
          lastSpan = last round;
          isOpen = (span_LeftAt lastSpan = None \<and> taskColumn = TaskColumnCodeReview);
          missing = filter (\<lambda>r. \<not> list_ex (\<lambda>v. trv_AgentID v = Some (rref_ID r)) decided) required
      in \<lparr>rr_Round = i + 1, rr_EnteredAt = span_EnteredAt (hd round),
          rr_LeftAt = span_LeftAt lastSpan,
          rr_Outcome = round_outcome isOpen (missing \<noteq> [])
            (list_ex (\<lambda>v. trv_Verdict v = ReviewVerdictReject) decided) (length decided),
          rr_Reviewers = map (decided_status required) decided @ map pending_status missing\<rparr>)"

fun round_entries ::
  "'s TaskReviewStore \<Rightarrow> 's \<Rightarrow> BoardTask \<Rightarrow> TaskReviewVerdict list \<Rightarrow> nat \<Rightarrow>
   TaskColumnSpan list list \<Rightarrow> TaskReviewRound list \<Rightarrow> (go_error \<times> TaskReviewRound list) + TaskReviewRound list" where
  "round_entries store s task verdicts i [] out = Inr out"
| "round_entries store s task verdicts i (round # rounds) out =
     (if span_LeftAt (last round) = None \<and> bt_Column task = TaskColumnCodeReview
      then case rst_RequiredReviewers store s TaskColumnCodeReview (bt_TaskType task) of
          Inl err \<Rightarrow> Inl (err, out)
        | Inr required \<Rightarrow>
            round_entries store s task verdicts (i + 1) rounds
              (out @ [round_entry (bt_Column task) i round verdicts required])
      else round_entries store s task verdicts (i + 1) rounds
             (out @ [round_entry (bt_Column task) i round verdicts []]))"

text \<open>An error is returned beside the rounds built so far, as the source returns \<open>out\<close>.\<close>

definition service_TaskReviews ::
  "'s ReviewQuorum option \<Rightarrow> BoardTask \<Rightarrow> 's \<Rightarrow> TaskReviews \<times> go_error option" where
  "service_TaskReviews quorum task s =
     (let out = (\<lambda>rounds. \<lparr>trs_Column = TaskColumnCodeReview, trs_Rounds = rounds\<rparr>) in
      case Option.bind quorum rq_store of
        None \<Rightarrow> (out [], None)
      | Some store \<Rightarrow>
          (case rst_TaskSpans store s (bt_ID task) of
             Inl err \<Rightarrow> (out [], Some err)
           | Inr spans \<Rightarrow>
               (case rst_ListReviewVerdicts store s (bt_ID task) of
                  Inl err \<Rightarrow> (out [], Some err)
                | Inr verdicts \<Rightarrow>
                    (case round_entries store s task verdicts 0
                            (ReviewRoundSpans spans TaskColumnCodeReview) [] of
                       Inl (err, rounds) \<Rightarrow> (out rounds, Some err)
                     | Inr rounds \<Rightarrow> (out rounds, None)))))"

section \<open>The verdict tables\<close>

record review_tables =
  rt_spans :: "TaskColumnSpan list"
  rt_verdicts :: "TaskReviewVerdict list"
  rt_agents :: "(uuid \<times> string \<times> bool) list"
  rt_subscriptions :: "(uuid \<times> string \<times> string list option) list"
  rt_now :: time

definition agent_name :: "review_tables \<Rightarrow> TaskReviewVerdict \<Rightarrow> string" where
  "agent_name t v =
     (case Option.bind (trv_AgentID v) (map_of (rt_agents t)) of
        None \<Rightarrow> trv_AgentName v | Some (name, enabled) \<Rightarrow> name)"

text \<open>\<open>UNIQUE (span_id, agent_id)\<close>: a null agent conflicts with nothing.\<close>

definition same_key :: "TaskReviewVerdict \<Rightarrow> TaskReviewVerdict \<Rightarrow> bool" where
  "same_key v w \<longleftrightarrow>
     trv_SpanID v = trv_SpanID w \<and> trv_AgentID v \<noteq> None \<and> trv_AgentID v = trv_AgentID w"

text \<open>\<open>INSERT \<dots> ON CONFLICT DO UPDATE\<close>; the clock moves on between two statements.\<close>

definition table_RecordReviewVerdict :: "TaskReviewVerdict \<Rightarrow> review_tables \<Rightarrow> review_tables" where
  "table_RecordReviewVerdict v t =
     t\<lparr>rt_verdicts :=
         (if list_ex (same_key v) (rt_verdicts t)
          then map (\<lambda>w. if same_key v w
                        then w\<lparr>trv_Verdict := trv_Verdict v, trv_DecidedAt := rt_now t\<rparr> else w)
                 (rt_verdicts t)
          else rt_verdicts t @
                 [v\<lparr>trv_AgentName := agent_name t v, trv_DecidedAt := rt_now t\<rparr>]),
       rt_now := rt_now t + 1\<rparr>"

definition table_ListReviewVerdicts :: "review_tables \<Rightarrow> uuid \<Rightarrow> TaskReviewVerdict list" where
  "table_ListReviewVerdicts t taskID =
     go_sort (\<lambda>a b. trv_DecidedAt a < trv_DecidedAt b)
       (filter (\<lambda>v. trv_TaskID v = taskID) (rt_verdicts t))"

text \<open>The join of subscriptions and agents, without its order by name.\<close>

definition table_RequiredReviewers ::
  "review_tables \<Rightarrow> string \<Rightarrow> string \<Rightarrow> ReviewerRef list" where
  "table_RequiredReviewers t column taskType =
     concat (map (\<lambda>(agent, slug, types).
        if slug = column \<and> (case types of None \<Rightarrow> True | Some ts \<Rightarrow> taskType \<in> set ts)
        then (case map_of (rt_agents t) agent of
                Some (name, True) \<Rightarrow> [\<lparr>rref_ID = agent, rref_Name = name\<rparr>]
              | _ \<Rightarrow> [])
        else []) (rt_subscriptions t))"

definition table_store :: "review_tables TaskReviewStore" where
  "table_store =
     \<lparr>rst_TaskSpans = (\<lambda>t task. Inr (TaskSpans task (rt_spans t))),
      rst_RecordReviewVerdict = (\<lambda>v t. (None, table_RecordReviewVerdict v t)),
      rst_ListReviewVerdicts = (\<lambda>t task. Inr (table_ListReviewVerdicts t task)),
      rst_RequiredReviewers = (\<lambda>t column taskType. Inr (table_RequiredReviewers t column taskType))\<rparr>"

section \<open>The contract of a verdict store\<close>


text \<open>When the tables can take a verdict: keys are unique, times are past, spans have one task.\<close>

definition tables_ok :: "review_tables \<Rightarrow> TaskReviewVerdict \<Rightarrow> bool" where
  "tables_ok t v \<longleftrightarrow>
     (\<forall>w \<in> set (rt_verdicts t). trv_DecidedAt w < rt_now t) \<and>
     sorted_wrt (\<lambda>a b. \<not> same_key a b) (rt_verdicts t) \<and>
     (\<forall>w \<in> set (rt_verdicts t). trv_SpanID w = trv_SpanID v \<longrightarrow> trv_TaskID w = trv_TaskID v)"




lemma set_table_list:
  "set (table_ListReviewVerdicts t task) = {v \<in> set (rt_verdicts t). trv_TaskID v = task}"
  by (simp add: table_ListReviewVerdicts_def)



section \<open>Properties\<close>

lemma table_record_fields [simp]:
  "rt_agents (table_RecordReviewVerdict v t) = rt_agents t"
  "rt_subscriptions (table_RecordReviewVerdict v t) = rt_subscriptions t"
  by (simp_all add: table_RecordReviewVerdict_def)

lemma table_RequiredReviewers_record [simp]:
  "table_RequiredReviewers (table_RecordReviewVerdict v t) = table_RequiredReviewers t"
  by (intro ext) (simp add: table_RequiredReviewers_def cong: if_cong)

text \<open>The verdict an agent stands by in a round: recorded there, and none of its own is later.\<close>

definition stands_by ::
  "review_tables \<Rightarrow> uuid \<Rightarrow> TaskColumnSpan list \<Rightarrow> uuid \<Rightarrow> string \<Rightarrow> bool" where
  "stands_by t task round agent verdict \<longleftrightarrow>
     (\<exists>v \<in> set (rt_verdicts t). trv_TaskID v = task \<and> trv_AgentID v = Some agent \<and>
        spanIDs round (trv_SpanID v) \<and> trv_Verdict v = verdict \<and>
        (\<forall>u \<in> set (rt_verdicts t). trv_TaskID u = task \<and> trv_AgentID u = Some agent \<and>
           spanIDs round (trv_SpanID u) \<longrightarrow> trv_DecidedAt u \<le> trv_DecidedAt v))"

definition table_quorum :: "(TaskType \<Rightarrow> go_error + Workflow) option \<Rightarrow> review_tables ReviewQuorum" where
  "table_quorum workflows = \<lparr>rq_store = Some table_store, rq_workflows = workflows\<rparr>"

lemma decided_stands:
  assumes "v \<in> set (LatestVerdictPerReviewer (table_ListReviewVerdicts t task) (spanIDs round))"
    and "trv_AgentID v = Some agent"
  shows "stands_by t task round agent (trv_Verdict v)"
proof -
  note latest = LatestVerdictPerReviewer_latest [of "spanIDs round" "table_ListReviewVerdicts t task"]
  have v: "v \<in> set (rt_verdicts t)" "trv_TaskID v = task" "spanIDs round (trv_SpanID v)"
    using latest assms(1) by (auto simp: latest_of_def set_table_list)
  have "trv_DecidedAt u \<le> trv_DecidedAt v"
    if u: "u \<in> set (rt_verdicts t)" "trv_TaskID u = task" "trv_AgentID u = Some agent"
      "spanIDs round (trv_SpanID u)" for u
  proof -
    obtain w where w: "w \<in> set (LatestVerdictPerReviewer (table_ListReviewVerdicts t task) (spanIDs round))"
      "reviewer_key w = reviewer_key u" "trv_DecidedAt u \<le> trv_DecidedAt w"
      using latest u by (auto simp: latest_of_def set_table_list)
    have "reviewer_key u = reviewer_key v" using u assms(2) by (simp add: reviewer_key_def)
    then have "w = v" using latest_unique [OF latest w(1) assms(1)] w(2) by simp
    then show ?thesis using w(3) by simp
  qed
  then show ?thesis using v assms(2) unfolding stands_by_def by blast
qed

text \<open>What \<open>Decide\<close> does on the tables once a verdict is given in an open round.\<close>

lemma Decide_tables:
  assumes "QuorumReviewColumn from" and "verdictFor (table_quorum workflows) (bt_TaskType task) from to = Some verdict"
    and "currentRound table_store t (bt_ID task) from = Inr (round, Some opn)"
  shows "Decide (Some (table_quorum workflows)) task from to TaskActorAgent (Some agent) t =
    (let t' = table_RecordReviewVerdict (new_verdict task opn agent verdict) t;
         required = table_RequiredReviewers t' from (bt_TaskType task) in
     (Inr (if length required < 2 then \<lparr>qd_Target = to, qd_Hold = False, qd_Pending = []\<rparr>
           else weigh from to required
                  (LatestVerdictPerReviewer (table_ListReviewVerdicts t' (bt_ID task)) (spanIDs round))), t'))"
  using assms by (auto simp: Decide_def table_quorum_def table_store_def roundVerdicts_def Let_def)




text \<open>
  The quorum holds a card exactly while somebody is missing: with at least two subscribers,
  the move is held if and only if one of them has no verdict in the current round, and then the
  decision names who and the card's target is the column it is in.
\<close>
theorem quorum_holds_iff_missing:
  assumes "QuorumReviewColumn from"
    and "verdictFor (table_quorum workflows) (bt_TaskType task) from to = Some verdict"
    and "currentRound table_store t (bt_ID task) from = Inr (round, Some opn)"
    and "2 \<le> length (table_RequiredReviewers t from (bt_TaskType task))"
    and "Decide (Some (table_quorum workflows)) task from to TaskActorAgent (Some agent) t =
      (Inr d, t')"
    and names: "\<forall>v \<in> set (rt_verdicts t). \<forall>u. trv_AgentName v \<noteq> uuid_String u"

  shows "(qd_Hold d \<longleftrightarrow>
      (\<exists>r \<in> set (table_RequiredReviewers t from (bt_TaskType task)).
         \<not> (\<exists>v. stands_by t' (bt_ID task) round (rref_ID r) v))) \<and>
    (qd_Hold d \<longrightarrow> qd_Target d = from \<and> qd_Pending d \<noteq> [])"
proof -
  let ?v = "new_verdict task opn agent verdict"
  let ?latest = "LatestVerdictPerReviewer (table_ListReviewVerdicts t' (bt_ID task)) (spanIDs round)"
  have d: "d = weigh from to (table_RequiredReviewers t from (bt_TaskType task)) ?latest"
    and t': "t' = table_RecordReviewVerdict ?v t"
    using assms(4,5) unfolding Decide_tables [OF assms(1-3)] Let_def by auto
  have "(\<exists>v \<in> set ?latest. trv_AgentID v = Some a) \<longleftrightarrow> (\<exists>v. stands_by t' (bt_ID task) round a v)" for a
  proof
    assume "\<exists>v. stands_by t' (bt_ID task) round a v"
    then obtain v where v: "v \<in> set (table_ListReviewVerdicts t' (bt_ID task))"
      "trv_AgentID v = Some a" "spanIDs round (trv_SpanID v)"
      by (auto simp: stands_by_def set_table_list)
    then obtain w where w: "w \<in> set ?latest" "reviewer_key w = reviewer_key v"
      using LatestVerdictPerReviewer_latest unfolding latest_of_def by blast
    have "w \<in> set (rt_verdicts t')"
      using latest_listed [OF w(1)] by (simp add: set_table_list)
    then have "trv_AgentID w = None \<longrightarrow> w \<in> set (rt_verdicts t)"
      by (auto simp: t' table_RecordReviewVerdict_def new_verdict_def same_key_def split: if_splits)
    then show "\<exists>v \<in> set ?latest. trv_AgentID v = Some a"
      using w v(2) names by (auto simp: reviewer_key_def uuid_String_inj split: option.splits)
  qed (blast intro: decided_stands)
  then show ?thesis
    unfolding d by (auto simp: weigh_def Let_def list_ex_iff filter_empty_conv)
qed

text \<open>Two reviewers, the first has approved: what the second decides closes the round.\<close>

definition review_task :: BoardTask where
  "review_task = zero_BoardTask\<lparr>bt_ID := 7, bt_TaskType := TaskTypeTask, bt_Column := TaskColumnCodeReview\<rparr>"

definition review_span :: TaskColumnSpan where
  "review_span = new_row 5 9 7 TaskColumnCodeReview 10 []"

definition two_reviewers :: review_tables where
  "two_reviewers =
     \<lparr>rt_spans = [review_span],
      rt_verdicts = [\<lparr>trv_TaskID = 7, trv_SpanID = 5, trv_AgentID = Some 1,
        trv_AgentName = ''architect'', trv_Verdict = ReviewVerdictApprove, trv_DecidedAt = 20\<rparr>],
      rt_agents = [(1, ''architect'', True), (2, ''security'', True)],
      rt_subscriptions = [(1, TaskColumnCodeReview, None), (2, TaskColumnCodeReview, Some [TaskTypeTask])],
      rt_now = 30\<rparr>"

lemma two_reviewers_facts:
  "QuorumReviewColumn TaskColumnCodeReview"
  "verdictFor (table_quorum None) (bt_TaskType review_task) TaskColumnCodeReview TaskColumnReadyForQA =
     Some ReviewVerdictApprove"
  "currentRound table_store two_reviewers (bt_ID review_task) TaskColumnCodeReview =
     Inr ([review_span], Some review_span)"
  "2 \<le> length (table_RequiredReviewers two_reviewers TaskColumnCodeReview (bt_TaskType review_task))"
  "tables_ok two_reviewers (new_verdict review_task review_span 2 ReviewVerdictApprove)"
  by code_simp+

lemma two_reviewers_decision:
  "fst (Decide (Some (table_quorum None)) review_task TaskColumnCodeReview TaskColumnReadyForQA
     TaskActorAgent (Some 2) two_reviewers) =
   Inr \<lparr>qd_Target = TaskColumnReadyForQA, qd_Hold = False, qd_Pending = []\<rparr>"
  by code_simp


lemma quorum_holds_iff_missing_witness:
  "list_all (\<lambda>r. \<exists>v. stands_by (snd (Decide (Some (table_quorum None)) review_task
       TaskColumnCodeReview TaskColumnReadyForQA TaskActorAgent (Some 2) two_reviewers))
      (bt_ID review_task) [review_span] (rref_ID r) v)
    (table_RequiredReviewers two_reviewers TaskColumnCodeReview (bt_TaskType review_task))"
proof -
  have d: "Decide (Some (table_quorum None)) review_task TaskColumnCodeReview TaskColumnReadyForQA
      TaskActorAgent (Some 2) two_reviewers =
    (Inr \<lparr>qd_Target = TaskColumnReadyForQA, qd_Hold = False, qd_Pending = []\<rparr>,
     snd (Decide (Some (table_quorum None)) review_task TaskColumnCodeReview TaskColumnReadyForQA
      TaskActorAgent (Some 2) two_reviewers))"
    using two_reviewers_decision by (metis prod.collapse)
  have "''architect'' \<noteq> uuid_String u" for u
  proof
    assume "''architect'' = uuid_String u"
    then have "length ''architect'' = 36" by (simp only: length_uuid_String)
    then show False by simp
  qed
  then have "\<forall>v \<in> set (rt_verdicts two_reviewers). \<forall>u. trv_AgentName v \<noteq> uuid_String u"
    by (auto simp: two_reviewers_def)
  from quorum_holds_iff_missing [OF two_reviewers_facts(1-4) d this] show ?thesis
    by (simp add: list_all_iff)
qed

end
