(* ===== verification/Board_Gates.thy ===== *)
theory Board_Gates
  imports Review_Quorum Transitions Roles
begin

text \<open>
  The gates a task passes before it changes column, in
  \<open>server/internal/application/repository\<close>: \<open>service.go\<close> (\<open>validateColumn\<close>,
  \<open>validateStageConfigured\<close>, \<open>validateAgentSelfMove\<close>, \<open>validateMoveAllowed\<close>, \<open>criteriaGate\<close>,
  \<open>criteriaReviewGate\<close>), \<open>test_cases.go\<close> (\<open>testCaseGate\<close>) and \<open>lifecyclegate.go\<close>
  (\<open>reviewStageSkipGate\<close>, \<open>reviewChainGate\<close>).

  What a gate reads is a record of ports over the stores' state \<open>'s\<close>; a port the service was
  built without is \<open>None\<close>. Each gate comes with the lemma saying exactly when it lets a move
  through, in the collection \<open>gate_simps\<close>.
\<close>

section \<open>Ports\<close>

record 's gate_ports =
  gp_requireCriteria :: bool
  gp_workflows :: "('s \<Rightarrow> TaskType \<Rightarrow> go_error + Workflow) option"
  gp_criteria :: "('s \<Rightarrow> uuid \<Rightarrow> go_error + AcceptanceCriterion list) option"
  gp_testCases :: "('s \<Rightarrow> uuid \<Rightarrow> go_error + TaskTestCase list) option"
  gp_blockingSources :: "('s \<Rightarrow> uuid \<Rightarrow> go_error + BoardTask list) option"
  gp_columns :: "(('s \<Rightarrow> string \<Rightarrow> go_error + bool) \<times> ('s \<Rightarrow> go_error + BoardTransition list)) option"
  gp_latestVerdicts :: "('s \<Rightarrow> uuid \<Rightarrow> go_error + (string \<times> string) list) option"

text \<open>A message rendered from a template of the prompt catalog with its inputs.\<close>

definition rendered :: "string \<Rightarrow> string list \<Rightarrow> string" where
  "rendered key args = key @ concat (map (\<lambda>a. CHR ''|'' # a) args)"

definition svc_workflow :: "('s, 'm) gate_ports_scheme \<Rightarrow> 's \<Rightarrow> TaskType \<Rightarrow> go_error + Workflow" where
  "svc_workflow g s taskType =
     (case gp_workflows g of
        None \<Rightarrow> Inl (ErrText ''workflow reader unavailable'' [])
      | Some reader \<Rightarrow> reader s taskType)"

section \<open>Columns and stages\<close>

definition ValidateColumn :: "('s \<Rightarrow> string \<Rightarrow> go_error + bool) \<Rightarrow> 's \<Rightarrow> string \<Rightarrow> go_error option" where
  "ValidateColumn validSlug s slug =
     (case validSlug s slug of
        Inl err \<Rightarrow> Some err
      | Inr ok \<Rightarrow> if \<not> ok then Some (ErrText ''invalid column'' [slug]) else None)"

definition validateColumn :: "('s, 'm) gate_ports_scheme \<Rightarrow> 's \<Rightarrow> TaskColumn \<Rightarrow> go_error option" where
  "validateColumn g s col =
     (case gp_columns g of
        None \<Rightarrow> if \<not> ValidTaskColumn col then Some (ErrText ''invalid column'' [col]) else None
      | Some (validSlug, _) \<Rightarrow> ValidateColumn validSlug s col)"

definition boardHasColumn :: "('s, 'm) gate_ports_scheme \<Rightarrow> 's \<Rightarrow> TaskColumn \<Rightarrow> bool" where
  "boardHasColumn g s col =
     (case gp_columns g of
        None \<Rightarrow> ValidTaskColumn col
      | Some (validSlug, _) \<Rightarrow> ValidateColumn validSlug s col = None)"

definition validateStageConfigured ::
  "('s, 'm) gate_ports_scheme \<Rightarrow> 's \<Rightarrow> TaskType \<Rightarrow> TaskColumn \<Rightarrow> go_error option" where
  "validateStageConfigured g s taskType target =
     (case svc_workflow g s taskType of
        Inl err \<Rightarrow> None
      | Inr w \<Rightarrow>
          if wf_Stages w = [] then None
          else case Stage w target of
              Some _ \<Rightarrow> None
            | None \<Rightarrow> Some (StageNotOnWorkflowError taskType target))"

section \<open>Who may move, and work order\<close>

definition validateAgentSelfMove ::
  "BoardTask \<Rightarrow> UpdateBoardTaskRequest \<Rightarrow> TaskColumn \<Rightarrow> go_error option" where
  "validateAgentSelfMove task req prevColumn =
     (case req_Column req of
        None \<Rightarrow> None
      | Some col \<Rightarrow>
          if req_Actor req \<noteq> TaskActorAgent \<or> col = prevColumn then None
          else if req_ActorAgentID req = None \<or> bt_AssigneeAgentID task = None \<or>
                  req_ActorAgentID req \<noteq> bt_AssigneeAgentID task then None
          else if col = TaskColumnNeedRevision
          then RefuseMove (Some (ErrText ''self_move.need_revision'' []))
          else if col = TaskColumnTodo then RefuseMove (Some (ErrText ''self_move.todo'' []))
          else None)"

definition validateMoveAllowed ::
  "('s, 'm) gate_ports_scheme \<Rightarrow> 's \<Rightarrow> uuid \<Rightarrow> TaskType \<Rightarrow> TaskColumn \<Rightarrow> go_error option" where
  "validateMoveAllowed g s taskID taskType target =
     (case gp_blockingSources g of
        None \<Rightarrow> None
      | Some listBlocking \<Rightarrow>
          if taskID = uuid_Nil then None
          else case svc_workflow g s taskType of
              Inl err \<Rightarrow> Some (ErrWrap (rendered ''work-order gate: workflow unavailable'' [target]) err)
            | Inr w \<Rightarrow>
                if wf_Param w target BehaviourBlockOnDependencies ''refuse_move'' \<noteq> Some ''true''
                then None
                else case listBlocking s taskID of
                    Inl err \<Rightarrow> Some err
                  | Inr blockers \<Rightarrow>
                      if blockers \<noteq> []
                      then Some (WorkOrderGateError target
                             (map (\<lambda>b. \<lparr>wgb_Key = bt_Key b, wgb_Title = bt_Title b\<rparr>) blockers))
                      else None)"

section \<open>Acceptance criteria and test cases\<close>

definition criterionApprovedByAReviewer :: "AcceptanceCriterion \<Rightarrow> bool" where
  "criterionApprovedByAReviewer c = list_ex chk_Approved (crit_Checks c)"

definition criterionCheckFor :: "AcceptanceCriterion \<Rightarrow> CriterionReviewRole \<Rightarrow> CriterionCheck option" where
  "criterionCheckFor c role = find (\<lambda>ch. chk_Role ch = role) (crit_Checks c)"

definition gate_criterion :: "AcceptanceCriterion \<Rightarrow> CriteriaGateCriterion" where
  "gate_criterion c = \<lparr>cgc_ID = crit_ID c, cgc_Text = crit_Text c\<rparr>"

definition criteriaGate ::
  "('s, 'm) gate_ports_scheme \<Rightarrow> 's \<Rightarrow> uuid \<Rightarrow> TaskType \<Rightarrow> TaskColumn \<Rightarrow> go_error option" where
  "criteriaGate g s taskID taskType target =
     (case gp_criteria g of
        None \<Rightarrow> None
      | Some listByTask \<Rightarrow>
          if \<not> gp_requireCriteria g then None
          else case svc_workflow g s taskType of
              Inl err \<Rightarrow> Some (ErrWrap (rendered ''criteria gate: workflow unavailable'' [target]) err)
            | Inr w \<Rightarrow>
                if \<not> wf_Has w target BehaviourRequireCriteriaComplete then None
                else case listByTask s taskID of
                    Inl err \<Rightarrow> None
                  | Inr items \<Rightarrow>
                      (let open = filter (\<lambda>c. \<not> Settled c \<and> \<not> criterionApprovedByAReviewer c) items
                       in if open = [] then None
                          else Some (CriteriaGateError target CriteriaGateReasonIncomplete
                                 (map gate_criterion open))))"

text \<open>The review channel of a column, as both the gate and the verdict writer read it.\<close>

definition verdict_role :: "Workflow \<Rightarrow> TaskColumn \<Rightarrow> CriterionReviewRole option" where
  "verdict_role w col =
     (case wf_Param w col BehaviourCriterionVerdict ''channel'' of
        None \<Rightarrow> None
      | Some channel \<Rightarrow>
          if channel = ''qa'' then Some CriterionReviewRoleQA
          else if channel = ''pm'' then Some CriterionReviewRolePM else None)"

definition criteriaReviewGate ::
  "('s, 'm) gate_ports_scheme \<Rightarrow> 's \<Rightarrow> uuid \<Rightarrow> TaskType \<Rightarrow> TaskColumn \<Rightarrow> TaskColumn \<Rightarrow> go_error option" where
  "criteriaReviewGate g s taskID taskType prev target =
     (case gp_criteria g of
        None \<Rightarrow> None
      | Some listByTask \<Rightarrow>
          if \<not> gp_requireCriteria g then None
          else case svc_workflow g s taskType of
              Inl err \<Rightarrow> Some (ErrWrap (rendered ''criteria review gate: workflow unavailable'' [target]) err)
            | Inr w \<Rightarrow>
                if \<not> wf_Has w target BehaviourForwardExit then None
                else case verdict_role w prev of
                    None \<Rightarrow> None
                  | Some role \<Rightarrow>
                      (case listByTask s taskID of
                         Inl err \<Rightarrow> None
                       | Inr items \<Rightarrow>
                           (let live = filter (\<lambda>c. \<not> crit_Canceled c) items;
                                unchecked = filter (\<lambda>c. criterionCheckFor c role = None) live;
                                rejected = filter (\<lambda>c. case criterionCheckFor c role of
                                             None \<Rightarrow> False | Some v \<Rightarrow> \<not> chk_Approved v) live
                            in if rejected \<noteq> []
                               then Some (CriteriaGateError target CriteriaGateReasonRejected
                                      (map gate_criterion rejected))
                               else if unchecked \<noteq> []
                               then Some (CriteriaGateError target CriteriaGateReasonUnchecked
                                      (map gate_criterion unchecked))
                               else None)))"

definition TestCaseStatusPlanned :: TestCaseStatus where
  [col_defs]: "TestCaseStatusPlanned = ''planned''"

definition testCaseGate ::
  "('s, 'm) gate_ports_scheme \<Rightarrow> 's \<Rightarrow> uuid \<Rightarrow> TaskType \<Rightarrow> TaskColumn \<Rightarrow> TaskColumn \<Rightarrow> go_error option" where
  "testCaseGate g s taskID taskType prev target =
     (case gp_testCases g of
        None \<Rightarrow> None
      | Some listByTask \<Rightarrow>
          if \<not> gp_requireCriteria g then None
          else case svc_workflow g s taskType of
              Inl err \<Rightarrow> Some (ErrWrap (rendered ''test case gate: workflow unavailable'' [target]) err)
            | Inr w \<Rightarrow>
                if \<not> wf_Has w prev BehaviourRequireTestCases then None
                else if \<not> wf_Has w target BehaviourForwardExit then None
                else case listByTask s taskID of
                    Inl err \<Rightarrow> None
                  | Inr items \<Rightarrow>
                      if items = []
                      then RefuseMove (Some (ErrText ''test_cases.missing'' [target]))
                      else let planned = map tc_Title
                                 (filter (\<lambda>c. tc_Status c = TestCaseStatusPlanned) items)
                        in if planned \<noteq> []
                           then RefuseMove (Some (ErrText ''test_cases.planned'' (target # planned)))
                           else None)"

section \<open>The review chain\<close>

definition stage_line :: "ReviewStage \<Rightarrow> string" where
  "stage_line st = rendered (rs_Label st) [rs_Column st, rs_Remedy st]"

definition reviewChainGate ::
  "('s, 'm) gate_ports_scheme \<Rightarrow> 's \<Rightarrow> BoardTask \<Rightarrow> TaskColumn \<Rightarrow> TaskColumn \<Rightarrow> go_error option" where
  "reviewChainGate g s task prev target =
     (if target \<noteq> TaskColumnDone \<and> target \<noteq> TaskColumnReleased then None
      else if target = TaskColumnReleased \<and> prev = TaskColumnDone then None
      else case svc_workflow g s (bt_TaskType task) of
          Inl err \<Rightarrow> Some (ErrWrap ''review_chain.workflow_unreadable'' ErrReviewChainIncomplete)
        | Inr w \<Rightarrow>
            (let stages = ReviewChain w in
             if stages = [] then None
             else case gp_latestVerdicts g of
                 None \<Rightarrow> Some (ErrWrap ''review_chain.no_span_store'' ErrReviewChainIncomplete)
               | Some latestVerdicts \<Rightarrow>
                   (case latestVerdicts s (bt_ID task) of
                      Inl err \<Rightarrow>
                        Some (ErrWrap ''review_chain.history_unreadable'' ErrReviewChainIncomplete)
                    | Inr verdicts \<Rightarrow>
                        (let present = filter (\<lambda>st. boardHasColumn g s (rs_Column st)) stages;
                             missing = filter (\<lambda>st. map_of verdicts (rs_Column st) = None) present;
                             rejected = filter (\<lambda>st. map_of verdicts (rs_Column st) =
                                                       Some ReviewVerdictReject) present
                         in if rejected \<noteq> []
                            then Some (ErrWrap (rendered ''review_chain.stage_rejected''
                                   (map stage_line rejected)) ErrReviewStageRejected)
                            else if missing \<noteq> []
                            then Some (ErrWrap (rendered ''review_chain.missing_stages''
                                   (map stage_line missing)) ErrReviewChainIncomplete)
                            else None))))"

definition reviewStageSkipGate ::
  "('s, 'm) gate_ports_scheme \<Rightarrow> 's \<Rightarrow> BoardTask \<Rightarrow> TaskColumn \<Rightarrow> TaskColumn \<Rightarrow> TaskActor \<Rightarrow> go_error option" where
  "reviewStageSkipGate g s task prev target actor =
     (if actor \<noteq> TaskActorAgent \<or> prev = target then None
      else case svc_workflow g s (bt_TaskType task) of
          Inl err \<Rightarrow> None
        | Inr w \<Rightarrow>
            (case wf_Param w prev BehaviourReviewVerdictSweep ''pass_to'' of
               None \<Rightarrow> None
             | Some passTo \<Rightarrow>
                 if passTo = '''' then None
                 else let skipped = filter (\<lambda>st. boardHasColumn g s (rs_Column st))
                                      (ReviewStagesBetween w prev target)
                   in if skipped = [] then None
                      else Some (ErrWrap (rendered ''review_stage.skipped'' (map stage_line skipped))
                             ErrReviewStageSkipped)))"

section \<open>When a gate passes\<close>

lemma validateStageConfigured_None [gate_simps]:
  "validateStageConfigured g s t target = None \<longleftrightarrow>
     (\<forall>w. svc_workflow g s t = Inr w \<longrightarrow> wf_Stages w = [] \<or> Stage w target \<noteq> None)"
  by (auto simp: validateStageConfigured_def split: sum.splits option.splits)

lemma validateMoveAllowed_None [gate_simps]:
  "validateMoveAllowed g s taskID t target = None \<longleftrightarrow>
     taskID = uuid_Nil \<or> gp_blockingSources g = None \<or>
     (\<exists>w. svc_workflow g s t = Inr w \<and>
        (wf_Param w target BehaviourBlockOnDependencies ''refuse_move'' = Some ''true'' \<longrightarrow>
           the (gp_blockingSources g) s taskID = Inr []))"
  by (auto simp: validateMoveAllowed_def split: sum.splits option.splits)

lemma criteriaGate_None [gate_simps]:
  "criteriaGate g s taskID t target = None \<longleftrightarrow>
     \<not> gp_requireCriteria g \<or> gp_criteria g = None \<or>
     (\<exists>w. svc_workflow g s t = Inr w \<and>
        (wf_Has w target BehaviourRequireCriteriaComplete \<longrightarrow>
           (\<forall>items. the (gp_criteria g) s taskID = Inr items \<longrightarrow>
              (\<forall>c \<in> set items. Settled c \<or> criterionApprovedByAReviewer c))))"
  by (auto simp: criteriaGate_def Let_def filter_empty_conv split: sum.splits option.splits)

definition approved_by_role :: "CriterionReviewRole \<Rightarrow> AcceptanceCriterion \<Rightarrow> bool" where
  "approved_by_role role c \<longleftrightarrow>
     crit_Canceled c \<or> (\<exists>v. criterionCheckFor c role = Some v \<and> chk_Approved v)"

lemma criteriaReviewGate_None [gate_simps]:
  "criteriaReviewGate g s taskID t prev target = None \<longleftrightarrow>
     \<not> gp_requireCriteria g \<or> gp_criteria g = None \<or>
     (\<exists>w. svc_workflow g s t = Inr w \<and>
        (wf_Has w target BehaviourForwardExit \<longrightarrow>
           (\<forall>role items. verdict_role w prev = Some role \<and>
              the (gp_criteria g) s taskID = Inr items \<longrightarrow>
              (\<forall>c \<in> set items. approved_by_role role c))))"
  by (auto simp: criteriaReviewGate_def approved_by_role_def Let_def filter_empty_conv
      split: sum.splits option.splits)

lemma testCaseGate_None [gate_simps]:
  "testCaseGate g s taskID t prev target = None \<longleftrightarrow>
     \<not> gp_requireCriteria g \<or> gp_testCases g = None \<or>
     (\<exists>w. svc_workflow g s t = Inr w \<and>
        (wf_Has w prev BehaviourRequireTestCases \<and> wf_Has w target BehaviourForwardExit \<longrightarrow>
           (\<forall>items. the (gp_testCases g) s taskID = Inr items \<longrightarrow>
              items \<noteq> [] \<and> (\<forall>c \<in> set items. tc_Status c \<noteq> TestCaseStatusPlanned))))"
  by (auto simp: testCaseGate_def Let_def RefuseMove_def filter_empty_conv
      split: sum.splits option.splits)

text \<open>A stage of the chain a task has passed: visited, and not rejected on the latest visit.\<close>

definition chain_passed :: "(string \<times> string) list \<Rightarrow> TaskColumn \<Rightarrow> bool" where
  "chain_passed verdicts col \<longleftrightarrow>
     (\<exists>v. map_of verdicts col = Some v \<and> v \<noteq> ReviewVerdictReject)"

lemma reviewChainGate_None [gate_simps]:
  "reviewChainGate g s task prev target = None \<longleftrightarrow>
     (target \<noteq> TaskColumnDone \<and> target \<noteq> TaskColumnReleased) \<or>
     (target = TaskColumnReleased \<and> prev = TaskColumnDone) \<or>
     (\<exists>w. svc_workflow g s (bt_TaskType task) = Inr w \<and>
        (ReviewChain w \<noteq> [] \<longrightarrow>
           (\<exists>latest verdicts. gp_latestVerdicts g = Some latest \<and>
              latest s (bt_ID task) = Inr verdicts \<and>
              (\<forall>st \<in> set (ReviewChain w). boardHasColumn g s (rs_Column st) \<longrightarrow>
                 chain_passed verdicts (rs_Column st)))))"
  by (auto simp: reviewChainGate_def chain_passed_def Let_def filter_empty_conv
      split: sum.splits option.splits)

lemma reviewStageSkipGate_None [gate_simps]:
  "reviewStageSkipGate g s task prev target actor = None \<longleftrightarrow>
     actor \<noteq> TaskActorAgent \<or> prev = target \<or>
     (\<forall>w passTo. svc_workflow g s (bt_TaskType task) = Inr w \<and>
        wf_Param w prev BehaviourReviewVerdictSweep ''pass_to'' = Some passTo \<and> passTo \<noteq> '''' \<longrightarrow>
        (\<forall>st \<in> set (ReviewStagesBetween w prev target). \<not> boardHasColumn g s (rs_Column st)))"
  by (auto simp: reviewStageSkipGate_def Let_def filter_empty_conv split: sum.splits option.splits)

lemma validateAgentSelfMove_None [gate_simps]:
  "validateAgentSelfMove task req prev = None \<longleftrightarrow>
     \<not> (\<exists>col. req_Column req = Some col \<and> col \<noteq> prev \<and> req_Actor req = TaskActorAgent \<and>
          req_ActorAgentID req \<noteq> None \<and> req_ActorAgentID req = bt_AssigneeAgentID task \<and>
          (col = TaskColumnNeedRevision \<or> col = TaskColumnTodo))"
  by (auto simp: validateAgentSelfMove_def RefuseMove_def split: option.splits)

end
