(* ===== verification/Task_Keys.thy ===== *)
theory Task_Keys
  imports Tool_Policy
begin

text \<open>
  Task keys: \<open>FormatTaskKey\<close> of \<open>server/internal/domain/board_task.go\<close>, the package
  \<open>domain/taskkey\<close>, \<open>parseTaskKey\<close> of \<open>application/repository/service.go\<close> and the key column
  the queries read (\<open>taskKeySQL\<close> of \<open>adapter/storage/postgres/repository.go\<close>). \<open>fmt.Sscanf\<close>
  with \<open>%d\<close> into an \<open>int\<close> is written out: leading spaces (a newline is an error), an optional
  sign, at least one digit, the rest of the text ignored, an error outside 64 bits.
\<close>

section \<open>Decimal numbers\<close>

function digits :: "nat \<Rightarrow> string" where
  "digits n = (if n < 10 then [char_of (48 + n)] else digits (n div 10) @ [char_of (48 + n mod 10)])"
  by pat_completeness auto
termination by (relation "measure id") simp_all

declare digits.simps [simp del]

definition itoa :: "int \<Rightarrow> string" where
  "itoa i = (if i < 0 then CHR ''-'' # digits (nat (- i)) else digits (nat i))"

definition is_digit :: "char \<Rightarrow> bool" where
  "is_digit c \<longleftrightarrow> 48 \<le> byte c \<and> byte c \<le> 57"

definition digits_value :: "string \<Rightarrow> int" where
  "digits_value s = foldl (\<lambda>acc c. acc * 10 + (int (byte c) - 48)) 0 s"

section \<open>Scanning\<close>

text \<open>\<open>SkipSpace\<close> of the scanner; \<open>None\<close> is its complaint about a newline.\<close>

function skip_space :: "string \<Rightarrow> string option" where
  "skip_space s =
     (if s \<noteq> [] \<and> hd s = CHR 0x0A then None
      else if prefix [CHR 0x0D, CHR 0x0A] s then None
      else if space_at_front s = 0 then Some s
      else skip_space (drop (space_at_front s) s))"
  by pat_completeness auto
termination
proof (relation "measure length", simp)
  fix s :: string
  assume "space_at_front s \<noteq> 0"
  with space_at_front_le [of s] show "(drop (space_at_front s) s, s) \<in> measure length"
    by (cases s) (auto simp: space_at_front_def)
qed

declare skip_space.simps [simp del]

definition scan_int :: "string \<Rightarrow> int option" where
  "scan_int s =
     (case skip_space s of
        None \<Rightarrow> None
      | Some t \<Rightarrow>
          (let signed = t \<noteq> [] \<and> (hd t = CHR ''+'' \<or> hd t = CHR ''-'');
               neg = (t \<noteq> [] \<and> hd t = CHR ''-'');
               ds = takeWhile is_digit (if signed then tl t else t);
               v = (if neg then - digits_value ds else digits_value ds)
           in if ds = [] then None
              else if v < - (2 ^ 63) \<or> 2 ^ 63 \<le> v then None
              else Some v))"

section \<open>Keys\<close>

definition upper_letter :: "char \<Rightarrow> bool" where
  "upper_letter c \<longleftrightarrow> 65 \<le> byte c \<and> byte c \<le> 90"

definition NormalizeKeyPrefix :: "string \<Rightarrow> string" where
  "NormalizeKeyPrefix pfx = ToUpper (TrimSpace pfx)"

definition ValidateKeyPrefix :: "string \<Rightarrow> go_error option" where
  "ValidateKeyPrefix pfx =
     (let p = ToUpper (TrimSpace pfx) in
      if \<not> (2 \<le> length p \<and> length p \<le> 5 \<and> list_all upper_letter p)
      then Some (ErrText ''board key must be 2-5 uppercase letters'' []) else None)"

definition FormatTaskKey :: "TaskType \<Rightarrow> int \<Rightarrow> string" where
  "FormatTaskKey t number = TaskKeyPrefix t @ CHR ''-'' # itoa number"

definition taskkey_FormatTaskKey :: "string \<Rightarrow> int \<Rightarrow> string" where
  "taskkey_FormatTaskKey keyPrefix number = NormalizeKeyPrefix keyPrefix @ CHR ''-'' # itoa number"

text \<open>The key a query reads; \<open>keyPrefix\<close> is the type's column, \<open>CHECK\<close>ed as below.\<close>

definition taskKeySQL :: "string \<Rightarrow> int \<Rightarrow> string" where
  "taskKeySQL keyPrefix number = keyPrefix @ CHR ''-'' # itoa number"

definition key_prefix_check :: "string \<Rightarrow> bool" where
  "key_prefix_check p \<longleftrightarrow> 1 \<le> length p \<and> length p \<le> 4 \<and> list_all upper_letter p"

definition parseTaskKey :: "string \<Rightarrow> go_error + (string \<times> int)" where
  "parseTaskKey key =
     (case str_Split CHR ''-'' (TrimSpace key) of
        [a, b] \<Rightarrow>
          (case scan_int b of
             None \<Rightarrow> Inl (ErrText ''invalid task key number'' [])
           | Some number \<Rightarrow>
               if number \<le> 0 then Inl (ErrText ''invalid task key number'' [])
               else Inr (NormalizeKeyPrefix a, number))
      | _ \<Rightarrow> Inl (ErrText ''invalid task key format, expected PREFIX-NUMBER'' []))"

definition LookupTaskByKey ::
  "(string \<Rightarrow> int \<Rightarrow> go_error + 'task) \<Rightarrow> string \<Rightarrow> go_error + 'task" where
  "LookupTaskByKey lookupByKey key =
     (case parseTaskKey key of
        Inl err \<Rightarrow> Inl err
      | Inr (pfx, number) \<Rightarrow> lookupByKey pfx number)"

text \<open>
  \<open>LookupByKey\<close> of the task store over the tasks' rows: type, number and row; \<open>keyPrefix\<close> is the
  joined \<open>task_types\<close> column.
\<close>

definition store_LookupByKey ::
  "(TaskType \<Rightarrow> string option) \<Rightarrow> (TaskType \<times> int \<times> 'task) list \<Rightarrow> string \<Rightarrow> int \<Rightarrow> go_error + 'task" where
  "store_LookupByKey keyPrefix rows pfx number =
     (case find (\<lambda>(t, n, _). n = number \<and> keyPrefix t = Some (ToUpper (TrimSpace pfx))) rows of
        None \<Rightarrow> Inl (ErrWrap ''lookup board task'' ErrNotFound)
      | Some (_, _, task) \<Rightarrow> Inr task)"

section \<open>Round trip\<close>

lemma byte_digit: "n < 10 \<Longrightarrow> byte (char_of (48 + n)) = 48 + n"
  by (simp add: byte_def)

lemma digits_nonempty [simp]: "digits n \<noteq> []"
  by (subst digits.simps) simp

lemma digits_are_digits: "c \<in> set (digits n) \<Longrightarrow> is_digit c"
proof (induction n rule: digits.induct)
  case (1 n)
  then show ?case
    by (cases "n < 10") (auto simp: digits.simps [of n] is_digit_def byte_digit)
qed

lemma digits_value_snoc: "digits_value (s @ [c]) = digits_value s * 10 + (int (byte c) - 48)"
  by (simp add: digits_value_def)

lemma digits_value_digits: "digits_value (digits n) = int n"
proof (induction n rule: digits.induct)
  case (1 n)
  show ?case
  proof (cases "n < 10")
    case True
    then show ?thesis by (simp add: digits.simps [of n] digits_value_def byte_digit)
  next
    case False
    then have "digits_value (digits n) = int (n div 10) * 10 + int (n mod 10)"
      using 1 by (subst digits.simps) (simp add: digits_value_snoc byte_digit)
    then show ?thesis by (metis div_mult_mod_eq of_nat_add of_nat_mult of_nat_numeral)
  qed
qed

lemma space_at_front_letter:
  assumes "c \<notin> hd ` set utf8_spaces"
  shows "space_at_front (c # s) = 0"
proof -
  have "\<not> prefix sp (c # s)" if "sp \<in> set utf8_spaces" for sp
    using that assms by (cases sp) (auto simp: utf8_spaces_def)
  then have "find (\<lambda>sp. prefix sp (c # s)) utf8_spaces = None" by (simp add: find_None_iff)
  then show ?thesis by (simp add: space_at_front_def)
qed

lemma space_at_back_letter:
  assumes "c \<notin> last ` set utf8_spaces"
  shows "space_at_back (s @ [c]) = 0"
proof -
  have "\<not> suffix sp (s @ [c])" if "sp \<in> set utf8_spaces" for sp
  proof
    assume "suffix sp (s @ [c])"
    moreover have "sp \<noteq> []" using that by (auto simp: utf8_spaces_def)
    ultimately have "last sp = c" by (metis last_appendR last_snoc suffix_def)
    then show False using that assms by auto
  qed
  then have "find (\<lambda>sp. suffix sp (s @ [c])) utf8_spaces = None" by (simp add: find_None_iff)
  then show ?thesis by (simp add: space_at_back_def)
qed

lemma plain_byte:
  assumes "is_digit c \<or> upper_letter c"
  shows "c \<notin> hd ` set utf8_spaces" and "c \<notin> last ` set utf8_spaces"
    and "c \<noteq> CHR 0x0A" and "c \<noteq> CHR 0x0D" and "c \<noteq> CHR ''-''" and "c \<noteq> CHR ''+''"
    and "upper_char c = c"
  using assms
  by (auto simp: utf8_spaces_def is_digit_def upper_letter_def byte_def upper_char_def)

lemma TrimSpace_plain:
  assumes "s \<noteq> []" and "is_digit (hd s) \<or> upper_letter (hd s)" and "is_digit (last s) \<or> upper_letter (last s)"
  shows "TrimSpace s = s"
proof -
  have "space_at_front s = 0"
    using space_at_front_letter [of "hd s" "tl s"] plain_byte(1) [OF assms(2)] assms(1) by simp
  moreover have "space_at_back s = 0"
    using space_at_back_letter [of "last s" "butlast s"] plain_byte(2) [OF assms(3)] assms(1) by simp
  ultimately show ?thesis by (simp add: TrimSpace_def trim_left.simps trim_right.simps)
qed

lemma str_Split_none: "sep \<notin> set s \<Longrightarrow> str_Split sep s = [s]"
  by (induction s) auto

lemma str_Split_once: "sep \<notin> set a \<Longrightarrow> str_Split sep (a @ sep # b) = a # str_Split sep b"
  by (induction a) auto

lemma scan_int_digits:
  assumes "int n < 2 ^ 63"
  shows "scan_int (digits n) = Some (int n)"
proof -
  have d: "is_digit (hd (digits n))" by (rule digits_are_digits [OF hd_in_set]) simp
  have "skip_space (digits n) = Some (digits n)"
    using plain_byte [of "hd (digits n)"] d space_at_front_letter [of "hd (digits n)" "tl (digits n)"]
    by (subst skip_space.simps) (cases "digits n"; auto)
  moreover have "takeWhile is_digit (digits n) = digits n"
    using digits_are_digits by (simp only: takeWhile_eq_all_conv) blast
  moreover have "hd (digits n) \<noteq> CHR ''-''" "hd (digits n) \<noteq> CHR ''+''"
    using plain_byte [of "hd (digits n)"] d by auto
  ultimately show ?thesis
    using assms by (simp add: scan_int_def digits_value_digits Let_def del: takeWhile_eq_all_conv)
qed

lemma ToUpper_plain: "list_all upper_letter p \<Longrightarrow> ToUpper p = p"
  by (induction p) (auto simp: ToUpper_def plain_byte)

lemma parseTaskKey_formatted:
  assumes "key_prefix_check p" and "0 < number" and "number < 2 ^ 63"
  shows "parseTaskKey (p @ CHR ''-'' # itoa number) = Inr (p, number)"
proof -
  obtain n where n: "number = int n" "0 < n" using assms(2) by (metis zero_less_imp_eq_int)
  have digits: "itoa number = digits n" using n by (simp add: itoa_def)
  have p: "p \<noteq> []" "list_all upper_letter p" using assms(1) by (auto simp: key_prefix_check_def)
  have trim: "TrimSpace (p @ CHR ''-'' # digits n) = p @ CHR ''-'' # digits n"
    using p digits_are_digits [OF last_in_set, of n]
    by (intro TrimSpace_plain) (auto simp: list_all_iff)
  have nodash: "CHR ''-'' \<notin> set p" "CHR ''-'' \<notin> set (digits n)"
    using p digits_are_digits plain_byte(5) by (fastforce simp: list_all_iff)+
  have "TrimSpace p = p" using p by (intro TrimSpace_plain) (auto simp: list_all_iff)
  then have "NormalizeKeyPrefix p = p" using p by (simp add: NormalizeKeyPrefix_def ToUpper_plain)
  moreover have "scan_int (digits n) = Some number" using scan_int_digits assms(3) n by simp
  ultimately show ?thesis
    using assms(2) by (simp add: parseTaskKey_def digits trim str_Split_once str_Split_none nodash)
qed

text \<open>
  C40: A key a task shows finds that task: with a type prefix the database accepts (one to four
  capital letters) and a number the counter hands out, \<open>parseTaskKey\<close> reads the text the queries
  print back as exactly that prefix and number, so the lookup by key returns the task whose type
  has the prefix and whose number it is.
\<close>
theorem task_key_round_trip:
  assumes "key_prefix_check p" and "0 < number" and "number < 2 ^ 63"
    and "find (\<lambda>(t, n, _). n = number \<and> keyPrefix t = Some p) rows = Some (t, number, task)"
  shows "LookupTaskByKey (store_LookupByKey keyPrefix rows) (taskKeySQL p number) = Inr task"
proof -
  have "list_all upper_letter p" "p \<noteq> []" using assms(1) by (auto simp: key_prefix_check_def)
  then have "ToUpper (TrimSpace p) = p"
    by (subst TrimSpace_plain) (auto simp: ToUpper_plain list_all_iff)
  then show ?thesis
    using assms by (simp add: LookupTaskByKey_def taskKeySQL_def parseTaskKey_formatted
        store_LookupByKey_def)
qed

lemma task_key_round_trip_witness:
  "LookupTaskByKey (store_LookupByKey (\<lambda>t. Some (TaskKeyPrefix t))
      [(TaskTypeBug, 7, ''other''), (TaskTypeTechnical, 7, ''card'')]) (taskKeySQL ''TC'' 7) = Inr ''card''"
  by (rule task_key_round_trip [where t = TaskTypeTechnical]) code_simp+

text \<open>
  Two tasks never share a key: keys printed from accepted prefixes and counter numbers are
  equal only for the same prefix and number.
\<close>
theorem task_keys_distinct:
  assumes "key_prefix_check p" and "0 < m" and "m < 2 ^ 63"
    and "key_prefix_check q" and "0 < n" and "n < 2 ^ 63"
  shows "taskKeySQL p m = taskKeySQL q n \<longleftrightarrow> p = q \<and> m = n"
proof
  assume "taskKeySQL p m = taskKeySQL q n"
  then have "parseTaskKey (p @ CHR ''-'' # itoa m) = parseTaskKey (q @ CHR ''-'' # itoa n)"
    unfolding taskKeySQL_def by (rule arg_cong)
  then show "p = q \<and> m = n"
    unfolding parseTaskKey_formatted [OF assms(1-3)] parseTaskKey_formatted [OF assms(4-6)] by simp
qed simp

lemma task_keys_distinct_witness:
  "taskKeySQL ''B'' 12 = taskKeySQL ''B'' 21 \<longleftrightarrow> ''B'' = ''B'' \<and> (12 :: int) = 21"
  by (rule task_keys_distinct) (simp_all add: key_prefix_check_def upper_letter_def byte_def)

lemma builtin_key_prefixes:
  "key_prefix_check (TaskKeyPrefix t)"
  "ValidTaskType t \<Longrightarrow> TaskTypeForKeyPrefix (TaskKeyPrefix t) = Some t"
proof -
  show "key_prefix_check (TaskKeyPrefix t)"
    by (simp add: TaskKeyPrefix_def key_prefix_check_def upper_letter_def byte_def)
  have "list_all (\<lambda>t. TaskTypeForKeyPrefix (TaskKeyPrefix t) = Some t)
      [TaskTypeTask, TaskTypeAnaliz, TaskTypeBug, TaskTypeTechnical, TaskTypeDesign]"
    by code_simp
  then show "ValidTaskType t \<Longrightarrow> TaskTypeForKeyPrefix (TaskKeyPrefix t) = Some t"
    by (simp only: ValidTaskType_def list_all_iff)
qed

end
