(* ===== verification/Task_Store.thy ===== *)
theory Task_Store
  imports Task_Keys "HOL-Library.AList" "HOL-Library.Product_Lexorder"
begin

text \<open>
  The task table: \<open>BoardTaskStore\<close> of \<open>server/internal/adapter/storage/postgres/repository.go\<close> and
  the parking resources of \<open>server/internal/domain/resource_block.go\<close>. A row is a \<open>BoardTask\<close>;
  a null text column reads as the empty string, as \<open>scanBoardTask\<close> makes it, and no statement
  stores an empty string in the columns where the source tests for null. Each statement is one
  step on the table: \<open>FOR UPDATE SKIP LOCKED\<close> makes a claim and its update one. The joined columns
  (type prefix, open span, parked run, running run) are parts of the state.
\<close>

section \<open>What a task is parked on\<close>

definition ResourceMobileDevice :: string where [col_defs]: "ResourceMobileDevice = ''mobile_device''"
definition ResourceClaudeCodeQuota :: string where
  [col_defs]: "ResourceClaudeCodeQuota = ''llm_provider_code_quota''"
definition ResourceDeployWatch :: string where [col_defs]: "ResourceDeployWatch = ''deploy_watch''"
definition ResourceWorkOrder :: string where [col_defs]: "ResourceWorkOrder = ''work_order''"
definition ResourceHumanDecision :: string where [col_defs]: "ResourceHumanDecision = ''human_decision''"
definition ResourceReleaseWatch :: string where [col_defs]: "ResourceReleaseWatch = ''release_watch''"
definition ResourceAnalysisQuestions :: string where
  [col_defs]: "ResourceAnalysisQuestions = ''analysis_questions''"
definition ResourceDeployOrder :: string where [col_defs]: "ResourceDeployOrder = ''deploy_order''"
definition ResourceBeforeDeploy :: string where [col_defs]: "ResourceBeforeDeploy = ''before_deploy''"
definition ResourceDeliveryProfile :: string where
  [col_defs]: "ResourceDeliveryProfile = ''delivery_profile''"
definition ResourceDeployEnv :: string where [col_defs]: "ResourceDeployEnv = ''deploy_env''"

definition MergeHoldResources :: "string list" where
  [col_defs]: "MergeHoldResources =
     [ResourceDeployOrder, ResourceBeforeDeploy, ResourceDeliveryProfile, ResourceDeployEnv]"

definition IsMergeHold :: "string \<Rightarrow> bool" where
  "IsMergeHold resource \<longleftrightarrow> list_ex (\<lambda>r. r = resource) MergeHoldResources"

definition ValidResource :: "string \<Rightarrow> bool" where
  "ValidResource name \<longleftrightarrow>
     name = ResourceMobileDevice \<or> name = ResourceClaudeCodeQuota \<or> name = ResourceDeployWatch \<or>
     name = ResourceWorkOrder \<or> name = ResourceHumanDecision \<or> name = ResourceReleaseWatch \<or>
     name = ResourceAnalysisQuestions"


section \<open>The table\<close>

record task_db =
  db_tasks :: "BoardTask list"
  db_counters :: "(TaskType \<times> int) list"
  db_prefixes :: "(TaskType \<times> string) list"
  db_enteredAt :: "uuid \<Rightarrow> time option"
  db_quotaResumeAt :: "uuid \<Rightarrow> time option"
  db_running :: "uuid \<Rightarrow> bool"
  db_now :: time

definition row_key :: "task_db \<Rightarrow> BoardTask \<Rightarrow> string" where
  "row_key db row =
     (let pfx = (case map_of (db_prefixes db) (bt_TaskType row) of
                   Some p \<Rightarrow> if p \<noteq> '''' then p else bt_TaskType row
                 | None \<Rightarrow> bt_TaskType row)
      in pfx @ CHR ''-'' # itoa (bt_TaskNumber row))"

text \<open>The two projections \<open>scanBoardTask\<close> reads.\<close>

definition scan_returning :: "task_db \<Rightarrow> BoardTask \<Rightarrow> BoardTask" where
  "scan_returning db row =
     row\<lparr>bt_Key := row_key db row, bt_ColumnEnteredAt := None, bt_BlockedResumeAt := None,
         bt_AgentRunning := db_running db (bt_ID row)\<rparr>"

definition scan_select :: "task_db \<Rightarrow> BoardTask \<Rightarrow> BoardTask" where
  "scan_select db row =
     row\<lparr>bt_Key := row_key db row, bt_ColumnEnteredAt := db_enteredAt db (bt_ID row),
         bt_BlockedResumeAt :=
           (if bt_BlockedResource row = ResourceClaudeCodeQuota
            then db_quotaResumeAt db (bt_ID row) else None),
         bt_AgentRunning := db_running db (bt_ID row)\<rparr>"

definition find_row :: "(BoardTask \<Rightarrow> bool) \<Rightarrow> task_db \<Rightarrow> BoardTask option" where
  "find_row P db = find P (db_tasks db)"

text \<open>\<open>UPDATE ... SET f, updated_at = now() WHERE P\<close>.\<close>

definition update_rows ::
  "(BoardTask \<Rightarrow> bool) \<Rightarrow> (BoardTask \<Rightarrow> BoardTask) \<Rightarrow> task_db \<Rightarrow> task_db" where
  "update_rows P f db =
     db\<lparr>db_tasks := map (\<lambda>r. if P r then (f r)\<lparr>bt_UpdatedAt := db_now db\<rparr> else r) (db_tasks db)\<rparr>"

definition owned :: "uuid \<Rightarrow> uuid \<Rightarrow> BoardTask \<Rightarrow> bool" where
  "owned repositoryID taskID r \<longleftrightarrow> bt_ID r = taskID \<and> bt_RepositoryID r = repositoryID"

section \<open>Reading, creating, editing\<close>

definition store_Get :: "uuid \<Rightarrow> uuid \<Rightarrow> task_db \<Rightarrow> go_error + BoardTask" where
  "store_Get repositoryID taskID db =
     (case find_row (owned repositoryID taskID) db of
        None \<Rightarrow> Inl (ErrWrap (uuid_String taskID) ErrBoardTaskNotFound)
      | Some r \<Rightarrow> Inr (scan_select db r))"

definition store_GetByID :: "uuid \<Rightarrow> task_db \<Rightarrow> go_error + BoardTask" where
  "store_GetByID taskID db =
     (case find_row (\<lambda>r. bt_ID r = taskID) db of
        None \<Rightarrow> Inl (ErrWrap (uuid_String taskID) ErrBoardTaskNotFound)
      | Some r \<Rightarrow> Inr (scan_select db r))"

definition store_ListByRepository :: "uuid \<Rightarrow> task_db \<Rightarrow> BoardTask list" where
  "store_ListByRepository repositoryID db =
     map (scan_select db) (filter (\<lambda>r. bt_RepositoryID r = repositoryID) (db_tasks db))"

text \<open>
  \<open>newID\<close> is the row's \<open>gen_random_uuid()\<close>. The table has a unique index on type and number
  (migration 114), which a statement that would break it reports as an error.
\<close>

definition number_taken :: "uuid \<Rightarrow> TaskType \<Rightarrow> int \<Rightarrow> task_db \<Rightarrow> bool" where
  "number_taken taskID taskType number db \<longleftrightarrow>
     list_ex (\<lambda>r. bt_ID r \<noteq> taskID \<and> bt_TaskType r = taskType \<and> bt_TaskNumber r = number) (db_tasks db)"

definition store_Create :: "uuid \<Rightarrow> BoardTask \<Rightarrow> task_db \<Rightarrow> (go_error + BoardTask) \<times> task_db" where
  "store_Create newID task db =
     (let row = zero_BoardTask\<lparr>bt_ID := newID, bt_RepositoryID := bt_RepositoryID task,
            bt_TaskNumber := bt_TaskNumber task, bt_Title := bt_Title task,
            bt_TaskType := bt_TaskType task, bt_Description := bt_Description task,
            bt_TechnicalDescription := bt_TechnicalDescription task,
            bt_InitiativeProjectID := bt_InitiativeProjectID task, bt_Column := bt_Column task,
            bt_Position := bt_Position task, bt_Priority := bt_Priority task,
            bt_CreatedBy := bt_CreatedBy task, bt_AssigneeAgentID := bt_AssigneeAgentID task,
            bt_BeforeDeploy := bt_BeforeDeploy task, bt_AfterDeploy := bt_AfterDeploy task,
            bt_RollbackPlan := bt_RollbackPlan task, bt_ComponentID := bt_ComponentID task,
            bt_CreatedAt := db_now db, bt_UpdatedAt := db_now db\<rparr>
      in if number_taken newID (bt_TaskType task) (bt_TaskNumber task) db
         then (Inl (ErrWrap ''create board task'' (ErrStore ''duplicate key'')), db)
         else (Inr (scan_returning db row), db\<lparr>db_tasks := db_tasks db @ [row]\<rparr>))"

text \<open>When an edit clears the park of a row.\<close>

definition edit_releases :: "TaskColumn \<Rightarrow> BoardTask \<Rightarrow> bool" where
  "edit_releases column r \<longleftrightarrow>
     bt_BlockedSessionID r = None \<and> column \<noteq> TaskColumnBlocked \<and>
     \<not> (bt_Column r = column \<and> IsMergeHold (bt_BlockedResource r))"

definition edit_row :: "BoardTask \<Rightarrow> BoardTask \<Rightarrow> BoardTask" where
  "edit_row task r =
     (let released = edit_releases (bt_Column task) r in
      r\<lparr>bt_Title := bt_Title task, bt_TaskType := bt_TaskType task,
        bt_Description := bt_Description task,
        bt_TechnicalDescription := bt_TechnicalDescription task,
        bt_InitiativeProjectID := bt_InitiativeProjectID task,
        bt_Column := bt_Column task, bt_Position := bt_Position task,
        bt_Priority := bt_Priority task, bt_AssigneeAgentID := bt_AssigneeAgentID task,
        bt_BlockedQuestion := (if released then '''' else bt_BlockedQuestion r),
        bt_BlockedAt := (if released then None else bt_BlockedAt r),
        bt_BlockedOriginColumn := (if released then '''' else bt_BlockedOriginColumn r),
        bt_BlockedResource := (if released then '''' else bt_BlockedResource r),
        bt_VerifiedSHA := bt_VerifiedSHA task, bt_BeforeDeploy := bt_BeforeDeploy task,
        bt_AfterDeploy := bt_AfterDeploy task, bt_RollbackPlan := bt_RollbackPlan task,
        bt_ComponentID := bt_ComponentID task,
        bt_BeforeDeployConfirmedAt := bt_BeforeDeployConfirmedAt task\<rparr>)"

definition returned :: "string \<Rightarrow> (BoardTask \<Rightarrow> bool) \<Rightarrow> task_db \<Rightarrow> go_error + BoardTask" where
  "returned what P db =
     (case find_row P db of
        None \<Rightarrow> Inl (ErrWrap what (ErrStore ''no rows in result set''))
      | Some r \<Rightarrow> Inr (scan_returning db r))"

definition store_Update :: "BoardTask \<Rightarrow> task_db \<Rightarrow> (go_error + BoardTask) \<times> task_db" where
  "store_Update task db =
     (let P = owned (bt_RepositoryID task) (bt_ID task); db' = update_rows P (edit_row task) db
      in case find_row P db of
           Some r \<Rightarrow>
             (if number_taken (bt_ID r) (bt_TaskType task) (bt_TaskNumber r) db
              then (Inl (ErrWrap ''update board task'' (ErrStore ''duplicate key'')), db)
              else (returned ''update board task'' P db', db'))
         | None \<Rightarrow> (returned ''update board task'' P db', db'))"

definition store_Delete :: "uuid \<Rightarrow> uuid \<Rightarrow> task_db \<Rightarrow> go_error option \<times> task_db" where
  "store_Delete repositoryID taskID db =
     (if find_row (owned repositoryID taskID) db = None
      then (Some (ErrText ''board task not found'' []), db)
      else (None, db\<lparr>db_tasks := filter (\<lambda>r. \<not> owned repositoryID taskID r) (db_tasks db)\<rparr>))"

text \<open>One statement, so that two creations cannot read the same number.\<close>

definition store_NextTaskNumber :: "TaskType \<Rightarrow> task_db \<Rightarrow> int \<times> task_db" where
  "store_NextTaskNumber taskType db =
     (let next = (case map_of (db_counters db) taskType of None \<Rightarrow> 1 | Some n \<Rightarrow> n + 1)
      in (next, db\<lparr>db_counters := AList.update taskType next (db_counters db)\<rparr>))"

section \<open>Parking\<close>

definition park_row :: "BoardTask \<Rightarrow> BoardTask" where
  "park_row r =
     r\<lparr>bt_BlockedOriginColumn :=
         (if bt_Column r = TaskColumnBlocked then bt_BlockedOriginColumn r else bt_Column r),
       bt_Column := TaskColumnBlocked\<rparr>"

definition BlockOnQuestion :: "uuid \<Rightarrow> uuid \<Rightarrow> uuid \<Rightarrow> string \<Rightarrow> task_db \<Rightarrow> task_db" where
  "BlockOnQuestion repositoryID taskID sessionID question db =
     update_rows (owned repositoryID taskID)
       (\<lambda>r. (park_row r)\<lparr>bt_BlockedQuestion := question, bt_BlockedSessionID := Some sessionID,
          bt_ClarificationSessionID := Some sessionID, bt_BlockedAt := Some (db_now db)\<rparr>) db"

definition BlockOnCancel :: "uuid \<Rightarrow> uuid \<Rightarrow> string \<Rightarrow> task_db \<Rightarrow> task_db" where
  "BlockOnCancel repositoryID taskID reason db =
     update_rows (owned repositoryID taskID)
       (\<lambda>r. (park_row r)\<lparr>bt_BlockedQuestion := reason, bt_BlockedAt := Some (db_now db)\<rparr>) db"

definition BlockOnResource ::
  "uuid \<Rightarrow> uuid \<Rightarrow> string \<Rightarrow> string \<Rightarrow> task_db \<Rightarrow> (go_error + TaskColumn) \<times> task_db" where
  "BlockOnResource repositoryID taskID resource detail db =
     (if \<not> ValidResource resource
      then (Inl (ErrText ''unknown blocking resource'' [resource]), db)
      else case find_row (owned repositoryID taskID) db of
          None \<Rightarrow> (Inr '''', db)
        | Some previous \<Rightarrow>
            (Inr (bt_Column previous),
             update_rows (owned repositoryID taskID)
               (\<lambda>r. (park_row r)\<lparr>bt_BlockedQuestion := detail, bt_BlockedResource := resource,
                  bt_BlockedAt := Some (db_now db)\<rparr>) db))"

definition MarkWorkOrderWaiting :: "uuid \<Rightarrow> uuid \<Rightarrow> string \<Rightarrow> task_db \<Rightarrow> task_db" where
  "MarkWorkOrderWaiting repositoryID taskID detail db =
     update_rows (owned repositoryID taskID)
       (\<lambda>r. r\<lparr>bt_BlockedQuestion := detail, bt_BlockedResource := ResourceWorkOrder,
          bt_BlockedAt := Some (db_now db)\<rparr>) db"

definition HoldMerge :: "uuid \<Rightarrow> uuid \<Rightarrow> string \<Rightarrow> string \<Rightarrow> task_db \<Rightarrow> task_db" where
  "HoldMerge repositoryID taskID resource detail db =
     update_rows
       (\<lambda>r. owned repositoryID taskID r \<and> bt_BlockedSessionID r = None \<and>
          (bt_BlockedResource r = '''' \<or> IsMergeHold (bt_BlockedResource r)))
       (\<lambda>r. r\<lparr>bt_BlockedQuestion := detail, bt_BlockedResource := resource,
          bt_BlockedAt :=
            (if bt_BlockedResource r = resource \<and> bt_BlockedAt r \<noteq> None
             then bt_BlockedAt r else Some (db_now db))\<rparr>) db"

section \<open>Releasing\<close>

definition clear_park :: "BoardTask \<Rightarrow> BoardTask" where
  "clear_park r = r\<lparr>bt_BlockedQuestion := '''', bt_BlockedResource := '''', bt_BlockedAt := None\<rparr>"

definition ReleaseMergeHold :: "uuid \<Rightarrow> string list \<Rightarrow> task_db \<Rightarrow> task_db" where
  "ReleaseMergeHold taskID resources db =
     update_rows
       (\<lambda>r. bt_ID r = taskID \<and> bt_BlockedResource r \<in> set resources \<and>
          IsMergeHold (bt_BlockedResource r))
       clear_park db"

text \<open>
  A claim: the row the \<open>SELECT ... FOR UPDATE\<close> names is handed back as it was before the update,
  beside the table after it. The final \<open>SELECT\<close> reads the snapshot.
\<close>

definition ClearWorkOrderWaiting :: "uuid \<Rightarrow> task_db \<Rightarrow> BoardTask option \<times> task_db" where
  "ClearWorkOrderWaiting taskID db =
     (let P = (\<lambda>r. bt_ID r = taskID \<and> bt_BlockedResource r = ResourceWorkOrder) in
      (map_option (scan_select db) (find_row P db), update_rows P clear_park db))"

definition restored_column :: "TaskColumn \<Rightarrow> BoardTask \<Rightarrow> TaskColumn" where
  "restored_column fallback r =
     (if bt_BlockedOriginColumn r \<noteq> '''' then bt_BlockedOriginColumn r else fallback)"

definition unpark_row :: "TaskColumn \<Rightarrow> BoardTask \<Rightarrow> BoardTask" where
  "unpark_row fallback r =
     (clear_park r)\<lparr>bt_Column := restored_column fallback r, bt_BlockedOriginColumn := ''''\<rparr>"

definition answered_row :: "BoardTask \<Rightarrow> BoardTask" where
  "answered_row r =
     r\<lparr>bt_BlockedQuestion := '''', bt_BlockedSessionID := None, bt_BlockedAt := None,
       bt_Column := restored_column TaskColumnTodo r, bt_BlockedOriginColumn := ''''\<rparr>"

text \<open>The parked row that has waited longest, by \<open>blocked_at\<close> and then \<open>created_at\<close>.\<close>

fun oldest :: "BoardTask list \<Rightarrow> BoardTask option" where
  "oldest [] = None"
| "oldest (r # rs) =
     (case oldest rs of
        None \<Rightarrow> Some r
      | Some q \<Rightarrow>
          if (the (bt_BlockedAt q), bt_CreatedAt q) < (the (bt_BlockedAt r), bt_CreatedAt r)
          then Some q else Some r)"

definition take_row ::
  "BoardTask option \<Rightarrow> (BoardTask \<Rightarrow> BoardTask) \<Rightarrow> TaskColumn \<Rightarrow> task_db \<Rightarrow>
   BoardTask option \<times> task_db" where
  "take_row claimed f fallback db =
     (case claimed of
        None \<Rightarrow> (None, db)
      | Some c \<Rightarrow>
          (Some ((scan_select db c)\<lparr>bt_Column := restored_column fallback c\<rparr>),
           update_rows (\<lambda>r. bt_ID r = bt_ID c) f db))"

definition parked_on :: "string \<Rightarrow> BoardTask \<Rightarrow> bool" where
  "parked_on resource r \<longleftrightarrow> bt_BlockedResource r = resource \<and> bt_BlockedAt r \<noteq> None"

definition TakeBlockedByResource :: "string \<Rightarrow> task_db \<Rightarrow> BoardTask option \<times> task_db" where
  "TakeBlockedByResource resource db =
     take_row (oldest (filter (parked_on resource) (db_tasks db)))
       (unpark_row TaskColumnTodo) TaskColumnTodo db"

definition quota_due :: "time \<Rightarrow> task_db \<Rightarrow> BoardTask \<Rightarrow> bool" where
  "quota_due at db r \<longleftrightarrow>
     parked_on ResourceClaudeCodeQuota r \<and>
     (case db_quotaResumeAt db (bt_ID r) of
        Some resume \<Rightarrow> resume \<le> at
      | None \<Rightarrow> the (bt_BlockedAt r) + 30 * 60 * 1000000000 \<le> at)"

definition TakeQuotaResumable :: "time \<Rightarrow> task_db \<Rightarrow> BoardTask option \<times> task_db" where
  "TakeQuotaResumable at db =
     take_row (oldest (filter (quota_due at db) (db_tasks db)))
       (unpark_row TaskColumnTodo) TaskColumnTodo db"

definition TakeBlockedBySession :: "uuid \<Rightarrow> task_db \<Rightarrow> BoardTask option \<times> task_db" where
  "TakeBlockedBySession sessionID db =
     take_row (find_row (\<lambda>r. bt_BlockedSessionID r = Some sessionID \<and> bt_BlockedAt r \<noteq> None) db)
       answered_row TaskColumnTodo db"

definition TakeBlockedResourceTask :: "string \<Rightarrow> uuid \<Rightarrow> task_db \<Rightarrow> BoardTask option \<times> task_db" where
  "TakeBlockedResourceTask resource taskID db =
     take_row (find_row (\<lambda>r. bt_ID r = taskID \<and> parked_on resource r) db)
       (unpark_row TaskColumnTodo) TaskColumnTodo db"

definition ReleaseAnalysisQuestionsBlock :: "uuid \<Rightarrow> task_db \<Rightarrow> BoardTask option \<times> task_db" where
  "ReleaseAnalysisQuestionsBlock taskID db =
     take_row (find_row (\<lambda>r. bt_ID r = taskID \<and> parked_on ResourceAnalysisQuestions r) db)
       (unpark_row TaskColumnInProgress) TaskColumnInProgress db"

definition restoreBlockedOriginColumn :: "BoardTask \<Rightarrow> TaskColumn" where
  "restoreBlockedOriginColumn task = restored_column TaskColumnTodo task"

definition ListBlockedByResource :: "string \<Rightarrow> int \<Rightarrow> task_db \<Rightarrow> BoardTask list" where
  "ListBlockedByResource resource limit db =
     (let n = (if limit \<le> 0 then 50 else limit);
          rows = take (nat n) (sort_key (\<lambda>r. (the (bt_BlockedAt r), bt_CreatedAt r))
                   (filter (parked_on resource) (db_tasks db)))
      in map (\<lambda>r. let task = scan_select db r in
           if resource \<noteq> ResourceWorkOrder
           then task\<lparr>bt_Column := restoreBlockedOriginColumn task\<rparr> else task) rows)"

section \<open>The setters beside Update\<close>

definition SetMigrationFlag :: "uuid \<Rightarrow> bool \<Rightarrow> task_db \<Rightarrow> task_db" where
  "SetMigrationFlag taskID hasMigration =
     update_rows (\<lambda>r. bt_ID r = taskID) (\<lambda>r. r\<lparr>bt_HasMigration := hasMigration\<rparr>)"

definition SetTaskPullRequest :: "uuid \<Rightarrow> string \<Rightarrow> int \<Rightarrow> task_db \<Rightarrow> task_db" where
  "SetTaskPullRequest taskID url number =
     update_rows (\<lambda>r. bt_ID r = taskID)
       (\<lambda>r. r\<lparr>bt_PRURL := url, bt_PRNumber := (if 0 < number then number else 0)\<rparr>)"

definition SetTaskMergeCommit :: "uuid \<Rightarrow> string \<Rightarrow> task_db \<Rightarrow> task_db" where
  "SetTaskMergeCommit taskID sha =
     update_rows (\<lambda>r. bt_ID r = taskID) (\<lambda>r. r\<lparr>bt_MergeCommitSHA := TrimSpace sha\<rparr>)"

definition ResetMergeState :: "uuid \<Rightarrow> task_db \<Rightarrow> task_db" where
  "ResetMergeState taskID =
     update_rows (\<lambda>r. bt_ID r = taskID)
       (\<lambda>r. r\<lparr>bt_PRURL := '''', bt_PRNumber := 0, bt_MergeCommitSHA := '''', bt_VerifiedSHA := '''',
          bt_BeforeDeployConfirmedAt := None\<rparr>)"

definition MarkStageVerified :: "uuid \<Rightarrow> time \<Rightarrow> task_db \<Rightarrow> task_db" where
  "MarkStageVerified taskID at =
     update_rows (\<lambda>r. bt_ID r = taskID) (\<lambda>r. r\<lparr>bt_StageVerifiedAt := Some at\<rparr>)"

definition ClearStageVerification :: "uuid \<Rightarrow> task_db \<Rightarrow> task_db" where
  "ClearStageVerification taskID =
     update_rows (\<lambda>r. bt_ID r = taskID) (\<lambda>r. r\<lparr>bt_StageVerifiedAt := None\<rparr>)"

definition store_ConfirmBeforeDeploy ::
  "uuid \<Rightarrow> uuid \<Rightarrow> task_db \<Rightarrow> (go_error + BoardTask) \<times> task_db" where
  "store_ConfirmBeforeDeploy repositoryID taskID db =
     (let P = owned repositoryID taskID;
          db' = update_rows P
            (\<lambda>r. let hold = (bt_BlockedResource r = ResourceBeforeDeploy) in
               r\<lparr>bt_BeforeDeployConfirmedAt :=
                   (case bt_BeforeDeployConfirmedAt r of None \<Rightarrow> Some (db_now db) | at \<Rightarrow> at),
                 bt_BlockedQuestion := (if hold then '''' else bt_BlockedQuestion r),
                 bt_BlockedAt := (if hold then None else bt_BlockedAt r),
                 bt_BlockedResource := (if hold then '''' else bt_BlockedResource r)\<rparr>) db
      in (case find_row P db' of
            None \<Rightarrow> Inl (ErrWrap (uuid_String taskID) ErrBoardTaskNotFound)
          | Some r \<Rightarrow> Inr (scan_returning db' r), db'))"

definition ClaimAssignee ::
  "uuid \<Rightarrow> uuid \<Rightarrow> uuid \<Rightarrow> task_db \<Rightarrow> (go_error + BoardTask) \<times> task_db" where
  "ClaimAssignee repositoryID taskID agentID db =
     (let P = (\<lambda>r. owned repositoryID taskID r \<and>
                (bt_AssigneeAgentID r = None \<or> bt_AssigneeAgentID r = Some agentID));
          db' = update_rows P (\<lambda>r. r\<lparr>bt_AssigneeAgentID := Some agentID\<rparr>) db
      in (case find_row P db' of
            Some r \<Rightarrow> Inr (scan_returning db' r)
          | None \<Rightarrow>
              (case store_Get repositoryID taskID db of
                 Inl err \<Rightarrow> Inl (ErrWrap ''claim assignee'' err)
               | Inr current \<Rightarrow>
                   if bt_AssigneeAgentID current \<noteq> None \<and> bt_AssigneeAgentID current \<noteq> Some agentID
                   then Inl (ErrWrap (''claim assignee: '' @ bt_Key current) ErrTaskAlreadyClaimed)
                   else Inl (ErrText ''claim assignee: changed while it was being claimed'' [bt_Key current])),
          db'))"

section \<open>Statements and rows\<close>

lemma db_update_rows [simp]:
  "db_counters (update_rows P f db) = db_counters db"
  "db_prefixes (update_rows P f db) = db_prefixes db"
  "db_now (update_rows P f db) = db_now db"
  by (simp_all add: update_rows_def)

lemma row_ids [simp]:
  "bt_ID (edit_row task r) = bt_ID r" "bt_ID (park_row r) = bt_ID r" "bt_ID (clear_park r) = bt_ID r"
  "bt_ID (unpark_row fallback r) = bt_ID r" "bt_ID (answered_row r) = bt_ID r"
  by (simp_all add: edit_row_def park_row_def clear_park_def unpark_row_def answered_row_def Let_def)

lemma update_rows_ids:
  assumes "\<And>r. bt_ID (f r) = bt_ID r"
  shows "map bt_ID (db_tasks (update_rows P f db)) = map bt_ID (db_tasks db)"
  using assms by (simp add: update_rows_def)

lemma update_rows_all:
  assumes "\<forall>r \<in> set (db_tasks db). Q r"
    and "\<And>r. Q r \<Longrightarrow> P r \<Longrightarrow> Q ((f r)\<lparr>bt_UpdatedAt := db_now db\<rparr>)"
  shows "\<forall>r \<in> set (db_tasks (update_rows P f db)). Q r"
  using assms by (auto simp: update_rows_def)

text \<open>The row a statement found, after the statement.\<close>

lemma find_row_update:
  assumes "distinct (map bt_ID (db_tasks db))" and "r \<in> set (db_tasks db)" and "P r"
    and "\<And>q. P q \<Longrightarrow> bt_ID q = bt_ID r" and "\<And>q. bt_ID (f q) = bt_ID q"
    and "Q ((f r)\<lparr>bt_UpdatedAt := db_now db\<rparr>)" and "\<And>q. Q q \<Longrightarrow> bt_ID q = bt_ID r"
  shows "find_row Q (update_rows P f db) = Some ((f r)\<lparr>bt_UpdatedAt := db_now db\<rparr>)"
proof -
  obtain pre post where tasks: "db_tasks db = pre @ r # post" using assms(2) by (meson split_list)
  have other: "bt_ID q \<noteq> bt_ID r" if "q \<in> set pre" for q
    using assms(1) tasks that by (auto simp: image_iff)
  have "\<not> Q (if P q then (f q)\<lparr>bt_UpdatedAt := db_now db\<rparr> else q)" if "q \<in> set pre" for q
    using other [OF that] assms(5,7) by (auto dest: assms(7))
  then have "find Q (map (\<lambda>q. if P q then (f q)\<lparr>bt_UpdatedAt := db_now db\<rparr> else q) (pre @ r # post))
      = Some ((f r)\<lparr>bt_UpdatedAt := db_now db\<rparr>)"
    using assms(3,6) by (induction pre) auto
  then show ?thesis by (simp add: find_row_def update_rows_def tasks)
qed

lemma find_row_Some: "find_row P db = Some r \<Longrightarrow> r \<in> set (db_tasks db) \<and> P r"
  by (auto simp: find_row_def find_Some_iff)

lemma oldest_in: "oldest rs = Some r \<Longrightarrow> r \<in> set rs"
  by (induction rs) (auto split: option.splits if_splits)

lemma oldest_None: "oldest rs = None \<longleftrightarrow> rs = []"
  by (cases rs) (auto split: option.splits if_splits)

lemma oldest_least:
  "oldest rs = Some r \<Longrightarrow> q \<in> set rs \<Longrightarrow>
   (the (bt_BlockedAt r), bt_CreatedAt r) \<le> (the (bt_BlockedAt q), bt_CreatedAt q)"
proof (induction rs arbitrary: r)
  case (Cons a rs)
  show ?case
  proof (cases "oldest rs")
    case None
    then show ?thesis using Cons.prems by (simp add: oldest_None)
  next
    case (Some p)
    then show ?thesis
      using Cons.prems Cons.IH [OF Some] by (auto split: if_splits)
  qed
qed simp

lemma oldest_first:
  "oldest rs = Some r \<Longrightarrow> q \<in> set rs \<Longrightarrow> the (bt_BlockedAt r) \<le> the (bt_BlockedAt q)"
  by (drule (1) oldest_least) (auto simp: less_eq_prod_def)

section \<open>Claims are exclusive\<close>

text \<open>
  What a claim needs of the row it releases: that the released row is not claimable. Then a task
  is handed back by one claim only, and every other row keeps its park.
\<close>

locale park_claim =
  fixes claimable :: "BoardTask \<Rightarrow> bool" and release :: "BoardTask \<Rightarrow> BoardTask"
  assumes released: "\<not> claimable ((release r)\<lparr>bt_UpdatedAt := at\<rparr>)"
    and same_id: "bt_ID (release r) = bt_ID r"
begin

lemma claimed_once:
  assumes "take_row (Some c) release fallback db = (out, db')"
  shows "\<forall>r \<in> set (db_tasks db'). bt_ID r = bt_ID c \<longrightarrow> \<not> claimable r"
proof
  fix r assume r: "r \<in> set (db_tasks db')"
  have db': "db' = update_rows (\<lambda>r. bt_ID r = bt_ID c) release db"
    using assms by (simp add: take_row_def)
  obtain q where "q \<in> set (db_tasks db)"
    "r = (if bt_ID q = bt_ID c then (release q)\<lparr>bt_UpdatedAt := db_now db\<rparr> else q)"
    using r unfolding db' update_rows_def by auto
  then show "bt_ID r = bt_ID c \<longrightarrow> \<not> claimable r" using released same_id by (auto split: if_splits)
qed

lemma others_kept:
  assumes "take_row (Some c) release fallback db = (out, db')" and "bt_ID r \<noteq> bt_ID c"
  shows "r \<in> set (db_tasks db) \<longleftrightarrow> r \<in> set (db_tasks db')"
  using assms same_id
  by (fastforce simp: take_row_def update_rows_def image_iff split: if_splits)

lemma handed_back:
  assumes "take_row claimed release fallback db = (Some t, db')"
  shows "\<exists>c. claimed = Some c \<and> bt_ID t = bt_ID c \<and> bt_Column t = restored_column fallback c"
  using assms by (auto simp: take_row_def scan_select_def split: option.splits)

end

interpretation resource_claim: park_claim "parked_on resource" "unpark_row fallback" for resource fallback
  by unfold_locales (simp_all add: parked_on_def unpark_row_def clear_park_def)

interpretation session_claim:
  park_claim "\<lambda>r. bt_BlockedSessionID r = Some sessionID \<and> bt_BlockedAt r \<noteq> None" answered_row
  for sessionID
  by unfold_locales (simp_all add: answered_row_def)

section \<open>The table over time\<close>

text \<open>One statement of any writer of the table, or time passing.\<close>

inductive task_step :: "task_db \<Rightarrow> task_db \<Rightarrow> bool" where
  step_create: "newID \<notin> bt_ID ` set (db_tasks db) \<Longrightarrow> task_step db (snd (store_Create newID task db))"
| step_update: "task_step db (snd (store_Update task db))"
| step_delete: "task_step db (snd (store_Delete repositoryID taskID db))"
| step_question: "task_step db (BlockOnQuestion repositoryID taskID sessionID question db)"
| step_cancel: "task_step db (BlockOnCancel repositoryID taskID reason db)"
| step_resource: "task_step db (snd (BlockOnResource repositoryID taskID resource detail db))"
| step_work_order: "task_step db (MarkWorkOrderWaiting repositoryID taskID detail db)"
| step_hold: "task_step db (HoldMerge repositoryID taskID resource detail db)"
| step_release_hold: "task_step db (ReleaseMergeHold taskID resources db)"
| step_clear_work_order: "task_step db (snd (ClearWorkOrderWaiting taskID db))"
| step_take_resource: "task_step db (snd (TakeBlockedByResource resource db))"
| step_take_quota: "task_step db (snd (TakeQuotaResumable at db))"
| step_take_session: "task_step db (snd (TakeBlockedBySession sessionID db))"
| step_take_task: "task_step db (snd (TakeBlockedResourceTask resource taskID db))"
| step_questions: "task_step db (snd (ReleaseAnalysisQuestionsBlock taskID db))"
| step_migration: "task_step db (SetMigrationFlag taskID hasMigration db)"
| step_pull_request: "task_step db (SetTaskPullRequest taskID url number db)"
| step_merge_commit: "task_step db (SetTaskMergeCommit taskID sha db)"
| step_reset_merge: "task_step db (ResetMergeState taskID db)"
| step_stage: "task_step db (MarkStageVerified taskID at db)"
| step_clear_stage: "task_step db (ClearStageVerification taskID db)"
| step_confirm: "task_step db (snd (store_ConfirmBeforeDeploy repositoryID taskID db))"
| step_claim: "task_step db (snd (ClaimAssignee repositoryID taskID agentID db))"
| step_clock: "db_now db \<le> at \<Longrightarrow> task_step db (db\<lparr>db_now := at\<rparr>)"

text \<open>A row the parking statements leave: what it remembers to return to is not the parking column.\<close>

definition origin_ok :: "BoardTask \<Rightarrow> bool" where
  "origin_ok r \<longleftrightarrow> bt_BlockedOriginColumn r \<noteq> TaskColumnBlocked"

definition db_ok :: "task_db \<Rightarrow> bool" where
  "db_ok db \<longleftrightarrow> distinct (map bt_ID (db_tasks db)) \<and> (\<forall>r \<in> set (db_tasks db). origin_ok r)"

lemma origin_ok_updates [simp]:
  "origin_ok (r\<lparr>bt_UpdatedAt := at\<rparr>) = origin_ok r"
  "origin_ok r \<Longrightarrow> origin_ok (park_row r)"
  "origin_ok (clear_park r) = origin_ok r"
  "origin_ok (unpark_row fallback r)"
  "origin_ok (answered_row r)"
  "origin_ok r \<Longrightarrow> origin_ok (edit_row task r)"
  by (auto simp: origin_ok_def park_row_def clear_park_def unpark_row_def answered_row_def
      edit_row_def Let_def col_defs)

lemma origin_parked [simp]:
  "bt_BlockedOriginColumn r \<noteq> TaskColumnBlocked \<Longrightarrow>
   bt_BlockedOriginColumn (park_row r) \<noteq> TaskColumnBlocked"
  "bt_BlockedOriginColumn (unpark_row fallback r) = ''''"
  "bt_BlockedOriginColumn (answered_row r) = ''''"
  "bt_BlockedOriginColumn (clear_park r) = bt_BlockedOriginColumn r"
  by (simp_all add: park_row_def unpark_row_def answered_row_def clear_park_def)

lemma empty_not_blocked [simp]: "'''' \<noteq> TaskColumnBlocked" "TaskColumnBlocked \<noteq> ''''"
  by (simp_all add: col_defs)

lemma db_ok_update_rows:
  assumes "db_ok db" and "\<And>r. bt_ID (f r) = bt_ID r" and "\<And>r. origin_ok r \<Longrightarrow> origin_ok (f r)"
  shows "db_ok (update_rows P f db)"
  using assms update_rows_ids [of f P db] update_rows_all [of db origin_ok P f]
  by (auto simp: db_ok_def)

lemma db_ok_take_row:
  "db_ok db \<Longrightarrow> (\<And>r. bt_ID (f r) = bt_ID r) \<Longrightarrow> (\<And>r. origin_ok (f r)) \<Longrightarrow>
   db_ok (snd (take_row claimed f fallback db))"
  by (auto simp: take_row_def intro!: db_ok_update_rows split: option.splits)

lemma task_step_ok: "task_step db db' \<Longrightarrow> db_ok db \<Longrightarrow> db_ok db'"
proof (induction rule: task_step.induct)
  case (step_create newID db task)
  then show ?case
    by (auto simp: store_Create_def Let_def db_ok_def origin_ok_def zero_BoardTask_def col_defs)
next
  case (step_update db task)
  then show ?case
    by (auto simp: store_Update_def Let_def intro!: db_ok_update_rows split: option.splits)
next
  case (step_delete db repositoryID taskID)
  then show ?case
    by (auto simp: store_Delete_def db_ok_def distinct_map_filter)
next
  case (step_resource db repositoryID taskID resource detail)
  then show ?case
    by (auto simp: BlockOnResource_def origin_ok_def intro!: db_ok_update_rows split: option.splits)
next
  case (step_clock db at)
  then show ?case by (simp add: db_ok_def)
qed (auto simp: BlockOnQuestion_def BlockOnCancel_def MarkWorkOrderWaiting_def HoldMerge_def
  ReleaseMergeHold_def ClearWorkOrderWaiting_def TakeBlockedByResource_def TakeQuotaResumable_def
  TakeBlockedBySession_def TakeBlockedResourceTask_def ReleaseAnalysisQuestionsBlock_def
  SetMigrationFlag_def SetTaskPullRequest_def SetTaskMergeCommit_def ResetMergeState_def
  MarkStageVerified_def ClearStageVerification_def store_ConfirmBeforeDeploy_def ClaimAssignee_def
  origin_ok_def Let_def intro!: db_ok_update_rows db_ok_take_row)

section \<open>Properties\<close>

lemma task_steps_ok: "task_step\<^sup>*\<^sup>* db db' \<Longrightarrow> db_ok db \<Longrightarrow> db_ok db'"
  by (induction rule: rtranclp_induct) (auto dest: task_step_ok)

definition empty_task_db :: "(TaskType \<times> string) list \<Rightarrow> task_db" where
  "empty_task_db keyPrefixes =
     \<lparr>db_tasks = [], db_counters = [], db_prefixes = keyPrefixes, db_enteredAt = (\<lambda>_. None),
      db_quotaResumeAt = (\<lambda>_. None), db_running = (\<lambda>_. False), db_now = 0\<rparr>"

lemma empty_db_ok: "db_ok (empty_task_db keyPrefixes)"
  by (simp add: db_ok_def empty_task_db_def)

lemma restored_not_blocked:
  "db_ok db \<Longrightarrow> c \<in> set (db_tasks db) \<Longrightarrow> fallback \<noteq> TaskColumnBlocked \<Longrightarrow>
   restored_column fallback c \<noteq> TaskColumnBlocked"
  by (auto simp: db_ok_def origin_ok_def restored_column_def)

lemma release_columns [simp]: "TaskColumnTodo \<noteq> TaskColumnBlocked" "TaskColumnInProgress \<noteq> TaskColumnBlocked"
  by (simp_all add: col_defs)

lemma take_row_out:
  assumes "take_row claimed f fallback db = (Some t, db')"
  obtains c where "claimed = Some c" and "bt_ID t = bt_ID c" and "bt_Column t = restored_column fallback c"
    and "db' = update_rows (\<lambda>r. bt_ID r = bt_ID c) f db"
  using assms by (auto simp: take_row_def scan_select_def split: option.splits)

definition out_of_park :: "TaskColumn \<Rightarrow> BoardTask \<Rightarrow> BoardTask \<Rightarrow> BoardTask \<Rightarrow> bool" where
  "out_of_park fallback r t q \<longleftrightarrow>
     bt_BlockedAt r \<noteq> None \<and> bt_ID t = bt_ID r \<and> bt_Column t \<noteq> TaskColumnBlocked \<and>
     bt_Column t = (if bt_BlockedOriginColumn r \<noteq> '''' then bt_BlockedOriginColumn r else fallback) \<and>
     bt_Column q = bt_Column t \<and> bt_BlockedAt q = None \<and> bt_BlockedQuestion q = '''' \<and>
     bt_BlockedOriginColumn q = ''''"

lemma take_row_released:
  assumes "db_ok db" and "fallback \<noteq> TaskColumnBlocked" and "(Some t, db') = take_row claimed f fallback db"
    and claimed: "\<And>c. claimed = Some c \<Longrightarrow> c \<in> set (db_tasks db) \<and> bt_BlockedAt c \<noteq> None"
    and f: "f = unpark_row fallback \<or> f = answered_row \<and> fallback = TaskColumnTodo"
  shows "\<exists>r \<in> set (db_tasks db). \<exists>q.
    find_row (\<lambda>x. bt_ID x = bt_ID t) db' = Some q \<and> out_of_park fallback r t q"
proof (rule take_row_out [OF assms(3) [symmetric]])
  fix c assume c: "claimed = Some c" and t: "bt_ID t = bt_ID c" "bt_Column t = restored_column fallback c"
    and db': "db' = update_rows (\<lambda>r. bt_ID r = bt_ID c) f db"
  have in_db: "c \<in> set (db_tasks db)" "bt_BlockedAt c \<noteq> None" using claimed [OF c] by simp_all
  have dist: "distinct (map bt_ID (db_tasks db))" using assms(1) by (simp add: db_ok_def)
  have id: "bt_ID (f r) = bt_ID r" for r
    using f by (auto simp: unpark_row_def answered_row_def clear_park_def)
  have "find_row (\<lambda>x. bt_ID x = bt_ID t) db' = Some ((f c)\<lparr>bt_UpdatedAt := db_now db\<rparr>)"
    unfolding db' using dist in_db(1) by (rule find_row_update) (simp_all add: t id)
  moreover have "out_of_park fallback c t ((f c)\<lparr>bt_UpdatedAt := db_now db\<rparr>)"
    using f t in_db(2) restored_not_blocked [OF assms(1) in_db(1) assms(2)]
    by (auto simp: out_of_park_def unpark_row_def answered_row_def clear_park_def restored_column_def)
  ultimately show ?thesis using in_db(1) by blast
qed

lemma take_oldest_released:
  assumes "db_ok db" and "fallback \<noteq> TaskColumnBlocked"
    and "(Some t, db') = take_row (oldest (filter P (db_tasks db))) f fallback db"
    and "\<And>r. P r \<Longrightarrow> bt_BlockedAt r \<noteq> None"
    and "f = unpark_row fallback \<or> f = answered_row \<and> fallback = TaskColumnTodo"
  shows "\<exists>r \<in> set (db_tasks db). \<exists>q.
    find_row (\<lambda>x. bt_ID x = bt_ID t) db' = Some q \<and> out_of_park fallback r t q"
  using assms(4) by (intro take_row_released [OF assms(1-3) _ assms(5)]) (auto dest: oldest_in)

lemma take_found_released:
  assumes "db_ok db" and "fallback \<noteq> TaskColumnBlocked"
    and "(Some t, db') = take_row (find_row P db) f fallback db"
    and "\<And>r. P r \<Longrightarrow> bt_BlockedAt r \<noteq> None"
    and "f = unpark_row fallback \<or> f = answered_row \<and> fallback = TaskColumnTodo"
  shows "\<exists>r \<in> set (db_tasks db). \<exists>q.
    find_row (\<lambda>x. bt_ID x = bt_ID t) db' = Some q \<and> out_of_park fallback r t q"
  using assms(4) by (intro take_row_released [OF assms(1-3) _ assms(5)]) (auto dest: find_row_Some)

text \<open>
  C8: A release takes a task out of its park for good. After any sequence of statements on an empty
  table (creations, edits, parks of every kind, releases, deletions), whichever statement claims a
  parked task, by its resource, its session, its id, the quota clock or the analysis answers, hands
  it back in the origin column its park remembered, or, when none was, in the statement's fallback
  (in_progress for the analysis answers, todo otherwise), and never in the blocked column. Its row is
  in the same column, with no question, no park time and no origin left.
\<close>
theorem released_tasks_leave_blocked:
  assumes "task_step\<^sup>*\<^sup>* (empty_task_db keyPrefixes) db"
    and "(fallback, Some t, db') \<in> {(TaskColumnTodo, TakeBlockedByResource resource db),
           (TaskColumnTodo, TakeQuotaResumable at db), (TaskColumnTodo, TakeBlockedBySession sessionID db),
           (TaskColumnTodo, TakeBlockedResourceTask resource taskID db),
           (TaskColumnInProgress, ReleaseAnalysisQuestionsBlock taskID db)}"
  shows "\<exists>r \<in> set (db_tasks db). \<exists>q. find_row (\<lambda>x. bt_ID x = bt_ID t) db' = Some q \<and>
    bt_BlockedAt r \<noteq> None \<and> bt_ID t = bt_ID r \<and> bt_Column t \<noteq> TaskColumnBlocked \<and>
    bt_Column t = (if bt_BlockedOriginColumn r \<noteq> '''' then bt_BlockedOriginColumn r else fallback) \<and>
    bt_Column q = bt_Column t \<and> bt_BlockedAt q = None \<and> bt_BlockedQuestion q = '''' \<and>
    bt_BlockedOriginColumn q = ''''"
proof -
  have ok: "db_ok db" using assms(1) empty_db_ok by (rule task_steps_ok)
  note todo = release_columns(1) and progress = release_columns(2)
  note takes = TakeBlockedByResource_def TakeQuotaResumable_def TakeBlockedBySession_def
    TakeBlockedResourceTask_def ReleaseAnalysisQuestionsBlock_def
  show ?thesis
    unfolding out_of_park_def [symmetric] using assms(2) unfolding takes
    apply (elim insertE emptyE Pair_inject; hypsubst)
        apply (erule take_oldest_released [OF ok todo]; simp add: parked_on_def)
       apply (erule take_oldest_released [OF ok todo]; simp add: quota_due_def parked_on_def)
      apply (erule take_found_released [OF ok todo]; simp)
     apply (erule take_found_released [OF ok todo]; simp add: parked_on_def)
    apply (erule take_found_released [OF ok progress]; simp add: parked_on_def)
    done
qed

definition parked_card :: BoardTask where
  "parked_card = zero_BoardTask\<lparr>bt_ID := 1, bt_RepositoryID := 9, bt_TaskType := TaskTypeTask,
     bt_TaskNumber := 1, bt_Column := TaskColumnCodeReview\<rparr>"

definition card_db :: task_db where
  "card_db = snd (store_Create 1 parked_card (empty_task_db []))"

lemma card_db_row: "db_tasks card_db = [parked_card]"
  unfolding card_db_def by code_simp

lemma card_db_reached: "task_step (empty_task_db []) card_db"
  unfolding card_db_def by (rule step_create) (simp add: empty_task_db_def)

lemma card_db_ok: "db_ok card_db"
  using task_step_ok [OF card_db_reached] empty_db_ok by blast

lemma released_tasks_leave_blocked_witness:
  "let db1 = snd (BlockOnResource 9 1 ResourceMobileDevice ''busy'' card_db)
   in \<exists>t db'. TakeBlockedByResource ResourceMobileDevice db1 = (Some t, db') \<and>
        bt_Column t = TaskColumnCodeReview"
proof -
  define db1 where "db1 = snd (BlockOnResource 9 1 ResourceMobileDevice ''busy'' card_db)"
  have "task_step card_db db1" unfolding db1_def by (rule step_resource)
  then have steps: "task_step\<^sup>*\<^sup>* (empty_task_db []) db1"
    using card_db_reached by (meson converse_rtranclp_into_rtranclp r_into_rtranclp)
  have "fst (TakeBlockedByResource ResourceMobileDevice db1) \<noteq> None"
    and origin: "list_all (\<lambda>r. bt_BlockedOriginColumn r = TaskColumnCodeReview) (db_tasks db1)"
    unfolding db1_def by code_simp+
  then obtain t db' where out: "TakeBlockedByResource ResourceMobileDevice db1 = (Some t, db')"
    by (cases "TakeBlockedByResource ResourceMobileDevice db1") auto
  then have "bt_Column t = TaskColumnCodeReview"
    using released_tasks_leave_blocked [OF steps, of TaskColumnTodo t db' ResourceMobileDevice 0 0 0] origin
    by (auto simp: list_all_iff col_defs)
  then show ?thesis using out unfolding db1_def Let_def by blast
qed

text \<open>
  C37: Parking and releasing is a round trip, once. A task parked on a resource from a column other
  than blocked is handed back by \<open>TakeBlockedResourceTask\<close> in that column, its row is out of the
  park with nothing remembered, and asking again hands back nothing.
\<close>
theorem park_release_round_trip:
  assumes "db_ok db" and "r \<in> set (db_tasks db)" and "owned repositoryID taskID r"
    and "ValidResource resource" and "bt_Column r \<noteq> TaskColumnBlocked" and "bt_Column r \<noteq> ''''"
    and "snd (BlockOnResource repositoryID taskID resource detail db) = db1"
    and "TakeBlockedResourceTask resource taskID db1 = (out, db2)"
  shows "\<exists>t. out = Some t \<and> bt_ID t = taskID \<and> bt_Column t = bt_Column r
    \<and> find_row (owned repositoryID taskID) db2 =
        Some (r\<lparr>bt_BlockedQuestion := '''', bt_BlockedResource := '''', bt_BlockedAt := None,
                bt_BlockedOriginColumn := '''', bt_UpdatedAt := db_now db\<rparr>)
    \<and> TakeBlockedResourceTask resource taskID db2 = (None, db2)"
proof -
  let ?park = "\<lambda>r. (park_row r)\<lparr>bt_BlockedQuestion := detail, bt_BlockedResource := resource,
                  bt_BlockedAt := Some (db_now db)\<rparr>"
  let ?p = "(?park r)\<lparr>bt_UpdatedAt := db_now db\<rparr>"
  let ?u = "(unpark_row TaskColumnTodo ?p)\<lparr>bt_UpdatedAt := db_now db\<rparr>"
  have ids: "bt_ID r = taskID" "bt_RepositoryID r = repositoryID"
    using assms(3) by (simp_all add: owned_def)
  have dist: "distinct (map bt_ID (db_tasks db))" using assms(1) by (simp add: db_ok_def)
  have "find_row (owned repositoryID taskID) db \<noteq> None"
    using assms(2,3) by (auto simp: find_row_def find_None_iff)
  then have db1: "db1 = update_rows (owned repositoryID taskID) ?park db"
    using assms(4,7) by (auto simp: BlockOnResource_def)
  have found: "find_row (\<lambda>r. bt_ID r = taskID \<and> parked_on resource r) db1 = Some ?p"
    unfolding db1 using dist assms(2,3)
    by (rule find_row_update) (auto simp: ids owned_def parked_on_def park_row_def)
  then have in1: "?p \<in> set (db_tasks db1)" and id1: "bt_ID ?p = taskID"
    using find_row_Some [OF found] by simp_all
  have dist1: "distinct (map bt_ID (db_tasks db1))"
    using dist unfolding db1 by (subst update_rows_ids) (simp_all add: park_row_def)
  have db2: "db2 = update_rows (\<lambda>r. bt_ID r = taskID) (unpark_row TaskColumnTodo) db1"
    and out: "out = Some ((scan_select db1 ?p)\<lparr>bt_Column := restored_column TaskColumnTodo ?p\<rparr>)"
    using assms(8) found id1 by (simp_all add: TakeBlockedResourceTask_def take_row_def)
  have "find_row (owned repositoryID taskID) db2 = Some ?u"
    unfolding db2 using dist1 in1
    by (rule find_row_update [of db1 ?p, THEN trans])
       (auto simp: id1 ids owned_def unpark_row_def clear_park_def db1 park_row_def)
  moreover have "?u = r\<lparr>bt_BlockedQuestion := '''', bt_BlockedResource := '''', bt_BlockedAt := None,
                bt_BlockedOriginColumn := '''', bt_UpdatedAt := db_now db\<rparr>"
    using assms(5,6) by (simp add: unpark_row_def clear_park_def restored_column_def park_row_def)
  moreover have "find_row (\<lambda>r. bt_ID r = taskID \<and> parked_on resource r) db2 = None"
    using resource_claim.claimed_once [of ?p TaskColumnTodo TaskColumnTodo db1 out db2 resource] db2 out id1
    by (auto simp: find_row_def find_None_iff take_row_def)
  ultimately show ?thesis
    using out assms(5,6) ids id1
    by (simp add: TakeBlockedResourceTask_def take_row_def scan_select_def restored_column_def park_row_def)
qed

lemma park_release_round_trip_witness:
  "\<exists>t. fst (TakeBlockedResourceTask ResourceDeployWatch 1
             (snd (BlockOnResource 9 1 ResourceDeployWatch ''deploying'' card_db))) = Some t
       \<and> bt_Column t = TaskColumnCodeReview"
proof -
  define db1 where "db1 = snd (BlockOnResource 9 1 ResourceDeployWatch ''deploying'' card_db)"
  obtain out db2 where take: "TakeBlockedResourceTask ResourceDeployWatch 1 db1 = (out, db2)"
    by (cases "TakeBlockedResourceTask ResourceDeployWatch 1 db1")
  have card: "parked_card \<in> set (db_tasks card_db)" "owned 9 1 parked_card"
    "bt_Column parked_card = TaskColumnCodeReview"
    by (simp_all add: card_db_row owned_def parked_card_def)
  have valid: "ValidResource ResourceDeployWatch" by (simp add: ValidResource_def)
  have cols: "TaskColumnCodeReview \<noteq> TaskColumnBlocked" "TaskColumnCodeReview \<noteq> ''''"
    by (simp_all add: col_defs)
  show ?thesis
    using park_release_round_trip [OF card_db_ok card(1,2) valid _ _ db1_def [symmetric] take] card(3) cols take
    unfolding db1_def by auto
qed

text \<open>
  The task that waited longest is released first, and by one claim only: what
  \<open>TakeBlockedByResource\<close> hands back has the earliest \<open>blocked_at\<close> of all tasks parked on the
  resource, afterwards it is no longer parked on it, and every other parked task still is.
\<close>
theorem longest_wait_released_once:
  assumes "TakeBlockedByResource resource db = (Some t, db')"
  shows "(\<forall>r \<in> set (db_tasks db). parked_on resource r \<longrightarrow> the (bt_BlockedAt t) \<le> the (bt_BlockedAt r))
    \<and> (\<forall>r \<in> set (db_tasks db'). parked_on resource r \<longrightarrow> bt_ID r \<noteq> bt_ID t)
    \<and> (\<forall>r \<in> set (db_tasks db). parked_on resource r \<and> bt_ID r \<noteq> bt_ID t \<longrightarrow> r \<in> set (db_tasks db'))"
proof -
  obtain c where c: "oldest (filter (parked_on resource) (db_tasks db)) = Some c"
    "bt_ID t = bt_ID c"
    using assms unfolding TakeBlockedByResource_def by (auto elim: take_row_out)
  have take: "take_row (Some c) (unpark_row TaskColumnTodo) TaskColumnTodo db = (Some t, db')"
    using assms c by (simp add: TakeBlockedByResource_def)
  then have at: "bt_BlockedAt t = bt_BlockedAt c" by (auto simp: take_row_def scan_select_def)
  show ?thesis
    using oldest_first [OF c(1)] resource_claim.claimed_once [OF take] resource_claim.others_kept [OF take]
    by (auto simp: at c(2))
qed

lemma longest_wait_released_once_witness:
  "let db1 = snd (BlockOnResource 9 1 ResourceMobileDevice ''busy'' card_db)
   in \<exists>t db'. TakeBlockedByResource ResourceMobileDevice db1 = (Some t, db') \<and>
        (\<forall>r \<in> set (db_tasks db'). parked_on ResourceMobileDevice r \<longrightarrow> bt_ID r \<noteq> bt_ID t)"
proof -
  define db1 where "db1 = snd (BlockOnResource 9 1 ResourceMobileDevice ''busy'' card_db)"
  have "fst (TakeBlockedByResource ResourceMobileDevice db1) \<noteq> None"
    unfolding db1_def by code_simp
  then obtain t db' where out: "TakeBlockedByResource ResourceMobileDevice db1 = (Some t, db')"
    by (cases "TakeBlockedByResource ResourceMobileDevice db1") auto
  then show ?thesis
    using longest_wait_released_once [OF out] unfolding db1_def Let_def by blast
qed

section \<open>Task numbers\<close>

text \<open>The numbers handed out over time, beside every other statement.\<close>

inductive numbers_handed :: "task_db \<Rightarrow> (TaskType \<times> int) list \<Rightarrow> task_db \<Rightarrow> bool" where
  handed_none: "numbers_handed db [] db"
| handed_next: "numbers_handed db ns db1 \<Longrightarrow> store_NextTaskNumber taskType db1 = (n, db2) \<Longrightarrow>
    numbers_handed db (ns @ [(taskType, n)]) db2"
| handed_step: "numbers_handed db ns db1 \<Longrightarrow> task_step db1 db2 \<Longrightarrow> numbers_handed db ns db2"

definition counter :: "task_db \<Rightarrow> TaskType \<Rightarrow> int" where
  "counter db t = (case map_of (db_counters db) t of None \<Rightarrow> 0 | Some n \<Rightarrow> n)"

lemma counters_kept: "task_step db db' \<Longrightarrow> db_counters db' = db_counters db"
  by (induction rule: task_step.induct)
    (auto simp: store_Create_def store_Update_def store_Delete_def BlockOnQuestion_def BlockOnCancel_def
      BlockOnResource_def MarkWorkOrderWaiting_def HoldMerge_def ReleaseMergeHold_def
      ClearWorkOrderWaiting_def TakeBlockedByResource_def TakeQuotaResumable_def
      TakeBlockedBySession_def TakeBlockedResourceTask_def ReleaseAnalysisQuestionsBlock_def
      SetMigrationFlag_def SetTaskPullRequest_def SetTaskMergeCommit_def ResetMergeState_def
      MarkStageVerified_def ClearStageVerification_def store_ConfirmBeforeDeploy_def ClaimAssignee_def
      take_row_def Let_def split: option.splits)

lemma numbers_handed_bound:
  "numbers_handed db ns db' \<Longrightarrow>
   distinct ns \<and> (\<forall>(t, n) \<in> set ns. counter db t < n \<and> n \<le> counter db' t) \<and>
   (\<forall>t. counter db t \<le> counter db' t)"
proof (induction rule: numbers_handed.induct)
  case (handed_next db ns db1 taskType n db2)
  have n: "n = counter db1 taskType + 1"
    and db2: "counter db2 t = (if t = taskType then n else counter db1 t)" for t
    using handed_next.hyps(2)
    by (auto simp: store_NextTaskNumber_def counter_def update_conv Let_def split: option.splits)
  have "(taskType, n) \<notin> set ns" using handed_next.IH n by fastforce
  moreover have "counter db t \<le> counter db2 t" for t
    using handed_next.IH n db2 [of t] by (auto intro: order_trans)
  moreover have "counter db u < m \<and> m \<le> counter db2 u" if "(u, m) \<in> set ns" for u m
    using handed_next.IH that n db2 [of u] by (auto intro: order_trans split: if_splits)
  moreover have "counter db taskType < n \<and> n \<le> counter db2 taskType"
    using handed_next.IH n db2 [of taskType] by (simp add: zless_add1_eq le_less)
  ultimately show ?case using handed_next.IH by auto
next
  case (handed_step db ns db1 db2)
  then show ?case by (simp add: counters_kept counter_def)
qed simp

text \<open>
  A task number is never handed out twice for a type. Over any sequence of counter reads,
  creations, edits, parks and deletions, the numbers of each type are pairwise different, so a
  deleted task's key is not reused.
\<close>
theorem numbers_never_reused:
  assumes "numbers_handed db ns db'"
  shows "distinct ns"
  using numbers_handed_bound [OF assms] by blast

lemma numbers_never_reused_witness:
  "distinct [(TaskTypeBug, fst (store_NextTaskNumber TaskTypeBug card_db)),
     (TaskTypeBug, fst (store_NextTaskNumber TaskTypeBug (snd (store_Delete 9 1
        (snd (store_NextTaskNumber TaskTypeBug card_db))))))]"
proof -
  let ?a = "store_NextTaskNumber TaskTypeBug card_db"
  let ?b = "store_NextTaskNumber TaskTypeBug (snd (store_Delete 9 1 (snd ?a)))"
  have "numbers_handed card_db ([] @ [(TaskTypeBug, fst ?a)]) (snd ?a)"
    by (rule handed_next [OF handed_none]) simp
  then have "numbers_handed card_db ([] @ [(TaskTypeBug, fst ?a)]) (snd (store_Delete 9 1 (snd ?a)))"
    by (rule handed_step) (rule step_delete)
  then have "numbers_handed card_db (([] @ [(TaskTypeBug, fst ?a)]) @ [(TaskTypeBug, fst ?b)]) (snd ?b)"
    by (rule handed_next) simp
  from numbers_never_reused [OF this] show ?thesis by simp
qed

section \<open>Edits and parks\<close>

text \<open>The row an accepted edit leaves.\<close>

lemma store_Update_row:
  assumes "distinct (map bt_ID (db_tasks db))" and "r \<in> set (db_tasks db)"
    and "owned (bt_RepositoryID task) (bt_ID task) r"
    and "store_Update task db = (Inr out, db')"
  shows "(edit_row task r)\<lparr>bt_UpdatedAt := db_now db\<rparr> \<in> set (db_tasks db')"
    and "out = scan_returning db' ((edit_row task r)\<lparr>bt_UpdatedAt := db_now db\<rparr>)"
proof -
  let ?P = "owned (bt_RepositoryID task) (bt_ID task)"
  have ids: "bt_ID r = bt_ID task" "bt_RepositoryID r = bt_RepositoryID task"
    using assms(3) by (simp_all add: owned_def)
  have db': "db' = update_rows ?P (edit_row task) db" and out: "returned ''update board task'' ?P db' = Inr out"
    using assms(4) by (auto simp: store_Update_def Let_def split: option.splits if_splits)
  show "(edit_row task r)\<lparr>bt_UpdatedAt := db_now db\<rparr> \<in> set (db_tasks db')"
    unfolding db' update_rows_def using assms(2,3) by (auto simp: image_iff)
  have "find_row ?P db' = Some ((edit_row task r)\<lparr>bt_UpdatedAt := db_now db\<rparr>)"
    unfolding db' using assms(1,2,3)
    by (rule find_row_update) (auto simp: owned_def ids edit_row_def Let_def)
  then show "out = scan_returning db' ((edit_row task r)\<lparr>bt_UpdatedAt := db_now db\<rparr>)"
    using out by (simp add: returned_def)
qed

text \<open>
  What an edit does to a park. An edit by \<open>Update\<close> never loses a pending question: a row with a
  session keeps its question, its session and its park whatever the edit moves. A row that waits
  without a session keeps a merge hold while the edit leaves its column alone; every other park is
  cleared by an edit that does not put the task into the blocked column, and an edit into that
  column keeps it.
\<close>
theorem edit_and_park:
  assumes "distinct (map bt_ID (db_tasks db))" and "r \<in> set (db_tasks db)"
    and "owned (bt_RepositoryID task) (bt_ID task) r"
    and "store_Update task db = (Inr out, db')"
  shows "bt_BlockedSessionID out = bt_BlockedSessionID r \<and>
    (bt_BlockedQuestion out, bt_BlockedAt out, bt_BlockedResource out) =
      (if bt_BlockedSessionID r \<noteq> None \<or> bt_Column task = TaskColumnBlocked \<or>
          (bt_Column task = bt_Column r \<and> bt_BlockedResource r \<in> set MergeHoldResources)
       then (bt_BlockedQuestion r, bt_BlockedAt r, bt_BlockedResource r)
       else ('''', None, ''''))"
  using store_Update_row(2) [OF assms]
  by (auto simp: scan_returning_def edit_row_def edit_releases_def IsMergeHold_def list_ex_iff Let_def)

lemma edit_and_park_witness:
  "bt_BlockedResource
     (case fst (store_Update (parked_card\<lparr>bt_Title := ''renamed''\<rparr>) (HoldMerge 9 1 ResourceDeployOrder ''T-2'' card_db)) of
        Inr t \<Rightarrow> t | Inl _ \<Rightarrow> zero_BoardTask) = ResourceDeployOrder"
proof -
  let ?db = "HoldMerge 9 1 ResourceDeployOrder ''T-2'' card_db"
  let ?r = "parked_card\<lparr>bt_BlockedQuestion := ''T-2'', bt_BlockedResource := ResourceDeployOrder,
     bt_BlockedAt := Some 0, bt_UpdatedAt := 0\<rparr>"
  let ?task = "parked_card\<lparr>bt_Title := ''renamed''\<rparr>"
  have rows: "db_tasks ?db = [?r]" by code_simp
  have is_inr: "case fst (store_Update ?task ?db) of Inr _ \<Rightarrow> True | Inl _ \<Rightarrow> False" by code_simp
  then obtain out db' where out: "store_Update ?task ?db = (Inr out, db')"
    by (cases "store_Update ?task ?db"; cases "fst (store_Update ?task ?db)") auto
  have "distinct (map bt_ID (db_tasks ?db))" "?r \<in> set (db_tasks ?db)"
    "owned (bt_RepositoryID ?task) (bt_ID ?task) ?r"
    unfolding rows by (simp_all add: owned_def)
  from edit_and_park [OF this out] out show ?thesis
    by (simp add: MergeHoldResources_def parked_card_def)
qed

text \<open>
  A park that is not a merge hold does not survive an edit that moves nothing: retitling a task
  that waits for its blockers in its own column clears the wait, so that the sweeper, which reads
  the parked rows, no longer finds it.
\<close>
lemma edit_clears_work_order_wait:
  "let db1 = MarkWorkOrderWaiting 9 1 ''T-2'' card_db;
       db2 = snd (store_Update (parked_card\<lparr>bt_Title := ''renamed''\<rparr>) db1)
   in ListBlockedByResource ResourceWorkOrder 50 db1 \<noteq> [] \<and>
      ListBlockedByResource ResourceWorkOrder 50 db2 = []"
  by code_simp

text \<open>
  A merge hold outlives the question asked on top of it: releasing the hold clears the question's
  text and time but not its session, after which the answer finds nothing to resume and no edit
  clears the row, which stays in the blocked column.
\<close>
lemma hold_release_strands_question:
  "let db1 = HoldMerge 9 1 ResourceDeployOrder ''T-2'' card_db;
       db2 = BlockOnQuestion 9 1 77 ''Which flag?'' db1;
       db3 = ReleaseMergeHold 1 [ResourceDeployOrder] db2
   in fst (TakeBlockedBySession 77 db2) \<noteq> None \<and> fst (TakeBlockedBySession 77 db3) = None \<and>
      map bt_Column (db_tasks db3) = [TaskColumnBlocked] \<and>
      map bt_BlockedSessionID (db_tasks db3) = [Some 77]"
  by code_simp

text \<open>
  A task that changes its type keeps its number, which the new type's counter has not handed out:
  the counter reaches it later and the creation that draws it fails on the unique index.
\<close>
lemma retyped_number_collides:
  "let db1 = snd (store_Update (parked_card\<lparr>bt_TaskType := TaskTypeBug\<rparr>) card_db);
       (n, db2) = store_NextTaskNumber TaskTypeBug db1
   in case fst (store_Create 2 (zero_BoardTask\<lparr>bt_TaskType := TaskTypeBug, bt_TaskNumber := n\<rparr>) db2) of
        Inl err \<Rightarrow> err = ErrWrap ''create board task'' (ErrStore ''duplicate key'')
      | Inr _ \<Rightarrow> False"
  by code_simp

end
