(* ===== verification/Relations.thy ===== *)
theory Relations
  imports Task_Store
begin

text \<open>
  The relation table: \<open>TaskRelationStore\<close> of \<open>server/internal/adapter/storage/postgres/repository.go\<close>.
  A row points from its source to its target task; both must exist, they must differ, and a row is
  unique by source, target and type (migration 022). A transaction that fails leaves the tables as
  they were. Row ids are drawn from a counter.
\<close>

section \<open>The tables\<close>

record order_tables =
  ot_db :: task_db
  ot_relations :: "TaskRelation list"
  ot_nextID :: uuid

definition task_exists :: "uuid \<Rightarrow> order_tables \<Rightarrow> bool" where
  "task_exists taskID t \<longleftrightarrow> list_ex (\<lambda>r. bt_ID r = taskID) (db_tasks (ot_db t))"

definition new_relation :: "uuid \<Rightarrow> uuid \<Rightarrow> TaskRelationType \<Rightarrow> order_tables \<Rightarrow> TaskRelation" where
  "new_relation source target relType t =
     \<lparr>rel_ID = ot_nextID t, rel_SourceTaskID = source, rel_TargetTaskID = target,
      rel_RelationType = relType, rel_TargetKey = '''', rel_TargetTitle = '''',
      rel_SourceKey = '''', rel_SourceTitle = '''', rel_CreatedAt = db_now (ot_db t)\<rparr>"

definition relation_exists :: "uuid \<Rightarrow> uuid \<Rightarrow> TaskRelationType \<Rightarrow> order_tables \<Rightarrow> bool" where
  "relation_exists source target relType t \<longleftrightarrow>
     list_ex (\<lambda>r. rel_SourceTaskID r = source \<and> rel_TargetTaskID r = target \<and>
       rel_RelationType r = relType) (ot_relations t)"

datatype insert_result =
    Inserted TaskRelation order_tables
  | Conflict
  | Violation string

text \<open>One \<open>INSERT\<close>; \<open>Conflict\<close> is the row that is there already.\<close>

definition insert_relation ::
  "uuid \<Rightarrow> uuid \<Rightarrow> TaskRelationType \<Rightarrow> order_tables \<Rightarrow> insert_result" where
  "insert_relation source target relType t =
     (if source = target then Violation ''check''
      else if \<not> ValidTaskRelationType relType then Violation ''check''
      else if \<not> task_exists source t \<or> \<not> task_exists target t then Violation ''foreign key''
      else if relation_exists source target relType t then Conflict
      else let row = new_relation source target relType t in
        Inserted row (t\<lparr>ot_relations := ot_relations t @ [row], ot_nextID := ot_nextID t + 1\<rparr>))"

section \<open>Writes\<close>

fun replace_loop ::
  "uuid \<Rightarrow> TaskRelationInput list \<Rightarrow> order_tables \<Rightarrow> TaskRelation list \<Rightarrow>
   go_error + (TaskRelation list \<times> order_tables)" where
  "replace_loop source [] t out = Inr (out, t)"
| "replace_loop source (rel # rels) t out =
     (if rin_TargetTaskID rel = uuid_Nil then replace_loop source rels t out
      else case insert_relation source (rin_TargetTaskID rel) (rin_RelationType rel) t of
          Inserted row t' \<Rightarrow> replace_loop source rels t' (out @ [row])
        | Conflict \<Rightarrow> Inl (ErrWrap ''insert task relation'' (ErrStore ''duplicate key''))
        | Violation what \<Rightarrow> Inl (ErrWrap ''insert task relation'' (ErrStore what)))"

definition ReplaceForTask ::
  "uuid \<Rightarrow> TaskRelationInput list \<Rightarrow> order_tables \<Rightarrow> (go_error + TaskRelation list) \<times> order_tables" where
  "ReplaceForTask source relations t =
     (let cleared = t\<lparr>ot_relations := filter (\<lambda>r. rel_SourceTaskID r \<noteq> source) (ot_relations t)\<rparr>
      in case replace_loop source relations cleared [] of
           Inl err \<Rightarrow> (Inl err, t)
         | Inr (out, t') \<Rightarrow> (Inr out, t'))"

fun replace_type_loop ::
  "uuid \<Rightarrow> TaskRelationType \<Rightarrow> TaskRelationInput list \<Rightarrow> order_tables \<Rightarrow> TaskRelation list \<Rightarrow>
   go_error + (TaskRelation list \<times> order_tables)" where
  "replace_type_loop source relType [] t out = Inr (out, t)"
| "replace_type_loop source relType (rel # rels) t out =
     (if rin_TargetTaskID rel = uuid_Nil then replace_type_loop source relType rels t out
      else case insert_relation source (rin_TargetTaskID rel) relType t of
          Inserted row t' \<Rightarrow> replace_type_loop source relType rels t' (out @ [row])
        | Conflict \<Rightarrow> replace_type_loop source relType rels t out
        | Violation what \<Rightarrow> Inl (ErrWrap ''insert task relation'' (ErrStore what)))"

definition ReplaceForTaskOfType ::
  "uuid \<Rightarrow> TaskRelationType \<Rightarrow> TaskRelationInput list \<Rightarrow> order_tables \<Rightarrow>
   (go_error + TaskRelation list) \<times> order_tables" where
  "ReplaceForTaskOfType source relType relations t =
     (let cleared = t\<lparr>ot_relations :=
            filter (\<lambda>r. \<not> (rel_SourceTaskID r = source \<and> rel_RelationType r = relType)) (ot_relations t)\<rparr>
      in case replace_type_loop source relType relations cleared [] of
           Inl err \<Rightarrow> (Inl err, t)
         | Inr (out, t') \<Rightarrow> (Inr out, t'))"

fun add_blockers_loop ::
  "uuid \<Rightarrow> uuid list \<Rightarrow> order_tables \<Rightarrow> TaskRelation list \<Rightarrow>
   go_error + (TaskRelation list \<times> order_tables)" where
  "add_blockers_loop target [] t out = Inr (out, t)"
| "add_blockers_loop target (source # sources) t out =
     (if source = uuid_Nil \<or> source = target then add_blockers_loop target sources t out
      else case insert_relation source target TaskRelationBlocks t of
          Inserted row t' \<Rightarrow> add_blockers_loop target sources t' (out @ [row])
        | Conflict \<Rightarrow> add_blockers_loop target sources t out
        | Violation what \<Rightarrow> Inl (ErrWrap ''insert blocking relation'' (ErrStore what)))"

definition AddBlockers ::
  "uuid \<Rightarrow> uuid list \<Rightarrow> order_tables \<Rightarrow> (go_error + TaskRelation list) \<times> order_tables" where
  "AddBlockers target sources t =
     (if sources = [] then (Inr [], t)
      else case add_blockers_loop target sources t [] of
          Inl err \<Rightarrow> (Inl err, t)
        | Inr (out, t') \<Rightarrow> (Inr out, t'))"

section \<open>Reads\<close>

definition row_of :: "uuid \<Rightarrow> order_tables \<Rightarrow> BoardTask option" where
  "row_of taskID t = find_row (\<lambda>r. bt_ID r = taskID) (ot_db t)"

text \<open>The inner joins: a row whose far end is missing is not listed.\<close>

definition join_target :: "order_tables \<Rightarrow> TaskRelation \<Rightarrow> TaskRelation option" where
  "join_target t r =
     map_option (\<lambda>b. r\<lparr>rel_TargetKey := row_key (ot_db t) b, rel_TargetTitle := bt_Title b\<rparr>)
       (row_of (rel_TargetTaskID r) t)"

definition join_source :: "order_tables \<Rightarrow> TaskRelation \<Rightarrow> TaskRelation option" where
  "join_source t r =
     map_option (\<lambda>b. r\<lparr>rel_SourceKey := row_key (ot_db t) b, rel_SourceTitle := bt_Title b\<rparr>)
       (row_of (rel_SourceTaskID r) t)"

definition by_created :: "TaskRelation list \<Rightarrow> TaskRelation list" where
  "by_created = sort_key rel_CreatedAt"

definition ListBySource :: "uuid \<Rightarrow> order_tables \<Rightarrow> TaskRelation list" where
  "ListBySource source t =
     by_created (List.map_filter (join_target t)
       (filter (\<lambda>r. rel_SourceTaskID r = source) (ot_relations t)))"

definition ListBlockedBy :: "uuid \<Rightarrow> order_tables \<Rightarrow> TaskRelation list" where
  "ListBlockedBy target t =
     by_created (List.map_filter (join_source t)
       (filter (\<lambda>r. rel_TargetTaskID r = target \<and> rel_RelationType r = TaskRelationBlocks)
         (ot_relations t)))"

definition ListDeployDependents :: "uuid list \<Rightarrow> order_tables \<Rightarrow> TaskRelation list" where
  "ListDeployDependents targets t =
     (if targets = [] then []
      else by_created (List.map_filter (join_source t)
        (filter (\<lambda>r. rel_TargetTaskID r \<in> set targets \<and>
           rel_RelationType r = TaskRelationDeployDependsOn) (ot_relations t))))"

definition unfinishedBlockerSQL :: "BoardTask \<Rightarrow> bool" where
  "unfinishedBlockerSQL b \<longleftrightarrow>
     bt_Column b \<notin> {TaskColumnDone, TaskColumnReleased} \<or>
     (bt_TaskType b = TaskTypeDesign \<and> bt_Column b = TaskColumnDone)"

definition ListBlockingSources :: "uuid \<Rightarrow> order_tables \<Rightarrow> BoardTask list" where
  "ListBlockingSources target t =
     map (scan_select (ot_db t)) (filter unfinishedBlockerSQL
       (List.map_filter (\<lambda>r. row_of (rel_SourceTaskID r) t)
         (filter (\<lambda>r. rel_TargetTaskID r = target \<and> rel_RelationType r = TaskRelationBlocks)
           (ot_relations t))))"

definition ListUnfinishedBlockers :: "order_tables \<Rightarrow> TaskRelation list" where
  "ListUnfinishedBlockers t =
     by_created (List.map_filter (join_source t)
       (filter (\<lambda>r. rel_RelationType r = TaskRelationBlocks \<and>
          (case row_of (rel_SourceTaskID r) t of None \<Rightarrow> False | Some b \<Rightarrow> unfinishedBlockerSQL b))
         (ot_relations t)))"

section \<open>The graphs the rows make\<close>

definition order_edges :: "TaskRelationType \<Rightarrow> order_tables \<Rightarrow> (uuid \<times> uuid) set" where
  "order_edges relType t =
     (\<lambda>r. (rel_SourceTaskID r, rel_TargetTaskID r)) ` {r \<in> set (ot_relations t). rel_RelationType r = relType}"

text \<open>The table's constraints.\<close>

definition relations_ok :: "order_tables \<Rightarrow> bool" where
  "relations_ok t \<longleftrightarrow>
     (\<forall>r \<in> set (ot_relations t). task_exists (rel_SourceTaskID r) t \<and> task_exists (rel_TargetTaskID r) t \<and>
        rel_SourceTaskID r \<noteq> rel_TargetTaskID r)"

lemma task_exists_row: "task_exists taskID t \<longleftrightarrow> row_of taskID t \<noteq> None"
  by (auto simp: task_exists_def row_of_def find_row_def find_None_iff list_ex_iff)

lemma set_map_filter: "set (List.map_filter f xs) = {y. \<exists>x \<in> set xs. f x = Some y}"
  by (induction xs) (auto simp: List.map_filter_simps split: option.splits)

lemma set_ListBySource:
  assumes "relations_ok t"
  shows "{rel_TargetTaskID r |r. r \<in> set (ListBySource source t) \<and> rel_RelationType r = relType}
    = order_edges relType t `` {source}"
proof -
  have mem: "r \<in> set (ListBySource source t) \<longleftrightarrow>
      (\<exists>q \<in> set (ot_relations t). rel_SourceTaskID q = source \<and> join_target t q = Some r)" for r
    by (auto simp: ListBySource_def by_created_def set_map_filter)
  have kept: "rel_TargetTaskID r = rel_TargetTaskID q \<and> rel_RelationType r = rel_RelationType q"
    if "join_target t q = Some r" for q r
    using that by (auto simp: join_target_def)
  have joined: "\<exists>r. join_target t q = Some r" if "q \<in> set (ot_relations t)" for q
    using that assms by (auto simp: relations_ok_def task_exists_row join_target_def)
  show ?thesis
  proof (intro equalityI subsetI)
    fix v assume "v \<in> {rel_TargetTaskID r |r. r \<in> set (ListBySource source t) \<and> rel_RelationType r = relType}"
    then obtain r where r: "r \<in> set (ListBySource source t)" "rel_RelationType r = relType"
      "v = rel_TargetTaskID r"
      by blast
    obtain q where q: "q \<in> set (ot_relations t)" "rel_SourceTaskID q = source" "join_target t q = Some r"
      using r(1) unfolding mem by blast
    have "(rel_SourceTaskID q, rel_TargetTaskID q) \<in> order_edges relType t"
      unfolding order_edges_def
      by (rule image_eqI [OF refl], rule CollectI) (metis q(1) r(2) kept [OF q(3)])
    moreover have "rel_TargetTaskID q = v" using r(3) kept [OF q(3)] by metis
    ultimately show "v \<in> order_edges relType t `` {source}" unfolding q(2) by blast
  next
    fix v assume "v \<in> order_edges relType t `` {source}"
    then have "(source, v) \<in> order_edges relType t" by simp
    then obtain q where "q \<in> {r \<in> set (ot_relations t). rel_RelationType r = relType}"
      and pair: "(source, v) = (rel_SourceTaskID q, rel_TargetTaskID q)"
      unfolding order_edges_def by (rule imageE)
    then have q: "q \<in> set (ot_relations t)" "rel_SourceTaskID q = source"
      "rel_TargetTaskID q = v" "rel_RelationType q = relType"
      by simp_all
    obtain r where r: "join_target t q = Some r" using joined [OF q(1)] by blast
    have "r \<in> set (ListBySource source t)" unfolding mem using q(1,2) r by blast
    moreover have "v = rel_TargetTaskID r" "rel_RelationType r = relType" using q(3,4) kept [OF r] by simp_all
    ultimately show "v \<in> {rel_TargetTaskID r |r. r \<in> set (ListBySource source t) \<and> rel_RelationType r = relType}"
      by (intro CollectI exI [of _ r]) simp
  qed
qed

end
