(* ===== verification/Order_Note.thy ===== *)
theory Order_Note
  imports Tasks
begin

text \<open>
  The generated half of a task's runbook: \<open>server/internal/domain/task_order.go\<close>,
  \<open>BeforeDeploySteps\<close> and \<open>BeforeDeployPending\<close> of \<open>domain/board_task.go\<close>, and
  \<open>renderOrderNote\<close> of \<open>application/repository/prompts.go\<close>. The rendered text of the note's
  template is a parameter; the theorems hold for any text that contains neither marker.
\<close>

section \<open>The note\<close>

definition OrderNoteOpen :: string where "OrderNoteOpen = ''<!-- tt:order -->''"
definition OrderNoteClose :: string where "OrderNoteClose = ''<!-- /tt:order -->''"

definition OrderNoteEmpty :: "string list \<Rightarrow> string list \<Rightarrow> bool" where
  "OrderNoteEmpty deployAfter workAfter \<longleftrightarrow> deployAfter = [] \<and> workAfter = []"

definition renderOrderNote ::
  "(string list \<Rightarrow> string list \<Rightarrow> string) \<Rightarrow> string list \<Rightarrow> string list \<Rightarrow> string" where
  "renderOrderNote render deployAfter workAfter =
     (if OrderNoteEmpty deployAfter workAfter then ''''
      else OrderNoteOpen @ [CHR 0x0A] @ render deployAfter workAfter @ OrderNoteClose)"

function StripOrderNote :: "string \<Rightarrow> string" where
  "StripOrderNote txt0 =
     (case str_Index txt0 OrderNoteOpen of
        None \<Rightarrow> TrimSpace txt0
      | Some start \<Rightarrow>
          (let rest = drop (start + length OrderNoteOpen) txt0 in
           case str_Index rest OrderNoteClose of
             None \<Rightarrow> StripOrderNote (take start txt0)
           | Some e \<Rightarrow> StripOrderNote (take start txt0 @ drop (e + length OrderNoteClose) rest)))"
  by pat_completeness auto
termination
proof (relation "measure length", simp)
  fix txt0 :: string and start :: nat and rest :: string
  assume s: "str_Index txt0 OrderNoteOpen = Some start"
  have len: "start + length OrderNoteOpen \<le> length txt0" "0 < length OrderNoteOpen"
    using str_Index_Some [OF s] by (auto simp: OrderNoteOpen_def)
  from len have "start < length txt0" by linarith
  then show "(take start txt0, txt0) \<in> measure length" by simp
  fix e
  assume "rest = drop (start + length OrderNoteOpen) txt0"
  then show "(take start txt0 @ drop (e + length OrderNoteClose) rest, txt0) \<in> measure length"
    using len by (simp add: OrderNoteOpen_def)
qed

declare StripOrderNote.simps [simp del]

definition ApplyOrderNote :: "string \<Rightarrow> string \<Rightarrow> string" where
  "ApplyOrderNote existing note =
     (let body = StripOrderNote existing in
      if note = '''' \<and> body = '''' then ''''
      else if note = '''' then body
      else if body = '''' then note
      else note @ [CHR 0x0A, CHR 0x0A] @ body)"

definition trimmedPtr :: "string option \<Rightarrow> string" where
  "trimmedPtr p = (case p of None \<Rightarrow> '''' | Some s \<Rightarrow> TrimSpace s)"

definition BeforeDeploySteps :: "BoardTask \<Rightarrow> string" where
  "BeforeDeploySteps t = (case bt_BeforeDeploy t of None \<Rightarrow> '''' | Some txt0 \<Rightarrow> StripOrderNote txt0)"

definition BeforeDeployPending :: "BoardTask \<Rightarrow> bool" where
  "BeforeDeployPending t \<longleftrightarrow> BeforeDeploySteps t \<noteq> '''' \<and> bt_BeforeDeployConfirmedAt t = None"

section \<open>Properties\<close>

lemma StripOrderNote_no_open: "\<not> sublist OrderNoteOpen (StripOrderNote txt0)"
proof (induction txt0 rule: StripOrderNote.induct)
  case (1 txt0)
  show ?case
  proof (cases "str_Index txt0 OrderNoteOpen")
    case None
    then have "\<not> sublist OrderNoteOpen txt0" by (simp add: str_Index_None)
    then show ?thesis
      using None TrimSpace_sublist [of txt0]
      by (auto simp: StripOrderNote.simps [of txt0] dest: sublist_order.order.trans)
  next
    case (Some start)
    show ?thesis
    proof (cases "str_Index (drop (start + length OrderNoteOpen) txt0) OrderNoteClose")
      case None
      then show ?thesis using 1(1) [OF Some refl None] Some
        by (simp add: StripOrderNote.simps [of txt0])
    next
      case (Some e)
      then show ?thesis using 1(2) [OF \<open>str_Index txt0 OrderNoteOpen = Some start\<close> refl Some]
          \<open>str_Index txt0 OrderNoteOpen = Some start\<close>
        by (simp add: StripOrderNote.simps [of txt0])
    qed
  qed
qed

lemma StripOrderNote_plain:
  "\<not> sublist OrderNoteOpen txt0 \<Longrightarrow> StripOrderNote txt0 = TrimSpace txt0"
  by (simp add: StripOrderNote.simps [of txt0] str_Index_None [THEN iffD2])

lemma StripOrderNote_trimmed: "TrimSpace (StripOrderNote txt0) = StripOrderNote txt0"
proof (induction txt0 rule: StripOrderNote.induct)
  case (1 txt0)
  then show ?case
    by (subst (1 2) StripOrderNote.simps) (auto simp: Let_def split: option.splits)
qed

lemma TrimSpace_newline [simp]: "TrimSpace (CHR 0x0A # s) = TrimSpace s"
proof -
  have "space_at_front (CHR 0x0A # s) = 1" by (simp add: space_at_front_def utf8_spaces_def)
  then have "trim_left (CHR 0x0A # s) = trim_left s" by (subst trim_left.simps) simp
  then show ?thesis by (simp add: TrimSpace_def)
qed

lemma markers_not_in_newline:
  "sublist OrderNoteOpen (CHR 0x0A # s) \<longleftrightarrow> sublist OrderNoteOpen s"
  "sublist OrderNoteClose (CHR 0x0A # s) \<longleftrightarrow> sublist OrderNoteClose s"
  by (auto simp: sublist_Cons_right OrderNoteOpen_def OrderNoteClose_def)

lemma StripOrderNote_idem [simp]: "StripOrderNote (StripOrderNote s) = StripOrderNote s"
  by (simp add: StripOrderNote_plain StripOrderNote_no_open StripOrderNote_trimmed)

lemma StripOrderNote_block:
  assumes "\<not> sublist OrderNoteClose r"
  shows "StripOrderNote (OrderNoteOpen @ CHR 0x0A # r @ OrderNoteClose @ after) = StripOrderNote after"
proof -
  have o: "str_Index (OrderNoteOpen @ ys) OrderNoteOpen = Some 0" for ys
    by (cases "OrderNoteOpen @ ys") (auto simp: OrderNoteOpen_def)
  obtain c cs where c: "OrderNoteClose = c # cs" "c \<notin> set cs" by (simp add: OrderNoteClose_def)
  have "str_Index ((CHR 0x0A # r) @ OrderNoteClose @ after) OrderNoteClose = Some (length (CHR 0x0A # r))"
    using assms by (intro str_Index_first [OF c]) (simp add: markers_not_in_newline)
  then show ?thesis
    by (subst StripOrderNote.simps) (simp add: o Let_def)
qed

lemma StripOrderNote_newline: "\<not> sublist OrderNoteOpen s \<Longrightarrow> StripOrderNote (CHR 0x0A # s) = StripOrderNote s"
  by (simp add: StripOrderNote_plain markers_not_in_newline)

lemma TrimSpace_Nil [simp]: "TrimSpace [] = []"
  by code_simp

lemma StripOrderNote_Nil [simp]: "StripOrderNote [] = []"
  by (simp add: StripOrderNote_plain OrderNoteOpen_def)

lemma StripOrderNote_generated:
  assumes "\<not> sublist OrderNoteClose (render deployAfter workAfter)"
  shows "StripOrderNote (ApplyOrderNote existing (renderOrderNote render deployAfter workAfter))
         = StripOrderNote existing"
  using StripOrderNote_block [OF assms, of "[]"]
    StripOrderNote_block [OF assms, of "CHR 0x0A # CHR 0x0A # StripOrderNote existing"]
    StripOrderNote_no_open [of existing]
  by (auto simp: ApplyOrderNote_def renderOrderNote_def Let_def StripOrderNote_newline
      markers_not_in_newline)

text \<open>
  Regenerating the runbook's order note keeps the author's text and never piles up blocks:
  whatever the field held (complete blocks, an unterminated one, none), as long as the rendered
  sentences do not contain the closing marker, stripping the refreshed field gives exactly what
  stripping the old one gave, and a second regeneration replaces the first one's block, leaving
  no trace of it.
\<close>
theorem order_note_regeneration:
  assumes "\<not> sublist OrderNoteClose (render deployAfter workAfter)"
  shows "StripOrderNote (ApplyOrderNote existing (renderOrderNote render deployAfter workAfter))
           = StripOrderNote existing
    \<and> ApplyOrderNote (ApplyOrderNote existing (renderOrderNote render deployAfter workAfter)) note'
           = ApplyOrderNote existing note'"
  using StripOrderNote_generated [of render deployAfter workAfter existing] assms
  by (simp add: ApplyOrderNote_def)

lemma order_note_regeneration_witness:
  "StripOrderNote (ApplyOrderNote ''run the migration''
       (renderOrderNote (\<lambda>d w. ''Ships after '' @ concat d) [''T-12''] []))
     = StripOrderNote ''run the migration''
   \<and> ApplyOrderNote (ApplyOrderNote ''run the migration''
       (renderOrderNote (\<lambda>d w. ''Ships after '' @ concat d) [''T-12''] [])) ''''
     = ApplyOrderNote ''run the migration'' ''''"
  by (rule order_note_regeneration) (simp add: OrderNoteClose_def sublist_Cons_right)

text \<open>
  The generated block never decides whether a release waits: refreshing a task's order note
  leaves \<open>BeforeDeployPending\<close> as it was, so a task with no steps of its own is not held by
  the note, and one with unconfirmed steps stays held.
\<close>
theorem order_note_never_gates:
  assumes "\<not> sublist OrderNoteClose (render deployAfter workAfter)"
    and "bt_BeforeDeploy t = Some existing"
  shows "BeforeDeployPending
           (t\<lparr>bt_BeforeDeploy := Some (ApplyOrderNote existing (renderOrderNote render deployAfter workAfter))\<rparr>)
         = BeforeDeployPending t"
  using assms by (simp add: BeforeDeployPending_def BeforeDeploySteps_def StripOrderNote_generated)

lemma order_note_never_gates_witness:
  "\<forall>t. BeforeDeployPending
     ((t\<lparr>bt_BeforeDeploy := Some ''''\<rparr>)
       \<lparr>bt_BeforeDeploy := Some (ApplyOrderNote '''' (renderOrderNote (\<lambda>d w. concat d) [''T-12''] []))\<rparr>)
   = BeforeDeployPending (t\<lparr>bt_BeforeDeploy := Some ''''\<rparr>)"
  by (rule allI, rule order_note_never_gates) (simp_all add: OrderNoteClose_def sublist_Cons_right)

text \<open>
  The hypothesis is needed: the sentences list task titles as they are, and a title that contains
  the closing marker ends the block early, so that a piece of the generated text stays behind as
  if the author had written it, and every regeneration adds another.
\<close>
lemma title_breaks_the_fence:
  "StripOrderNote (ApplyOrderNote ''''
     (renderOrderNote (\<lambda>d w. concat d) [RelationLabel ''T-1'' ''<!-- /tt:order --> later'' i] []))
   = ''later)<!-- /tt:order -->''"
  by code_simp

end
