(* ===== verification/Work_Order.thy ===== *)
theory Work_Order
  imports Relations Order_Note
begin

text \<open>
  Work order and deploy order: \<open>server/internal/application/repository/workorder.go\<close>, and
  \<open>resolveRelations\<close> and \<open>ReplaceDeployDependencies\<close> of \<open>service.go\<close>. The stores are a record of
  ports over a state; the walk's counter of visits is the recursion's first argument, so the model
  gives up exactly where the source does. A path is the list of the labels on it, empty when none
  was found.
\<close>

section \<open>Ports\<close>

record 's relation_store =
  rs_ListBySource :: "'s \<Rightarrow> uuid \<Rightarrow> go_error + TaskRelation list"
  rs_ListBlockedBy :: "'s \<Rightarrow> uuid \<Rightarrow> go_error + TaskRelation list"
  rs_AddBlockers :: "uuid \<Rightarrow> uuid list \<Rightarrow> 's \<Rightarrow> (go_error + TaskRelation list) \<times> 's"
  rs_ReplaceForTask :: "uuid \<Rightarrow> TaskRelationInput list \<Rightarrow> 's \<Rightarrow> (go_error + TaskRelation list) \<times> 's"
  rs_ReplaceForTaskOfType ::
    "uuid \<Rightarrow> TaskRelationType \<Rightarrow> TaskRelationInput list \<Rightarrow> 's \<Rightarrow> (go_error + TaskRelation list) \<times> 's"

record 's order_ports =
  op_relations :: "'s relation_store option"
  op_Get :: "'s \<Rightarrow> uuid \<Rightarrow> uuid \<Rightarrow> go_error + BoardTask"
  op_GetByID :: "'s \<Rightarrow> uuid \<Rightarrow> go_error + BoardTask"
  op_LookupByKey :: "'s \<Rightarrow> string \<Rightarrow> int \<Rightarrow> go_error + BoardTask"
  op_Update :: "BoardTask \<Rightarrow> 's \<Rightarrow> (go_error + BoardTask) \<times> 's"
  op_renderOrderNote :: "string list \<Rightarrow> string list \<Rightarrow> string"

section \<open>Finding tasks\<close>

definition FindTaskRepositoryID :: "('s, 'm) order_ports_scheme \<Rightarrow> 's \<Rightarrow> uuid \<Rightarrow> go_error + uuid" where
  "FindTaskRepositoryID p s taskID =
     (case op_GetByID p s taskID of
        Inl err \<Rightarrow> if errors_Is err ErrBoardTaskNotFound then Inl (ErrText ''task not found'' []) else Inl err
      | Inr task \<Rightarrow> Inr (bt_RepositoryID task))"

definition taskLabelByID :: "('s, 'm) order_ports_scheme \<Rightarrow> 's \<Rightarrow> uuid \<Rightarrow> string" where
  "taskLabelByID p s i =
     (if i = uuid_Nil then ''(unknown task)''
      else case FindTaskRepositoryID p s i of
          Inl err \<Rightarrow> uuid_String i
        | Inr repositoryID \<Rightarrow>
            (case op_Get p s repositoryID i of
               Inl err \<Rightarrow> uuid_String i
             | Inr task \<Rightarrow> RelationLabel (bt_Key task) (bt_Title task) i))"

fun resolve_loop ::
  "('s, 'm) order_ports_scheme \<Rightarrow> 's \<Rightarrow> TaskRelationInput list \<Rightarrow> TaskRelationInput list \<Rightarrow>
   go_error + TaskRelationInput list" where
  "resolve_loop p s [] out = Inr out"
| "resolve_loop p s (rel0 # rels) out =
     (let rel = (if rin_RelationType rel0 = '''' then rel0\<lparr>rin_RelationType := TaskRelationBlocks\<rparr> else rel0)
      in if \<not> ValidTaskRelationType (rin_RelationType rel)
         then Inl (ErrText ''invalid relation type'' [rin_RelationType rel])
         else if rin_TargetTaskID rel \<noteq> uuid_Nil then resolve_loop p s rels (out @ [rel])
         else if rin_TargetKey rel = '''' then Inl (ErrText ''relation_target_required'' [])
         else case LookupTaskByKey (op_LookupByKey p s) (rin_TargetKey rel) of
             Inl err \<Rightarrow> Inl err
           | Inr target \<Rightarrow> resolve_loop p s rels (out @ [rel\<lparr>rin_TargetTaskID := bt_ID target\<rparr>]))"

definition resolveRelations ::
  "('s, 'm) order_ports_scheme \<Rightarrow> 's \<Rightarrow> TaskRelationInput list \<Rightarrow> go_error + TaskRelationInput list" where
  "resolveRelations p s inputs = resolve_loop p s inputs []"

definition resolveRelationTargets ::
  "('s, 'm) order_ports_scheme \<Rightarrow> 's \<Rightarrow> TaskRelationInput list \<Rightarrow> TaskRelationType \<Rightarrow>
   go_error + TaskRelationInput list" where
  "resolveRelationTargets p s inputs relType =
     resolveRelations p s (map (\<lambda>i. i\<lparr>rin_RelationType := relType\<rparr>) inputs)"

section \<open>The walk\<close>

definition relationWalkLimit :: nat where "relationWalkLimit = 512"

datatype scan_result =
    PathFound "string list"
  | Pushed "(uuid \<times> string list) list" "uuid list"

text \<open>
  The relations out of the task the walk is at: found, or the stack (its top first) and the
  visited tasks after it.
\<close>

fun scan_relations ::
  "TaskRelationType \<Rightarrow> uuid \<Rightarrow> string list \<Rightarrow> TaskRelation list \<Rightarrow> (uuid \<times> string list) list \<Rightarrow>
   uuid list \<Rightarrow> scan_result" where
  "scan_relations relType to path [] stack visited = Pushed stack visited"
| "scan_relations relType to path (rel # rels) stack visited =
     (if rel_RelationType rel \<noteq> relType then scan_relations relType to path rels stack visited
      else let target = rel_TargetTaskID rel;
               label = RelationLabel (rel_TargetKey rel) (rel_TargetTitle rel) target
        in if target = to then PathFound (path @ [label])
           else if target \<in> set visited then scan_relations relType to path rels stack visited
           else scan_relations relType to path rels ((target, path @ [label]) # stack) (target # visited))"

fun walk ::
  "nat \<Rightarrow> (uuid \<Rightarrow> go_error + TaskRelation list) \<Rightarrow> TaskRelationType \<Rightarrow> uuid \<Rightarrow>
   (uuid \<times> string list) list \<Rightarrow> uuid list \<Rightarrow> go_error + string list" where
  "walk 0 listBySource relType to stack visited = Inr []"
| "walk (Suc n) listBySource relType to [] visited = Inr []"
| "walk (Suc n) listBySource relType to ((cur, path) # stack) visited =
     (case listBySource cur of
        Inl err \<Rightarrow> Inl (ErrWrap ''relation graph could not be read'' err)
      | Inr rels \<Rightarrow>
          (case scan_relations relType to path rels stack visited of
             PathFound found \<Rightarrow> Inr found
           | Pushed stack' visited' \<Rightarrow> walk n listBySource relType to stack' visited'))"

definition relationPath ::
  "('s, 'm) order_ports_scheme \<Rightarrow> 's \<Rightarrow> uuid \<Rightarrow> uuid \<Rightarrow> TaskRelationType \<Rightarrow> go_error + string list" where
  "relationPath p s from to relType =
     (case op_relations p of
        None \<Rightarrow> Inr []
      | Some store \<Rightarrow>
          if from = uuid_Nil \<or> to = uuid_Nil then Inr []
          else let label = taskLabelByID p s from in
            if from = to then Inr [label]
            else walk relationWalkLimit (rs_ListBySource store s) relType to [(from, [label])] [from])"

definition guardWorkOrderCycle ::
  "('s, 'm) order_ports_scheme \<Rightarrow> 's \<Rightarrow> uuid \<Rightarrow> uuid \<Rightarrow> go_error option" where
  "guardWorkOrderCycle p s taskID blockerID =
     (case relationPath p s taskID blockerID TaskRelationBlocks of
        Inl err \<Rightarrow> Some err
      | Inr path \<Rightarrow>
          if path = [] then None
          else Some (ErrText ''work_order_cycle''
            (taskLabelByID p s taskID # taskLabelByID p s blockerID # path)))"

definition guardDeployOrderCycle ::
  "('s, 'm) order_ports_scheme \<Rightarrow> 's \<Rightarrow> uuid \<Rightarrow> uuid \<Rightarrow> go_error option" where
  "guardDeployOrderCycle p s taskID dependencyID =
     (case relationPath p s dependencyID taskID TaskRelationDeployDependsOn of
        Inl err \<Rightarrow> Some err
      | Inr path \<Rightarrow>
          if path = [] then None
          else Some (ErrText ''deploy_order_cycle''
            (taskLabelByID p s dependencyID # taskLabelByID p s taskID # path)))"

section \<open>Setting the order\<close>

fun blocker_ids :: "uuid \<Rightarrow> TaskRelationInput list \<Rightarrow> uuid list \<Rightarrow> go_error + uuid list" where
  "blocker_ids taskID [] ids = Inr ids"
| "blocker_ids taskID (rel # rels) ids =
     (if rin_TargetTaskID rel = taskID
      then Inl (ErrText ''a task cannot be blocked by itself'' [])
      else if rin_TargetTaskID rel \<in> set ids then blocker_ids taskID rels ids
      else blocker_ids taskID rels (ids @ [rin_TargetTaskID rel]))"

fun guard_all :: "(uuid \<Rightarrow> go_error option) \<Rightarrow> uuid list \<Rightarrow> go_error option" where
  "guard_all guard [] = None"
| "guard_all guard (i # is) = (case guard i of Some err \<Rightarrow> Some err | None \<Rightarrow> guard_all guard is)"

definition SetBlockers ::
  "('s, 'm) order_ports_scheme \<Rightarrow> uuid \<Rightarrow> TaskRelationInput list \<Rightarrow> 's \<Rightarrow>
   (go_error + TaskRelation list) \<times> 's" where
  "SetBlockers p taskID blockers s =
     (case op_relations p of
        None \<Rightarrow> (Inl (ErrText ''relation store unavailable'' []), s)
      | Some store \<Rightarrow>
          (case resolveRelationTargets p s blockers TaskRelationBlocks of
             Inl err \<Rightarrow> (Inl err, s)
           | Inr resolved \<Rightarrow>
               (case blocker_ids taskID resolved [] of
                  Inl err \<Rightarrow> (Inl err, s)
                | Inr ids \<Rightarrow>
                    if ids = [] then (Inr [], s)
                    else case guard_all (guardWorkOrderCycle p s taskID) ids of
                        Some err \<Rightarrow> (Inl err, s)
                      | None \<Rightarrow> rs_AddBlockers store taskID ids s)))"

fun guard_dependencies ::
  "('s, 'm) order_ports_scheme \<Rightarrow> 's \<Rightarrow> uuid \<Rightarrow> TaskRelationInput list \<Rightarrow> go_error option" where
  "guard_dependencies p s taskID [] = None"
| "guard_dependencies p s taskID (rel # rels) =
     (if rin_TargetTaskID rel = taskID
      then Some (ErrText ''a task cannot deploy-depend on itself'' [])
      else case guardDeployOrderCycle p s taskID (rin_TargetTaskID rel) of
          Some err \<Rightarrow> Some err
        | None \<Rightarrow> guard_dependencies p s taskID rels)"

definition ReplaceDeployDependencies ::
  "('s, 'm) order_ports_scheme \<Rightarrow> uuid \<Rightarrow> TaskRelationInput list \<Rightarrow> 's \<Rightarrow>
   (go_error + TaskRelation list) \<times> 's" where
  "ReplaceDeployDependencies p taskID inputs s =
     (case op_relations p of
        None \<Rightarrow> (Inl (ErrText ''relation store unavailable'' []), s)
      | Some store \<Rightarrow>
          (case resolveRelations p s
                  (map (\<lambda>i. i\<lparr>rin_RelationType := TaskRelationDeployDependsOn\<rparr>) inputs) of
             Inl err \<Rightarrow> (Inl err, s)
           | Inr resolved \<Rightarrow>
               (case guard_dependencies p s taskID resolved of
                  Some err \<Rightarrow> (Inl err, s)
                | None \<Rightarrow> rs_ReplaceForTaskOfType store taskID TaskRelationDeployDependsOn resolved s)))"

section \<open>The order note\<close>

definition orderLabels ::
  "('s, 'm) order_ports_scheme \<Rightarrow> 's relation_store \<Rightarrow> 's \<Rightarrow> uuid \<Rightarrow> go_error + (string list \<times> string list)" where
  "orderLabels p store s taskID =
     (case rs_ListBySource store s taskID of
        Inl err \<Rightarrow> Inl err
      | Inr rels \<Rightarrow>
          (case rs_ListBlockedBy store s taskID of
             Inl err \<Rightarrow> Inl err
           | Inr blockers \<Rightarrow>
               Inr (map (\<lambda>r. RelationLabel (rel_TargetKey r) (rel_TargetTitle r) (rel_TargetTaskID r))
                      (filter (\<lambda>r. rel_RelationType r = TaskRelationDeployDependsOn) rels),
                    map (\<lambda>r. RelationLabel (rel_SourceKey r) (rel_SourceTitle r) (rel_SourceTaskID r))
                      blockers)))"

definition syncOrderNote :: "('s, 'm) order_ports_scheme \<Rightarrow> BoardTask \<Rightarrow> 's \<Rightarrow> BoardTask \<times> 's" where
  "syncOrderNote p task s =
     (case op_relations p of
        None \<Rightarrow> (task, s)
      | Some store \<Rightarrow>
          (case orderLabels p store s (bt_ID task) of
             Inl err \<Rightarrow> (task, s)
           | Inr (deployAfter, workAfter) \<Rightarrow>
               (let note = renderOrderNote (op_renderOrderNote p) deployAfter workAfter;
                    updatedText = ApplyOrderNote (trimmedPtr (bt_BeforeDeploy task)) note
                in if updatedText = trimmedPtr (bt_BeforeDeploy task) then (task, s)
                   else case op_Update p
                            (task\<lparr>bt_BeforeDeploy := (if updatedText = '''' then None else Some updatedText)\<rparr>) s of
                       (Inl err, s') \<Rightarrow> (task, s')
                     | (Inr stored, s') \<Rightarrow>
                         (task\<lparr>bt_BeforeDeploy := bt_BeforeDeploy stored,
                               bt_UpdatedAt := bt_UpdatedAt stored\<rparr>, s'))))"

end
