(* ===== verification/Task_Ports.thy ===== *)
theory Task_Ports
  imports Board_Gates Work_Order
begin

text \<open>
  What the task operations of \<open>server/internal/application/repository/service.go\<close> are wired to, as
  one record of ports over the stores' state \<open>'s\<close>, and the helpers they share: the assignee guard
  (\<open>assignee_guard.go\<close>), the component check, \<open>enrichTask\<close>, the events, and the human review gate
  (\<open>server/internal/application/board/review_gate.go\<close>). A port the service may be built without
  is an \<open>option\<close>; calls whose errors the source only logs return the state.
\<close>

section \<open>Results\<close>

definition and_then :: "go_error + 'a \<Rightarrow> ('a \<Rightarrow> go_error + 'b) \<Rightarrow> go_error + 'b" where
  "and_then r k = (case r of Inl err \<Rightarrow> Inl err | Inr x \<Rightarrow> k x)"

lemma and_then_Inr [simp]:
  "and_then r k = Inr y \<longleftrightarrow> (\<exists>x. r = Inr x \<and> k x = Inr y)"
  by (auto simp: and_then_def split: sum.splits)

fun first_error :: "go_error option list \<Rightarrow> go_error option" where
  "first_error [] = None"
| "first_error (None # checks) = first_error checks"
| "first_error (Some err # checks) = Some err"

lemma first_error_None: "first_error checks = None \<longleftrightarrow> (\<forall>c \<in> set checks. c = None)"
  by (induction checks rule: first_error.induct) auto

section \<open>Repositories and components\<close>

text \<open>The fields of a repository and of a component that the task operations read.\<close>

record Repository =
  repo_ID :: uuid
  repo_Kind :: string
  repo_SubProjectKinds :: "string list"
  repo_RequireHumanReview :: bool
  repo_TestStrategy :: string

record Component =
  cmp_ID :: uuid
  cmp_RepositoryID :: uuid
  cmp_Path :: string
  cmp_Status :: string

definition ComponentStatusActive :: string where [col_defs]: "ComponentStatusActive = ''active''"

definition TestStrategyLocal :: string where [col_defs]: "TestStrategyLocal = ''local''"
definition TestStrategyStage :: string where [col_defs]: "TestStrategyStage = ''stage''"
definition TestStrategyPerStep :: string where [col_defs]: "TestStrategyPerStep = ''per_step''"

definition ValidTestStrategy :: "string \<Rightarrow> bool" where
  "ValidTestStrategy s \<longleftrightarrow> s \<in> set [TestStrategyLocal, TestStrategyStage, TestStrategyPerStep]"

definition DeploysForQA :: "string \<Rightarrow> bool" where
  "DeploysForQA strategy \<longleftrightarrow> strategy \<noteq> TestStrategyLocal"

definition DeploysOnCodeReview :: "string \<Rightarrow> bool" where
  "DeploysOnCodeReview strategy \<longleftrightarrow> strategy = TestStrategyPerStep"

section \<open>The human review gate\<close>

record 's review_gate =
  rg_SetReviewVerdict :: "(uuid \<Rightarrow> string \<Rightarrow> string \<Rightarrow> 's \<Rightarrow> 's) option"
  rg_OpenSpan :: "'s \<Rightarrow> uuid \<Rightarrow> go_error + TaskColumnSpan option"
  rg_ApplyReviewEscape :: "(BoardTask \<Rightarrow> uuid \<Rightarrow> 's \<Rightarrow> 's) option"
  rg_quorum :: "'s ReviewQuorum option"

definition holdsForHumanApproval :: "TaskColumn \<Rightarrow> bool" where
  "holdsForHumanApproval from \<longleftrightarrow> from = TaskColumnCodeReview"

definition InterceptAgentMove ::
  "'s review_gate option \<Rightarrow> BoardTask \<Rightarrow> TaskColumn \<Rightarrow> TaskColumn \<Rightarrow> TaskActor \<Rightarrow> Repository \<Rightarrow> 's \<Rightarrow>
   bool \<times> 's" where
  "InterceptAgentMove g task from to actor repo s =
     (case Option.bind g rg_SetReviewVerdict of
        None \<Rightarrow> (True, s)
      | Some setVerdict \<Rightarrow>
          if actor \<noteq> TaskActorAgent \<or> \<not> repo_RequireHumanReview repo then (True, s)
          else if \<not> holdsForHumanApproval from then (True, s)
          else let verdict = (if to = TaskColumnNeedRevision then ReviewVerdictReject
                              else ReviewVerdictApprove)
            in (verdict = ReviewVerdictReject, setVerdict (bt_ID task) from verdict s))"

definition OnHumanRejection :: "'s review_gate option \<Rightarrow> BoardTask \<Rightarrow> TaskColumn \<Rightarrow> 's \<Rightarrow> 's" where
  "OnHumanRejection g task from s =
     (case g of
        None \<Rightarrow> s
      | Some gate \<Rightarrow>
          (case (rg_SetReviewVerdict gate, rg_ApplyReviewEscape gate) of
             (Some _, Some charge) \<Rightarrow>
               (case rg_OpenSpan gate s (bt_ID task) of
                  Inl err \<Rightarrow> s
                | Inr None \<Rightarrow> s
                | Inr (Some span) \<Rightarrow>
                    if span_BoardColumn span \<noteq> from \<or> span_ReviewVerdict span \<noteq> ReviewVerdictApprove
                    then s
                    else let approvers = Approvers (rg_quorum gate) (bt_ID task) from s
                      in if approvers \<noteq> [] then fold (charge task) approvers s
                         else case span_AgentID span of
                             None \<Rightarrow> s | Some agent \<Rightarrow> charge task agent s)
           | _ \<Rightarrow> s))"

section \<open>The ports\<close>

type_synonym payload = "(string \<times> string) list"

record 's hook_ports =
  hk_dispatch :: "(uuid \<Rightarrow> BoardTask \<Rightarrow> string \<Rightarrow> payload \<Rightarrow> 's \<Rightarrow> 's) option"
  hk_TaskCreated :: "(BoardTask \<Rightarrow> 's \<Rightarrow> 's) option"
  hk_WakeDependentsOf :: "(uuid \<Rightarrow> 's \<Rightarrow> 's) option"
  hk_SweepSoon :: "'s \<Rightarrow> 's"
  hk_removeWorkspace :: "(uuid \<Rightarrow> 's \<Rightarrow> 's) option"
  hk_scorer :: "(BoardTask \<Rightarrow> TaskColumn \<Rightarrow> TaskColumn \<Rightarrow> 's \<Rightarrow> 's) option"
  hk_completion :: "(BoardTask \<Rightarrow> TaskColumn \<Rightarrow> TaskColumn \<Rightarrow> 's \<Rightarrow> 's) option"
  hk_NotifyRevision :: "(BoardTask \<Rightarrow> 's \<Rightarrow> 's) option"
  hk_markQuestionsSubmitted :: "uuid \<Rightarrow> uuid \<Rightarrow> 's \<Rightarrow> 's"
  hk_ensurePullRequest :: "BoardTask \<Rightarrow> 's \<Rightarrow> 's"
  hk_pipelineTrigger :: "(uuid \<Rightarrow> BoardTask \<Rightarrow> 's \<Rightarrow> 's) option"
  hk_pipelineStageDeploy :: "uuid \<Rightarrow> BoardTask \<Rightarrow> 's \<Rightarrow> 's"
  hk_detectMigration :: "BoardTask \<Rightarrow> 's \<Rightarrow> 's"
  hk_approveDesign :: "(uuid \<Rightarrow> 's \<Rightarrow> 's) option"
  hk_storeTestBuild :: "(uuid \<Rightarrow> uuid \<Rightarrow> 's \<Rightarrow> 's) option"
  hk_componentAssigned :: "(uuid \<Rightarrow> uuid \<Rightarrow> 's \<Rightarrow> 's) option"

record 's part_ports =
  pp_replaceCriteria ::
    "uuid \<Rightarrow> AcceptanceCriterionInput list \<Rightarrow> 's \<Rightarrow> (go_error + AcceptanceCriterion list) \<times> 's"
  pp_GetCriterion :: "'s \<Rightarrow> uuid \<Rightarrow> go_error + AcceptanceCriterion"
  pp_UpdateCompleted :: "uuid \<Rightarrow> bool \<Rightarrow> 's \<Rightarrow> (go_error + AcceptanceCriterion) \<times> 's"
  pp_UpdateCanceled :: "uuid \<Rightarrow> bool \<Rightarrow> string \<Rightarrow> 's \<Rightarrow> (go_error + AcceptanceCriterion) \<times> 's"
  pp_UpsertCheck :: "CriterionCheck \<Rightarrow> 's \<Rightarrow> (go_error + CriterionCheck) \<times> 's"
  pp_listDocuments :: "('s \<Rightarrow> uuid \<Rightarrow> go_error + TaskDocument list) option"
  pp_createDocument :: "TaskDocument \<Rightarrow> 's \<Rightarrow> (go_error + TaskDocument) \<times> 's"
  pp_listAttachments :: "('s \<Rightarrow> uuid \<Rightarrow> go_error + uuid list) option"
  pp_comment :: "(uuid \<Rightarrow> string \<Rightarrow> string \<Rightarrow> string \<Rightarrow> 's \<Rightarrow> 's) option"

record 's repo_ports =
  wp_getRepo :: "'s \<Rightarrow> uuid \<Rightarrow> go_error + Repository"
  wp_GetComponent :: "('s \<Rightarrow> uuid \<Rightarrow> go_error + Component) option"
  wp_hasGit :: "'s \<Rightarrow> uuid \<Rightarrow> bool"
  wp_headSHA :: "('s \<Rightarrow> uuid \<Rightarrow> go_error + string) option"
  wp_patchID :: "('s \<Rightarrow> uuid \<Rightarrow> go_error + string) option"
  wp_setReviewPatchID :: "(uuid \<Rightarrow> string \<Rightarrow> string \<Rightarrow> 's \<Rightarrow> 's) option"
  wp_deployProvider :: "('s \<Rightarrow> uuid \<Rightarrow> string \<Rightarrow> go_error + string) option"
  wp_deployTargets :: "'s \<Rightarrow> uuid \<Rightarrow> go_error + string list"
  wp_mobileAppState :: "('s \<Rightarrow> uuid \<Rightarrow> string \<Rightarrow> go_error + string) option"

record 's task_ports =
  tk_gates :: "'s gate_ports"
  tk_order :: "'s order_ports"
  tk_ListByRepository :: "'s \<Rightarrow> uuid \<Rightarrow> go_error + BoardTask list"
  tk_NextTaskNumber :: "TaskType \<Rightarrow> 's \<Rightarrow> (go_error + int) \<times> 's"
  tk_Create :: "BoardTask \<Rightarrow> 's \<Rightarrow> (go_error + BoardTask) \<times> 's"
  tk_ClaimAssignee :: "uuid \<Rightarrow> uuid \<Rightarrow> uuid \<Rightarrow> 's \<Rightarrow> (go_error + BoardTask) \<times> 's"
  tk_Delete :: "uuid \<Rightarrow> uuid \<Rightarrow> 's \<Rightarrow> go_error option \<times> 's"
  tk_ConfirmBeforeDeploy :: "uuid \<Rightarrow> uuid \<Rightarrow> 's \<Rightarrow> (go_error + BoardTask) \<times> 's"
  tk_DefaultTaskType :: "'s \<Rightarrow> go_error + TaskType"
  tk_TaskTypeExists :: "'s \<Rightarrow> TaskType \<Rightarrow> go_error + bool"
  tk_AssigneeForNewTask :: "('s \<Rightarrow> TaskType \<Rightarrow> string \<Rightarrow> uuid option \<Rightarrow> go_error + uuid option) option"
  tk_AgentHoldsRole :: "('s \<Rightarrow> uuid \<Rightarrow> string \<Rightarrow> go_error + bool) option"
  tk_reviewQuorum :: "'s ReviewQuorum option"
  tk_reviewGate :: "'s review_gate option"
  tk_hooks :: "'s hook_ports"
  tk_parts :: "'s part_ports"
  tk_repos :: "'s repo_ports"

definition emit :: "('s, 'm) task_ports_scheme \<Rightarrow> Repository \<Rightarrow> BoardTask \<Rightarrow> string \<Rightarrow> payload \<Rightarrow> 's \<Rightarrow> 's" where
  "emit p repo task eventType payload s =
     (case hk_dispatch (tk_hooks p) of
        None \<Rightarrow> s
      | Some dispatch \<Rightarrow> dispatch (repo_ID repo) task eventType payload s)"

section \<open>Assignees and components\<close>

definition isProductManager :: "('s, 'm) task_ports_scheme \<Rightarrow> 's \<Rightarrow> uuid \<Rightarrow> go_error + bool" where
  "isProductManager p s agentID =
     (case tk_AgentHoldsRole p of
        None \<Rightarrow> Inr False
      | Some holds \<Rightarrow>
          (case holds s agentID RoleKeyProductManager of
             Inl err \<Rightarrow> Inl (ErrWrap ''check assignee role'' err)
           | Inr held \<Rightarrow> Inr held))"

definition requireAssignable :: "('s, 'm) task_ports_scheme \<Rightarrow> 's \<Rightarrow> uuid option \<Rightarrow> go_error option" where
  "requireAssignable p s agentID =
     (case agentID of
        None \<Rightarrow> None
      | Some a \<Rightarrow>
          (case isProductManager p s a of
             Inl err \<Rightarrow> Some err
           | Inr pm \<Rightarrow> if pm then Some ErrAssigneeNotAssignable else None))"

definition requestedAssignee ::
  "('s, 'm) task_ports_scheme \<Rightarrow> 's \<Rightarrow> CreateBoardTaskRequest \<Rightarrow> go_error + uuid option" where
  "requestedAssignee p s req =
     (case requireAssignable p s (creq_AssigneeAgentID req) of
        None \<Rightarrow> Inr (creq_AssigneeAgentID req)
      | Some err \<Rightarrow>
          if creq_CreatedBy req = ''system'' \<and> errors_Is err ErrAssigneeNotAssignable then Inr None
          else Inl err)"

definition resolveNewTaskAssignee ::
  "('s, 'm) task_ports_scheme \<Rightarrow> 's \<Rightarrow> TaskType \<Rightarrow> Repository \<Rightarrow> uuid option \<Rightarrow> go_error + uuid option" where
  "resolveNewTaskAssignee p s taskType repo requested =
     (case tk_AssigneeForNewTask p of
        None \<Rightarrow> Inr requested
      | Some resolve \<Rightarrow>
          (case resolve s taskType (RepoArea (repo_Kind repo) (repo_SubProjectKinds repo)) requested of
             Inl err \<Rightarrow> Inl (ErrWrap ''resolve assignee for new task'' err)
           | Inr None \<Rightarrow> Inr None
           | Inr (Some resolved) \<Rightarrow>
               if requested = Some resolved then Inr (Some resolved)
               else (case isProductManager p s resolved of
                       Inl err \<Rightarrow> Inl err
                     | Inr pm \<Rightarrow> if pm then Inr requested else Inr (Some resolved))))"

definition resolveTaskType ::
  "('s, 'm) task_ports_scheme \<Rightarrow> 's \<Rightarrow> TaskType \<Rightarrow> go_error + TaskType" where
  "resolveTaskType p s requested =
     (if requested = '''' then
        (if gp_workflows (tk_gates p) = None
         then Inl (ErrText ''workflow reader unavailable: cannot resolve the default task type'' [])
         else case tk_DefaultTaskType p s of
             Inl err \<Rightarrow> Inl (ErrWrap ''default task type unavailable'' err)
           | Inr def \<Rightarrow> Inr def)
      else if gp_workflows (tk_gates p) = None then Inr requested
      else case tk_TaskTypeExists p s requested of
          Inl err \<Rightarrow> Inl (ErrWrap ''task type check unavailable'' err)
        | Inr present \<Rightarrow> if \<not> present then Inl (ErrText ''invalid task type'' [requested]) else Inr requested)"

definition validateTaskComponent ::
  "('s, 'm) task_ports_scheme \<Rightarrow> 's \<Rightarrow> uuid \<Rightarrow> uuid \<Rightarrow> go_error option" where
  "validateTaskComponent p s repositoryID componentID =
     (case wp_GetComponent (tk_repos p) of
        None \<Rightarrow> Some (ErrText ''component resolver unavailable'' [])
      | Some getComponent \<Rightarrow>
          (case getComponent s componentID of
             Inl err \<Rightarrow> Some (ErrWrap ''component'' err)
           | Inr component \<Rightarrow>
               if cmp_RepositoryID component \<noteq> repositoryID
               then Some (ErrText ''component belongs to a different repository'' [])
               else if cmp_Status component \<noteq> ComponentStatusActive
               then Some (ErrText ''component is not active'' [cmp_Path component])
               else None))"

section \<open>Reading a task with its parts\<close>

definition with_part ::
  "(uuid \<Rightarrow> go_error + 'a) option \<Rightarrow> ('a \<Rightarrow> BoardTask \<Rightarrow> BoardTask) \<Rightarrow> BoardTask \<Rightarrow> go_error + BoardTask" where
  "with_part port set_part task =
     (case port of
        None \<Rightarrow> Inr task
      | Some listed \<Rightarrow> and_then (listed (bt_ID task)) (\<lambda>part. Inr (set_part part task)))"

definition enrichTask :: "('s, 'm) task_ports_scheme \<Rightarrow> 's \<Rightarrow> BoardTask \<Rightarrow> go_error + BoardTask" where
  "enrichTask p s task =
     and_then (with_part (map_option (\<lambda>f. f s) (gp_criteria (tk_gates p)))
         (\<lambda>xs t. t\<lparr>bt_AcceptanceCriteria := xs\<rparr>) task) (\<lambda>task.
     and_then (with_part (map_option (\<lambda>f. f s) (gp_testCases (tk_gates p)))
         (\<lambda>xs t. t\<lparr>bt_TestCases := xs\<rparr>) task) (\<lambda>task.
     and_then (with_part (map_option (\<lambda>store. rs_ListBySource store s) (op_relations (tk_order p)))
         (\<lambda>xs t. t\<lparr>bt_Relations := xs\<rparr>) task) (\<lambda>task.
     and_then (with_part (map_option (\<lambda>store. rs_ListBlockedBy store s) (op_relations (tk_order p)))
         (\<lambda>xs t. t\<lparr>bt_BlockedBy := xs\<rparr>) task) (\<lambda>task.
     and_then (with_part (map_option (\<lambda>f. f s) (pp_listDocuments (tk_parts p)))
         (\<lambda>xs t. t\<lparr>bt_Documents := xs\<rparr>) task) (\<lambda>task.
     with_part (map_option (\<lambda>f. f s) (pp_listAttachments (tk_parts p)))
         (\<lambda>xs t. t\<lparr>bt_Attachments := xs\<rparr>) task)))))"

definition GetTask :: "('s, 'm) task_ports_scheme \<Rightarrow> 's \<Rightarrow> uuid \<Rightarrow> uuid \<Rightarrow> go_error + BoardTask" where
  "GetTask p s repositoryID taskID = and_then (op_Get (tk_order p) s repositoryID taskID) (enrichTask p s)"

section \<open>Deploy targets\<close>

text \<open>
  A deploy target is its provider, a store app its state. \<open>wp_deployProvider\<close> and
  \<open>wp_deployTargets\<close> are the two reads of one store, absent together.
\<close>

definition DeployProviderAppStore :: string where [col_defs]: "DeployProviderAppStore = ''app_store''"
definition DeployProviderGooglePlay :: string where [col_defs]: "DeployProviderGooglePlay = ''google_play''"
definition DeployEnvStage :: string where [col_defs]: "DeployEnvStage = ''stage''"
definition DeployEnvProd :: string where [col_defs]: "DeployEnvProd = ''prod''"
definition MobileStoreStateTestReady :: string where [col_defs]: "MobileStoreStateTestReady = ''test_ready''"
definition MobileStoreStateLive :: string where [col_defs]: "MobileStoreStateLive = ''live''"

definition IsStoreProvider :: "string \<Rightarrow> bool" where
  "IsStoreProvider provider \<longleftrightarrow> provider = DeployProviderAppStore \<or> provider = DeployProviderGooglePlay"

definition StoreProviderPlatform :: "string \<Rightarrow> string" where
  "StoreProviderPlatform provider =
     (if provider = DeployProviderAppStore then ''ios''
      else if provider = DeployProviderGooglePlay then ''android'' else '''')"

definition mobileStoreGate :: "('s, 'm) task_ports_scheme \<Rightarrow> 's \<Rightarrow> uuid \<Rightarrow> string \<Rightarrow> go_error option" where
  "mobileStoreGate p s repositoryID env =
     (case wp_deployProvider (tk_repos p) of
        None \<Rightarrow> None
      | Some provider \<Rightarrow>
          (case provider s repositoryID env of
             Inl err \<Rightarrow> if errors_Is err ErrNotFound then None else Some err
           | Inr target \<Rightarrow>
               if \<not> IsStoreProvider target then None
               else let sentinel = (if env = DeployEnvProd then ErrMobileAppNotLive
                                    else ErrMobileAppNotTestReady)
                 in case wp_mobileAppState (tk_repos p) of
                      None \<Rightarrow> Some sentinel
                    | Some appState \<Rightarrow>
                        (case appState s repositoryID (StoreProviderPlatform target) of
                           Inl err \<Rightarrow> if errors_Is err ErrNotFound then Some sentinel else Some err
                         | Inr st \<Rightarrow>
                             if env = DeployEnvProd
                             then (if st \<noteq> MobileStoreStateLive then Some ErrMobileAppNotLive else None)
                             else if st \<noteq> MobileStoreStateTestReady \<and> st \<noteq> MobileStoreStateLive
                             then Some ErrMobileAppNotTestReady else None)))"

definition hasAnyDeployTarget :: "('s, 'm) task_ports_scheme \<Rightarrow> 's \<Rightarrow> uuid \<Rightarrow> go_error + bool" where
  "hasAnyDeployTarget p s repositoryID =
     (if wp_deployProvider (tk_repos p) = None then Inr False
      else and_then (wp_deployTargets (tk_repos p) s repositoryID) (\<lambda>targets. Inr (targets \<noteq> [])))"

definition testStrategy :: "('s, 'm) task_ports_scheme \<Rightarrow> 's \<Rightarrow> uuid \<Rightarrow> string" where
  "testStrategy p s repositoryID =
     (case wp_getRepo (tk_repos p) s repositoryID of
        Inl err \<Rightarrow> TestStrategyStage
      | Inr repo \<Rightarrow>
          if \<not> ValidTestStrategy (repo_TestStrategy repo) then TestStrategyStage
          else repo_TestStrategy repo)"

section \<open>Commits\<close>

text \<open>\<open>wp_headSHA\<close> and \<open>wp_patchID\<close> are the git client of the task's working copy.\<close>

definition resolveReleaseTargetSHA ::
  "('s, 'm) task_ports_scheme \<Rightarrow> 's \<Rightarrow> uuid \<Rightarrow> go_error + string" where
  "resolveReleaseTargetSHA p s taskID =
     (case wp_headSHA (tk_repos p) of
        None \<Rightarrow> Inl (ErrText ''git is not wired into the control plane'' [])
      | Some headSHA \<Rightarrow>
          if \<not> wp_hasGit (tk_repos p) s taskID then Inl (ErrText ''no git working copy'' [])
          else (case headSHA s taskID of
                  Inl err \<Rightarrow> Inl err
                | Inr head \<Rightarrow>
                    if TrimSpace head = ''''
                    then Inl (ErrText ''task branch HEAD resolved to an empty commit'' [])
                    else Inr (TrimSpace head)))"

definition verifiedSHAForMove ::
  "('s, 'm) task_ports_scheme \<Rightarrow> 's \<Rightarrow> BoardTask \<Rightarrow> TaskColumn \<Rightarrow> TaskColumn \<Rightarrow> string" where
  "verifiedSHAForMove p s task prev nxt =
     (if nxt = TaskColumnDone then
        (case resolveReleaseTargetSHA p s (bt_ID task) of Inl err \<Rightarrow> '''' | Inr sha \<Rightarrow> sha)
      else if prev = TaskColumnDone \<and> nxt \<noteq> TaskColumnReleased then ''''
      else bt_VerifiedSHA task)"

definition currentTaskSHA :: "('s, 'm) task_ports_scheme \<Rightarrow> 's \<Rightarrow> uuid \<Rightarrow> string" where
  "currentTaskSHA p s taskID =
     (case wp_headSHA (tk_repos p) of
        None \<Rightarrow> ''''
      | Some headSHA \<Rightarrow>
          if \<not> wp_hasGit (tk_repos p) s taskID then ''''
          else case headSHA s taskID of Inl err \<Rightarrow> '''' | Inr head \<Rightarrow> TrimSpace head)"

definition currentTaskPatchID :: "('s, 'm) task_ports_scheme \<Rightarrow> 's \<Rightarrow> uuid \<Rightarrow> string" where
  "currentTaskPatchID p s taskID =
     (case wp_patchID (tk_repos p) of
        None \<Rightarrow> ''''
      | Some patchID \<Rightarrow>
          if \<not> wp_hasGit (tk_repos p) s taskID then ''''
          else case patchID s taskID of Inl err \<Rightarrow> '''' | Inr i \<Rightarrow> TrimSpace i)"

definition recordCodeReviewApprovalPatchID ::
  "('s, 'm) task_ports_scheme \<Rightarrow> uuid \<Rightarrow> 's \<Rightarrow> 's" where
  "recordCodeReviewApprovalPatchID p taskID s =
     (case wp_setReviewPatchID (tk_repos p) of
        None \<Rightarrow> s
      | Some setPatchID \<Rightarrow>
          if currentTaskPatchID p s taskID = '''' then s
          else setPatchID taskID TaskColumnCodeReview (currentTaskPatchID p s taskID) s)"

end
