(* ===== verification/Task_Edit.thy ===== *)
theory Task_Edit
  imports Task_Ports
begin

text \<open>
  \<open>UpdateTask\<close> of \<open>server/internal/application/repository/service.go\<close>, in the order the code has:
  the request is laid over the task and checked field by field; a move is put to the reviewers'
  quorum and the human review gate, which may hold or redirect it; the task is written; then come
  the consequences of the move, the events and the order. The three stages are functions of their
  own, so that what is written is separate from what follows.
\<close>

section \<open>Laying the request over the task\<close>

definition set_opt :: "('a \<Rightarrow> 'b \<Rightarrow> 'b) \<Rightarrow> 'a option \<Rightarrow> 'b \<Rightarrow> 'b" where
  "set_opt set_field v x = (case v of None \<Rightarrow> x | Some a \<Rightarrow> set_field a x)"

definition edit_type ::
  "('s, 'm) task_ports_scheme \<Rightarrow> 's \<Rightarrow> UpdateBoardTaskRequest \<Rightarrow> BoardTask \<Rightarrow> go_error + BoardTask" where
  "edit_type p s req task =
     (case req_TaskType req of
        None \<Rightarrow> Inr task
      | Some t \<Rightarrow>
          if gp_workflows (tk_gates p) = None
          then Inl (ErrText ''workflow reader unavailable: cannot validate task type'' [t])
          else case tk_TaskTypeExists p s t of
              Inl err \<Rightarrow> Inl (ErrWrap ''task type check unavailable'' err)
            | Inr present \<Rightarrow>
                if \<not> present then Inl (ErrText ''invalid task type'' [t])
                else if req_Column req = None then
                  (case validateStageConfigured (tk_gates p) s t (bt_Column task) of
                     Some err \<Rightarrow> Inl err
                   | None \<Rightarrow> Inr (task\<lparr>bt_TaskType := t\<rparr>))
                else Inr (task\<lparr>bt_TaskType := t\<rparr>))"

text \<open>A write that changes the steps before deploy re-arms their gate.\<close>

definition edit_before_deploy :: "string \<Rightarrow> BoardTask \<Rightarrow> BoardTask" where
  "edit_before_deploy steps task =
     (if bt_BeforeDeploy task = Some steps then task
      else task\<lparr>bt_BeforeDeployConfirmedAt := None, bt_BeforeDeploy := Some steps\<rparr>)"

definition edit_texts :: "UpdateBoardTaskRequest \<Rightarrow> BoardTask \<Rightarrow> BoardTask" where
  "edit_texts req task =
     set_opt (\<lambda>v t. t\<lparr>bt_RollbackPlan := Some v\<rparr>) (req_RollbackPlan req)
       (set_opt (\<lambda>v t. t\<lparr>bt_AfterDeploy := Some v\<rparr>) (req_AfterDeploy req)
         (set_opt edit_before_deploy (req_BeforeDeploy req)
           (set_opt (\<lambda>v t. t\<lparr>bt_InitiativeProjectID := Some v\<rparr>) (req_InitiativeProjectID req)
             (set_opt (\<lambda>v t. t\<lparr>bt_TechnicalDescription := v\<rparr>) (req_TechnicalDescription req)
               (set_opt (\<lambda>v t. t\<lparr>bt_Description := v\<rparr>) (req_Description req) task)))))"

definition edit_priority :: "UpdateBoardTaskRequest \<Rightarrow> BoardTask \<Rightarrow> go_error + BoardTask" where
  "edit_priority req task =
     (case req_Priority req of
        None \<Rightarrow> Inr task
      | Some pr \<Rightarrow>
          if \<not> ValidTaskPriority pr then Inl (ErrText ''invalid priority'' [pr])
          else Inr (task\<lparr>bt_Priority := pr\<rparr>))"

definition svc_ValidateTransition ::
  "('s, 'm) task_ports_scheme \<Rightarrow> 's \<Rightarrow> TaskColumn \<Rightarrow> TaskColumn \<Rightarrow> go_error option" where
  "svc_ValidateTransition p s from to =
     (case gp_columns (tk_gates p) of
        None \<Rightarrow> None
      | Some (_, listTransitions) \<Rightarrow> ValidateTransition (listTransitions s) from to)"

text \<open>The gates of a move, asked in this order; the first refusal is the answer.\<close>

definition move_gates ::
  "('s, 'm) task_ports_scheme \<Rightarrow> 's \<Rightarrow> UpdateBoardTaskRequest \<Rightarrow> BoardTask \<Rightarrow> TaskColumn \<Rightarrow> TaskColumn \<Rightarrow>
   go_error option list" where
  "move_gates p s req task prev target =
     (let g = tk_gates p in
      [validateColumn g s target,
       validateStageConfigured g s (bt_TaskType task) target,
       validateAgentSelfMove task req prev,
       (if target \<noteq> prev then svc_ValidateTransition p s prev target else None),
       validateMoveAllowed g s (bt_ID task) (bt_TaskType task) target,
       criteriaGate g s (bt_ID task) (bt_TaskType task) target,
       criteriaReviewGate g s (bt_ID task) (bt_TaskType task) prev target,
       testCaseGate g s (bt_ID task) (bt_TaskType task) prev target,
       reviewStageSkipGate g s task prev target (req_Actor req),
       reviewChainGate g s task prev target])"

definition edit_column ::
  "('s, 'm) task_ports_scheme \<Rightarrow> 's \<Rightarrow> UpdateBoardTaskRequest \<Rightarrow> TaskColumn \<Rightarrow> BoardTask \<Rightarrow>
   go_error + BoardTask" where
  "edit_column p s req prev task =
     (case req_Column req of
        None \<Rightarrow> Inr task
      | Some target \<Rightarrow>
          (case first_error (move_gates p s req task prev target) of
             Some err \<Rightarrow> Inl err
           | None \<Rightarrow> Inr (task\<lparr>bt_Column := target\<rparr>)))"

definition edit_position :: "UpdateBoardTaskRequest \<Rightarrow> BoardTask \<Rightarrow> BoardTask" where
  "edit_position req task = set_opt (\<lambda>v t. t\<lparr>bt_Position := v\<rparr>) (req_Position req) task"

definition edit_assignee ::
  "('s, 'm) task_ports_scheme \<Rightarrow> 's \<Rightarrow> UpdateBoardTaskRequest \<Rightarrow> uuid option \<Rightarrow> BoardTask \<Rightarrow>
   go_error + BoardTask" where
  "edit_assignee p s req prevAssignee task =
     (if \<not> nul_Present (req_AssigneeAgentID req) then Inr task
      else let nxt = nul_Value (req_AssigneeAgentID req) in
        case (if nxt \<noteq> None \<and> nxt \<noteq> prevAssignee then requireAssignable p s nxt else None) of
          Some err \<Rightarrow> Inl err
        | None \<Rightarrow> Inr (task\<lparr>bt_AssigneeAgentID := nxt\<rparr>))"

definition edit_component ::
  "('s, 'm) task_ports_scheme \<Rightarrow> 's \<Rightarrow> uuid \<Rightarrow> UpdateBoardTaskRequest \<Rightarrow> BoardTask \<Rightarrow>
   go_error + BoardTask" where
  "edit_component p s repositoryID req task =
     (if \<not> nul_Present (req_ComponentID req) then Inr task
      else case (case nul_Value (req_ComponentID req) of
                   None \<Rightarrow> None
                 | Some c \<Rightarrow> validateTaskComponent p s repositoryID c) of
          Some err \<Rightarrow> Inl err
        | None \<Rightarrow> Inr (task\<lparr>bt_ComponentID := nul_Value (req_ComponentID req)\<rparr>))"

definition lay_over ::
  "('s, 'm) task_ports_scheme \<Rightarrow> 's \<Rightarrow> uuid \<Rightarrow> UpdateBoardTaskRequest \<Rightarrow> BoardTask \<Rightarrow>
   go_error + BoardTask" where
  "lay_over p s repositoryID req task =
     and_then (edit_type p s req (set_opt (\<lambda>v t. t\<lparr>bt_Title := v\<rparr>) (req_Title req) task)) (\<lambda>t.
     and_then (edit_priority req (edit_texts req t)) (\<lambda>t.
     and_then (edit_column p s req (bt_Column task) t) (\<lambda>t.
     and_then (edit_assignee p s req (bt_AssigneeAgentID task) (edit_position req t)) (\<lambda>t.
     edit_component p s repositoryID req t))))"

section \<open>Reviewers\<close>

text \<open>
  What comes of an edit before the write: it is refused, the move is held and the task returned in
  the column it was in, or the task is to be written, having moved to a column or not.
\<close>

datatype edit_outcome =
    Refuse go_error
  | Hold BoardTask
  | Write BoardTask "TaskColumn option"

definition quorum_step ::
  "('s, 'm) task_ports_scheme \<Rightarrow> UpdateBoardTaskRequest \<Rightarrow> TaskColumn \<Rightarrow> BoardTask \<Rightarrow> 's \<Rightarrow>
   edit_outcome \<times> 's" where
  "quorum_step p req prev task s =
     (case (req_Column req, tk_reviewQuorum p) of
        (Some target, Some q) \<Rightarrow>
          (if target = prev then (Write task (Some target), s)
           else case Decide (Some q) task prev target (req_Actor req) (req_ActorAgentID req) s of
               (Inl err, s') \<Rightarrow> (Refuse err, s')
             | (Inr decision, s') \<Rightarrow>
                 if qd_Hold decision then (Hold (task\<lparr>bt_Column := prev\<rparr>), s')
                 else if qd_Target decision \<noteq> target then
                   (case svc_ValidateTransition p s' prev (qd_Target decision) of
                      Some err \<Rightarrow> (Refuse err, s')
                    | None \<Rightarrow>
                        (Write (task\<lparr>bt_Column := qd_Target decision\<rparr>) (Some (qd_Target decision)), s'))
                 else (Write task (Some target), s'))
      | _ \<Rightarrow> (Write task (req_Column req), s))"

definition human_step ::
  "('s, 'm) task_ports_scheme \<Rightarrow> Repository \<Rightarrow> UpdateBoardTaskRequest \<Rightarrow> TaskColumn \<Rightarrow>
   edit_outcome \<times> 's \<Rightarrow> edit_outcome \<times> 's" where
  "human_step p repo req prev r =
     (case r of
        (Write task (Some target), s) \<Rightarrow>
          (if target = prev \<or> tk_reviewGate p = None then r
           else case InterceptAgentMove (tk_reviewGate p) task prev target (req_Actor req) repo s of
               (False, s') \<Rightarrow> (Hold (task\<lparr>bt_Column := prev\<rparr>), s')
             | (True, s') \<Rightarrow> (Write task (Some target), s'))
      | _ \<Rightarrow> r)"

definition stamp_step ::
  "('s, 'm) task_ports_scheme \<Rightarrow> TaskColumn \<Rightarrow> edit_outcome \<times> 's \<Rightarrow> edit_outcome \<times> 's" where
  "stamp_step p prev r =
     (case r of
        (Write task (Some target), s) \<Rightarrow>
          (if target = prev then r
           else let s' = (if prev = TaskColumnCodeReview \<and> target \<noteq> TaskColumnNeedRevision
                          then recordCodeReviewApprovalPatchID p (bt_ID task) s else s)
             in (Write (task\<lparr>bt_VerifiedSHA := verifiedSHAForMove p s' task prev target\<rparr>)
                   (Some target), s'))
      | _ \<Rightarrow> r)"

definition edit_plan ::
  "('s, 'm) task_ports_scheme \<Rightarrow> uuid \<Rightarrow> Repository \<Rightarrow> UpdateBoardTaskRequest \<Rightarrow> BoardTask \<Rightarrow> 's \<Rightarrow>
   edit_outcome \<times> 's" where
  "edit_plan p repositoryID repo req task s =
     (case lay_over p s repositoryID req task of
        Inl err \<Rightarrow> (Refuse err, s)
      | Inr t \<Rightarrow>
          stamp_step p (bt_Column task)
            (human_step p repo req (bt_Column task) (quorum_step p req (bt_Column task) t s)))"

section \<open>After the write\<close>

definition move_payload :: "UpdateBoardTaskRequest \<Rightarrow> TaskColumn \<Rightarrow> TaskColumn \<Rightarrow> payload" where
  "move_payload req prev target =
     [(''from_column'', prev), (''to_column'', target)] @
     (case (req_Actor req, req_ActorAgentID req) of
        (TaskActorAgent, Some agent) \<Rightarrow> [(''actor_agent_id'', uuid_String agent)] | _ \<Rightarrow> []) @
     (case req_Actor req of
        TaskActorAgent \<Rightarrow> [(''actor'', ''agent'')]
      | TaskActorHuman \<Rightarrow> [(''actor'', ''human'')]
      | TaskActorSystem \<Rightarrow>
          (''actor'', ''system'') #
          (if req_SystemReason req \<noteq> '''' then [(''system_reason'', req_SystemReason req)] else []))"

definition stage_deploy_due :: "Workflow \<Rightarrow> TaskColumn \<Rightarrow> string \<Rightarrow> bool" where
  "stage_deploy_due w target strategy \<longleftrightarrow>
     wf_Has w target BehaviourStageDeployOnEnter \<and>
     (case wf_Param w target BehaviourStageDeployOnEnter ''when'' of
        None \<Rightarrow> False
      | Some when \<Rightarrow>
          if when = ''qa'' then DeploysForQA strategy
          else if when = ''per_step'' then DeploysOnCodeReview strategy else False)"

definition run_opt :: "('s \<Rightarrow> 's) option \<Rightarrow> bool \<Rightarrow> 's \<Rightarrow> 's" where
  "run_opt hook due s = (case hook of None \<Rightarrow> s | Some f \<Rightarrow> if due then f s else s)"

definition stage_deploy ::
  "('s, 'm) task_ports_scheme \<Rightarrow> uuid \<Rightarrow> BoardTask \<Rightarrow> 's \<Rightarrow> 's" where
  "stage_deploy p repositoryID task s =
     (case mobileStoreGate p s repositoryID DeployEnvStage of
        Some err \<Rightarrow>
          (case pp_comment (tk_parts p) of
             None \<Rightarrow> s
           | Some comment \<Rightarrow> comment (bt_ID task) ''system'' '''' ''Stage deploy blocked'' s)
      | None \<Rightarrow> hk_pipelineStageDeploy (tk_hooks p) repositoryID task s)"

text \<open>The enter-stage behaviours of the target column, skipped when the workflow cannot be read.\<close>

definition enter_stage ::
  "('s, 'm) task_ports_scheme \<Rightarrow> uuid \<Rightarrow> BoardTask \<Rightarrow> TaskColumn \<Rightarrow> 's \<Rightarrow> 's" where
  "enter_stage p repositoryID task target s =
     (case svc_workflow (tk_gates p) s (bt_TaskType task) of
        Inl err \<Rightarrow> s
      | Inr w \<Rightarrow>
          (let h = tk_hooks p; has = wf_Has w target;
               s = (if has BehaviourEnsurePROnEnter \<and> PublishesBranch (bt_TaskType task)
                    then hk_ensurePullRequest h task s else s);
               s = run_opt (map_option (\<lambda>f. f repositoryID task) (hk_pipelineTrigger h))
                     (has BehaviourWaitForCI) s;
               s = (if has BehaviourDetectMigrationOnEnter then hk_detectMigration h task s else s);
               s = run_opt (map_option (\<lambda>f. f (bt_ID task)) (hk_approveDesign h))
                     (has BehaviourApproveDesignSystem) s;
               s = run_opt (map_option (\<lambda>f. f repositoryID (bt_ID task)) (hk_storeTestBuild h))
                     (has BehaviourStoreTestBuildOnEnter) s
           in if hk_pipelineTrigger h \<noteq> None \<and>
                 stage_deploy_due w target (testStrategy p s repositoryID)
              then stage_deploy p repositoryID task s else s))"

definition after_move ::
  "('s, 'm) task_ports_scheme \<Rightarrow> Repository \<Rightarrow> uuid \<Rightarrow> UpdateBoardTaskRequest \<Rightarrow> TaskColumn \<Rightarrow>
   TaskColumn \<Rightarrow> BoardTask \<Rightarrow> 's \<Rightarrow> 's" where
  "after_move p repo repositoryID req prev target updated s =
     (let h = tk_hooks p;
          s = (if target = TaskColumnNeedRevision \<and> req_Actor req = TaskActorHuman
               then OnHumanRejection (tk_reviewGate p) updated prev s else s);
          s = emit p repo updated ''task.moved'' (move_payload req prev target) s;
          s = run_opt (map_option (\<lambda>f. f (bt_ID updated)) (hk_WakeDependentsOf h))
                (target = TaskColumnDone \<or> target = TaskColumnReleased) s;
          s = run_opt (map_option (\<lambda>f. f updated prev target) (hk_scorer h)) True s;
          s = run_opt (map_option (\<lambda>f. f updated prev target) (hk_completion h)) True s;
          s = run_opt (map_option (\<lambda>f. f updated) (hk_NotifyRevision h))
                (target = TaskColumnNeedRevision) s;
          s = (if prev = TaskColumnAnalizReview \<and> target = TaskColumnDone
               then hk_markQuestionsSubmitted h (bt_RepositoryID updated) (bt_ID updated) s else s)
      in enter_stage p repositoryID updated target s)"

definition assign_payload :: "UpdateBoardTaskRequest \<Rightarrow> uuid option \<Rightarrow> BoardTask \<Rightarrow> payload" where
  "assign_payload req prevAssignee updated =
     (case prevAssignee of None \<Rightarrow> [] | Some a \<Rightarrow> [(''from_agent_id'', uuid_String a)]) @
     (case bt_AssigneeAgentID updated of None \<Rightarrow> [] | Some a \<Rightarrow> [(''to_agent_id'', uuid_String a)]) @
     (case (req_Actor req, req_ActorAgentID req) of
        (TaskActorAgent, Some agent) \<Rightarrow> [(''actor_agent_id'', uuid_String agent)] | _ \<Rightarrow> [])"

definition set_order ::
  "('s, 'm) task_ports_scheme \<Rightarrow> UpdateBoardTaskRequest \<Rightarrow> BoardTask \<Rightarrow> 's \<Rightarrow> (go_error + BoardTask) \<times> 's" where
  "set_order p req updated s =
     (let o_p = tk_order p;
          (r, s) = (case req_DeployDependsOn req of
                      None \<Rightarrow> (None, s)
                    | Some deps \<Rightarrow>
                        (case ReplaceDeployDependencies o_p (bt_ID updated) deps s of
                           (Inl err, s) \<Rightarrow> (Some err, s) | (Inr _, s) \<Rightarrow> (None, s)))
      in case r of
           Some err \<Rightarrow> (Inl err, s)
         | None \<Rightarrow>
             (let (r, s) = (if req_BlockedBy req = [] then (None, s)
                            else case SetBlockers o_p (bt_ID updated) (req_BlockedBy req) s of
                                (Inl err, s) \<Rightarrow> (Some err, s) | (Inr _, s) \<Rightarrow> (None, s))
              in case r of
                   Some err \<Rightarrow> (Inl err, s)
                 | None \<Rightarrow>
                     if req_DeployDependsOn req \<noteq> None \<or> req_BlockedBy req \<noteq> []
                     then (case syncOrderNote o_p updated s of (t, s) \<Rightarrow> (Inr t, s))
                     else (Inr updated, s)))"

definition component_hook ::
  "('s, 'm) task_ports_scheme \<Rightarrow> uuid \<Rightarrow> UpdateBoardTaskRequest \<Rightarrow> uuid option \<Rightarrow> BoardTask \<Rightarrow> 's \<Rightarrow> 's" where
  "component_hook p repositoryID req prevComponent updated s =
     (case (hk_componentAssigned (tk_hooks p), nul_Value (req_ComponentID req)) of
        (Some hook, Some c) \<Rightarrow>
          if nul_Present (req_ComponentID req) \<and> prevComponent \<noteq> Some c \<and>
             bt_Column updated = TaskColumnDone \<and> TrimSpace (bt_MergeCommitSHA updated) \<noteq> ''''
          then hook repositoryID c s else s
      | _ \<Rightarrow> s)"

definition commit_edit ::
  "('s, 'm) task_ports_scheme \<Rightarrow> uuid \<Rightarrow> Repository \<Rightarrow> UpdateBoardTaskRequest \<Rightarrow> BoardTask \<Rightarrow>
   TaskColumn option \<Rightarrow> BoardTask \<Rightarrow> 's \<Rightarrow> (go_error + BoardTask) \<times> 's" where
  "commit_edit p repositoryID repo req before column task s =
     (case op_Update (tk_order p) task s of
        (Inl err, s) \<Rightarrow> (Inl err, s)
      | (Inr updated, s) \<Rightarrow>
          (let prev = bt_Column before; prevAssignee = bt_AssigneeAgentID before;
               s = (case column of
                      None \<Rightarrow> s
                    | Some target \<Rightarrow>
                        if target = prev then s else after_move p repo repositoryID req prev target updated s);
               s = (if nul_Present (req_AssigneeAgentID req) \<and>
                       prevAssignee \<noteq> nul_Value (req_AssigneeAgentID req)
                    then emit p repo updated ''task.assigned'' (assign_payload req prevAssignee updated) s
                    else s)
           in case set_order p req updated s of
                (Inl err, s) \<Rightarrow> (Inl err, s)
              | (Inr updated, s) \<Rightarrow>
                  (let s = component_hook p repositoryID req (bt_ComponentID before) updated s
                   in (enrichTask p s updated, s))))"

definition UpdateTask ::
  "('s, 'm) task_ports_scheme \<Rightarrow> uuid \<Rightarrow> uuid \<Rightarrow> UpdateBoardTaskRequest \<Rightarrow> 's \<Rightarrow>
   (go_error + BoardTask) \<times> 's" where
  "UpdateTask p repositoryID taskID req s =
     (case wp_getRepo (tk_repos p) s repositoryID of
        Inl err \<Rightarrow> (Inl err, s)
      | Inr repo \<Rightarrow>
          (case op_Get (tk_order p) s repositoryID taskID of
             Inl err \<Rightarrow> (Inl err, s)
           | Inr task \<Rightarrow>
               (case edit_plan p repositoryID repo req task s of
                  (Refuse err, s) \<Rightarrow> (Inl err, s)
                | (Hold held, s) \<Rightarrow> (Inr held, s)
                | (Write planned column, s) \<Rightarrow>
                    commit_edit p repositoryID repo req task column planned s)))"

definition MoveReasonMergeReleasedNoDeployTarget :: string where
  [col_defs]: "MoveReasonMergeReleasedNoDeployTarget = ''merge_released_no_deploy_target''"

definition AutoReleaseIfUndeployable ::
  "('s, 'm) task_ports_scheme \<Rightarrow> uuid \<Rightarrow> uuid \<Rightarrow> 's \<Rightarrow> bool \<times> 's" where
  "AutoReleaseIfUndeployable p repositoryID taskID s =
     (case hasAnyDeployTarget p s repositoryID of
        Inl err \<Rightarrow> (False, s)
      | Inr True \<Rightarrow> (False, s)
      | Inr False \<Rightarrow>
          (case UpdateTask p repositoryID taskID
                  (empty_UpdateBoardTaskRequest\<lparr>req_Column := Some TaskColumnReleased,
                    req_SystemReason := MoveReasonMergeReleasedNoDeployTarget\<rparr>) s of
             (Inl err, s') \<Rightarrow> (False, s')
           | (Inr _, s') \<Rightarrow> (True, s')))"

section \<open>What is written\<close>

lemma Decide_target:
  assumes "Decide q task from to actor agent s = (Inr d, s')" and "\<not> qd_Hold d"
  shows "qd_Target d = to \<or> qd_Target d = TaskColumnNeedRevision"
  using assms
  by (auto simp: Decide_def weigh_def Let_def split: option.splits if_splits sum.splits prod.splits)

text \<open>
  An edit that comes to a write is the request laid over the task, in the column asked for or, on a
  rejection by the quorum, in need_revision.
\<close>

lemma quorum_written:
  assumes "quorum_step p req prev u s = (Write t col, s')"
  shows "t = u \<and> col = req_Column req \<or>
    t = u\<lparr>bt_Column := TaskColumnNeedRevision\<rparr> \<and> col = Some TaskColumnNeedRevision \<and>
    (\<exists>target. req_Column req = Some target \<and> target \<noteq> prev)"
proof (cases "req_Column req")
  case None
  then show ?thesis using assms by (simp add: quorum_step_def)
next
  case (Some target)
  show ?thesis
  proof (cases "tk_reviewQuorum p = None \<or> target = prev")
    case True
    then show ?thesis using assms Some by (auto simp: quorum_step_def split: option.splits)
  next
    case False
    then obtain q where q: "tk_reviewQuorum p = Some q" by auto
    obtain r s1 where d: "Decide (Some q) u prev target (req_Actor req) (req_ActorAgentID req) s = (r, s1)"
      by fastforce
    show ?thesis
    proof (cases r)
      case (Inl err)
      then show ?thesis using assms Some q d False by (simp add: quorum_step_def)
    next
      case (Inr dec)
      have "\<not> qd_Hold dec" using assms Some q d False Inr by (auto simp: quorum_step_def)
      then have "qd_Target dec = target \<or> qd_Target dec = TaskColumnNeedRevision"
        using Decide_target d Inr by metis
      then show ?thesis
        using assms Some q d False Inr \<open>\<not> qd_Hold dec\<close>
        by (auto simp: quorum_step_def split: if_splits option.splits)
    qed
  qed
qed

lemma human_written:
  assumes "human_step p repo req prev r = (Write t col, s')"
  shows "\<exists>s1. r = (Write t col, s1)"
  using assms
  by (auto simp: human_step_def split: prod.splits edit_outcome.splits option.splits if_splits bool.splits)

lemma stamp_written:
  assumes "stamp_step p prev r = (Write t col, s')"
  shows "\<exists>u s1. r = (Write u col, s1) \<and>
    (if col = None \<or> col = Some prev then t = u
     else t = u\<lparr>bt_VerifiedSHA := verifiedSHAForMove p s' u prev (the col)\<rparr>)"
  using assms
  by (auto simp: stamp_step_def Let_def split: prod.splits edit_outcome.splits option.splits if_splits)

lemma plan_written:
  assumes "edit_plan p repositoryID repo req task s = (Write t col, s')"
  obtains u v where "lay_over p s repositoryID req task = Inr u"
    and "v = u \<and> col = req_Column req \<or>
      v = u\<lparr>bt_Column := TaskColumnNeedRevision\<rparr> \<and> col = Some TaskColumnNeedRevision \<and>
      (\<exists>target. req_Column req = Some target \<and> target \<noteq> bt_Column task)"
    and "if col = None \<or> col = Some (bt_Column task) then t = v
      else t = v\<lparr>bt_VerifiedSHA := verifiedSHAForMove p s' v (bt_Column task) (the col)\<rparr>"
proof -
  obtain u where u: "lay_over p s repositoryID req task = Inr u"
    using assms by (auto simp: edit_plan_def split: sum.splits)
  let ?q = "quorum_step p req (bt_Column task) u s"
  have plan: "stamp_step p (bt_Column task) (human_step p repo req (bt_Column task) ?q) = (Write t col, s')"
    using assms u by (simp add: edit_plan_def)
  obtain v s1 where v: "human_step p repo req (bt_Column task) ?q = (Write v col, s1)"
    "if col = None \<or> col = Some (bt_Column task) then t = v
     else t = v\<lparr>bt_VerifiedSHA := verifiedSHAForMove p s' v (bt_Column task) (the col)\<rparr>"
    using stamp_written [OF plan] by blast
  obtain s2 where "?q = (Write v col, s2)" using human_written [OF v(1)] by blast
  from that [OF u quorum_written [OF this] v(2)] show thesis .
qed

lemma set_opt_simps [simp]:
  "set_opt f None x = x" "set_opt f (Some v) x = f v x"
  by (simp_all add: set_opt_def)

lemma set_opt_keeps: "(\<And>v x. g (f v x) = g x) \<Longrightarrow> g (set_opt f o_v x) = g x"
  by (cases o_v) simp_all

lemma edit_texts_keeps [simp]:
  "bt_ID (edit_texts req t) = bt_ID t" "bt_TaskType (edit_texts req t) = bt_TaskType t"
  "bt_Column (edit_texts req t) = bt_Column t"
  "bt_AssigneeAgentID (edit_texts req t) = bt_AssigneeAgentID t"
  by (simp_all add: edit_texts_def edit_before_deploy_def set_opt_keeps)

lemma edit_position_keeps [simp]:
  "bt_ID (edit_position req t) = bt_ID t" "bt_TaskType (edit_position req t) = bt_TaskType t"
  "bt_Column (edit_position req t) = bt_Column t"
  "bt_AssigneeAgentID (edit_position req t) = bt_AssigneeAgentID t"
  "bt_BeforeDeploy (edit_position req t) = bt_BeforeDeploy t"
  "bt_BeforeDeployConfirmedAt (edit_position req t) = bt_BeforeDeployConfirmedAt t"
  by (simp_all add: edit_position_def set_opt_keeps)

lemma edit_type_keeps:
  assumes "edit_type p s req task = Inr t"
  shows "t = task\<lparr>bt_TaskType := bt_TaskType t\<rparr>"
  using assms by (auto simp: edit_type_def split: option.splits sum.splits if_splits)

lemma edit_priority_keeps:
  assumes "edit_priority req task = Inr t"
  shows "t = task\<lparr>bt_Priority := bt_Priority t\<rparr>"
  using assms by (auto simp: edit_priority_def split: option.splits if_splits)

lemma edit_column_keeps:
  assumes "edit_column p s req prev task = Inr t"
  shows "t = task\<lparr>bt_Column := bt_Column t\<rparr>"
  using assms by (auto simp: edit_column_def split: option.splits)

lemma edit_assignee_keeps:
  assumes "edit_assignee p s req prevAssignee task = Inr t"
  shows "t = task\<lparr>bt_AssigneeAgentID := bt_AssigneeAgentID t\<rparr>"
  using assms by (auto simp: edit_assignee_def Let_def split: option.splits if_splits)

lemma edit_assignee_vets:
  assumes "edit_assignee p s req prevAssignee task = Inr t" and "bt_AssigneeAgentID task = prevAssignee"
    and "bt_AssigneeAgentID t \<noteq> prevAssignee"
  shows "requireAssignable p s (bt_AssigneeAgentID t) = None"
  using assms
  by (auto simp: edit_assignee_def requireAssignable_def Let_def split: if_splits option.splits)

lemma edit_component_keeps:
  assumes "edit_component p s repositoryID req task = Inr t"
  shows "t = task\<lparr>bt_ComponentID := bt_ComponentID t\<rparr>"
  using assms by (auto simp: edit_component_def split: option.splits if_splits)

text \<open>The steps of the laying over, each by the task it leaves.\<close>

lemma lay_over_steps:
  assumes "lay_over p s repositoryID req task = Inr u"
  obtains t1 t2 t3 t4 where
    "edit_type p s req (set_opt (\<lambda>v t. t\<lparr>bt_Title := v\<rparr>) (req_Title req) task) = Inr t1"
    "edit_priority req (edit_texts req t1) = Inr t2"
    "edit_column p s req (bt_Column task) t2 = Inr t3"
    "edit_assignee p s req (bt_AssigneeAgentID task) (edit_position req t3) = Inr t4"
    "edit_component p s repositoryID req t4 = Inr u"
  using assms unfolding lay_over_def and_then_Inr by blast

lemma lay_over_fields:
  assumes "lay_over p s repositoryID req task = Inr u"
  shows "bt_ID u = bt_ID task"
    and "bt_Column u = (case req_Column req of None \<Rightarrow> bt_Column task | Some c \<Rightarrow> c)"
    and "\<And>target. req_Column req = Some target \<Longrightarrow>
      \<exists>t. bt_ID t = bt_ID task \<and> bt_TaskType t = bt_TaskType u \<and>
        bt_AssigneeAgentID t = bt_AssigneeAgentID task \<and>
        (\<forall>c \<in> set (move_gates p s req t (bt_Column task) target). c = None)"
    and "bt_AssigneeAgentID u \<noteq> bt_AssigneeAgentID task \<Longrightarrow>
      requireAssignable p s (bt_AssigneeAgentID u) = None"
    and "bt_BeforeDeploy u = (case req_BeforeDeploy req of None \<Rightarrow> bt_BeforeDeploy task | Some b \<Rightarrow> Some b)"
    and "bt_BeforeDeployConfirmedAt u =
      (if bt_BeforeDeploy u = bt_BeforeDeploy task then bt_BeforeDeployConfirmedAt task else None)"
proof -
  let ?t0 = "set_opt (\<lambda>v t. t\<lparr>bt_Title := v\<rparr>) (req_Title req) task"
  obtain t1 t2 t3 t4 where
    e1: "edit_type p s req ?t0 = Inr t1" and e2: "edit_priority req (edit_texts req t1) = Inr t2" and
    e3: "edit_column p s req (bt_Column task) t2 = Inr t3" and
    e4: "edit_assignee p s req (bt_AssigneeAgentID task) (edit_position req t3) = Inr t4" and
    e5: "edit_component p s repositoryID req t4 = Inr u"
    by (rule lay_over_steps [OF assms])
  have t0: "bt_ID ?t0 = bt_ID task" "bt_Column ?t0 = bt_Column task"
    "bt_AssigneeAgentID ?t0 = bt_AssigneeAgentID task" "bt_BeforeDeploy ?t0 = bt_BeforeDeploy task"
    "bt_BeforeDeployConfirmedAt ?t0 = bt_BeforeDeployConfirmedAt task"
    by (simp_all add: set_opt_keeps)
  obtain ty pr co a cm where
    t1: "t1 = ?t0\<lparr>bt_TaskType := ty\<rparr>" and t2: "t2 = edit_texts req t1\<lparr>bt_Priority := pr\<rparr>" and
    t3: "t3 = t2\<lparr>bt_Column := co\<rparr>" and t4: "t4 = edit_position req t3\<lparr>bt_AssigneeAgentID := a\<rparr>" and
    u: "u = t4\<lparr>bt_ComponentID := cm\<rparr>"
    using edit_type_keeps [OF e1] edit_priority_keeps [OF e2] edit_column_keeps [OF e3]
      edit_assignee_keeps [OF e4] edit_component_keeps [OF e5] by metis
  have t2f: "bt_ID t2 = bt_ID task" "bt_AssigneeAgentID t2 = bt_AssigneeAgentID task"
    "bt_Column t2 = bt_Column task"
    using t0 by (simp_all add: t2 t1)
  show "bt_ID u = bt_ID task" using t2f by (simp add: u t4 t3)
  have "bt_Column t3 = (case req_Column req of None \<Rightarrow> bt_Column task | Some c \<Rightarrow> c)"
    using e3 t2f(3) by (auto simp: edit_column_def split: option.splits)
  then show "bt_Column u = (case req_Column req of None \<Rightarrow> bt_Column task | Some c \<Rightarrow> c)"
    by (simp add: u t4)
  show "\<exists>t. bt_ID t = bt_ID task \<and> bt_TaskType t = bt_TaskType u \<and>
      bt_AssigneeAgentID t = bt_AssigneeAgentID task \<and>
      (\<forall>c \<in> set (move_gates p s req t (bt_Column task) target). c = None)"
    if "req_Column req = Some target" for target
    using e3 that t2f
    by (intro exI [of _ t2]) (auto simp: edit_column_def u t4 t3 first_error_None split: option.splits)
  show "requireAssignable p s (bt_AssigneeAgentID u) = None"
    if "bt_AssigneeAgentID u \<noteq> bt_AssigneeAgentID task"
  proof -
    have "bt_AssigneeAgentID (edit_position req t3) = bt_AssigneeAgentID task"
      using t2f(2) by (simp add: t3)
    moreover have "bt_AssigneeAgentID u = bt_AssigneeAgentID t4" by (simp add: u)
    ultimately show ?thesis using edit_assignee_vets [OF e4] that by simp
  qed
  have texts: "bt_BeforeDeploy (edit_texts req t) =
      (case req_BeforeDeploy req of None \<Rightarrow> bt_BeforeDeploy t | Some b \<Rightarrow> Some b)"
    "bt_BeforeDeployConfirmedAt (edit_texts req t) =
      (case req_BeforeDeploy req of None \<Rightarrow> bt_BeforeDeployConfirmedAt t
       | Some b \<Rightarrow> if bt_BeforeDeploy t = Some b then bt_BeforeDeployConfirmedAt t else None)" for t
    by (cases "req_BeforeDeploy req"; simp add: edit_texts_def edit_before_deploy_def set_opt_keeps)+
  show "bt_BeforeDeploy u = (case req_BeforeDeploy req of None \<Rightarrow> bt_BeforeDeploy task | Some b \<Rightarrow> Some b)"
    by (simp add: u t4 t3 t2 texts t1 t0 split: option.splits)
  then show "bt_BeforeDeployConfirmedAt u =
      (if bt_BeforeDeploy u = bt_BeforeDeploy task then bt_BeforeDeployConfirmedAt task else None)"
    by (auto simp: u t4 t3 t2 texts t1 t0 split: option.splits)
qed

lemma plan_fields:
  assumes "edit_plan p repositoryID repo req task s = (Write t col, s')"
  obtains u where "lay_over p s repositoryID req task = Inr u"
    and "bt_ID t = bt_ID u" and "bt_TaskType t = bt_TaskType u"
    and "bt_AssigneeAgentID t = bt_AssigneeAgentID u" and "bt_BeforeDeploy t = bt_BeforeDeploy u"
    and "bt_BeforeDeployConfirmedAt t = bt_BeforeDeployConfirmedAt u"
    and "col = req_Column req \<and> bt_Column t = bt_Column u \<or>
      col = Some TaskColumnNeedRevision \<and> bt_Column t = TaskColumnNeedRevision \<and> req_Column req \<noteq> None"
    and "col \<noteq> None \<Longrightarrow> col \<noteq> Some (bt_Column task) \<Longrightarrow>
      \<exists>v. bt_ID v = bt_ID u \<and> bt_VerifiedSHA t = verifiedSHAForMove p s' v (bt_Column task) (the col)"
proof -
  obtain u v where u: "lay_over p s repositoryID req task = Inr u" and
    v: "v = u \<and> col = req_Column req \<or>
      v = u\<lparr>bt_Column := TaskColumnNeedRevision\<rparr> \<and> col = Some TaskColumnNeedRevision \<and>
      (\<exists>target. req_Column req = Some target \<and> target \<noteq> bt_Column task)" and
    t: "if col = None \<or> col = Some (bt_Column task) then t = v
      else t = v\<lparr>bt_VerifiedSHA := verifiedSHAForMove p s' v (bt_Column task) (the col)\<rparr>"
    by (rule plan_written [OF assms])
  have same: "bt_ID v = bt_ID u" "bt_TaskType v = bt_TaskType u"
    "bt_AssigneeAgentID v = bt_AssigneeAgentID u" "bt_BeforeDeploy v = bt_BeforeDeploy u"
    "bt_BeforeDeployConfirmedAt v = bt_BeforeDeployConfirmedAt u"
    "col = req_Column req \<and> bt_Column v = bt_Column u \<or>
      col = Some TaskColumnNeedRevision \<and> bt_Column v = TaskColumnNeedRevision \<and> req_Column req \<noteq> None"
    using v by auto
  have tv: "bt_ID t = bt_ID v" "bt_TaskType t = bt_TaskType v"
    "bt_AssigneeAgentID t = bt_AssigneeAgentID v" "bt_BeforeDeploy t = bt_BeforeDeploy v"
    "bt_BeforeDeployConfirmedAt t = bt_BeforeDeployConfirmedAt v" "bt_Column t = bt_Column v"
    using t by (simp_all split: if_splits)
  show thesis
  proof (rule that [OF u])
    show "\<exists>v. bt_ID v = bt_ID u \<and> bt_VerifiedSHA t = verifiedSHAForMove p s' v (bt_Column task) (the col)"
      if "col \<noteq> None" "col \<noteq> Some (bt_Column task)"
      using t that same(1) by (intro exI [of _ v]) simp
  qed (use same tv in simp_all)
qed

section \<open>Properties\<close>

text \<open>
  C1: Work that is done or released has been reviewed. Whoever asks, an edit that writes a task into
  done or released, other than shipping a task that is already done, finds a review chain with
  every stage that exists on the board visited and none rejected on its latest visit; a missing span
  store, an unreadable history or an unreadable workflow refuses the move instead.
\<close>
theorem done_means_reviewed:
  assumes "edit_plan p repositoryID repo req task s = (Write t (Some target), s')"
    and "target = TaskColumnDone \<or> target = TaskColumnReleased"
    and "\<not> (target = TaskColumnReleased \<and> bt_Column task = TaskColumnDone)"
  shows "bt_Column t = target \<and>
    (\<exists>w. svc_workflow (tk_gates p) s (bt_TaskType t) = Inr w \<and>
      (ReviewChain w \<noteq> [] \<longrightarrow>
        (\<exists>latest verdicts. gp_latestVerdicts (tk_gates p) = Some latest \<and>
          latest s (bt_ID task) = Inr verdicts \<and>
          (\<forall>st \<in> set (ReviewChain w). boardHasColumn (tk_gates p) s (rs_Column st) \<longrightarrow>
            chain_passed verdicts (rs_Column st)))))"
proof -
  let ?prev = "bt_Column task"
  from assms(1) obtain u where u: "lay_over p s repositoryID req task = Inr u"
    and t: "bt_TaskType t = bt_TaskType u"
    and col: "Some target = req_Column req \<and> bt_Column t = bt_Column u \<or> target = TaskColumnNeedRevision"
    by (rule plan_fields) auto
  have "target \<noteq> TaskColumnNeedRevision" using assms(2) by (auto simp: col_defs)
  then have req: "req_Column req = Some target" "bt_Column t = target"
    using col lay_over_fields(2) [OF u] by (auto split: option.splits)
  obtain v where v: "bt_ID v = bt_ID task" "bt_TaskType v = bt_TaskType u"
    "\<forall>c \<in> set (move_gates p s req v ?prev target). c = None"
    using lay_over_fields(3) [OF u req(1)] by blast
  have "reviewChainGate (tk_gates p) s v ?prev target = None"
    using v(3) by (simp add: move_gates_def Let_def)
  then show ?thesis
    using assms(2,3) v(1,2) t req(2) unfolding reviewChainGate_None by auto
qed

text \<open>
  C6: An agent cannot walk a card past a review. When the column a card is in is one whose verdict
  sweep has an exit, an agent's move that is written in the column it asked for passes over no review
  stage that exists on the board.
\<close>
theorem agent_skips_no_review:
  assumes "edit_plan p repositoryID repo req task s = (Write t (Some target), s')"
    and "req_Column req = Some target" and "target \<noteq> bt_Column task"
    and "req_Actor req = TaskActorAgent"
    and "svc_workflow (tk_gates p) s (bt_TaskType t) = Inr w"
    and "wf_Param w (bt_Column task) BehaviourReviewVerdictSweep ''pass_to'' = Some exit" and "exit \<noteq> ''''"
  shows "list_all (\<lambda>st. \<not> boardHasColumn (tk_gates p) s (rs_Column st))
    (ReviewStagesBetween w (bt_Column task) target)"
proof -
  obtain u where u: "lay_over p s repositoryID req task = Inr u" and t: "bt_TaskType t = bt_TaskType u"
    by (rule plan_fields [OF assms(1)])
  obtain v where v: "bt_TaskType v = bt_TaskType u"
    "\<forall>c \<in> set (move_gates p s req v (bt_Column task) target). c = None"
    using lay_over_fields(3) [OF u assms(2)] by blast
  have "reviewStageSkipGate (tk_gates p) s v (bt_Column task) target (req_Actor req) = None"
    using v(2) by (simp add: move_gates_def Let_def)
  then show ?thesis
    using assms(3-) v(1) t unfolding reviewStageSkipGate_None list_all_iff by auto
qed

text \<open>
  C26: An agent cannot send its own work back. With the repository and the task readable, a request by
  the agent the task is assigned to, to move it from another column into need_revision or todo, is
  refused with an error whatever else it asks for and whatever the ports of the board answer, and every
  store is as it was.
\<close>
theorem own_work_not_sent_back:
  assumes "wp_getRepo (tk_repos p) s repositoryID = Inr repo"
    and "op_Get (tk_order p) s repositoryID taskID = Inr task"
    and "req_Column req = Some target" and "target = TaskColumnNeedRevision \<or> target = TaskColumnTodo"
    and "target \<noteq> bt_Column task" and "req_Actor req = TaskActorAgent"
    and "req_ActorAgentID req = Some agent" and "bt_AssigneeAgentID task = Some agent"
  shows "\<exists>err. UpdateTask p repositoryID taskID req s = (Inl err, s)"
proof (cases "lay_over p s repositoryID req task")
  case (Inl err)
  then show ?thesis using assms(1,2) by (simp add: UpdateTask_def edit_plan_def)
next
  case (Inr u)
  obtain v where v: "bt_AssigneeAgentID v = bt_AssigneeAgentID task"
    "\<forall>c \<in> set (move_gates p s req v (bt_Column task) target). c = None"
    using lay_over_fields(3) [OF Inr assms(3)] by blast
  have "validateAgentSelfMove v req (bt_Column task) = None"
    using v(2) by (simp add: move_gates_def Let_def)
  then show ?thesis using assms(3-) v(1) unfolding validateAgentSelfMove_None by auto
qed

lemma quorum_keeps_target:
  assumes "quorum_step p req prev u s = (Write v (Some target), s1)" and "target \<noteq> TaskColumnNeedRevision"
  shows "v = u \<and> req_Column req = Some target"
  using quorum_written [OF assms(1)] assms(2) by auto

lemma human_intercepts:
  assumes "repo_RequireHumanReview repo" and "tk_reviewGate p = Some g" and "rg_SetReviewVerdict g = Some setVerdict"
    and "req_Actor req = TaskActorAgent"
    and "target \<noteq> TaskColumnCodeReview" and "target \<noteq> TaskColumnNeedRevision"
  shows "human_step p repo req TaskColumnCodeReview (Write u (Some target), s) =
    (Hold (u\<lparr>bt_Column := TaskColumnCodeReview\<rparr>),
     setVerdict (bt_ID u) TaskColumnCodeReview ReviewVerdictApprove s)"
  using assms(1-4) assms(5,6) [unfolded col_defs]
  by (simp add: human_step_def InterceptAgentMove_def holdsForHumanApproval_def Let_def col_defs)

text \<open>
  C4: Where a repository requires human review and the review gate with its verdict store is wired, an
  agent's move out of code_review goes nowhere but to need_revision. No edit it asks for is written
  in another column, and when the request passes its checks and the quorum (if one is wired) lets it
  through, \<open>UpdateTask\<close> records the agent's approval of the code_review visit, answers with the card
  in code_review, and changes nothing else: no row, no event.
\<close>
theorem human_review_holds:
  assumes "wp_getRepo (tk_repos p) s repositoryID = Inr repo" and "repo_RequireHumanReview repo"
    and "tk_reviewGate p = Some g" and "rg_SetReviewVerdict g = Some setVerdict"
    and "op_Get (tk_order p) s repositoryID taskID = Inr task" and "bt_Column task = TaskColumnCodeReview"
    and "req_Actor req = TaskActorAgent"
    and "target \<noteq> TaskColumnCodeReview" and "target \<noteq> TaskColumnNeedRevision"
  shows "(\<forall>t. fst (edit_plan p repositoryID repo req task s) \<noteq> Write t (Some target)) \<and>
    (\<forall>u s1. lay_over p s repositoryID req task = Inr u \<and>
        quorum_step p req TaskColumnCodeReview u s = (Write u (Some target), s1) \<longrightarrow>
      UpdateTask p repositoryID taskID req s =
        (Inr (u\<lparr>bt_Column := TaskColumnCodeReview\<rparr>),
         setVerdict (bt_ID task) TaskColumnCodeReview ReviewVerdictApprove s1))"
proof (intro conjI allI impI notI)
  fix t assume "fst (edit_plan p repositoryID repo req task s) = Write t (Some target)"
  then obtain s' where plan: "edit_plan p repositoryID repo req task s = (Write t (Some target), s')"
    by (metis prod.collapse)
  obtain u where "lay_over p s repositoryID req task = Inr u"
    by (rule plan_fields [OF plan])
  with plan have "stamp_step p TaskColumnCodeReview (human_step p repo req TaskColumnCodeReview
      (quorum_step p req TaskColumnCodeReview u s)) = (Write t (Some target), s')"
    using assms(6) by (simp add: edit_plan_def)
  from stamp_written [OF this] obtain v s1 where h: "human_step p repo req TaskColumnCodeReview
      (quorum_step p req TaskColumnCodeReview u s) = (Write v (Some target), s1)"
    by (elim exE conjE)
  from human_written [OF h] obtain s2 where
    "quorum_step p req TaskColumnCodeReview u s = (Write v (Some target), s2)" by blast
  with h show False
    using human_intercepts [OF assms(2-4,7-9)] by simp
next
  fix u s1 assume "lay_over p s repositoryID req task = Inr u \<and>
    quorum_step p req TaskColumnCodeReview u s = (Write u (Some target), s1)"
  then show "UpdateTask p repositoryID taskID req s =
      (Inr (u\<lparr>bt_Column := TaskColumnCodeReview\<rparr>),
       setVerdict (bt_ID task) TaskColumnCodeReview ReviewVerdictApprove s1)"
    using assms lay_over_fields(1) [of p s repositoryID req task u]
    by (simp add: UpdateTask_def edit_plan_def human_intercepts stamp_step_def)
qed

text \<open>
  No edit hands a task to a product manager. Where roles are known, the assignee written is the
  one the task had or an agent that does not hold the role; a role that cannot be read refuses the
  edit.
\<close>
theorem product_manager_never_assigned:
  assumes "edit_plan p repositoryID repo req task s = (Write t col, s')"
    and "tk_AgentHoldsRole p = Some holds"
    and "bt_AssigneeAgentID t = Some agent" and "bt_AssigneeAgentID task \<noteq> Some agent"
  shows "holds s agent RoleKeyProductManager = Inr False"
proof -
  obtain u where u: "lay_over p s repositoryID req task = Inr u"
    and t: "bt_AssigneeAgentID t = bt_AssigneeAgentID u"
    by (rule plan_fields [OF assms(1)])
  have "requireAssignable p s (Some agent) = None"
    using lay_over_fields(4) [OF u] assms(3,4) t by simp
  then show ?thesis
    using assms(2) by (auto simp: requireAssignable_def isProductManager_def split: sum.splits if_splits)
qed

text \<open>
  A confirmation covers the steps that were confirmed. The confirmation of the steps before a
  deploy is kept by an edit exactly when it leaves their text as it was; any change to it makes the
  release wait again.
\<close>
theorem edited_steps_wait_again:
  assumes "edit_plan p repositoryID repo req task s = (Write t col, s')"
  shows "bt_BeforeDeployConfirmedAt t =
      (if bt_BeforeDeploy t = bt_BeforeDeploy task then bt_BeforeDeployConfirmedAt task else None)"
proof -
  obtain u where u: "lay_over p s repositoryID req task = Inr u"
    and t: "bt_BeforeDeploy t = bt_BeforeDeploy u"
      "bt_BeforeDeployConfirmedAt t = bt_BeforeDeployConfirmedAt u"
    by (rule plan_fields [OF assms(1)])
  show ?thesis using lay_over_fields(6) [OF u] t by simp
qed

text \<open>
  C24: The verified commit belongs to the visit to done. A move into done stamps the commit at the head
  of the working copy, or nothing when it cannot be read; a move from done to anything but released
  clears the stamp, so that work reopened after its verification is never released on the old commit.
\<close>
theorem verified_commit_of_the_visit:
  assumes "edit_plan p repositoryID repo req task s = (Write t (Some target), s')"
    and "target \<noteq> bt_Column task"
  shows "(target = TaskColumnDone \<longrightarrow>
      bt_VerifiedSHA t = (case resolveReleaseTargetSHA p s' (bt_ID task) of Inl err \<Rightarrow> '''' | Inr sha \<Rightarrow> sha)) \<and>
    (bt_Column task = TaskColumnDone \<and> target \<noteq> TaskColumnReleased \<longrightarrow> bt_VerifiedSHA t = '''')"
proof -
  obtain u where u: "lay_over p s repositoryID req task = Inr u"
    and sha: "\<exists>v. bt_ID v = bt_ID u \<and> bt_VerifiedSHA t = verifiedSHAForMove p s' v (bt_Column task) target"
    using assms(1,2) plan_fields [OF assms(1)] by (metis option.distinct(1) option.inject option.sel)
  then show ?thesis using assms(2) lay_over_fields(1) [OF u] by (auto simp: verifiedSHAForMove_def)
qed

section \<open>A small board\<close>

text \<open>
  One task of one type over any state, with a review chain of two stages; every optional port the
  examples do not need is absent.
\<close>

definition small_stage :: "TaskColumn \<Rightarrow> int \<Rightarrow> StageKind \<Rightarrow> BehaviourRef list \<Rightarrow> WorkflowStage" where
  "small_stage col pos kind bs =
     \<lparr>ws_ID = word_of_int pos, ws_TaskType = TaskTypeTask, ws_Column = col, ws_Position = pos,
      ws_OnPath = True, ws_Kind = kind, ws_Behaviours = bs, ws_Instructions = '''', ws_Participants = []\<rparr>"

definition review_behaviours :: "string \<Rightarrow> TaskColumn \<Rightarrow> BehaviourRef list" where
  "review_behaviours label exit =
     [\<lparr>br_Key = BehaviourReviewChainStage, br_Params = [(''label'', label)]\<rparr>,
      \<lparr>br_Key = BehaviourReviewVerdictSweep, br_Params = [(''pass_to'', exit)]\<rparr>]"

definition small_workflow :: Workflow where
  "small_workflow =
     \<lparr>wf_Type = \<lparr>td_Key = TaskTypeTask, td_Label = ''Task'', td_KeyPrefix = ''T'', td_Position = 0,
        td_IsDefault = True, td_IsDefect = False, td_AssigneeRoleID = None,
        td_AssigneeMode = AssigneeModeNone, td_Behaviours = [], td_BuiltIn = True, td_TaskCount = 0\<rparr>,
      wf_Stages =
        [small_stage TaskColumnTodo 0 StageKindQueue [],
         small_stage TaskColumnCodeReview 1 StageKindReview (review_behaviours ''code'' TaskColumnInQA),
         small_stage TaskColumnInQA 2 StageKindReview
           (review_behaviours ''qa'' TaskColumnDone @
            [\<lparr>br_Key = BehaviourCriterionVerdict, br_Params = [(''channel'', ''qa'')]\<rparr>,
             \<lparr>br_Key = BehaviourRequireTestCases, br_Params = []\<rparr>]),
         small_stage TaskColumnDone 3 StageKindTerminal
           [\<lparr>br_Key = BehaviourForwardExit, br_Params = []\<rparr>],
         small_stage TaskColumnNeedRevision 4 StageKindRework []]\<rparr>"

definition small_repo :: Repository where
  "small_repo =
     \<lparr>repo_ID = 3, repo_Kind = RepoKindBackend, repo_SubProjectKinds = [], repo_RequireHumanReview = True,
      repo_TestStrategy = TestStrategyLocal\<rparr>"

definition small_hooks :: "'s hook_ports" where
  "small_hooks =
     \<lparr>hk_dispatch = None, hk_TaskCreated = None, hk_WakeDependentsOf = None, hk_SweepSoon = id,
      hk_removeWorkspace = None, hk_scorer = None, hk_completion = None, hk_NotifyRevision = None,
      hk_markQuestionsSubmitted = (\<lambda>_ _ s. s), hk_ensurePullRequest = (\<lambda>_ s. s),
      hk_pipelineTrigger = None, hk_pipelineStageDeploy = (\<lambda>_ _ s. s), hk_detectMigration = (\<lambda>_ s. s),
      hk_approveDesign = None, hk_storeTestBuild = None, hk_componentAssigned = None\<rparr>"

definition small_parts :: "'s part_ports" where
  "small_parts =
     \<lparr>pp_replaceCriteria = (\<lambda>_ _ s. (Inr [], s)), pp_GetCriterion = (\<lambda>_ _. Inl ErrCriterionNotFound),
      pp_UpdateCompleted = (\<lambda>_ _ s. (Inl ErrCriterionNotFound, s)),
      pp_UpdateCanceled = (\<lambda>_ _ _ s. (Inl ErrCriterionNotFound, s)),
      pp_UpsertCheck = (\<lambda>c s. (Inr c, s)), pp_listDocuments = None,
      pp_createDocument = (\<lambda>d s. (Inr d, s)), pp_listAttachments = None, pp_comment = None\<rparr>"

definition small_gates :: "(string \<times> string) list \<Rightarrow> 's gate_ports" where
  "small_gates verdicts =
     \<lparr>gp_requireCriteria = True, gp_workflows = Some (\<lambda>_ _. Inr small_workflow), gp_criteria = None,
      gp_testCases = None, gp_blockingSources = None, gp_columns = None,
      gp_latestVerdicts = Some (\<lambda>_ _. Inr verdicts)\<rparr>"

definition small_order :: "BoardTask \<Rightarrow> 's order_ports" where
  "small_order task =
     \<lparr>op_relations = None, op_Get = (\<lambda>_ _ _. Inr task), op_GetByID = (\<lambda>_ _. Inr task),
      op_LookupByKey = (\<lambda>_ _ _. Inr task), op_Update = (\<lambda>t s. (Inr t, s)),
      op_renderOrderNote = (\<lambda>_ _. '''')\<rparr>"

definition small_board :: "BoardTask \<Rightarrow> (string \<times> string) list \<Rightarrow> 's task_ports" where
  "small_board task verdicts =
     \<lparr>tk_gates = small_gates verdicts, tk_order = small_order task, tk_ListByRepository = (\<lambda>_ _. Inr [task]),
      tk_NextTaskNumber = (\<lambda>_ s. (Inr 2, s)), tk_Create = (\<lambda>t s. (Inr (t\<lparr>bt_ID := 2\<rparr>), s)),
      tk_ClaimAssignee = (\<lambda>_ _ a s. (Inr (task\<lparr>bt_AssigneeAgentID := Some a\<rparr>), s)),
      tk_Delete = (\<lambda>_ _ s. (None, s)), tk_ConfirmBeforeDeploy = (\<lambda>_ _ s. (Inr task, s)),
      tk_DefaultTaskType = (\<lambda>_. Inr TaskTypeTask), tk_TaskTypeExists = (\<lambda>_ t. Inr (t = TaskTypeTask)),
      tk_AssigneeForNewTask = None, tk_AgentHoldsRole = Some (\<lambda>_ agent _. Inr (agent = 9)),
      tk_reviewQuorum = None,
      tk_reviewGate = Some \<lparr>rg_SetReviewVerdict = Some (\<lambda>_ _ _ s. s), rg_OpenSpan = (\<lambda>_ _. Inr None),
        rg_ApplyReviewEscape = None, rg_quorum = None\<rparr>,
      tk_hooks = small_hooks, tk_parts = small_parts,
      tk_repos = \<lparr>wp_getRepo = (\<lambda>_ _. Inr small_repo), wp_GetComponent = None, wp_hasGit = (\<lambda>_ _. True),
        wp_headSHA = Some (\<lambda>_ _. Inr ''c0ffee''), wp_patchID = None, wp_setReviewPatchID = None,
        wp_deployProvider = None, wp_deployTargets = (\<lambda>_ _. Inr []), wp_mobileAppState = None\<rparr>\<rparr>"

definition small_task :: "TaskColumn \<Rightarrow> BoardTask" where
  "small_task col =
     zero_BoardTask\<lparr>bt_ID := 1, bt_RepositoryID := 3, bt_TaskType := TaskTypeTask, bt_Column := col,
       bt_AssigneeAgentID := Some 5, bt_BeforeDeploy := Some ''drain'',
       bt_BeforeDeployConfirmedAt := Some 4\<rparr>"

definition move_request :: "TaskActor \<Rightarrow> TaskColumn \<Rightarrow> UpdateBoardTaskRequest" where
  "move_request actor col =
     empty_UpdateBoardTaskRequest\<lparr>req_Column := Some col, req_Actor := actor, req_ActorAgentID := Some 5\<rparr>"

lemma qa_to_done:
  "edit_plan (small_board (small_task TaskColumnInQA)
       [(TaskColumnCodeReview, ReviewVerdictApprove), (TaskColumnInQA, ReviewVerdictApprove)])
     3 small_repo (move_request TaskActorAgent TaskColumnDone) (small_task TaskColumnInQA) () =
   (Write (small_task TaskColumnInQA\<lparr>bt_Column := TaskColumnDone, bt_VerifiedSHA := ''c0ffee''\<rparr>)
      (Some TaskColumnDone), ())"
  by code_simp

lemma done_to_revision:
  "edit_plan (small_board (small_task TaskColumnDone\<lparr>bt_VerifiedSHA := ''0ld''\<rparr>) []) 3 small_repo
     (move_request TaskActorHuman TaskColumnNeedRevision)
     (small_task TaskColumnDone\<lparr>bt_VerifiedSHA := ''0ld''\<rparr>) () =
   (Write (small_task TaskColumnNeedRevision) (Some TaskColumnNeedRevision), ())"
  by code_simp

lemma reassigned:
  "edit_plan (small_board (small_task TaskColumnTodo) []) 3 small_repo
     (empty_UpdateBoardTaskRequest\<lparr>req_AssigneeAgentID := SetNullable 6, req_BeforeDeploy := Some ''rotate''\<rparr>)
     (small_task TaskColumnTodo) () =
   (Write (small_task TaskColumnTodo\<lparr>bt_AssigneeAgentID := Some 6, bt_BeforeDeploy := Some ''rotate'',
      bt_BeforeDeployConfirmedAt := None\<rparr>) None, ())"
  by code_simp

lemma done_means_reviewed_witness:
  "\<exists>w. svc_workflow (small_gates [(TaskColumnCodeReview, ReviewVerdictApprove),
       (TaskColumnInQA, ReviewVerdictApprove)]) () TaskTypeTask = Inr w"
  using done_means_reviewed [OF qa_to_done]
  by (auto simp: small_board_def small_task_def col_defs)

lemma agent_skips_no_review_witness:
  "list_all (\<lambda>st. \<not> boardHasColumn (small_gates []) () (rs_Column st))
     (ReviewStagesBetween small_workflow TaskColumnInQA TaskColumnDone)"
proof -
  have "svc_workflow (tk_gates (small_board t vs)) () taskType = Inr small_workflow" for t vs taskType
    by (simp add: small_board_def svc_workflow_def small_gates_def)
  moreover have "wf_Param small_workflow TaskColumnInQA BehaviourReviewVerdictSweep ''pass_to'' =
      Some TaskColumnDone"
    by code_simp
  ultimately show ?thesis
    using agent_skips_no_review [OF qa_to_done]
    by (simp add: move_request_def small_task_def small_board_def small_gates_def boardHasColumn_def col_defs)
qed

lemma own_work_not_sent_back_witness:
  "\<exists>err. UpdateTask (small_board (small_task TaskColumnInQA) []) 3 1
     (move_request TaskActorAgent TaskColumnTodo) () = (Inl err, ())"
  by (rule own_work_not_sent_back [where agent = 5 and target = TaskColumnTodo and repo = small_repo
        and task = "small_task TaskColumnInQA"])
    (simp_all add: small_board_def small_order_def small_task_def move_request_def col_defs)

text \<open>A board whose verdict store is the list of verdicts recorded so far.\<close>

definition recording_board :: "BoardTask \<Rightarrow> (uuid \<times> TaskColumn \<times> string) list task_ports" where
  "recording_board task =
     (small_board task [])\<lparr>tk_reviewGate :=
       Some \<lparr>rg_SetReviewVerdict = Some (\<lambda>t c v s. (t, c, v) # s), rg_OpenSpan = (\<lambda>_ _. Inr None),
         rg_ApplyReviewEscape = None, rg_quorum = None\<rparr>\<rparr>"

lemma approval_laid_over:
  "lay_over (recording_board (small_task TaskColumnCodeReview)) [] 3 (move_request TaskActorAgent TaskColumnInQA)
     (small_task TaskColumnCodeReview) = Inr (small_task TaskColumnInQA)"
  by code_simp

lemma human_review_holds_witness:
  "UpdateTask (recording_board (small_task TaskColumnCodeReview)) 3 1
     (move_request TaskActorAgent TaskColumnInQA) [] =
   (Inr (small_task TaskColumnCodeReview), [(1, TaskColumnCodeReview, ReviewVerdictApprove)])"
  using human_review_holds [of "recording_board (small_task TaskColumnCodeReview)" "[]" 3 small_repo _ _ 1
      "small_task TaskColumnCodeReview" "move_request TaskActorAgent TaskColumnInQA" TaskColumnInQA]
    approval_laid_over
  by (simp add: recording_board_def small_board_def small_order_def small_repo_def quorum_step_def
      small_task_def move_request_def col_defs)

lemma product_manager_never_assigned_witness:
  "(\<lambda>_ agent _. Inr (agent = 9)) () (6 :: uuid) RoleKeyProductManager = (Inr False :: go_error + bool)"
  using product_manager_never_assigned [OF reassigned, of _ 6]
  by (simp add: small_board_def small_task_def)

lemma edited_steps_wait_again_witness:
  "bt_BeforeDeployConfirmedAt (small_task TaskColumnTodo\<lparr>bt_AssigneeAgentID := Some 6,
     bt_BeforeDeploy := Some ''rotate'', bt_BeforeDeployConfirmedAt := None\<rparr>) = None"
  using edited_steps_wait_again [OF reassigned] by (simp add: small_task_def)

lemma verified_commit_of_the_visit_witness:
  "bt_VerifiedSHA (small_task TaskColumnNeedRevision) = ''''"
  using verified_commit_of_the_visit [OF done_to_revision] by (simp add: small_task_def col_defs)

end
