(* ===== verification/Task_Service.thy ===== *)
theory Task_Service
  imports Task_Edit
begin

text \<open>
  The other task operations of \<open>server/internal/application/repository/service.go\<close>: creation,
  claiming, deletion, the confirmation of the steps before a deploy, and the operations on acceptance
  criteria. They share the ports, the small board and the helpers of \<open>Task_Ports\<close> and
  \<open>Task_Edit\<close>.
\<close>

section \<open>Creation\<close>

fun next_position :: "TaskColumn \<Rightarrow> BoardTask list \<Rightarrow> int \<Rightarrow> int" where
  "next_position col [] position = position"
| "next_position col (t # ts) position =
     (if bt_Column t = col \<and> position \<le> bt_Position t then next_position col ts (bt_Position t + 1)
      else next_position col ts position)"

definition new_task ::
  "uuid \<Rightarrow> CreateBoardTaskRequest \<Rightarrow> TaskType \<Rightarrow> TaskPriority \<Rightarrow> TaskColumn \<Rightarrow> string \<Rightarrow> int \<Rightarrow> int \<Rightarrow>
   uuid option \<Rightarrow> BoardTask" where
  "new_task repositoryID req taskType priority col createdBy position taskNumber assignee =
     zero_BoardTask\<lparr>bt_RepositoryID := repositoryID, bt_TaskNumber := taskNumber,
       bt_Title := TrimSpace (creq_Title req), bt_ComponentID := creq_ComponentID req,
       bt_TaskType := taskType, bt_Description := creq_Description req,
       bt_TechnicalDescription := creq_TechnicalDescription req,
       bt_InitiativeProjectID := creq_InitiativeProjectID req, bt_Column := col,
       bt_Position := position, bt_Priority := priority, bt_CreatedBy := createdBy,
       bt_AssigneeAgentID := assignee, bt_BeforeDeploy := creq_BeforeDeploy req,
       bt_AfterDeploy := creq_AfterDeploy req, bt_RollbackPlan := creq_RollbackPlan req\<rparr>"

text \<open>Everything the request must satisfy before a number is drawn.\<close>

definition create_checks ::
  "('s, 'm) task_ports_scheme \<Rightarrow> 's \<Rightarrow> CreateBoardTaskRequest \<Rightarrow>
   go_error + (TaskType \<times> TaskPriority \<times> TaskColumn)" where
  "create_checks p s req =
     and_then (resolveTaskType p s (creq_TaskType req)) (\<lambda>taskType.
       let priority = (if creq_Priority req = '''' then TaskPriorityMedium else creq_Priority req);
           col = (if creq_Column req = '''' then TaskColumnBacklog else creq_Column req)
       in if \<not> ValidTaskPriority priority then Inl (ErrText ''invalid priority'' [priority])
          else case first_error [validateColumn (tk_gates p) s col,
                  validateStageConfigured (tk_gates p) s taskType col,
                  validateMoveAllowed (tk_gates p) s uuid_Nil taskType col] of
              Some err \<Rightarrow> Inl err
            | None \<Rightarrow> Inr (taskType, priority, col))"

definition create_assignee ::
  "('s, 'm) task_ports_scheme \<Rightarrow> 's \<Rightarrow> CreateBoardTaskRequest \<Rightarrow> TaskType \<Rightarrow> Repository \<Rightarrow>
   go_error + uuid option" where
  "create_assignee p s req taskType repo =
     and_then (requestedAssignee p s req) (\<lambda>requested.
       resolveNewTaskAssignee p s taskType repo requested)"

fun guard_new_deps ::
  "('s, 'm) order_ports_scheme \<Rightarrow> 's \<Rightarrow> uuid \<Rightarrow> TaskRelationInput list \<Rightarrow> go_error option" where
  "guard_new_deps o_p s taskID [] = None"
| "guard_new_deps o_p s taskID (rel # rels) =
     (if rin_RelationType rel \<noteq> TaskRelationDeployDependsOn then guard_new_deps o_p s taskID rels
      else case guardDeployOrderCycle o_p s taskID (rin_TargetTaskID rel) of
          Some err \<Rightarrow> Some err
        | None \<Rightarrow> guard_new_deps o_p s taskID rels)"

definition create_criteria ::
  "('s, 'm) task_ports_scheme \<Rightarrow> CreateBoardTaskRequest \<Rightarrow> BoardTask \<Rightarrow> 's \<Rightarrow> (go_error + BoardTask) \<times> 's" where
  "create_criteria p req task s =
     (if gp_criteria (tk_gates p) = None \<or> creq_AcceptanceCriteria req = [] then (Inr task, s)
      else case pp_replaceCriteria (tk_parts p) (bt_ID task) (creq_AcceptanceCriteria req) s of
          (Inl err, s) \<Rightarrow> (Inl err, s)
        | (Inr criteria, s) \<Rightarrow> (Inr (task\<lparr>bt_AcceptanceCriteria := criteria\<rparr>), s))"

definition create_relations ::
  "('s, 'm) task_ports_scheme \<Rightarrow> CreateBoardTaskRequest \<Rightarrow> BoardTask \<Rightarrow> 's \<Rightarrow> (go_error + BoardTask) \<times> 's" where
  "create_relations p req task s =
     (case op_relations (tk_order p) of
        None \<Rightarrow> (Inr task, s)
      | Some store \<Rightarrow>
          if creq_Relations req = [] then (Inr task, s)
          else case resolveRelations (tk_order p) s (creq_Relations req) of
              Inl err \<Rightarrow> (Inl err, s)
            | Inr resolved \<Rightarrow>
                (case guard_new_deps (tk_order p) s (bt_ID task) resolved of
                   Some err \<Rightarrow> (Inl err, s)
                 | None \<Rightarrow>
                     (case rs_ReplaceForTask store (bt_ID task) resolved s of
                        (Inl err, s) \<Rightarrow> (Inl err, s)
                      | (Inr rels, s) \<Rightarrow> (Inr (task\<lparr>bt_Relations := rels\<rparr>), s))))"

definition create_blockers ::
  "('s, 'm) task_ports_scheme \<Rightarrow> CreateBoardTaskRequest \<Rightarrow> BoardTask \<Rightarrow> 's \<Rightarrow> (go_error + BoardTask) \<times> 's" where
  "create_blockers p req task s =
     (if op_relations (tk_order p) = None \<or> creq_BlockedBy req = [] then (Inr task, s)
      else case SetBlockers (tk_order p) (bt_ID task) (creq_BlockedBy req) s of
          (Inl err, s) \<Rightarrow> (Inl err, s)
        | (Inr blockers, s) \<Rightarrow> (Inr (task\<lparr>bt_BlockedBy := blockers\<rparr>), s))"

definition create_note ::
  "('s, 'm) task_ports_scheme \<Rightarrow> CreateBoardTaskRequest \<Rightarrow> BoardTask \<Rightarrow> 's \<Rightarrow> (go_error + BoardTask) \<times> 's" where
  "create_note p req task s =
     (if creq_Relations req \<noteq> [] \<or> creq_BlockedBy req \<noteq> []
      then (case syncOrderNote (tk_order p) task s of (t, s) \<Rightarrow> (Inr t, s))
      else (Inr task, s))"

text \<open>\<open>Format\<close> stays unset: the source does not copy it.\<close>

definition new_document :: "uuid \<Rightarrow> string \<Rightarrow> nat \<Rightarrow> CreateTaskDocumentRequest \<Rightarrow> TaskDocument" where
  "new_document taskID createdBy i d =
     \<lparr>doc_ID = uuid_Nil, doc_TaskID = taskID, doc_Title = TrimSpace (dreq_Title d),
      doc_Content = dreq_Content d, doc_Format = '''',
      doc_Position = (if dreq_Position d = 0 then int i else dreq_Position d),
      doc_CreatedByType =
        (if dreq_CreatedByType d = '''' then (if createdBy \<noteq> ''agent'' then ''user'' else createdBy)
         else dreq_CreatedByType d),
      doc_CreatedByID = dreq_CreatedByID d, doc_CreatedAt = 0, doc_UpdatedAt = 0\<rparr>"

fun create_documents ::
  "('s, 'm) task_ports_scheme \<Rightarrow> string \<Rightarrow> nat \<Rightarrow> CreateTaskDocumentRequest list \<Rightarrow> BoardTask \<Rightarrow> 's \<Rightarrow>
   (go_error + BoardTask) \<times> 's" where
  "create_documents p createdBy i [] task s = (Inr task, s)"
| "create_documents p createdBy i (d # ds) task s =
     (case pp_createDocument (tk_parts p) (new_document (bt_ID task) createdBy i d) s of
        (Inl err, s) \<Rightarrow> (Inl err, s)
      | (Inr doc, s) \<Rightarrow>
          create_documents p createdBy (Suc i) ds
            (task\<lparr>bt_Documents := bt_Documents task @ [doc]\<rparr>) s)"

text \<open>The writes after the row, each stopping the creation with its error.\<close>

definition then_step ::
  "(go_error + BoardTask) \<times> 's \<Rightarrow> (BoardTask \<Rightarrow> 's \<Rightarrow> (go_error + BoardTask) \<times> 's) \<Rightarrow>
   (go_error + BoardTask) \<times> 's" where
  "then_step r k = (case r of (Inl err, s) \<Rightarrow> (Inl err, s) | (Inr task, s) \<Rightarrow> k task s)"

definition create_parts ::
  "('s, 'm) task_ports_scheme \<Rightarrow> CreateBoardTaskRequest \<Rightarrow> string \<Rightarrow> BoardTask \<Rightarrow> 's \<Rightarrow>
   (go_error + BoardTask) \<times> 's" where
  "create_parts p req createdBy task s =
     then_step (then_step (then_step (then_step
       (create_criteria p req task s)
       (create_relations p req))
       (create_blockers p req))
       (create_note p req))
       (\<lambda>task s. if pp_listDocuments (tk_parts p) = None then (Inr task, s)
                 else create_documents p createdBy 0 (creq_Documents req) task s)"

definition created_payload :: "BoardTask \<Rightarrow> payload" where
  "created_payload task =
     [(''column'', bt_Column task), (''task_type'', bt_TaskType task), (''priority'', bt_Priority task)] @
     (case bt_AssigneeAgentID task of None \<Rightarrow> [] | Some a \<Rightarrow> [(''assignee_agent_id'', uuid_String a)])"

text \<open>The task the store is asked to create, or the error, and the state after the number was drawn.\<close>

definition create_plan ::
  "('s, 'm) task_ports_scheme \<Rightarrow> uuid \<Rightarrow> Repository \<Rightarrow> CreateBoardTaskRequest \<Rightarrow> 's \<Rightarrow>
   (go_error + BoardTask) \<times> 's" where
  "create_plan p repositoryID repo req s =
     (case create_checks p s req of
        Inl err \<Rightarrow> (Inl err, s)
      | Inr (taskType, priority, col) \<Rightarrow>
          (case tk_ListByRepository p s repositoryID of
             Inl err \<Rightarrow> (Inl err, s)
           | Inr tasks \<Rightarrow>
               (case tk_NextTaskNumber p taskType s of
                  (Inl err, s) \<Rightarrow> (Inl err, s)
                | (Inr taskNumber, s) \<Rightarrow>
                    (case create_assignee p s req taskType repo of
                       Inl err \<Rightarrow> (Inl err, s)
                     | Inr assignee \<Rightarrow>
                         (case (case creq_ComponentID req of None \<Rightarrow> None
                                | Some c \<Rightarrow> validateTaskComponent p s repositoryID c) of
                            Some err \<Rightarrow> (Inl err, s)
                          | None \<Rightarrow>
                              (Inr (new_task repositoryID req taskType priority col
                                 (if creq_CreatedBy req = '''' then ''user'' else creq_CreatedBy req)
                                 (next_position col tasks 0) taskNumber assignee), s))))))"

definition CreateTask ::
  "('s, 'm) task_ports_scheme \<Rightarrow> uuid \<Rightarrow> CreateBoardTaskRequest \<Rightarrow> 's \<Rightarrow> (go_error + BoardTask) \<times> 's" where
  "CreateTask p repositoryID req s =
     (case wp_getRepo (tk_repos p) s repositoryID of
        Inl err \<Rightarrow> (Inl err, s)
      | Inr repo \<Rightarrow>
          (case then_step (create_plan p repositoryID repo req s) (tk_Create p) of
             (Inl err, s) \<Rightarrow> (Inl err, s)
           | (Inr task, s) \<Rightarrow>
               (case create_parts p req
                      (if creq_CreatedBy req = '''' then ''user'' else creq_CreatedBy req) task s of
                  (Inl err, s) \<Rightarrow> (Inl err, s)
                | (Inr task, s) \<Rightarrow>
                    (let s = emit p repo task ''task.created'' (created_payload task) s;
                         s = (case hk_TaskCreated (tk_hooks p) of None \<Rightarrow> s | Some observe \<Rightarrow> observe task s)
                     in (Inr task, s)))))"

section \<open>Claiming, deleting, confirming\<close>

definition ClaimTask ::
  "('s, 'm) task_ports_scheme \<Rightarrow> uuid \<Rightarrow> uuid \<Rightarrow> uuid \<Rightarrow> 's \<Rightarrow> (go_error + BoardTask) \<times> 's" where
  "ClaimTask p repositoryID taskID agentID s =
     (case wp_getRepo (tk_repos p) s repositoryID of
        Inl err \<Rightarrow> (Inl err, s)
      | Inr _ \<Rightarrow>
          (case requireAssignable p s (Some agentID) of
             Some err \<Rightarrow> (Inl err, s)
           | None \<Rightarrow>
               (case tk_ClaimAssignee p repositoryID taskID agentID s of
                  (Inl err, s) \<Rightarrow> (Inl err, s)
                | (Inr task, s) \<Rightarrow> (enrichTask p s task, s))))"

definition DeleteTask ::
  "('s, 'm) task_ports_scheme \<Rightarrow> uuid \<Rightarrow> uuid \<Rightarrow> 's \<Rightarrow> go_error option \<times> 's" where
  "DeleteTask p repositoryID taskID s =
     (case tk_Delete p repositoryID taskID s of
        (Some err, s) \<Rightarrow> (Some err, s)
      | (None, s) \<Rightarrow>
          (let s = hk_SweepSoon (tk_hooks p) s
           in (None, case hk_removeWorkspace (tk_hooks p) of None \<Rightarrow> s | Some remove \<Rightarrow> remove taskID s)))"

definition ConfirmBeforeDeploy ::
  "('s, 'm) task_ports_scheme \<Rightarrow> uuid \<Rightarrow> uuid \<Rightarrow> 's \<Rightarrow> (go_error + BoardTask) \<times> 's" where
  "ConfirmBeforeDeploy p repositoryID taskID s =
     (case tk_ConfirmBeforeDeploy p repositoryID taskID s of
        (Inl err, s) \<Rightarrow> (Inl err, s)
      | (Inr task, s) \<Rightarrow> (enrichTask p s task, s))"

section \<open>Acceptance criteria\<close>

definition ReplaceAcceptanceCriteria ::
  "('s, 'm) task_ports_scheme \<Rightarrow> uuid \<Rightarrow> uuid \<Rightarrow> AcceptanceCriterionInput list \<Rightarrow> 's \<Rightarrow>
   (go_error + AcceptanceCriterion list) \<times> 's" where
  "ReplaceAcceptanceCriteria p repositoryID taskID items s =
     (case op_Get (tk_order p) s repositoryID taskID of
        Inl err \<Rightarrow> (Inl err, s)
      | Inr _ \<Rightarrow>
          if gp_criteria (tk_gates p) = None
          then (Inl (ErrText ''acceptance criteria not enabled'' []), s)
          else pp_replaceCriteria (tk_parts p) taskID items s)"

definition UpdateCriterionCompleted ::
  "('s, 'm) task_ports_scheme \<Rightarrow> uuid \<Rightarrow> uuid \<Rightarrow> uuid \<Rightarrow> bool \<Rightarrow> 's \<Rightarrow>
   (go_error + AcceptanceCriterion) \<times> 's" where
  "UpdateCriterionCompleted p repositoryID taskID criterionID completed s =
     (case op_Get (tk_order p) s repositoryID taskID of
        Inl err \<Rightarrow> (Inl err, s)
      | Inr _ \<Rightarrow>
          if gp_criteria (tk_gates p) = None
          then (Inl (ErrText ''acceptance criteria not enabled'' []), s)
          else pp_UpdateCompleted (tk_parts p) criterionID completed s)"

definition SetTaskCriterionCanceled ::
  "('s, 'm) task_ports_scheme \<Rightarrow> uuid \<Rightarrow> bool \<Rightarrow> string \<Rightarrow> string \<Rightarrow> string \<Rightarrow> 's \<Rightarrow>
   (go_error + AcceptanceCriterion) \<times> 's" where
  "SetTaskCriterionCanceled p criterionID canceled reason0 authorType authorID s =
     (if gp_criteria (tk_gates p) = None then (Inl (ErrText ''criteria store unavailable'' []), s)
      else let reason = TrimSpace reason0 in
        if canceled \<and> reason = '''' then (Inl (ErrText ''criterion.cancel_reason_required'' []), s)
        else case pp_UpdateCanceled (tk_parts p) criterionID canceled reason s of
            (Inl err, s) \<Rightarrow> (Inl err, s)
          | (Inr item, s) \<Rightarrow>
              (Inr item,
               case pp_comment (tk_parts p) of
                 None \<Rightarrow> s
               | Some comment \<Rightarrow>
                   comment (crit_TaskID item) (if authorType = '''' then ''agent'' else authorType) authorID
                     (if canceled then rendered ''Acceptance criterion cancelled'' [crit_Text item, reason]
                      else rendered ''Acceptance criterion put back in scope'' [crit_Text item]) s))"

text \<open>The verdict is stamped with what was looked at, the commit and the diff of the working copy.\<close>

definition criterion_check ::
  "('s, 'm) task_ports_scheme \<Rightarrow> 's \<Rightarrow> BoardTask \<Rightarrow> uuid \<Rightarrow> CriterionReviewRole \<Rightarrow> uuid \<Rightarrow> bool \<Rightarrow> string \<Rightarrow>
   CriterionCheck" where
  "criterion_check p s task criterionID role agentID approved note =
     \<lparr>chk_ID = uuid_Nil, chk_CriterionID = criterionID, chk_Role = role,
      chk_AgentID = (if agentID \<noteq> uuid_Nil then Some agentID else None), chk_Approved = approved,
      chk_Note = note, chk_CheckedAt = 0, chk_VerifiedSHA = currentTaskSHA p s (bt_ID task),
      chk_VerifiedPatchID = currentTaskPatchID p s (bt_ID task)\<rparr>"

definition ReviewTaskCriterion ::
  "('s, 'm) task_ports_scheme \<Rightarrow> uuid \<Rightarrow> uuid \<Rightarrow> bool \<Rightarrow> string \<Rightarrow> 's \<Rightarrow> (go_error + CriterionCheck) \<times> 's" where
  "ReviewTaskCriterion p criterionID agentID approved note0 s =
     (if gp_criteria (tk_gates p) = None then (Inl (ErrText ''criteria store unavailable'' []), s)
      else let note = TrimSpace note0 in
        if \<not> approved \<and> note = '''' then (Inl (ErrText ''criterion.reject_note_required'' []), s)
        else case pp_GetCriterion (tk_parts p) s criterionID of
            Inl err \<Rightarrow> (Inl (ErrWrap ''criterion not found'' err), s)
          | Inr criterion \<Rightarrow>
              (case FindTaskRepositoryID (tk_order p) s (crit_TaskID criterion) of
                 Inl err \<Rightarrow> (Inl err, s)
               | Inr repositoryID \<Rightarrow>
                   (case op_Get (tk_order p) s repositoryID (crit_TaskID criterion) of
                      Inl err \<Rightarrow> (Inl err, s)
                    | Inr task \<Rightarrow>
                        (case svc_workflow (tk_gates p) s (bt_TaskType task) of
                           Inl err \<Rightarrow> (Inl (ErrWrap (rendered ''workflow unavailable for task'' [bt_Key task]) err), s)
                         | Inr w \<Rightarrow>
                             (case verdict_role w (bt_Column task) of
                                None \<Rightarrow> (Inl (ErrText ''criterion.verdict_wrong_column''
                                           [bt_Key task, bt_Column task]), s)
                              | Some role \<Rightarrow>
                                  pp_UpsertCheck (tk_parts p)
                                    (criterion_check p s task criterionID role agentID approved note) s)))))"

section \<open>Properties\<close>

lemma next_position_last:
  "position \<le> next_position col ts position \<and>
   (\<forall>t \<in> set ts. bt_Column t = col \<longrightarrow> bt_Position t < next_position col ts position)"
proof (induction ts arbitrary: position)
  case (Cons t ts)
  show ?case
  proof (cases "bt_Column t = col \<and> position \<le> bt_Position t")
    case True
    then show ?thesis using Cons.IH [of "bt_Position t + 1"] by auto
  next
    case False
    then show ?thesis using Cons.IH [of position] by auto
  qed
qed simp

lemma next_position_tight:
  "next_position col ts position = position \<or>
   (\<exists>t \<in> set ts. bt_Column t = col \<and> next_position col ts position = bt_Position t + 1)"
proof (induction ts arbitrary: position)
  case (Cons t ts)
  show ?case
  proof (cases "bt_Column t = col \<and> position \<le> bt_Position t")
    case True
    then show ?thesis using Cons.IH [of "bt_Position t + 1"] by auto
  next
    case False
    then show ?thesis using Cons.IH [of position] by auto
  qed
qed simp

lemma create_plan_steps:
  assumes "create_plan p repositoryID repo req s = (Inr t, s')"
  obtains taskType priority col tasks number assignee where
    "create_checks p s req = Inr (taskType, priority, col)"
    and "tk_ListByRepository p s repositoryID = Inr tasks"
    and "tk_NextTaskNumber p taskType s = (Inr number, s')"
    and "create_assignee p s' req taskType repo = Inr assignee"
    and "t = new_task repositoryID req taskType priority col
      (if creq_CreatedBy req = '''' then ''user'' else creq_CreatedBy req)
      (next_position col tasks 0) number assignee"
  using assms
  by (auto simp: create_plan_def split: sum.splits prod.splits option.splits)

lemma new_task_fields [simp]:
  "bt_TaskType (new_task r req ty pr col who pos n a) = ty"
  "bt_Column (new_task r req ty pr col who pos n a) = col"
  "bt_Priority (new_task r req ty pr col who pos n a) = pr"
  "bt_Position (new_task r req ty pr col who pos n a) = pos"
  "bt_TaskNumber (new_task r req ty pr col who pos n a) = n"
  "bt_AssigneeAgentID (new_task r req ty pr col who pos n a) = a"
  by (simp_all add: new_task_def)

text \<open>
  A created task starts where its type may be. The task handed to the store has a known priority,
  stands in a column the board has, on a stage of its type's workflow when that has stages, and is the
  last of its column: behind every task already there, and directly behind one of them unless the
  column is empty of non-negative positions.
\<close>
theorem created_task_placed:
  assumes "create_plan p repositoryID repo req s = (Inr t, s')"
    and "tk_ListByRepository p s repositoryID = Inr tasks"
  shows "ValidTaskPriority (bt_Priority t) \<and> validateColumn (tk_gates p) s (bt_Column t) = None \<and>
    validateStageConfigured (tk_gates p) s (bt_TaskType t) (bt_Column t) = None \<and>
    list_all (\<lambda>x. bt_Column x = bt_Column t \<longrightarrow> bt_Position x < bt_Position t) tasks \<and>
    (bt_Position t = 0 \<or>
      (\<exists>x \<in> set tasks. bt_Column x = bt_Column t \<and> bt_Position t = bt_Position x + 1))"
proof -
  obtain taskType priority col number assignee where
    checks: "create_checks p s req = Inr (taskType, priority, col)" and
    t: "t = new_task repositoryID req taskType priority col
      (if creq_CreatedBy req = '''' then ''user'' else creq_CreatedBy req)
      (next_position col tasks 0) number assignee"
    by (rule create_plan_steps [OF assms(1)]) (use assms(2) in simp)
  have "ValidTaskPriority priority \<and> validateColumn (tk_gates p) s col = None \<and>
      validateStageConfigured (tk_gates p) s taskType col = None"
    using checks by (auto simp: create_checks_def Let_def first_error_None split: if_splits option.splits)
  then show ?thesis
    using next_position_last [of 0 col tasks] next_position_tight [of col tasks 0]
    by (simp add: t list_all_iff)
qed

text \<open>
  Nobody's creation hands a task to a product manager: neither the requester's choice, nor the one
  the type's roles resolve to; a purpose that names one leaves the task unassigned.
\<close>
theorem created_task_not_product_managers:
  assumes "create_plan p repositoryID repo req s = (Inr t, s')"
    and "tk_AgentHoldsRole p = Some holds" and "bt_AssigneeAgentID t = Some agent"
  shows "holds s' agent RoleKeyProductManager = Inr False"
proof -
  obtain taskType where "create_assignee p s' req taskType repo = Inr (Some agent)"
    by (rule create_plan_steps [OF assms(1)]) (use assms(3) in simp)
  then obtain requested where r: "requestedAssignee p s' req = Inr requested"
    "resolveNewTaskAssignee p s' taskType repo requested = Inr (Some agent)"
    by (auto simp: create_assignee_def)
  have vetted: "requireAssignable p s' requested = None"
    using r(1) by (auto simp: requestedAssignee_def requireAssignable_def split: option.splits if_splits)
  have "isProductManager p s' agent = Inr False \<or> requested = Some agent"
    using r(2) by (auto simp: resolveNewTaskAssignee_def split: option.splits sum.splits if_splits)
  then show ?thesis
    using vetted assms(2)
    by (auto simp: requireAssignable_def isProductManager_def split: sum.splits if_splits)
qed

text \<open>
  A criterion's verdict is given in the channel that will be asked for it. \<open>ReviewTaskCriterion\<close>
  either answers with an error and changes nothing, or records one check, under the review role of the
  column the criterion's task is in, the role \<open>criteriaReviewGate\<close> reads when the task leaves that
  column; a rejection carries a reason.
\<close>
theorem criterion_verdict_in_its_channel:
  shows "(\<exists>err. ReviewTaskCriterion p criterionID agentID approved note s = (Inl err, s)) \<or>
    (\<exists>criterion repositoryID task w role.
      pp_GetCriterion (tk_parts p) s criterionID = Inr criterion \<and>
      op_Get (tk_order p) s repositoryID (crit_TaskID criterion) = Inr task \<and>
      svc_workflow (tk_gates p) s (bt_TaskType task) = Inr w \<and>
      verdict_role w (bt_Column task) = Some role \<and>
      ReviewTaskCriterion p criterionID agentID approved note s = pp_UpsertCheck (tk_parts p)
        (criterion_check p s task criterionID role agentID approved (TrimSpace note)) s \<and>
      (\<not> approved \<longrightarrow> TrimSpace note \<noteq> ''''))"
proof (cases "gp_criteria (tk_gates p) = None \<or> (\<not> approved \<and> TrimSpace note = '''')")
  case True
  then show ?thesis by (auto simp: ReviewTaskCriterion_def Let_def)
next
  case False
  let ?read = "\<lambda>criterion repositoryID task w role.
    pp_GetCriterion (tk_parts p) s criterionID = Inr criterion \<and>
    FindTaskRepositoryID (tk_order p) s (crit_TaskID criterion) = Inr repositoryID \<and>
    op_Get (tk_order p) s repositoryID (crit_TaskID criterion) = Inr task \<and>
    svc_workflow (tk_gates p) s (bt_TaskType task) = Inr w \<and>
    verdict_role w (bt_Column task) = Some role"
  show ?thesis
  proof (cases "\<exists>criterion repositoryID task w role. ?read criterion repositoryID task w role")
    case True
    then obtain criterion repositoryID task w role where "?read criterion repositoryID task w role"
      by blast
    then show ?thesis using False
      by (intro disjI2 exI [of _ criterion] exI [of _ repositoryID] exI [of _ task] exI [of _ w]
          exI [of _ role]) (auto simp: ReviewTaskCriterion_def Let_def)
  next
    case none: False
    have "\<exists>err. ReviewTaskCriterion p criterionID agentID approved note s = (Inl err, s)"
      using False none
      by (auto simp: ReviewTaskCriterion_def Let_def split: sum.splits option.splits)
    then show ?thesis ..
  qed
qed

text \<open>
  C25: No task leaves a review with its criteria open. Where criteria are required and can be read, a
  move written from a column with a verdict channel into a forward exit finds every criterion that is
  not cancelled approved in that channel.
\<close>
theorem review_exit_needs_criteria:
  assumes "edit_plan p repositoryID repo req task s = (Write t (Some target), s')"
    and "req_Column req = Some target" and "gp_requireCriteria (tk_gates p)"
    and "gp_criteria (tk_gates p) = Some listByTask" and "listByTask s (bt_ID task) = Inr items"
    and "svc_workflow (tk_gates p) s (bt_TaskType t) = Inr w"
    and "wf_Has w target BehaviourForwardExit" and "verdict_role w (bt_Column task) = Some role"
  shows "list_all (approved_by_role role) items"
proof -
  obtain u where u: "lay_over p s repositoryID req task = Inr u" and t: "bt_TaskType t = bt_TaskType u"
    by (rule plan_fields [OF assms(1)])
  obtain v where v: "bt_ID v = bt_ID task" "bt_TaskType v = bt_TaskType u"
    "\<forall>c \<in> set (move_gates p s req v (bt_Column task) target). c = None"
    using lay_over_fields(3) [OF u assms(2)] by blast
  have "criteriaReviewGate (tk_gates p) s (bt_ID v) (bt_TaskType v) (bt_Column task) target = None"
    using v(3) by (simp add: move_gates_def Let_def)
  then show ?thesis
    using assms(3-) v(1,2) t unfolding criteriaReviewGate_None list_all_iff by auto
qed

text \<open>
  No task leaves its test stage untested. Where criteria are required and the cases can be read, a
  move written from a column that requires test cases into a forward exit finds at least one case, and
  none that is only planned.
\<close>
theorem test_exit_needs_cases:
  assumes "edit_plan p repositoryID repo req task s = (Write t (Some target), s')"
    and "req_Column req = Some target" and "gp_requireCriteria (tk_gates p)"
    and "gp_testCases (tk_gates p) = Some listByTask" and "listByTask s (bt_ID task) = Inr items"
    and "svc_workflow (tk_gates p) s (bt_TaskType t) = Inr w"
    and "wf_Has w target BehaviourForwardExit" and "wf_Has w (bt_Column task) BehaviourRequireTestCases"
  shows "items \<noteq> [] \<and> list_all (\<lambda>c. tc_Status c \<noteq> TestCaseStatusPlanned) items"
proof -
  obtain u where u: "lay_over p s repositoryID req task = Inr u" and t: "bt_TaskType t = bt_TaskType u"
    by (rule plan_fields [OF assms(1)])
  obtain v where v: "bt_ID v = bt_ID task" "bt_TaskType v = bt_TaskType u"
    "\<forall>c \<in> set (move_gates p s req v (bt_Column task) target). c = None"
    using lay_over_fields(3) [OF u assms(2)] by blast
  have "testCaseGate (tk_gates p) s (bt_ID v) (bt_TaskType v) (bt_Column task) target = None"
    using v(3) by (simp add: move_gates_def Let_def)
  then show ?thesis
    using assms(3-) v(1,2) t unfolding testCaseGate_None list_all_iff by auto
qed

section \<open>Examples\<close>

definition qa_criterion :: AcceptanceCriterion where
  "qa_criterion =
     \<lparr>crit_ID = 8, crit_TaskID = 1, crit_Text = ''works'', crit_Position = 0, crit_Completed = True,
      crit_CreatedAt = 0, crit_Canceled = False, crit_CancelReason = '''',
      crit_Checks = [\<lparr>chk_ID = 1, chk_CriterionID = 8, chk_Role = CriterionReviewRoleQA,
        chk_AgentID = Some 5, chk_Approved = True, chk_Note = '''', chk_CheckedAt = 0,
        chk_VerifiedSHA = '''', chk_VerifiedPatchID = ''''\<rparr>]\<rparr>"

definition passed_case :: TaskTestCase where
  "passed_case =
     \<lparr>tc_ID = 1, tc_TaskID = 1, tc_CriterionID = Some 8, tc_Title = ''login'', tc_Category = '''',
      tc_Status = ''passed'', tc_Expected = '''', tc_Actual = '''', tc_Evidence = '''', tc_Notes = '''',
      tc_Position = 0, tc_CreatedAt = 0, tc_UpdatedAt = 0, tc_ScoredAt = None\<rparr>"

definition tested_board :: "unit task_ports" where
  "tested_board = small_board (small_task TaskColumnInQA) []
     \<lparr>tk_gates := small_gates [(TaskColumnCodeReview, ReviewVerdictApprove), (TaskColumnInQA, ReviewVerdictApprove)]
        \<lparr>gp_criteria := Some (\<lambda>_ _. Inr [qa_criterion]), gp_testCases := Some (\<lambda>_ _. Inr [passed_case])\<rparr>,
      tk_parts := small_parts\<lparr>pp_GetCriterion := (\<lambda>_ _. Inr qa_criterion)\<rparr>\<rparr>"

lemma tested_to_done:
  "edit_plan tested_board 3 small_repo (move_request TaskActorHuman TaskColumnDone)
     (small_task TaskColumnInQA) () =
   (Write (small_task TaskColumnInQA\<lparr>bt_Column := TaskColumnDone, bt_VerifiedSHA := ''c0ffee''\<rparr>)
      (Some TaskColumnDone), ())"
  by code_simp

lemma tested_reads:
  "gp_requireCriteria (tk_gates tested_board)"
  "gp_criteria (tk_gates tested_board) = Some (\<lambda>_ _. Inr [qa_criterion])"
  "gp_testCases (tk_gates tested_board) = Some (\<lambda>_ _. Inr [passed_case])"
  "svc_workflow (tk_gates tested_board) () t = Inr small_workflow"
  "req_Column (move_request actor TaskColumnDone) = Some TaskColumnDone"
  "bt_Column (small_task col) = col"
  by (simp_all add: tested_board_def small_gates_def svc_workflow_def move_request_def small_task_def)

lemma tested_behaviours:
  "wf_Has small_workflow TaskColumnDone BehaviourForwardExit"
  "verdict_role small_workflow TaskColumnInQA = Some CriterionReviewRoleQA"
  "wf_Has small_workflow TaskColumnInQA BehaviourRequireTestCases"
  by code_simp+

lemma review_exit_needs_criteria_witness:
  "list_all (approved_by_role CriterionReviewRoleQA) [qa_criterion]"
  by (rule review_exit_needs_criteria [OF tested_to_done tested_reads(5) tested_reads(1,2) refl
      tested_reads(4) tested_behaviours(1)]) (simp only: tested_behaviours(2) tested_reads(6))

lemma test_exit_needs_cases_witness:
  "[passed_case] \<noteq> [] \<and> list_all (\<lambda>c. tc_Status c \<noteq> TestCaseStatusPlanned) [passed_case]"
  by (rule test_exit_needs_cases [OF tested_to_done tested_reads(5) tested_reads(1,3) refl
      tested_reads(4) tested_behaviours(1)]) (simp only: tested_behaviours(3) tested_reads(6))

lemma criterion_verdict_in_its_channel_witness:
  "\<exists>role. verdict_role small_workflow TaskColumnInQA = Some role \<and>
     ReviewTaskCriterion tested_board 8 5 False ''broken'' () =
     (Inr (criterion_check tested_board () (small_task TaskColumnInQA) 8 role 5 False ''broken''), ())"
proof -
  have "case ReviewTaskCriterion tested_board 8 5 False ''broken'' () of (Inl _, _) \<Rightarrow> False | (Inr _, _) \<Rightarrow> True"
    by code_simp
  then have "\<nexists>err. ReviewTaskCriterion tested_board 8 5 False ''broken'' () = (Inl err, ())"
    by auto
  moreover have "TrimSpace ''broken'' = ''broken''" by code_simp
  ultimately show ?thesis
    using criterion_verdict_in_its_channel [of tested_board 8 5 False "''broken''" "()"]
    by (auto simp: tested_reads(4,6) tested_board_def small_board_def small_parts_def small_order_def
        small_gates_def svc_workflow_def)
qed

definition small_creation :: CreateBoardTaskRequest where
  "small_creation =
     \<lparr>creq_Title = '' fix '', creq_TaskType = '''', creq_Description = '''', creq_TechnicalDescription = '''',
      creq_InitiativeProjectID = None, creq_ComponentID = None, creq_Column = TaskColumnTodo,
      creq_Priority = '''', creq_CreatedBy = '''', creq_AssigneeAgentID = Some 6,
      creq_AcceptanceCriteria = [], creq_Relations = [], creq_BlockedBy = [], creq_Documents = [],
      creq_BeforeDeploy = None, creq_AfterDeploy = None, creq_RollbackPlan = None\<rparr>"

definition small_created :: BoardTask where
  "small_created = new_task 3 small_creation TaskTypeTask TaskPriorityMedium TaskColumnTodo ''user'' 1 2 (Some 6)"

lemma small_create_plan:
  "create_plan (small_board (small_task TaskColumnTodo) []) 3 small_repo small_creation () =
   (Inr small_created, ())"
  by code_simp

lemma created_task_placed_witness:
  "bt_Position (small_task TaskColumnTodo) < bt_Position small_created"
  using created_task_placed [OF small_create_plan, of "[small_task TaskColumnTodo]"]
  by (simp add: small_board_def small_created_def small_task_def)

lemma created_task_not_product_managers_witness:
  "(\<lambda>_ agent _. Inr (agent = 9)) () (6 :: uuid) RoleKeyProductManager = (Inr False :: go_error + bool)"
  using created_task_not_product_managers [OF small_create_plan, of _ 6]
  by (simp add: small_board_def small_created_def)

end
