(* ===== verification/Events.thy ===== *)
theory Events
  imports Span_Ledger Task_Store
begin

text \<open>
  A task's history and what is read out of it: the board events of
  \<open>server/internal/domain/board_event.go\<close>, their table (\<open>BoardEventStore\<close> of
  \<open>adapter/storage/postgres/board_config.go\<close>), the journal of parks
  (\<open>application/board/park_journal.go\<close>) and the guard against review ping-pong
  (\<open>application/board/review_loop_guard.go\<close>).

  A payload is the map \<open>encoding/json\<close> makes of it, as an association list; values other than
  strings and booleans are never looked at. The stored text of a payload stands for what it decodes
  to: \<open>None\<close> for an empty or undecodable one. Texts of the prompt catalog are arguments.
\<close>

section \<open>Events\<close>

type_synonym BoardEventType = string

definition BoardEventTaskCreated :: BoardEventType where [col_defs]: "BoardEventTaskCreated = ''task.created''"
definition BoardEventTaskMoved :: BoardEventType where [col_defs]: "BoardEventTaskMoved = ''task.moved''"
definition BoardEventTaskCommented :: BoardEventType where
  [col_defs]: "BoardEventTaskCommented = ''task.commented''"
definition BoardEventTaskAssigned :: BoardEventType where
  [col_defs]: "BoardEventTaskAssigned = ''task.assigned''"
definition BoardEventTaskRunCancelled :: BoardEventType where
  [col_defs]: "BoardEventTaskRunCancelled = ''task.run_cancelled''"
definition BoardEventTaskRerunRequested :: BoardEventType where
  [col_defs]: "BoardEventTaskRerunRequested = ''task.rerun_requested''"

definition EventPayloadActor :: string where [col_defs]: "EventPayloadActor = ''actor''"
definition EventPayloadReason :: string where [col_defs]: "EventPayloadReason = ''system_reason''"
definition EventPayloadResumedResource :: string where
  [col_defs]: "EventPayloadResumedResource = ''resumed_resource''"
definition EventPayloadPipelineGate :: string where
  [col_defs]: "EventPayloadPipelineGate = ''pipeline_gate''"
definition EventPayloadInformational :: string where
  [col_defs]: "EventPayloadInformational = ''informational''"

definition EventActorAgent :: string where [col_defs]: "EventActorAgent = ''agent''"
definition EventActorHuman :: string where [col_defs]: "EventActorHuman = ''human''"
definition EventActorSystem :: string where [col_defs]: "EventActorSystem = ''system''"

definition MoveReasonPipelinePassed :: string where
  [col_defs]: "MoveReasonPipelinePassed = ''pipeline_passed''"
definition MoveReasonPipelineGateOpened :: string where
  [col_defs]: "MoveReasonPipelineGateOpened = ''pipeline_gate_opened''"
definition MoveReasonReconciled :: string where [col_defs]: "MoveReasonReconciled = ''reconciled''"
definition MoveReasonResourceFree :: string where [col_defs]: "MoveReasonResourceFree = ''device_free''"
definition MoveReasonReviewLoopParked :: string where
  [col_defs]: "MoveReasonReviewLoopParked = ''review_loop_parked''"
definition MoveReasonCriteriaLoopParked :: string where
  [col_defs]: "MoveReasonCriteriaLoopParked = ''criteria_loop_parked''"

datatype payload_value = PString string | PBool bool | POther

type_synonym event_payload = "(string \<times> payload_value) list"

text \<open>\<open>v, _ := payload[key].(string)\<close>, and whether the assertion held.\<close>

definition payload_string :: "event_payload \<Rightarrow> string \<Rightarrow> string option" where
  "payload_string payload key =
     (case map_of payload key of Some (PString v) \<Rightarrow> Some v | _ \<Rightarrow> None)"

definition string_or_empty :: "event_payload \<Rightarrow> string \<Rightarrow> string" where
  "string_or_empty payload key =
     (case payload_string payload key of Some v \<Rightarrow> v | None \<Rightarrow> '''')"

record BoardEvent =
  ev_ID :: uuid
  ev_RepositoryID :: uuid
  ev_TaskID :: uuid
  ev_EventType :: BoardEventType
  ev_Payload :: "event_payload option"
  ev_ActorUserID :: "string option"
  ev_CreatedAt :: time

section \<open>The event table\<close>

text \<open>\<open>newID\<close> and \<open>at\<close> are the row's \<open>gen_random_uuid()\<close> and \<open>now()\<close>.\<close>

definition event_Create :: "uuid \<Rightarrow> time \<Rightarrow> BoardEvent \<Rightarrow> BoardEvent list \<Rightarrow> BoardEvent \<times> BoardEvent list" where
  "event_Create newID at event events =
     (let created = event\<lparr>ev_ID := newID, ev_CreatedAt := at\<rparr> in (created, events @ [created]))"

definition event_ListRecent :: "int \<Rightarrow> BoardEvent list \<Rightarrow> BoardEvent list" where
  "event_ListRecent limit events =
     (let n = (if limit \<le> 0 then 50 else limit)
      in take (nat n) (sort_key (\<lambda>e. - ev_CreatedAt e) events))"

definition event_ListByTask :: "uuid \<Rightarrow> int \<Rightarrow> BoardEvent list \<Rightarrow> BoardEvent list" where
  "event_ListByTask taskID limit events =
     (let n = (if limit \<le> 0 \<or> 500 < limit then 200 else limit)
      in take (nat n) (sort_key ev_CreatedAt (filter (\<lambda>e. ev_TaskID e = taskID) events)))"

section \<open>Reading a history\<close>

definition decodeEventPayload :: "event_payload option \<Rightarrow> event_payload" where
  "decodeEventPayload raw = (case raw of None \<Rightarrow> [] | Some payload \<Rightarrow> payload)"

definition eventIsHuman :: "BoardEvent \<Rightarrow> event_payload \<Rightarrow> bool" where
  "eventIsHuman event payload =
     (if ev_ActorUserID event \<noteq> None \<and> ev_ActorUserID event \<noteq> Some '''' then True
      else if string_or_empty payload EventPayloadActor = EventActorHuman then True
      else if ev_EventType event = BoardEventTaskCommented
      then string_or_empty payload ''author_type'' = ''user'' \<or>
           string_or_empty payload ''author_type'' = ''human''
      else False)"

definition movedIntoColumn :: "event_payload \<Rightarrow> string option" where
  "movedIntoColumn payload =
     (if list_ex (\<lambda>synthetic. map_of payload synthetic \<noteq> None)
           [''reconciled'', ''resumed'', EventPayloadResumedResource] then None
      else case payload_string payload ''to_column'' of
          None \<Rightarrow> None
        | Some to \<Rightarrow>
            if to = '''' then None
            else if string_or_empty payload ''from_column'' = to then None
            else Some to)"

text \<open>The loop from the last event back to the first.\<close>

fun review_entries_loop :: "BoardEvent list \<Rightarrow> int \<Rightarrow> int" where
  "review_entries_loop [] n = n"
| "review_entries_loop (event # events) n =
     (let payload = decodeEventPayload (ev_Payload event) in
      if eventIsHuman event payload then n
      else if ev_EventType event \<noteq> BoardEventTaskMoved then review_entries_loop events n
      else if movedIntoColumn payload = Some TaskColumnNeedRevision
      then review_entries_loop events (n + 1)
      else review_entries_loop events n)"

definition reviewLoopEntries :: "BoardEvent list \<Rightarrow> int" where
  "reviewLoopEntries history = review_entries_loop (rev history) 0"

definition human_event :: "BoardEvent \<Rightarrow> bool" where
  "human_event event = eventIsHuman event (decodeEventPayload (ev_Payload event))"

definition lastHumanEventAt :: "BoardEvent list \<Rightarrow> time option" where
  "lastHumanEventAt history = map_option ev_CreatedAt (find human_event (rev history))"

definition containsEvent :: "BoardEvent list \<Rightarrow> uuid \<Rightarrow> bool" where
  "containsEvent history eventID \<longleftrightarrow> list_ex (\<lambda>event. ev_ID event = eventID) history"

definition historyReaches :: "BoardEvent list \<Rightarrow> time \<Rightarrow> bool" where
  "historyReaches history at =
     (if history = [] then False else \<not> ev_CreatedAt (last history) < at)"

section \<open>The journal of parks\<close>

record 's ParkJournal =
  pj_Create :: "BoardEvent \<Rightarrow> 's \<Rightarrow> (go_error + BoardEvent) \<times> 's"
  pj_RecordMove :: "(uuid \<Rightarrow> uuid \<Rightarrow> string \<Rightarrow> time \<Rightarrow> 's \<Rightarrow> 's) option"

definition assignee_payload :: "BoardTask \<Rightarrow> event_payload" where
  "assignee_payload task =
     (case bt_AssigneeAgentID task of
        None \<Rightarrow> [] | Some agent \<Rightarrow> [(''assignee_agent_id'', PString (uuid_String agent))])"

definition journal_Record ::
  "'s ParkJournal option \<Rightarrow> uuid \<Rightarrow> BoardTask \<Rightarrow> TaskColumn \<Rightarrow> string \<Rightarrow> string \<Rightarrow> 's \<Rightarrow> 's" where
  "journal_Record journal repositoryID task from0 resource reason s =
     (case journal of
        None \<Rightarrow> s
      | Some j \<Rightarrow>
          let from = (if from0 = '''' then bt_Column task else from0) in
          if from = TaskColumnBlocked then s
          else case pj_Create j
                 \<lparr>ev_ID = uuid_Nil, ev_RepositoryID = repositoryID, ev_TaskID = bt_ID task,
                  ev_EventType = BoardEventTaskMoved,
                  ev_Payload = Some ([(''from_column'', PString from),
                    (''to_column'', PString TaskColumnBlocked), (''column'', PString TaskColumnBlocked),
                    (''resource'', PString resource), (EventPayloadActor, PString EventActorSystem),
                    (EventPayloadReason, PString reason)] @ assignee_payload task),
                  ev_ActorUserID = None, ev_CreatedAt = 0\<rparr> s of
              (Inl err, s') \<Rightarrow> s'
            | (Inr event, s') \<Rightarrow>
                (case pj_RecordMove j of
                   None \<Rightarrow> s'
                 | Some record \<Rightarrow>
                     record repositoryID (bt_ID task) TaskColumnBlocked (ev_CreatedAt event) s'))"

section \<open>What a history counts\<close>

definition sent_back :: "BoardEvent \<Rightarrow> bool" where
  "sent_back event \<longleftrightarrow>
     ev_EventType event = BoardEventTaskMoved \<and>
     movedIntoColumn (decodeEventPayload (ev_Payload event)) = Some TaskColumnNeedRevision"

lemma review_entries_loop_count:
  "review_entries_loop events n =
     n + int (length (filter sent_back (takeWhile (\<lambda>e. \<not> human_event e) events)))"
  by (induction events arbitrary: n) (simp_all add: Let_def sent_back_def human_event_def)

lemma reviewLoopEntries_count:
  "reviewLoopEntries history =
     int (length (filter sent_back (takeWhile (\<lambda>e. \<not> human_event e) (rev history))))"
  by (simp add: reviewLoopEntries_def review_entries_loop_count)

lemma reviewLoopEntries_Nil [simp]: "reviewLoopEntries [] = 0"
  by (simp add: reviewLoopEntries_def)

lemma reviewLoopEntries_snoc:
  "reviewLoopEntries (history @ [event]) =
     (if human_event event then 0
      else reviewLoopEntries history + (if sent_back event then 1 else 0))"
  by (simp add: reviewLoopEntries_count)

lemma reviewLoopEntries_nonneg: "0 \<le> reviewLoopEntries history"
  by (simp add: reviewLoopEntries_count)

lemma human_resets:
  assumes "\<forall>e \<in> set later. \<not> sent_back e"
  shows "reviewLoopEntries (earlier @ event # later) = (if human_event event \<or> list_ex human_event later then 0
    else reviewLoopEntries (earlier @ [event]))"
  using assms
proof (induction later rule: rev_induct)
  case (snoc e later)
  have "reviewLoopEntries ((earlier @ event # later) @ [e]) =
      (if human_event e then 0 else reviewLoopEntries (earlier @ event # later))"
    using snoc.prems by (subst reviewLoopEntries_snoc) simp
  then show ?case using snoc by auto
qed (simp add: reviewLoopEntries_snoc)

lemma lastHumanEventAt_None: "lastHumanEventAt history = None \<longleftrightarrow> list_all (\<lambda>e. \<not> human_event e) history"
  by (auto simp: lastHumanEventAt_def find_None_iff list_all_iff)

section \<open>What the table hands out\<close>

lemma ListByTask_task: "e \<in> set (event_ListByTask taskID limit events) \<Longrightarrow> e \<in> set events \<and> ev_TaskID e = taskID"
  by (auto simp: event_ListByTask_def Let_def dest: in_set_takeD)

lemma ListByTask_all:
  assumes "0 < limit" and "limit \<le> 500" and "int (length (filter (\<lambda>e. ev_TaskID e = taskID) events)) \<le> limit"
  shows "event_ListByTask taskID limit events = sort_key ev_CreatedAt (filter (\<lambda>e. ev_TaskID e = taskID) events)"
  using assms by (simp add: event_ListByTask_def)

lemma ListByTask_sorted: "sorted (map ev_CreatedAt (event_ListByTask taskID limit events))"
  by (simp add: event_ListByTask_def Let_def sorted_wrt_take take_map [symmetric])

text \<open>A history longer than the window does not reach its own end.\<close>

lemma ListByTask_oldest:
  assumes "sorted (map ev_CreatedAt events)" and "limit = 500"
  shows "event_ListByTask taskID limit events = take 500 (filter (\<lambda>e. ev_TaskID e = taskID) events)"
proof -
  have "sorted (map ev_CreatedAt (filter (\<lambda>e. ev_TaskID e = taskID) events))"
    using assms(1) by (rule sorted_filter)
  then have "sort_key ev_CreatedAt (filter (\<lambda>e. ev_TaskID e = taskID) events) =
      filter (\<lambda>e. ev_TaskID e = taskID) events"
    by (rule sort_key_id_if_sorted)
  then show ?thesis using assms(2) by (simp add: event_ListByTask_def)
qed

end
