(* ===== verification/Run_Store.thy ===== *)
theory Run_Store
  imports Task_Store
begin

text \<open>
  The agent runs of a task: \<open>domain.TaskAgentRun\<close> of \<open>server/internal/domain/board_event.go\<close> and
  its table, \<open>TaskAgentRunStore\<close> of \<open>server/internal/adapter/storage/postgres/board_config.go\<close>. The
  table is the list of its rows in insertion order; \<open>gen_random_uuid()\<close> and \<open>now()\<close> are arguments.
  A claim holds an advisory lock for its whole transaction, so it is one step.

  The table has a partial unique index on task and agent of the pending rows (migration 075).
\<close>

section \<open>Runs\<close>

type_synonym RunStatus = string

definition TaskAgentRunStatusPending :: RunStatus where [col_defs]: "TaskAgentRunStatusPending = ''pending''"
definition TaskAgentRunStatusRunning :: RunStatus where [col_defs]: "TaskAgentRunStatusRunning = ''running''"
definition TaskAgentRunStatusCompleted :: RunStatus where
  [col_defs]: "TaskAgentRunStatusCompleted = ''completed''"
definition TaskAgentRunStatusFailed :: RunStatus where [col_defs]: "TaskAgentRunStatusFailed = ''failed''"
definition TaskAgentRunStatusCancelled :: RunStatus where
  [col_defs]: "TaskAgentRunStatusCancelled = ''cancelled''"

definition TaskAgentRunIsTerminal :: "RunStatus \<Rightarrow> bool" where
  "TaskAgentRunIsTerminal status \<longleftrightarrow>
     status = TaskAgentRunStatusCompleted \<or> status = TaskAgentRunStatusFailed \<or>
     status = TaskAgentRunStatusCancelled"

record TaskAgentRun =
  run_ID :: uuid
  run_TaskID :: uuid
  run_AgentID :: uuid
  run_BoardEventID :: uuid
  run_SessionRunID :: "uuid option"
  run_Status :: RunStatus
  run_Summary :: string
  run_WorkspacePath :: string
  run_ToolCalls :: int
  run_ToolErrors :: int
  run_ErrorPattern :: string
  run_LLMCalls :: int
  run_PromptTokens :: int
  run_CompletionTokens :: int
  run_CacheReadTokens :: int
  run_CacheWriteTokens :: int
  run_CLISessionID :: string
  run_QuotaResumeAt :: "time option"
  run_CLIProvider :: string
  run_CreatedAt :: time
  run_UpdatedAt :: time

text \<open>The defaults of the columns an insert leaves out.\<close>

definition new_run :: "uuid \<Rightarrow> time \<Rightarrow> TaskAgentRun \<Rightarrow> TaskAgentRun" where
  "new_run newID at run =
     \<lparr>run_ID = newID, run_TaskID = run_TaskID run, run_AgentID = run_AgentID run,
      run_BoardEventID = run_BoardEventID run, run_SessionRunID = run_SessionRunID run,
      run_Status = run_Status run, run_Summary = run_Summary run,
      run_WorkspacePath = run_WorkspacePath run, run_ToolCalls = 0, run_ToolErrors = 0,
      run_ErrorPattern = '''', run_LLMCalls = 0, run_PromptTokens = 0, run_CompletionTokens = 0,
      run_CacheReadTokens = 0, run_CacheWriteTokens = 0, run_CLISessionID = '''',
      run_QuotaResumeAt = None, run_CLIProvider = '''', run_CreatedAt = at, run_UpdatedAt = at\<rparr>"

definition pending_run :: "uuid \<Rightarrow> uuid \<Rightarrow> uuid \<Rightarrow> TaskAgentRun" where
  "pending_run taskID agentID eventID =
     \<lparr>run_ID = uuid_Nil, run_TaskID = taskID, run_AgentID = agentID, run_BoardEventID = eventID,
      run_SessionRunID = None, run_Status = TaskAgentRunStatusPending, run_Summary = '''',
      run_WorkspacePath = '''', run_ToolCalls = 0, run_ToolErrors = 0, run_ErrorPattern = '''',
      run_LLMCalls = 0, run_PromptTokens = 0, run_CompletionTokens = 0, run_CacheReadTokens = 0,
      run_CacheWriteTokens = 0, run_CLISessionID = '''', run_QuotaResumeAt = None,
      run_CLIProvider = '''', run_CreatedAt = 0, run_UpdatedAt = 0\<rparr>"

definition is_pending :: "TaskAgentRun \<Rightarrow> bool" where
  "is_pending r \<longleftrightarrow> run_Status r = TaskAgentRunStatusPending"

definition is_running :: "TaskAgentRun \<Rightarrow> bool" where
  "is_running r \<longleftrightarrow> run_Status r = TaskAgentRunStatusRunning"

definition is_live :: "TaskAgentRun \<Rightarrow> bool" where
  "is_live r \<longleftrightarrow> is_pending r \<or> is_running r"

definition run_of :: "uuid \<Rightarrow> uuid \<Rightarrow> TaskAgentRun \<Rightarrow> bool" where
  "run_of taskID agentID r \<longleftrightarrow> run_TaskID r = taskID \<and> run_AgentID r = agentID"

section \<open>Writes\<close>

text \<open>\<open>ON CONFLICT \<dots> DO UPDATE\<close> writes nothing new and hands back the row in the way.\<close>

definition run_Create :: "uuid \<Rightarrow> time \<Rightarrow> TaskAgentRun \<Rightarrow> TaskAgentRun list \<Rightarrow> TaskAgentRun \<times> TaskAgentRun list" where
  "run_Create newID at run runs =
     (case (if is_pending run
            then find (\<lambda>r. run_of (run_TaskID run) (run_AgentID run) r \<and> is_pending r) runs else None) of
        Some r \<Rightarrow> (r, runs)
      | None \<Rightarrow> let created = new_run newID at run in (created, runs @ [created]))"

definition change_runs ::
  "(TaskAgentRun \<Rightarrow> bool) \<Rightarrow> (TaskAgentRun \<Rightarrow> TaskAgentRun) \<Rightarrow> TaskAgentRun list \<Rightarrow> TaskAgentRun list" where
  "change_runs P f runs = map (\<lambda>r. if P r then f r else r) runs"

definition written_run :: "time \<Rightarrow> TaskAgentRun \<Rightarrow> TaskAgentRun \<Rightarrow> TaskAgentRun" where
  "written_run at run r =
     r\<lparr>run_SessionRunID := run_SessionRunID run,
       run_Status := (if run_Status r = TaskAgentRunStatusCancelled
                      then TaskAgentRunStatusCancelled else run_Status run),
       run_Summary := run_Summary run, run_WorkspacePath := run_WorkspacePath run,
       run_ToolCalls := run_ToolCalls run, run_ToolErrors := run_ToolErrors run,
       run_ErrorPattern := run_ErrorPattern run, run_LLMCalls := run_LLMCalls run,
       run_PromptTokens := run_PromptTokens run, run_CompletionTokens := run_CompletionTokens run,
       run_CacheReadTokens := run_CacheReadTokens run, run_CacheWriteTokens := run_CacheWriteTokens run,
       run_CLISessionID := run_CLISessionID run, run_QuotaResumeAt := run_QuotaResumeAt run,
       run_CLIProvider := run_CLIProvider run, run_UpdatedAt := at\<rparr>"

text \<open>A write that would make a second pending row of a task and agent breaks the index.\<close>

definition run_Update :: "time \<Rightarrow> TaskAgentRun \<Rightarrow> TaskAgentRun list \<Rightarrow> (go_error + TaskAgentRun) \<times> TaskAgentRun list" where
  "run_Update at run runs =
     (case find (\<lambda>r. run_ID r = run_ID run) runs of
        None \<Rightarrow> (Inl (ErrWrap ''update task agent run'' ErrTaskAgentRunNotFound), runs)
      | Some r \<Rightarrow>
          let r' = written_run at run r in
          if is_pending r' \<and> list_ex (\<lambda>q. run_ID q \<noteq> run_ID r \<and>
               run_of (run_TaskID r) (run_AgentID r) q \<and> is_pending q) runs
          then (Inl (ErrWrap ''update task agent run'' (ErrStore ''duplicate key'')), runs)
          else (Inr r', change_runs (\<lambda>q. run_ID q = run_ID run) (written_run at run) runs))"

definition CancelIfLive :: "time \<Rightarrow> uuid \<Rightarrow> string \<Rightarrow> TaskAgentRun list \<Rightarrow> TaskAgentRun option \<times> TaskAgentRun list" where
  "CancelIfLive at runID reason runs =
     (let P = (\<lambda>r. run_ID r = runID \<and> is_live r);
          f = (\<lambda>r. r\<lparr>run_Status := TaskAgentRunStatusCancelled,
                 run_Summary := (if reason = '''' then run_Summary r else reason), run_UpdatedAt := at\<rparr>)
      in (map_option f (find P runs), change_runs P f runs))"

definition Touch :: "time \<Rightarrow> uuid \<Rightarrow> TaskAgentRun list \<Rightarrow> (go_error + RunStatus) \<times> TaskAgentRun list" where
  "Touch at runID runs =
     (case find (\<lambda>r. run_ID r = runID) runs of
        None \<Rightarrow> (Inl (ErrWrap ''touch task agent run'' ErrTaskAgentRunNotFound), runs)
      | Some r \<Rightarrow>
          (Inr (run_Status r),
           change_runs (\<lambda>q. run_ID q = runID)
             (\<lambda>q. q\<lparr>run_UpdatedAt := (if is_live q then at else run_UpdatedAt q)\<rparr>) runs))"

definition FailIfStale :: "time \<Rightarrow> uuid \<Rightarrow> time \<Rightarrow> string \<Rightarrow> TaskAgentRun list \<Rightarrow> bool \<times> TaskAgentRun list" where
  "FailIfStale at runID cutoff summary runs =
     (let P = (\<lambda>r. run_ID r = runID \<and> is_live r \<and> run_UpdatedAt r < cutoff);
          f = (\<lambda>r. r\<lparr>run_Status := TaskAgentRunStatusFailed,
                 run_Summary := (if summary = '''' then run_Summary r else summary), run_UpdatedAt := at\<rparr>)
      in (list_ex P runs, change_runs P f runs))"

section \<open>The claim\<close>

record RunClaimResult =
  rc_Claimed :: bool
  rc_Reason :: string

definition task_live :: "time \<Rightarrow> duration \<Rightarrow> uuid \<Rightarrow> TaskAgentRun list \<Rightarrow> bool" where
  "task_live at live taskID runs \<longleftrightarrow>
     list_ex (\<lambda>r. is_running r \<and> at - live < run_UpdatedAt r \<and> run_TaskID r = taskID) runs"

definition live_window :: "duration \<Rightarrow> duration" where
  "live_window liveWithin = (if liveWithin \<le> 0 then 60 * 1000000000 else liveWithin)"

definition ClaimRun :: "time \<Rightarrow> uuid \<Rightarrow> duration \<Rightarrow> TaskAgentRun list \<Rightarrow> RunClaimResult \<times> TaskAgentRun list" where
  "ClaimRun at runID liveWithin runs =
     (case find (\<lambda>r. run_ID r = runID \<and> is_pending r) runs of
        None \<Rightarrow> (\<lparr>rc_Claimed = False, rc_Reason = ''not_pending''\<rparr>, runs)
      | Some me \<Rightarrow>
          if task_live at (live_window liveWithin) (run_TaskID me) runs
          then (\<lparr>rc_Claimed = False, rc_Reason = ''task_busy''\<rparr>, runs)
          else (\<lparr>rc_Claimed = True, rc_Reason = ''''\<rparr>,
                change_runs (\<lambda>r. run_ID r = runID)
                  (\<lambda>r. r\<lparr>run_Status := TaskAgentRunStatusRunning, run_UpdatedAt := at\<rparr>) runs))"

section \<open>Reads\<close>

definition HasPendingForEvent :: "uuid \<Rightarrow> uuid \<Rightarrow> TaskAgentRun list \<Rightarrow> bool" where
  "HasPendingForEvent eventID agentID runs \<longleftrightarrow>
     list_ex (\<lambda>r. run_BoardEventID r = eventID \<and> run_AgentID r = agentID \<and> is_live r) runs"

definition HasPendingForTask :: "uuid \<Rightarrow> uuid \<Rightarrow> TaskAgentRun list \<Rightarrow> bool" where
  "HasPendingForTask taskID agentID runs \<longleftrightarrow> list_ex (\<lambda>r. run_of taskID agentID r \<and> is_pending r) runs"

definition HasLiveForTask :: "uuid \<Rightarrow> uuid \<Rightarrow> TaskAgentRun list \<Rightarrow> bool" where
  "HasLiveForTask taskID agentID runs \<longleftrightarrow> list_ex (\<lambda>r. run_of taskID agentID r \<and> is_live r) runs"

definition HasLiveRunForTask :: "time \<Rightarrow> uuid \<Rightarrow> duration \<Rightarrow> TaskAgentRun list \<Rightarrow> bool" where
  "HasLiveRunForTask at taskID liveWithin runs = task_live at (live_window liveWithin) taskID runs"

definition newest_first :: "TaskAgentRun list \<Rightarrow> TaskAgentRun list" where
  "newest_first = sort_key (\<lambda>r. - run_CreatedAt r)"

definition run_ListByTask :: "uuid \<Rightarrow> int \<Rightarrow> TaskAgentRun list \<Rightarrow> TaskAgentRun list" where
  "run_ListByTask taskID limit runs =
     take (nat (if limit \<le> 0 then 50 else limit)) (newest_first (filter (\<lambda>r. run_TaskID r = taskID) runs))"

definition run_ListRecent :: "int \<Rightarrow> TaskAgentRun list \<Rightarrow> TaskAgentRun list" where
  "run_ListRecent limit runs = take (nat (if limit \<le> 0 then 50 else limit)) (newest_first runs)"

definition ListStale :: "time \<Rightarrow> TaskAgentRun list \<Rightarrow> TaskAgentRun list" where
  "ListStale cutoff runs =
     sort_key run_UpdatedAt (filter (\<lambda>r. is_live r \<and> run_UpdatedAt r < cutoff) runs)"

definition run_GetByID :: "uuid \<Rightarrow> TaskAgentRun list \<Rightarrow> go_error + TaskAgentRun" where
  "run_GetByID runID runs =
     (case find (\<lambda>r. run_ID r = runID) runs of
        None \<Rightarrow> Inl (ErrWrap ''get task agent run'' ErrTaskAgentRunNotFound)
      | Some r \<Rightarrow> Inr r)"

section \<open>Histories of the table\<close>

text \<open>
  What happens to the table, as values: the clock moves, a run is queued, its owner writes it back,
  a human cancels it, the owner's heartbeat, a claim, and the reconciler's verdict.
\<close>

datatype run_op =
    Tick time
  | Queue uuid TaskAgentRun
  | Write TaskAgentRun
  | Cancel uuid string
  | Beat uuid
  | Claim uuid
  | FailStale uuid time string

definition runHeartbeat :: duration where "runHeartbeat = 10 * 1000000000"
definition runLiveWithin :: duration where "runLiveWithin = 6 * runHeartbeat"

fun run_exec :: "run_op \<Rightarrow> time \<times> TaskAgentRun list \<Rightarrow> time \<times> TaskAgentRun list" where
  "run_exec (Tick t) (at, runs) = (max at t, runs)"
| "run_exec (Queue newID run) (at, runs) = (at, snd (run_Create newID at run runs))"
| "run_exec (Write run) (at, runs) = (at, snd (run_Update at run runs))"
| "run_exec (Cancel runID reason) (at, runs) = (at, snd (CancelIfLive at runID reason runs))"
| "run_exec (Beat runID) (at, runs) = (at, snd (Touch at runID runs))"
| "run_exec (Claim runID) (at, runs) = (at, snd (ClaimRun at runID runLiveWithin runs))"
| "run_exec (FailStale runID cutoff summary) (at, runs) =
     (at, snd (FailIfStale at runID cutoff summary runs))"

text \<open>
  Ids are drawn fresh and every caller queues a pending run. A history is \<open>heard\<close> when the clock
  never leaves a running run's heartbeat behind the live window, and an owner writes a run as
  running only while it is.
\<close>

fun fresh_op :: "run_op \<Rightarrow> time \<times> TaskAgentRun list \<Rightarrow> bool" where
  "fresh_op (Queue newID run) (at, runs) = (\<not> list_ex (\<lambda>r. run_ID r = newID) runs \<and> is_pending run)"
| "fresh_op _ _ = True"

fun heard_op :: "run_op \<Rightarrow> time \<times> TaskAgentRun list \<Rightarrow> bool" where
  "heard_op (Tick t) (at, runs) =
     list_all (\<lambda>r. is_running r \<longrightarrow> max at t - runLiveWithin < run_UpdatedAt r) runs"
| "heard_op (Write run) (at, runs) =
     (is_running run \<longrightarrow> list_ex (\<lambda>r. run_ID r = run_ID run \<and> is_running r) runs)"
| "heard_op op st = fresh_op op st"

inductive reach :: "(run_op \<Rightarrow> time \<times> TaskAgentRun list \<Rightarrow> bool) \<Rightarrow> time \<times> TaskAgentRun list \<Rightarrow> bool"
  for ok where
  reach_start: "reach ok (at, [])"
| reach_step: "reach ok st \<Longrightarrow> ok op st \<Longrightarrow> reach ok (run_exec op st)"

section \<open>Rows under a change\<close>

definition run_key :: "TaskAgentRun \<Rightarrow> uuid \<times> uuid" where
  "run_key r = (run_TaskID r, run_AgentID r)"

lemma run_of_key: "run_of taskID agentID r \<longleftrightarrow> run_key r = (taskID, agentID)"
  by (simp add: run_of_def run_key_def)

lemma change_runs_ids:
  assumes "\<And>r. run_ID (f r) = run_ID r"
  shows "map run_ID (change_runs P f runs) = map run_ID runs"
  using assms by (simp add: change_runs_def)

lemma change_runs_mem:
  "q \<in> set (change_runs P f runs) \<longleftrightarrow> (\<exists>r \<in> set runs. q = (if P r then f r else r))"
  by (auto simp: change_runs_def)

lemma statuses_distinct [simp]:
  "TaskAgentRunStatusPending \<noteq> TaskAgentRunStatusRunning" "TaskAgentRunStatusRunning \<noteq> TaskAgentRunStatusPending"
  "TaskAgentRunStatusCancelled \<noteq> TaskAgentRunStatusPending" "TaskAgentRunStatusPending \<noteq> TaskAgentRunStatusCancelled"
  "TaskAgentRunStatusCancelled \<noteq> TaskAgentRunStatusRunning" "TaskAgentRunStatusRunning \<noteq> TaskAgentRunStatusCancelled"
  "TaskAgentRunStatusFailed \<noteq> TaskAgentRunStatusPending" "TaskAgentRunStatusFailed \<noteq> TaskAgentRunStatusRunning"
  "TaskAgentRunStatusCancelled \<noteq> TaskAgentRunStatusFailed" "TaskAgentRunStatusFailed \<noteq> TaskAgentRunStatusCancelled"
  "TaskAgentRunStatusPending \<noteq> TaskAgentRunStatusFailed" "TaskAgentRunStatusRunning \<noteq> TaskAgentRunStatusFailed"
  by (simp_all add: col_defs)

lemma written_run_simps [simp]:
  "run_ID (written_run at run r) = run_ID r" "run_key (written_run at run r) = run_key r"
  "run_UpdatedAt (written_run at run r) = at"
  by (simp_all add: written_run_def run_key_def)

lemma new_run_simps [simp]:
  "run_ID (new_run newID at run) = newID" "run_key (new_run newID at run) = run_key run"
  "is_pending (new_run newID at run) = is_pending run" "run_BoardEventID (new_run newID at run) = run_BoardEventID run"
  "run_Status (new_run newID at run) = run_Status run" "run_UpdatedAt (new_run newID at run) = at"
  by (simp_all add: new_run_def run_key_def is_pending_def)

section \<open>One queued run for a task and agent\<close>

definition run_inv :: "TaskAgentRun list \<Rightarrow> bool" where
  "run_inv runs \<longleftrightarrow>
     distinct (map run_ID runs) \<and>
     (\<forall>r \<in> set runs. \<forall>q \<in> set runs.
        is_pending r \<and> is_pending q \<and> run_key r = run_key q \<longrightarrow> run_ID r = run_ID q)"

lemma run_inv_Nil [simp]: "run_inv []"
  by (simp add: run_inv_def)

lemma run_inv_same:
  "run_inv runs \<Longrightarrow> r \<in> set runs \<Longrightarrow> q \<in> set runs \<Longrightarrow> run_ID r = run_ID q \<Longrightarrow> r = q"
  by (metis distinct_map inj_onD run_inv_def)

lemma run_inv_change:
  assumes inv: "run_inv runs" and ids: "\<And>r. run_ID (f r) = run_ID r" and keys: "\<And>r. run_key (f r) = run_key r"
    and one: "\<And>r q. P r \<Longrightarrow> P q \<Longrightarrow> run_ID r = run_ID q"
    and pending: "\<And>r q. r \<in> set runs \<Longrightarrow> q \<in> set runs \<Longrightarrow> P r \<Longrightarrow> is_pending (f r) \<Longrightarrow> is_pending q \<Longrightarrow>
      run_key q = run_key r \<Longrightarrow> run_ID q = run_ID r"
  shows "run_inv (change_runs P f runs)"
  unfolding run_inv_def
proof (intro conjI ballI impI)
  show "distinct (map run_ID (change_runs P f runs))"
    using inv by (simp add: change_runs_ids [OF ids] run_inv_def)
next
  fix r' q' assume "r' \<in> set (change_runs P f runs)" and "q' \<in> set (change_runs P f runs)"
    and live: "is_pending r' \<and> is_pending q' \<and> run_key r' = run_key q'"
  then obtain r q where r: "r \<in> set runs" "r' = (if P r then f r else r)"
    and q: "q \<in> set runs" "q' = (if P q then f q else q)"
    by (auto simp: change_runs_mem)
  have same: "is_pending a \<Longrightarrow> is_pending b \<Longrightarrow> run_key a = run_key b \<Longrightarrow> run_ID a = run_ID b"
    if "a \<in> set runs" "b \<in> set runs" for a b
    using inv that unfolding run_inv_def by blast
  have id: "run_ID r' = run_ID r" "run_ID q' = run_ID q" and key: "run_key r' = run_key r" "run_key q' = run_key q"
    by (simp_all add: r(2) q(2) ids keys)
  have keq: "run_key r = run_key q" using live key by simp
  have "run_ID r = run_ID q"
  proof (cases "P r"; cases "P q")
    assume "P r" "P q" then show ?thesis by (rule one)
  next
    assume P: "P r" "\<not> P q"
    then have "is_pending (f r)" "is_pending q" using live r(2) q(2) by simp_all
    from pending [OF r(1) q(1) P(1) this keq [symmetric]] show ?thesis by (rule sym)
  next
    assume P: "\<not> P r" "P q"
    then have "is_pending (f q)" "is_pending r" using live r(2) q(2) by simp_all
    from pending [OF q(1) r(1) P(2) this keq] show ?thesis .
  next
    assume "\<not> P r" "\<not> P q"
    then have "is_pending r" "is_pending q" using live r(2) q(2) by simp_all
    then show ?thesis by (rule same [OF r(1) q(1) _ _ keq])
  qed
  then show "run_ID r' = run_ID q'" unfolding id .
qed

text \<open>A change that leaves no row pending keeps the invariant.\<close>

lemma run_inv_quiet:
  assumes "run_inv runs" and "\<And>r. run_ID (f r) = run_ID r" and "\<And>r. run_key (f r) = run_key r"
    and "\<And>r q. P r \<Longrightarrow> P q \<Longrightarrow> run_ID r = run_ID q"
    and "\<And>r. P r \<Longrightarrow> is_pending (f r) \<Longrightarrow> is_pending r"
  shows "run_inv (change_runs P f runs)"
proof (rule run_inv_change [OF assms(1-4)])
  fix r q assume "r \<in> set runs" "q \<in> set runs" "P r" "is_pending (f r)" "is_pending q" "run_key q = run_key r"
  then show "run_ID q = run_ID r" using assms(1,5) unfolding run_inv_def by blast
qed

lemma run_inv_create:
  assumes inv: "run_inv runs" and fresh: "newID \<notin> run_ID ` set runs" and "is_pending run"
  shows "run_inv (snd (run_Create newID at run runs))"
proof (cases "find (\<lambda>r. run_of (run_TaskID run) (run_AgentID run) r \<and> is_pending r) runs")
  case (Some r)
  then show ?thesis using assms by (simp add: run_Create_def)
next
  case None
  then have none: "\<not> (is_pending r \<and> run_key r = run_key run)" if "r \<in> set runs" for r
    using None that unfolding find_None_iff run_of_def run_key_def by blast
  let ?new = "new_run newID at run"
  have "run_inv (runs @ [?new])"
    unfolding run_inv_def
  proof (intro conjI ballI impI)
    show "distinct (map run_ID (runs @ [?new]))" using inv fresh by (simp add: run_inv_def)
  next
    fix r q assume "r \<in> set (runs @ [?new])" "q \<in> set (runs @ [?new])"
      and live: "is_pending r \<and> is_pending q \<and> run_key r = run_key q"
    then consider "r \<in> set runs" "q \<in> set runs" | "r = ?new" "q = ?new"
      | "r = ?new" "q \<in> set runs" | "r \<in> set runs" "q = ?new"
      by auto
    then show "run_ID r = run_ID q"
    proof cases
      case 1 then show ?thesis using inv live unfolding run_inv_def by blast
    next
      case 2 then show ?thesis by (simp only:)
    next
      case 3 then show ?thesis using none [of q] live by simp
    next
      case 4 then show ?thesis using none [of r] live by simp
    qed
  qed
  then show ?thesis using assms(3) None unfolding run_Create_def Let_def by simp
qed

lemma run_inv_update:
  assumes "run_inv runs"
  shows "run_inv (snd (run_Update at run runs))"
proof (cases "find (\<lambda>r. run_ID r = run_ID run) runs")
  case None
  then show ?thesis using assms by (simp add: run_Update_def)
next
  case (Some row)
  have row: "row \<in> set runs" "run_ID row = run_ID run"
    using Some by (auto simp: find_Some_iff)
  let ?clash = "is_pending (written_run at run row) \<and> list_ex (\<lambda>q. run_ID q \<noteq> run_ID row \<and>
     run_of (run_TaskID row) (run_AgentID row) q \<and> is_pending q) runs"
  show ?thesis
  proof (cases ?clash)
    case True
    then show ?thesis using assms Some by (simp add: run_Update_def Let_def)
  next
    case False
    have "run_inv (change_runs (\<lambda>q. run_ID q = run_ID run) (written_run at run) runs)"
    proof (rule run_inv_change [OF assms])
      fix r q assume mem: "r \<in> set runs" "q \<in> set runs" and P: "run_ID r = run_ID run"
        and pend: "is_pending (written_run at run r)" "is_pending q" and key: "run_key q = run_key r"
      have r: "r = row" using run_inv_same [OF assms mem(1) row(1)] P row(2) by simp
      have "\<not> (run_ID q \<noteq> run_ID row \<and> run_of (run_TaskID row) (run_AgentID row) q \<and> is_pending q)"
        using False pend(1) mem(2) unfolding r list_ex_iff by blast
      then show "run_ID q = run_ID r" using pend(2) key unfolding r by (simp add: run_of_key run_key_def)
    qed simp_all
    then show ?thesis using Some assms unfolding run_Update_def Let_def by simp
  qed
qed

lemma run_inv_exec:
  assumes "run_inv (snd st)" and "fresh_op op st"
  shows "run_inv (snd (run_exec op st))"
proof -
  obtain at runs where st: "st = (at, runs)" by (cases st)
  have inv: "run_inv runs" using assms(1) st by simp
  show ?thesis
  proof (cases op)
    case (Queue newID run)
    then show ?thesis using assms(2) st run_inv_create [OF inv, of newID run] by (auto simp: list_ex_iff)
  next
    case (Cancel runID reason)
    have "run_inv (snd (CancelIfLive at runID reason runs))"
      unfolding CancelIfLive_def Let_def snd_conv
      by (rule run_inv_quiet [OF inv]) (simp_all add: run_key_def is_pending_def)
    then show ?thesis using Cancel st by simp
  next
    case (Beat runID)
    have "run_inv (change_runs (\<lambda>q. run_ID q = runID)
        (\<lambda>q. q\<lparr>run_UpdatedAt := (if is_live q then at else run_UpdatedAt q)\<rparr>) runs)"
      by (rule run_inv_quiet [OF inv]) (simp_all add: run_key_def is_pending_def)
    then show ?thesis using Beat st inv by (simp add: Touch_def split: option.splits)
  next
    case (Claim runID)
    have "run_inv (change_runs (\<lambda>r. run_ID r = runID)
        (\<lambda>r. r\<lparr>run_Status := TaskAgentRunStatusRunning, run_UpdatedAt := at\<rparr>) runs)"
      by (rule run_inv_quiet [OF inv]) (simp_all add: run_key_def is_pending_def)
    then show ?thesis using Claim st inv by (simp add: ClaimRun_def split: option.splits)
  next
    case (FailStale runID cutoff summary)
    have "run_inv (snd (FailIfStale at runID cutoff summary runs))"
      unfolding FailIfStale_def Let_def snd_conv
      by (rule run_inv_quiet [OF inv]) (simp_all add: run_key_def is_pending_def)
    then show ?thesis using FailStale st by simp
  qed (use inv st run_inv_update [OF inv] in simp_all)
qed

lemma heard_fresh: "heard_op op st \<Longrightarrow> fresh_op op st"
  by (cases op; cases st) simp_all

lemma reach_inv:
  assumes "reach ok st" and "\<And>op st. ok op st \<Longrightarrow> fresh_op op st"
  shows "run_inv (snd st)"
  using assms(1) by induction (simp_all add: assms(2) run_inv_exec)

lemma at_most_one:
  assumes "distinct (map run_ID runs)"
    and "\<And>r q. r \<in> set runs \<Longrightarrow> q \<in> set runs \<Longrightarrow> P r \<Longrightarrow> P q \<Longrightarrow> run_ID r = run_ID q"
  shows "length (filter P runs) \<le> 1"
  using assms
proof (induction runs)
  case (Cons r runs)
  show ?case
  proof (cases "P r")
    case True
    have "\<not> P q" if "q \<in> set runs" for q
    proof
      assume "P q"
      then have "run_ID r = run_ID q" using Cons.prems(2) [of r q] True that by simp
      then show False using Cons.prems(1) that by simp
    qed
    then have "filter P runs = []" by (simp add: filter_empty_conv)
    then show ?thesis using True by simp
  next
    case False
    have "length (filter P runs) \<le> 1"
    proof (rule Cons.IH)
      show "distinct (map run_ID runs)" using Cons.prems(1) by simp
      fix a b assume "a \<in> set runs" "b \<in> set runs" "P a" "P b"
      then show "run_ID a = run_ID b" by (intro Cons.prems(2) list.set_intros(2))
    qed
    then show ?thesis using False by simp
  qed
qed simp

text \<open>
  C20: However runs are queued, written, cancelled, claimed and failed, a task never has two queued
  runs for one agent.
\<close>
theorem one_queued_run:
  assumes "reach fresh_op (at, runs)"
  shows "length (filter (\<lambda>r. run_of taskID agentID r \<and> is_pending r) runs) \<le> 1"
proof (rule at_most_one)
  have inv: "run_inv runs" using reach_inv [OF assms] by simp
  then show "distinct (map run_ID runs)" by (simp add: run_inv_def)
  fix r q assume "r \<in> set runs" "q \<in> set runs"
    "run_of taskID agentID r \<and> is_pending r" "run_of taskID agentID q \<and> is_pending q"
  then have "is_pending r" "is_pending q" "run_key r = run_key q" by (simp_all add: run_of_key)
  then show "run_ID r = run_ID q" using inv \<open>r \<in> set runs\<close> \<open>q \<in> set runs\<close> unfolding run_inv_def by blast
qed

definition exec_all :: "run_op list \<Rightarrow> time \<times> TaskAgentRun list" where
  "exec_all ops = fold run_exec ops (0, [])"

text \<open>Whether a list of operations may happen, to be computed.\<close>

fun all_ok :: "(run_op \<Rightarrow> time \<times> TaskAgentRun list \<Rightarrow> bool) \<Rightarrow> run_op list \<Rightarrow> time \<times> TaskAgentRun list \<Rightarrow> bool" where
  "all_ok ok [] st = True"
| "all_ok ok (op # ops) st = (ok op st \<and> all_ok ok ops (run_exec op st))"

lemma all_ok_reach: "all_ok ok ops st \<Longrightarrow> reach ok st \<Longrightarrow> reach ok (fold run_exec ops st)"
proof (induction ops arbitrary: st)
  case (Cons op ops)
  then have "reach ok (run_exec op st)" by (auto intro: reach_step)
  then show ?case using Cons by simp
qed simp

text \<open>Three operations that queue two runs of a task, for two agents, and one twice.\<close>

definition two_agents :: "run_op list" where
  "two_agents =
     [Queue 1 (pending_run 10 20 30), Queue 2 (pending_run 10 20 31), Queue 3 (pending_run 10 21 30)]"

lemma one_queued_run_witness:
  "length (filter (\<lambda>r. run_of 10 20 r \<and> is_pending r) (snd (exec_all two_agents))) \<le> 1 \<and>
   length (snd (exec_all two_agents)) = 2"
proof
  have "reach fresh_op (exec_all two_agents)"
    unfolding exec_all_def by (rule all_ok_reach [OF _ reach_start]) code_simp
  then show "length (filter (\<lambda>r. run_of 10 20 r \<and> is_pending r) (snd (exec_all two_agents))) \<le> 1"
    by (intro one_queued_run [where at = "fst (exec_all two_agents)"]) simp
  show "length (snd (exec_all two_agents)) = 2" by code_simp
qed

section \<open>A cancelled run stays cancelled\<close>

definition cancelled :: "uuid \<Rightarrow> TaskAgentRun list \<Rightarrow> bool" where
  "cancelled runID runs \<longleftrightarrow> (\<exists>r \<in> set runs. run_ID r = runID \<and> run_Status r = TaskAgentRunStatusCancelled)"

lemma cancelled_change:
  assumes "cancelled runID runs" and "\<And>r. run_ID (f r) = run_ID r"
    and "\<And>r. P r \<Longrightarrow> run_Status r = TaskAgentRunStatusCancelled \<Longrightarrow> run_Status (f r) = TaskAgentRunStatusCancelled"
  shows "cancelled runID (change_runs P f runs)"
proof -
  obtain r where r: "r \<in> set runs" "run_ID r = runID" "run_Status r = TaskAgentRunStatusCancelled"
    using assms(1) by (auto simp: cancelled_def)
  let ?r = "if P r then f r else r"
  have "?r \<in> set (change_runs P f runs)" using r(1) unfolding change_runs_mem by blast
  moreover have "run_ID ?r = runID \<and> run_Status ?r = TaskAgentRunStatusCancelled"
    using r assms(2,3) by simp
  ultimately show ?thesis unfolding cancelled_def by blast
qed

lemma cancelled_not_live: "run_Status r = TaskAgentRunStatusCancelled \<Longrightarrow> \<not> is_live r"
  by (simp add: is_live_def is_pending_def is_running_def)

lemma cancelled_update:
  assumes "cancelled i runs"
  shows "cancelled i (snd (run_Update at run runs))"
proof -
  have "cancelled i (change_runs (\<lambda>q. run_ID q = run_ID run) (written_run at run) runs)"
    by (rule cancelled_change [OF assms]) (simp_all add: written_run_def)
  then show ?thesis using assms by (simp add: run_Update_def Let_def split: option.splits)
qed

lemma cancelled_create: "cancelled i runs \<Longrightarrow> cancelled i (snd (run_Create newID at run runs))"
  by (simp add: run_Create_def cancelled_def Let_def split: option.splits)

lemma cancelled_claim:
  assumes inv: "run_inv runs" and "cancelled i runs"
  shows "cancelled i (snd (ClaimRun at runID live runs))"
proof (cases "find (\<lambda>r. run_ID r = runID \<and> is_pending r) runs")
  case None
  then show ?thesis using assms by (simp add: ClaimRun_def)
next
  case (Some me)
  then have me: "me \<in> set runs" "run_ID me = runID" "is_pending me" by (auto simp: find_Some_iff)
  obtain r where r: "r \<in> set runs" "run_ID r = i" "run_Status r = TaskAgentRunStatusCancelled"
    using assms(2) by (auto simp: cancelled_def)
  have "run_ID r \<noteq> runID"
  proof
    assume "run_ID r = runID"
    then have "r = me" using run_inv_same [OF inv r(1) me(1)] me(2) by simp
    then show False using r(3) me(3) by (simp add: is_pending_def)
  qed
  then have "r \<in> set (change_runs (\<lambda>r. run_ID r = runID) f runs)" for f
    using r(1) unfolding change_runs_mem by force
  then have "cancelled i (change_runs (\<lambda>r. run_ID r = runID) f runs)" for f
    using r(2,3) unfolding cancelled_def by blast
  then show ?thesis using Some assms(2) by (simp add: ClaimRun_def)
qed

lemma cancelled_exec:
  assumes "cancelled i (snd st)" and inv: "run_inv (snd st)"
  shows "cancelled i (snd (run_exec op st))"
proof -
  obtain at runs where st: "st = (at, runs)" by (cases st)
  have c: "cancelled i runs" using assms(1) st by simp
  show ?thesis
  proof (cases op)
    case (Cancel runID reason)
    have "cancelled i (snd (CancelIfLive at runID reason runs))"
      unfolding CancelIfLive_def Let_def snd_conv by (rule cancelled_change [OF c]) simp_all
    then show ?thesis using Cancel st by simp
  next
    case (Beat runID)
    have "cancelled i (change_runs (\<lambda>q. run_ID q = runID)
        (\<lambda>q. q\<lparr>run_UpdatedAt := (if is_live q then at else run_UpdatedAt q)\<rparr>) runs)"
      by (rule cancelled_change [OF c]) simp_all
    then show ?thesis using Beat st c by (simp add: Touch_def split: option.splits)
  next
    case (FailStale runID cutoff summary)
    have "cancelled i (snd (FailIfStale at runID cutoff summary runs))"
      unfolding FailIfStale_def Let_def snd_conv
      by (rule cancelled_change [OF c]) (simp_all add: cancelled_not_live)
    then show ?thesis using FailStale st by simp
  qed (use c st cancelled_update [OF c] cancelled_create [OF c] cancelled_claim [OF _ c] inv in simp_all)
qed

text \<open>
  A run a human cancelled stays cancelled, whatever its owner writes on the way out, the
  reconciler decides, or a process that had it queued tries to claim.
\<close>
theorem cancelled_stays:
  assumes "reach fresh_op st" and "cancelled runID (snd st)"
    and "all_ok fresh_op ops st"
  shows "cancelled runID (snd (fold run_exec ops st))"
  using assms
proof (induction ops arbitrary: st)
  case (Cons op ops)
  have "reach fresh_op (run_exec op st)" using Cons.prems by (auto intro: reach_step)
  moreover have "cancelled runID (snd (run_exec op st))"
    by (rule cancelled_exec [OF Cons.prems(2) reach_inv [OF Cons.prems(1)]])
  ultimately show ?case using Cons.IH Cons.prems(3) by simp
qed simp

definition cancelled_while_running :: "run_op list" where
  "cancelled_while_running = [Queue 1 (pending_run 10 20 30), Claim 1, Cancel 1 ''stop'']"

definition unwinding :: "run_op list" where
  "unwinding =
     [Write ((pending_run 10 20 30)\<lparr>run_ID := 1, run_Status := TaskAgentRunStatusCompleted\<rparr>), Beat 1,
      Tick (10 ^ 12), FailStale 1 (10 ^ 12) ''stale'', Claim 1]"

lemma cancelled_stays_witness:
  "cancelled 1 (snd (fold run_exec unwinding (exec_all cancelled_while_running)))"
proof (rule cancelled_stays)
  show "reach fresh_op (exec_all cancelled_while_running)"
    unfolding exec_all_def by (rule all_ok_reach [OF _ reach_start]) code_simp
  show "cancelled 1 (snd (exec_all cancelled_while_running))" by code_simp
  show "all_ok fresh_op unwinding (exec_all cancelled_while_running)" by code_simp
qed

section \<open>One running run for a task\<close>

definition beating :: "time \<Rightarrow> TaskAgentRun list \<Rightarrow> bool" where
  "beating at runs \<longleftrightarrow> (\<forall>r \<in> set runs. is_running r \<longrightarrow> at - runLiveWithin < run_UpdatedAt r)"

definition running_inv :: "time \<Rightarrow> TaskAgentRun list \<Rightarrow> bool" where
  "running_inv at runs \<longleftrightarrow>
     beating at runs \<and>
     (\<forall>r \<in> set runs. \<forall>q \<in> set runs.
        is_running r \<and> is_running q \<and> run_TaskID r = run_TaskID q \<longrightarrow> run_ID r = run_ID q)"

lemma live_positive: "0 < runLiveWithin"
  by (simp add: runLiveWithin_def runHeartbeat_def)

text \<open>A change that starts nothing: what runs after it ran before, with its heartbeat kept or renewed.\<close>

lemma running_inv_change:
  assumes inv: "running_inv at runs" and ids: "\<And>r. run_ID (f r) = run_ID r"
    and tasks: "\<And>r. run_TaskID (f r) = run_TaskID r"
    and ran: "\<And>r. r \<in> set runs \<Longrightarrow> P r \<Longrightarrow> is_running (f r) \<Longrightarrow>
      is_running r \<and> (run_UpdatedAt (f r) = run_UpdatedAt r \<or> run_UpdatedAt (f r) = at)"
  shows "running_inv at (change_runs P f runs)"
proof -
  have traced: "\<exists>r \<in> set runs. is_running r \<and> run_ID r = run_ID r' \<and> run_TaskID r = run_TaskID r' \<and>
      at - runLiveWithin < run_UpdatedAt r'"
    if mem: "r' \<in> set (change_runs P f runs)" and runs': "is_running r'" for r'
  proof -
    obtain r where r: "r \<in> set runs" "r' = (if P r then f r else r)" using mem by (auto simp: change_runs_mem)
    have "is_running r \<and> (run_UpdatedAt r' = run_UpdatedAt r \<or> run_UpdatedAt r' = at)"
      using ran [OF r(1)] runs' r(2) by (simp split: if_splits)
    moreover have "is_running r \<Longrightarrow> at - runLiveWithin < run_UpdatedAt r"
      using inv r(1) by (simp add: running_inv_def beating_def)
    moreover have "run_ID r = run_ID r'" "run_TaskID r = run_TaskID r'" using r(2) ids tasks by simp_all
    ultimately show ?thesis using r(1) live_positive by auto
  qed
  show ?thesis
    unfolding running_inv_def beating_def
  proof (intro conjI ballI impI)
    fix r assume "r \<in> set (change_runs P f runs)" "is_running r"
    then show "at - runLiveWithin < run_UpdatedAt r" using traced by blast
  next
    fix r' q' assume mem: "r' \<in> set (change_runs P f runs)" "q' \<in> set (change_runs P f runs)"
      and live: "is_running r' \<and> is_running q' \<and> run_TaskID r' = run_TaskID q'"
    obtain r where r: "r \<in> set runs" "is_running r" "run_ID r = run_ID r'" "run_TaskID r = run_TaskID r'"
      using traced [OF mem(1)] live by blast
    obtain q where q: "q \<in> set runs" "is_running q" "run_ID q = run_ID q'" "run_TaskID q = run_TaskID q'"
      using traced [OF mem(2)] live by blast
    have "run_TaskID r = run_TaskID q" using live unfolding r(4) q(4) by blast
    then have "run_ID r = run_ID q" using inv r(1,2) q(1,2) unfolding running_inv_def by blast
    then show "run_ID r' = run_ID q'" unfolding r(3) q(3) .
  qed
qed

lemma running_inv_create:
  assumes "running_inv at runs" and "is_pending run"
  shows "running_inv at (snd (run_Create newID at run runs))"
proof -
  have new: "\<not> is_running (new_run newID at run)" using assms(2) by (simp add: is_running_def is_pending_def)
  have "r \<in> set (runs @ [new_run newID at run]) \<Longrightarrow> is_running r \<Longrightarrow> r \<in> set runs" for r
    using new by auto
  then have "running_inv at (runs @ [new_run newID at run])"
    using assms(1) unfolding running_inv_def beating_def by metis
  then show ?thesis using assms(1) by (simp add: run_Create_def Let_def split: option.splits)
qed

lemma running_inv_claim:
  assumes inv: "running_inv at runs" and ids: "run_inv runs"
  shows "running_inv at (snd (ClaimRun at runID runLiveWithin runs))"
proof (cases "find (\<lambda>r. run_ID r = runID \<and> is_pending r) runs")
  case None
  then show ?thesis using inv by (simp add: ClaimRun_def)
next
  case (Some me)
  then have me: "me \<in> set runs" "run_ID me = runID" "is_pending me" by (auto simp: find_Some_iff)
  let ?f = "\<lambda>r. r\<lparr>run_Status := TaskAgentRunStatusRunning, run_UpdatedAt := at\<rparr>"
  let ?runs = "change_runs (\<lambda>r. run_ID r = runID) ?f runs"
  show ?thesis
  proof (cases "task_live at (live_window runLiveWithin) (run_TaskID me) runs")
    case True
    then show ?thesis using Some inv by (simp add: ClaimRun_def)
  next
    case False
    have idle: "run_TaskID r \<noteq> run_TaskID me" if "r \<in> set runs" "is_running r" for r
      using that False inv live_positive
      by (auto simp: task_live_def live_window_def list_ex_iff running_inv_def beating_def)
    have traced: "(is_running r' \<and> r' \<in> set runs) \<or> r' = ?f me" if mem: "r' \<in> set ?runs" and run': "is_running r'" for r'
    proof -
      obtain r where r: "r \<in> set runs" "r' = (if run_ID r = runID then ?f r else r)"
        using mem unfolding change_runs_mem by (elim bexE)
      show ?thesis
      proof (cases "run_ID r = runID")
        case True
        then have "r = me" using run_inv_same [OF ids r(1) me(1)] me(2) by simp
        then show ?thesis using r(2) True by simp
      next
        case False
        then show ?thesis using r run' by simp
      qed
    qed
    have "running_inv at ?runs"
      unfolding running_inv_def beating_def
    proof (intro conjI ballI impI)
      fix r assume "r \<in> set ?runs" "is_running r"
      from traced [OF this] show "at - runLiveWithin < run_UpdatedAt r"
      proof
        assume "r = ?f me" then show ?thesis using live_positive by simp
      qed (use inv in \<open>simp add: running_inv_def beating_def\<close>)
    next
      fix r q assume mem: "r \<in> set ?runs" "q \<in> set ?runs"
        and live: "is_running r \<and> is_running q \<and> run_TaskID r = run_TaskID q"
      have old: "is_running a \<Longrightarrow> a \<in> set runs \<Longrightarrow> run_TaskID a \<noteq> run_TaskID (?f me)" for a
        using idle by simp
      show "run_ID r = run_ID q"
        using traced [OF mem(1)] traced [OF mem(2)] live old inv unfolding running_inv_def by metis
    qed
    then show ?thesis using Some False by (simp add: ClaimRun_def)
  qed
qed

lemma running_inv_exec:
  assumes inv: "running_inv at runs" and ids: "run_inv runs" and ok: "heard_op op (at, runs)"
  shows "running_inv (fst (run_exec op (at, runs))) (snd (run_exec op (at, runs)))"
proof (cases op)
  case (Tick t)
  then have "beating (max at t) runs" using ok by (simp add: beating_def list_all_iff)
  then show ?thesis using inv unfolding running_inv_def Tick run_exec.simps fst_conv snd_conv by blast
next
  case (Queue newID run)
  then show ?thesis using ok running_inv_create [OF inv] by simp
next
  case (Write run)
  have ran: "is_running r" if "r \<in> set runs" "run_ID r = run_ID run" "is_running (written_run at run r)" for r
  proof -
    have "is_running run" using that(3) by (simp add: is_running_def written_run_def split: if_splits)
    then obtain q where "q \<in> set runs" "run_ID q = run_ID run" "is_running q"
      using ok Write by (auto simp: list_ex_iff)
    then show ?thesis using run_inv_same [OF ids that(1)] that(2) by simp
  qed
  have "running_inv at (change_runs (\<lambda>q. run_ID q = run_ID run) (written_run at run) runs)"
  proof (rule running_inv_change [OF inv])
    fix r show "run_TaskID (written_run at run r) = run_TaskID r" by (simp add: written_run_def)
  qed (simp_all add: ran)
  then show ?thesis using Write inv by (simp add: run_Update_def Let_def split: option.splits)
next
  case (Cancel runID reason)
  have "running_inv at (snd (CancelIfLive at runID reason runs))"
    unfolding CancelIfLive_def Let_def snd_conv
    by (rule running_inv_change [OF inv]) (simp_all add: is_running_def)
  then show ?thesis using Cancel by simp
next
  case (Beat runID)
  have "running_inv at (change_runs (\<lambda>q. run_ID q = runID)
      (\<lambda>q. q\<lparr>run_UpdatedAt := (if is_live q then at else run_UpdatedAt q)\<rparr>) runs)"
    by (rule running_inv_change [OF inv]) (simp_all add: is_running_def)
  then show ?thesis using Beat inv by (simp add: Touch_def split: option.splits)
next
  case (Claim runID)
  then show ?thesis using running_inv_claim [OF inv ids] by simp
next
  case (FailStale runID cutoff summary)
  have "running_inv at (snd (FailIfStale at runID cutoff summary runs))"
    unfolding FailIfStale_def Let_def snd_conv
    by (rule running_inv_change [OF inv]) (simp_all add: is_running_def)
  then show ?thesis using FailStale by simp
qed

lemma reach_running: "reach heard_op st \<Longrightarrow> running_inv (fst st) (snd st)"
proof (induction rule: reach.induct)
  case (reach_step st op)
  have "run_inv (snd st)" by (rule reach_inv [OF reach_step.hyps(1) heard_fresh])
  then show ?case using running_inv_exec [of "fst st" "snd st" op] reach_step by simp
qed (simp add: running_inv_def beating_def)

text \<open>
  C27: While every running run keeps up its heartbeat and only the owner of a running run writes it
  as running, at most one run of a task is running, on however many machines the runs are claimed.
\<close>
theorem one_running_run:
  assumes "reach heard_op (at, runs)"
  shows "length (filter (\<lambda>r. run_TaskID r = taskID \<and> is_running r) runs) \<le> 1"
proof (rule at_most_one)
  show "distinct (map run_ID runs)" using reach_inv [OF assms heard_fresh] by (simp add: run_inv_def)
  fix r q assume mem: "r \<in> set runs" "q \<in> set runs"
    and live: "run_TaskID r = taskID \<and> is_running r" "run_TaskID q = taskID \<and> is_running q"
  have "running_inv at runs" using reach_running [OF assms] by simp
  moreover have "run_TaskID r = run_TaskID q" using live by simp
  ultimately show "run_ID r = run_ID q" using mem live unfolding running_inv_def by blast
qed

definition two_claims :: "run_op list" where
  "two_claims =
     [Queue 1 (pending_run 10 20 30), Queue 2 (pending_run 10 21 30), Claim 1,
      Tick (5 * runHeartbeat), Beat 1, Claim 2]"

lemma one_running_run_witness:
  "length (filter (\<lambda>r. run_TaskID r = 10 \<and> is_running r) (snd (exec_all two_claims))) \<le> 1 \<and>
   map run_Status (snd (exec_all two_claims)) = [TaskAgentRunStatusRunning, TaskAgentRunStatusPending]"
proof
  have "reach heard_op (exec_all two_claims)"
    unfolding exec_all_def by (rule all_ok_reach [OF _ reach_start]) code_simp
  then show "length (filter (\<lambda>r. run_TaskID r = 10 \<and> is_running r) (snd (exec_all two_claims))) \<le> 1"
    by (intro one_running_run [where at = "fst (exec_all two_claims)"]) simp
  show "map run_Status (snd (exec_all two_claims)) = [TaskAgentRunStatusRunning, TaskAgentRunStatusPending]"
    by code_simp
qed

text \<open>
  Without the second condition there can be two: the write of an owner the reconciler has given up on
  takes the row back from failed to running, beside the run that was claimed in its place.
\<close>

definition resurrection :: "run_op list" where
  "resurrection =
     [Queue 1 (pending_run 10 20 30), Claim 1, Tick (20 * runHeartbeat),
      FailStale 1 (2 * runHeartbeat) ''no progress'', Queue 2 (pending_run 10 20 31), Claim 2,
      Write ((pending_run 10 20 30)\<lparr>run_ID := 1, run_Status := TaskAgentRunStatusRunning\<rparr>)]"

lemma failed_run_resurrected:
  "map run_Status (snd (exec_all resurrection)) = [TaskAgentRunStatusRunning, TaskAgentRunStatusRunning] \<and>
   map run_TaskID (snd (exec_all resurrection)) = [10, 10]"
  by code_simp

end
