(* ===== verification/Loop_Guards.thy ===== *)
theory Loop_Guards
  imports Events Run_Store
begin

text \<open>
  The two brakes on work that goes round in circles: \<open>ReviewLoopGuard\<close> of
  \<open>server/internal/application/board/review_loop_guard.go\<close>, which parks a card that keeps coming
  back to need_revision, and \<open>CriteriaLoopGuard\<close> of \<open>criteria_loop_guard.go\<close>, which parks one whose
  runs keep failing on the same open criteria. Stores and texts are ports; a guard that was not
  built, or lacks a port, is \<open>None\<close>.
\<close>

section \<open>Ports\<close>

record CreateTaskCommentRequest =
  cm_AuthorType :: string
  cm_AuthorID :: string
  cm_Content :: string
  cm_Informational :: bool

definition system_comment :: "string \<Rightarrow> CreateTaskCommentRequest" where
  "system_comment content =
     \<lparr>cm_AuthorType = ''system'', cm_AuthorID = '''', cm_Content = content, cm_Informational = False\<rparr>"

type_synonym 's commenter = "uuid \<Rightarrow> uuid \<Rightarrow> CreateTaskCommentRequest \<Rightarrow> 's \<Rightarrow> 's"

record 's ReviewLoopGuard =
  lg_ListByTask :: "('s \<Rightarrow> uuid \<Rightarrow> int \<Rightarrow> go_error + BoardEvent list) option"
  lg_BlockOnResource ::
    "(uuid \<Rightarrow> uuid \<Rightarrow> string \<Rightarrow> string \<Rightarrow> 's \<Rightarrow> (go_error + TaskColumn) \<times> 's) option"
  lg_comments :: "'s commenter option"
  lg_parks :: "'s ParkJournal option"
  lg_detail :: "int \<Rightarrow> string"
  lg_comment :: "int \<Rightarrow> string"

record 's CriteriaLoopGuard = "'s ReviewLoopGuard" +
  cg_ListTaskCriteria :: "('s \<Rightarrow> uuid \<Rightarrow> go_error + AcceptanceCriterion list) option"
  cg_stillOpen :: string
  cg_footer :: string

section \<open>Review ping-pong\<close>

definition maxReviewLoopEntries :: int where "maxReviewLoopEntries = 3"
definition reviewLoopHistoryDepth :: int where "reviewLoopHistoryDepth = 500"

definition loop_park ::
  "'s ReviewLoopGuard \<Rightarrow> uuid \<Rightarrow> BoardTask \<Rightarrow> int \<Rightarrow> 's \<Rightarrow> bool \<times> 's" where
  "loop_park g repositoryID task entries s =
     (case lg_BlockOnResource g of
        None \<Rightarrow> (False, s)
      | Some blockOn \<Rightarrow>
          if bt_Column task = TaskColumnBlocked then (False, s)
          else case blockOn repositoryID (bt_ID task) ResourceHumanDecision (lg_detail g entries) s of
              (Inl err, s') \<Rightarrow> (False, s')
            | (Inr previous, s') \<Rightarrow>
                (True, journal_Record (lg_parks g) repositoryID task previous ResourceHumanDecision
                         MoveReasonReviewLoopParked s'))"

definition loop_comment :: "'s ReviewLoopGuard \<Rightarrow> uuid \<Rightarrow> BoardTask \<Rightarrow> int \<Rightarrow> 's \<Rightarrow> 's" where
  "loop_comment g repositoryID task entries s =
     (case lg_comments g of
        None \<Rightarrow> s
      | Some addComment \<Rightarrow>
          addComment repositoryID (bt_ID task) (system_comment (lg_comment g entries)) s)"

definition ReviewLoop_Hold ::
  "'s ReviewLoopGuard option \<Rightarrow> uuid \<Rightarrow> BoardTask \<Rightarrow> uuid \<Rightarrow> 's \<Rightarrow> bool \<times> 's" where
  "ReviewLoop_Hold guard repositoryID task currentEventID s =
     (case guard of
        None \<Rightarrow> (False, s)
      | Some g \<Rightarrow>
          (case lg_ListByTask g of
             None \<Rightarrow> (False, s)
           | Some listByTask \<Rightarrow>
               (case listByTask s (bt_ID task) reviewLoopHistoryDepth of
                  Inl err \<Rightarrow> (False, s)
                | Inr history \<Rightarrow>
                    if currentEventID = uuid_Nil \<or> \<not> containsEvent history currentEventID then (False, s)
                    else let entries = reviewLoopEntries history in
                      if entries < maxReviewLoopEntries then (False, s)
                      else case loop_park g repositoryID task entries s of
                          (False, s') \<Rightarrow> (False, s')
                        | (True, s') \<Rightarrow> (True, loop_comment g repositoryID task entries s'))))"

section \<open>Runs that leave their criteria open\<close>

definition maxConsecutiveFailedRuns :: nat where "maxConsecutiveFailedRuns = 3"

definition unsettledCriteriaMarker :: string where
  "unsettledCriteriaMarker = ''unsettled acceptance criteria''"

definition isUnsettledCriteriaRun :: "TaskAgentRun \<Rightarrow> bool" where
  "isUnsettledCriteriaRun run \<longleftrightarrow>
     run_Status run = TaskAgentRunStatusFailed \<and> prefix unsettledCriteriaMarker (run_Summary run)"

definition allUnsettledCriteriaFailures :: "TaskAgentRun list \<Rightarrow> bool" where
  "allUnsettledCriteriaFailures runs =
     (if runs = [] then False else list_all isUnsettledCriteriaRun runs)"

definition openCriteria :: "'s CriteriaLoopGuard \<Rightarrow> uuid \<Rightarrow> 's \<Rightarrow> AcceptanceCriterion list" where
  "openCriteria g taskID s =
     (case cg_ListTaskCriteria g of
        None \<Rightarrow> []
      | Some listTaskCriteria \<Rightarrow>
          (case listTaskCriteria s taskID of
             Inl err \<Rightarrow> []
           | Inr items \<Rightarrow> filter (\<lambda>c. \<not> Settled c) items))"

definition criteriaLoopParkComment :: "'s CriteriaLoopGuard \<Rightarrow> int \<Rightarrow> AcceptanceCriterion list \<Rightarrow> string" where
  "criteriaLoopParkComment g runCount opens =
     lg_comment g runCount @ [CHR 0x0A, CHR 0x0A] @
     (if opens \<noteq> [] then cg_stillOpen g @ [CHR 0x0A] @
        concat (map (\<lambda>c. ''- '' @ crit_Text c @ [CHR 0x0A]) opens) @ [CHR 0x0A] else '''') @
     cg_footer g"

definition criteria_comment ::
  "'s CriteriaLoopGuard \<Rightarrow> uuid \<Rightarrow> BoardTask \<Rightarrow> int \<Rightarrow> AcceptanceCriterion list \<Rightarrow> 's \<Rightarrow> 's" where
  "criteria_comment g repositoryID task runCount opens s =
     (case lg_comments g of
        None \<Rightarrow> s
      | Some addComment \<Rightarrow>
          addComment repositoryID (bt_ID task)
            (system_comment (criteriaLoopParkComment g runCount opens)) s)"

definition criteria_park ::
  "'s CriteriaLoopGuard \<Rightarrow> uuid \<Rightarrow> BoardTask \<Rightarrow> int \<Rightarrow> 's \<Rightarrow> bool \<times> 's" where
  "criteria_park g repositoryID task runCount s =
     (case lg_BlockOnResource g of
        None \<Rightarrow> (False, s)
      | Some blockOn \<Rightarrow>
          if bt_Column task = TaskColumnBlocked then (False, s)
          else case blockOn repositoryID (bt_ID task) ResourceHumanDecision (lg_detail g runCount) s of
              (Inl err, s') \<Rightarrow> (False, s')
            | (Inr previous, s') \<Rightarrow>
                (True, journal_Record (lg_parks g) repositoryID task previous ResourceHumanDecision
                         MoveReasonCriteriaLoopParked s'))"

text \<open>The history the guard asks for, and whether a human has spoken since the streak began.\<close>

definition streak_unbroken :: "BoardEvent list \<Rightarrow> time \<Rightarrow> bool" where
  "streak_unbroken history began =
     (if reviewLoopHistoryDepth \<le> int (length history) \<and> \<not> historyReaches history began then False
      else case lastHumanEventAt history of
          None \<Rightarrow> True
        | Some at \<Rightarrow> at < began)"

definition CriteriaLoop_Hold ::
  "'s CriteriaLoopGuard option \<Rightarrow> uuid \<Rightarrow> BoardTask \<Rightarrow> TaskAgentRun list \<Rightarrow> 's \<Rightarrow> bool \<times> 's" where
  "CriteriaLoop_Hold guard repositoryID task runs s =
     (case guard of
        None \<Rightarrow> (False, s)
      | Some g \<Rightarrow>
          (case (lg_ListByTask g, lg_BlockOnResource g) of
             (Some listByTask, Some blockOn) \<Rightarrow>
               (if length runs < maxConsecutiveFailedRuns \<or> \<not> allUnsettledCriteriaFailures runs
                then (False, s)
                else case listByTask s (bt_ID task) reviewLoopHistoryDepth of
                    Inl err \<Rightarrow> (False, s)
                  | Inr history \<Rightarrow>
                      if \<not> streak_unbroken history (run_CreatedAt (last runs)) then (False, s)
                      else let opens = openCriteria g (bt_ID task) s in
                        (case criteria_park g repositoryID task (int (length runs)) s of
                           (False, s') \<Rightarrow> (False, s')
                         | (True, s') \<Rightarrow>
                             (True, criteria_comment g repositoryID task (int (length runs)) opens s')))
           | _ \<Rightarrow> (False, s)))"

section \<open>When a guard holds a card\<close>

text \<open>
  C28: The review guard holds a card exactly when it has come back to need_revision three times since
  a human last touched it, the move at hand is in the history it reads, and the card can be parked.
\<close>
theorem review_loop_held:
  assumes "lg_ListByTask g = Some listByTask" and "lg_BlockOnResource g = Some blockOn"
    and "listByTask s (bt_ID task) reviewLoopHistoryDepth = Inr history"
  shows "fst (ReviewLoop_Hold (Some g) repositoryID task currentEventID s) \<longleftrightarrow>
    currentEventID \<noteq> uuid_Nil \<and> list_ex (\<lambda>e. ev_ID e = currentEventID) history \<and>
    3 \<le> length (filter sent_back (takeWhile (\<lambda>e. \<not> human_event e) (rev history))) \<and>
    bt_Column task \<noteq> TaskColumnBlocked \<and>
    \<not> isl (fst (blockOn repositoryID (bt_ID task) ResourceHumanDecision
      (lg_detail g (reviewLoopEntries history)) s))"
  using assms
  by (auto simp: ReviewLoop_Hold_def containsEvent_def maxReviewLoopEntries_def loop_park_def Let_def
      reviewLoopEntries_count split: prod.splits sum.splits bool.splits)

lemma review_loop_lets_go:
  assumes "\<not> fst (ReviewLoop_Hold guard repositoryID task eventID s)"
    and "\<And>g blockOn r i res d s err s'. guard = Some g \<Longrightarrow> lg_BlockOnResource g = Some blockOn \<Longrightarrow>
      blockOn r i res d s = (Inl err, s') \<Longrightarrow> s' = s"
  shows "snd (ReviewLoop_Hold guard repositoryID task eventID s) = s"
  using assms
  by (simp add: ReviewLoop_Hold_def loop_park_def Let_def split: option.splits sum.splits prod.splits bool.splits if_splits)
    blast

text \<open>Three returns with a comment of a human before the second: the guard waits for one more.\<close>

definition return_event :: "uuid \<Rightarrow> BoardEvent" where
  "return_event i =
     \<lparr>ev_ID = i, ev_RepositoryID = 1, ev_TaskID = 2, ev_EventType = BoardEventTaskMoved,
      ev_Payload = Some [(''from_column'', PString TaskColumnCodeReview),
        (''to_column'', PString TaskColumnNeedRevision), (EventPayloadActor, PString EventActorAgent)],
      ev_ActorUserID = None, ev_CreatedAt = uint i\<rparr>"

definition human_comment :: "uuid \<Rightarrow> BoardEvent" where
  "human_comment i =
     \<lparr>ev_ID = i, ev_RepositoryID = 1, ev_TaskID = 2, ev_EventType = BoardEventTaskCommented,
      ev_Payload = Some [(''author_type'', PString ''user'')], ev_ActorUserID = None, ev_CreatedAt = uint i\<rparr>"

definition small_guard :: "BoardEvent list \<Rightarrow> unit ReviewLoopGuard" where
  "small_guard history =
     \<lparr>lg_ListByTask = Some (\<lambda>s taskID limit. Inr history),
      lg_BlockOnResource = Some (\<lambda>r t res d s. (Inr TaskColumnNeedRevision, s)),
      lg_comments = None, lg_parks = None, lg_detail = (\<lambda>n. ''''), lg_comment = (\<lambda>n. '''')\<rparr>"

definition returned_card :: BoardTask where
  "returned_card = zero_BoardTask\<lparr>bt_ID := 2, bt_RepositoryID := 1, bt_Column := TaskColumnNeedRevision\<rparr>"

lemma review_loop_held_witness:
  "fst (ReviewLoop_Hold (Some (small_guard (map return_event [1, 2, 3]))) 1 returned_card 3 ()) \<and>
   \<not> fst (ReviewLoop_Hold (Some (small_guard [return_event 1, human_comment 2, return_event 3, return_event 4]))
       1 returned_card 4 ())"
proof
  have three: "length (filter sent_back (takeWhile (\<lambda>e. \<not> human_event e) (rev (map return_event [1, 2, 3])))) = 3"
    by code_simp
  show "fst (ReviewLoop_Hold (Some (small_guard (map return_event [1, 2, 3]))) 1 returned_card 3 ())"
    by (subst review_loop_held [OF _ _ , where history = "map return_event [1, 2, 3]"
          and listByTask = "\<lambda>s taskID limit. Inr (map return_event [1, 2, 3])"
          and blockOn = "\<lambda>r t res d s. (Inr TaskColumnNeedRevision, s)"])
      (use three in \<open>simp_all add: small_guard_def return_event_def returned_card_def uuid_Nil_def col_defs\<close>)
  show "\<not> fst (ReviewLoop_Hold (Some (small_guard [return_event 1, human_comment 2, return_event 3, return_event 4]))
       1 returned_card 4 ())"
    by code_simp
qed

text \<open>
  The history the store hands out is the oldest part of it, so the guard never holds a card with more
  events than the window: the move at hand is not in it.
\<close>

lemma long_history_disarms:
  assumes "sorted (map ev_CreatedAt (events @ [e]))" and "500 \<le> length (filter (\<lambda>x. ev_TaskID x = bt_ID task) events)"
    and "ev_ID e \<notin> ev_ID ` set events"
    and "lg_ListByTask g = Some (\<lambda>s taskID limit. Inr (event_ListByTask taskID limit (events @ [e])))"
  shows "ReviewLoop_Hold (Some g) repositoryID task (ev_ID e) s = (False, s)"
proof -
  let ?mine = "\<lambda>x. ev_TaskID x = bt_ID task"
  have "event_ListByTask (bt_ID task) reviewLoopHistoryDepth (events @ [e]) = take 500 (filter ?mine (events @ [e]))"
    by (rule ListByTask_oldest [OF assms(1)]) (simp add: reviewLoopHistoryDepth_def)
  also have "\<dots> = take 500 (filter ?mine events)" using assms(2) by simp
  finally have window: "event_ListByTask (bt_ID task) reviewLoopHistoryDepth (events @ [e]) =
      take 500 (filter ?mine events)" .
  have "\<not> containsEvent (take 500 (filter ?mine events)) (ev_ID e)"
  proof
    assume "containsEvent (take 500 (filter ?mine events)) (ev_ID e)"
    then obtain x where "x \<in> set (take 500 (filter ?mine events))" and id: "ev_ID x = ev_ID e"
      unfolding containsEvent_def list_ex_iff by (elim bexE)
    from this(1) have "x \<in> set (filter ?mine events)" by (rule in_set_takeD)
    then have "x \<in> set events" by simp
    then have "ev_ID e \<in> ev_ID ` set events" by (rule image_eqI [rotated]) (rule id [symmetric])
    then show False using assms(3) by blast
  qed
  then show ?thesis using assms(4) window by (simp add: ReviewLoop_Hold_def)
qed

lemma criteria_loop_held:
  assumes "fst (CriteriaLoop_Hold (Some g) repositoryID task runs s)"
  shows "3 \<le> length runs \<and> list_all isUnsettledCriteriaRun runs \<and> bt_Column task \<noteq> TaskColumnBlocked"
  using assms
  by (auto simp: CriteriaLoop_Hold_def criteria_park_def allUnsettledCriteriaFailures_def
      maxConsecutiveFailedRuns_def split: option.splits sum.splits if_splits prod.splits)

end
