(* ===== verification/Dispatcher.thy ===== *)
theory Dispatcher
  imports Loop_Guards Relations Workflow
begin

text \<open>
  Who starts work when something happens to a card: \<open>Dispatcher\<close> of
  \<open>server/internal/application/board/dispatcher.go\<close>, the work-order park of \<open>work_order.go\<close> and the
  sweeper that ends it, \<open>work_order_sweeper.go\<close>.

  Stores, the runner's queue and the notifiers are ports over one state; a dependency the service can
  be built without is an \<open>option\<close>, and an error the source only logs returns the state. \<open>wf, wfOK\<close> of
  the source is an \<open>option\<close>: \<open>None\<close> is a workflow that could not be read. \<open>uuid.Parse\<close> is an
  argument. The goroutine of the sweeper is its body, \<open>sweep\<close>.
\<close>

section \<open>Ports\<close>

record DispatchInput =
  di_RepositoryID :: uuid
  di_Task :: BoardTask
  di_EventType :: BoardEventType
  di_Payload :: "event_payload option"
  di_SkipPipelineGate :: bool

record RunJob =
  job_Run :: TaskAgentRun
  job_Event :: BoardEvent
  job_Task :: BoardTask
  job_RepositoryID :: uuid
  job_EnteredFrom :: TaskColumn
  job_ColumnInstruction :: string

record AgentColumnInstruction =
  aci_ColumnSlug :: string
  aci_Instruction :: string

record 's WorkOrder =
  wo_ListBlockingSources :: "('s \<Rightarrow> uuid \<Rightarrow> go_error + BoardTask list) option"
  wo_MarkWorkOrderWaiting :: "(uuid \<Rightarrow> uuid \<Rightarrow> string \<Rightarrow> 's \<Rightarrow> go_error option \<times> 's) option"
  wo_comments :: "'s commenter option"
  wo_parked :: "('s \<Rightarrow> 's) option"
  wo_parkPrefix :: string
  wo_parkSuffix :: string

record 's Dispatcher =
  dp_enabled :: bool
  dp_pipelineGate :: bool
  dp_actorUserID :: string
  dp_parseUUID :: "string \<Rightarrow> uuid option"
  dp_createEvent :: "(BoardEvent \<Rightarrow> 's \<Rightarrow> (go_error + BoardEvent) \<times> 's) option"
  dp_createRun :: "TaskAgentRun \<Rightarrow> 's \<Rightarrow> (go_error + TaskAgentRun) \<times> 's"
  dp_HasPendingForTask :: "'s \<Rightarrow> uuid \<Rightarrow> uuid \<Rightarrow> go_error + bool"
  dp_HasLiveForTask :: "'s \<Rightarrow> uuid \<Rightarrow> uuid \<Rightarrow> go_error + bool"
  dp_Enqueue :: "(RunJob \<Rightarrow> 's \<Rightarrow> 's) option"
  dp_AgentsForColumn :: "'s \<Rightarrow> string \<Rightarrow> string \<Rightarrow> go_error + uuid list"
  dp_ListAgentColumnInstructions :: "'s \<Rightarrow> uuid \<Rightarrow> go_error + AgentColumnInstruction list"
  dp_RecordMove :: "(uuid \<Rightarrow> uuid \<Rightarrow> string \<Rightarrow> time \<Rightarrow> 's \<Rightarrow> 's) option"
  dp_AttachAgent :: "uuid \<Rightarrow> uuid \<Rightarrow> 's \<Rightarrow> 's"
  dp_TaskMoved :: "(BoardTask \<Rightarrow> 's \<Rightarrow> 's) option"
  dp_TaskResumed :: "BoardTask \<Rightarrow> string \<Rightarrow> 's \<Rightarrow> 's"
  dp_taskReleased :: "(BoardTask \<Rightarrow> 's \<Rightarrow> 's) option"
  dp_workOrder :: "'s WorkOrder option"
  dp_reviewLoop :: "'s ReviewLoopGuard option"
  dp_Workflow :: "('s \<Rightarrow> TaskType \<Rightarrow> go_error + Workflow) option"

section \<open>The work-order park\<close>

definition blockerLabels :: "BoardTask list \<Rightarrow> string list" where
  "blockerLabels blockers =
     map (\<lambda>b. RelationLabel (bt_Key b) (bt_Title b) (bt_ID b) @ '' ['' @ bt_Column b @ '']'') blockers"

fun str_Join :: "string \<Rightarrow> string list \<Rightarrow> string" where
  "str_Join sep [] = ''''"
| "str_Join sep [s] = s"
| "str_Join sep (s # ss) = s @ sep @ str_Join sep ss"

definition workOrderParkComment :: "'s WorkOrder \<Rightarrow> BoardTask list \<Rightarrow> string" where
  "workOrderParkComment w blockers =
     wo_parkPrefix w @ '' '' @ str_Join '', '' (blockerLabels blockers) @ '' '' @ wo_parkSuffix w"

definition Blockers :: "'s WorkOrder option \<Rightarrow> 's \<Rightarrow> uuid \<Rightarrow> go_error + BoardTask list" where
  "Blockers workOrder s taskID =
     (case Option.bind workOrder wo_ListBlockingSources of
        None \<Rightarrow> Inr []
      | Some listBlockingSources \<Rightarrow>
          if taskID = uuid_Nil then Inr [] else listBlockingSources s taskID)"

definition Park ::
  "'s WorkOrder option \<Rightarrow> uuid \<Rightarrow> BoardTask \<Rightarrow> BoardTask list \<Rightarrow> 's \<Rightarrow> go_error option \<times> 's" where
  "Park workOrder repositoryID task blockers s =
     (case workOrder of
        None \<Rightarrow> (None, s)
      | Some w \<Rightarrow>
          (case wo_MarkWorkOrderWaiting w of
             None \<Rightarrow> (None, s)
           | Some mark \<Rightarrow>
               if bt_BlockedResource task = ResourceWorkOrder then (None, s)
               else case mark repositoryID (bt_ID task)
                      (''waiting for '' @ str_Join '', '' (blockerLabels blockers) @ '' to finish'') s of
                   (Some err, s1) \<Rightarrow> (Some err, s1)
                 | (None, s1) \<Rightarrow>
                     let s2 = (case wo_comments w of
                           None \<Rightarrow> s1
                         | Some addComment \<Rightarrow>
                             addComment repositoryID (bt_ID task)
                               (system_comment (workOrderParkComment w blockers)) s1)
                     in (None, case wo_parked w of None \<Rightarrow> s2 | Some hook \<Rightarrow> hook s2)))"

definition resumed_resource :: "DispatchInput \<Rightarrow> string" where
  "resumed_resource input =
     (case di_Payload input of None \<Rightarrow> '''' | Some p \<Rightarrow> string_or_empty p EventPayloadResumedResource)"

definition workOrderGateApplies :: "Workflow option \<Rightarrow> DispatchInput \<Rightarrow> bool" where
  "workOrderGateApplies flow input =
     (if (case flow of None \<Rightarrow> False
          | Some w \<Rightarrow> \<not> wf_Has w (bt_Column (di_Task input)) BehaviourBlockOnDependencies) then False
      else if resumed_resource input = ResourceWorkOrder then False
      else True)"

section \<open>What a dispatch decides\<close>

definition workflowFor :: "'s Dispatcher \<Rightarrow> 's \<Rightarrow> TaskType \<Rightarrow> Workflow option" where
  "workflowFor d s taskType =
     (case dp_Workflow d of
        None \<Rightarrow> None
      | Some read \<Rightarrow> (case read s taskType of Inl err \<Rightarrow> None | Inr w \<Rightarrow> Some w))"

definition pipelineGateDecision :: "'s Dispatcher \<Rightarrow> Workflow option \<Rightarrow> DispatchInput \<Rightarrow> bool \<times> string" where
  "pipelineGateDecision d flow input =
     (if \<not> dp_pipelineGate d \<or> di_SkipPipelineGate input \<or> di_EventType input \<noteq> BoardEventTaskMoved
      then (False, '''')
      else case flow of
          None \<Rightarrow> (True, '''')
        | Some w \<Rightarrow>
            if \<not> wf_Has w (bt_Column (di_Task input)) BehaviourWaitForCI then (False, '''')
            else (True, ''''))"

definition informationalComment :: "event_payload \<Rightarrow> bool" where
  "informationalComment payload \<longleftrightarrow> map_of payload EventPayloadInformational = Some (PBool True)"

definition parkResume :: "event_payload \<Rightarrow> string option" where
  "parkResume payload =
     (if string_or_empty payload ''resumed'' = '''' then None
      else if string_or_empty payload ''resource'' = '''' then None
      else Some (string_or_empty payload ''resource''))"

definition isDispatchSuspendedTask :: "Workflow option \<Rightarrow> BoardTask \<Rightarrow> bool" where
  "isDispatchSuspendedTask flow task =
     (if bt_Column task \<in> {TaskColumnBlocked, TaskColumnBacklog, TaskColumnReleased} then True
      else if bt_Column task = TaskColumnDone
      then (case flow of None \<Rightarrow> True | Some w \<Rightarrow> wf_Has w TaskColumnDone BehaviourDispatchSuspended)
      else False)"

definition doneMergeWake :: "Workflow option \<Rightarrow> DispatchInput \<Rightarrow> bool" where
  "doneMergeWake flow input =
     (let task = di_Task input in
      if bt_Column task \<noteq> TaskColumnDone then False
      else if (case flow of None \<Rightarrow> True
               | Some w \<Rightarrow> \<not> wf_Has w TaskColumnDone BehaviourMergePROnEnter) then False
      else if di_EventType input \<noteq> BoardEventTaskMoved \<and> di_EventType input \<noteq> BoardEventTaskCreated
      then False
      else if TrimSpace (bt_PRURL task) = '''' then False
      else TrimSpace (bt_MergeCommitSHA task) = '''')"

definition deployWatchWake :: "Workflow option \<Rightarrow> DispatchInput \<Rightarrow> bool" where
  "deployWatchWake flow input =
     (let task = di_Task input in
      if bt_Column task \<noteq> TaskColumnDone \<and> bt_Column task \<noteq> TaskColumnReleased then False
      else if (case flow of None \<Rightarrow> True
               | Some w \<Rightarrow> \<not> wf_Has w (bt_Column task) BehaviourWatchDeployOnResume) then False
      else if di_EventType input \<noteq> BoardEventTaskMoved then False
      else if di_Payload input = None then False
      else resumed_resource input = ResourceDeployWatch \<or> resumed_resource input = ResourceReleaseWatch)"

definition reviewLoopGateApplies :: "DispatchInput \<Rightarrow> bool" where
  "reviewLoopGateApplies input =
     (if di_EventType input \<noteq> BoardEventTaskMoved then False
      else if bt_Column (di_Task input) \<noteq> TaskColumnNeedRevision then False
      else (case di_Payload input of
              None \<Rightarrow> False
            | Some p \<Rightarrow> movedIntoColumn p = Some TaskColumnNeedRevision))"

definition actorAgentIDFromPayload :: "(string \<Rightarrow> uuid option) \<Rightarrow> event_payload \<Rightarrow> uuid" where
  "actorAgentIDFromPayload parse payload =
     (let raw = (case payload_string payload ''actor_agent_id'' of
             Some v \<Rightarrow> Some v
           | None \<Rightarrow>
               if string_or_empty payload ''author_type'' = ''agent''
               then payload_string payload ''author_id'' else None)
      in case raw of
           None \<Rightarrow> uuid_Nil
         | Some text \<Rightarrow> (case parse text of None \<Rightarrow> uuid_Nil | Some i \<Rightarrow> i))"

definition isHandoffGateColumn :: "Workflow option \<Rightarrow> TaskColumn \<Rightarrow> bool" where
  "isHandoffGateColumn flow col =
     (case flow of None \<Rightarrow> True | Some w \<Rightarrow> wf_Has w col BehaviourRouteToSubscribers)"

definition columnInstructionForAgent :: "'s Dispatcher \<Rightarrow> 's \<Rightarrow> uuid \<Rightarrow> TaskColumn \<Rightarrow> string" where
  "columnInstructionForAgent d s agentID column =
     (case dp_ListAgentColumnInstructions d s agentID of
        Inl err \<Rightarrow> ''''
      | Inr instructions \<Rightarrow>
          (case find (\<lambda>ins. aci_ColumnSlug ins = column) instructions of
             None \<Rightarrow> '''' | Some ins \<Rightarrow> aci_Instruction ins))"

definition resolveAgents ::
  "'s Dispatcher \<Rightarrow> Workflow option \<Rightarrow> DispatchInput \<Rightarrow> 's \<Rightarrow> go_error + uuid list" where
  "resolveAgents d flow input s =
     (let task = di_Task input; e = di_EventType input in
      if e = BoardEventTaskCommented \<or> e = BoardEventTaskCreated \<or> e = BoardEventTaskMoved
      then (if isHandoffGateColumn flow (bt_Column task) \<and> \<not> AssigneeOnlyColumn (bt_Column task)
            then dp_AgentsForColumn d s (bt_Column task) (bt_TaskType task)
            else case bt_AssigneeAgentID task of
                Some agent \<Rightarrow> Inr [agent]
              | None \<Rightarrow>
                  if AssigneeOnlyColumn (bt_Column task) \<or>
                     (case flow of None \<Rightarrow> False | Some w \<Rightarrow> ReservedForRole w)
                  then Inr []
                  else dp_AgentsForColumn d s (bt_Column task) (bt_TaskType task))
      else if e = BoardEventTaskAssigned
      then (case bt_AssigneeAgentID task of None \<Rightarrow> Inr [] | Some agent \<Rightarrow> Inr [agent])
      else Inr [])"

definition alreadyWorkingOn ::
  "'s Dispatcher \<Rightarrow> 's \<Rightarrow> BoardEventType \<Rightarrow> uuid \<Rightarrow> uuid \<Rightarrow> bool \<Rightarrow> go_error + bool" where
  "alreadyWorkingOn d s eventType taskID agentID terminalWake =
     (if terminalWake then dp_HasLiveForTask d s taskID agentID
      else if eventType = BoardEventTaskCommented \<or> eventType = BoardEventTaskAssigned
      then dp_HasLiveForTask d s taskID agentID
      else dp_HasPendingForTask d s taskID agentID)"

section \<open>Dispatch\<close>

definition set_payload :: "string \<Rightarrow> payload_value \<Rightarrow> event_payload \<Rightarrow> event_payload" where
  "set_payload key v payload = AList.update key v payload"

text \<open>
  The payload gains the card's column and assignee. It is the caller's map where the caller gave one,
  so the later tests on \<open>input.Payload\<close> see the additions.
\<close>

definition dispatch_payload :: "DispatchInput \<Rightarrow> string \<Rightarrow> event_payload" where
  "dispatch_payload input gateSkipReason =
     (let p0 = (case di_Payload input of None \<Rightarrow> [] | Some p \<Rightarrow> p);
          p1 = set_payload ''column'' (PString (bt_Column (di_Task input))) p0;
          p2 = (case bt_AssigneeAgentID (di_Task input) of
                  None \<Rightarrow> p1
                | Some agent \<Rightarrow> set_payload ''assignee_agent_id'' (PString (uuid_String agent)) p1)
      in if gateSkipReason \<noteq> ''''
         then set_payload EventPayloadPipelineGate (PString gateSkipReason) p2 else p2)"

definition noted_input :: "DispatchInput \<Rightarrow> event_payload \<Rightarrow> DispatchInput" where
  "noted_input input payload =
     (case di_Payload input of None \<Rightarrow> input | Some p \<Rightarrow> input\<lparr>di_Payload := Some payload\<rparr>)"

definition new_event :: "'s Dispatcher \<Rightarrow> DispatchInput \<Rightarrow> event_payload \<Rightarrow> BoardEvent" where
  "new_event d input payload =
     \<lparr>ev_ID = uuid_Nil, ev_RepositoryID = di_RepositoryID input, ev_TaskID = bt_ID (di_Task input),
      ev_EventType = di_EventType input, ev_Payload = Some payload,
      ev_ActorUserID = (if dp_actorUserID d = '''' then None else Some (dp_actorUserID d)),
      ev_CreatedAt = 0\<rparr>"

text \<open>The span, the notification and the hook of a released card.\<close>

definition announce :: "'s Dispatcher \<Rightarrow> DispatchInput \<Rightarrow> event_payload \<Rightarrow> BoardEvent \<Rightarrow> 's \<Rightarrow> 's" where
  "announce d input payload event s =
     (let task = di_Task input; moved = (di_EventType input = BoardEventTaskMoved);
          s1 = (case dp_RecordMove d of
                  None \<Rightarrow> s
                | Some record \<Rightarrow>
                    if moved \<or> di_EventType input = BoardEventTaskCreated
                    then record (di_RepositoryID input) (bt_ID task) (bt_Column task) (ev_CreatedAt event) s
                    else s);
          s2 = (case dp_TaskMoved d of
                  None \<Rightarrow> s1
                | Some taskMoved \<Rightarrow>
                    if \<not> moved then s1
                    else case parkResume payload of
                        Some resource \<Rightarrow> dp_TaskResumed d task resource s1
                      | None \<Rightarrow> taskMoved task s1)
      in case dp_taskReleased d of
           None \<Rightarrow> s2
         | Some hook \<Rightarrow> if moved \<and> bt_Column task = TaskColumnReleased then hook task s2 else s2)"

text \<open>
  What may still keep the card from starting: \<open>Some result\<close> returns, \<open>None\<close> goes on to the agents.
\<close>

definition hold_back ::
  "'s Dispatcher \<Rightarrow> Workflow option \<Rightarrow> DispatchInput \<Rightarrow> BoardEvent \<Rightarrow> bool \<Rightarrow> bool \<Rightarrow> 's \<Rightarrow>
   go_error option option \<times> 's" where
  "hold_back d flow input event wake gateDefers s =
     (let task = di_Task input in
      if isDispatchSuspendedTask flow task \<and> \<not> wake then (Some None, s)
      else case (if dp_workOrder d \<noteq> None \<and> workOrderGateApplies flow input
                 then Blockers (dp_workOrder d) s (bt_ID task) else Inr []) of
          Inl err \<Rightarrow> (Some (Some (ErrWrap ''work order check'' err)), s)
        | Inr (b # bs) \<Rightarrow>
            (case Park (dp_workOrder d) (di_RepositoryID input) task (b # bs) s of
               (Some err, s1) \<Rightarrow> (Some (Some (ErrWrap ''park on work order'' err)), s1)
             | (None, s1) \<Rightarrow> (Some None, s1))
        | Inr [] \<Rightarrow>
            (case (if dp_reviewLoop d \<noteq> None \<and> reviewLoopGateApplies input
                   then ReviewLoop_Hold (dp_reviewLoop d) (di_RepositoryID input) task (ev_ID event) s
                   else (False, s)) of
               (True, s1) \<Rightarrow> (Some None, s1)
             | (False, s1) \<Rightarrow> (if gateDefers then (Some None, s1) else (None, s1))))"

fun start_agents ::
  "'s Dispatcher \<Rightarrow> DispatchInput \<Rightarrow> BoardEvent \<Rightarrow> (RunJob \<Rightarrow> 's \<Rightarrow> 's) \<Rightarrow> uuid \<Rightarrow> bool \<Rightarrow> uuid list \<Rightarrow> 's \<Rightarrow>
   go_error option \<times> 's" where
  "start_agents d input event enqueue actorID wake [] s = (None, s)"
| "start_agents d input event enqueue actorID wake (agentID # agentIDs) s =
     (if actorID \<noteq> uuid_Nil \<and> agentID = actorID
      then start_agents d input event enqueue actorID wake agentIDs s
      else case alreadyWorkingOn d s (di_EventType input) (bt_ID (di_Task input)) agentID wake of
          Inl err \<Rightarrow> (Some (ErrWrap ''pending run check'' err), s)
        | Inr True \<Rightarrow> start_agents d input event enqueue actorID wake agentIDs s
        | Inr False \<Rightarrow>
            (case dp_createRun d (pending_run (bt_ID (di_Task input)) agentID (ev_ID event)) s of
               (Inl err, s1) \<Rightarrow> (Some err, s1)
             | (Inr run, s1) \<Rightarrow>
                 if run_BoardEventID run \<noteq> ev_ID event
                 then start_agents d input event enqueue actorID wake agentIDs s1
                 else let s2 = (if dp_RecordMove d = None then s1
                                else dp_AttachAgent d (bt_ID (di_Task input)) agentID s1);
                          s3 = enqueue
                            \<lparr>job_Run = run, job_Event = event, job_Task = di_Task input,
                             job_RepositoryID = di_RepositoryID input, job_EnteredFrom = '''',
                             job_ColumnInstruction =
                               columnInstructionForAgent d s2 agentID (bt_Column (di_Task input))\<rparr> s2
                   in start_agents d input event enqueue actorID wake agentIDs s3))"

definition Dispatch :: "'s Dispatcher \<Rightarrow> DispatchInput \<Rightarrow> 's \<Rightarrow> go_error option \<times> 's" where
  "Dispatch d input s =
     (case (dp_createEvent d, dp_Enqueue d) of
        (Some create, Some enqueue) \<Rightarrow>
          (if \<not> dp_enabled d then (None, s)
           else let task = di_Task input;
                    flow = workflowFor d s (bt_TaskType task);
                    (gateDefers, gateSkipReason) = pipelineGateDecision d flow input;
                    payload = dispatch_payload input gateSkipReason;
                    input' = noted_input input payload
             in case create (new_event d input payload) s of
                  (Inl err, s1) \<Rightarrow> (Some err, s1)
                | (Inr event, s1) \<Rightarrow>
                    if di_EventType input = BoardEventTaskCommented \<and> informationalComment payload
                    then (None, s1)
                    else let s2 = announce d input' payload event s1;
                             mergeWake = doneMergeWake flow input';
                             watchWake = deployWatchWake flow input'
                      in case hold_back d flow input' event (mergeWake \<or> watchWake) gateDefers s2 of
                           (Some result, s3) \<Rightarrow> (result, s3)
                         | (None, s3) \<Rightarrow>
                             (case (if watchWake
                                    then dp_AgentsForColumn d s3 (bt_Column task) (bt_TaskType task)
                                    else if mergeWake
                                    then dp_AgentsForColumn d s3 TaskColumnDone (bt_TaskType task)
                                    else resolveAgents d flow input' s3) of
                                Inl err \<Rightarrow> (Some err, s3)
                              | Inr agentIDs \<Rightarrow>
                                  start_agents d input' event enqueue
                                    (actorAgentIDFromPayload (dp_parseUUID d) payload)
                                    (mergeWake \<or> watchWake) agentIDs s3))
      | _ \<Rightarrow> (None, s))"

definition PipelineGateReasonOpen :: "string \<Rightarrow> bool" where
  "PipelineGateReasonOpen reason \<longleftrightarrow>
     reason \<in> {''timeout'', ''ci_unavailable'', ''no_ci_configured''}"

definition DispatchQA ::
  "'s Dispatcher \<Rightarrow> uuid \<Rightarrow> BoardTask \<Rightarrow> uuid \<Rightarrow> string \<Rightarrow> 's \<Rightarrow> go_error option \<times> 's" where
  "DispatchQA d repositoryID task pipelineID gateReason =
     (let p0 = [(''pipeline'', PString ''success''), (''pipeline_id'', PString (uuid_String pipelineID)),
                (EventPayloadActor, PString EventActorSystem),
                (EventPayloadReason, PString MoveReasonPipelinePassed)];
          p1 = (if PipelineGateReasonOpen gateReason
                then set_payload EventPayloadReason (PString MoveReasonPipelineGateOpened)
                       (set_payload EventPayloadPipelineGate (PString gateReason)
                         (set_payload ''pipeline'' (PString ''gate_opened'') p0))
                else p0)
      in Dispatch d
           \<lparr>di_RepositoryID = repositoryID, di_Task = task, di_EventType = BoardEventTaskMoved,
            di_Payload = Some p1, di_SkipPipelineGate = True\<rparr>)"

section \<open>The sweeper\<close>

record 's WorkOrderSweeper =
  sw_ListBlockedByResource :: "'s \<Rightarrow> string \<Rightarrow> int \<Rightarrow> go_error + BoardTask list"
  sw_ClearWorkOrderWaiting :: "uuid \<Rightarrow> 's \<Rightarrow> (go_error + BoardTask option) \<times> 's"
  sw_ListBlockingSources :: "'s \<Rightarrow> uuid \<Rightarrow> go_error + BoardTask list"
  sw_dispatch :: "DispatchInput \<Rightarrow> 's \<Rightarrow> go_error option \<times> 's"
  sw_dependents :: "('s \<Rightarrow> uuid \<Rightarrow> go_error + TaskRelation list) option"
  sw_comments :: "'s commenter option"
  sw_resumed :: string

definition workOrderSweepBatch :: int where "workOrderSweepBatch = 100"

definition resume_input :: "BoardTask \<Rightarrow> DispatchInput" where
  "resume_input task =
     \<lparr>di_RepositoryID = bt_RepositoryID task, di_Task = task, di_EventType = BoardEventTaskMoved,
      di_Payload = Some [(''resumed'', PString ''work_order_clear''),
        (''resource'', PString ResourceWorkOrder),
        (EventPayloadResumedResource, PString ResourceWorkOrder),
        (EventPayloadActor, PString EventActorSystem),
        (EventPayloadReason, PString MoveReasonResourceFree)],
      di_SkipPipelineGate = False\<rparr>"

definition resumeIfClear :: "'s WorkOrderSweeper \<Rightarrow> uuid \<Rightarrow> 's \<Rightarrow> 's" where
  "resumeIfClear w parkedID s =
     (case sw_ListBlockingSources w s parkedID of
        Inl err \<Rightarrow> s
      | Inr (b # bs) \<Rightarrow> s
      | Inr [] \<Rightarrow>
          (case sw_ClearWorkOrderWaiting w parkedID s of
             (Inl err, s1) \<Rightarrow> s1
           | (Inr None, s1) \<Rightarrow> s1
           | (Inr (Some task), s1) \<Rightarrow>
               (case sw_dispatch w (resume_input task) s1 of
                  (Some err, s2) \<Rightarrow> s2
                | (None, s2) \<Rightarrow>
                    (case sw_comments w of
                       None \<Rightarrow> s2
                     | Some addComment \<Rightarrow>
                         addComment (bt_RepositoryID task) (bt_ID task)
                           (system_comment (sw_resumed w)) s2))))"

fun wake_loop :: "'s WorkOrderSweeper \<Rightarrow> TaskRelation list \<Rightarrow> 's \<Rightarrow> 's" where
  "wake_loop w [] s = s"
| "wake_loop w (r # rels) s =
     (if rel_RelationType r \<noteq> TaskRelationBlocks then wake_loop w rels s
      else wake_loop w rels (resumeIfClear w (rel_TargetTaskID r) s))"

definition WakeDependentsOf :: "'s WorkOrderSweeper option \<Rightarrow> uuid \<Rightarrow> 's \<Rightarrow> 's" where
  "WakeDependentsOf sweeper blockerTaskID s =
     (case sweeper of
        None \<Rightarrow> s
      | Some w \<Rightarrow>
          (case sw_dependents w of
             None \<Rightarrow> s
           | Some listBySource \<Rightarrow>
               (case listBySource s blockerTaskID of
                  Inl err \<Rightarrow> s
                | Inr rels \<Rightarrow> wake_loop w rels s)))"

definition sweep :: "'s WorkOrderSweeper \<Rightarrow> 's \<Rightarrow> 's" where
  "sweep w s =
     (case sw_ListBlockedByResource w s ResourceWorkOrder workOrderSweepBatch of
        Inl err \<Rightarrow> s
      | Inr parked \<Rightarrow> fold (\<lambda>task. resumeIfClear w (bt_ID task)) parked s)"

section \<open>Who is started\<close>

text \<open>Of the agents asked for, those not busy, each once: a started agent is busy from then on.\<close>

fun starters :: "(uuid \<Rightarrow> bool) \<Rightarrow> uuid list \<Rightarrow> uuid list" where
  "starters busy [] = []"
| "starters busy (a # as) = (if busy a then starters busy as else a # starters (busy(a := True)) as)"

lemma starters_filter: "distinct as \<Longrightarrow> starters busy as = filter (\<lambda>a. \<not> busy a) as"
proof (induction as arbitrary: busy)
  case (Cons a as)
  have "filter (\<lambda>x. \<not> (busy(a := True)) x) as = filter (\<lambda>x. \<not> busy x) as"
    using Cons.prems by (intro filter_cong) auto
  then show ?case using Cons by simp
qed simp

lemma starters_Cons:
  obtains "busy b" "starters busy (b # as) = starters busy as"
  | busy' where "\<not> busy b" "starters busy (b # as) = b # starters busy' as" "\<And>x. busy' x \<longleftrightarrow> x = b \<or> busy x"
  by (cases "busy b") (auto intro: that(2) [of "busy(b := True)"] that(1))

lemma starters_mem: "a \<in> set (starters busy as) \<Longrightarrow> a \<in> set as \<and> \<not> busy a"
proof (induction as arbitrary: busy)
  case (Cons b as)
  show ?case
  proof (cases rule: starters_Cons [of busy b as])
    case 1
    then show ?thesis using Cons.prems Cons.IH [of busy] unfolding 1(2) by simp
  next
    case (2 busy')
    show ?thesis using Cons.prems Cons.IH [of busy'] 2(1) 2(3) [of a] unfolding 2(2) by auto
  qed
qed simp

lemma starters_complete: "a \<in> set as \<Longrightarrow> \<not> busy a \<Longrightarrow> a \<in> set (starters busy as)"
proof (induction as arbitrary: busy)
  case (Cons b as)
  show ?case
  proof (cases rule: starters_Cons [of busy b as])
    case 1
    then show ?thesis using Cons.prems Cons.IH [of busy] unfolding 1(2) by auto
  next
    case (2 busy')
    show ?thesis using Cons.prems Cons.IH [of busy'] 2(3) [of a] unfolding 2(2) by auto
  qed
qed simp

lemma starters_distinct: "distinct (starters busy as)"
proof (induction as arbitrary: busy)
  case (Cons b as)
  show ?case
  proof (cases rule: starters_Cons [of busy b as])
    case 1
    show ?thesis unfolding 1(2) by (rule Cons.IH)
  next
    case (2 busy')
    show ?thesis using Cons.IH [of busy'] starters_mem [of b busy' as] 2(3) [of b] unfolding 2(2) by auto
  qed
qed simp

text \<open>
  What the dispatcher relies on: a run created for an agent without a queued run is its own, goes to
  the end of the runs and makes the agent busy, nothing else does, and a job goes to the end of the
  queue, unless the queue is full: then it is dropped.
\<close>

locale run_queue =
  fixes d :: "'s Dispatcher" and enqueue :: "RunJob \<Rightarrow> 's \<Rightarrow> 's"
    and pending :: "'s \<Rightarrow> uuid \<Rightarrow> uuid \<Rightarrow> bool" and live :: "'s \<Rightarrow> uuid \<Rightarrow> uuid \<Rightarrow> bool"
    and runs :: "'s \<Rightarrow> TaskAgentRun list" and jobs :: "'s \<Rightarrow> RunJob list" and room :: nat
  assumes pending_read: "dp_HasPendingForTask d s t a = Inr (pending s t a)"
    and live_read: "dp_HasLiveForTask d s t a = Inr (live s t a)"
    and pending_live: "pending s t a \<Longrightarrow> live s t a"
    and created: "\<not> pending s t a \<Longrightarrow> \<exists>run s'. dp_createRun d (pending_run t a e) s = (Inr run, s') \<and>
      run_BoardEventID run = e \<and> run_TaskID run = t \<and> run_AgentID run = a \<and> jobs s' = jobs s \<and>
      runs s' = runs s @ [run] \<and>
      pending s' = (pending s)(t := (pending s t)(a := True)) \<and> live s' = (live s)(t := (live s t)(a := True))"
    and attached: "pending (dp_AttachAgent d t a s) = pending s" "live (dp_AttachAgent d t a s) = live s"
      "jobs (dp_AttachAgent d t a s) = jobs s" "runs (dp_AttachAgent d t a s) = runs s"
    and enqueued: "pending (enqueue j s) = pending s" "live (enqueue j s) = live s"
      "runs (enqueue j s) = runs s"
      "jobs (enqueue j s) = (if length (jobs s) < room then jobs s @ [j] else jobs s)"
begin

definition working :: "BoardEventType \<Rightarrow> bool \<Rightarrow> uuid \<Rightarrow> 's \<Rightarrow> uuid \<Rightarrow> bool" where
  "working e wake t s a =
     (if wake \<or> e = BoardEventTaskCommented \<or> e = BoardEventTaskAssigned then live s t a else pending s t a)"

lemma alreadyWorkingOn_working: "alreadyWorkingOn d s e t a wake = Inr (working e wake t s a)"
  by (simp add: alreadyWorkingOn_def working_def pending_read live_read)

lemma working_pending: "\<not> working e wake t s a \<Longrightarrow> \<not> pending s t a"
  using pending_live by (auto simp: working_def split: if_splits)

text \<open>\<open>js\<close> are the jobs made; the queue takes the first of them, as many as it has room for.\<close>

lemma start_agents_started:
  "\<exists>s' js. start_agents d input event enqueue actorID wake agents s = (None, s') \<and>
     jobs s' = jobs s @ take (room - length (jobs s)) js \<and> runs s' = runs s @ map job_Run js \<and>
     map (\<lambda>j. run_AgentID (job_Run j)) js =
       starters (\<lambda>a. actorID \<noteq> uuid_Nil \<and> a = actorID \<or>
         working (di_EventType input) wake (bt_ID (di_Task input)) s a) agents \<and>
     list_all (\<lambda>j. job_Task j = di_Task input \<and> job_Event j = event \<and>
       run_TaskID (job_Run j) = bt_ID (di_Task input) \<and> run_BoardEventID (job_Run j) = ev_ID event) js"
proof (induction agents arbitrary: s)
  case Nil
  then show ?case by simp
next
  case (Cons a agents)
  let ?t = "bt_ID (di_Task input)" and ?e = "di_EventType input"
  let ?busy = "\<lambda>s a. actorID \<noteq> uuid_Nil \<and> a = actorID \<or> working ?e wake ?t s a"
  show ?case
  proof (cases "?busy s a")
    case True
    have "start_agents d input event enqueue actorID wake (a # agents) s =
        start_agents d input event enqueue actorID wake agents s"
      using True by (auto simp: alreadyWorkingOn_working)
    then show ?thesis using Cons.IH [of s] True by simp
  next
    case False
    then have free: "\<not> pending s ?t a" using working_pending by blast
    from created [OF free, of "ev_ID event"] obtain run s1 where
      run: "dp_createRun d (pending_run ?t a (ev_ID event)) s = (Inr run, s1)"
      "run_BoardEventID run = ev_ID event" "run_TaskID run = ?t" "run_AgentID run = a"
      and s1: "jobs s1 = jobs s" "runs s1 = runs s @ [run]" "pending s1 = (pending s)(?t := (pending s ?t)(a := True))"
      "live s1 = (live s)(?t := (live s ?t)(a := True))"
      by blast
    define s2 where "s2 = (if dp_RecordMove d = None then s1 else dp_AttachAgent d ?t a s1)"
    define job where "job = \<lparr>job_Run = run, job_Event = event, job_Task = di_Task input,
      job_RepositoryID = di_RepositoryID input, job_EnteredFrom = '''',
      job_ColumnInstruction = columnInstructionForAgent d s2 a (bt_Column (di_Task input))\<rparr>"
    define s3 where "s3 = enqueue job s2"
    have step: "start_agents d input event enqueue actorID wake (a # agents) s =
        start_agents d input event enqueue actorID wake agents s3"
      using False run by (auto simp: alreadyWorkingOn_working s3_def job_def s2_def Let_def)
    have jobs3: "jobs s3 = (if length (jobs s) < room then jobs s @ [job] else jobs s)"
      and runs3: "runs s3 = runs s @ [job_Run job]"
      using s1(1,2) by (simp_all add: s3_def s2_def job_def enqueued attached)
    have "working ?e wake ?t s3 = (working ?e wake ?t s)(a := True)"
      using s1(3,4) by (auto simp: fun_eq_iff working_def s3_def s2_def enqueued attached)
    then have busy3: "?busy s3 = (?busy s)(a := True)" by (auto simp: fun_eq_iff)
    obtain s' js where IH: "start_agents d input event enqueue actorID wake agents s3 = (None, s')"
      "jobs s' = jobs s3 @ take (room - length (jobs s3)) js" "runs s' = runs s3 @ map job_Run js"
      "map (\<lambda>j. run_AgentID (job_Run j)) js = starters (?busy s3) agents"
      "list_all (\<lambda>j. job_Task j = di_Task input \<and> job_Event j = event \<and>
         run_TaskID (job_Run j) = ?t \<and> run_BoardEventID (job_Run j) = ev_ID event) js"
      using Cons.IH [of s3] by blast
    have "starters (?busy s) (a # agents) = a # starters (?busy s3) agents"
      unfolding busy3 starters.simps if_not_P [OF False] ..
    then have "map (\<lambda>j. run_AgentID (job_Run j)) (job # js) = starters (?busy s) (a # agents)"
      using IH(4) run(4) by (simp add: job_def)
    moreover have "jobs s' = jobs s @ take (room - length (jobs s)) (job # js)"
      using IH(2) jobs3 by (cases "length (jobs s) < room") (auto simp: take_Cons' Suc_diff_Suc)
    moreover have "runs s' = runs s @ map job_Run (job # js)" using IH(3) runs3 by simp
    ultimately show ?thesis
      using step IH(1,5) run by (intro exI [of _ s'] exI [of _ "job # js"]) (simp add: job_def)
  qed
qed

end

end
