(* ===== verification/Comments.thy ===== *)
theory Comments
  imports Dispatcher
begin

text \<open>
  Comments on a card: \<open>AddComment\<close> of \<open>server/internal/application/repository/service.go\<close> and
  \<open>TaskCommentStore\<close> of \<open>adapter/storage/postgres/board_config.go\<close>. Adding a comment dispatches it,
  so the system's own notes come back to the dispatcher.
\<close>

record TaskComment =
  com_ID :: uuid
  com_TaskID :: uuid
  com_AuthorType :: string
  com_AuthorID :: string
  com_Content :: string
  com_CreatedAt :: time
  com_AuthorName :: string
  com_ActorUserID :: "string option"

text \<open>\<open>names\<close> is the join with the agents' names.\<close>

definition comment_Create ::
  "uuid \<Rightarrow> time \<Rightarrow> (string \<Rightarrow> string) \<Rightarrow> TaskComment \<Rightarrow> TaskComment list \<Rightarrow> TaskComment \<times> TaskComment list" where
  "comment_Create newID at names comment comments =
     (let created = comment\<lparr>com_ID := newID, com_CreatedAt := at,
            com_AuthorName :=
              (if com_AuthorType comment = ''agent'' then names (com_AuthorID comment) else '''')\<rparr>
      in (created, comments @ [created]))"

definition comment_ListByTask :: "(string \<Rightarrow> string) \<Rightarrow> uuid \<Rightarrow> TaskComment list \<Rightarrow> TaskComment list" where
  "comment_ListByTask names taskID comments =
     sort_key com_CreatedAt
       (map (\<lambda>c. c\<lparr>com_AuthorName :=
              (if com_AuthorType c = ''agent'' then names (com_AuthorID c) else '''')\<rparr>)
         (filter (\<lambda>c. com_TaskID c = taskID) comments))"

record 's comment_ports =
  cp_getRepo :: "'s \<Rightarrow> uuid \<Rightarrow> go_error + uuid"
  cp_getTask :: "'s \<Rightarrow> uuid \<Rightarrow> uuid \<Rightarrow> go_error + BoardTask"
  cp_Create :: "(TaskComment \<Rightarrow> 's \<Rightarrow> (go_error + TaskComment) \<times> 's) option"
  cp_actorUserID :: string
  cp_dispatch :: "(DispatchInput \<Rightarrow> 's \<Rightarrow> go_error option \<times> 's) option"

definition comment_payload :: "TaskComment \<Rightarrow> bool \<Rightarrow> event_payload" where
  "comment_payload comment informational =
     [(''comment_id'', PString (uuid_String (com_ID comment))), (''content'', PString (com_Content comment)),
      (''author_type'', PString (com_AuthorType comment)), (''author_id'', PString (com_AuthorID comment)),
      (''author_name'', PString (com_AuthorName comment))] @
     (if informational then [(EventPayloadInformational, PBool True)] else [])"

definition AddComment ::
  "'s comment_ports \<Rightarrow> uuid \<Rightarrow> uuid \<Rightarrow> CreateTaskCommentRequest \<Rightarrow> 's \<Rightarrow> (go_error + TaskComment) \<times> 's" where
  "AddComment p repositoryID taskID req s =
     (case cp_getRepo p s repositoryID of
        Inl err \<Rightarrow> (Inl err, s)
      | Inr repo \<Rightarrow>
          (case cp_getTask p s repositoryID taskID of
             Inl err \<Rightarrow> (Inl err, s)
           | Inr task \<Rightarrow>
               (case cp_Create p of
                  None \<Rightarrow> (Inl (ErrText ''comments not enabled'' []), s)
                | Some create \<Rightarrow>
                    (case create
                        \<lparr>com_ID = uuid_Nil, com_TaskID = taskID,
                         com_AuthorType =
                           (if cm_AuthorType req = '''' then ''user'' else cm_AuthorType req),
                         com_AuthorID = cm_AuthorID req, com_Content = TrimSpace (cm_Content req),
                         com_CreatedAt = 0, com_AuthorName = '''',
                         com_ActorUserID =
                           (if cp_actorUserID p = '''' then None else Some (cp_actorUserID p))\<rparr> s of
                       (Inl err, s1) \<Rightarrow> (Inl err, s1)
                     | (Inr comment, s1) \<Rightarrow>
                         (Inr comment,
                          case cp_dispatch p of
                            None \<Rightarrow> s1
                          | Some dispatch \<Rightarrow>
                              snd (dispatch
                                \<lparr>di_RepositoryID = repo, di_Task = task,
                                 di_EventType = BoardEventTaskCommented,
                                 di_Payload = Some (comment_payload comment (cm_Informational req)),
                                 di_SkipPipelineGate = False\<rparr> s1))))))"

end
