(* ===== verification/Order_Graph.thy ===== *)
theory Order_Graph
  imports Work_Order
begin

text \<open>
  What the cycle guards of \<open>workorder.go\<close> are for: the tasks' work order and deploy order stay
  acyclic. The contract of the relation store is a locale; the guards are correct against it, and
  the tables of \<open>Relations\<close> meet it.
\<close>

section \<open>The relations out of one task\<close>

definition typed_targets :: "TaskRelationType \<Rightarrow> TaskRelation list \<Rightarrow> uuid set" where
  "typed_targets relType rels = {rel_TargetTaskID r |r. r \<in> set rels \<and> rel_RelationType r = relType}"

lemma typed_targets_simps [simp]:
  "typed_targets relType [] = {}"
  "typed_targets relType (r # rels) =
     (if rel_RelationType r = relType then insert (rel_TargetTaskID r) (typed_targets relType rels)
      else typed_targets relType rels)"
  by (auto simp: typed_targets_def)

lemma scan_found:
  "scan_relations relType to path rels stack visited = PathFound found \<Longrightarrow>
   to \<in> typed_targets relType rels \<and> found \<noteq> []"
  by (induction rels arbitrary: stack visited) (auto simp: Let_def split: if_splits)

lemma scan_pushed:
  assumes "scan_relations relType to path rels stack visited = Pushed stack' visited'"
  shows "to \<notin> typed_targets relType rels"
    and "set visited' = set visited \<union> typed_targets relType rels"
    and "fst ` set stack' = fst ` set stack \<union> (typed_targets relType rels - set visited)"
  using assms
  by (induction rels arbitrary: stack visited) (auto simp: Let_def split: if_splits)

lemma scan_distinct:
  assumes "scan_relations relType to path rels stack visited = Pushed stack' visited'"
    and "distinct (map fst stack)" and "fst ` set stack \<subseteq> set visited"
  shows "distinct (map fst stack')"
  using assms
proof (induction rels arbitrary: stack visited)
  case (Cons r rels)
  let ?v = "rel_TargetTaskID r"
  show ?case
  proof (cases "rel_RelationType r \<noteq> relType \<or> ?v \<in> set visited")
    case True
    then show ?thesis using Cons by (auto simp: Let_def split: if_splits)
  next
    case False
    then have fresh: "?v \<notin> fst ` set stack" using Cons.prems(3) by auto
    show ?thesis
      using Cons.prems(1) False
      by (auto simp: Let_def split: if_splits
          intro!: Cons.IH [where stack = "(?v, q) # stack" and visited = "?v # visited" for q]
            Cons.prems(2) fresh dest: subsetD [OF Cons.prems(3)])
        (use Cons.prems(2,3) fresh in auto)
  qed
qed simp

section \<open>Edges into and out of one task\<close>

lemma reached: "(a, x) \<in> r\<^sup>* \<Longrightarrow> x = a \<or> x \<in> Range r"
  by (erule rtranclE) auto

lemma acyclic_add_sources:
  assumes "finite B" and "acyclic r" and "\<And>b. b \<in> B \<Longrightarrow> (t, b) \<notin> r\<^sup>*"
  shows "acyclic (r \<union> B \<times> {t})"
  using assms
proof (induction B rule: finite_induct)
  case (insert b B)
  have "(t, y) \<in> r\<^sup>*" if "(t, y) \<in> (r \<union> B \<times> {t})\<^sup>*" for y
    using that by (induction rule: rtrancl_induct) (use insert.prems(2) in \<open>auto intro: rtrancl_into_rtrancl\<close>)
  then have "(t, b) \<notin> (r \<union> B \<times> {t})\<^sup>*" using insert.prems(2) by blast
  then have "acyclic (insert (b, t) (r \<union> B \<times> {t}))" using insert by (simp add: acyclic_insert)
  moreover have "r \<union> insert b B \<times> {t} = insert (b, t) (r \<union> B \<times> {t})" by blast
  ultimately show ?case by simp
qed simp

lemma acyclic_add_targets:
  assumes "finite D" and "acyclic r" and "\<And>d. d \<in> D \<Longrightarrow> (d, t) \<notin> r\<^sup>*"
  shows "acyclic (r \<union> {t} \<times> D)"
proof -
  have "acyclic (r\<inverse> \<union> D \<times> {t})"
    using assms by (intro acyclic_add_sources) (auto simp: rtrancl_converse acyclic_converse)
  moreover have "(r \<union> {t} \<times> D)\<inverse> = r\<inverse> \<union> D \<times> {t}" by auto
  ultimately show ?thesis by (metis acyclic_converse)
qed

lemma guard_all_None: "guard_all guard ids = None \<longleftrightarrow> (\<forall>i \<in> set ids. guard i = None)"
  by (induction ids) (auto split: option.splits)

lemma guard_dependencies_None:
  "guard_dependencies p s task rels = None \<Longrightarrow> r \<in> set rels \<Longrightarrow>
   rin_TargetTaskID r \<noteq> task \<and> guardDeployOrderCycle p s task (rin_TargetTaskID r) = None"
  by (induction rels) (auto split: option.splits if_splits)

section \<open>The store's contract\<close>

locale order_store =
  fixes store :: "'s relation_store"
    and edges :: "TaskRelationType \<Rightarrow> 's \<Rightarrow> (uuid \<times> uuid) set"
    and ok :: "'s \<Rightarrow> bool"
  assumes listed: "ok s \<Longrightarrow>
      \<exists>rels. rs_ListBySource store s u = Inr rels \<and> typed_targets relType rels = edges relType s `` {u}"
    and edges_finite: "finite (edges relType s)"
    and added: "ok s \<Longrightarrow> rs_AddBlockers store t bs s = (r, s') \<Longrightarrow>
      ok s' \<and> edges TaskRelationBlocks s' \<subseteq> edges TaskRelationBlocks s \<union> (set bs - {uuid_Nil}) \<times> {t} \<and>
      edges TaskRelationDeployDependsOn s' = edges TaskRelationDeployDependsOn s"
    and replaced: "ok s \<Longrightarrow>
      rs_ReplaceForTaskOfType store t TaskRelationDeployDependsOn ins s = (r, s') \<Longrightarrow>
      ok s' \<and> edges TaskRelationDeployDependsOn s' \<subseteq>
        edges TaskRelationDeployDependsOn s \<union> {t} \<times> (rin_TargetTaskID ` set ins - {uuid_Nil}) \<and>
      edges TaskRelationBlocks s' = edges TaskRelationBlocks s"
begin

definition within_walk :: "TaskRelationType \<Rightarrow> 's \<Rightarrow> bool" where
  "within_walk relType s \<longleftrightarrow> (\<forall>u. card ((edges relType s)\<^sup>* `` {u}) \<le> relationWalkLimit)"

text \<open>A path that is found is one.\<close>

lemma walk_sound:
  assumes "ok s" and "walk n (rs_ListBySource store s) relType to stack visited = Inr path"
    and "path \<noteq> []"
  shows "\<exists>u \<in> fst ` set stack. (u, to) \<in> (edges relType s)\<^sup>+"
  using assms(2,3)
proof (induction n "rs_ListBySource store s" relType to stack visited rule: walk.induct)
  case (3 n relType to cur p stack visited)
  obtain rels where rels: "rs_ListBySource store s cur = Inr rels"
    "typed_targets relType rels = edges relType s `` {cur}"
    using listed [OF assms(1)] by blast
  show ?case
  proof (cases "scan_relations relType to p rels stack visited")
    case (PathFound found)
    then have "(cur, to) \<in> edges relType s" using scan_found [OF PathFound] rels(2) by blast
    then show ?thesis by auto
  next
    case (Pushed stack' visited')
    have "walk n (rs_ListBySource store s) relType to stack' visited' = Inr path"
      using 3(2) rels(1) Pushed by simp
    from 3(1) [OF rels(1) Pushed this 3(3)]
    obtain u where u: "u \<in> fst ` set stack'" "(u, to) \<in> (edges relType s)\<^sup>+"
      by blast
    then consider "u \<in> fst ` set stack" | "(cur, u) \<in> edges relType s"
      using scan_pushed(3) [OF Pushed] rels(2) by blast
    then show ?thesis
    proof cases
      case 2
      then have "(cur, to) \<in> (edges relType s)\<^sup>+" using u(2) by (rule trancl_into_trancl2)
      then show ?thesis by simp
    qed (use u(2) in auto)
  qed
qed auto

text \<open>
  When no path is found within the visits left, the tasks seen are closed under the relation: each
  visit takes one task off the stack for good, so as many visits as tasks are in reach are enough.
\<close>

lemma walk_complete:
  assumes "ok s" and "walk n (rs_ListBySource store s) relType to stack visited = Inr []"
    and "finite R" and "edges relType s `` R \<subseteq> R" and "set visited \<subseteq> R"
    and "distinct (map fst stack)" and "fst ` set stack \<subseteq> set visited" and "to \<notin> set visited"
    and "edges relType s `` (set visited - fst ` set stack) \<subseteq> set visited"
    and "card (R - (set visited - fst ` set stack)) \<le> n"
  shows "\<exists>V. set visited \<subseteq> V \<and> edges relType s `` V \<subseteq> V \<and> to \<notin> V"
  using assms(2,4-)
proof (induction n "rs_ListBySource store s" relType to stack visited rule: walk.induct)
  case (1 relType to stack visited)
  have "R \<subseteq> set visited - fst ` set stack" using 1(8) assms(3) by simp
  then have "fst ` set stack = {}" using 1(3,5) by (metis Diff_disjoint inf.absorb1 order_trans)
  then show ?case using 1(6,7) by (intro exI [of _ "set visited"]) simp
next
  case (2 n relType to visited)
  show ?case using 2(6,7) by (intro exI [of _ "set visited"]) simp
next
  case (3 n relType to cur p stack visited)
  obtain rels where rels: "rs_ListBySource store s cur = Inr rels"
    "typed_targets relType rels = edges relType s `` {cur}"
    using listed [OF assms(1)] by blast
  show ?case
  proof (cases "scan_relations relType to p rels stack visited")
    case (PathFound found)
    then show ?thesis using 3(2) rels(1) scan_found [OF PathFound] by simp
  next
    case (Pushed stack' visited')
    let ?D = "set visited - fst ` set ((cur, p) # stack)"
    let ?D' = "set visited' - fst ` set stack'"
    note pushed = scan_pushed [OF Pushed, unfolded rels(2)]
    have cur: "cur \<in> set visited" "cur \<notin> fst ` set stack" using 3(5,6) by auto
    have D': "?D' = insert cur ?D" using pushed(2,3) cur 3(6) by auto
    have "walk n (rs_ListBySource store s) relType to stack' visited' = Inr []"
      using 3(2) rels(1) Pushed by simp
    moreover note 3(3)
    moreover have "set visited' \<subseteq> R"
    proof -
      have "edges relType s `` {cur} \<subseteq> edges relType s `` R"
        using 3(4) cur(1) by (intro Image_mono) auto
      from 3(4) order_trans [OF this 3(3)] show ?thesis unfolding pushed(2) by (rule Un_least)
    qed
    moreover have "distinct (map fst stack')" using scan_distinct [OF Pushed] 3(5,6) by simp
    moreover have "fst ` set stack' \<subseteq> set visited'" using pushed(2,3) 3(6) by auto
    moreover have "to \<notin> set visited'" using pushed(1,2) 3(7) by blast
    moreover have "edges relType s `` ?D' \<subseteq> set visited'"
    proof -
      have "edges relType s `` ?D' = edges relType s `` {cur} \<union> edges relType s `` ?D"
        unfolding D' by (metis Image_Un insert_is_Un)
      then show ?thesis unfolding pushed(2) using 3(8) by (simp add: le_supI1)
    qed
    moreover have "card (R - ?D') \<le> n"
    proof -
      have "R - ?D' = (R - ?D) - {cur}" unfolding D' by (rule Diff_insert)
      moreover have "cur \<in> R - ?D" using cur(1) 3(4) by auto
      ultimately show ?thesis using 3(9) assms(3) by simp
    qed
    ultimately have "\<exists>V. set visited' \<subseteq> V \<and> edges relType s `` V \<subseteq> V \<and> to \<notin> V"
      by (rule 3(1) [OF rels(1) Pushed])
    then show ?thesis unfolding pushed(2) by (elim exE conjE) (intro exI conjI, simp_all)
  qed
qed

lemma walk_reads:
  assumes "ok s"
  shows "\<exists>path. walk n (rs_ListBySource store s) relType to stack visited = Inr path"
proof (induction n "rs_ListBySource store s" relType to stack visited rule: walk.induct)
  case (3 n relType to cur p stack visited)
  obtain rels where rels: "rs_ListBySource store s cur = Inr rels"
    using listed [OF assms] by blast
  then show ?case using 3 [OF rels] by (cases "scan_relations relType to p rels stack visited") auto
qed auto

text \<open>The walk from one task decides whether another is in reach.\<close>

lemma walk_decides:
  assumes "ok s" and "card ((edges relType s)\<^sup>* `` {from}) \<le> n" and "from \<noteq> to"
  shows "\<exists>path. walk n (rs_ListBySource store s) relType to [(from, l)] [from] = Inr path \<and>
    (path = [] \<longleftrightarrow> (from, to) \<notin> (edges relType s)\<^sup>*)"
proof -
  let ?E = "edges relType s"
  obtain path where path: "walk n (rs_ListBySource store s) relType to [(from, l)] [from] = Inr path"
    using walk_reads [OF assms(1)] by blast
  have "(from, to) \<in> ?E\<^sup>*" if "path \<noteq> []"
    using walk_sound [OF assms(1) path that] by auto
  moreover have "(from, to) \<notin> ?E\<^sup>*" if "path = []"
  proof
    assume reach: "(from, to) \<in> ?E\<^sup>*"
    have "?E\<^sup>* `` {from} \<subseteq> insert from (Range ?E)"
      by (auto dest!: reached)
    moreover have "finite (insert from (Range ?E))" using edges_finite by (simp add: finite_Range)
    ultimately have "finite (?E\<^sup>* `` {from})" by (rule finite_subset)
    then have "\<exists>V. set [from] \<subseteq> V \<and> ?E `` V \<subseteq> V \<and> to \<notin> V"
      by (rule walk_complete [OF assms(1) path [unfolded that]])
        (use assms(2,3) in \<open>auto intro: rtrancl_into_rtrancl\<close>)
    then obtain V where V: "from \<in> V" "?E `` V \<subseteq> V" "to \<notin> V" by auto
    have "to \<in> V" using reach
      by (induction rule: rtrancl_induct) (use V(1,2) in auto)
    with V(3) show False ..
  qed
  ultimately show ?thesis using path by blast
qed

text \<open>Hence the guards refuse exactly the edges that would close a cycle.\<close>

lemma relationPath_decides:
  assumes "ok s" and "within_walk relType s" and "op_relations p = Some store"
    and "from \<noteq> uuid_Nil" and "to \<noteq> uuid_Nil"
  shows "\<exists>path. relationPath p s from to relType = Inr path \<and>
    (path = [] \<longleftrightarrow> (from, to) \<notin> (edges relType s)\<^sup>*)"
proof (cases "from = to")
  case False
  have "card ((edges relType s)\<^sup>* `` {from}) \<le> relationWalkLimit"
    using assms(2) by (simp add: within_walk_def)
  from walk_decides [OF assms(1) this False] show ?thesis
    using assms(3-) False by (simp add: relationPath_def)
qed (use assms in \<open>simp add: relationPath_def\<close>)

lemma work_guard:
  assumes "ok s" and "within_walk TaskRelationBlocks s" and "op_relations p = Some store"
    and "task \<noteq> uuid_Nil" and "blocker \<noteq> uuid_Nil"
  shows "guardWorkOrderCycle p s task blocker = None \<longleftrightarrow>
    (task, blocker) \<notin> (edges TaskRelationBlocks s)\<^sup>*"
  using relationPath_decides [OF assms] by (auto simp: guardWorkOrderCycle_def)

lemma deploy_guard:
  assumes "ok s" and "within_walk TaskRelationDeployDependsOn s" and "op_relations p = Some store"
    and "dependency \<noteq> uuid_Nil" and "task \<noteq> uuid_Nil"
  shows "guardDeployOrderCycle p s task dependency = None \<longleftrightarrow>
    (dependency, task) \<notin> (edges TaskRelationDeployDependsOn s)\<^sup>*"
  using relationPath_decides [OF assms] by (auto simp: guardDeployOrderCycle_def)

text \<open>And the two writes that are guarded keep the orders acyclic.\<close>

lemma SetBlockers_keeps:
  assumes "ok s" and "within_walk TaskRelationBlocks s" and "op_relations p = Some store"
    and "task \<noteq> uuid_Nil" and "acyclic (edges TaskRelationBlocks s)"
    and "SetBlockers p task blockers s = (r, s')"
  shows "ok s' \<and> acyclic (edges TaskRelationBlocks s') \<and>
    edges TaskRelationDeployDependsOn s' = edges TaskRelationDeployDependsOn s"
proof (cases "s' = s")
  case False
  then obtain ids where ids: "guard_all (guardWorkOrderCycle p s task) ids = None"
    and add: "rs_AddBlockers store task ids s = (r, s')"
    using assms(3,6) by (auto simp: SetBlockers_def split: sum.splits if_splits option.splits)
  let ?B = "set ids - {uuid_Nil}"
  have "(task, b) \<notin> (edges TaskRelationBlocks s)\<^sup>*" if "b \<in> ?B" for b
    using work_guard [OF assms(1-4)] guard_all_None [of _ ids] ids that by auto
  then have "acyclic (edges TaskRelationBlocks s \<union> ?B \<times> {task})"
    by (intro acyclic_add_sources assms(5)) auto
  then show ?thesis using added [OF assms(1) add] acyclic_subset by blast
qed (use assms in simp)

lemma ReplaceDeployDependencies_keeps:
  assumes "ok s" and "within_walk TaskRelationDeployDependsOn s" and "op_relations p = Some store"
    and "task \<noteq> uuid_Nil" and "acyclic (edges TaskRelationDeployDependsOn s)"
    and "ReplaceDeployDependencies p task inputs s = (r, s')"
  shows "ok s' \<and> acyclic (edges TaskRelationDeployDependsOn s') \<and>
    edges TaskRelationBlocks s' = edges TaskRelationBlocks s"
proof (cases "s' = s")
  case False
  then obtain resolved where guarded: "guard_dependencies p s task resolved = None"
    and stored: "rs_ReplaceForTaskOfType store task TaskRelationDeployDependsOn resolved s = (r, s')"
    using assms(3,6) by (auto simp: ReplaceDeployDependencies_def split: sum.splits option.splits)
  let ?D = "rin_TargetTaskID ` set resolved - {uuid_Nil}"
  have "(d, task) \<notin> (edges TaskRelationDeployDependsOn s)\<^sup>*" if "d \<in> ?D" for d
    using deploy_guard [OF assms(1-3) _ assms(4)] guard_dependencies_None [of p s task resolved]
      guarded that by auto
  then have "acyclic (edges TaskRelationDeployDependsOn s \<union> {task} \<times> ?D)"
    by (intro acyclic_add_targets assms(5)) auto
  then show ?thesis using replaced [OF assms(1) stored] acyclic_subset by blast
qed (use assms in simp)

end

section \<open>The tables meet the contract\<close>

definition table_relation_store :: "order_tables relation_store" where
  "table_relation_store =
     \<lparr>rs_ListBySource = (\<lambda>t source. Inr (ListBySource source t)),
      rs_ListBlockedBy = (\<lambda>t target. Inr (ListBlockedBy target t)),
      rs_AddBlockers = AddBlockers, rs_ReplaceForTask = ReplaceForTask,
      rs_ReplaceForTaskOfType = ReplaceForTaskOfType\<rparr>"

text \<open>\<open>render\<close> is the order note's message template.\<close>

definition table_ports :: "(string list \<Rightarrow> string list \<Rightarrow> string) \<Rightarrow> order_tables order_ports" where
  "table_ports render =
     \<lparr>op_relations = Some table_relation_store,
      op_Get = (\<lambda>t repositoryID taskID. store_Get repositoryID taskID (ot_db t)),
      op_GetByID = (\<lambda>t taskID. store_GetByID taskID (ot_db t)),
      op_LookupByKey = (\<lambda>t. store_LookupByKey (map_of (db_prefixes (ot_db t)))
        (map (\<lambda>r. (bt_TaskType r, bt_TaskNumber r, scan_select (ot_db t) r)) (db_tasks (ot_db t)))),
      op_Update = (\<lambda>task t. case store_Update task (ot_db t) of (r, db) \<Rightarrow> (r, t\<lparr>ot_db := db\<rparr>)),
      op_renderOrderNote = render\<rparr>"

lemma insert_relation_edges:
  assumes "insert_relation a b relType t = Inserted row t'" and "relations_ok t"
  shows "relations_ok t' \<and>
    order_edges u t' = (if u = relType then insert (a, b) (order_edges u t) else order_edges u t)"
proof -
  have facts: "a \<noteq> b" "task_exists a t" "task_exists b t" "row = new_relation a b relType t"
    and t': "t' = t\<lparr>ot_relations := ot_relations t @ [row], ot_nextID := ot_nextID t + 1\<rparr>"
    using assms(1) by (auto simp: insert_relation_def Let_def split: if_splits)
  have row: "rel_SourceTaskID row = a" "rel_TargetTaskID row = b" "rel_RelationType row = relType"
    using facts(4) by (simp_all add: new_relation_def)
  have set': "set (ot_relations t') = insert row (set (ot_relations t))" by (simp add: t')
  have "relations_ok t'"
    using assms(2) facts(1-3) row unfolding relations_ok_def set' by (simp add: task_exists_def t')
  moreover have "{r \<in> set (ot_relations t'). rel_RelationType r = u} =
      (if u = relType then insert row {r \<in> set (ot_relations t). rel_RelationType r = u}
       else {r \<in> set (ot_relations t). rel_RelationType r = u})"
    unfolding set' using row(3) by auto
  ultimately show ?thesis using row by (simp add: order_edges_def)
qed

lemma cleared_edges:
  assumes "relations_ok t"
  shows "relations_ok (t\<lparr>ot_relations := filter P (ot_relations t)\<rparr>) \<and>
    order_edges u (t\<lparr>ot_relations := filter P (ot_relations t)\<rparr>) \<subseteq> order_edges u t"
  using assms by (auto simp: relations_ok_def order_edges_def task_exists_def)

lemma add_blockers_edges:
  assumes "add_blockers_loop target sources t out = Inr (out', t')" and "relations_ok t"
  shows "relations_ok t' \<and>
    order_edges TaskRelationBlocks t' \<subseteq>
      order_edges TaskRelationBlocks t \<union> (set sources - {uuid_Nil}) \<times> {target} \<and>
    order_edges TaskRelationDeployDependsOn t' = order_edges TaskRelationDeployDependsOn t"
  using assms
proof (induction sources arbitrary: t out)
  case (Cons a sources)
  have differ: "TaskRelationDeployDependsOn \<noteq> TaskRelationBlocks" by (simp add: col_defs)
  show ?case
  proof (cases "a = uuid_Nil \<or> a = target")
    case True
    then have "add_blockers_loop target sources t out = Inr (out', t')" using Cons.prems(1) by simp
    from Cons.IH [OF this Cons.prems(2)] show ?thesis by auto
  next
    case False
    show ?thesis
    proof (cases "insert_relation a target TaskRelationBlocks t")
      case (Inserted row t1)
      then have "add_blockers_loop target sources t1 (out @ [row]) = Inr (out', t')"
        using False Cons.prems(1) by simp
      from Cons.IH [OF this] insert_relation_edges [OF Inserted Cons.prems(2)] show ?thesis
        using False differ by auto
    next
      case Conflict
      then have "add_blockers_loop target sources t out = Inr (out', t')" using False Cons.prems(1) by simp
      from Cons.IH [OF this Cons.prems(2)] show ?thesis by auto
    qed (use False Cons.prems(1) in simp)
  qed
qed simp

lemma replace_type_edges:
  assumes "replace_type_loop source TaskRelationDeployDependsOn rels t out = Inr (out', t')"
    and "relations_ok t"
  shows "relations_ok t' \<and>
    order_edges TaskRelationDeployDependsOn t' \<subseteq>
      order_edges TaskRelationDeployDependsOn t \<union> {source} \<times> (rin_TargetTaskID ` set rels - {uuid_Nil}) \<and>
    order_edges TaskRelationBlocks t' = order_edges TaskRelationBlocks t"
  using assms
proof (induction rels arbitrary: t out)
  case (Cons r rels)
  let ?a = "rin_TargetTaskID r"
  have differ: "TaskRelationDeployDependsOn \<noteq> TaskRelationBlocks" by (simp add: col_defs)
  show ?case
  proof (cases "?a = uuid_Nil")
    case True
    then have "replace_type_loop source TaskRelationDeployDependsOn rels t out = Inr (out', t')"
      using Cons.prems(1) by simp
    from Cons.IH [OF this Cons.prems(2)] show ?thesis by auto
  next
    case False
    show ?thesis
    proof (cases "insert_relation source ?a TaskRelationDeployDependsOn t")
      case (Inserted row t1)
      then have "replace_type_loop source TaskRelationDeployDependsOn rels t1 (out @ [row]) = Inr (out', t')"
        using False Cons.prems(1) by simp
      from Cons.IH [OF this] insert_relation_edges [OF Inserted Cons.prems(2)] show ?thesis
        using False differ by auto
    next
      case Conflict
      then have "replace_type_loop source TaskRelationDeployDependsOn rels t out = Inr (out', t')"
        using False Cons.prems(1) by simp
      from Cons.IH [OF this Cons.prems(2)] show ?thesis by auto
    qed (use False Cons.prems(1) in simp)
  qed
qed simp

lemma AddBlockers_edges:
  assumes "AddBlockers target sources t = (r, t')" and "relations_ok t"
  shows "relations_ok t' \<and>
    order_edges TaskRelationBlocks t' \<subseteq>
      order_edges TaskRelationBlocks t \<union> (set sources - {uuid_Nil}) \<times> {target} \<and>
    order_edges TaskRelationDeployDependsOn t' = order_edges TaskRelationDeployDependsOn t"
proof (cases "t' = t")
  case False
  then obtain out where "add_blockers_loop target sources t [] = Inr (out, t')"
    using assms(1) by (auto simp: AddBlockers_def split: if_splits sum.splits)
  from add_blockers_edges [OF this assms(2)] show ?thesis .
qed (use assms(2) in auto)

lemma ReplaceForTaskOfType_edges:
  assumes "ReplaceForTaskOfType source TaskRelationDeployDependsOn rels t = (r, t')" and "relations_ok t"
  shows "relations_ok t' \<and>
    order_edges TaskRelationDeployDependsOn t' \<subseteq>
      order_edges TaskRelationDeployDependsOn t \<union> {source} \<times> (rin_TargetTaskID ` set rels - {uuid_Nil}) \<and>
    order_edges TaskRelationBlocks t' = order_edges TaskRelationBlocks t"
proof (cases "t' = t")
  case False
  let ?keep = "\<lambda>r. \<not> (rel_SourceTaskID r = source \<and> rel_RelationType r = TaskRelationDeployDependsOn)"
  let ?t = "t\<lparr>ot_relations := filter ?keep (ot_relations t)\<rparr>"
  obtain out where "replace_type_loop source TaskRelationDeployDependsOn rels ?t [] = Inr (out, t')"
    using False assms(1) by (auto simp: ReplaceForTaskOfType_def Let_def split: sum.splits)
  from replace_type_edges [OF this] cleared_edges [OF assms(2), of ?keep TaskRelationDeployDependsOn]
  have "relations_ok t'" "order_edges TaskRelationBlocks t' = order_edges TaskRelationBlocks ?t"
    "order_edges TaskRelationDeployDependsOn t' \<subseteq>
      order_edges TaskRelationDeployDependsOn t \<union> {source} \<times> (rin_TargetTaskID ` set rels - {uuid_Nil})"
    by auto
  moreover have "order_edges TaskRelationBlocks ?t = order_edges TaskRelationBlocks t"
    unfolding order_edges_def by (rule arg_cong [where f = "image _"]) (auto simp: col_defs)
  ultimately show ?thesis by simp
qed (use assms(2) in auto)

interpretation tables: order_store table_relation_store order_edges relations_ok
proof unfold_locales
  fix s :: order_tables and u relType
  assume "relations_ok s"
  from set_ListBySource [OF this, of u relType]
  show "\<exists>rels. rs_ListBySource table_relation_store s u = Inr rels \<and>
      typed_targets relType rels = order_edges relType s `` {u}"
    by (simp add: table_relation_store_def typed_targets_def)
next
  fix relType and s :: order_tables
  show "finite (order_edges relType s)" by (simp add: order_edges_def)
qed (simp_all add: table_relation_store_def AddBlockers_edges ReplaceForTaskOfType_edges)

section \<open>Runs\<close>

text \<open>
  Everything that touches the relation rows: a created task's first relations (no row points at a
  task that is new), the two guarded writes, a change of task rows that keeps what the rows refer
  to, and the deletion of a task, whose rows the foreign keys delete with it.
\<close>

definition delete_rows :: "uuid \<Rightarrow> uuid \<Rightarrow> order_tables \<Rightarrow> order_tables" where
  "delete_rows repositoryID taskID t =
     (case store_Delete repositoryID taskID (ot_db t) of
        (Some err, db) \<Rightarrow> t
      | (None, db) \<Rightarrow>
          t\<lparr>ot_db := db,
            ot_relations :=
              filter (\<lambda>r. rel_SourceTaskID r \<noteq> taskID \<and> rel_TargetTaskID r \<noteq> taskID) (ot_relations t)\<rparr>)"

inductive order_step :: "order_tables \<Rightarrow> order_tables \<Rightarrow> bool" where
  step_created: "list_all (\<lambda>r. rel_TargetTaskID r \<noteq> taskID) (ot_relations t) \<Longrightarrow>
     order_step t (snd (ReplaceForTask taskID rels t))"
| step_blockers: "tables.within_walk TaskRelationBlocks t \<Longrightarrow> taskID \<noteq> uuid_Nil \<Longrightarrow>
     order_step t (snd (SetBlockers (table_ports render) taskID blockers t))"
| step_dependencies: "tables.within_walk TaskRelationDeployDependsOn t \<Longrightarrow> taskID \<noteq> uuid_Nil \<Longrightarrow>
     order_step t (snd (ReplaceDeployDependencies (table_ports render) taskID inputs t))"
| step_rows: "map bt_ID (db_tasks (ot_db t)) = take n (map bt_ID (db_tasks db)) \<Longrightarrow>
     order_step t (t\<lparr>ot_db := db\<rparr>)"
| step_delete: "order_step t (delete_rows repositoryID taskID t)"

definition orders_ok :: "order_tables \<Rightarrow> bool" where
  "orders_ok t \<longleftrightarrow> relations_ok t \<and> acyclic (order_edges TaskRelationBlocks t) \<and>
     acyclic (order_edges TaskRelationDeployDependsOn t)"

lemma replace_edges:
  assumes "replace_loop source rels t out = Inr (out', t')" and "relations_ok t"
  shows "relations_ok t' \<and>
    order_edges u t' \<subseteq> order_edges u t \<union> {source} \<times> (rin_TargetTaskID ` set rels)"
  using assms
proof (induction rels arbitrary: t out)
  case (Cons r rels)
  let ?a = "rin_TargetTaskID r"
  show ?case
  proof (cases "?a = uuid_Nil")
    case True
    then have "replace_loop source rels t out = Inr (out', t')" using Cons.prems(1) by simp
    from Cons.IH [OF this Cons.prems(2)] show ?thesis by auto
  next
    case False
    then obtain row t1 where ins: "insert_relation source ?a (rin_RelationType r) t = Inserted row t1"
      and rest: "replace_loop source rels t1 (out @ [row]) = Inr (out', t')"
      using Cons.prems(1) by (auto split: insert_result.splits)
    note grown = insert_relation_edges [OF ins Cons.prems(2), of u]
    then have "relations_ok t1" ..
    note rest' = Cons.IH [OF rest this]
    have "order_edges u t1 \<subseteq> order_edges u t \<union> {source} \<times> {?a}" using grown by auto
    then have "order_edges u t' \<subseteq> order_edges u t \<union> {source} \<times> {?a} \<union>
        {source} \<times> (rin_TargetTaskID ` set rels)"
      using rest' by (meson Un_mono order_refl order_trans)
    then show ?thesis using rest' by auto
  qed
qed auto

lemma no_self_edge: "relations_ok t \<Longrightarrow> (a, a) \<notin> order_edges u t"
  by (auto simp: relations_ok_def order_edges_def)

lemma ReplaceForTask_keeps:
  assumes "orders_ok t" and "list_all (\<lambda>r. rel_TargetTaskID r \<noteq> taskID) (ot_relations t)"
  shows "orders_ok (snd (ReplaceForTask taskID rels t))"
proof (cases "snd (ReplaceForTask taskID rels t) = t")
  case False
  let ?keep = "\<lambda>r. rel_SourceTaskID r \<noteq> taskID"
  let ?t = "t\<lparr>ot_relations := filter ?keep (ot_relations t)\<rparr>"
  obtain out t' where loop: "replace_loop taskID rels ?t [] = Inr (out, t')"
    and t': "snd (ReplaceForTask taskID rels t) = t'"
    using False by (auto simp: ReplaceForTask_def Let_def split: sum.splits)
  have t: "relations_ok t" using assms(1) by (simp add: orders_ok_def)
  have "relations_ok t'" using replace_edges [OF loop] cleared_edges [OF t] by blast
  moreover have "acyclic (order_edges u t')" if "acyclic (order_edges u t)" for u
  proof -
    let ?D = "rin_TargetTaskID ` set rels - {taskID}"
    have "order_edges u t' \<subseteq> order_edges u t \<union> {taskID} \<times> (rin_TargetTaskID ` set rels)"
      using replace_edges [OF loop, of u] cleared_edges [OF t, of ?keep u] by blast
    then have sub: "order_edges u t' \<subseteq> order_edges u t \<union> {taskID} \<times> ?D"
      using no_self_edge [OF \<open>relations_ok t'\<close>] by blast
    have "taskID \<notin> Range (order_edges u t)"
      using assms(2) by (auto simp: order_edges_def list_all_iff)
    then have "(d, taskID) \<notin> (order_edges u t)\<^sup>*" if "d \<in> ?D" for d
      using that reached [of d taskID] by blast
    then have "acyclic (order_edges u t \<union> {taskID} \<times> ?D)"
      using that by (intro acyclic_add_targets) auto
    then show ?thesis using sub by (rule acyclic_subset)
  qed
  ultimately show ?thesis using assms(1) t' by (simp add: orders_ok_def)
qed (use assms in simp)

lemma task_exists_ids: "task_exists i t \<longleftrightarrow> i \<in> bt_ID ` set (db_tasks (ot_db t))"
  by (auto simp: task_exists_def list_ex_iff)

lemma rows_kept:
  assumes "relations_ok t" and "bt_ID ` set (db_tasks (ot_db t)) \<subseteq> bt_ID ` set (db_tasks db)"
  shows "relations_ok (t\<lparr>ot_db := db\<rparr>)"
proof -
  have "task_exists i (t\<lparr>ot_db := db\<rparr>)" if "task_exists i t" for i
    using that assms(2) unfolding task_exists_ids by auto
  then show ?thesis using assms(1) by (simp add: relations_ok_def)
qed

lemma order_edges_db [simp]: "order_edges u (t\<lparr>ot_db := db\<rparr>) = order_edges u t"
  by (simp add: order_edges_def)

lemma delete_rows_keeps:
  assumes "orders_ok t"
  shows "orders_ok (delete_rows repositoryID taskID t)"
proof (cases "find_row (owned repositoryID taskID) (ot_db t) = None")
  case False
  let ?keep = "\<lambda>r. rel_SourceTaskID r \<noteq> taskID \<and> rel_TargetTaskID r \<noteq> taskID"
  let ?t = "t\<lparr>ot_db := snd (store_Delete repositoryID taskID (ot_db t)),
    ot_relations := filter ?keep (ot_relations t)\<rparr>"
  have t': "delete_rows repositoryID taskID t = ?t"
    using False by (auto simp: delete_rows_def store_Delete_def)
  have rows: "task_exists i ?t" if "task_exists i t" "i \<noteq> taskID" for i
    using that False by (auto simp: task_exists_def list_ex_iff store_Delete_def owned_def)
  have "relations_ok ?t"
    using assms rows by (simp add: orders_ok_def relations_ok_def)
  moreover have "order_edges u ?t \<subseteq> order_edges u t" for u
    by (auto simp: order_edges_def)
  ultimately show ?thesis
    using assms acyclic_subset unfolding t' orders_ok_def by blast
qed (use assms in \<open>simp add: delete_rows_def store_Delete_def\<close>)

lemma order_step_keeps: "order_step t t' \<Longrightarrow> orders_ok t \<Longrightarrow> orders_ok t'"
proof (induction rule: order_step.induct)
  case (step_created taskID t rels)
  then show ?case using ReplaceForTask_keeps by blast
next
  case (step_blockers t taskID render blockers)
  then show ?case
    using tables.SetBlockers_keeps [of t "table_ports render" taskID blockers]
    by (cases "SetBlockers (table_ports render) taskID blockers t")
      (simp add: orders_ok_def table_ports_def)
next
  case (step_dependencies t taskID render inputs)
  then show ?case
    using tables.ReplaceDeployDependencies_keeps [of t "table_ports render" taskID inputs]
    by (cases "ReplaceDeployDependencies (table_ports render) taskID inputs t")
      (simp add: orders_ok_def table_ports_def)
next
  case (step_rows t n db)
  then have "bt_ID ` set (db_tasks (ot_db t)) \<subseteq> bt_ID ` set (db_tasks db)"
    by (metis list.set_map set_take_subset)
  then show ?case using step_rows.prems rows_kept by (simp add: orders_ok_def)
qed (rule delete_rows_keeps)

lemma orders_ok_reachable:
  assumes "order_step\<^sup>*\<^sup>* start t" and "ot_relations start = []"
  shows "orders_ok t"
  using assms(1)
proof (induction rule: rtranclp_induct)
  case base
  then show ?case
    using assms(2) by (simp add: orders_ok_def relations_ok_def order_edges_def acyclic_def)
qed (rule order_step_keeps)

text \<open>
  C2: The work order and the deploy order never close a cycle. From a board without relations,
  through any run of task creations, guarded writes, task edits and deletions in which no task has
  more than \<open>relationWalkLimit\<close> tasks in reach, both relations stay acyclic and every row
  keeps pointing at two different tasks that exist.
\<close>
theorem orders_stay_acyclic:
  assumes "order_step\<^sup>*\<^sup>* start t" and "ot_relations start = []"
  shows "acyclic (order_edges TaskRelationBlocks t) \<and>
    acyclic (order_edges TaskRelationDeployDependsOn t) \<and> relations_ok t"
  using orders_ok_reachable [OF assms] by (simp add: orders_ok_def)

text \<open>
  C5: The guard of the work order is exact: within the walk's limit it refuses a blocker if and only
  if the task already precedes that blocker, directly or through other tasks.
\<close>
theorem work_guard_exact:
  assumes "relations_ok t" and "tables.within_walk TaskRelationBlocks t"
    and "task \<noteq> uuid_Nil" and "blocker \<noteq> uuid_Nil"
  shows "guardWorkOrderCycle (table_ports render) t task blocker = None \<longleftrightarrow>
    (task, blocker) \<notin> (order_edges TaskRelationBlocks t)\<^sup>*"
  using tables.work_guard [OF assms(1,2) _ assms(3,4), of "table_ports render"]
  by (simp add: table_ports_def)

text \<open>
  C7: A board whose guards could see their graph cannot deadlock on its work order. On tables reached
  from empty ones by writes of relations, blockers and deploy dependencies, by edits of the task table
  and by deletions, where at each guarded write no task had more than the walk's limit of 512 tasks
  at or after it in the order written, some unfinished task exists that no unfinished task blocks
  whenever any task is unfinished: \<open>ListBlockingSources\<close> is empty for it and the dispatcher may start
  it. Past the limit the guard admits cycles (see \<open>chain_escapes\<close>) and nothing is claimed.
\<close>
theorem some_task_startable:
  assumes "order_step\<^sup>*\<^sup>* start t" and "ot_relations start = []"
    and "list_ex unfinishedBlockerSQL (db_tasks (ot_db t))"
  shows "\<exists>b \<in> set (db_tasks (ot_db t)). unfinishedBlockerSQL b \<and> ListBlockingSources (bt_ID b) t = []"
proof -
  let ?U = "{b \<in> set (db_tasks (ot_db t)). unfinishedBlockerSQL b}"
  let ?E = "order_edges TaskRelationBlocks t"
  have "wf ?E"
    using orders_ok_reachable [OF assms(1,2)] tables.edges_finite
    by (simp add: orders_ok_def finite_acyclic_wf)
  moreover obtain b0 where "b0 \<in> ?U" using assms(3) unfolding list_ex_iff by blast
  then have "bt_ID b0 \<in> bt_ID ` ?U" by (rule imageI)
  ultimately obtain i where i: "i \<in> bt_ID ` ?U" and least: "\<And>j. (j, i) \<in> ?E \<Longrightarrow> j \<notin> bt_ID ` ?U"
    by (rule wfE_min) blast
  from i obtain b where b: "b \<in> ?U" "i = bt_ID b" by (rule imageE)
  have "ListBlockingSources i t = []"
  proof (rule ccontr)
    assume "ListBlockingSources i t \<noteq> []"
    then obtain c where c: "c \<in> set (List.map_filter (\<lambda>r. row_of (rel_SourceTaskID r) t)
        (filter (\<lambda>r. rel_TargetTaskID r = i \<and> rel_RelationType r = TaskRelationBlocks)
          (ot_relations t)))" "unfinishedBlockerSQL c"
      unfolding ListBlockingSources_def map_is_Nil_conv filter_empty_conv by blast
    from c(1) obtain q where q: "q \<in> set (ot_relations t)" "rel_TargetTaskID q = i"
      "rel_RelationType q = TaskRelationBlocks" and row: "row_of (rel_SourceTaskID q) t = Some c"
      unfolding set_map_filter by auto
    have "c \<in> ?U" "bt_ID c = rel_SourceTaskID q"
      using find_row_Some [OF row [unfolded row_of_def]] c(2) by simp_all
    moreover have "(rel_SourceTaskID q, i) \<in> ?E"
      unfolding order_edges_def
    proof (rule image_eqI)
      show "(rel_SourceTaskID q, i) = (rel_SourceTaskID q, rel_TargetTaskID q)" unfolding q(2) ..
      show "q \<in> {r \<in> set (ot_relations t). rel_RelationType r = TaskRelationBlocks}"
        using q(1,3) by (intro CollectI conjI)
    qed
    ultimately show False using least [of "rel_SourceTaskID q"] by (metis imageI)
  qed
  then show ?thesis using b by auto
qed

text \<open>
  The hypothesis on the reach is needed: on a chain of more tasks than the walk visits, the path is
  not found, and the edge that closes the chain into a cycle is let through.
\<close>
lemma chain_escapes:
  assumes "\<And>k. k \<le> n \<Longrightarrow> \<exists>r. listBySource (c k) = Inr [r] \<and> rel_RelationType r = relType \<and>
      rel_TargetTaskID r = c (Suc k)"
    and "\<And>k. k \<le> Suc n \<Longrightarrow> to \<noteq> c k" and "inj_on c {..Suc n}" and "j \<le> n" and "set visited = c ` {..j}"
  shows "walk (n - j) listBySource relType to [(c j, path)] visited = Inr []"
  using assms(4,5)
proof (induction "n - j" arbitrary: j visited path)
  case (Suc m)
  obtain r where r: "listBySource (c j) = Inr [r]" "rel_RelationType r = relType"
    "rel_TargetTaskID r = c (Suc j)"
    using assms(1) Suc.prems(1) by blast
  have "c (Suc j) \<notin> set visited" using assms(3) Suc.prems by (auto dest: inj_onD)
  moreover have "to \<noteq> c (Suc j)" using assms(2) Suc by auto
  moreover have "walk m listBySource relType to [(c (Suc j), q)] (c (Suc j) # visited) = Inr []" for q
  proof -
    have m: "m = n - Suc j" "Suc j \<le> n" using Suc.hyps(2) by arith+
    show ?thesis
      using Suc.hyps(1) [OF m, of "c (Suc j) # visited" q] Suc.prems(2) m(1) by (simp add: atMost_Suc)
  qed
  ultimately show ?case using Suc.hyps(2) [symmetric] r by (simp add: Let_def)
qed simp

section \<open>Concrete boards\<close>

definition two_tasks :: order_tables where
  "two_tasks =
     \<lparr>ot_db = \<lparr>db_tasks = [zero_BoardTask\<lparr>bt_ID := 1\<rparr>, zero_BoardTask\<lparr>bt_ID := 2\<rparr>], db_counters = [],
        db_prefixes = [], db_enteredAt = (\<lambda>_. None), db_quotaResumeAt = (\<lambda>_. None),
        db_running = (\<lambda>_. False), db_now = 5\<rparr>,
      ot_relations = [], ot_nextID = 10\<rparr>"

definition blocker :: "uuid \<Rightarrow> TaskRelationInput" where
  "blocker i = \<lparr>rin_TargetTaskID = i, rin_TargetKey = '''', rin_RelationType = ''''\<rparr>"

definition ordered_tasks :: order_tables where
  "ordered_tasks = snd (SetBlockers (table_ports (\<lambda>_ _. '''')) 2 [blocker 1] two_tasks)"

lemma two_tasks_within: "tables.within_walk relType two_tasks"
  by (simp add: tables.within_walk_def order_edges_def two_tasks_def relationWalkLimit_def)

lemma ordered_reachable: "order_step\<^sup>*\<^sup>* two_tasks ordered_tasks"
  unfolding ordered_tasks_def
  by (rule r_into_rtranclp, rule step_blockers) (simp_all add: two_tasks_within uuid_Nil_def)

lemma orders_stay_acyclic_witness:
  "acyclic (order_edges TaskRelationBlocks ordered_tasks) \<and>
   acyclic (order_edges TaskRelationDeployDependsOn ordered_tasks) \<and> relations_ok ordered_tasks"
  by (rule orders_stay_acyclic [OF ordered_reachable]) (simp add: two_tasks_def)

lemma work_guard_exact_witness:
  "guardWorkOrderCycle (table_ports (\<lambda>_ _. '''')) two_tasks 2 1 = None"
  using work_guard_exact [of two_tasks 2 1 "\<lambda>_ _. ''''"] two_tasks_within
  by (simp add: relations_ok_def uuid_Nil_def rtrancl_eq_or_trancl order_edges_def two_tasks_def)

lemma some_task_startable_witness:
  "\<exists>b \<in> set (db_tasks (ot_db ordered_tasks)). unfinishedBlockerSQL b \<and>
     ListBlockingSources (bt_ID b) ordered_tasks = []"
proof (rule some_task_startable [OF ordered_reachable])
  show "list_ex unfinishedBlockerSQL (db_tasks (ot_db ordered_tasks))" by code_simp
qed (simp add: two_tasks_def)

lemma blocked_in_order: "map bt_ID (ListBlockingSources 2 ordered_tasks) = [1]"
  by code_simp

end
