(* ===== verification/Slot_Gate.thy ===== *)
theory Slot_Gate
  imports Prelude
begin

text \<open>
  The counting gate of \<open>server/internal/application/board/slot_gate.go\<close>: it lets through as many
  holders as its limit, all of them when the limit is 0. \<open>slot_acquire\<close> is one look at the gate under its
  mutex; it has no value when the caller has to wait. How goroutines then sleep and are woken is
  \<open>Slot_Wait\<close>. \<open>Runner\<close> leaves the sleep out: there a waiter may go on whenever a look would let it
  through. That allows every order of steps the code has, so what holds of all states there holds of
  the code; it allows more, since in the code a wake-up can be lost.
\<close>

record slotGate =
  sg_limit :: int
  sg_used :: int

definition newSlotGate :: slotGate where
  "newSlotGate = \<lparr>sg_limit = 0, sg_used = 0\<rparr>"

definition setLimit :: "int \<Rightarrow> slotGate \<Rightarrow> slotGate" where
  "setLimit n g = g\<lparr>sg_limit := (if n < 0 then 0 else n)\<rparr>"

text \<open>\<open>over\<close>: the context of the caller has ended.\<close>

definition slot_acquire :: "bool \<Rightarrow> slotGate \<Rightarrow> (bool \<times> slotGate) option" where
  "slot_acquire over g =
     (if \<not> over \<and> sg_limit g > 0 \<and> sg_used g \<ge> sg_limit g then None
      else if over then Some (False, g)
      else Some (True, g\<lparr>sg_used := sg_used g + 1\<rparr>))"

definition slot_release :: "slotGate \<Rightarrow> slotGate" where
  "slot_release g = (if sg_used g > 0 then g\<lparr>sg_used := sg_used g - 1\<rparr> else g)"

text \<open>What the runner relies on: holders are counted, and the limit is kept.\<close>

locale slots =
  fixes held :: "'g \<Rightarrow> int" and cap :: "'g \<Rightarrow> int"
    and take :: "bool \<Rightarrow> 'g \<Rightarrow> (bool \<times> 'g) option" and give :: "'g \<Rightarrow> 'g" and set_cap :: "int \<Rightarrow> 'g \<Rightarrow> 'g"
  assumes taken: "take over g = Some (True, g') \<Longrightarrow>
      \<not> over \<and> held g' = held g + 1 \<and> cap g' = cap g \<and> (0 < cap g \<longrightarrow> held g < cap g)"
    and refused: "take over g = Some (False, g') \<Longrightarrow> over \<and> g' = g"
    and waits: "take over g = None \<Longrightarrow> \<not> over \<and> 0 < cap g \<and> cap g \<le> held g"
    and given: "0 < held g \<Longrightarrow> held (give g) = held g - 1"
    and given_cap: "cap (give g) = cap g"
    and cap_set: "cap (set_cap n g) = max 0 n"
    and cap_held: "held (set_cap n g) = held g"
begin

lemma no_wait_unlimited: "cap g = 0 \<Longrightarrow> take over g \<noteq> None"
  using waits [of over g] by (cases "take over g") auto

lemma no_wait_empty: "held g \<le> 0 \<Longrightarrow> take over g \<noteq> None"
  using waits [of over g] by (cases "take over g") auto

lemma taken_within: "take over g = Some (True, g') \<Longrightarrow> 0 < cap g \<Longrightarrow> cap g \<le> n \<Longrightarrow> held g' \<le> n"
  using taken [of over g g'] by auto

end

interpretation slot: slots sg_used sg_limit slot_acquire slot_release setLimit
  by unfold_locales (auto simp: slot_acquire_def slot_release_def setLimit_def split: if_splits)

end
