(* ===== verification/Runner.thy ===== *)
theory Runner
  imports Dispatcher Slot_Gate
begin

text \<open>
  How the runner of \<open>server/internal/application/board/runner.go\<close> schedules runs: its queue, the limits
  on agents and tasks at work, and the rule that a task has one run at a time, with the runs that wait
  for it parked in order. What a run does between its claim and its end is not here.

  Goroutines interleave. A goroutine is a job with a program counter, \<open>phase\<close>, and one step of it is one
  region of the code under a lock, one wait that ends, or one call: \<open>advance\<close> goes through \<open>runJob\<close>,
  \<open>beginTask\<close>, \<open>endTask\<close> and the start and end of \<open>execute\<close> in the order of the code. A wait at a gate
  ends when a look at it lets the goroutine through; how it is woken is \<open>Slot_Wait\<close>. What the world
  answers (the row of the run, the settings, the claim) comes with the step. A run of the runner is the
  list of its steps in the order they happen.
\<close>

section \<open>The runner\<close>

datatype phase =
    Registering | Checking | Limiting | AgentWait | Beginning | TaskWait | Marking | Executing | Running
  | Releasing bool
  | Ending bool
  | SlotBack bool "RunJob option"
  | Passing bool "RunJob option"
  | Leaving | Gone

datatype loop = Polling | Receiving | Exited

record goroutine =
  go_job :: RunJob
  go_phase :: phase
  go_over :: bool

record Runner =
  rr_queue :: "RunJob list"
  rr_loop :: loop
  rr_goroutines :: "goroutine list"
  rr_active :: "uuid set"
  rr_queued :: "uuid set"
  rr_activeTasks :: "uuid \<rightharpoonup> uuid"
  rr_parked :: "uuid \<Rightarrow> RunJob list"
  rr_taskSlotHeld :: "uuid set"
  rr_cancels :: "uuid \<rightharpoonup> nat"
  rr_agentSlots :: slotGate
  rr_taskSlots :: slotGate
  rr_drain :: bool
  rr_over :: bool

definition runnerQueue :: nat where "runnerQueue = 256"

definition NewRunner :: Runner where
  "NewRunner =
     \<lparr>rr_queue = [], rr_loop = Polling, rr_goroutines = [], rr_active = {}, rr_queued = {},
      rr_activeTasks = Map.empty, rr_parked = (\<lambda>_. []), rr_taskSlotHeld = {}, rr_cancels = Map.empty,
      rr_agentSlots = newSlotGate, rr_taskSlots = newSlotGate, rr_drain = False, rr_over = False\<rparr>"

lemma new_runner_queue [simp]: "rr_queue NewRunner = []"
  by (simp add: NewRunner_def)

definition isRevision :: "RunJob \<Rightarrow> bool" where
  "isRevision j \<longleftrightarrow> bt_Column (job_Task j) = TaskColumnNeedRevision \<or> job_EnteredFrom j = TaskColumnNeedRevision"

abbreviation job_id :: "RunJob \<Rightarrow> uuid" where "job_id j \<equiv> run_ID (job_Run j)"
abbreviation job_task :: "RunJob \<Rightarrow> uuid" where "job_task j \<equiv> bt_ID (job_Task j)"

definition IsActive :: "uuid \<Rightarrow> Runner \<Rightarrow> bool" where
  "IsActive runID r \<longleftrightarrow> runID \<in> rr_active r \<or> runID \<in> rr_queued r"

definition IsTaskActive :: "Runner option \<Rightarrow> uuid \<Rightarrow> bool" where
  "IsTaskActive runner taskID = (case runner of None \<Rightarrow> False | Some r \<Rightarrow> rr_activeTasks r taskID \<noteq> None)"

definition ActiveCount :: "Runner \<Rightarrow> nat" where
  "ActiveCount r = card (rr_active r)"

definition markActive :: "uuid \<Rightarrow> Runner \<Rightarrow> Runner" where
  "markActive runID r = r\<lparr>rr_active := insert runID (rr_active r), rr_queued := rr_queued r - {runID}\<rparr>"

definition markQueued :: "uuid \<Rightarrow> Runner \<Rightarrow> Runner" where
  "markQueued runID r = (if runID = uuid_Nil then r else r\<lparr>rr_queued := insert runID (rr_queued r)\<rparr>)"

definition unmarkQueued :: "uuid \<Rightarrow> Runner \<Rightarrow> Runner" where
  "unmarkQueued runID r = (if runID = uuid_Nil then r else r\<lparr>rr_queued := rr_queued r - {runID}\<rparr>)"

definition Enqueue :: "RunJob \<Rightarrow> Runner \<Rightarrow> Runner" where
  "Enqueue job r =
     (if length (rr_queue r) < runnerQueue
      then markQueued (job_id job) (r\<lparr>rr_queue := rr_queue r @ [job]\<rparr>) else r)"

definition registerCancel :: "uuid \<Rightarrow> nat \<Rightarrow> Runner \<Rightarrow> Runner" where
  "registerCancel runID i r = r\<lparr>rr_cancels := (rr_cancels r)(runID \<mapsto> i)\<rparr>"

definition end_context :: "nat \<Rightarrow> Runner \<Rightarrow> Runner" where
  "end_context i r =
     (if i < length (rr_goroutines r)
      then r\<lparr>rr_goroutines := (rr_goroutines r)[i := (rr_goroutines r ! i)\<lparr>go_over := True\<rparr>]\<rparr> else r)"

definition Cancel :: "uuid \<Rightarrow> Runner \<Rightarrow> bool \<times> Runner" where
  "Cancel runID r = (case rr_cancels r runID of None \<Rightarrow> (False, r) | Some i \<Rightarrow> (True, end_context i r))"

definition stopRequested :: "bool \<Rightarrow> bool \<Rightarrow> bool" where
  "stopRequested parent_over run_over \<longleftrightarrow> run_over \<and> \<not> parent_over"

definition alreadyStopped :: "(go_error + TaskAgentRun) option \<Rightarrow> bool" where
  "alreadyStopped row =
     (case row of None \<Rightarrow> False | Some (Inl err) \<Rightarrow> False | Some (Inr run) \<Rightarrow> TaskAgentRunIsTerminal (run_Status run))"

definition concurrencyLimits :: "(go_error + int \<times> int) option \<Rightarrow> int \<times> int" where
  "concurrencyLimits settings =
     (case settings of None \<Rightarrow> (0, 0) | Some (Inl err) \<Rightarrow> (0, 0) | Some (Inr (agents, tasks)) \<Rightarrow> (max agents 0, max tasks 0))"

text \<open>
  The region of \<open>beginTask\<close> under the lock, with where the goroutine goes on: to give back its agent slot
  when the job is parked, to wait for a task slot, or to work.
\<close>

definition beginTask :: "RunJob \<Rightarrow> Runner \<Rightarrow> phase \<times> Runner" where
  "beginTask job r =
     (let taskID = job_task job in
      if taskID = uuid_Nil then (Executing, r)
      else case rr_activeTasks r taskID of
          Some holder \<Rightarrow>
            (Releasing False, r\<lparr>rr_parked := (rr_parked r)(taskID := rr_parked r taskID @ [job])\<rparr>)
        | None \<Rightarrow>
            ((if taskID \<notin> rr_taskSlotHeld r then TaskWait else Executing),
             r\<lparr>rr_activeTasks := (rr_activeTasks r)(taskID \<mapsto> job_id job)\<rparr>))"

text \<open>
  The region of \<open>endTask\<close> under the lock. \<open>holding\<close>: it was called by \<open>beginTask\<close>, whose goroutine
  still holds its agent slot.
\<close>

definition endTask :: "bool \<Rightarrow> uuid \<Rightarrow> Runner \<Rightarrow> phase \<times> Runner" where
  "endTask holding taskID r =
     (if taskID = uuid_Nil then ((if holding then Releasing False else Leaving), r)
      else let waiting = rr_parked r taskID;
               next_job = (case waiting of [] \<Rightarrow> None | j # js \<Rightarrow> Some j);
               rest = tl waiting;
               releaseSlot = (rest = [] \<and> taskID \<in> rr_taskSlotHeld r)
           in ((if releaseSlot then SlotBack holding next_job else Passing holding next_job),
               r\<lparr>rr_activeTasks := (rr_activeTasks r)(taskID := None),
                 rr_parked := (rr_parked r)(taskID := rest),
                 rr_taskSlotHeld := (if releaseSlot then rr_taskSlotHeld r - {taskID} else rr_taskSlotHeld r)\<rparr>))"

section \<open>Steps\<close>

record run_answers =
  an_row :: "(go_error + TaskAgentRun) option"
  an_settings :: "(go_error + int \<times> int) option"
  an_claimed :: bool

definition go_to :: "nat \<Rightarrow> phase \<Rightarrow> Runner \<Rightarrow> Runner" where
  "go_to i ph r = r\<lparr>rr_goroutines := (rr_goroutines r)[i := (rr_goroutines r ! i)\<lparr>go_phase := ph\<rparr>]\<rparr>"

definition advance :: "nat \<Rightarrow> run_answers \<Rightarrow> Runner \<Rightarrow> Runner option" where
  "advance i a r =
     (let g = rr_goroutines r ! i; job = go_job g; over = (go_over g \<or> rr_over r) in
      case go_phase g of
        Registering \<Rightarrow> Some (go_to i Checking (registerCancel (job_id job) i r))
      | Checking \<Rightarrow>
          Some (if alreadyStopped (an_row a) then go_to i Leaving (unmarkQueued (job_id job) r)
                else go_to i Limiting r)
      | Limiting \<Rightarrow>
          (case concurrencyLimits (an_settings a) of (agents, tasks) \<Rightarrow>
             Some (go_to i AgentWait (r\<lparr>rr_agentSlots := setLimit agents (rr_agentSlots r),
                                        rr_taskSlots := setLimit tasks (rr_taskSlots r)\<rparr>)))
      | AgentWait \<Rightarrow>
          (case slot_acquire over (rr_agentSlots r) of
             None \<Rightarrow> None
           | Some (ok, s) \<Rightarrow>
               Some (if ok then go_to i Beginning (r\<lparr>rr_agentSlots := s\<rparr>)
                     else go_to i Leaving (unmarkQueued (job_id job) r)))
      | Beginning \<Rightarrow> (case beginTask job r of (ph, r1) \<Rightarrow> Some (go_to i ph r1))
      | TaskWait \<Rightarrow>
          (case slot_acquire over (rr_taskSlots r) of
             None \<Rightarrow> None
           | Some (ok, s) \<Rightarrow>
               Some (if ok then go_to i Marking (r\<lparr>rr_taskSlots := s\<rparr>) else go_to i (Ending True) r))
      | Marking \<Rightarrow>
          Some (go_to i Executing (r\<lparr>rr_taskSlotHeld := insert (job_task job) (rr_taskSlotHeld r)\<rparr>))
      | Executing \<Rightarrow>
          Some (if an_claimed a then go_to i Running (markActive (job_id job) r) else go_to i (Releasing True) r)
      | Running \<Rightarrow> Some (go_to i (Releasing True) (r\<lparr>rr_active := rr_active r - {job_id job}\<rparr>))
      | Releasing ends \<Rightarrow>
          Some (go_to i (if ends then Ending False else Leaving)
                  (r\<lparr>rr_agentSlots := slot_release (rr_agentSlots r)\<rparr>))
      | Ending holding \<Rightarrow> (case endTask holding (job_task job) r of (ph, r1) \<Rightarrow> Some (go_to i ph r1))
      | SlotBack holding next_job \<Rightarrow>
          Some (go_to i (Passing holding next_job) (r\<lparr>rr_taskSlots := slot_release (rr_taskSlots r)\<rparr>))
      | Passing holding next_job \<Rightarrow>
          Some (go_to i (if holding then Releasing False else Leaving)
                  (case next_job of
                     None \<Rightarrow> r
                   | Some j \<Rightarrow> if job_id j \<noteq> uuid_Nil then Enqueue j r else r))
      | Leaving \<Rightarrow> Some (go_to i Gone (r\<lparr>rr_cancels := (rr_cancels r)(job_id job := None)\<rparr>))
      | Gone \<Rightarrow> None)"

datatype runner_event =
    Arrive RunJob
  | Poll | Receive | Quit
  | Go nat run_answers
  | Beat nat "go_error + RunStatus"
  | StopRun uuid
  | CloseDrain | CancelAll

fun runner_step :: "runner_event \<Rightarrow> Runner \<Rightarrow> Runner option" where
  "runner_step (Arrive job) r = Some (Enqueue job r)"
| "runner_step Poll r =
     (if rr_loop r = Polling
      then Some (r\<lparr>rr_loop := (if rr_over r \<or> rr_drain r then Exited else Receiving)\<rparr>) else None)"
| "runner_step Receive r =
     (if rr_loop r = Receiving
      then (case rr_queue r of
              [] \<Rightarrow> None
            | job # jobs \<Rightarrow>
                Some (r\<lparr>rr_queue := jobs, rr_loop := Polling,
                        rr_goroutines := rr_goroutines r @ [\<lparr>go_job = job, go_phase = Registering, go_over = False\<rparr>]\<rparr>))
      else None)"
| "runner_step Quit r =
     (if rr_loop r = Receiving \<and> (rr_over r \<or> rr_drain r) then Some (r\<lparr>rr_loop := Exited\<rparr>) else None)"
| "runner_step (Go i a) r = (if i < length (rr_goroutines r) then advance i a r else None)"
| "runner_step (Beat i answer) r =
     (if i < length (rr_goroutines r) \<and> go_phase (rr_goroutines r ! i) = Running
      then Some (case answer of
                   Inl err \<Rightarrow> r
                 | Inr status \<Rightarrow> if status = TaskAgentRunStatusCancelled then end_context i r else r)
      else None)"
| "runner_step (StopRun runID) r = Some (snd (Cancel runID r))"
| "runner_step CloseDrain r = Some (r\<lparr>rr_drain := True\<rparr>)"
| "runner_step CancelAll r = Some (r\<lparr>rr_over := True\<rparr>)"

fun runner_steps :: "runner_event list \<Rightarrow> Runner \<Rightarrow> Runner option" where
  "runner_steps [] r = Some r"
| "runner_steps (e # es) r = (case runner_step e r of None \<Rightarrow> None | Some r1 \<Rightarrow> runner_steps es r1)"

text \<open>The states a runner gets into, whatever arrives, is answered or is stopped, and in whatever order.\<close>

inductive reached :: "Runner \<Rightarrow> bool" where
  reached_new: "reached NewRunner"
| reached_step: "reached r \<Longrightarrow> runner_step e r = Some r' \<Longrightarrow> reached r'"

lemma reached_steps: "reached r \<Longrightarrow> runner_steps es r = Some r' \<Longrightarrow> reached r'"
  by (induction es arbitrary: r) (auto split: option.splits intro: reached_step)

section \<open>Counting goroutines\<close>

definition tally :: "(goroutine \<Rightarrow> bool) \<Rightarrow> Runner \<Rightarrow> int" where
  "tally P r = int (length (filter P (rr_goroutines r)))"

lemma length_filter_update:
  "i < length xs \<Longrightarrow>
   int (length (filter P (xs[i := y]))) = int (length (filter P xs)) - of_bool (P (xs ! i)) + of_bool (P y)"
proof (induction xs arbitrary: i)
  case (Cons x xs)
  then show ?case by (cases i) auto
qed simp

lemma tally_go_to:
  "rr_goroutines r1 = rr_goroutines r \<Longrightarrow> i < length (rr_goroutines r) \<Longrightarrow>
   tally P (go_to i ph r1) =
     tally P r - of_bool (P (rr_goroutines r ! i)) + of_bool (P ((rr_goroutines r ! i)\<lparr>go_phase := ph\<rparr>))"
  by (simp add: tally_def go_to_def length_filter_update)

lemma tally_end_context:
  "(\<And>g. P (g\<lparr>go_over := True\<rparr>) = P g) \<Longrightarrow> tally P (end_context i r) = tally P r"
  using length_filter_update [of i "rr_goroutines r" P "(rr_goroutines r ! i)\<lparr>go_over := True\<rparr>"]
  by (simp add: tally_def end_context_def)

lemma tally_cong: "rr_goroutines r = rr_goroutines r' \<Longrightarrow> tally P r = tally P r'"
  by (simp add: tally_def)

lemma tally_pos: "g \<in> set (rr_goroutines r) \<Longrightarrow> P g \<Longrightarrow> 1 \<le> tally P r"
proof -
  assume "g \<in> set (rr_goroutines r)" and "P g"
  then have "filter P (rr_goroutines r) \<noteq> []" by (auto simp: filter_empty_conv)
  then show ?thesis by (cases "filter P (rr_goroutines r)") (auto simp: tally_def)
qed

lemma tally_zero: "tally P r \<le> 0 \<longleftrightarrow> (\<forall>g \<in> set (rr_goroutines r). \<not> P g)"
  by (auto simp: tally_def filter_empty_conv)

lemma tally_nonneg [simp]: "0 \<le> tally P r" by (simp add: tally_def)

lemma tally_two:
  assumes "i < j" and "j < length (rr_goroutines r)" and "P (rr_goroutines r ! i)" and "P (rr_goroutines r ! j)"
  shows "2 \<le> tally P r"
proof -
  let ?gs = "rr_goroutines r"
  have "?gs ! i \<in> set (take j ?gs)"
    using assms(1,2) by (metis in_set_conv_nth length_take min.absorb2 nat_less_le nth_take)
  then have 1: "filter P (take j ?gs) \<noteq> []"
    using assms(3) by (auto simp: filter_empty_conv)
  have "?gs ! j \<in> set (drop j ?gs)"
    using assms(2) by (metis Cons_nth_drop_Suc list.set_intros(1))
  then have 2: "filter P (drop j ?gs) \<noteq> []"
    using assms(4) by (auto simp: filter_empty_conv)
  have "filter P ?gs = filter P (take j ?gs) @ filter P (drop j ?gs)"
    by (metis append_take_drop_id filter_append)
  then have "length (filter P ?gs) = length (filter P (take j ?gs)) + length (filter P (drop j ?gs))"
    by simp
  moreover have "0 < length (filter P (take j ?gs))" and "0 < length (filter P (drop j ?gs))"
    using 1 2 by (auto simp only: length_greater_0_conv)
  ultimately have "2 \<le> length (filter P ?gs)" by linarith
  then show ?thesis by (simp add: tally_def)
qed

text \<open>What the small operations leave alone.\<close>

lemma go_to_kept [simp]:
  "rr_queue (go_to i ph r) = rr_queue r" "rr_loop (go_to i ph r) = rr_loop r"
  "rr_active (go_to i ph r) = rr_active r" "rr_activeTasks (go_to i ph r) = rr_activeTasks r"
  "rr_parked (go_to i ph r) = rr_parked r" "rr_taskSlotHeld (go_to i ph r) = rr_taskSlotHeld r"
  "rr_agentSlots (go_to i ph r) = rr_agentSlots r" "rr_taskSlots (go_to i ph r) = rr_taskSlots r"
  "rr_drain (go_to i ph r) = rr_drain r" "rr_over (go_to i ph r) = rr_over r"
  "length (rr_goroutines (go_to i ph r)) = length (rr_goroutines r)"
  by (simp_all add: go_to_def)

lemma end_context_kept [simp]:
  "rr_queue (end_context i r) = rr_queue r" "rr_loop (end_context i r) = rr_loop r"
  "rr_activeTasks (end_context i r) = rr_activeTasks r" "rr_parked (end_context i r) = rr_parked r"
  "rr_taskSlotHeld (end_context i r) = rr_taskSlotHeld r"
  "rr_agentSlots (end_context i r) = rr_agentSlots r" "rr_taskSlots (end_context i r) = rr_taskSlots r"
  "rr_drain (end_context i r) = rr_drain r" "rr_over (end_context i r) = rr_over r"
  by (simp_all add: end_context_def)

lemma marks_kept [simp]:
  "rr_goroutines (markQueued x r) = rr_goroutines r" "rr_goroutines (unmarkQueued x r) = rr_goroutines r"
  "rr_goroutines (markActive x r) = rr_goroutines r" "rr_goroutines (registerCancel x i r) = rr_goroutines r"
  "rr_queue (markQueued x r) = rr_queue r" "rr_queue (unmarkQueued x r) = rr_queue r"
  "rr_queue (markActive x r) = rr_queue r" "rr_queue (registerCancel x i r) = rr_queue r"
  "rr_loop (markQueued x r) = rr_loop r" "rr_loop (unmarkQueued x r) = rr_loop r"
  "rr_loop (markActive x r) = rr_loop r" "rr_loop (registerCancel x i r) = rr_loop r"
  "rr_activeTasks (markQueued x r) = rr_activeTasks r" "rr_activeTasks (unmarkQueued x r) = rr_activeTasks r"
  "rr_activeTasks (markActive x r) = rr_activeTasks r" "rr_activeTasks (registerCancel x i r) = rr_activeTasks r"
  "rr_parked (markQueued x r) = rr_parked r" "rr_parked (unmarkQueued x r) = rr_parked r"
  "rr_parked (markActive x r) = rr_parked r" "rr_parked (registerCancel x i r) = rr_parked r"
  "rr_taskSlotHeld (markQueued x r) = rr_taskSlotHeld r" "rr_taskSlotHeld (unmarkQueued x r) = rr_taskSlotHeld r"
  "rr_taskSlotHeld (markActive x r) = rr_taskSlotHeld r" "rr_taskSlotHeld (registerCancel x i r) = rr_taskSlotHeld r"
  "rr_agentSlots (markQueued x r) = rr_agentSlots r" "rr_agentSlots (unmarkQueued x r) = rr_agentSlots r"
  "rr_agentSlots (markActive x r) = rr_agentSlots r" "rr_agentSlots (registerCancel x i r) = rr_agentSlots r"
  "rr_taskSlots (markQueued x r) = rr_taskSlots r" "rr_taskSlots (unmarkQueued x r) = rr_taskSlots r"
  "rr_taskSlots (markActive x r) = rr_taskSlots r" "rr_taskSlots (registerCancel x i r) = rr_taskSlots r"
  by (simp_all add: markQueued_def unmarkQueued_def markActive_def registerCancel_def)

lemma Enqueue_kept [simp]:
  "rr_goroutines (Enqueue j r) = rr_goroutines r" "rr_loop (Enqueue j r) = rr_loop r"
  "rr_activeTasks (Enqueue j r) = rr_activeTasks r" "rr_parked (Enqueue j r) = rr_parked r"
  "rr_taskSlotHeld (Enqueue j r) = rr_taskSlotHeld r"
  "rr_agentSlots (Enqueue j r) = rr_agentSlots r" "rr_taskSlots (Enqueue j r) = rr_taskSlots r"
  by (simp_all add: Enqueue_def)

lemma beginTask_kept:
  assumes "beginTask j r = (ph, r1)"
  shows "rr_goroutines r1 = rr_goroutines r" "rr_queue r1 = rr_queue r" "rr_loop r1 = rr_loop r"
    "rr_taskSlotHeld r1 = rr_taskSlotHeld r"
    "rr_agentSlots r1 = rr_agentSlots r" "rr_taskSlots r1 = rr_taskSlots r"
  using assms by (auto simp: beginTask_def Let_def split: if_splits option.splits)

lemma endTask_kept:
  assumes "endTask h x r = (ph, r1)"
  shows "rr_goroutines r1 = rr_goroutines r" "rr_queue r1 = rr_queue r" "rr_loop r1 = rr_loop r"
    "rr_agentSlots r1 = rr_agentSlots r" "rr_taskSlots r1 = rr_taskSlots r"
  using assms by (auto simp: endTask_def Let_def split: if_splits)

lemma advance_cases:
  assumes "advance i a r = Some r'"
  obtains
    (registering) "go_phase (rr_goroutines r ! i) = Registering"
      "r' = go_to i Checking (registerCancel (job_id (go_job (rr_goroutines r ! i))) i r)"
  | (stopped) "go_phase (rr_goroutines r ! i) = Checking" "alreadyStopped (an_row a)"
      "r' = go_to i Leaving (unmarkQueued (job_id (go_job (rr_goroutines r ! i))) r)"
  | (checked) "go_phase (rr_goroutines r ! i) = Checking" "r' = go_to i Limiting r"
  | (limiting) agents tasks where "go_phase (rr_goroutines r ! i) = Limiting"
      "concurrencyLimits (an_settings a) = (agents, tasks)"
      "r' = go_to i AgentWait (r\<lparr>rr_agentSlots := setLimit agents (rr_agentSlots r),
                                rr_taskSlots := setLimit tasks (rr_taskSlots r)\<rparr>)"
  | (agent_slot) s where "go_phase (rr_goroutines r ! i) = AgentWait"
      "slot_acquire (go_over (rr_goroutines r ! i) \<or> rr_over r) (rr_agentSlots r) = Some (True, s)"
      "r' = go_to i Beginning (r\<lparr>rr_agentSlots := s\<rparr>)"
  | (no_agent_slot) "go_phase (rr_goroutines r ! i) = AgentWait"
      "go_over (rr_goroutines r ! i) \<or> rr_over r"
      "r' = go_to i Leaving (unmarkQueued (job_id (go_job (rr_goroutines r ! i))) r)"
  | (beginning) ph r1 where "go_phase (rr_goroutines r ! i) = Beginning"
      "beginTask (go_job (rr_goroutines r ! i)) r = (ph, r1)" "r' = go_to i ph r1"
  | (task_slot) s where "go_phase (rr_goroutines r ! i) = TaskWait"
      "slot_acquire (go_over (rr_goroutines r ! i) \<or> rr_over r) (rr_taskSlots r) = Some (True, s)"
      "r' = go_to i Marking (r\<lparr>rr_taskSlots := s\<rparr>)"
  | (no_task_slot) "go_phase (rr_goroutines r ! i) = TaskWait" "r' = go_to i (Ending True) r"
  | (marking) "go_phase (rr_goroutines r ! i) = Marking"
      "r' = go_to i Executing (r\<lparr>rr_taskSlotHeld := insert (job_task (go_job (rr_goroutines r ! i))) (rr_taskSlotHeld r)\<rparr>)"
  | (claimed) "go_phase (rr_goroutines r ! i) = Executing"
      "r' = go_to i Running (markActive (job_id (go_job (rr_goroutines r ! i))) r)"
  | (not_claimed) "go_phase (rr_goroutines r ! i) = Executing" "r' = go_to i (Releasing True) r"
  | (running) "go_phase (rr_goroutines r ! i) = Running"
      "r' = go_to i (Releasing True) (r\<lparr>rr_active := rr_active r - {job_id (go_job (rr_goroutines r ! i))}\<rparr>)"
  | (releasing) ends where "go_phase (rr_goroutines r ! i) = Releasing ends"
      "r' = go_to i (if ends then Ending False else Leaving) (r\<lparr>rr_agentSlots := slot_release (rr_agentSlots r)\<rparr>)"
  | (ending) holding ph r1 where "go_phase (rr_goroutines r ! i) = Ending holding"
      "endTask holding (job_task (go_job (rr_goroutines r ! i))) r = (ph, r1)" "r' = go_to i ph r1"
  | (slot_back) holding n where "go_phase (rr_goroutines r ! i) = SlotBack holding n"
      "r' = go_to i (Passing holding n) (r\<lparr>rr_taskSlots := slot_release (rr_taskSlots r)\<rparr>)"
  | (passed_none) holding n where "go_phase (rr_goroutines r ! i) = Passing holding n"
      "\<And>j. n = Some j \<Longrightarrow> job_id j = uuid_Nil" "r' = go_to i (if holding then Releasing False else Leaving) r"
  | (passed) holding j where "go_phase (rr_goroutines r ! i) = Passing holding (Some j)" "job_id j \<noteq> uuid_Nil"
      "r' = go_to i (if holding then Releasing False else Leaving) (Enqueue j r)"
  | (leaving) "go_phase (rr_goroutines r ! i) = Leaving"
      "r' = go_to i Gone (r\<lparr>rr_cancels := (rr_cancels r)(job_id (go_job (rr_goroutines r ! i)) := None)\<rparr>)"
proof (cases "go_phase (rr_goroutines r ! i)")
  case Registering
  with assms show ?thesis by (intro registering) (simp_all add: advance_def Let_def)
next
  case Checking
  with assms show ?thesis by (cases "alreadyStopped (an_row a)") (auto simp: advance_def Let_def intro: stopped checked)
next
  case Limiting
  with assms show ?thesis by (auto simp: advance_def Let_def split: prod.splits intro: limiting)
next
  case AgentWait
  with assms show ?thesis
    by (cases "slot_acquire (go_over (rr_goroutines r ! i) \<or> rr_over r) (rr_agentSlots r)")
      (auto simp: advance_def Let_def split: if_splits dest!: slot.refused intro: agent_slot no_agent_slot)
next
  case Beginning
  with assms show ?thesis by (auto simp: advance_def Let_def split: prod.splits intro: beginning)
next
  case TaskWait
  with assms show ?thesis
    by (auto simp: advance_def Let_def split: option.splits if_splits intro: task_slot no_task_slot)
next
  case Marking
  with assms show ?thesis by (intro marking) (simp_all add: advance_def Let_def)
next
  case Executing
  with assms show ?thesis by (cases "an_claimed a") (auto simp: advance_def Let_def intro: claimed not_claimed)
next
  case Running
  with assms show ?thesis by (intro running) (simp_all add: advance_def Let_def)
next
  case (Releasing ends)
  with assms show ?thesis by (cases ends) (auto simp: advance_def Let_def intro: releasing)
next
  case (Ending holding)
  with assms show ?thesis by (auto simp: advance_def Let_def split: prod.splits intro: ending)
next
  case (SlotBack holding n)
  with assms show ?thesis by (intro slot_back) (auto simp: advance_def Let_def)
next
  case (Passing holding n)
  with assms show ?thesis
    by (cases n) (auto simp: advance_def Let_def split: if_splits intro: passed_none passed)
next
  case Leaving
  with assms show ?thesis by (intro leaving) (simp_all add: advance_def Let_def)
next
  case Gone
  with assms show ?thesis by (simp add: advance_def)
qed

section \<open>Agent slots\<close>

text \<open>Who holds an agent slot, a task, a task slot.\<close>

fun has_agent :: "phase \<Rightarrow> bool" where
  "has_agent (Releasing ends) = True"
| "has_agent (Ending holding) = holding"
| "has_agent (SlotBack holding n) = holding"
| "has_agent (Passing holding n) = holding"
| "has_agent ph = (ph \<in> {Beginning, TaskWait, Marking, Executing, Running})"

fun has_task :: "phase \<Rightarrow> bool" where
  "has_task (Releasing ends) = ends"
| "has_task (Ending holding) = True"
| "has_task ph = (ph \<in> {TaskWait, Marking, Executing, Running})"

fun on_slot :: "phase \<Rightarrow> bool" where
  "on_slot (Releasing ends) = ends"
| "on_slot (Ending holding) = (\<not> holding)"
| "on_slot ph = (ph \<in> {Executing, Running})"

fun between_slots :: "phase \<Rightarrow> bool" where
  "between_slots (SlotBack holding n) = True"
| "between_slots ph = (ph = Marking)"

abbreviation agents_at_work :: "Runner \<Rightarrow> int" where
  "agents_at_work r \<equiv> tally (\<lambda>g. has_agent (go_phase g)) r"

lemma beginTask_phase:
  "beginTask j r = (ph, r1) \<Longrightarrow> has_agent ph \<and> \<not> between_slots ph"
  by (auto simp: beginTask_def Let_def split: if_splits option.splits)

lemma endTask_phase:
  "endTask h x r = (ph, r1) \<Longrightarrow> has_agent ph = h \<and> \<not> has_task ph \<and> \<not> on_slot ph"
  by (auto simp: endTask_def Let_def split: if_splits)

lemma endTask_late:
  "endTask h x r = (ph, r1) \<Longrightarrow> ph \<notin> {Registering, Checking, Limiting, AgentWait, Beginning, TaskWait, Gone}"
  by (auto simp: endTask_def Let_def split: if_splits)

lemma advance_agents:
  assumes step: "advance i a r = Some r'" and i: "i < length (rr_goroutines r)"
    and inv: "sg_used (rr_agentSlots r) = agents_at_work r"
  shows "sg_used (rr_agentSlots r') = agents_at_work r'"
proof -
  let ?g = "rr_goroutines r ! i"
  have pos: "has_agent (go_phase ?g) \<Longrightarrow> 0 < sg_used (rr_agentSlots r)"
    using tally_pos [of ?g r "\<lambda>g. has_agent (go_phase g)"] i inv by simp
  have moved: "\<And>ph r1. rr_goroutines r1 = rr_goroutines r \<Longrightarrow>
      agents_at_work (go_to i ph r1) = agents_at_work r - of_bool (has_agent (go_phase ?g)) + of_bool (has_agent ph)"
    using i by (simp add: tally_go_to)
  from step show ?thesis
  proof (cases rule: advance_cases)
    case (agent_slot s)
    then show ?thesis using inv slot.taken [OF agent_slot(2)] by (simp add: moved)
  next
    case (beginning ph r1)
    then show ?thesis
      using inv beginTask_phase [of "go_job ?g" r] beginTask_kept [OF beginning(2)] by (simp add: moved)
  next
    case (releasing ends)
    then show ?thesis using inv pos by (simp add: moved slot.given)
  next
    case (ending h ph r1)
    then show ?thesis
      using inv endTask_phase [of h] endTask_kept [OF ending(2)] by (simp add: moved)
  qed (use inv in \<open>simp_all add: moved slot.cap_held\<close>)
qed

lemma agents_counted: "reached r \<Longrightarrow> sg_used (rr_agentSlots r) = agents_at_work r"
proof (induction rule: reached.induct)
  case reached_new
  then show ?case by (simp add: NewRunner_def newSlotGate_def tally_def)
next
  case (reached_step r e r')
  then show ?case
  proof (cases e)
    case (Go i a)
    then show ?thesis using reached_step advance_agents [of i a r r'] by (simp split: if_splits)
  next
    case (Beat i answer)
    then show ?thesis
      using reached_step by (auto simp: tally_end_context split: if_splits sum.splits)
  next
    case (StopRun runID)
    then show ?thesis
      using reached_step by (auto simp: Cancel_def tally_end_context split: option.splits)
  next
    case (Arrive job)
    then show ?thesis using reached_step by (auto simp: tally_def)
  qed (auto simp: tally_def split: if_splits list.splits)
qed

section \<open>One run of a task at a time\<close>

abbreviation go_task :: "goroutine \<Rightarrow> uuid" where "go_task g \<equiv> job_task (go_job g)"

definition on_task :: "uuid \<Rightarrow> goroutine \<Rightarrow> bool" where
  "on_task T g \<longleftrightarrow> has_task (go_phase g) \<and> go_task g = T"

text \<open>The table of tasks at work says who works on them: nobody or one goroutine.\<close>

definition tasks_told :: "Runner \<Rightarrow> bool" where
  "tasks_told r \<longleftrightarrow> (\<forall>T. T \<noteq> uuid_Nil \<longrightarrow> tally (on_task T) r = of_bool (rr_activeTasks r T \<noteq> None))"

lemma on_task_moved [simp]:
  "on_task T (g\<lparr>go_phase := ph\<rparr>) \<longleftrightarrow> has_task ph \<and> go_task g = T"
  "on_task T (g\<lparr>go_over := b\<rparr>) = on_task T g"
  by (simp_all add: on_task_def)

lemma tasks_told_unique:
  assumes "tasks_told r" and "i < length (rr_goroutines r)" and "j < length (rr_goroutines r)"
    and "has_task (go_phase (rr_goroutines r ! i))" and "has_task (go_phase (rr_goroutines r ! j))"
    and "go_task (rr_goroutines r ! i) = go_task (rr_goroutines r ! j)"
    and "go_task (rr_goroutines r ! i) \<noteq> uuid_Nil"
  shows "i = j"
proof (rule ccontr)
  let ?T = "go_task (rr_goroutines r ! i)"
  have on: "on_task ?T (rr_goroutines r ! i)" "on_task ?T (rr_goroutines r ! j)"
    using assms by (simp_all add: on_task_def)
  assume "i \<noteq> j"
  then have "i < j \<or> j < i" by linarith
  then have "2 \<le> tally (on_task ?T) r"
    using tally_two [of i j r "on_task ?T"] tally_two [of j i r "on_task ?T"] assms(2,3) on by auto
  moreover have "tally (on_task ?T) r \<le> 1"
    using assms(1,7) by (simp add: tasks_told_def)
  ultimately show False by simp
qed

lemma beginTask_told:
  assumes "beginTask j r = (ph, r1)" and "T \<noteq> uuid_Nil"
  shows "of_bool (rr_activeTasks r1 T \<noteq> None) =
    of_bool (rr_activeTasks r T \<noteq> None) + (of_bool (has_task ph \<and> job_task j = T) :: int)"
  using assms by (auto simp: beginTask_def Let_def split: if_splits option.splits)

lemma endTask_told:
  assumes "endTask h x r = (ph, r1)" and "T \<noteq> uuid_Nil" and "x = T \<Longrightarrow> rr_activeTasks r T \<noteq> None"
  shows "of_bool (rr_activeTasks r1 T \<noteq> None) =
    of_bool (rr_activeTasks r T \<noteq> None) - (of_bool (x = T) :: int)"
  using assms by (auto simp: endTask_def Let_def split: if_splits)

lemma advance_told:
  assumes step: "advance i a r = Some r'" and i: "i < length (rr_goroutines r)" and inv: "tasks_told r"
  shows "tasks_told r'"
  unfolding tasks_told_def
proof (intro allI impI)
  fix T :: uuid
  assume T: "T \<noteq> uuid_Nil"
  let ?g = "rr_goroutines r ! i"
  have told: "tally (on_task T) r = of_bool (rr_activeTasks r T \<noteq> None)"
    using inv T by (simp add: tasks_told_def)
  have active: "on_task T ?g \<Longrightarrow> rr_activeTasks r T \<noteq> None"
    using tally_pos [of ?g r "on_task T"] i told by (cases "rr_activeTasks r T") auto
  have moved: "\<And>ph r1. rr_goroutines r1 = rr_goroutines r \<Longrightarrow>
      tally (on_task T) (go_to i ph r1) =
        of_bool (rr_activeTasks r T \<noteq> None) - of_bool (on_task T ?g) + of_bool (has_task ph \<and> go_task ?g = T)"
    using i by (simp add: tally_go_to told)
  from step show "tally (on_task T) r' = of_bool (rr_activeTasks r' T \<noteq> None)"
  proof (cases rule: advance_cases)
    case (beginning ph r1)
    then show ?thesis
      using beginTask_told [OF beginning(2) T] beginTask_kept [OF beginning(2)] by (simp add: moved on_task_def)
  next
    case (ending h ph r1)
    have "go_task ?g = T \<Longrightarrow> rr_activeTasks r T \<noteq> None"
      using active ending(1) by (simp add: on_task_def)
    then show ?thesis
      using endTask_told [OF ending(2) T] endTask_phase [OF ending(2)] endTask_kept [OF ending(2)] ending(1,3)
      by (simp add: moved on_task_def)
  qed (simp_all add: moved on_task_def)
qed

lemma tasks_told_reached: "reached r \<Longrightarrow> tasks_told r"
proof (induction rule: reached.induct)
  case reached_new
  then show ?case by (simp add: tasks_told_def NewRunner_def tally_def)
next
  case (reached_step r e r')
  then show ?case
  proof (cases e)
    case (Go i a)
    then show ?thesis using reached_step advance_told [of i a r r'] by (simp split: if_splits)
  next
    case (Beat i answer)
    then show ?thesis
      using reached_step by (auto simp: tasks_told_def tally_end_context split: if_splits sum.splits)
  next
    case (StopRun runID)
    then show ?thesis
      using reached_step by (auto simp: tasks_told_def Cancel_def tally_end_context split: option.splits)
  next
    case (Arrive job)
    then show ?thesis using reached_step by (auto simp: tasks_told_def tally_def)
  qed (auto simp: tasks_told_def tally_def on_task_def split: if_splits list.splits)
qed

section \<open>Task slots\<close>

definition waits_slot :: "phase \<Rightarrow> bool" where
  "waits_slot ph \<longleftrightarrow> ph = TaskWait \<or> ph = Marking"

definition slots_told :: "Runner \<Rightarrow> bool" where
  "slots_told r \<longleftrightarrow> finite (rr_taskSlotHeld r) \<and> uuid_Nil \<notin> rr_taskSlotHeld r \<and>
     sg_used (rr_taskSlots r) = int (card (rr_taskSlotHeld r)) + tally (\<lambda>g. between_slots (go_phase g)) r \<and>
     (\<forall>i < length (rr_goroutines r). let g = rr_goroutines r ! i in
        (waits_slot (go_phase g) \<longrightarrow> go_task g \<noteq> uuid_Nil \<and> go_task g \<notin> rr_taskSlotHeld r) \<and>
        (on_slot (go_phase g) \<and> go_task g \<noteq> uuid_Nil \<longrightarrow> go_task g \<in> rr_taskSlotHeld r))"

lemma slots_told_same:
  assumes inv: "slots_told r" and i: "i < length (rr_goroutines r)" and "rr_goroutines r1 = rr_goroutines r"
    and held: "rr_taskSlotHeld r1 = rr_taskSlotHeld r"
    and used: "sg_used (rr_taskSlots r1) = sg_used (rr_taskSlots r)
      - of_bool (between_slots (go_phase (rr_goroutines r ! i))) + of_bool (between_slots ph)"
    and waits: "waits_slot ph \<Longrightarrow> go_task (rr_goroutines r ! i) \<noteq> uuid_Nil \<and> go_task (rr_goroutines r ! i) \<notin> rr_taskSlotHeld r"
    and on: "on_slot ph \<Longrightarrow> go_task (rr_goroutines r ! i) \<noteq> uuid_Nil \<Longrightarrow> go_task (rr_goroutines r ! i) \<in> rr_taskSlotHeld r"
  shows "slots_told (go_to i ph r1)"
proof -
  have t: "tally (\<lambda>g. between_slots (go_phase g)) (go_to i ph r1) = tally (\<lambda>g. between_slots (go_phase g)) r
      - of_bool (between_slots (go_phase (rr_goroutines r ! i))) + of_bool (between_slots ph)"
    using i assms(3) by (simp add: tally_go_to)
  have gs: "rr_goroutines (go_to i ph r1) ! k = (if k = i then (rr_goroutines r ! i)\<lparr>go_phase := ph\<rparr> else rr_goroutines r ! k)"
    if "k < length (rr_goroutines r)" for k
    using that assms(3) by (simp add: go_to_def)
  show ?thesis
    using inv held used waits on t unfolding slots_told_def Let_def
    by (simp add: gs assms(3))
qed

lemma slots_told_taken:
  assumes inv: "slots_told r" and told: "tasks_told r" and i: "i < length (rr_goroutines r)"
    and ph: "go_phase (rr_goroutines r ! i) = Marking"
  shows "slots_told (go_to i Executing (r\<lparr>rr_taskSlotHeld := insert (go_task (rr_goroutines r ! i)) (rr_taskSlotHeld r)\<rparr>))"
proof -
  let ?g = "rr_goroutines r ! i" and ?r = "go_to i Executing (r\<lparr>rr_taskSlotHeld := insert (go_task (rr_goroutines r ! i)) (rr_taskSlotHeld r)\<rparr>)"
  have t: "tally (\<lambda>g. between_slots (go_phase g)) ?r = tally (\<lambda>g. between_slots (go_phase g)) r - 1"
    using i ph by (simp add: tally_go_to [of _ r])
  have gs: "rr_goroutines ?r ! k = (if k = i then ?g\<lparr>go_phase := Executing\<rparr> else rr_goroutines r ! k)"
    if "k < length (rr_goroutines r)" for k
    using that by (simp add: go_to_def)
  have new: "go_task ?g \<noteq> uuid_Nil" "go_task ?g \<notin> rr_taskSlotHeld r"
    using inv i ph by (auto simp: slots_told_def waits_slot_def Let_def)
  have others: "go_task (rr_goroutines r ! k) \<noteq> go_task ?g"
    if "k < length (rr_goroutines r)" "k \<noteq> i" "waits_slot (go_phase (rr_goroutines r ! k))" for k
    using tasks_told_unique [OF told that(1) i] that new ph by (auto simp: waits_slot_def)
  show ?thesis
    using inv new others t unfolding slots_told_def Let_def
    by (simp add: gs waits_slot_def)
qed

lemma slots_told_ended:
  assumes inv: "slots_told r" and told: "tasks_told r" and i: "i < length (rr_goroutines r)"
    and ph: "go_phase (rr_goroutines r ! i) = Ending h"
    and e: "endTask h (go_task (rr_goroutines r ! i)) r = (ph', r1)"
  shows "slots_told (go_to i ph' r1)"
proof (cases "between_slots ph'")
  case False
  then have "rr_taskSlotHeld r1 = rr_taskSlotHeld r"
    using e by (auto simp: endTask_def Let_def split: if_splits)
  moreover have "\<not> waits_slot ph'" and "\<not> on_slot ph'"
    using endTask_phase [OF e] by (auto simp: waits_slot_def)
  ultimately show ?thesis
    using endTask_kept [OF e] False ph by (intro slots_told_same [OF inv i]) simp_all
next
  case True
  let ?g = "rr_goroutines r ! i"
  from True have T: "go_task ?g \<noteq> uuid_Nil" "go_task ?g \<in> rr_taskSlotHeld r"
    and r1: "rr_taskSlotHeld r1 = rr_taskSlotHeld r - {go_task ?g}"
    using e by (auto simp: endTask_def Let_def split: if_splits)
  have t: "tally (\<lambda>g. between_slots (go_phase g)) (go_to i ph' r1) = tally (\<lambda>g. between_slots (go_phase g)) r + 1"
    using i ph True by (simp add: tally_go_to [OF endTask_kept(1) [OF e]])
  have gs: "rr_goroutines (go_to i ph' r1) ! k = (if k = i then ?g\<lparr>go_phase := ph'\<rparr> else rr_goroutines r ! k)"
    if "k < length (rr_goroutines r)" for k
    using that endTask_kept(1) [OF e] by (simp add: go_to_def)
  have others: "go_task (rr_goroutines r ! k) \<noteq> go_task ?g"
    if "k < length (rr_goroutines r)" "k \<noteq> i" "on_slot (go_phase (rr_goroutines r ! k))" for k
  proof
    assume same: "go_task (rr_goroutines r ! k) = go_task ?g"
    have "has_task (go_phase (rr_goroutines r ! k))"
      using that(3) by (cases "go_phase (rr_goroutines r ! k)") auto
    then show False
      using tasks_told_unique [OF told that(1) i] that(2) same T(1) ph by simp
  qed
  have quiet: "\<not> waits_slot ph'" "\<not> on_slot ph'"
    using endTask_phase [OF e] by (auto simp: waits_slot_def)
  have fin: "finite (rr_taskSlotHeld r)" using inv by (simp add: slots_told_def)
  then have "0 < card (rr_taskSlotHeld r)" using T(2) by (auto simp: card_gt_0_iff)
  moreover have "card (rr_taskSlotHeld r - {go_task ?g}) = card (rr_taskSlotHeld r) - 1"
    using T(2) by (simp add: card_Diff_singleton)
  ultimately have "int (card (rr_taskSlotHeld r - {go_task ?g})) = int (card (rr_taskSlotHeld r)) - 1" by linarith
  then show ?thesis
    using inv t quiet others r1 endTask_kept [OF e] unfolding slots_told_def Let_def
    by (simp add: gs)
qed

lemma beginTask_waits:
  "beginTask j r = (ph, r1) \<Longrightarrow>
   (waits_slot ph \<longrightarrow> job_task j \<noteq> uuid_Nil \<and> job_task j \<notin> rr_taskSlotHeld r) \<and>
   (on_slot ph \<and> job_task j \<noteq> uuid_Nil \<longrightarrow> job_task j \<in> rr_taskSlotHeld r)"
  by (auto simp: beginTask_def waits_slot_def Let_def split: if_splits option.splits)

lemma advance_slots:
  assumes step: "advance i a r = Some r'" and i: "i < length (rr_goroutines r)"
    and inv: "slots_told r" and told: "tasks_told r"
  shows "slots_told r'"
proof -
  let ?g = "rr_goroutines r ! i"
  have at_i: "waits_slot (go_phase ?g) \<Longrightarrow> go_task ?g \<noteq> uuid_Nil \<and> go_task ?g \<notin> rr_taskSlotHeld r"
    "on_slot (go_phase ?g) \<Longrightarrow> go_task ?g \<noteq> uuid_Nil \<Longrightarrow> go_task ?g \<in> rr_taskSlotHeld r"
    using inv i by (simp_all add: slots_told_def Let_def)
  have pos: "between_slots (go_phase ?g) \<Longrightarrow> 0 < sg_used (rr_taskSlots r)"
    using tally_pos [of ?g r "\<lambda>g. between_slots (go_phase g)"] i inv by (simp add: slots_told_def)
  note same = slots_told_same [OF inv i]
  from step show ?thesis
  proof (cases rule: advance_cases)
    case (beginning ph r1)
    show ?thesis
      unfolding beginning(3)
      using beginning(1) beginTask_kept [OF beginning(2)] beginTask_phase [OF beginning(2)] beginTask_waits [OF beginning(2)]
      by (intro same) simp_all
  next
    case (task_slot s)
    show ?thesis
      unfolding task_slot(3)
      using task_slot(1) at_i(1) slot.taken [OF task_slot(2)] by (intro same) (simp_all add: waits_slot_def)
  next
    case (ending h ph r1)
    then show ?thesis using slots_told_ended [OF inv told i] by simp
  next
    case marking
    then show ?thesis using slots_told_taken [OF inv told i] by simp
  next
    case (releasing ends)
    show ?thesis
      unfolding releasing(2) using releasing(1) at_i(2) by (cases ends; intro same) (auto simp: waits_slot_def)
  next
    case (slot_back h n)
    show ?thesis
      unfolding slot_back(2) using slot_back(1) pos slot.given [of "rr_taskSlots r"]
      by (intro same) (auto simp: waits_slot_def)
  next
    case (limiting agents tasks)
    show ?thesis
      unfolding limiting(3) using limiting(1) by (intro same) (auto simp: waits_slot_def slot.cap_held)
  next
    case (passed_none h n)
    show ?thesis
      unfolding passed_none(3) using passed_none(1) by (cases h; intro same) (auto simp: waits_slot_def)
  next
    case (passed h j)
    show ?thesis
      unfolding passed(3) using passed(1) by (cases h; intro same) (auto simp: waits_slot_def)
  qed (use at_i in \<open>auto intro!: same simp: waits_slot_def\<close>)
qed

lemma slots_told_cong:
  assumes "slots_told r" and "rr_taskSlotHeld r' = rr_taskSlotHeld r"
    and "sg_used (rr_taskSlots r') = sg_used (rr_taskSlots r)"
    and "map (\<lambda>g. (go_phase g, go_task g)) (rr_goroutines r') =
         map (\<lambda>g. (go_phase g, go_task g)) (rr_goroutines r) @ ps"
    and "\<And>ph T. (ph, T) \<in> set ps \<Longrightarrow> ph = Registering"
  shows "slots_told r'"
proof -
  let ?f = "\<lambda>g. (go_phase g, go_task g)"
  have tally_map: "tally (\<lambda>g. between_slots (go_phase g)) s =
      int (length (filter (\<lambda>p. between_slots (fst p)) (map ?f (rr_goroutines s))))" for s
    by (simp add: tally_def filter_map o_def)
  have none: "filter (\<lambda>p. between_slots (fst p)) ps = []"
    by (auto simp: filter_empty_conv dest!: assms(5))
  have t: "tally (\<lambda>g. between_slots (go_phase g)) r' = tally (\<lambda>g. between_slots (go_phase g)) r"
    by (simp only: tally_map assms(4) filter_append none append_Nil2)
  have all: "(\<forall>i < length (rr_goroutines s). let g = rr_goroutines s ! i in
        (waits_slot (go_phase g) \<longrightarrow> go_task g \<noteq> uuid_Nil \<and> go_task g \<notin> H) \<and>
        (on_slot (go_phase g) \<and> go_task g \<noteq> uuid_Nil \<longrightarrow> go_task g \<in> H)) \<longleftrightarrow>
      (\<forall>(ph, T) \<in> set (map ?f (rr_goroutines s)).
        (waits_slot ph \<longrightarrow> T \<noteq> uuid_Nil \<and> T \<notin> H) \<and> (on_slot ph \<and> T \<noteq> uuid_Nil \<longrightarrow> T \<in> H))" for s H
    by (auto simp: all_set_conv_all_nth Let_def)
  show ?thesis
    using assms(1-3) t assms(5) unfolding slots_told_def all assms(4)
    by (fastforce simp: waits_slot_def)
qed

lemma slots_told_reached: "reached r \<Longrightarrow> slots_told r"
proof (induction rule: reached.induct)
  case reached_new
  then show ?case by (simp add: slots_told_def NewRunner_def newSlotGate_def tally_def)
next
  case (reached_step r e r')
  have same: "slots_told r'" if "rr_taskSlotHeld r' = rr_taskSlotHeld r" "rr_taskSlots r' = rr_taskSlots r"
    "map (\<lambda>g. (go_phase g, go_task g)) (rr_goroutines r') = map (\<lambda>g. (go_phase g, go_task g)) (rr_goroutines r)"
    using that by (intro slots_told_cong [OF reached_step.IH, where ps = "[]"]) simp_all
  have over: "map (\<lambda>g. (go_phase g, go_task g)) (rr_goroutines (end_context i r)) =
      map (\<lambda>g. (go_phase g, go_task g)) (rr_goroutines r)" for i
    by (simp add: end_context_def map_update list_update_same_conv)
  show ?case
  proof (cases e)
    case (Go i a)
    then show ?thesis
      using reached_step advance_slots [of i a r r'] tasks_told_reached by (simp split: if_splits)
  next
    case Receive
    then obtain job jobs where "r' = r\<lparr>rr_queue := jobs, rr_loop := Polling, rr_goroutines := rr_goroutines r @
        [\<lparr>go_job = job, go_phase = Registering, go_over = False\<rparr>]\<rparr>"
      using reached_step(2) by (auto split: if_splits list.splits)
    then show ?thesis
      by (intro slots_told_cong [OF reached_step.IH, where ps = "[(Registering, job_task job)]"]) simp_all
  next
    case (Beat i answer)
    then show ?thesis
      using reached_step(2) by (intro same) (auto simp: over split: if_splits sum.splits)
  next
    case (StopRun runID)
    then show ?thesis
      using reached_step(2) by (intro same) (auto simp: Cancel_def over split: option.splits)
  next
    case (Arrive job)
    then show ?thesis using reached_step(2) by (intro same) auto
  next
    case Poll
    then show ?thesis using reached_step(2) by (intro same) (auto split: if_splits)
  next
    case Quit
    then show ?thesis using reached_step(2) by (intro same) (auto split: if_splits)
  next
    case CloseDrain
    then show ?thesis using reached_step(2) by (intro same) auto
  next
    case CancelAll
    then show ?thesis using reached_step(2) by (intro same) auto
  qed
qed

end
