(* ===== verification/Board.thy ===== *)
theory Board
  imports Comments Order_Graph Runner
begin

text \<open>
  The dispatcher over the tables, wired as \<open>server/internal/platform/runtime/runtime.go\<close> wires it: its
  stores are the tables of \<open>Task_Store\<close>, \<open>Relations\<close>, \<open>Span_Ledger\<close>, \<open>Events\<close> and \<open>Run_Store\<close>, the
  work order and the review guard comment through \<open>AddComment\<close>, which dispatches again, and a job goes
  to the queue of the runner of \<open>Runner\<close>, which is bounded. The knot is
  cut by a depth: at depth 0 a comment only sets \<open>bd_overrun\<close>, and \<open>dispatch_settles\<close> shows that
  depth 1 is never left. The notifier and the hook on released cards are not wired here.
\<close>

section \<open>The board\<close>

record board =
  bd_tables :: order_tables
  bd_events :: "BoardEvent list"
  bd_runs :: "TaskAgentRun list"
  bd_spans :: "TaskColumnSpan list"
  bd_comments :: "TaskComment list"
  bd_runner :: Runner
  bd_nextID :: uuid
  bd_sweepSoon :: bool
  bd_overrun :: bool

record board_config =
  bc_workflow :: "TaskType \<Rightarrow> go_error + Workflow"
  bc_subscriptions :: "(uuid \<times> string \<times> string list option) list"
  bc_instructions :: "uuid \<Rightarrow> AgentColumnInstruction list"
  bc_pipelineGate :: bool
  bc_actorUserID :: string
  bc_parseUUID :: "string \<Rightarrow> uuid option"
  bc_repos :: "uuid list"
  bc_agentNames :: "string \<Rightarrow> string"
  bc_parkPrefix :: string
  bc_parkSuffix :: string
  bc_resumed :: string
  bc_loopDetail :: "int \<Rightarrow> string"
  bc_loopComment :: "int \<Rightarrow> string"

text \<open>The jobs that wait in the runner's channel.\<close>

abbreviation bd_jobs :: "board \<Rightarrow> RunJob list" where
  "bd_jobs b \<equiv> rr_queue (bd_runner b)"

definition bd_db :: "board \<Rightarrow> task_db" where
  "bd_db b = ot_db (bd_tables b)"

definition bd_now :: "board \<Rightarrow> time" where
  "bd_now b = db_now (bd_db b)"

definition with_db :: "(task_db \<Rightarrow> task_db) \<Rightarrow> board \<Rightarrow> board" where
  "with_db f b = b\<lparr>bd_tables := (bd_tables b)\<lparr>ot_db := f (bd_db b)\<rparr>\<rparr>"

text \<open>A subscription's row has a filter of task types or none.\<close>

definition AgentsForColumn ::
  "(uuid \<times> string \<times> string list option) list \<Rightarrow> string \<Rightarrow> string \<Rightarrow> uuid list" where
  "AgentsForColumn subs columnSlug taskType =
     map fst (filter (\<lambda>(agent, slug, types).
       slug = columnSlug \<and> (case types of None \<Rightarrow> True | Some ts \<Rightarrow> taskType \<in> set ts)) subs)"

section \<open>The stores as ports\<close>

definition bp_createEvent :: "BoardEvent \<Rightarrow> board \<Rightarrow> (go_error + BoardEvent) \<times> board" where
  "bp_createEvent event b =
     (let (created, events) = event_Create (bd_nextID b) (bd_now b) event (bd_events b)
      in (Inr created, b\<lparr>bd_events := events, bd_nextID := bd_nextID b + 1\<rparr>))"

definition bp_createRun :: "TaskAgentRun \<Rightarrow> board \<Rightarrow> (go_error + TaskAgentRun) \<times> board" where
  "bp_createRun run b =
     (let (created, runs) = run_Create (bd_nextID b) (bd_now b) run (bd_runs b)
      in (Inr created, b\<lparr>bd_runs := runs, bd_nextID := bd_nextID b + 1\<rparr>))"

definition bp_RecordMove :: "uuid \<Rightarrow> uuid \<Rightarrow> string \<Rightarrow> time \<Rightarrow> board \<Rightarrow> board" where
  "bp_RecordMove repositoryID taskID column at b =
     b\<lparr>bd_spans := RecordMove (bd_nextID b) repositoryID taskID column at (bd_spans b),
       bd_nextID := bd_nextID b + 1\<rparr>"

definition bp_AttachAgent :: "uuid \<Rightarrow> uuid \<Rightarrow> board \<Rightarrow> board" where
  "bp_AttachAgent taskID agentID b = b\<lparr>bd_spans := AttachAgent taskID agentID (bd_spans b)\<rparr>"

definition bp_Enqueue :: "RunJob \<Rightarrow> board \<Rightarrow> board" where
  "bp_Enqueue job b = b\<lparr>bd_runner := Enqueue job (bd_runner b)\<rparr>"

definition bp_createComment ::
  "board_config \<Rightarrow> TaskComment \<Rightarrow> board \<Rightarrow> (go_error + TaskComment) \<times> board" where
  "bp_createComment cfg comment b =
     (let (created, comments) =
            comment_Create (bd_nextID b) (bd_now b) (bc_agentNames cfg) comment (bd_comments b)
      in (Inr created, b\<lparr>bd_comments := comments, bd_nextID := bd_nextID b + 1\<rparr>))"

definition bp_mark :: "uuid \<Rightarrow> uuid \<Rightarrow> string \<Rightarrow> board \<Rightarrow> go_error option \<times> board" where
  "bp_mark repositoryID taskID detail b = (None, with_db (MarkWorkOrderWaiting repositoryID taskID detail) b)"

definition bp_block ::
  "uuid \<Rightarrow> uuid \<Rightarrow> string \<Rightarrow> string \<Rightarrow> board \<Rightarrow> (go_error + TaskColumn) \<times> board" where
  "bp_block repositoryID taskID resource detail b =
     (let (result, db) = BlockOnResource repositoryID taskID resource detail (bd_db b)
      in (result, with_db (\<lambda>_. db) b))"

definition bp_clear :: "uuid \<Rightarrow> board \<Rightarrow> (go_error + BoardTask option) \<times> board" where
  "bp_clear taskID b =
     (let (claimed, db) = ClearWorkOrderWaiting taskID (bd_db b) in (Inr claimed, with_db (\<lambda>_. db) b))"

section \<open>The wiring\<close>

definition board_journal :: "board ParkJournal" where
  "board_journal = \<lparr>pj_Create = bp_createEvent, pj_RecordMove = Some bp_RecordMove\<rparr>"

definition board_work_order :: "board_config \<Rightarrow> board commenter \<Rightarrow> board WorkOrder" where
  "board_work_order cfg commenter =
     \<lparr>wo_ListBlockingSources = Some (\<lambda>b taskID. Inr (ListBlockingSources taskID (bd_tables b))),
      wo_MarkWorkOrderWaiting = Some bp_mark, wo_comments = Some commenter,
      wo_parked = Some (bd_sweepSoon_update (\<lambda>_. True)),
      wo_parkPrefix = bc_parkPrefix cfg, wo_parkSuffix = bc_parkSuffix cfg\<rparr>"

definition board_review_loop :: "board_config \<Rightarrow> board commenter \<Rightarrow> board ReviewLoopGuard" where
  "board_review_loop cfg commenter =
     \<lparr>lg_ListByTask = Some (\<lambda>b taskID limit. Inr (event_ListByTask taskID limit (bd_events b))),
      lg_BlockOnResource = Some bp_block, lg_comments = Some commenter, lg_parks = Some board_journal,
      lg_detail = bc_loopDetail cfg, lg_comment = bc_loopComment cfg\<rparr>"

definition board_dispatcher :: "board_config \<Rightarrow> board commenter \<Rightarrow> board Dispatcher" where
  "board_dispatcher cfg commenter =
     \<lparr>dp_enabled = True, dp_pipelineGate = bc_pipelineGate cfg, dp_actorUserID = bc_actorUserID cfg,
      dp_parseUUID = bc_parseUUID cfg, dp_createEvent = Some bp_createEvent,
      dp_createRun = bp_createRun,
      dp_HasPendingForTask = (\<lambda>b taskID agentID. Inr (HasPendingForTask taskID agentID (bd_runs b))),
      dp_HasLiveForTask = (\<lambda>b taskID agentID. Inr (HasLiveForTask taskID agentID (bd_runs b))),
      dp_Enqueue = Some bp_Enqueue,
      dp_AgentsForColumn = (\<lambda>b column taskType. Inr (AgentsForColumn (bc_subscriptions cfg) column taskType)),
      dp_ListAgentColumnInstructions = (\<lambda>b agentID. Inr (bc_instructions cfg agentID)),
      dp_RecordMove = Some bp_RecordMove, dp_AttachAgent = bp_AttachAgent,
      dp_TaskMoved = None, dp_TaskResumed = (\<lambda>task resource b. b), dp_taskReleased = None,
      dp_workOrder = Some (board_work_order cfg commenter),
      dp_reviewLoop = Some (board_review_loop cfg commenter),
      dp_Workflow = Some (\<lambda>b taskType. bc_workflow cfg taskType)\<rparr>"

definition board_comments ::
  "board_config \<Rightarrow> (DispatchInput \<Rightarrow> board \<Rightarrow> go_error option \<times> board) \<Rightarrow> board comment_ports" where
  "board_comments cfg dispatch =
     \<lparr>cp_getRepo = (\<lambda>b repositoryID.
        if repositoryID \<in> set (bc_repos cfg) then Inr repositoryID else Inl ErrNotFound),
      cp_getTask = (\<lambda>b repositoryID taskID. store_Get repositoryID taskID (bd_db b)),
      cp_Create = Some (bp_createComment cfg), cp_actorUserID = bc_actorUserID cfg,
      cp_dispatch = Some dispatch\<rparr>"

fun commenter :: "board_config \<Rightarrow> nat \<Rightarrow> board commenter" where
  "commenter cfg 0 = (\<lambda>repositoryID taskID req. bd_overrun_update (\<lambda>_. True))"
| "commenter cfg (Suc depth) = (\<lambda>repositoryID taskID req b.
     snd (AddComment (board_comments cfg (Dispatch (board_dispatcher cfg (commenter cfg depth))))
       repositoryID taskID req b))"

definition board_Dispatch :: "board_config \<Rightarrow> nat \<Rightarrow> DispatchInput \<Rightarrow> board \<Rightarrow> go_error option \<times> board" where
  "board_Dispatch cfg depth = Dispatch (board_dispatcher cfg (commenter cfg depth))"

definition board_sweeper :: "board_config \<Rightarrow> nat \<Rightarrow> board WorkOrderSweeper" where
  "board_sweeper cfg depth =
     \<lparr>sw_ListBlockedByResource = (\<lambda>b resource limit. Inr (ListBlockedByResource resource limit (bd_db b))),
      sw_ClearWorkOrderWaiting = bp_clear,
      sw_ListBlockingSources = (\<lambda>b taskID. Inr (ListBlockingSources taskID (bd_tables b))),
      sw_dispatch = board_Dispatch cfg depth,
      sw_dependents = Some (\<lambda>b source. Inr (ListBySource source (bd_tables b))),
      sw_comments = Some (commenter cfg (Suc depth)), sw_resumed = bc_resumed cfg\<rparr>"

section \<open>What the ports leave alone\<close>

lemma bd_db_with_db [simp]: "bd_db (with_db f b) = f (bd_db b)"
  by (simp add: bd_db_def with_db_def)

lemma with_db_frame [simp]:
  "bd_events (with_db f b) = bd_events b" "bd_runs (with_db f b) = bd_runs b" "bd_spans (with_db f b) = bd_spans b"
  "bd_comments (with_db f b) = bd_comments b" "bd_runner (with_db f b) = bd_runner b"
  "bd_overrun (with_db f b) = bd_overrun b" "ot_relations (bd_tables (with_db f b)) = ot_relations (bd_tables b)"
  by (simp_all add: with_db_def)

definition still :: "board \<Rightarrow> board \<Rightarrow> bool" where
  "still b b' \<longleftrightarrow> bd_tables b' = bd_tables b \<and> bd_runs b' = bd_runs b \<and> bd_jobs b' = bd_jobs b \<and>
     bd_overrun b' = bd_overrun b"

lemma still_refl [simp]: "still b b"
  by (simp add: still_def)

lemma still_trans [trans]: "still a b \<Longrightarrow> still b c \<Longrightarrow> still a c"
  by (simp add: still_def)

lemma still_db: "still b b' \<Longrightarrow> bd_db b' = bd_db b"
  by (simp add: still_def bd_db_def)

lemma still_ports [simp]:
  "still b (snd (bp_createEvent event b))" "still b (bp_RecordMove r t c at b)"
  "still b (snd (bp_createComment cfg comment b))" "still b (bd_sweepSoon_update f b)"
  by (simp_all add: still_def bp_createEvent_def bp_RecordMove_def bp_createComment_def split_beta)

lemma createEvent_result: "\<exists>event'. bp_createEvent event b = (Inr event', snd (bp_createEvent event b))"
  by (simp add: bp_createEvent_def split_beta)

lemma createComment_result:
  "\<exists>c. bp_createComment cfg comment b = (Inr c, snd (bp_createComment cfg comment b)) \<and>
     com_AuthorType c = com_AuthorType comment"
  by (simp add: bp_createComment_def comment_Create_def split_beta Let_def)

lemma still_journal [simp]: "still b (journal_Record (Some board_journal) r task from resource reason b)"
proof -
  have "still b (case bp_createEvent e b of (Inl err, b') \<Rightarrow> b'
      | (Inr event, b') \<Rightarrow> bp_RecordMove r t c (ev_CreatedAt event) b')" for e t c
  proof -
    obtain event where "bp_createEvent e b = (Inr event, snd (bp_createEvent e b))"
      using createEvent_result by blast
    moreover have "still b (bp_RecordMove r t c at (snd (bp_createEvent e b)))" for at
      by (rule still_trans [OF still_ports(1) still_ports(2)])
    ultimately show ?thesis by (metis (no_types, lifting) case_prod_conv sum.simps(6))
  qed
  then show ?thesis
    unfolding journal_Record_def board_journal_def Let_def ParkJournal.simps option.simps by simp
qed

section \<open>The brakes are the only thing that comments\<close>

text \<open>The ports that are not brakes.\<close>

lemma ports_brakes:
  "dp_enabled (d\<lparr>dp_workOrder := w, dp_reviewLoop := g\<rparr>) = dp_enabled d"
  "dp_pipelineGate (d\<lparr>dp_workOrder := w, dp_reviewLoop := g\<rparr>) = dp_pipelineGate d"
  "dp_actorUserID (d\<lparr>dp_workOrder := w, dp_reviewLoop := g\<rparr>) = dp_actorUserID d"
  "dp_parseUUID (d\<lparr>dp_workOrder := w, dp_reviewLoop := g\<rparr>) = dp_parseUUID d"
  "dp_createEvent (d\<lparr>dp_workOrder := w, dp_reviewLoop := g\<rparr>) = dp_createEvent d"
  "dp_createRun (d\<lparr>dp_workOrder := w, dp_reviewLoop := g\<rparr>) = dp_createRun d"
  "dp_HasPendingForTask (d\<lparr>dp_workOrder := w, dp_reviewLoop := g\<rparr>) = dp_HasPendingForTask d"
  "dp_HasLiveForTask (d\<lparr>dp_workOrder := w, dp_reviewLoop := g\<rparr>) = dp_HasLiveForTask d"
  "dp_Enqueue (d\<lparr>dp_workOrder := w, dp_reviewLoop := g\<rparr>) = dp_Enqueue d"
  "dp_AgentsForColumn (d\<lparr>dp_workOrder := w, dp_reviewLoop := g\<rparr>) = dp_AgentsForColumn d"
  "dp_ListAgentColumnInstructions (d\<lparr>dp_workOrder := w, dp_reviewLoop := g\<rparr>) = dp_ListAgentColumnInstructions d"
  "dp_RecordMove (d\<lparr>dp_workOrder := w, dp_reviewLoop := g\<rparr>) = dp_RecordMove d"
  "dp_AttachAgent (d\<lparr>dp_workOrder := w, dp_reviewLoop := g\<rparr>) = dp_AttachAgent d"
  "dp_TaskMoved (d\<lparr>dp_workOrder := w, dp_reviewLoop := g\<rparr>) = dp_TaskMoved d"
  "dp_TaskResumed (d\<lparr>dp_workOrder := w, dp_reviewLoop := g\<rparr>) = dp_TaskResumed d"
  "dp_taskReleased (d\<lparr>dp_workOrder := w, dp_reviewLoop := g\<rparr>) = dp_taskReleased d"
  "dp_Workflow (d\<lparr>dp_workOrder := w, dp_reviewLoop := g\<rparr>) = dp_Workflow d"
  by simp_all

lemma helpers_brakes:
  "alreadyWorkingOn (d\<lparr>dp_workOrder := w, dp_reviewLoop := g\<rparr>) = alreadyWorkingOn d"
  "columnInstructionForAgent (d\<lparr>dp_workOrder := w, dp_reviewLoop := g\<rparr>) = columnInstructionForAgent d"
  "resolveAgents (d\<lparr>dp_workOrder := w, dp_reviewLoop := g\<rparr>) = resolveAgents d"
  "announce (d\<lparr>dp_workOrder := w, dp_reviewLoop := g\<rparr>) = announce d"
  "workflowFor (d\<lparr>dp_workOrder := w, dp_reviewLoop := g\<rparr>) = workflowFor d"
  "pipelineGateDecision (d\<lparr>dp_workOrder := w, dp_reviewLoop := g\<rparr>) = pipelineGateDecision d"
  "new_event (d\<lparr>dp_workOrder := w, dp_reviewLoop := g\<rparr>) = new_event d"
  by (intro ext; unfold alreadyWorkingOn_def columnInstructionForAgent_def resolveAgents_def announce_def
      workflowFor_def pipelineGateDecision_def new_event_def ports_brakes; rule refl)+

lemma start_agents_brakes:
  "start_agents (d\<lparr>dp_workOrder := w, dp_reviewLoop := g\<rparr>) input event enqueue actorID wake as =
   start_agents d input event enqueue actorID wake as"
proof (induction as)
  case (Cons a as)
  show ?case
    by (rule ext) (unfold start_agents.simps Cons.IH helpers_brakes ports_brakes, rule refl)
qed (simp add: fun_eq_iff)

lemma board_dispatcher_brakes:
  "board_dispatcher cfg c' = (board_dispatcher cfg c)
     \<lparr>dp_workOrder := Some (board_work_order cfg c'), dp_reviewLoop := Some (board_review_loop cfg c')\<rparr>"
  by (simp add: board_dispatcher_def)

text \<open>Two dispatchers that differ in their brakes agree where the brakes do.\<close>

lemma Dispatch_hold_cong:
  assumes "\<And>flow p event defers s.
      hold_back (d\<lparr>dp_workOrder := w, dp_reviewLoop := g\<rparr>) flow (noted_input input p) event
        (doneMergeWake flow (noted_input input p) \<or> deployWatchWake flow (noted_input input p)) defers s =
      hold_back d flow (noted_input input p) event
        (doneMergeWake flow (noted_input input p) \<or> deployWatchWake flow (noted_input input p)) defers s"
  shows "Dispatch (d\<lparr>dp_workOrder := w, dp_reviewLoop := g\<rparr>) input = Dispatch d input"
  by (rule ext) (unfold Dispatch_def Let_def ports_brakes helpers_brakes start_agents_brakes assms, rule refl)

lemma noted_input_simps [simp]:
  "di_Task (noted_input input p) = di_Task input" "di_EventType (noted_input input p) = di_EventType input"
  "di_RepositoryID (noted_input input p) = di_RepositoryID input"
  by (simp_all add: noted_input_def split: option.splits)

definition stopped :: "BoardTask \<Rightarrow> bool" where
  "stopped task \<longleftrightarrow> bt_Column task = TaskColumnBlocked \<or> bt_BlockedResource task = ResourceWorkOrder"

lemma blocked_columns [simp]:
  "TaskColumnBlocked \<noteq> TaskColumnDone" "TaskColumnBlocked \<noteq> TaskColumnReleased"
  "TaskColumnBlocked \<noteq> TaskColumnNeedRevision"
  by (simp_all add: col_defs)

lemma event_types [simp]:
  "BoardEventTaskCommented \<noteq> BoardEventTaskMoved" "BoardEventTaskMoved \<noteq> BoardEventTaskCommented"
  "BoardEventTaskCreated \<noteq> BoardEventTaskMoved" "BoardEventTaskMoved \<noteq> BoardEventTaskCreated"
  "BoardEventTaskCommented \<noteq> BoardEventTaskCreated" "BoardEventTaskCreated \<noteq> BoardEventTaskCommented"
  "BoardEventTaskAssigned \<noteq> BoardEventTaskMoved" "BoardEventTaskMoved \<noteq> BoardEventTaskAssigned"
  "BoardEventTaskCommented \<noteq> BoardEventTaskAssigned" "BoardEventTaskAssigned \<noteq> BoardEventTaskCommented"
  by (simp_all add: col_defs)

text \<open>The brakes on a comment to a stopped card do not comment.\<close>

lemma Park_waiting:
  "bt_BlockedResource task = ResourceWorkOrder \<Longrightarrow> Park workOrder r task bs s = (None, s)"
  by (simp add: Park_def split: option.splits)

lemma Blockers_board:
  "Blockers (Some (board_work_order cfg c)) b taskID =
     (if taskID = uuid_Nil then Inr [] else Inr (ListBlockingSources taskID (bd_tables b)))"
  by (simp add: Blockers_def board_work_order_def)

lemma board_dispatcher_ports [simp]:
  "dp_workOrder (board_dispatcher cfg c) = Some (board_work_order cfg c)"
  "dp_reviewLoop (board_dispatcher cfg c) = Some (board_review_loop cfg c)"
  by (simp_all add: board_dispatcher_def)

lemma hold_stopped_comment:
  assumes "di_EventType input = BoardEventTaskCommented" and "stopped (di_Task input)"
    and "wake \<longleftrightarrow> doneMergeWake flow input \<or> deployWatchWake flow input"
  shows "hold_back (board_dispatcher cfg c) flow input event wake defers s =
    hold_back (board_dispatcher cfg c') flow input event wake defers s"
proof (cases "isDispatchSuspendedTask flow (di_Task input) \<and> \<not> wake")
  case True
  then show ?thesis by (simp add: hold_back_def)
next
  case False
  have "\<not> wake" using assms(1,3) by (simp add: doneMergeWake_def deployWatchWake_def Let_def)
  then have "bt_Column (di_Task input) \<noteq> TaskColumnBlocked"
    using False by (auto simp: isDispatchSuspendedTask_def)
  then have waiting: "bt_BlockedResource (di_Task input) = ResourceWorkOrder"
    using assms(2) by (simp add: stopped_def)
  have "\<not> reviewLoopGateApplies input" using assms(1) by (simp add: reviewLoopGateApplies_def)
  then show ?thesis
    using False by (simp add: hold_back_def Let_def Blockers_board Park_waiting [OF waiting] split: list.splits)
qed

lemma Dispatch_stopped_comment:
  assumes "di_EventType input = BoardEventTaskCommented" and "stopped (di_Task input)"
  shows "Dispatch (board_dispatcher cfg c) input = Dispatch (board_dispatcher cfg c') input"
proof -
  have "Dispatch (board_dispatcher cfg c) input =
      Dispatch ((board_dispatcher cfg c')\<lparr>dp_workOrder := Some (board_work_order cfg c),
        dp_reviewLoop := Some (board_review_loop cfg c)\<rparr>) input"
    by (subst board_dispatcher_brakes [of cfg c c']) (rule refl)
  also have "\<dots> = Dispatch (board_dispatcher cfg c') input"
  proof (rule Dispatch_hold_cong)
    fix flow p event defers s
    show "hold_back ((board_dispatcher cfg c')\<lparr>dp_workOrder := Some (board_work_order cfg c),
          dp_reviewLoop := Some (board_review_loop cfg c)\<rparr>) flow (noted_input input p) event
        (doneMergeWake flow (noted_input input p) \<or> deployWatchWake flow (noted_input input p)) defers s =
      hold_back (board_dispatcher cfg c') flow (noted_input input p) event
        (doneMergeWake flow (noted_input input p) \<or> deployWatchWake flow (noted_input input p)) defers s"
      unfolding board_dispatcher_brakes [of cfg c c', symmetric]
      by (rule hold_stopped_comment) (simp_all add: assms)
  qed
  finally show ?thesis .
qed

text \<open>A note on a card, by a commenter that dispatches.\<close>

definition noting :: "board_config \<Rightarrow> board commenter \<Rightarrow> board commenter" where
  "noting cfg c = (\<lambda>repositoryID taskID req b.
     snd (AddComment (board_comments cfg (Dispatch (board_dispatcher cfg c))) repositoryID taskID req b))"

lemma commenter_note: "commenter cfg (Suc depth) = noting cfg (commenter cfg depth)"
  by (simp add: noting_def)

definition comment_input :: "uuid \<Rightarrow> BoardTask \<Rightarrow> TaskComment \<Rightarrow> bool \<Rightarrow> DispatchInput" where
  "comment_input repositoryID task comment informational =
     \<lparr>di_RepositoryID = repositoryID, di_Task = task, di_EventType = BoardEventTaskCommented,
      di_Payload = Some (comment_payload comment informational), di_SkipPipelineGate = False\<rparr>"

lemma comment_input_simps [simp]:
  "di_Task (comment_input r task comment k) = task"
  "di_EventType (comment_input r task comment k) = BoardEventTaskCommented"
  "di_RepositoryID (comment_input r task comment k) = r"
  "di_Payload (comment_input r task comment k) = Some (comment_payload comment k)"
  by (simp_all add: comment_input_def)

text \<open>Either the card is not found, or its comment is stored and dispatched.\<close>

lemma noting_cases:
  obtains "\<And>c. noting cfg c r t req b = b"
  | task comment new b1 where "store_Get r t (bd_db b) = Inr task" "b1 = snd (bp_createComment cfg new b)"
    "com_AuthorType comment = (if cm_AuthorType req = '''' then ''user'' else cm_AuthorType req)"
    "\<And>c. noting cfg c r t req b =
       snd (Dispatch (board_dispatcher cfg c) (comment_input r task comment (cm_Informational req)) b1)"
proof (cases "r \<in> set (bc_repos cfg)")
  case False
  then have "noting cfg c r t req b = b" for c
    by (simp add: noting_def AddComment_def board_comments_def)
  then show ?thesis using that(1) by blast
next
  case True
  show ?thesis
  proof (cases "store_Get r t (bd_db b)")
    case (Inl err)
    then have "noting cfg c r t req b = b" for c
      using True by (simp add: noting_def AddComment_def board_comments_def)
    then show ?thesis using that(1) by blast
  next
    case (Inr task)
    define new where "new = \<lparr>com_ID = uuid_Nil, com_TaskID = t,
      com_AuthorType = (if cm_AuthorType req = '''' then ''user'' else cm_AuthorType req),
      com_AuthorID = cm_AuthorID req, com_Content = TrimSpace (cm_Content req),
      com_CreatedAt = 0, com_AuthorName = '''',
      com_ActorUserID = (if bc_actorUserID cfg = '''' then None else Some (bc_actorUserID cfg))\<rparr>"
    obtain comment where comment: "bp_createComment cfg new b = (Inr comment, snd (bp_createComment cfg new b))"
      "com_AuthorType comment = com_AuthorType new"
      using createComment_result by blast
    have "noting cfg c r t req b = snd (Dispatch (board_dispatcher cfg c)
        (comment_input r task comment (cm_Informational req)) (snd (bp_createComment cfg new b)))" for c
      unfolding noting_def AddComment_def board_comments_def comment_ports.simps if_P [OF True] Inr sum.simps
        option.simps new_def [symmetric]
      by (subst comment(1)) (simp add: comment_input_def)
    then show ?thesis
      by (rule that(2) [OF Inr refl, rotated]) (simp add: comment(2) new_def)
  qed
qed

lemma noting_stopped:
  assumes "\<And>task. store_Get r t (bd_db b) = Inr task \<Longrightarrow> stopped task"
  shows "noting cfg c r t req b = noting cfg c' r t req b"
proof (cases rule: noting_cases [of cfg r t req b])
  case 1
  then show ?thesis by simp
next
  case (2 task comment new b1)
  have "Dispatch (board_dispatcher cfg c) (comment_input r task comment k) =
      Dispatch (board_dispatcher cfg c') (comment_input r task comment k)" for k
    by (rule Dispatch_stopped_comment) (simp_all add: assms [OF 2(1)])
  then show ?thesis unfolding 2(4) by simp
qed

lemma store_Get_row:
  assumes "store_Get r t db = Inr task"
  obtains row where "row \<in> set (db_tasks db)" "owned r t row" "task = scan_select db row"
proof -
  obtain row where row: "find (owned r t) (db_tasks db) = Some row" "task = scan_select db row"
    using assms by (auto simp: store_Get_def find_row_def split: option.splits)
  have "row \<in> set (db_tasks db)" "owned r t row" using row(1) by (auto simp: find_Some_iff)
  then show ?thesis using row(2) by (rule that)
qed

lemma update_rows_mem:
  "row \<in> set (db_tasks (update_rows P f db)) \<longleftrightarrow>
     (\<exists>q \<in> set (db_tasks db). row = (if P q then (f q)\<lparr>bt_UpdatedAt := db_now db\<rparr> else q))"
  by (auto simp: update_rows_def)

lemma store_Get_marked:
  assumes "store_Get r t (MarkWorkOrderWaiting r t detail db) = Inr task"
  shows "bt_BlockedResource task = ResourceWorkOrder"
proof (rule store_Get_row [OF assms])
  fix row assume mem: "row \<in> set (db_tasks (MarkWorkOrderWaiting r t detail db))" "owned r t row"
    and task: "task = scan_select (MarkWorkOrderWaiting r t detail db) row"
  obtain q where q: "row = (if owned r t q then (q\<lparr>bt_BlockedQuestion := detail,
      bt_BlockedResource := ResourceWorkOrder, bt_BlockedAt := Some (db_now db)\<rparr>)\<lparr>bt_UpdatedAt := db_now db\<rparr> else q)"
    using mem(1) unfolding MarkWorkOrderWaiting_def update_rows_mem by (elim bexE)
  show "bt_BlockedResource task = ResourceWorkOrder"
    using q mem(2) task by (cases "owned r t q") (simp_all add: scan_select_def)
qed

lemma store_Get_stopped_mark: "store_Get r t (MarkWorkOrderWaiting r t detail db) = Inr task \<Longrightarrow> stopped task"
  by (simp add: stopped_def store_Get_marked)

lemma store_Get_stopped_block:
  assumes "BlockOnResource r t resource detail db = (Inr previous, db')"
    and "store_Get r t db' = Inr task"
  shows "stopped task"
proof (rule store_Get_row [OF assms(2)])
  fix row assume mem: "row \<in> set (db_tasks db')" "owned r t row" and task: "task = scan_select db' row"
  let ?f = "\<lambda>q. (park_row q)\<lparr>bt_BlockedQuestion := detail, bt_BlockedResource := resource,
    bt_BlockedAt := Some (db_now db)\<rparr>"
  have "bt_Column row = TaskColumnBlocked"
  proof (cases "find_row (owned r t) db")
    case None
    then have "db' = db" using assms(1) by (simp add: BlockOnResource_def split: if_splits)
    then show ?thesis using None mem unfolding find_row_def find_None_iff by blast
  next
    case (Some q)
    then have db': "db' = update_rows (owned r t) ?f db"
      using assms(1) by (simp add: BlockOnResource_def split: if_splits)
    obtain q where q: "row = (if owned r t q then (?f q)\<lparr>bt_UpdatedAt := db_now db\<rparr> else q)"
      using mem(1) unfolding db' update_rows_mem by (elim bexE)
    then show ?thesis using mem(2) by (cases "owned r t q") (simp_all add: park_row_def)
  qed
  then show "stopped task" using task by (simp add: stopped_def scan_select_def)
qed

section \<open>How deep a dispatch goes\<close>

lemma Park_noting:
  "Park (Some (board_work_order cfg (noting cfg c))) r task bs b =
   Park (Some (board_work_order cfg (noting cfg c'))) r task bs b"
proof -
  have "noting cfg c r (bt_ID task) req (with_db (MarkWorkOrderWaiting r (bt_ID task) detail) b) =
      noting cfg c' r (bt_ID task) req (with_db (MarkWorkOrderWaiting r (bt_ID task) detail) b)" for req detail
    by (rule noting_stopped) (simp add: store_Get_stopped_mark)
  then show ?thesis
    by (simp add: Park_def board_work_order_def bp_mark_def workOrderParkComment_def Let_def)
qed

lemma loop_ports:
  "lg_BlockOnResource (board_review_loop cfg c) = Some bp_block"
  "lg_parks (board_review_loop cfg c) = Some board_journal"
  "lg_detail (board_review_loop cfg c) = bc_loopDetail cfg"
  "lg_comment (board_review_loop cfg c) = bc_loopComment cfg"
  "lg_comments (board_review_loop cfg c) = Some c"
  "lg_ListByTask (board_review_loop cfg c) = Some (\<lambda>b taskID limit. Inr (event_ListByTask taskID limit (bd_events b)))"
  by (simp_all add: board_review_loop_def)

lemma Hold_noting:
  "ReviewLoop_Hold (Some (board_review_loop cfg (noting cfg c))) r task e b =
   ReviewLoop_Hold (Some (board_review_loop cfg (noting cfg c'))) r task e b"
proof -
  have park: "loop_park (board_review_loop cfg c1) r task n b = loop_park (board_review_loop cfg c2) r task n b"
    for c1 c2 n
    unfolding loop_park_def loop_ports by (rule refl)
  have agree: "loop_comment (board_review_loop cfg (noting cfg c)) r task n b' =
      loop_comment (board_review_loop cfg (noting cfg c')) r task n b'"
    if held: "loop_park (board_review_loop cfg (noting cfg c)) r task n b = (True, b')" for n b'
  proof -
    obtain result db' where blocked: "BlockOnResource r (bt_ID task) ResourceHumanDecision (bc_loopDetail cfg n) (bd_db b) =
        (result, db')"
      by (cases "BlockOnResource r (bt_ID task) ResourceHumanDecision (bc_loopDetail cfg n) (bd_db b)")
    obtain previous where prev: "result = Inr previous"
      and b': "b' = journal_Record (Some board_journal) r task previous ResourceHumanDecision
        MoveReasonReviewLoopParked (with_db (\<lambda>_. db') b)"
      using held blocked
      by (cases result) (auto simp: loop_park_def loop_ports bp_block_def split: if_splits)
    have "bd_db b' = db'" unfolding b' using still_db [OF still_journal] by simp
    then have "noting cfg c r (bt_ID task) req b' = noting cfg c' r (bt_ID task) req b'" for req
      using store_Get_stopped_block [OF blocked [unfolded prev]] by (intro noting_stopped) simp
    then show ?thesis by (simp add: loop_comment_def loop_ports)
  qed
  show ?thesis
    unfolding ReviewLoop_Hold_def loop_ports option.simps sum.simps Let_def park [of "noting cfg c'" _ "noting cfg c"]
    using agree by (auto split: prod.splits bool.splits)
qed

lemma hold_noting:
  "hold_back (board_dispatcher cfg (noting cfg c)) flow input event wake defers b =
   hold_back (board_dispatcher cfg (noting cfg c')) flow input event wake defers b"
proof -
  have order: "(Some x \<noteq> None) = True" for x :: "board WorkOrder" by simp
  have guard: "(Some x \<noteq> None) = True" for x :: "board ReviewLoopGuard" by simp
  show ?thesis
    unfolding hold_back_def board_dispatcher_ports Blockers_board
      Park_noting [of cfg c _ _ _ _ c'] Hold_noting [of cfg c _ _ _ _ c'] order guard
    by (rule refl)
qed

lemma Dispatch_noting:
  "Dispatch (board_dispatcher cfg (noting cfg c)) = Dispatch (board_dispatcher cfg (noting cfg c'))"
proof
  fix input
  have "Dispatch (board_dispatcher cfg (noting cfg c)) input =
      Dispatch ((board_dispatcher cfg (noting cfg c'))\<lparr>dp_workOrder := Some (board_work_order cfg (noting cfg c)),
        dp_reviewLoop := Some (board_review_loop cfg (noting cfg c))\<rparr>) input"
    by (subst board_dispatcher_brakes [of cfg "noting cfg c" "noting cfg c'"]) (rule refl)
  also have "\<dots> = Dispatch (board_dispatcher cfg (noting cfg c')) input"
    by (rule Dispatch_hold_cong)
      (unfold board_dispatcher_brakes [of cfg "noting cfg c" "noting cfg c'", symmetric] hold_noting [of cfg c _ _ _ _ _ _ c'],
        rule refl)
  finally show "Dispatch (board_dispatcher cfg (noting cfg c)) input =
      Dispatch (board_dispatcher cfg (noting cfg c')) input" .
qed

lemma dispatcher_ports:
  "dp_enabled (board_dispatcher cfg c) = True"
  "dp_pipelineGate (board_dispatcher cfg c) = bc_pipelineGate cfg"
  "dp_actorUserID (board_dispatcher cfg c) = bc_actorUserID cfg"
  "dp_parseUUID (board_dispatcher cfg c) = bc_parseUUID cfg"
  "dp_createEvent (board_dispatcher cfg c) = Some bp_createEvent"
  "dp_createRun (board_dispatcher cfg c) = bp_createRun"
  "dp_HasPendingForTask (board_dispatcher cfg c) =
     (\<lambda>b taskID agentID. Inr (HasPendingForTask taskID agentID (bd_runs b)))"
  "dp_HasLiveForTask (board_dispatcher cfg c) =
     (\<lambda>b taskID agentID. Inr (HasLiveForTask taskID agentID (bd_runs b)))"
  "dp_Enqueue (board_dispatcher cfg c) = Some bp_Enqueue"
  "dp_AgentsForColumn (board_dispatcher cfg c) =
     (\<lambda>b column taskType. Inr (AgentsForColumn (bc_subscriptions cfg) column taskType))"
  "dp_ListAgentColumnInstructions (board_dispatcher cfg c) = (\<lambda>b agentID. Inr (bc_instructions cfg agentID))"
  "dp_RecordMove (board_dispatcher cfg c) = Some bp_RecordMove"
  "dp_AttachAgent (board_dispatcher cfg c) = bp_AttachAgent"
  "dp_TaskMoved (board_dispatcher cfg c) = None"
  "dp_taskReleased (board_dispatcher cfg c) = None"
  "dp_Workflow (board_dispatcher cfg c) = Some (\<lambda>b taskType. bc_workflow cfg taskType)"
  by (simp_all add: board_dispatcher_def)

section \<open>Dispatch, step by step\<close>

text \<open>What \<open>Dispatch\<close> computes before it asks the brakes, over the tables.\<close>

definition silent :: "board commenter" where
  "silent = (\<lambda>repositoryID taskID req b. b)"

definition bd_flow :: "board_config \<Rightarrow> DispatchInput \<Rightarrow> Workflow option" where
  "bd_flow cfg input =
     (case bc_workflow cfg (bt_TaskType (di_Task input)) of Inl err \<Rightarrow> None | Inr w \<Rightarrow> Some w)"

definition bd_defers :: "board_config \<Rightarrow> DispatchInput \<Rightarrow> bool" where
  "bd_defers cfg input = fst (pipelineGateDecision (board_dispatcher cfg silent) (bd_flow cfg input) input)"

definition bd_payload :: "DispatchInput \<Rightarrow> event_payload" where
  "bd_payload input = dispatch_payload input ''''"

definition bd_input :: "DispatchInput \<Rightarrow> DispatchInput" where
  "bd_input input = noted_input input (bd_payload input)"

definition bd_event :: "board_config \<Rightarrow> DispatchInput \<Rightarrow> board \<Rightarrow> BoardEvent" where
  "bd_event cfg input b =
     (new_event (board_dispatcher cfg silent) input (bd_payload input))\<lparr>ev_ID := bd_nextID b, ev_CreatedAt := bd_now b\<rparr>"

definition bd_recorded :: "board_config \<Rightarrow> DispatchInput \<Rightarrow> board \<Rightarrow> board" where
  "bd_recorded cfg input b = b\<lparr>bd_events := bd_events b @ [bd_event cfg input b], bd_nextID := bd_nextID b + 1\<rparr>"

definition bd_announced :: "board_config \<Rightarrow> DispatchInput \<Rightarrow> board \<Rightarrow> board" where
  "bd_announced cfg input b =
     (if di_EventType input = BoardEventTaskMoved \<or> di_EventType input = BoardEventTaskCreated
      then bp_RecordMove (di_RepositoryID input) (bt_ID (di_Task input)) (bt_Column (di_Task input))
             (ev_CreatedAt (bd_event cfg input b)) (bd_recorded cfg input b)
      else bd_recorded cfg input b)"

definition bd_wake :: "board_config \<Rightarrow> DispatchInput \<Rightarrow> bool" where
  "bd_wake cfg input \<longleftrightarrow>
     doneMergeWake (bd_flow cfg input) (bd_input input) \<or> deployWatchWake (bd_flow cfg input) (bd_input input)"

definition bd_agents :: "board_config \<Rightarrow> DispatchInput \<Rightarrow> uuid list" where
  "bd_agents cfg input =
     (let task = di_Task input; subscribers = AgentsForColumn (bc_subscriptions cfg) in
      if deployWatchWake (bd_flow cfg input) (bd_input input)
      then subscribers (bt_Column task) (bt_TaskType task)
      else if doneMergeWake (bd_flow cfg input) (bd_input input)
      then subscribers TaskColumnDone (bt_TaskType task)
      else if di_EventType input = BoardEventTaskCommented \<or> di_EventType input = BoardEventTaskCreated \<or>
              di_EventType input = BoardEventTaskMoved
      then (if isHandoffGateColumn (bd_flow cfg input) (bt_Column task) \<and> \<not> AssigneeOnlyColumn (bt_Column task)
            then subscribers (bt_Column task) (bt_TaskType task)
            else case bt_AssigneeAgentID task of
                Some agent \<Rightarrow> [agent]
              | None \<Rightarrow>
                  if AssigneeOnlyColumn (bt_Column task) \<or>
                     (case bd_flow cfg input of None \<Rightarrow> False | Some w \<Rightarrow> ReservedForRole w)
                  then [] else subscribers (bt_Column task) (bt_TaskType task))
      else if di_EventType input = BoardEventTaskAssigned
      then (case bt_AssigneeAgentID task of None \<Rightarrow> [] | Some agent \<Rightarrow> [agent])
      else [])"

definition bd_actor :: "board_config \<Rightarrow> DispatchInput \<Rightarrow> uuid" where
  "bd_actor cfg input = actorAgentIDFromPayload (bc_parseUUID cfg) (bd_payload input)"

lemma gate_reason: "snd (pipelineGateDecision d flow input) = ''''"
  by (simp add: pipelineGateDecision_def split: option.splits)

lemma bd_input_simps [simp]:
  "di_Task (bd_input input) = di_Task input" "di_EventType (bd_input input) = di_EventType input"
  "di_RepositoryID (bd_input input) = di_RepositoryID input"
  by (simp_all add: bd_input_def)

lemma bd_event_id [simp]: "ev_ID (bd_event cfg input b) = bd_nextID b"
  by (simp add: bd_event_def)

lemma createEvent_board:
  "bp_createEvent (new_event (board_dispatcher cfg c) input (bd_payload input)) b =
     (Inr (bd_event cfg input b), bd_recorded cfg input b)"
  by (simp add: bp_createEvent_def event_Create_def bd_event_def bd_recorded_def new_event_def dispatcher_ports Let_def)

lemma announce_board:
  "announce (board_dispatcher cfg c) (bd_input input) payload (bd_event cfg input b) (bd_recorded cfg input b) =
     bd_announced cfg input b"
  by (auto simp: announce_def dispatcher_ports bd_announced_def Let_def)

lemma workflow_board: "workflowFor (board_dispatcher cfg c) b (bt_TaskType (di_Task input)) = bd_flow cfg input"
  by (simp add: workflowFor_def dispatcher_ports bd_flow_def)

lemma gate_board:
  "pipelineGateDecision (board_dispatcher cfg c) (bd_flow cfg input) input = (bd_defers cfg input, '''')"
  using gate_reason [of "board_dispatcher cfg c" "bd_flow cfg input" input]
  by (simp add: prod_eq_iff bd_defers_def pipelineGateDecision_def dispatcher_ports)

lemma agents_board:
  "(if deployWatchWake (bd_flow cfg input) (bd_input input)
    then Inr (AgentsForColumn (bc_subscriptions cfg) (bt_Column (di_Task input)) (bt_TaskType (di_Task input)))
    else if doneMergeWake (bd_flow cfg input) (bd_input input)
    then Inr (AgentsForColumn (bc_subscriptions cfg) TaskColumnDone (bt_TaskType (di_Task input)))
    else resolveAgents (board_dispatcher cfg c) (bd_flow cfg input) (bd_input input) b) =
   Inr (bd_agents cfg input)"
  by (simp add: bd_agents_def resolveAgents_def dispatcher_ports Let_def split: option.splits)

lemma Dispatch_board:
  "Dispatch (board_dispatcher cfg c) input b =
     (if di_EventType input = BoardEventTaskCommented \<and> informationalComment (bd_payload input)
      then (None, bd_recorded cfg input b)
      else case hold_back (board_dispatcher cfg c) (bd_flow cfg input) (bd_input input) (bd_event cfg input b)
                  (bd_wake cfg input) (bd_defers cfg input) (bd_announced cfg input b) of
          (Some result, s3) \<Rightarrow> (result, s3)
        | (None, s3) \<Rightarrow>
            start_agents (board_dispatcher cfg c) (bd_input input) (bd_event cfg input b) bp_Enqueue
              (bd_actor cfg input) (bd_wake cfg input) (bd_agents cfg input) s3)"
  unfolding Dispatch_def dispatcher_ports(5,9) option.case prod.case Let_def
    workflow_board gate_board bd_payload_def [symmetric] bd_input_def [symmetric]
    createEvent_board sum.case announce_board bd_wake_def [symmetric] dispatcher_ports agents_board
    bd_actor_def [symmetric]
  by simp

text \<open>The column, the assignee and the gate are added to the payload; what the tests read is not touched.\<close>

lemma map_of_set_payload [simp]: "map_of (set_payload k v p) = (map_of p)(k \<mapsto> v)"
  by (simp add: set_payload_def update_conv')

lemma payload_keys [simp]:
  "EventPayloadResumedResource \<noteq> ''column''" "EventPayloadResumedResource \<noteq> ''assignee_agent_id''"
  by (simp_all add: col_defs)

lemma bd_payload_other:
  assumes "key \<noteq> ''column''" and "key \<noteq> ''assignee_agent_id''"
  shows "map_of (bd_payload input) key = (case di_Payload input of None \<Rightarrow> None | Some p \<Rightarrow> map_of p key)"
  using assms by (simp add: bd_payload_def dispatch_payload_def Let_def split: option.splits)

lemma bd_payload_string:
  assumes "di_Payload input = Some p" and "key \<noteq> ''column''" and "key \<noteq> ''assignee_agent_id''"
  shows "payload_string (bd_payload input) key = payload_string p key"
    and "string_or_empty (bd_payload input) key = string_or_empty p key"
  using bd_payload_other [OF assms(2,3), of input] assms(1) by (simp_all add: string_or_empty_def payload_string_def)

lemma bd_input_payload:
  "di_Payload (bd_input input) = (case di_Payload input of None \<Rightarrow> None | Some p \<Rightarrow> Some (bd_payload input))"
  by (simp add: bd_input_def noted_input_def split: option.splits)

lemma resumed_resource_noted [simp]: "resumed_resource (bd_input input) = resumed_resource input"
  by (simp add: resumed_resource_def bd_input_payload bd_payload_string split: option.splits)

lemma movedIntoColumn_noted:
  "di_Payload input = Some p \<Longrightarrow> movedIntoColumn (bd_payload input) = movedIntoColumn p"
  by (simp add: movedIntoColumn_def bd_payload_string bd_payload_other cong: option.case_cong if_cong)

lemma gates_noted [simp]:
  "workOrderGateApplies flow (bd_input input) = workOrderGateApplies flow input"
  "doneMergeWake flow (bd_input input) = doneMergeWake flow input"
  "deployWatchWake flow (bd_input input) = deployWatchWake flow input"
  "reviewLoopGateApplies (bd_input input) = reviewLoopGateApplies input"
  by (simp_all add: workOrderGateApplies_def doneMergeWake_def deployWatchWake_def bd_input_payload Let_def
      reviewLoopGateApplies_def movedIntoColumn_noted split: option.splits)

section \<open>What a dispatch of a card can do to the board\<close>

text \<open>
  A reflexive and transitive relation that every port call for one card keeps is kept by its whole
  dispatch, and by a note on it.
\<close>

locale board_writes =
  fixes R :: "board \<Rightarrow> board \<Rightarrow> bool" and card :: uuid
  assumes R_refl: "R b b"
    and R_trans: "R b1 b2 \<Longrightarrow> R b2 b3 \<Longrightarrow> R b1 b3"
    and R_event: "R b (snd (bp_createEvent event b))"
    and R_run: "R b (snd (bp_createRun (pending_run card agent e) b))"
    and R_move: "R b (bp_RecordMove r card column at b)"
    and R_attach: "R b (bp_AttachAgent card agent b)"
    and R_enqueue: "R b (bp_Enqueue job b)"
    and R_comment: "R b (snd (bp_createComment cfg comment b))"
begin

lemma start_frame:
  assumes "bt_ID (di_Task input) = card"
  shows "R b (snd (start_agents (board_dispatcher cfg c) input event bp_Enqueue actorID wake as b))"
proof (induction as arbitrary: b)
  case Nil
  then show ?case by (simp add: R_refl)
next
  case (Cons a as)
  let ?d = "board_dispatcher cfg c"
  obtain run b1 where run: "bp_createRun (pending_run card a (ev_ID event)) b = (Inr run, b1)"
    by (auto simp: bp_createRun_def split_beta)
  have b1: "R b b1" using R_run [of b a "ev_ID event"] run by simp
  have "R b (bp_Enqueue job (bp_AttachAgent card a b1))" for job
    by (rule R_trans [OF b1 R_trans [OF R_attach R_enqueue]])
  then have go: "R b (snd (start_agents ?d input event bp_Enqueue actorID wake as
      (bp_Enqueue job (bp_AttachAgent card a b1))))" for job
    by (rule R_trans [OF _ Cons.IH])
  have on: "R b (snd (start_agents ?d input event bp_Enqueue actorID wake as b1))"
    by (rule R_trans [OF b1 Cons.IH])
  have "\<exists>busy. alreadyWorkingOn ?d b (di_EventType input) card a wake = Inr busy"
    by (simp add: alreadyWorkingOn_def dispatcher_ports)
  then obtain busy where busy: "alreadyWorkingOn ?d b (di_EventType input) card a wake = Inr busy" by blast
  show ?case
    using Cons.IH [of b] go on by (auto simp: busy run dispatcher_ports assms Let_def split: bool.splits)
qed

lemma announced_frame:
  assumes "bt_ID (di_Task input) = card"
  shows "R b (bd_recorded cfg input b)" and "R b (bd_announced cfg input b)"
    and "R (bd_recorded cfg input b) (bd_announced cfg input b)"
proof -
  show recorded: "R b (bd_recorded cfg input b)"
    using R_event [of b "new_event (board_dispatcher cfg c) input (bd_payload input)"] by (simp add: createEvent_board)
  show "R b (bd_announced cfg input b)"
    unfolding bd_announced_def assms using recorded R_trans [OF recorded R_move] by simp
  show "R (bd_recorded cfg input b) (bd_announced cfg input b)"
    unfolding bd_announced_def assms using R_move R_refl by simp
qed

lemma Dispatch_after:
  assumes "bt_ID (di_Task input) = card"
    and held: "R (bd_announced cfg input b) (snd (hold_back (board_dispatcher cfg c) (bd_flow cfg input) (bd_input input)
      (bd_event cfg input b) (bd_wake cfg input) (bd_defers cfg input) (bd_announced cfg input b)))"
  shows "R (bd_recorded cfg input b) (snd (Dispatch (board_dispatcher cfg c) input b))"
    and "R b (snd (Dispatch (board_dispatcher cfg c) input b))"
proof -
  have card: "bt_ID (di_Task (bd_input input)) = card" using assms(1) by simp
  have recorded: "R b (bd_recorded cfg input b)" and announced: "R (bd_recorded cfg input b) (bd_announced cfg input b)"
    by (rule announced_frame [OF assms(1)])+
  obtain stop b3 where h: "hold_back (board_dispatcher cfg c) (bd_flow cfg input) (bd_input input)
      (bd_event cfg input b) (bd_wake cfg input) (bd_defers cfg input) (bd_announced cfg input b) = (stop, b3)"
    by (cases "hold_back (board_dispatcher cfg c) (bd_flow cfg input) (bd_input input)
      (bd_event cfg input b) (bd_wake cfg input) (bd_defers cfg input) (bd_announced cfg input b)")
  have b3: "R (bd_recorded cfg input b) b3" using R_trans [OF announced held] h by simp
  show sent: "R (bd_recorded cfg input b) (snd (Dispatch (board_dispatcher cfg c) input b))"
    using R_refl b3 R_trans [OF b3 start_frame [OF card]] h by (cases stop) (simp_all add: Dispatch_board)
  show "R b (snd (Dispatch (board_dispatcher cfg c) input b))" by (rule R_trans [OF recorded sent])
qed

end

text \<open>The work order writes to the card's own row as well, and comments on it.\<close>

locale board_marks = board_writes +
  assumes R_mark: "R b (snd (bp_mark r card detail b))"
    and R_soon: "R b (bd_sweepSoon_update (\<lambda>_. True) b)"
begin

definition keeps :: "board commenter \<Rightarrow> bool" where
  "keeps c \<longleftrightarrow> (\<forall>r req b. R b (c r card req b))"

lemma keepsD: "keeps c \<Longrightarrow> R b (c r card req b)"
  by (simp add: keeps_def)

lemma Park_frame:
  assumes "bt_ID task = card" and "keeps c"
  shows "R b (snd (Park (Some (board_work_order cfg c)) r task bs b))"
proof -
  have "R b (bd_sweepSoon_update (\<lambda>_. True) (c r card req (snd (bp_mark r card detail b))))" for req detail
    by (rule R_trans [OF R_mark R_trans [OF keepsD [OF assms(2)] R_soon]])
  moreover have "fst (bp_mark r card detail b) = None" for detail by (simp add: bp_mark_def)
  ultimately show ?thesis
    using assms(1) by (simp add: Park_def board_work_order_def R_refl Let_def split: prod.splits option.splits)
      (metis fst_conv snd_conv option.distinct(1))
qed

lemma parked_frame:
  assumes "bt_ID task = card" and "keeps c"
  shows "R b (snd (case Park (Some (board_work_order cfg c)) r task bs b of
    (Some err, s1) \<Rightarrow> (Some (Some (ErrWrap m err)), s1) | (None, s1) \<Rightarrow> (Some None, s1)))"
  using Park_frame [OF assms, of b cfg r bs] by (auto split: prod.splits option.splits)

lemma Dispatch_quiet:
  assumes "bt_ID (di_Task input) = card" and "keeps c" and "\<not> reviewLoopGateApplies input"
  shows "R (bd_recorded cfg input b) (snd (Dispatch (board_dispatcher cfg c) input b))"
    and "R b (snd (Dispatch (board_dispatcher cfg c) input b))"
proof -
  have parked: "R b (snd (case Park (Some (board_work_order cfg c)) r (di_Task input) bs b of
      (Some err, s1) \<Rightarrow> (Some (Some (ErrWrap m err)), s1) | (None, s1) \<Rightarrow> (Some None, s1)))" for b r bs m
    by (rule parked_frame [OF assms(1,2)])
  have held: "R (bd_announced cfg input b) (snd (hold_back (board_dispatcher cfg c) (bd_flow cfg input) (bd_input input)
      (bd_event cfg input b) (bd_wake cfg input) (bd_defers cfg input) (bd_announced cfg input b)))"
    using assms(3) by (simp add: hold_back_def Let_def Blockers_board R_refl parked split: list.splits)
  show "R (bd_recorded cfg input b) (snd (Dispatch (board_dispatcher cfg c) input b))"
    and "R b (snd (Dispatch (board_dispatcher cfg c) input b))"
    by (rule Dispatch_after [OF assms(1) held])+
qed

lemma noting_frame:
  assumes "keeps c"
  shows "keeps (noting cfg c)"
  unfolding keeps_def
proof (intro allI)
  fix r req b
  show "R b (noting cfg c r card req b)"
  proof (cases rule: noting_cases [of cfg r card req b])
    case 1
    then show ?thesis by (simp add: R_refl)
  next
    case (2 task comment new b1)
    have "bt_ID task = card"
      by (rule store_Get_row [OF 2(1)]) (simp add: owned_def scan_select_def)
    then have "R b1 (snd (Dispatch (board_dispatcher cfg c) (comment_input r task comment (cm_Informational req)) b1))"
      by (intro Dispatch_quiet assms) (simp_all add: reviewLoopGateApplies_def)
    moreover have "R b b1" unfolding 2(2) by (rule R_comment)
    ultimately show ?thesis unfolding 2(4) by (rule R_trans [rotated])
  qed
qed

end

text \<open>So does the review guard, which parks the card.\<close>

locale board_frame = board_marks +
  assumes R_block: "R b (snd (bp_block r card ResourceHumanDecision detail b))"
begin

lemma journal_frame:
  assumes "bt_ID task = card"
  shows "R b (journal_Record (Some board_journal) r task from resource reason b)"
proof -
  have "R b (case bp_createEvent e b of (Inl err, b') \<Rightarrow> b'
      | (Inr event, b') \<Rightarrow> bp_RecordMove r card c (ev_CreatedAt event) b')" for e c
  proof -
    obtain event where "bp_createEvent e b = (Inr event, snd (bp_createEvent e b))"
      using createEvent_result by blast
    moreover have "R b (bp_RecordMove r card c at (snd (bp_createEvent e b)))" for at
      by (rule R_trans [OF R_event R_move])
    ultimately show ?thesis by (metis (no_types, lifting) case_prod_conv sum.simps(6))
  qed
  then show ?thesis
    unfolding journal_Record_def board_journal_def Let_def ParkJournal.simps option.simps assms
    by (simp add: R_refl)
qed

lemma Hold_frame:
  assumes "bt_ID task = card" and "keeps c"
  shows "R b (snd (ReviewLoop_Hold (Some (board_review_loop cfg c)) r task e b))"
proof -
  have park: "R b (snd (loop_park (board_review_loop cfg c) r task n b))" for n
  proof (cases "bt_Column task = TaskColumnBlocked")
    case True
    then show ?thesis by (simp add: loop_park_def loop_ports R_refl)
  next
    case False
    obtain result b' where blk: "bp_block r card ResourceHumanDecision (bc_loopDetail cfg n) b = (result, b')"
      by (cases "bp_block r card ResourceHumanDecision (bc_loopDetail cfg n) b")
    have "R b b'" using R_block [of b r "bc_loopDetail cfg n"] blk by simp
    then show ?thesis
      using False blk assms(1) R_trans [OF \<open>R b b'\<close> journal_frame [OF assms(1)]]
      by (cases result) (simp_all add: loop_park_def loop_ports)
  qed
  have "R b (snd (case loop_park (board_review_loop cfg c) r task n b of (False, s') \<Rightarrow> (False, s')
      | (True, s') \<Rightarrow> (True, loop_comment (board_review_loop cfg c) r task n s')))" for n
  proof -
    obtain held b' where lp: "loop_park (board_review_loop cfg c) r task n b = (held, b')"
      by (cases "loop_park (board_review_loop cfg c) r task n b")
    have "R b b'" using park [of n] lp by simp
    then show ?thesis
      using lp R_trans [OF \<open>R b b'\<close> keepsD [OF assms(2)]] assms(1) by (cases held) (simp_all add: loop_comment_def loop_ports)
  qed
  then show ?thesis by (simp add: ReviewLoop_Hold_def loop_ports R_refl Let_def)
qed

lemma hold_frame:
  assumes "bt_ID (di_Task input) = card" and "keeps c"
  shows "R b (snd (hold_back (board_dispatcher cfg c) flow input event wake defers b))"
proof -
  have parked: "R b (snd (case Park (Some (board_work_order cfg c)) r (di_Task input) bs b of
      (Some err, s1) \<Rightarrow> (Some (Some (ErrWrap m err)), s1) | (None, s1) \<Rightarrow> (Some None, s1)))" for r bs m
    by (rule parked_frame [OF assms])
  have held: "R b (snd (case ReviewLoop_Hold (Some (board_review_loop cfg c)) r (di_Task input) e b of
      (True, s1) \<Rightarrow> (Some None, s1) | (False, s1) \<Rightarrow> (if defers then (Some None, s1) else (None, s1))))" for r e
    using Hold_frame [OF assms, of b cfg r e]
    by (auto split: prod.splits bool.splits)
  show ?thesis
    by (simp add: hold_back_def Let_def Blockers_board R_refl parked held split: list.splits)
qed

lemma Dispatch_frame:
  assumes "bt_ID (di_Task input) = card" and "keeps c"
  shows "R b (snd (Dispatch (board_dispatcher cfg c) input b))"
  by (rule Dispatch_after(2) [OF assms(1)]) (rule hold_frame [OF _ assms(2)], simp add: assms(1))

end

interpretation overrun: board_frame "\<lambda>b b'. bd_overrun b' = bd_overrun b" cardID for cardID
  by unfold_locales
    (simp_all add: bp_createEvent_def bp_createRun_def bp_RecordMove_def bp_AttachAgent_def bp_Enqueue_def
      bp_createComment_def bp_mark_def bp_block_def split_beta)

text \<open>
  C23: Parking a card comments on it and the comment is dispatched again, but no deeper: however often
  the comments are allowed to come back to the dispatcher, one level is all a dispatch uses.
\<close>
theorem dispatch_settles:
  "board_Dispatch cfg (Suc depth) input b = board_Dispatch cfg 1 input b \<and>
   bd_overrun (snd (board_Dispatch cfg (Suc depth) input b)) = bd_overrun b"
proof
  have level: "board_Dispatch cfg (Suc n) input b = Dispatch (board_dispatcher cfg (noting cfg silent)) input b" for n
    unfolding board_Dispatch_def commenter_note by (subst Dispatch_noting [of cfg _ silent]) (rule refl)
  then show "board_Dispatch cfg (Suc depth) input b = board_Dispatch cfg 1 input b"
    unfolding One_nat_def level ..
  have "overrun.keeps cardID silent" for cardID
    by (simp add: overrun.keeps_def silent_def)
  then show "bd_overrun (snd (board_Dispatch cfg (Suc depth) input b)) = bd_overrun b"
    unfolding level by (intro overrun.Dispatch_frame [OF refl] overrun.noting_frame)
qed

text \<open>The rows of other cards and the relations stay, and the card itself stays or goes to blocked.\<close>

definition row_kept :: "uuid \<Rightarrow> BoardTask \<Rightarrow> BoardTask \<Rightarrow> bool" where
  "row_kept cardID r r' \<longleftrightarrow>
     bt_ID r' = bt_ID r \<and> bt_RepositoryID r' = bt_RepositoryID r \<and> bt_TaskType r' = bt_TaskType r \<and>
     (bt_Column r' = bt_Column r \<or> bt_Column r' = TaskColumnBlocked) \<and> (bt_ID r = cardID \<or> r' = r)"

definition cards_kept :: "uuid \<Rightarrow> board \<Rightarrow> board \<Rightarrow> bool" where
  "cards_kept cardID b b' \<longleftrightarrow>
     ot_relations (bd_tables b') = ot_relations (bd_tables b) \<and>
     list_all2 (row_kept cardID) (db_tasks (bd_db b)) (db_tasks (bd_db b'))"

lemma row_kept_refl [simp]: "row_kept cardID r r"
  by (simp add: row_kept_def)

lemma row_kept_trans: "row_kept cardID p q \<Longrightarrow> row_kept cardID q r \<Longrightarrow> row_kept cardID p r"
  by (auto simp: row_kept_def)

lemma cards_kept_same:
  "bd_tables b' = bd_tables b \<Longrightarrow> cards_kept cardID b b'"
  by (simp add: cards_kept_def bd_db_def list_all2_same)

lemma update_rows_kept:
  assumes "\<And>r. P r \<Longrightarrow> bt_ID r = cardID" and "\<And>r. P r \<Longrightarrow> row_kept cardID r (f r)"
  shows "list_all2 (row_kept cardID) (db_tasks db) (db_tasks (update_rows P f db))"
proof -
  have "row_kept cardID r (if P r then (f r)\<lparr>bt_UpdatedAt := db_now db\<rparr> else r)" for r
    using assms [of r] by (cases "P r") (simp_all add: row_kept_def)
  then show ?thesis by (simp add: update_rows_def list_all2_conv_all_nth)
qed

lemma with_db_kept:
  "list_all2 (row_kept cardID) (db_tasks (bd_db b)) (db_tasks (f (bd_db b))) \<Longrightarrow> cards_kept cardID b (with_db f b)"
  by (simp add: cards_kept_def)

lemma block_kept:
  "list_all2 (row_kept cardID) (db_tasks db) (db_tasks (snd (BlockOnResource r cardID resource detail db)))"
proof -
  have "list_all2 (row_kept cardID) (db_tasks db) (db_tasks (update_rows (owned r cardID)
      (\<lambda>q. (park_row q)\<lparr>bt_BlockedQuestion := detail, bt_BlockedResource := resource,
        bt_BlockedAt := Some (db_now db)\<rparr>) db))"
    by (rule update_rows_kept) (simp_all add: owned_def row_kept_def park_row_def)
  then show ?thesis by (simp add: BlockOnResource_def list_all2_same split: option.splits)
qed

lemma mark_kept:
  "list_all2 (row_kept cardID) (db_tasks db) (db_tasks (MarkWorkOrderWaiting r cardID detail db))"
  unfolding MarkWorkOrderWaiting_def by (rule update_rows_kept) (simp_all add: owned_def row_kept_def)

interpretation cards: board_frame "cards_kept cardID" cardID for cardID
proof unfold_locales
  fix b1 b2 b3 assume 1: "cards_kept cardID b1 b2" and 2: "cards_kept cardID b2 b3"
  have "list_all2 (row_kept cardID) (db_tasks (bd_db b1)) (db_tasks (bd_db b3))"
    by (rule list_all2_trans [of "row_kept cardID" "row_kept cardID"])
      (use 1 2 in \<open>auto simp: cards_kept_def intro: row_kept_trans\<close>)
  then show "cards_kept cardID b1 b3" using 1 2 by (simp add: cards_kept_def)
next
  fix b r detail show "cards_kept cardID b (snd (bp_mark r cardID detail b))"
    by (simp add: bp_mark_def with_db_kept mark_kept)
next
  fix b r resource detail show "cards_kept cardID b (snd (bp_block r cardID resource detail b))"
    by (simp add: bp_block_def split_beta with_db_kept block_kept)
qed (simp_all add: cards_kept_same bp_createEvent_def bp_createRun_def bp_RecordMove_def bp_AttachAgent_def
      bp_Enqueue_def bp_createComment_def split_beta)

lemma silent_keeps: "cards.keeps cardID silent"
  by (simp add: cards.keeps_def silent_def cards.R_refl)

lemma board_Dispatch_silent:
  "board_Dispatch cfg (Suc depth) = Dispatch (board_dispatcher cfg (noting cfg silent))"
  unfolding board_Dispatch_def commenter_note by (rule Dispatch_noting)

text \<open>
  A dispatch leaves every other card and all relations as they are, and moves its own card, if at
  all, into blocked.
\<close>
theorem dispatch_touches_its_card:
  "ot_relations (bd_tables (snd (board_Dispatch cfg (Suc depth) input b))) = ot_relations (bd_tables b) \<and>
   list_all2 (\<lambda>r r'. bt_ID r' = bt_ID r \<and> (bt_ID r = bt_ID (di_Task input) \<or> r' = r) \<and>
       (bt_Column r' = bt_Column r \<or> bt_Column r' = TaskColumnBlocked))
     (db_tasks (bd_db b)) (db_tasks (bd_db (snd (board_Dispatch cfg (Suc depth) input b))))"
proof -
  have "cards_kept (bt_ID (di_Task input)) b (snd (board_Dispatch cfg (Suc depth) input b))"
    unfolding board_Dispatch_silent by (intro cards.Dispatch_frame [OF refl] cards.noting_frame silent_keeps)
  then show ?thesis unfolding cards_kept_def row_kept_def by (auto elim: list_all2_mono)
qed

end
