(* ===== verification/Dispatch_Effects.thy ===== *)
theory Dispatch_Effects
  imports Board
begin

text \<open>
  What \<open>Dispatch\<close> and the work-order sweeper do to the board: whom a dispatch starts, what a card with
  unfinished blockers does instead, and which parked cards a finished blocker frees.
\<close>

section \<open>Who a dispatch starts\<close>

lemma createRun_board:
  assumes "\<not> HasPendingForTask t a (bd_runs b)"
  shows "bp_createRun (pending_run t a e) b =
    (Inr (new_run (bd_nextID b) (bd_now b) (pending_run t a e)),
     b\<lparr>bd_runs := bd_runs b @ [new_run (bd_nextID b) (bd_now b) (pending_run t a e)], bd_nextID := bd_nextID b + 1\<rparr>)"
proof -
  have "find (\<lambda>r. run_of t a r \<and> is_pending r) (bd_runs b) = None"
    using assms by (auto simp: find_None_iff HasPendingForTask_def list_ex_iff)
  moreover have "run_TaskID (pending_run t a e) = t" "run_AgentID (pending_run t a e) = a"
    by (simp_all add: pending_run_def)
  ultimately have none: "(if is_pending (pending_run t a e)
      then find (\<lambda>r. run_of (run_TaskID (pending_run t a e)) (run_AgentID (pending_run t a e)) r \<and> is_pending r)
        (bd_runs b) else None) = None"
    by simp
  show ?thesis unfolding bp_createRun_def run_Create_def Let_def none by simp
qed

lemma pending_run_simps [simp]:
  "is_pending (pending_run t a e)" "is_live (pending_run t a e)"
  "run_TaskID (pending_run t a e) = t" "run_AgentID (pending_run t a e) = a"
  "run_BoardEventID (pending_run t a e) = e" "run_BoardEventID (new_run i at r) = run_BoardEventID r"
  "run_TaskID (new_run i at (pending_run t a e)) = t" "run_AgentID (new_run i at (pending_run t a e)) = a"
  "run_BoardEventID (new_run i at (pending_run t a e)) = e" "is_pending (new_run i at (pending_run t a e))"
  "is_live (new_run i at (pending_run t a e))"
  by (simp_all add: new_run_def pending_run_def is_pending_def is_live_def)

interpretation bq: run_queue "board_dispatcher cfg c" bp_Enqueue
    "\<lambda>b::board. \<lambda>t a. HasPendingForTask t a (bd_runs b)" "\<lambda>b::board. \<lambda>t a. HasLiveForTask t a (bd_runs b)"
    bd_runs "\<lambda>b::board. bd_jobs b" runnerQueue for cfg c
proof unfold_locales
  fix b :: board and t a
  show "HasPendingForTask t a (bd_runs b) \<Longrightarrow> HasLiveForTask t a (bd_runs b)"
    by (auto simp: HasPendingForTask_def HasLiveForTask_def list_ex_iff is_live_def)
next
  fix b :: board and t a e assume free: "\<not> HasPendingForTask t a (bd_runs b)"
  let ?run = "new_run (bd_nextID b) (bd_now b) (pending_run t a e)"
  let ?b = "b\<lparr>bd_runs := bd_runs b @ [?run], bd_nextID := bd_nextID b + 1\<rparr>"
  have "dp_createRun (board_dispatcher cfg c) (pending_run t a e) b = (Inr ?run, ?b)"
    by (simp add: dispatcher_ports createRun_board [OF free])
  moreover have "(\<lambda>t a. HasPendingForTask t a (bd_runs ?b)) =
      (\<lambda>t a. HasPendingForTask t a (bd_runs b))(t := ((\<lambda>a. HasPendingForTask t a (bd_runs b)))(a := True))"
    by (auto simp: fun_eq_iff HasPendingForTask_def run_of_def)
  moreover have "(\<lambda>t a. HasLiveForTask t a (bd_runs ?b)) =
      (\<lambda>t a. HasLiveForTask t a (bd_runs b))(t := ((\<lambda>a. HasLiveForTask t a (bd_runs b)))(a := True))"
    by (auto simp: fun_eq_iff HasLiveForTask_def run_of_def)
  ultimately show "\<exists>run b'. dp_createRun (board_dispatcher cfg c) (pending_run t a e) b = (Inr run, b') \<and>
      run_BoardEventID run = e \<and> run_TaskID run = t \<and> run_AgentID run = a \<and> bd_jobs b' = bd_jobs b \<and>
      bd_runs b' = bd_runs b @ [run] \<and>
      (\<lambda>t a. HasPendingForTask t a (bd_runs b')) =
        (\<lambda>t a. HasPendingForTask t a (bd_runs b))(t := ((\<lambda>a. HasPendingForTask t a (bd_runs b)))(a := True)) \<and>
      (\<lambda>t a. HasLiveForTask t a (bd_runs b')) =
        (\<lambda>t a. HasLiveForTask t a (bd_runs b))(t := ((\<lambda>a. HasLiveForTask t a (bd_runs b)))(a := True))"
    by (intro exI [of _ ?run] exI [of _ ?b]) simp
qed (simp_all add: dispatcher_ports bp_AttachAgent_def bp_Enqueue_def Enqueue_def markQueued_def)

section \<open>The brakes, decided\<close>

text \<open>The work order lets the card through, over the tables.\<close>

definition unblocked :: "Workflow option \<Rightarrow> DispatchInput \<Rightarrow> order_tables \<Rightarrow> bool" where
  "unblocked flow input t \<longleftrightarrow>
     \<not> workOrderGateApplies flow input \<or> bt_ID (di_Task input) = uuid_Nil \<or>
     ListBlockingSources (bt_ID (di_Task input)) t = []"

lemma hold_free:
  assumes "unblocked flow input (bd_tables b)" and "\<not> reviewLoopGateApplies input"
  shows "hold_back (board_dispatcher cfg c) flow input event wake defers b =
    ((if isDispatchSuspendedTask flow (di_Task input) \<and> \<not> wake \<or> defers then Some None else None), b)"
  using assms by (auto simp: hold_back_def unblocked_def Let_def Blockers_board)

interpretation tables: board_writes "\<lambda>b b'. bd_tables b' = bd_tables b" cardID for cardID
  by unfold_locales
    (simp_all add: bp_createEvent_def bp_createRun_def bp_RecordMove_def bp_AttachAgent_def bp_Enqueue_def
      bp_createComment_def split_beta)

lemma announced_tables [simp]:
  "bd_tables (bd_announced cfg input b) = bd_tables b" "bd_tables (bd_recorded cfg input b) = bd_tables b"
  by (rule tables.announced_frame [OF refl])+

lemma announced_queue [simp]:
  "bd_runs (bd_announced cfg input b) = bd_runs b" "bd_jobs (bd_announced cfg input b) = bd_jobs b"
  "bd_runs (bd_recorded cfg input b) = bd_runs b" "bd_jobs (bd_recorded cfg input b) = bd_jobs b"
  by (simp_all add: bd_announced_def bd_recorded_def bp_RecordMove_def)

lemma Dispatch_free:
  assumes "unblocked (bd_flow cfg input) input (bd_tables b)" and "\<not> reviewLoopGateApplies input"
  shows "Dispatch (board_dispatcher cfg c) input b =
     (if di_EventType input = BoardEventTaskCommented \<and> informationalComment (bd_payload input)
      then (None, bd_recorded cfg input b)
      else if isDispatchSuspendedTask (bd_flow cfg input) (di_Task input) \<and> \<not> bd_wake cfg input \<or> bd_defers cfg input
      then (None, bd_announced cfg input b)
      else start_agents (board_dispatcher cfg c) (bd_input input) (bd_event cfg input b) bp_Enqueue
             (bd_actor cfg input) (bd_wake cfg input) (bd_agents cfg input) (bd_announced cfg input b))"
proof -
  have "unblocked (bd_flow cfg input) (bd_input input) (bd_tables (bd_announced cfg input b))"
    using assms(1) by (simp add: unblocked_def)
  then have held: "hold_back (board_dispatcher cfg c) (bd_flow cfg input) (bd_input input) (bd_event cfg input b)
      (bd_wake cfg input) (bd_defers cfg input) (bd_announced cfg input b) =
    ((if isDispatchSuspendedTask (bd_flow cfg input) (di_Task input) \<and> \<not> bd_wake cfg input \<or> bd_defers cfg input
      then Some None else None), bd_announced cfg input b)"
    using hold_free [of "bd_flow cfg input" "bd_input input" "bd_announced cfg input b"] assms(2) by simp
  show ?thesis unfolding Dispatch_board held prod.case by (simp split: option.split)
qed

lemma Dispatch_free_tables:
  assumes "unblocked (bd_flow cfg input) input (bd_tables b)" and "\<not> reviewLoopGateApplies input"
  shows "bd_tables (snd (Dispatch (board_dispatcher cfg c) input b)) = bd_tables b"
  unfolding Dispatch_free [OF assms] using tables.start_frame [of "bd_input input" "bt_ID (di_Task input)"] by simp

text \<open>
  C22: With no brake on the card, a dispatch creates one queued run and makes one job for each agent of
  the column, or the assignee, in their order and each once, except who acted and who already has a
  run that counts. The jobs go to the end of the runner's queue as long as it has room: of 256 waiting
  jobs and more the rest are dropped, and their runs stay queued in the table without a job.
\<close>
theorem dispatch_starts:
  assumes "unblocked (bd_flow cfg input) input (bd_tables b)" and "\<not> reviewLoopGateApplies input"
    and "\<not> bd_defers cfg input" and "isDispatchSuspendedTask (bd_flow cfg input) (di_Task input) \<longrightarrow> bd_wake cfg input"
    and "\<not> (di_EventType input = BoardEventTaskCommented \<and> informationalComment (bd_payload input))"
  shows "\<exists>js b'. board_Dispatch cfg (Suc depth) input b = (None, b') \<and>
     bd_jobs b' = bd_jobs b @ take (256 - length (bd_jobs b)) js \<and> bd_runs b' = bd_runs b @ map job_Run js \<and>
     bd_tables b' = bd_tables b \<and>
     map (\<lambda>j. run_AgentID (job_Run j)) js =
       starters (\<lambda>a. bd_actor cfg input \<noteq> uuid_Nil \<and> a = bd_actor cfg input \<or>
         (if bd_wake cfg input \<or> di_EventType input = BoardEventTaskCommented \<or> di_EventType input = BoardEventTaskAssigned
          then HasLiveForTask (bt_ID (di_Task input)) a (bd_runs b)
          else HasPendingForTask (bt_ID (di_Task input)) a (bd_runs b))) (bd_agents cfg input) \<and>
     list_all (\<lambda>j. job_Task j = di_Task input \<and> run_TaskID (job_Run j) = bt_ID (di_Task input) \<and>
       run_BoardEventID (job_Run j) = bd_nextID b) js"
proof -
  let ?c = "commenter cfg (Suc depth)" and ?b = "bd_announced cfg input b"
  have "board_Dispatch cfg (Suc depth) input b =
      start_agents (board_dispatcher cfg ?c) (bd_input input) (bd_event cfg input b) bp_Enqueue
        (bd_actor cfg input) (bd_wake cfg input) (bd_agents cfg input) ?b"
    unfolding board_Dispatch_def Dispatch_free [OF assms(1,2)] if_not_P [OF assms(5)]
    using assms(3,4) by (auto intro: if_not_P)
  moreover have "bd_tables (snd (board_Dispatch cfg (Suc depth) input b)) = bd_tables b"
    unfolding board_Dispatch_def by (rule Dispatch_free_tables [OF assms(1,2)])
  moreover obtain s' js where started: "start_agents (board_dispatcher cfg ?c) (bd_input input) (bd_event cfg input b)
      bp_Enqueue (bd_actor cfg input) (bd_wake cfg input) (bd_agents cfg input) ?b = (None, s')"
    and queued: "bd_jobs s' = bd_jobs ?b @ take (runnerQueue - length (bd_jobs ?b)) js"
      "bd_runs s' = bd_runs ?b @ map job_Run js"
    and agents: "map (\<lambda>j. run_AgentID (job_Run j)) js = starters (\<lambda>a. bd_actor cfg input \<noteq> uuid_Nil \<and> a = bd_actor cfg input \<or>
        bq.working (di_EventType (bd_input input)) (bd_wake cfg input) (bt_ID (di_Task (bd_input input))) ?b a)
        (bd_agents cfg input)"
    and made: "list_all (\<lambda>j. job_Task j = di_Task (bd_input input) \<and> job_Event j = bd_event cfg input b \<and>
        run_TaskID (job_Run j) = bt_ID (di_Task (bd_input input)) \<and> run_BoardEventID (job_Run j) = ev_ID (bd_event cfg input b)) js"
    using bq.start_agents_started [of cfg ?c "bd_input input" "bd_event cfg input b" "bd_actor cfg input"
        "bd_wake cfg input" "bd_agents cfg input" ?b] by blast
  ultimately show ?thesis
    using queued agents made
    by (intro exI [of _ js] exI [of _ s']) (auto simp: bq.working_def runnerQueue_def elim: list.pred_mono_strong)
qed

section \<open>A card with unfinished blockers\<close>

text \<open>Changes of a row that leave what the blockers of a card are read from.\<close>

definition in_place :: "BoardTask \<Rightarrow> BoardTask \<Rightarrow> bool" where
  "in_place r r' \<longleftrightarrow> bt_ID r' = bt_ID r \<and> bt_RepositoryID r' = bt_RepositoryID r \<and>
     bt_TaskType r' = bt_TaskType r \<and> bt_Column r' = bt_Column r"

definition tables_in_place :: "order_tables \<Rightarrow> order_tables \<Rightarrow> bool" where
  "tables_in_place t t' \<longleftrightarrow> ot_relations t' = ot_relations t \<and>
     list_all2 in_place (db_tasks (ot_db t)) (db_tasks (ot_db t'))"

lemma find_in_place:
  assumes "list_all2 in_place rows rows'" and "\<And>r r'. in_place r r' \<Longrightarrow> P r' = P r"
  shows "rel_option in_place (find P rows) (find P rows')"
  using assms(1) by induction (auto dest: assms(2))

lemma row_of_in_place:
  assumes "tables_in_place t t'"
  shows "rel_option in_place (row_of i t) (row_of i t')"
  unfolding row_of_def find_row_def
  by (rule find_in_place) (use assms in \<open>auto simp: tables_in_place_def in_place_def\<close>)

lemma no_blockers_iff:
  "ListBlockingSources i t = [] \<longleftrightarrow>
     (\<forall>r \<in> set (ot_relations t). rel_TargetTaskID r = i \<and> rel_RelationType r = TaskRelationBlocks \<longrightarrow>
       (case row_of (rel_SourceTaskID r) t of None \<Rightarrow> True | Some q \<Rightarrow> \<not> unfinishedBlockerSQL q))"
  by (auto simp: ListBlockingSources_def filter_empty_conv set_map_filter split: option.splits)

lemma no_blockers_in_place:
  assumes "tables_in_place t t'"
  shows "ListBlockingSources i t' = [] \<longleftrightarrow> ListBlockingSources i t = []"
proof -
  have "(case row_of j t' of None \<Rightarrow> True | Some q \<Rightarrow> \<not> unfinishedBlockerSQL q) =
      (case row_of j t of None \<Rightarrow> True | Some q \<Rightarrow> \<not> unfinishedBlockerSQL q)" for j
    using row_of_in_place [OF assms, of j]
    by (auto simp: option_rel_Some1 option_rel_Some2 in_place_def unfinishedBlockerSQL_def split: option.splits)
  then show ?thesis using assms by (simp add: no_blockers_iff tables_in_place_def)
qed

lemma update_rows_in_place:
  assumes "\<And>r. P r \<Longrightarrow> in_place r (f r)"
  shows "tables_in_place t (t\<lparr>ot_db := update_rows P f (ot_db t)\<rparr>)"
proof -
  have "in_place r (if P r then (f r)\<lparr>bt_UpdatedAt := at\<rparr> else r)" for r at
    using assms [of r] by (simp add: in_place_def)
  then show ?thesis by (simp add: tables_in_place_def update_rows_def list_all2_conv_all_nth)
qed

lemma store_Get_in_place:
  assumes "tables_in_place t t'" and "store_Get r i (ot_db t') = Inr task'"
  obtains task where "store_Get r i (ot_db t) = Inr task" "in_place task task'"
proof -
  have rel: "rel_option in_place (find_row (owned r i) (ot_db t)) (find_row (owned r i) (ot_db t'))"
    unfolding find_row_def
    by (rule find_in_place) (use assms(1) in \<open>auto simp: tables_in_place_def in_place_def owned_def\<close>)
  obtain row' where row': "find_row (owned r i) (ot_db t') = Some row'" "task' = scan_select (ot_db t') row'"
    using assms(2) by (auto simp: store_Get_def split: option.splits)
  obtain row where row: "find_row (owned r i) (ot_db t) = Some row" "in_place row row'"
    using rel row'(1) by (auto simp: option_rel_Some2)
  show ?thesis
    by (rule that [of "scan_select (ot_db t) row"])
      (use row row'(2) in \<open>simp_all add: store_Get_def in_place_def scan_select_def\<close>)
qed

definition waiting_detail :: "BoardTask list \<Rightarrow> string" where
  "waiting_detail bs = ''waiting for '' @ str_Join '', '' (blockerLabels bs) @ '' to finish''"

lemma Park_board:
  "Park (Some (board_work_order cfg c)) r task bs b =
     (None, if bt_BlockedResource task = ResourceWorkOrder then b
        else bd_sweepSoon_update (\<lambda>_. True)
          (c r (bt_ID task) (system_comment (workOrderParkComment (board_work_order cfg c) bs))
            (with_db (MarkWorkOrderWaiting r (bt_ID task)
              (waiting_detail bs)) b)))"
  by (simp add: Park_def board_work_order_def bp_mark_def Let_def waiting_detail_def)

lemma hold_blocked:
  assumes "workOrderGateApplies flow input" and "bt_ID (di_Task input) \<noteq> uuid_Nil"
    and "ListBlockingSources (bt_ID (di_Task input)) (bd_tables b) = bs" and "bs \<noteq> []"
  shows "hold_back (board_dispatcher cfg c) flow input event wake defers b =
    (Some None, if isDispatchSuspendedTask flow (di_Task input) \<and> \<not> wake then b
       else snd (Park (Some (board_work_order cfg c)) (di_RepositoryID input) (di_Task input) bs b))"
  using assms by (cases bs) (simp_all add: hold_back_def Let_def Blockers_board Park_board)

text \<open>The tables and the queue of runs.\<close>

definition idle :: "board \<Rightarrow> board \<Rightarrow> bool" where
  "idle b b' \<longleftrightarrow> bd_tables b' = bd_tables b \<and> bd_runs b' = bd_runs b \<and> bd_jobs b' = bd_jobs b"

lemma idle_refl [simp]: "idle b b"
  by (simp add: idle_def)

lemma idle_trans: "idle a b \<Longrightarrow> idle b c \<Longrightarrow> idle a c"
  by (simp add: idle_def)

lemma idle_announced [simp]: "idle b (bd_announced cfg input b)" "idle b (bd_recorded cfg input b)"
  by (simp_all add: idle_def)

lemma gate_on_comment:
  assumes "workOrderGateApplies flow input" and "bt_Column task = bt_Column (di_Task input)"
  shows "workOrderGateApplies flow (comment_input r task comment k)"
  using assms
  by (simp add: workOrderGateApplies_def resumed_resource_def string_or_empty_def payload_string_def comment_payload_def
      col_defs split: if_splits option.splits)

lemma flow_of_comment: "bt_TaskType task = bt_TaskType (di_Task input) \<Longrightarrow> bd_flow cfg (comment_input r task comment k) = bd_flow cfg input"
  by (simp add: bd_flow_def)

text \<open>A note on a card that waits for its blockers starts nobody.\<close>

lemma Dispatch_waiting:
  assumes "workOrderGateApplies (bd_flow cfg input) input" and "bt_ID (di_Task input) \<noteq> uuid_Nil"
    and "ListBlockingSources (bt_ID (di_Task input)) (bd_tables b) \<noteq> []"
    and "bt_BlockedResource (di_Task input) = ResourceWorkOrder"
  shows "idle b (snd (Dispatch (board_dispatcher cfg c) input b))"
proof -
  have held: "hold_back (board_dispatcher cfg c) (bd_flow cfg input) (bd_input input) (bd_event cfg input b)
      (bd_wake cfg input) (bd_defers cfg input) (bd_announced cfg input b) = (Some None, bd_announced cfg input b)"
    using hold_blocked [of "bd_flow cfg input" "bd_input input" "bd_announced cfg input b", OF _ _ refl] assms
    by (simp add: Park_board)
  show ?thesis unfolding Dispatch_board held by simp
qed

lemma noting_waiting:
  assumes "workOrderGateApplies (bd_flow cfg input) input" and "t \<noteq> uuid_Nil"
    and "ListBlockingSources t (bd_tables b) \<noteq> []"
    and "\<And>task. store_Get r t (bd_db b) = Inr task \<Longrightarrow> bt_BlockedResource task = ResourceWorkOrder \<and>
      bt_Column task = bt_Column (di_Task input) \<and> bt_TaskType task = bt_TaskType (di_Task input)"
  shows "idle b (noting cfg c r t req b)"
proof (cases rule: noting_cases [of cfg r t req b])
  case 1
  then show ?thesis by simp
next
  case (2 task comment new b1)
  have b1: "idle b b1" unfolding 2(2) by (simp add: idle_def bp_createComment_def split_beta)
  have task: "bt_ID task = t"
    by (rule store_Get_row [OF 2(1)]) (simp add: owned_def scan_select_def)
  let ?input = "comment_input r task comment (cm_Informational req)"
  note same = assms(4) [OF 2(1)]
  have "workOrderGateApplies (bd_flow cfg ?input) ?input"
    using same by (subst flow_of_comment [of task input]) (simp_all add: gate_on_comment [OF assms(1)])
  then have "idle b1 (snd (Dispatch (board_dispatcher cfg c) ?input b1))"
    using assms(2,3) b1 same by (intro Dispatch_waiting) (simp_all add: task idle_def)
  then show ?thesis unfolding 2(4) by (rule idle_trans [OF b1])
qed

lemma Mark_in_place:
  "tables_in_place (bd_tables b) (bd_tables (with_db (MarkWorkOrderWaiting r t detail) b))"
  unfolding with_db_def MarkWorkOrderWaiting_def bd_db_def
  using update_rows_in_place [of "owned r t" "\<lambda>q. q\<lparr>bt_BlockedQuestion := detail,
      bt_BlockedResource := ResourceWorkOrder, bt_BlockedAt := Some (db_now (ot_db (bd_tables b)))\<rparr>" "bd_tables b"]
  by (simp add: in_place_def)

text \<open>
  C9: A dispatch of a card with unfinished blockers, in a column that waits for them, starts nobody and
  queues no run; it marks the card as waiting, unless the dispatch is of a silent comment, the card's
  column is suspended, or the card waits already.
\<close>
theorem blocked_card_starts_nobody:
  assumes gate: "workOrderGateApplies (bd_flow cfg input) input" and known: "bt_ID (di_Task input) \<noteq> uuid_Nil"
    and blocked: "ListBlockingSources (bt_ID (di_Task input)) (bd_tables b) \<noteq> []"
    and stored: "\<And>task. store_Get (di_RepositoryID input) (bt_ID (di_Task input)) (bd_db b) = Inr task \<Longrightarrow>
      bt_Column task = bt_Column (di_Task input) \<and> bt_TaskType task = bt_TaskType (di_Task input)"
  shows "\<exists>b'. board_Dispatch cfg (Suc depth) input b = (None, b') \<and> bd_runs b' = bd_runs b \<and> bd_jobs b' = bd_jobs b \<and>
     bd_tables b' =
       (if di_EventType input = BoardEventTaskCommented \<and> informationalComment (bd_payload input) \<or>
           isDispatchSuspendedTask (bd_flow cfg input) (di_Task input) \<and> \<not> bd_wake cfg input \<or>
           bt_BlockedResource (di_Task input) = ResourceWorkOrder
        then bd_tables b
        else (bd_tables b)\<lparr>ot_db := MarkWorkOrderWaiting (di_RepositoryID input) (bt_ID (di_Task input))
               (waiting_detail (ListBlockingSources (bt_ID (di_Task input)) (bd_tables b))) (bd_db b)\<rparr>)"
proof -
  let ?t = "bt_ID (di_Task input)" and ?r = "di_RepositoryID input" and ?c = "noting cfg silent"
  let ?bs = "ListBlockingSources ?t (bd_tables b)" and ?a = "bd_announced cfg input b"
  let ?marked = "with_db (MarkWorkOrderWaiting ?r ?t (waiting_detail ?bs)) ?a"
  have held: "hold_back (board_dispatcher cfg ?c) (bd_flow cfg input) (bd_input input) (bd_event cfg input b)
      (bd_wake cfg input) (bd_defers cfg input) ?a =
    (Some None, if isDispatchSuspendedTask (bd_flow cfg input) (di_Task input) \<and> \<not> bd_wake cfg input then ?a
       else snd (Park (Some (board_work_order cfg ?c)) ?r (di_Task input) ?bs ?a))"
    using hold_blocked [of "bd_flow cfg input" "bd_input input" ?a ?bs] assms by simp
  have idle: "idle ?marked (noting cfg silent ?r ?t req ?marked)" for req
  proof (rule noting_waiting [OF gate known])
    show "ListBlockingSources ?t (bd_tables ?marked) \<noteq> []"
      using no_blockers_in_place [OF Mark_in_place [of ?a ?r ?t "waiting_detail ?bs"]] blocked by simp
  next
    fix task assume task: "store_Get ?r ?t (bd_db ?marked) = Inr task"
    have "store_Get ?r ?t (ot_db (bd_tables ?marked)) = Inr task" using task by (simp add: bd_db_def)
    then obtain old where "store_Get ?r ?t (ot_db (bd_tables ?a)) = Inr old" "in_place old task"
      by (rule store_Get_in_place [OF Mark_in_place])
    then have "bt_Column task = bt_Column (di_Task input) \<and> bt_TaskType task = bt_TaskType (di_Task input)"
      using stored [of old] by (simp add: in_place_def bd_db_def)
    moreover have "bt_BlockedResource task = ResourceWorkOrder"
      by (rule store_Get_marked) (use task in \<open>unfold bd_db_with_db\<close>)
    ultimately show "bt_BlockedResource task = ResourceWorkOrder \<and> bt_Column task = bt_Column (di_Task input) \<and>
        bt_TaskType task = bt_TaskType (di_Task input)"
      by simp
  qed
  have park: "idle (if bt_BlockedResource (di_Task input) = ResourceWorkOrder then ?a else ?marked)
      (snd (Park (Some (board_work_order cfg ?c)) ?r (di_Task input) ?bs ?a))"
    using idle [of "system_comment (workOrderParkComment (board_work_order cfg ?c) ?bs)"]
    by (simp add: Park_board) (simp add: idle_def)
  have marked: "bd_tables ?marked = (bd_tables b)\<lparr>ot_db := MarkWorkOrderWaiting ?r ?t (waiting_detail ?bs) (bd_db b)\<rparr>"
    "bd_runs ?marked = bd_runs b" "bd_jobs ?marked = bd_jobs b"
    by (simp_all add: with_db_def bd_db_def)
  show ?thesis
    unfolding board_Dispatch_silent Dispatch_board held prod.case option.case
    using park marked by (auto simp: idle_def)
qed

section \<open>What frees a waiting card\<close>

definition work_waiting :: "BoardTask \<Rightarrow> bool" where
  "work_waiting r \<longleftrightarrow> bt_BlockedResource r = ResourceWorkOrder"

text \<open>The cards of \<open>S\<close> whose blockers are all finished stop waiting; nothing else changes.\<close>

definition freed :: "uuid set \<Rightarrow> order_tables \<Rightarrow> order_tables" where
  "freed S t = t\<lparr>ot_db := update_rows (\<lambda>r. work_waiting r \<and> bt_ID r \<in> S \<and> ListBlockingSources (bt_ID r) t = [])
     clear_park (ot_db t)\<rparr>"

lemma freed_in_place: "tables_in_place t (freed S t)"
  unfolding freed_def by (rule update_rows_in_place) (simp add: in_place_def clear_park_def)

lemma freed_no_blockers [simp]: "ListBlockingSources i (freed S t) = [] \<longleftrightarrow> ListBlockingSources i t = []"
  by (rule no_blockers_in_place [OF freed_in_place])

lemma update_rows_none: "(\<And>r. r \<in> set (db_tasks db) \<Longrightarrow> \<not> P r) \<Longrightarrow> update_rows P f db = db"
  by (simp add: update_rows_def map_idI)

lemma freed_empty [simp]: "freed {} t = t"
  by (simp add: freed_def update_rows_none)

lemma clear_twice:
  "update_rows (\<lambda>r. work_waiting r \<and> B (bt_ID r)) clear_park
     (update_rows (\<lambda>r. work_waiting r \<and> A (bt_ID r)) clear_park db) =
   update_rows (\<lambda>r. work_waiting r \<and> (A (bt_ID r) \<or> B (bt_ID r))) clear_park db"
proof -
  define g where "g r = (clear_park r)\<lparr>bt_UpdatedAt := db_now db\<rparr>" for r
  have g: "\<not> work_waiting (g r)" for r
    by (simp add: g_def work_waiting_def clear_park_def col_defs)
  define put where "put P r = (if P r then g r else r)" for P r
  have rows: "update_rows P clear_park db' = db'\<lparr>db_tasks := map (put P) (db_tasks db')\<rparr>"
    if "db_now db' = db_now db" for P db'
    by (simp add: update_rows_def put_def g_def that)
  have step: "put (\<lambda>r. work_waiting r \<and> B (bt_ID r)) (put (\<lambda>r. work_waiting r \<and> A (bt_ID r)) r) =
      put (\<lambda>r. work_waiting r \<and> (A (bt_ID r) \<or> B (bt_ID r))) r" for r
    using g by (auto simp: put_def)
  show ?thesis by (simp add: rows comp_def step)
qed

lemma freed_Un: "freed T (freed S t) = freed (S \<union> T) t"
proof -
  have "ListBlockingSources i (freed S t) = [] \<longleftrightarrow> ListBlockingSources i t = []" for i by simp
  then have "freed T (freed S t) = (freed S t)\<lparr>ot_db := update_rows
      (\<lambda>r. work_waiting r \<and> bt_ID r \<in> T \<and> ListBlockingSources (bt_ID r) t = []) clear_park (ot_db (freed S t))\<rparr>"
    by (simp add: freed_def [of T])
  also have "\<dots> = freed (S \<union> T) t"
    using clear_twice [of "\<lambda>i. i \<in> T \<and> ListBlockingSources i t = []" "\<lambda>i. i \<in> S \<and> ListBlockingSources i t = []" "ot_db t"]
    by (simp add: freed_def conj_disj_distribR)
  finally show ?thesis .
qed

lemma Clear_freed:
  assumes "ListBlockingSources i t = []"
  shows "t\<lparr>ot_db := snd (ClearWorkOrderWaiting i (ot_db t))\<rparr> = freed {i} t"
proof -
  have "(\<lambda>r. bt_ID r = i \<and> bt_BlockedResource r = ResourceWorkOrder) =
      (\<lambda>r. work_waiting r \<and> bt_ID r \<in> {i} \<and> ListBlockingSources (bt_ID r) t = [])"
    using assms by (auto simp: work_waiting_def)
  then show ?thesis by (simp add: ClearWorkOrderWaiting_def freed_def Let_def)
qed

lemma freed_blocked:
  assumes "ListBlockingSources i t \<noteq> []"
  shows "freed {i} t = t"
proof -
  have "update_rows (\<lambda>r. work_waiting r \<and> bt_ID r \<in> {i} \<and> ListBlockingSources (bt_ID r) t = []) clear_park (ot_db t) = ot_db t"
    by (rule update_rows_none) (use assms in auto)
  then show ?thesis unfolding freed_def by simp
qed

text \<open>The dispatch of a resumed card and the note on it do not touch the tables.\<close>

lemma resume_input_free: "\<not> workOrderGateApplies flow (resume_input task)" "\<not> reviewLoopGateApplies (resume_input task)"
  by (simp_all add: workOrderGateApplies_def resumed_resource_def resume_input_def string_or_empty_def payload_string_def
      reviewLoopGateApplies_def movedIntoColumn_def col_defs)

lemma Dispatch_resume_tables: "bd_tables (snd (Dispatch (board_dispatcher cfg c) (resume_input task) b)) = bd_tables b"
  by (rule Dispatch_free_tables) (simp_all add: unblocked_def resume_input_free)

lemma noting_free_tables:
  assumes "ListBlockingSources t (bd_tables b) = []"
  shows "bd_tables (noting cfg c r t req b) = bd_tables b"
proof (cases rule: noting_cases [of cfg r t req b])
  case 1
  then show ?thesis by simp
next
  case (2 task comment new b1)
  have b1: "bd_tables b1 = bd_tables b" unfolding 2(2) by (simp add: bp_createComment_def split_beta)
  have task: "bt_ID task = t"
    by (rule store_Get_row [OF 2(1)]) (simp add: owned_def scan_select_def)
  have "bd_tables (snd (Dispatch (board_dispatcher cfg c) (comment_input r task comment k) b1)) = bd_tables b1" for k
    by (rule Dispatch_free_tables) (simp_all add: unblocked_def task b1 assms reviewLoopGateApplies_def)
  then show ?thesis unfolding 2(4) b1 [symmetric] .
qed

lemma resumeIfClear_tables:
  "bd_tables (resumeIfClear (board_sweeper cfg depth) i b) = freed {i} (bd_tables b)"
proof (cases "ListBlockingSources i (bd_tables b) = []")
  case False
  then obtain x xs where "ListBlockingSources i (bd_tables b) = x # xs" by (cases "ListBlockingSources i (bd_tables b)") auto
  then show ?thesis using freed_blocked [OF False] by (simp add: resumeIfClear_def board_sweeper_def)
next
  case True
  obtain claimed db where clear: "ClearWorkOrderWaiting i (bd_db b) = (claimed, db)"
    by (cases "ClearWorkOrderWaiting i (bd_db b)")
  define b1 where "b1 = with_db (\<lambda>_. db) b"
  have b1: "bd_tables b1 = freed {i} (bd_tables b)"
    using Clear_freed [OF True] clear by (simp add: b1_def with_db_def bd_db_def)
  have claimed: "bt_ID task = i" if "claimed = Some task" for task
    using clear that by (auto simp: ClearWorkOrderWaiting_def scan_select_def Let_def dest: find_row_Some)
  show ?thesis
  proof (cases claimed)
    case None
    then show ?thesis using True clear b1
      by (simp add: resumeIfClear_def board_sweeper_def bp_clear_def b1_def)
  next
    case (Some task)
    obtain result b2 where sent: "board_Dispatch cfg depth (resume_input task) b1 = (result, b2)"
      by (cases "board_Dispatch cfg depth (resume_input task) b1")
    have b2: "bd_tables b2 = bd_tables b1"
      using sent Dispatch_resume_tables [of cfg "commenter cfg depth" task b1] by (simp add: board_Dispatch_def)
    have noted: "bd_tables (commenter cfg (Suc depth) r (bt_ID task) req b2) = bd_tables b2" for r req
      unfolding commenter_note claimed [OF Some]
      by (rule noting_free_tables) (simp add: b2 b1 True)
    have clear_port: "bp_clear i b = (Inr (Some task), b1)" using clear Some by (simp add: bp_clear_def b1_def)
    show ?thesis
      unfolding resumeIfClear_def board_sweeper_def WorkOrderSweeper.simps sum.case True list.case clear_port
        prod.case option.case sent
      by (cases result) (simp_all only: option.case noted b2 b1)
  qed
qed

lemma resume_fold_tables:
  "bd_tables (fold (resumeIfClear (board_sweeper cfg depth)) ids b) = freed (set ids) (bd_tables b)"
proof (induction ids arbitrary: b)
  case (Cons i ids)
  have "insert i (set ids) = {i} \<union> set ids" by simp
  then show ?case by (simp add: Cons.IH resumeIfClear_tables freed_Un)
qed simp

lemma wake_loop_fold:
  "wake_loop w rels s =
     fold (resumeIfClear w) (map rel_TargetTaskID (filter (\<lambda>r. rel_RelationType r = TaskRelationBlocks) rels)) s"
  by (induction rels arbitrary: s) simp_all

text \<open>
  When a card is finished, the sweeper frees exactly the waiting cards that it blocked and that have
  no other unfinished blocker; every other row and every relation stays.
\<close>
theorem wake_frees_dependents:
  "bd_tables (WakeDependentsOf (Some (board_sweeper cfg depth)) finished b) =
   (bd_tables b)\<lparr>ot_db := update_rows (\<lambda>r. bt_BlockedResource r = ResourceWorkOrder \<and>
       bt_ID r \<in> rel_TargetTaskID ` {q \<in> set (ListBySource finished (bd_tables b)). rel_RelationType q = TaskRelationBlocks} \<and>
       ListBlockingSources (bt_ID r) (bd_tables b) = [])
     clear_park (bd_db b)\<rparr>"
proof -
  have "sw_dependents (board_sweeper cfg depth) = Some (\<lambda>b source. Inr (ListBySource source (bd_tables b)))"
    by (simp add: board_sweeper_def)
  then have "bd_tables (WakeDependentsOf (Some (board_sweeper cfg depth)) finished b) =
      freed (rel_TargetTaskID ` {q \<in> set (ListBySource finished (bd_tables b)). rel_RelationType q = TaskRelationBlocks})
        (bd_tables b)"
    by (simp add: WakeDependentsOf_def wake_loop_fold resume_fold_tables)
  then show ?thesis by (simp add: freed_def work_waiting_def bd_db_def)
qed

lemma sweep_tables:
  "bd_tables (sweep (board_sweeper cfg depth) b) =
     freed (set (map bt_ID (ListBlockedByResource ResourceWorkOrder workOrderSweepBatch (bd_db b)))) (bd_tables b)"
proof -
  have listed: "sw_ListBlockedByResource (board_sweeper cfg depth) = (\<lambda>b resource limit. Inr (ListBlockedByResource resource limit (bd_db b)))"
    by (simp add: board_sweeper_def)
  show ?thesis
    by (simp add: sweep_def listed fold_map [symmetric, unfolded comp_def] resume_fold_tables del: set_map)
qed

lemma listed_waiting:
  assumes "length (filter work_waiting (db_tasks db)) \<le> 100"
    and "\<forall>r \<in> set (db_tasks db). work_waiting r \<longrightarrow> bt_BlockedAt r \<noteq> None"
  shows "set (map bt_ID (ListBlockedByResource ResourceWorkOrder workOrderSweepBatch db)) =
    bt_ID ` {r \<in> set (db_tasks db). work_waiting r}"
proof -
  have "filter (parked_on ResourceWorkOrder) (db_tasks db) = filter work_waiting (db_tasks db)"
    using assms(2) by (intro filter_cong) (auto simp: parked_on_def work_waiting_def)
  then show ?thesis
    using assms(1) by (simp add: ListBlockedByResource_def workOrderSweepBatch_def Let_def scan_select_def image_image)
qed

text \<open>
  C21: One pass of the sweeper over at most a hundred waiting cards, each with the time its wait began
  (as \<open>MarkWorkOrderWaiting\<close> writes it), leaves waiting exactly those with an unfinished blocker: of the
  tables of tasks and relations it changes the rows of the others only, which it clears. The cards it
  frees it dispatches and comments on; what that adds to events, runs and jobs is not said here.
\<close>
theorem sweep_leaves_the_blocked:
  assumes "length (filter (\<lambda>r. bt_BlockedResource r = ResourceWorkOrder) (db_tasks (bd_db b))) \<le> 100"
    and "\<forall>r \<in> set (db_tasks (bd_db b)). bt_BlockedResource r = ResourceWorkOrder \<longrightarrow> bt_BlockedAt r \<noteq> None"
  shows "bd_tables (sweep (board_sweeper cfg depth) b) =
   (bd_tables b)\<lparr>ot_db := update_rows
       (\<lambda>r. bt_BlockedResource r = ResourceWorkOrder \<and> ListBlockingSources (bt_ID r) (bd_tables b) = [])
     clear_park (bd_db b)\<rparr>"
proof -
  have few: "length (filter work_waiting (db_tasks (bd_db b))) \<le> 100"
    "\<forall>r \<in> set (db_tasks (bd_db b)). work_waiting r \<longrightarrow> bt_BlockedAt r \<noteq> None"
    using assms by (simp_all add: work_waiting_def [abs_def])
  have "update_rows (\<lambda>r. work_waiting r \<and> bt_ID r \<in> bt_ID ` {r \<in> set (db_tasks (bd_db b)). work_waiting r} \<and>
      ListBlockingSources (bt_ID r) (bd_tables b) = []) clear_park (bd_db b) =
    update_rows (\<lambda>r. work_waiting r \<and> ListBlockingSources (bt_ID r) (bd_tables b) = []) clear_park (bd_db b)"
    by (auto simp: update_rows_def)
  moreover have "bd_tables (sweep (board_sweeper cfg depth) b) =
      freed (bt_ID ` {r \<in> set (db_tasks (bd_db b)). work_waiting r}) (bd_tables b)"
    unfolding sweep_tables listed_waiting [OF few] ..
  ultimately show ?thesis by (simp add: freed_def work_waiting_def bd_db_def)
qed

section \<open>A small board\<close>

text \<open>Card 2 in the code review column, subscribed to by agents 7 and 8, waits for card 1 where the flag is set.\<close>

definition small_config :: board_config where
  "small_config =
     \<lparr>bc_workflow = (\<lambda>_. Inl ErrNotFound),
      bc_subscriptions = [(7, TaskColumnCodeReview, None), (8, TaskColumnCodeReview, None), (9, TaskColumnTodo, None)],
      bc_instructions = (\<lambda>_. []), bc_pipelineGate = False, bc_actorUserID = '''', bc_parseUUID = (\<lambda>_. None),
      bc_repos = [1], bc_agentNames = (\<lambda>_. ''''), bc_parkPrefix = ''Waiting for'', bc_parkSuffix = ''.'',
      bc_resumed = ''Free again.'', bc_loopDetail = (\<lambda>_. ''loop''), bc_loopComment = (\<lambda>_. ''Loop.'')\<rparr>"

definition small_card :: "uuid \<Rightarrow> TaskColumn \<Rightarrow> BoardTask" where
  "small_card i column =
     zero_BoardTask\<lparr>bt_ID := i, bt_RepositoryID := 1, bt_TaskType := TaskTypeTask, bt_Column := column\<rparr>"

definition small_board :: "bool \<Rightarrow> board" where
  "small_board waits =
     \<lparr>bd_tables =
        \<lparr>ot_db = \<lparr>db_tasks = [small_card 1 (if waits then TaskColumnTodo else TaskColumnDone),
             small_card 2 TaskColumnCodeReview], db_counters = [], db_prefixes = [], db_enteredAt = (\<lambda>_. None),
           db_quotaResumeAt = (\<lambda>_. None), db_running = (\<lambda>_. False), db_now = 5\<rparr>,
         ot_relations = [\<lparr>rel_ID = 20, rel_SourceTaskID = 1, rel_TargetTaskID = 2, rel_RelationType = TaskRelationBlocks,
           rel_TargetKey = '''', rel_TargetTitle = '''', rel_SourceKey = '''', rel_SourceTitle = '''', rel_CreatedAt = 0\<rparr>],
         ot_nextID = 50\<rparr>,
      bd_events = [], bd_runs = [], bd_spans = [], bd_comments = [], bd_runner = NewRunner, bd_nextID = 100,
      bd_sweepSoon = False, bd_overrun = False\<rparr>"

definition small_move :: DispatchInput where
  "small_move =
     \<lparr>di_RepositoryID = 1, di_Task = small_card 2 TaskColumnCodeReview, di_EventType = BoardEventTaskMoved,
      di_Payload = Some [(''to_column'', PString TaskColumnCodeReview)], di_SkipPipelineGate = False\<rparr>"

lemma small_free: "ListBlockingSources 2 (bd_tables (small_board False)) = []"
  by code_simp

lemma dispatch_starts_witness:
  "\<exists>js b'. board_Dispatch small_config 1 small_move (small_board False) = (None, b') \<and> bd_jobs b' = js \<and>
     map (\<lambda>j. run_AgentID (job_Run j)) js = [7, 8]"
proof -
  have 1: "unblocked (bd_flow small_config small_move) small_move (bd_tables (small_board False))"
    by (simp add: unblocked_def small_free) (simp add: small_move_def small_card_def small_free)
  have 2: "\<not> reviewLoopGateApplies small_move" by code_simp
  have 3: "\<not> bd_defers small_config small_move" by code_simp
  have 4: "\<not> isDispatchSuspendedTask (bd_flow small_config small_move) (di_Task small_move)" by code_simp
  have 5: "di_EventType small_move \<noteq> BoardEventTaskCommented" by code_simp
  have agents: "bd_agents small_config small_move = [7, 8]" by code_simp
  have 6: "bd_actor small_config small_move = uuid_Nil" by code_simp
  have 7: "bd_runs (small_board False) = []" "bd_jobs (small_board False) = []" by (simp_all add: small_board_def)
  show ?thesis
    using dispatch_starts [OF 1 2 3, of 0] 4 5
    by (auto simp: agents 6 7 HasPendingForTask_def HasLiveForTask_def take_map [symmetric] cong: if_cong)
qed

lemma blocked_card_starts_nobody_witness:
  "\<exists>b'. board_Dispatch small_config 1 small_move (small_board True) = (None, b') \<and> bd_runs b' = [] \<and> bd_jobs b' = [] \<and>
     map bt_BlockedResource (db_tasks (bd_db b')) = ['''', ResourceWorkOrder]"
proof -
  have 1: "workOrderGateApplies (bd_flow small_config small_move) small_move" by code_simp
  have 2: "bt_ID (di_Task small_move) \<noteq> uuid_Nil" by code_simp
  have 3: "ListBlockingSources (bt_ID (di_Task small_move)) (bd_tables (small_board True)) \<noteq> []" by code_simp
  have 4: "bt_Column task = bt_Column (di_Task small_move) \<and> bt_TaskType task = bt_TaskType (di_Task small_move)"
    if "store_Get (di_RepositoryID small_move) (bt_ID (di_Task small_move)) (bd_db (small_board True)) = Inr task" for task
    using that
    by (auto simp: store_Get_def find_row_def small_move_def small_card_def small_board_def bd_db_def owned_def scan_select_def)
  have 5: "di_EventType small_move \<noteq> BoardEventTaskCommented"
    "\<not> isDispatchSuspendedTask (bd_flow small_config small_move) (di_Task small_move)"
    "bt_BlockedResource (di_Task small_move) \<noteq> ResourceWorkOrder" by code_simp+
  have 6: "map bt_BlockedResource (db_tasks (MarkWorkOrderWaiting (di_RepositoryID small_move) (bt_ID (di_Task small_move))
      detail (bd_db (small_board True)))) = ['''', ResourceWorkOrder]" for detail
    by (simp add: MarkWorkOrderWaiting_def update_rows_def small_move_def small_card_def small_board_def bd_db_def
        owned_def zero_BoardTask_def)
  have 7: "bd_runs (small_board True) = []" "bd_jobs (small_board True) = []" by (simp_all add: small_board_def)
  show ?thesis
    using blocked_card_starts_nobody [OF 1 2 3 4, of 0] 5 6 7 by (auto simp: bd_db_def)
qed

lemma sweep_leaves_the_blocked_witness:
  "map bt_BlockedResource (db_tasks (bd_db (sweep (board_sweeper small_config 1)
     (with_db (MarkWorkOrderWaiting 1 2 ''waiting'') (small_board False))))) = ['''', '''']"
proof -
  let ?b = "with_db (MarkWorkOrderWaiting 1 2 ''waiting'') (small_board False)"
  have 1: "length (filter (\<lambda>r. bt_BlockedResource r = ResourceWorkOrder) (db_tasks (bd_db ?b))) \<le> 100"
    by code_simp
  have 2: "\<forall>r \<in> set (db_tasks (bd_db ?b)). bt_BlockedResource r = ResourceWorkOrder \<longrightarrow> bt_BlockedAt r \<noteq> None"
    by code_simp
  have "ListBlockingSources 2 (bd_tables ?b) = []" by code_simp
  then show ?thesis
    unfolding bd_db_def sweep_leaves_the_blocked [OF 1 2]
    by (simp add: update_rows_def MarkWorkOrderWaiting_def small_board_def small_card_def bd_db_def with_db_def
        owned_def zero_BoardTask_def clear_park_def)
qed

end
