(* ===== verification/Sweepers.thy ===== *)
theory Sweepers
  imports Dispatch_Effects
begin

text \<open>
  What ends a park: the sweepers of \<open>server/internal/application/board\<close> for a spent quota
  (\<open>quota_sweeper.go\<close>), the shared device (\<open>device_sweeper.go\<close>) and a deploy under watch
  (\<open>deploy_sweeper.go\<close>), the release waker (\<open>release_waker.go\<close>) and the answer to a question
  (\<open>resume.go\<close>); and \<open>QuotaParkWindow\<close> of \<open>domain/quota_block.go\<close>. A goroutine with its ticker is
  the body it runs. Every one of them claims a card in one statement and dispatches it again.
\<close>

section \<open>The sweepers\<close>

definition MoveReasonQuestionAnswered :: string where
  [col_defs]: "MoveReasonQuestionAnswered = ''question_answered''"
definition MoveReasonQuotaRenewed :: string where [col_defs]: "MoveReasonQuotaRenewed = ''quota_renewed''"

text \<open>The move event of a card that is back; \<open>extra\<close> is what the caller adds.\<close>

definition resume_dispatch :: "BoardTask \<Rightarrow> event_payload \<Rightarrow> string \<Rightarrow> DispatchInput" where
  "resume_dispatch task extra reason =
     \<lparr>di_RepositoryID = bt_RepositoryID task, di_Task = task, di_EventType = BoardEventTaskMoved,
      di_Payload = Some (extra @ [(EventPayloadActor, PString EventActorSystem), (EventPayloadReason, PString reason)]),
      di_SkipPipelineGate = False\<rparr>"

record 's QuotaSweeper =
  qs_TakeQuotaResumable :: "time \<Rightarrow> 's \<Rightarrow> (go_error + BoardTask option) \<times> 's"
  qs_dispatch :: "DispatchInput \<Rightarrow> 's \<Rightarrow> go_error option \<times> 's"
  qs_now :: "'s \<Rightarrow> time"

definition quotaSweepBatchCap :: nat where "quotaSweepBatchCap = 20"

definition quota_input :: "BoardTask \<Rightarrow> DispatchInput" where
  "quota_input task =
     resume_dispatch task [(''resumed'', PString ''quota_reset''), (''resource'', PString ResourceClaudeCodeQuota)]
       MoveReasonQuotaRenewed"

fun quota_passes :: "'s QuotaSweeper \<Rightarrow> time \<Rightarrow> nat \<Rightarrow> 's \<Rightarrow> 's" where
  "quota_passes w now 0 s = s"
| "quota_passes w now (Suc n) s =
     (case qs_TakeQuotaResumable w now s of
        (Inl err, s1) \<Rightarrow> s1
      | (Inr None, s1) \<Rightarrow> s1
      | (Inr (Some task), s1) \<Rightarrow> quota_passes w now n (snd (qs_dispatch w (quota_input task) s1)))"

definition quota_sweep :: "'s QuotaSweeper \<Rightarrow> 's \<Rightarrow> 's" where
  "quota_sweep w s = quota_passes w (qs_now w s) quotaSweepBatchCap s"

record 's DeviceSweeper =
  ds_TakeBlockedByResource :: "string \<Rightarrow> 's \<Rightarrow> (go_error + BoardTask option) \<times> 's"
  ds_Probe :: "'s \<Rightarrow> bool"
  ds_dispatch :: "DispatchInput \<Rightarrow> 's \<Rightarrow> go_error option \<times> 's"

definition device_input :: "BoardTask \<Rightarrow> DispatchInput" where
  "device_input task =
     resume_dispatch task [(''resumed'', PString ''device_free''), (''resource'', PString ResourceMobileDevice)]
       MoveReasonResourceFree"

definition device_sweep :: "'s DeviceSweeper \<Rightarrow> 's \<Rightarrow> 's" where
  "device_sweep w s =
     (if \<not> ds_Probe w s then s
      else case ds_TakeBlockedByResource w ResourceMobileDevice s of
          (Inl err, s1) \<Rightarrow> s1
        | (Inr None, s1) \<Rightarrow> s1
        | (Inr (Some task), s1) \<Rightarrow> snd (ds_dispatch w (device_input task) s1))"

type_synonym DeployWatchState = string

definition DeployWatchPending :: DeployWatchState where [col_defs]: "DeployWatchPending = ''pending''"
definition DeployWatchSuccess :: DeployWatchState where [col_defs]: "DeployWatchSuccess = ''success''"
definition DeployWatchFailure :: DeployWatchState where [col_defs]: "DeployWatchFailure = ''failure''"
definition DeployWatchNoSignal :: DeployWatchState where [col_defs]: "DeployWatchNoSignal = ''no_signal''"
definition DeployWatchUnknown :: DeployWatchState where [col_defs]: "DeployWatchUnknown = ''unknown''"

definition Settled :: "DeployWatchState \<Rightarrow> bool" where
  "Settled s \<longleftrightarrow> s \<noteq> DeployWatchPending"

record 's DeploySweeper =
  dw_ListBlockedByResource :: "'s \<Rightarrow> string \<Rightarrow> int \<Rightarrow> go_error + BoardTask list"
  dw_TakeBlockedResourceTask :: "string \<Rightarrow> uuid \<Rightarrow> 's \<Rightarrow> (go_error + BoardTask option) \<times> 's"
  dw_StatusForTask :: "'s \<Rightarrow> BoardTask \<Rightarrow> go_error + DeployWatchState"
  dw_dispatch :: "DispatchInput \<Rightarrow> 's \<Rightarrow> go_error option \<times> 's"
  dw_cancelled :: "'s \<Rightarrow> bool"

definition deploySweepBatch :: int where "deploySweepBatch = 25"

definition deploy_input :: "DeployWatchState \<Rightarrow> BoardTask \<Rightarrow> DispatchInput" where
  "deploy_input state task =
     resume_dispatch task
       [(''resumed'', PString ''deploy_settled''), (''resource'', PString ResourceDeployWatch),
        (''deploy_state'', PString state), (EventPayloadResumedResource, PString ResourceDeployWatch)]
       MoveReasonResourceFree"

definition resumeIfSettled :: "'s DeploySweeper \<Rightarrow> BoardTask \<Rightarrow> 's \<Rightarrow> 's" where
  "resumeIfSettled w parked s =
     (case dw_StatusForTask w s parked of
        Inl err \<Rightarrow> s
      | Inr state \<Rightarrow>
          if \<not> Settled state then s
          else case dw_TakeBlockedResourceTask w ResourceDeployWatch (bt_ID parked) s of
              (Inl err, s1) \<Rightarrow> s1
            | (Inr None, s1) \<Rightarrow> s1
            | (Inr (Some task), s1) \<Rightarrow> snd (dw_dispatch w (deploy_input state task) s1))"

fun deploy_loop :: "'s DeploySweeper \<Rightarrow> BoardTask list \<Rightarrow> 's \<Rightarrow> 's" where
  "deploy_loop w [] s = s"
| "deploy_loop w (t # ts) s = (if dw_cancelled w s then s else deploy_loop w ts (resumeIfSettled w t s))"

definition deploy_sweep :: "'s DeploySweeper \<Rightarrow> 's \<Rightarrow> 's" where
  "deploy_sweep w s =
     (case dw_ListBlockedByResource w s ResourceDeployWatch deploySweepBatch of
        Inl err \<Rightarrow> s
      | Inr parked \<Rightarrow> deploy_loop w parked s)"

definition release_wake_input :: "uuid \<Rightarrow> string \<Rightarrow> BoardTask \<Rightarrow> DispatchInput" where
  "release_wake_input repositoryID status task =
     (resume_dispatch task
       [(''resumed'', PString ''release_settled''), (''resource'', PString ResourceReleaseWatch),
        (''release_status'', PString status), (EventPayloadResumedResource, PString ResourceReleaseWatch)]
       MoveReasonResourceFree)\<lparr>di_RepositoryID := repositoryID\<rparr>"

definition Wake ::
  "(DispatchInput \<Rightarrow> 's \<Rightarrow> go_error option \<times> 's) option \<Rightarrow> uuid \<Rightarrow> BoardTask \<Rightarrow> string \<Rightarrow> 's \<Rightarrow> go_error option \<times> 's" where
  "Wake dispatcher repositoryID task releaseStatus s =
     (case dispatcher of
        None \<Rightarrow> (None, s)
      | Some dispatch \<Rightarrow> dispatch (release_wake_input repositoryID releaseStatus task) s)"

section \<open>The answer to a question\<close>

record 's AnswerResumer =
  ar_TakeBlockedBySession :: "(uuid \<Rightarrow> 's \<Rightarrow> (go_error + BoardTask option) \<times> 's) option"
  ar_dispatch :: "(DispatchInput \<Rightarrow> 's \<Rightarrow> go_error option \<times> 's) option"
  ar_comments :: "'s commenter option"

definition ClarificationCommentPrefix :: string where
  "ClarificationCommentPrefix = ''[clarification]''"

definition ClarificationAnswerComment :: "string \<Rightarrow> string \<Rightarrow> string" where
  "ClarificationAnswerComment question answer =
     ClarificationCommentPrefix @
     (if TrimSpace question \<noteq> '''' then [CHR 0x0A] @ ''Asked:'' @ [CHR 0x0A] @ TrimSpace question else '''') @
     [CHR 0x0A] @ ''Answered by the human:'' @ [CHR 0x0A] @ TrimSpace answer"

definition IsClarificationComment :: "string \<Rightarrow> bool" where
  "IsClarificationComment content \<longleftrightarrow> prefix ClarificationCommentPrefix (TrimSpace content)"

definition answer_input :: "string \<Rightarrow> BoardTask \<Rightarrow> DispatchInput" where
  "answer_input answer task =
     resume_dispatch task
       [(''resumed'', PString ''question_answered''), (''question'', PString (bt_BlockedQuestion task)),
        (''answer'', PString answer)]
       MoveReasonQuestionAnswered"

definition recordAnswer :: "'s AnswerResumer \<Rightarrow> BoardTask \<Rightarrow> string \<Rightarrow> 's \<Rightarrow> 's" where
  "recordAnswer w task answer s =
     (case ar_comments w of
        None \<Rightarrow> s
      | Some addComment \<Rightarrow>
          if TrimSpace answer = '''' then s
          else addComment (bt_RepositoryID task) (bt_ID task)
                 (system_comment (ClarificationAnswerComment (bt_BlockedQuestion task) answer)) s)"

definition RecordTaskAnswer ::
  "'s AnswerResumer option \<Rightarrow> uuid \<Rightarrow> uuid \<Rightarrow> string \<Rightarrow> string \<Rightarrow> 's \<Rightarrow> 's" where
  "RecordTaskAnswer resumer repositoryID taskID question answer s =
     (case Option.bind resumer ar_comments of
        None \<Rightarrow> s
      | Some addComment \<Rightarrow>
          if TrimSpace answer = '''' then s
          else addComment repositoryID taskID
                 ((system_comment (ClarificationAnswerComment question answer))\<lparr>cm_Informational := True\<rparr>) s)"

definition ResumeOnAnswer :: "'s AnswerResumer option \<Rightarrow> uuid \<Rightarrow> string \<Rightarrow> 's \<Rightarrow> bool \<times> 's" where
  "ResumeOnAnswer resumer sessionID answer s =
     (case resumer of
        None \<Rightarrow> (False, s)
      | Some w \<Rightarrow>
          (case (ar_TakeBlockedBySession w, ar_dispatch w) of
             (Some takeBySession, Some dispatch) \<Rightarrow>
               (case takeBySession sessionID s of
                  (Inl err, s1) \<Rightarrow> (False, s1)
                | (Inr None, s1) \<Rightarrow> (False, s1)
                | (Inr (Some task), s1) \<Rightarrow>
                    (True, snd (dispatch (answer_input answer task) (recordAnswer w task answer s1))))
           | _ \<Rightarrow> (False, s)))"

section \<open>How long a spent quota parks a card\<close>

definition minutes :: "int \<Rightarrow> duration" where
  "minutes n = n * 60 * 1000000000"

definition DefaultQuotaParkWindow :: duration where
  "DefaultQuotaParkWindow = minutes 30"

fun park_window_loop :: "nat \<Rightarrow> duration \<Rightarrow> duration" where
  "park_window_loop 0 window = window"
| "park_window_loop (Suc n) window =
     (if window * 2 \<ge> minutes 300 then minutes 300 else park_window_loop n (window * 2))"

definition QuotaParkWindow :: "int \<Rightarrow> duration" where
  "QuotaParkWindow consecutiveParks =
     park_window_loop (nat (if consecutiveParks < 0 then 0 else consecutiveParks)) DefaultQuotaParkWindow"

lemma park_window_loop_closed:
  assumes "0 \<le> window" and "window \<le> minutes 300"
  shows "park_window_loop n window = min (window * 2 ^ n) (minutes 300)"
  using assms
proof (induction n arbitrary: window)
  case (Suc n)
  show ?case
  proof (cases "minutes 300 \<le> window * 2")
    case True
    have "minutes 300 \<le> window * 2 ^ Suc n"
    proof -
      have "window * 2 * 1 \<le> window * 2 * 2 ^ n" using Suc.prems(1) by (intro mult_left_mono) simp_all
      then show ?thesis using True by (simp add: mult.assoc)
    qed
    then show ?thesis using True by (simp add: min_absorb2)
  next
    case False
    then have "park_window_loop n (window * 2) = min (window * 2 * 2 ^ n) (minutes 300)"
      using Suc.prems(1) by (intro Suc.IH) simp_all
    then show ?thesis using False by (simp add: mult.assoc)
  qed
qed simp

text \<open>
  The wait after a spent quota doubles with each park from half an hour and stops at five hours; a
  negative count is taken as none, and the doubling never leaves 64 bits.
\<close>
theorem quota_window_closed:
  "QuotaParkWindow n = min (minutes 30 * 2 ^ nat n) (minutes 300) \<and>
   minutes 30 \<le> QuotaParkWindow n \<and> QuotaParkWindow n * 2 < 2 ^ 63"
proof -
  have eq: "QuotaParkWindow n = min (minutes 30 * 2 ^ nat n) (minutes 300)"
    unfolding QuotaParkWindow_def DefaultQuotaParkWindow_def
    by (subst park_window_loop_closed) (simp_all add: minutes_def)
  have "minutes 30 * 1 \<le> minutes 30 * 2 ^ nat n" by (intro mult_left_mono) (simp_all add: minutes_def)
  then show ?thesis unfolding eq by (simp add: minutes_def)
qed

section \<open>Over the board\<close>

definition bp_take ::
  "(task_db \<Rightarrow> BoardTask option \<times> task_db) \<Rightarrow> board \<Rightarrow> (go_error + BoardTask option) \<times> board" where
  "bp_take claim b = (let (claimed, db) = claim (bd_db b) in (Inr claimed, with_db (\<lambda>_. db) b))"

definition board_quota_sweeper :: "board_config \<Rightarrow> nat \<Rightarrow> board QuotaSweeper" where
  "board_quota_sweeper cfg depth =
     \<lparr>qs_TakeQuotaResumable = (\<lambda>at. bp_take (TakeQuotaResumable at)), qs_dispatch = board_Dispatch cfg depth,
      qs_now = bd_now\<rparr>"

definition board_device_sweeper :: "board_config \<Rightarrow> nat \<Rightarrow> (board \<Rightarrow> bool) \<Rightarrow> board DeviceSweeper" where
  "board_device_sweeper cfg depth probe =
     \<lparr>ds_TakeBlockedByResource = (\<lambda>resource. bp_take (TakeBlockedByResource resource)), ds_Probe = probe,
      ds_dispatch = board_Dispatch cfg depth\<rparr>"

definition board_deploy_sweeper ::
  "board_config \<Rightarrow> nat \<Rightarrow> (board \<Rightarrow> BoardTask \<Rightarrow> go_error + DeployWatchState) \<Rightarrow> board DeploySweeper" where
  "board_deploy_sweeper cfg depth status =
     \<lparr>dw_ListBlockedByResource = (\<lambda>b resource limit. Inr (ListBlockedByResource resource limit (bd_db b))),
      dw_TakeBlockedResourceTask = (\<lambda>resource taskID. bp_take (TakeBlockedResourceTask resource taskID)),
      dw_StatusForTask = status, dw_dispatch = board_Dispatch cfg depth, dw_cancelled = (\<lambda>b. False)\<rparr>"

definition board_resumer :: "board_config \<Rightarrow> nat \<Rightarrow> board AnswerResumer" where
  "board_resumer cfg depth =
     \<lparr>ar_TakeBlockedBySession = Some (\<lambda>sessionID. bp_take (TakeBlockedBySession sessionID)),
      ar_dispatch = Some (board_Dispatch cfg depth), ar_comments = Some (commenter cfg depth)\<rparr>"

text \<open>
  The dispatch of a card that is back may mark the card as waiting for its blockers and leaves
  everything else of the tables; the events only grow.
\<close>

definition unmarked :: "BoardTask \<Rightarrow> BoardTask" where
  "unmarked r = r\<lparr>bt_BlockedQuestion := '''', bt_BlockedResource := '''', bt_BlockedAt := None, bt_UpdatedAt := 0\<rparr>"

definition row_marked :: "uuid \<Rightarrow> BoardTask \<Rightarrow> BoardTask \<Rightarrow> bool" where
  "row_marked cardID r r' \<longleftrightarrow>
     r' = r \<or> bt_ID r = cardID \<and> unmarked r' = unmarked r \<and> bt_BlockedResource r' = ResourceWorkOrder"

definition resume_kept :: "uuid \<Rightarrow> board \<Rightarrow> board \<Rightarrow> bool" where
  "resume_kept cardID b b' \<longleftrightarrow>
     list_all2 (row_marked cardID) (db_tasks (bd_db b)) (db_tasks (bd_db b')) \<and>
     db_quotaResumeAt (bd_db b') = db_quotaResumeAt (bd_db b) \<and> (\<exists>es. bd_events b' = bd_events b @ es)"

lemma unmarked_fields:
  assumes "unmarked r' = unmarked r"
  shows "bt_ID r' = bt_ID r" "bt_RepositoryID r' = bt_RepositoryID r" "bt_Column r' = bt_Column r"
    "bt_TaskType r' = bt_TaskType r"
  using arg_cong [OF assms, of bt_ID] arg_cong [OF assms, of bt_RepositoryID] arg_cong [OF assms, of bt_Column]
    arg_cong [OF assms, of bt_TaskType] by (simp_all add: unmarked_def)

lemma row_marked_trans: "row_marked i p q \<Longrightarrow> row_marked i q r \<Longrightarrow> row_marked i p r"
  unfolding row_marked_def by (metis unmarked_fields(1))

lemma mark_row_marked: "list_all2 (row_marked i) (db_tasks db) (db_tasks (MarkWorkOrderWaiting r i detail db))"
proof -
  have "row_marked i q (if owned r i q then (q\<lparr>bt_BlockedQuestion := detail, bt_BlockedResource := ResourceWorkOrder,
      bt_BlockedAt := Some (db_now db)\<rparr>)\<lparr>bt_UpdatedAt := db_now db\<rparr> else q)" for q
    by (simp add: row_marked_def owned_def unmarked_def)
  then show ?thesis by (simp add: MarkWorkOrderWaiting_def update_rows_def list_all2_conv_all_nth)
qed

lemma resume_kept_same:
  "bd_tables b' = bd_tables b \<Longrightarrow> \<exists>es. bd_events b' = bd_events b @ es \<Longrightarrow> resume_kept i b b'"
  by (simp add: resume_kept_def bd_db_def list_all2_same row_marked_def)

interpretation resumed: board_marks "resume_kept cardID" cardID for cardID
proof unfold_locales
  fix b1 b2 b3 assume 1: "resume_kept cardID b1 b2" and 2: "resume_kept cardID b2 b3"
  have "list_all2 (row_marked cardID) (db_tasks (bd_db b1)) (db_tasks (bd_db b3))"
    by (rule list_all2_trans [of "row_marked cardID" "row_marked cardID"])
      (use 1 2 in \<open>auto simp: resume_kept_def intro: row_marked_trans\<close>)
  then show "resume_kept cardID b1 b3" using 1 2 by (auto simp: resume_kept_def)
next
  fix b r detail show "resume_kept cardID b (snd (bp_mark r cardID detail b))"
    by (simp add: bp_mark_def resume_kept_def mark_row_marked) (simp add: MarkWorkOrderWaiting_def update_rows_def)
qed (auto intro!: resume_kept_same simp: bp_createEvent_def bp_createRun_def bp_RecordMove_def bp_AttachAgent_def
      bp_Enqueue_def bp_createComment_def split_beta event_Create_def Let_def)

lemma silent_resumes: "resumed.keeps cardID silent"
  by (simp add: resumed.keeps_def silent_def resumed.R_refl)

lemma resume_not_review:
  "''resumed'' \<in> fst ` set extra \<Longrightarrow> \<not> reviewLoopGateApplies (resume_dispatch task extra reason)"
proof -
  assume "''resumed'' \<in> fst ` set extra"
  then have "map_of (extra @ rest) ''resumed'' \<noteq> None" for rest
    unfolding map_of_eq_None_iff by auto
  then have "movedIntoColumn (extra @ rest) = None" for rest by (simp add: movedIntoColumn_def)
  then show ?thesis by (simp add: reviewLoopGateApplies_def resume_dispatch_def)
qed

text \<open>A resumed card is announced, and its dispatch keeps to the card.\<close>

lemma resume_dispatched:
  assumes "''resumed'' \<in> fst ` set extra"
  shows "\<exists>e es. bd_events (snd (board_Dispatch cfg (Suc depth) (resume_dispatch task extra reason) b)) = bd_events b @ e # es \<and>
      ev_TaskID e = bt_ID task \<and> ev_EventType e = BoardEventTaskMoved"
    and "resume_kept (bt_ID task) b (snd (board_Dispatch cfg (Suc depth) (resume_dispatch task extra reason) b))"
proof -
  let ?input = "resume_dispatch task extra reason"
  have card: "bt_ID (di_Task ?input) = bt_ID task" by (simp add: resume_dispatch_def)
  note quiet = resumed.Dispatch_quiet [OF card resumed.noting_frame [OF silent_resumes] resume_not_review [OF assms]]
  show "resume_kept (bt_ID task) b (snd (board_Dispatch cfg (Suc depth) ?input b))"
    unfolding board_Dispatch_silent by (rule quiet(2))
  have "resume_kept (bt_ID task) (bd_recorded cfg ?input b) (snd (board_Dispatch cfg (Suc depth) ?input b))"
    unfolding board_Dispatch_silent by (rule quiet(1))
  then obtain es where "bd_events (snd (board_Dispatch cfg (Suc depth) ?input b)) = bd_events (bd_recorded cfg ?input b) @ es"
    by (auto simp: resume_kept_def)
  then show "\<exists>e es. bd_events (snd (board_Dispatch cfg (Suc depth) ?input b)) = bd_events b @ e # es \<and>
      ev_TaskID e = bt_ID task \<and> ev_EventType e = BoardEventTaskMoved"
    by (auto simp: bd_recorded_def bd_event_def new_event_def resume_dispatch_def)
qed

section \<open>The quota sweeper drains the parked cards\<close>

lemma list_all2_filter_length:
  assumes "list_all2 Q xs ys" and "\<And>x y. Q x y \<Longrightarrow> P y = P' x"
  shows "length (filter P ys) = length (filter P' xs)"
  using assms(1) by induction (simp_all add: assms(2))

lemma list_all2_member: "list_all2 Q xs ys \<Longrightarrow> x \<in> set xs \<Longrightarrow> \<exists>y \<in> set ys. Q x y"
  by (induction rule: list_all2_induct) auto

lemma list_all2_origin: "list_all2 Q xs ys \<Longrightarrow> y \<in> set ys \<Longrightarrow> \<exists>x \<in> set xs. Q x y"
  by (induction rule: list_all2_induct) auto

lemma with_db_self [simp]: "with_db (\<lambda>_. bd_db b) b = b"
  by (simp add: with_db_def bd_db_def)

text \<open>A row after the pass: back in its column, and at most waiting for its blockers.\<close>

definition back_row :: "BoardTask \<Rightarrow> BoardTask \<Rightarrow> bool" where
  "back_row r r' \<longleftrightarrow> bt_ID r' = bt_ID r \<and> bt_Column r' = restored_column TaskColumnTodo r \<and>
     bt_BlockedResource r' \<in> {'''', ResourceWorkOrder}"

definition back_if :: "(BoardTask \<Rightarrow> bool) \<Rightarrow> BoardTask \<Rightarrow> BoardTask \<Rightarrow> bool" where
  "back_if P r r' \<longleftrightarrow> (if P r then back_row r r' else r' = r)"

lemma not_due_back: "back_row r r' \<Longrightarrow> \<not> quota_due at db r'"
  by (auto simp: back_row_def quota_due_def parked_on_def col_defs)

lemma due_same_waits: "db_quotaResumeAt db' = db_quotaResumeAt db \<Longrightarrow> quota_due at db' = quota_due at db"
  by (simp add: fun_eq_iff quota_due_def)

lemma taken_row_back:
  assumes "row_marked (bt_ID c)
      (if bt_ID r = bt_ID c then (unpark_row TaskColumnTodo r)\<lparr>bt_UpdatedAt := at\<rparr> else r) r'"
  shows "back_if (\<lambda>r. bt_ID r = bt_ID c) r r'"
proof (cases "bt_ID r = bt_ID c")
  case True
  let ?u = "(unpark_row TaskColumnTodo r)\<lparr>bt_UpdatedAt := at\<rparr>"
  have u: "bt_ID ?u = bt_ID r" "bt_Column ?u = restored_column TaskColumnTodo r" "bt_BlockedResource ?u = ''''"
    by (simp_all add: unpark_row_def clear_park_def)
  have "r' = ?u \<or> unmarked r' = unmarked ?u \<and> bt_BlockedResource r' = ResourceWorkOrder"
    using assms True by (simp add: row_marked_def)
  then have "back_row r r'"
    using u unmarked_fields(1,3) [of r' ?u] by (auto simp: back_row_def)
  then show ?thesis using True by (simp add: back_if_def)
next
  case False
  then show ?thesis using assms by (simp add: back_if_def row_marked_def)
qed

text \<open>One claim and its dispatch.\<close>

lemma quota_step:
  assumes claimed: "oldest (filter (quota_due at (bd_db b)) (db_tasks (bd_db b))) = Some c"
  shows "\<exists>b2 e es. quota_passes (board_quota_sweeper cfg (Suc depth)) at (Suc n) b =
      quota_passes (board_quota_sweeper cfg (Suc depth)) at n b2 \<and>
    bd_events b2 = bd_events b @ e # es \<and> ev_TaskID e = bt_ID c \<and>
    db_quotaResumeAt (bd_db b2) = db_quotaResumeAt (bd_db b) \<and>
    list_all2 (back_if (\<lambda>r. bt_ID r = bt_ID c)) (db_tasks (bd_db b)) (db_tasks (bd_db b2))"
proof -
  define task where "task = (scan_select (bd_db b) c)\<lparr>bt_Column := restored_column TaskColumnTodo c\<rparr>"
  define b1 where "b1 = with_db (update_rows (\<lambda>r. bt_ID r = bt_ID c) (unpark_row TaskColumnTodo)) b"
  define b2 where "b2 = snd (board_Dispatch cfg (Suc depth) (quota_input task) b1)"
  have id: "bt_ID task = bt_ID c" by (simp add: task_def scan_select_def)
  have taken: "bp_take (TakeQuotaResumable at) b = (Inr (Some task), b1)"
    by (simp add: bp_take_def TakeQuotaResumable_def take_row_def claimed task_def b1_def with_db_def)
  have step: "quota_passes (board_quota_sweeper cfg (Suc depth)) at (Suc n) b =
      quota_passes (board_quota_sweeper cfg (Suc depth)) at n b2"
    using taken by (simp add: board_quota_sweeper_def b2_def)
  have sent: "\<exists>e es. bd_events b2 = bd_events b1 @ e # es \<and> ev_TaskID e = bt_ID task \<and> ev_EventType e = BoardEventTaskMoved"
    "resume_kept (bt_ID task) b1 b2"
    unfolding b2_def quota_input_def by (rule resume_dispatched; simp)+
  have rows: "db_tasks (bd_db b1) = map (\<lambda>r. if bt_ID r = bt_ID c
      then (unpark_row TaskColumnTodo r)\<lparr>bt_UpdatedAt := db_now (bd_db b)\<rparr> else r) (db_tasks (bd_db b))"
    by (simp add: b1_def update_rows_def)
  have "list_all2 (row_marked (bt_ID c)) (db_tasks (bd_db b1)) (db_tasks (bd_db b2))"
    using sent(2) by (simp add: resume_kept_def id)
  then have "list_all2 (back_if (\<lambda>r. bt_ID r = bt_ID c)) (db_tasks (bd_db b)) (db_tasks (bd_db b2))"
    unfolding rows list_all2_map1 by (rule list_all2_mono) (rule taken_row_back)
  moreover have "db_quotaResumeAt (bd_db b2) = db_quotaResumeAt (bd_db b)"
    using sent(2) by (simp add: resume_kept_def b1_def update_rows_def)
  moreover have "bd_events b1 = bd_events b" by (simp add: b1_def)
  ultimately show ?thesis using step sent(1) id by (intro exI [of _ b2]) auto
qed

lemma back_if_trans:
  assumes "back_if (\<lambda>r. bt_ID r = i) p q" and "back_if (quota_due at db) q r" and "P p \<longleftrightarrow> bt_ID p = i \<or> quota_due at db p"
  shows "back_if P p r"
proof (cases "bt_ID p = i")
  case True
  then have "back_row p q" using assms(1) by (simp add: back_if_def)
  then have "r = q" using assms(2) not_due_back [of p q at db] by (simp add: back_if_def)
  then show ?thesis using \<open>back_row p q\<close> True assms(3) by (simp add: back_if_def)
next
  case False
  then show ?thesis using assms by (simp add: back_if_def)
qed

lemma back_if_ids: "list_all2 (back_if P) xs ys \<Longrightarrow> map bt_ID ys = map bt_ID xs"
  by (induction rule: list_all2_induct) (auto simp: back_if_def back_row_def split: if_splits)

lemma quota_passes_drain:
  assumes "distinct (map bt_ID (db_tasks (bd_db b)))"
    and "length (filter (quota_due at (bd_db b)) (db_tasks (bd_db b))) \<le> n"
  shows "\<exists>b' es. quota_passes (board_quota_sweeper cfg (Suc depth)) at n b = b' \<and> bd_events b' = bd_events b @ es \<and>
    bt_ID ` {r \<in> set (db_tasks (bd_db b)). quota_due at (bd_db b) r} \<subseteq> ev_TaskID ` set es \<and>
    list_all2 (back_if (quota_due at (bd_db b))) (db_tasks (bd_db b)) (db_tasks (bd_db b'))"
  using assms
proof (induction n arbitrary: b)
  case 0
  then have "filter (quota_due at (bd_db b)) (db_tasks (bd_db b)) = []" by simp
  then show ?case by (auto simp: filter_empty_conv back_if_def list_all2_same)
next
  case (Suc n)
  let ?due = "quota_due at (bd_db b)" and ?rows = "db_tasks (bd_db b)"
  show ?case
  proof (cases "oldest (filter ?due ?rows)")
    case None
    then have "filter ?due ?rows = []" by (simp add: oldest_None)
    moreover have "quota_passes (board_quota_sweeper cfg (Suc depth)) at (Suc n) b = b"
      using None by (simp add: board_quota_sweeper_def bp_take_def TakeQuotaResumable_def take_row_def)
    ultimately show ?thesis by (auto simp: filter_empty_conv back_if_def list_all2_same)
  next
    case (Some c)
    obtain b2 e es where step: "quota_passes (board_quota_sweeper cfg (Suc depth)) at (Suc n) b =
        quota_passes (board_quota_sweeper cfg (Suc depth)) at n b2"
      and sent: "bd_events b2 = bd_events b @ e # es" "ev_TaskID e = bt_ID c"
      and waits: "db_quotaResumeAt (bd_db b2) = db_quotaResumeAt (bd_db b)"
      and rows: "list_all2 (back_if (\<lambda>r. bt_ID r = bt_ID c)) ?rows (db_tasks (bd_db b2))"
      using quota_step [OF Some, of cfg depth n] by blast
    have due2: "quota_due at (bd_db b2) = ?due" by (rule due_same_waits [OF waits])
    have c: "c \<in> set ?rows" "?due c" using oldest_in [OF Some] by auto
    have unique: "r = c" if "r \<in> set ?rows" "bt_ID r = bt_ID c" for r
      using Suc.prems(1) that c(1) by (auto simp: distinct_map dest: inj_onD)
    have left: "length (filter ?due (db_tasks (bd_db b2))) = length (filter (\<lambda>r. ?due r \<and> bt_ID r \<noteq> bt_ID c) ?rows)"
      by (rule list_all2_filter_length [OF rows]) (auto simp: back_if_def not_due_back split: if_splits)
    have "length (filter (\<lambda>r. ?due r \<and> bt_ID r \<noteq> bt_ID c) ?rows) < length (filter ?due ?rows)"
      using c length_filter_less [of c "filter ?due ?rows" "\<lambda>r. bt_ID r \<noteq> bt_ID c"] by (simp add: conj_commute)
    then have "length (filter (quota_due at (bd_db b2)) (db_tasks (bd_db b2))) \<le> n"
      using Suc.prems(2) by (simp add: left due2)
    moreover have "distinct (map bt_ID (db_tasks (bd_db b2)))"
      unfolding back_if_ids [OF rows] by (rule Suc.prems(1))
    ultimately obtain b' es' where IH: "quota_passes (board_quota_sweeper cfg (Suc depth)) at n b2 = b'"
      "bd_events b' = bd_events b2 @ es'"
      "bt_ID ` {r \<in> set (db_tasks (bd_db b2)). ?due r} \<subseteq> ev_TaskID ` set es'"
      "list_all2 (back_if ?due) (db_tasks (bd_db b2)) (db_tasks (bd_db b'))"
      using Suc.IH [of b2] unfolding due2 by blast
    have "list_all2 (back_if (\<lambda>r. bt_ID r = bt_ID c \<or> ?due r)) ?rows (db_tasks (bd_db b'))"
      by (rule list_all2_trans [OF _ rows IH(4)]) (rule back_if_trans, auto)
    then have "list_all2 (back_if ?due) ?rows (db_tasks (bd_db b'))"
    proof (rule list.rel_mono_strong)
      fix p q assume "p \<in> set ?rows" and pq: "back_if (\<lambda>r. bt_ID r = bt_ID c \<or> ?due r) p q"
      then have "bt_ID p = bt_ID c \<Longrightarrow> ?due p" using unique [of p] c(2) by blast
      then show "back_if ?due p q" using pq unfolding back_if_def by metis
    qed
    moreover have "bt_ID ` {r \<in> set ?rows. ?due r} \<subseteq> ev_TaskID ` set (e # es @ es')"
    proof (safe)
      fix r assume r: "r \<in> set ?rows" "?due r"
      show "bt_ID r \<in> ev_TaskID ` set (e # es @ es')"
      proof (cases "bt_ID r = bt_ID c")
        case False
        obtain r2 where "r2 \<in> set (db_tasks (bd_db b2))" "back_if (\<lambda>r. bt_ID r = bt_ID c) r r2"
          using list_all2_member [OF rows r(1)] by blast
        then have "r \<in> set (db_tasks (bd_db b2))" using False by (simp add: back_if_def)
        then show ?thesis using IH(3) r(2) by auto
      qed (use sent(2) in auto)
    qed
    ultimately show ?thesis unfolding step IH(1) using IH(2) sent(1) by auto
  qed
qed

text \<open>
  C29: A pass of the quota sweeper over at most twenty cards that are due announces each of them and
  puts it back into the column it came from, where it at most waits for its blockers; every other row
  stays as it is.
\<close>
theorem quota_sweep_resumes:
  assumes "distinct (map bt_ID (db_tasks (bd_db b)))"
    and "length (filter (quota_due (bd_now b) (bd_db b)) (db_tasks (bd_db b))) \<le> 20"
  shows "list_all2 (\<lambda>r r'. if quota_due (bd_now b) (bd_db b) r
       then bt_ID r' = bt_ID r \<and> bt_Column r' = restored_column TaskColumnTodo r \<and>
         bt_BlockedResource r' \<in> {'''', ResourceWorkOrder}
       else r' = r)
     (db_tasks (bd_db b)) (db_tasks (bd_db (quota_sweep (board_quota_sweeper cfg (Suc depth)) b))) \<and>
   (\<exists>es. bd_events (quota_sweep (board_quota_sweeper cfg (Suc depth)) b) = bd_events b @ es \<and>
     bt_ID ` {r \<in> set (db_tasks (bd_db b)). quota_due (bd_now b) (bd_db b) r} \<subseteq> ev_TaskID ` set es)"
proof -
  have "quota_sweep (board_quota_sweeper cfg (Suc depth)) b =
      quota_passes (board_quota_sweeper cfg (Suc depth)) (bd_now b) 20 b"
    by (simp add: quota_sweep_def quotaSweepBatchCap_def board_quota_sweeper_def)
  then show ?thesis
    using quota_passes_drain [OF assms, of cfg depth] by (auto simp: back_if_def back_row_def elim: list.rel_mono_strong)
qed

definition quota_board :: board where
  "quota_board = (small_board False)\<lparr>bd_tables := (bd_tables (small_board False))\<lparr>ot_db :=
     (ot_db (bd_tables (small_board False)))\<lparr>db_tasks :=
       [(small_card 1 TaskColumnBlocked)\<lparr>bt_BlockedResource := ResourceClaudeCodeQuota, bt_BlockedAt := Some 1,
          bt_BlockedOriginColumn := TaskColumnCodeReview\<rparr>, small_card 2 TaskColumnTodo],
      db_quotaResumeAt := (\<lambda>_. Some 4)\<rparr>\<rparr>\<rparr>"

lemma quota_sweep_resumes_witness:
  "map bt_Column (db_tasks (bd_db (quota_sweep (board_quota_sweeper small_config 1) quota_board))) =
     [TaskColumnCodeReview, TaskColumnTodo]"
proof -
  have 1: "distinct (map bt_ID (db_tasks (bd_db quota_board)))" by code_simp
  have 2: "length (filter (quota_due (bd_now quota_board) (bd_db quota_board)) (db_tasks (bd_db quota_board))) \<le> 20"
    by code_simp
  have rows: "map (\<lambda>r. (quota_due (bd_now quota_board) (bd_db quota_board) r, restored_column TaskColumnTodo r, bt_Column r))
      (db_tasks (bd_db quota_board)) =
    [(True, TaskColumnCodeReview, TaskColumnBlocked), (False, TaskColumnTodo, TaskColumnTodo)]"
    by code_simp
  have two: "\<exists>p q. db_tasks (bd_db quota_board) = [p, q]" using rows by auto
  then obtain p q where pq: "db_tasks (bd_db quota_board) = [p, q]" by blast
  show ?thesis
    using quota_sweep_resumes [OF 1 2, of small_config 0] rows unfolding pq
    by (auto simp: list_all2_Cons1)
qed

section \<open>An answer resumes once\<close>

lemma commenter_resumes: "resumed.keeps cardID (commenter cfg depth)"
proof (induction depth)
  case 0
  show ?case by (simp add: resumed.keeps_def resume_kept_same)
next
  case (Suc depth)
  then show ?case unfolding commenter_note by (rule resumed.noting_frame)
qed

definition asked :: "uuid \<Rightarrow> BoardTask \<Rightarrow> bool" where
  "asked sessionID r \<longleftrightarrow> bt_BlockedSessionID r = Some sessionID \<and> bt_BlockedAt r \<noteq> None"

lemma unmarked_session:
  assumes "unmarked r' = unmarked r"
  shows "bt_BlockedSessionID r' = bt_BlockedSessionID r"
  using arg_cong [OF assms, of bt_BlockedSessionID] by (simp add: unmarked_def)

lemma resumer_took:
  assumes "find (asked sessionID) (db_tasks (bd_db b)) = Some c"
  shows "\<exists>b'. ResumeOnAnswer (Some (board_resumer cfg (Suc depth))) sessionID answer b = (True, b') \<and>
    resume_kept (bt_ID c) (with_db (update_rows (\<lambda>r. bt_ID r = bt_ID c) answered_row) b) b'"
proof -
  define task where "task = (scan_select (bd_db b) c)\<lparr>bt_Column := restored_column TaskColumnTodo c\<rparr>"
  define b1 where "b1 = with_db (update_rows (\<lambda>r. bt_ID r = bt_ID c) answered_row) b"
  define b2 where "b2 = recordAnswer (board_resumer cfg (Suc depth)) task answer b1"
  have id: "bt_ID task = bt_ID c" by (simp add: task_def scan_select_def)
  have "find_row (\<lambda>r. bt_BlockedSessionID r = Some sessionID \<and> bt_BlockedAt r \<noteq> None) (bd_db b) = Some c"
    using assms unfolding find_row_def asked_def [abs_def] .
  then have taken: "bp_take (TakeBlockedBySession sessionID) b = (Inr (Some task), b1)"
    by (simp add: bp_take_def TakeBlockedBySession_def take_row_def task_def b1_def with_db_def)
  have "resume_kept (bt_ID c) b1 (commenter cfg (Suc depth) r (bt_ID c) req b1)" for r req
    by (rule resumed.keepsD [OF commenter_resumes])
  then have b2: "resume_kept (bt_ID c) b1 b2"
    unfolding b2_def recordAnswer_def by (simp add: board_resumer_def id resumed.R_refl split: option.splits)
  have "resume_kept (bt_ID task) b2 (snd (board_Dispatch cfg (Suc depth) (answer_input answer task) b2))"
    unfolding answer_input_def by (rule resume_dispatched) simp
  then have "resume_kept (bt_ID c) b1 (snd (board_Dispatch cfg (Suc depth) (answer_input answer task) b2))"
    unfolding id by (rule resumed.R_trans [OF b2])
  then show ?thesis
    using taken by (simp add: ResumeOnAnswer_def board_resumer_def b2_def b1_def)
qed

text \<open>
  An answer resumes one card once: when no two cards wait on a session, a second answer to it
  resumes nobody and leaves the board as it is.
\<close>
theorem answered_once:
  assumes "length (filter (\<lambda>r. bt_BlockedSessionID r = Some sessionID \<and> bt_BlockedAt r \<noteq> None) (db_tasks (bd_db b))) \<le> 1"
    and "ResumeOnAnswer (Some (board_resumer cfg (Suc depth))) sessionID answer b = (resumed, b')"
  shows "(resumed \<longleftrightarrow> (\<exists>r \<in> set (db_tasks (bd_db b)). bt_BlockedSessionID r = Some sessionID \<and> bt_BlockedAt r \<noteq> None)) \<and>
    ResumeOnAnswer (Some (board_resumer cfg (Suc depth))) sessionID again b' = (False, b')"
proof -
  have none: "ResumeOnAnswer (Some (board_resumer cfg (Suc depth))) sessionID a s = (False, s)"
    if "find (asked sessionID) (db_tasks (bd_db s)) = None" for a s
  proof -
    have "find_row (\<lambda>r. bt_BlockedSessionID r = Some sessionID \<and> bt_BlockedAt r \<noteq> None) (bd_db s) = None"
      using that unfolding find_row_def asked_def [abs_def] .
    then have "bp_take (TakeBlockedBySession sessionID) s = (Inr None, s)"
      by (simp add: bp_take_def TakeBlockedBySession_def take_row_def)
    then show ?thesis by (simp add: ResumeOnAnswer_def board_resumer_def)
  qed
  show ?thesis
  proof (cases "find (asked sessionID) (db_tasks (bd_db b))")
    case None
    then show ?thesis using none [OF None] assms(2) by (auto simp: find_None_all asked_def)
  next
    case (Some c)
    obtain b1 where b1: "ResumeOnAnswer (Some (board_resumer cfg (Suc depth))) sessionID answer b = (True, b1)"
      "resume_kept (bt_ID c) (with_db (update_rows (\<lambda>r. bt_ID r = bt_ID c) answered_row) b) b1"
      using resumer_took [OF Some, of cfg depth answer] by blast
    have b': "b' = b1" "resumed" using b1(1) assms(2) by simp_all
    have c: "c \<in> set (db_tasks (bd_db b))" "asked sessionID c" using find_SomeD [OF Some] by blast+
    have only: "r = c" if "r \<in> set (db_tasks (bd_db b))" "asked sessionID r" for r
    proof -
      have "{r, c} \<subseteq> set (filter (asked sessionID) (db_tasks (bd_db b)))" using that c by auto
      moreover have "length (filter (asked sessionID) (db_tasks (bd_db b))) \<le> 1"
        using assms(1) by (simp add: asked_def [abs_def])
      ultimately show ?thesis by (cases "filter (asked sessionID) (db_tasks (bd_db b))") auto
    qed
    have "\<not> asked sessionID r'" if r': "r' \<in> set (db_tasks (bd_db b1))" for r'
    proof -
      let ?g = "\<lambda>r. if bt_ID r = bt_ID c then (answered_row r)\<lparr>bt_UpdatedAt := db_now (bd_db b)\<rparr> else r"
      have "list_all2 (row_marked (bt_ID c)) (map ?g (db_tasks (bd_db b))) (db_tasks (bd_db b1))"
        using b1(2) by (simp add: resume_kept_def update_rows_def)
      from list_all2_origin [OF this r'] obtain r
        where r: "r \<in> set (db_tasks (bd_db b))" "row_marked (bt_ID c) (?g r) r'"
        by auto
      show ?thesis
      proof (cases "bt_ID r = bt_ID c")
        case True
        have "bt_BlockedSessionID r' = bt_BlockedSessionID (?g r)"
          using r(2) unfolding row_marked_def by (elim disjE conjE) (erule arg_cong, erule unmarked_session)
        also have "\<dots> = None" using True by (simp add: answered_row_def)
        finally show ?thesis by (simp add: asked_def)
      next
        case False
        then have "r' = r" using r(2) by (simp add: row_marked_def)
        then show ?thesis using only [OF r(1)] False by blast
      qed
    qed
    then have "find (asked sessionID) (db_tasks (bd_db b1)) = None" by (simp add: find_None_all)
    then show ?thesis unfolding b' using none c by (auto simp: asked_def b'(2))
  qed
qed

definition question_board :: board where
  "question_board = with_db (BlockOnQuestion 1 2 77 ''Which one?'') (small_board False)"

lemma answered_once_witness:
  "\<exists>b'. ResumeOnAnswer (Some (board_resumer small_config 1)) 77 ''The first.'' question_board = (True, b') \<and>
     ResumeOnAnswer (Some (board_resumer small_config 1)) 77 ''The second.'' b' = (False, b')"
proof -
  have 1: "length (filter (\<lambda>r. bt_BlockedSessionID r = Some 77 \<and> bt_BlockedAt r \<noteq> None) (db_tasks (bd_db question_board))) \<le> 1"
    by code_simp
  have 2: "list_ex (\<lambda>r. bt_BlockedSessionID r = Some 77 \<and> bt_BlockedAt r \<noteq> None) (db_tasks (bd_db question_board))"
    by code_simp
  obtain resumed b' where run: "ResumeOnAnswer (Some (board_resumer small_config (Suc 0))) 77 ''The first.'' question_board = (resumed, b')"
    by (cases "ResumeOnAnswer (Some (board_resumer small_config (Suc 0))) 77 ''The first.'' question_board")
  show ?thesis
    using answered_once [OF 1 run, of "''The second.''"] run 2 by (auto simp: list_ex_iff)
qed

end
