(* ===== verification/Reconciler.thy ===== *)
theory Reconciler
  imports Dispatch_Effects "HOL-Library.List_Lexorder" "HOL-Library.Char_ord"
begin

text \<open>
  What revives a run that died and what a human may do with one: \<open>Reconciler\<close> of
  \<open>server/internal/application/board/reconciler.go\<close>, \<open>Controller\<close> of \<open>control.go\<close>, and the read
  \<open>ListDispatchCandidates\<close> of the task store. The ticker is the pass it runs. The reconciler's run
  store, task store and dispatcher are always wired; the plan settler and the criteria guard are
  options. Plans live in another store and are a port. Columns sort by their bytes.
\<close>

section \<open>The reconciler\<close>

record PlanTask =
  pt_ID :: uuid
  pt_PlanID :: uuid
  pt_TaskKey :: string
  pt_Title :: string
  pt_Description :: string
  pt_AgentID :: "uuid option"
  pt_SkillIDs :: "uuid list"
  pt_ToolNames :: "string list"
  pt_DependsOn :: "string list"
  pt_Difficulty :: string
  pt_Status :: string
  pt_Result :: string
  pt_Error :: string
  pt_CreatedAt :: time

record VerificationResult =
  vr_Passed :: bool
  vr_Issues :: "string list"
  vr_Summary :: string

record PlanView =
  pv_ID :: uuid
  pv_RunID :: uuid
  pv_Status :: string
  pv_Summary :: string
  pv_Purpose :: string
  pv_Goal :: string
  pv_Verification :: "VerificationResult option"
  pv_Tasks :: "PlanTask list"

record 's PlanSettler =
  ps_GetPlanByRunID :: "'s \<Rightarrow> uuid \<Rightarrow> go_error + PlanView"
  ps_UpdatePlanStatus :: "uuid \<Rightarrow> string \<Rightarrow> 's \<Rightarrow> go_error option \<times> 's"
  ps_UpdateTaskStatus :: "uuid \<Rightarrow> string \<Rightarrow> string \<Rightarrow> string \<Rightarrow> 's \<Rightarrow> go_error option \<times> 's"

definition TaskStatusRunning :: string where "TaskStatusRunning = ''running''"
definition TaskStatusFailed :: string where "TaskStatusFailed = ''failed''"
definition PlanStatusRunning :: string where "PlanStatusRunning = ''running''"
definition PlanStatusFailed :: string where "PlanStatusFailed = ''failed''"
definition planRecoveredReason :: string where
  "planRecoveredReason = ''run ended before this subtask reported a result''"

record 's Reconciler =
  rn_ListStale :: "'s \<Rightarrow> time \<Rightarrow> go_error + TaskAgentRun list"
  rn_FailIfStale :: "uuid \<Rightarrow> time \<Rightarrow> string \<Rightarrow> 's \<Rightarrow> (go_error + bool) \<times> 's"
  rn_GetByID :: "'s \<Rightarrow> uuid \<Rightarrow> go_error + BoardTask"
  rn_ListDispatchCandidates :: "'s \<Rightarrow> int \<Rightarrow> go_error + (BoardTask \<times> TaskAgentRun list) list"
  rn_dispatch :: "DispatchInput \<Rightarrow> 's \<Rightarrow> go_error option \<times> 's"
  rn_staleAfter :: duration
  rn_plans :: "'s PlanSettler option"
  rn_criteriaLoop :: "'s CriteriaLoopGuard option"
  rn_now :: "'s \<Rightarrow> time"

definition maxRunStale :: duration where "maxRunStale = 18 * runHeartbeat"

definition stale_after :: "duration \<Rightarrow> duration" where
  "stale_after staleAfter = (if staleAfter \<le> 0 \<or> staleAfter > maxRunStale then maxRunStale else staleAfter)"

definition pendingStaleAfter :: duration where "pendingStaleAfter = 2 * 60 * 1000000000"

fun settle_tasks :: "'s PlanSettler \<Rightarrow> PlanTask list \<Rightarrow> 's \<Rightarrow> 's" where
  "settle_tasks p [] s = s"
| "settle_tasks p (t # ts) s =
     settle_tasks p ts
       (if pt_Status t \<noteq> TaskStatusRunning then s
        else snd (ps_UpdateTaskStatus p (pt_ID t) TaskStatusFailed (pt_Result t) planRecoveredReason s))"

definition settlePlan :: "'s Reconciler \<Rightarrow> TaskAgentRun \<Rightarrow> 's \<Rightarrow> 's" where
  "settlePlan r run s =
     (case (rn_plans r, run_SessionRunID run) of
        (Some p, Some sessionRun) \<Rightarrow>
          (case ps_GetPlanByRunID p s sessionRun of
             Inl err \<Rightarrow> s
           | Inr plan \<Rightarrow>
               let s1 = settle_tasks p (pv_Tasks plan) s
               in if pv_Status plan = PlanStatusRunning
                  then snd (ps_UpdatePlanStatus p (pv_ID plan) PlanStatusFailed s1) else s1)
      | _ \<Rightarrow> s)"

definition reconciled_input :: "BoardTask \<Rightarrow> event_payload \<Rightarrow> DispatchInput" where
  "reconciled_input task reason =
     \<lparr>di_RepositoryID = bt_RepositoryID task, di_Task = task, di_EventType = BoardEventTaskMoved,
      di_Payload = Some ([(''reconciled'', PBool True)] @ reason @
        [(EventPayloadActor, PString EventActorSystem), (EventPayloadReason, PString MoveReasonReconciled)]),
      di_SkipPipelineGate = False\<rparr>"

definition staleSummary :: string where
  "staleSummary = ''reconciler: no progress before stale timeout, recovered for re-dispatch''"

definition recoverStale :: "'s Reconciler \<Rightarrow> TaskAgentRun \<Rightarrow> BoardTask option \<Rightarrow> time \<Rightarrow> 's \<Rightarrow> 's" where
  "recoverStale r run task cutoff s =
     (case rn_FailIfStale r (run_ID run) cutoff
            (if run_Summary run = '''' then staleSummary else run_Summary run) s of
        (Inl err, s1) \<Rightarrow> s1
      | (Inr False, s1) \<Rightarrow> s1
      | (Inr True, s1) \<Rightarrow>
          let s2 = settlePlan r run s1
          in case task of
               None \<Rightarrow> s2
             | Some t \<Rightarrow>
                 if bt_Column t = TaskColumnDone \<or> bt_Column t = TaskColumnReleased then s2
                 else snd (rn_dispatch r (reconciled_input t []) s2))"

fun recover_loop :: "'s Reconciler \<Rightarrow> time \<Rightarrow> time \<Rightarrow> TaskAgentRun list \<Rightarrow> 's \<Rightarrow> 's" where
  "recover_loop r cutoff pendingCutoff [] s = s"
| "recover_loop r cutoff pendingCutoff (run # runs) s =
     (let limit = (if is_pending run then pendingCutoff else cutoff) in
      if \<not> run_UpdatedAt run < limit then recover_loop r cutoff pendingCutoff runs s
      else case rn_GetByID r s (run_TaskID run) of
          Inl err \<Rightarrow>
            if \<not> errors_Is err ErrBoardTaskNotFound then recover_loop r cutoff pendingCutoff runs s
            else recover_loop r cutoff pendingCutoff runs (recoverStale r run None limit s)
        | Inr task \<Rightarrow> recover_loop r cutoff pendingCutoff runs (recoverStale r run (Some task) limit s))"

definition failed_streak :: "TaskAgentRun list \<Rightarrow> nat" where
  "failed_streak runs = length (takeWhile (\<lambda>r. run_Status r = TaskAgentRunStatusFailed) runs)"

fun dispatchNeverStarted :: "'s Reconciler \<Rightarrow> (BoardTask \<times> TaskAgentRun list) list \<Rightarrow> 's \<Rightarrow> 's" where
  "dispatchNeverStarted r [] s = s"
| "dispatchNeverStarted r ((task, runs) # candidates) s =
     dispatchNeverStarted r candidates
       (if bt_AssigneeAgentID task = None then s
        else if bt_Column task \<in> {TaskColumnDone, TaskColumnReleased, TaskColumnBlocked, TaskColumnBacklog} then s
        else if bt_BlockedResource task = ResourceWorkOrder then s
        else case runs of
            [] \<Rightarrow> snd (rn_dispatch r (reconciled_input task [(''reason'', PString ''never_dispatched'')]) s)
          | latest # older \<Rightarrow>
              if run_Status latest = TaskAgentRunStatusFailed
              then (if failed_streak runs \<ge> maxConsecutiveFailedRuns
                    then (case rn_criteriaLoop r of
                            None \<Rightarrow> s
                          | Some g \<Rightarrow> snd (CriteriaLoop_Hold (Some g) (bt_RepositoryID task) task runs s))
                    else snd (rn_dispatch r (reconciled_input task [(''reason'', PString ''retry_failed_run'')]) s))
              else s)"

definition reconcile :: "'s Reconciler \<Rightarrow> time \<Rightarrow> 's \<Rightarrow> 's" where
  "reconcile r cutoff s =
     (let pendingCutoff = max cutoff (rn_now r s - pendingStaleAfter);
          s1 = (case rn_ListStale r s pendingCutoff of
                  Inl err \<Rightarrow> s
                | Inr stale \<Rightarrow> recover_loop r cutoff pendingCutoff stale s)
      in case rn_ListDispatchCandidates r s1 (int maxConsecutiveFailedRuns) of
           Inl err \<Rightarrow> s1
         | Inr candidates \<Rightarrow> dispatchNeverStarted r candidates s1)"

definition reconcile_pass :: "'s Reconciler \<Rightarrow> 's \<Rightarrow> 's" where
  "reconcile_pass r s = reconcile r (rn_now r s - rn_staleAfter r) s"

text \<open>The store's answer: the tasks it selects, each with its newest runs first.\<close>

definition ListDispatchCandidates ::
  "int \<Rightarrow> task_db \<Rightarrow> TaskAgentRun list \<Rightarrow> (BoardTask \<times> TaskAgentRun list) list" where
  "ListDispatchCandidates runsPerTask db runs =
     (let n = nat (if runsPerTask \<le> 0 then 1 else runsPerTask);
          rows = filter (\<lambda>r. bt_AssigneeAgentID r \<noteq> None \<and>
              bt_Column r \<notin> {TaskColumnDone, TaskColumnReleased, TaskColumnBlocked, TaskColumnBacklog} \<and>
              bt_BlockedResource r \<noteq> ResourceWorkOrder) (db_tasks db)
      in map (\<lambda>r. (scan_select db r, take n (newest_first (filter (\<lambda>q. run_TaskID q = bt_ID r) runs))))
           (sort_key (\<lambda>r. (bt_Column r, bt_Position r, bt_CreatedAt r)) rows))"

section \<open>A human stops or repeats a run\<close>

record 's Controller =
  ct_GetRun :: "'s \<Rightarrow> uuid \<Rightarrow> go_error + TaskAgentRun"
  ct_CancelIfLive :: "uuid \<Rightarrow> string \<Rightarrow> 's \<Rightarrow> (go_error + TaskAgentRun option) \<times> 's"
  ct_CreateRun :: "TaskAgentRun \<Rightarrow> 's \<Rightarrow> (go_error + TaskAgentRun) \<times> 's"
  ct_CreateEvent :: "BoardEvent \<Rightarrow> 's \<Rightarrow> (go_error + BoardEvent) \<times> 's"
  ct_GetTask :: "'s \<Rightarrow> uuid \<Rightarrow> uuid \<Rightarrow> go_error + BoardTask"
  ct_BlockOnCancel :: "uuid \<Rightarrow> uuid \<Rightarrow> string \<Rightarrow> 's \<Rightarrow> go_error option \<times> 's"
  ct_Cancel :: "uuid \<Rightarrow> 's \<Rightarrow> 's"
  ct_Enqueue :: "RunJob \<Rightarrow> 's \<Rightarrow> 's"
  ct_actorUserID :: string

definition defaultCancelReason :: string where "defaultCancelReason = ''run stopped by user''"

definition control_event :: "'s Controller \<Rightarrow> uuid \<Rightarrow> uuid \<Rightarrow> BoardEventType \<Rightarrow> event_payload \<Rightarrow> BoardEvent" where
  "control_event c repositoryID taskID eventType payload =
     \<lparr>ev_ID = uuid_Nil, ev_RepositoryID = repositoryID, ev_TaskID = taskID, ev_EventType = eventType,
      ev_Payload = Some payload,
      ev_ActorUserID = (if ct_actorUserID c = '''' then None else Some (ct_actorUserID c)), ev_CreatedAt = 0\<rparr>"

definition CancelRun ::
  "'s Controller \<Rightarrow> uuid \<Rightarrow> uuid \<Rightarrow> uuid \<Rightarrow> string \<Rightarrow> 's \<Rightarrow> (go_error + TaskAgentRun) \<times> 's" where
  "CancelRun c repositoryID taskID runID reason0 s =
     (case ct_GetRun c s runID of
        Inl err \<Rightarrow> (Inl err, s)
      | Inr run \<Rightarrow>
          if run_TaskID run \<noteq> taskID then (Inl ErrTaskAgentRunNotFound, s)
          else case ct_GetTask c s repositoryID taskID of
              Inl err \<Rightarrow> (Inl err, s)
            | Inr task \<Rightarrow>
                let reason = (if reason0 = '''' then defaultCancelReason else reason0) in
                case ct_CancelIfLive c runID reason s of
                  (Inl err, s1) \<Rightarrow> (Inl err, s1)
                | (Inr None, s1) \<Rightarrow> (Inl ErrRunNotLive, s1)
                | (Inr (Some halted), s1) \<Rightarrow>
                    let s2 = ct_Cancel c runID s1;
                        s3 = snd (ct_BlockOnCancel c repositoryID taskID reason s2);
                        payload = [(''run_id'', PString (uuid_String runID)),
                          (''agent_id'', PString (uuid_String (run_AgentID run))), (''reason'', PString reason),
                          (EventPayloadActor, PString EventActorHuman)]
                    in (Inr halted,
                        snd (ct_CreateEvent c (control_event c repositoryID taskID BoardEventTaskRunCancelled payload) s3)))"

definition RerunRun ::
  "'s Controller \<Rightarrow> uuid \<Rightarrow> uuid \<Rightarrow> uuid \<Rightarrow> 's \<Rightarrow> (go_error + TaskAgentRun) \<times> 's" where
  "RerunRun c repositoryID taskID runID s =
     (case ct_GetRun c s runID of
        Inl err \<Rightarrow> (Inl err, s)
      | Inr run \<Rightarrow>
          if run_TaskID run \<noteq> taskID then (Inl ErrTaskAgentRunNotFound, s)
          else if \<not> TaskAgentRunIsTerminal (run_Status run) then (Inl ErrRunNotTerminal, s)
          else case ct_GetTask c s repositoryID taskID of
              Inl err \<Rightarrow> (Inl err, s)
            | Inr task \<Rightarrow>
                if bt_BlockedAt task \<noteq> None then (Inl ErrTaskBlockedForRerun, s)
                else let payload = [(''source_run_id'', PString (uuid_String runID)),
                       (''agent_id'', PString (uuid_String (run_AgentID run))),
                       (EventPayloadActor, PString EventActorHuman)] in
                  case ct_CreateEvent c
                      (control_event c repositoryID taskID BoardEventTaskRerunRequested payload) s of
                    (Inl err, s1) \<Rightarrow> (Inl err, s1)
                  | (Inr event, s1) \<Rightarrow>
                      (case ct_CreateRun c (pending_run taskID (run_AgentID run) (ev_ID event)) s1 of
                         (Inl err, s2) \<Rightarrow> (Inl err, s2)
                       | (Inr fresh, s2) \<Rightarrow>
                           (Inr fresh, ct_Enqueue c
                              \<lparr>job_Run = fresh, job_Event = event, job_Task = task,
                               job_RepositoryID = repositoryID, job_EnteredFrom = '''',
                               job_ColumnInstruction = ''''\<rparr> s2)))"

section \<open>Over the board\<close>

definition bp_failStale :: "uuid \<Rightarrow> time \<Rightarrow> string \<Rightarrow> board \<Rightarrow> (go_error + bool) \<times> board" where
  "bp_failStale runID cutoff summary b =
     (let (failed, runs) = FailIfStale (bd_now b) runID cutoff summary (bd_runs b)
      in (Inr failed, b\<lparr>bd_runs := runs\<rparr>))"

definition bp_cancelIfLive :: "uuid \<Rightarrow> string \<Rightarrow> board \<Rightarrow> (go_error + TaskAgentRun option) \<times> board" where
  "bp_cancelIfLive runID reason b =
     (let (halted, runs) = CancelIfLive (bd_now b) runID reason (bd_runs b)
      in (Inr halted, b\<lparr>bd_runs := runs\<rparr>))"

definition bp_blockOnCancel :: "uuid \<Rightarrow> uuid \<Rightarrow> string \<Rightarrow> board \<Rightarrow> go_error option \<times> board" where
  "bp_blockOnCancel repositoryID taskID reason b = (None, with_db (BlockOnCancel repositoryID taskID reason) b)"

text \<open>The criteria guard \<open>g\<close> brings its texts and the reader of criteria, which is another store.\<close>

definition board_criteria_loop :: "board CriteriaLoopGuard \<Rightarrow> board commenter \<Rightarrow> board CriteriaLoopGuard" where
  "board_criteria_loop g c =
     g\<lparr>lg_ListByTask := Some (\<lambda>b taskID limit. Inr (event_ListByTask taskID limit (bd_events b))),
       lg_BlockOnResource := Some bp_block, lg_comments := Some c, lg_parks := Some board_journal\<rparr>"

definition board_reconciler ::
  "board_config \<Rightarrow> nat \<Rightarrow> duration \<Rightarrow> board CriteriaLoopGuard option \<Rightarrow> board Reconciler" where
  "board_reconciler cfg depth staleAfter guard =
     \<lparr>rn_ListStale = (\<lambda>b cutoff. Inr (ListStale cutoff (bd_runs b))), rn_FailIfStale = bp_failStale,
      rn_GetByID = (\<lambda>b taskID. store_GetByID taskID (bd_db b)),
      rn_ListDispatchCandidates = (\<lambda>b n. Inr (ListDispatchCandidates n (bd_db b) (bd_runs b))),
      rn_dispatch = board_Dispatch cfg depth, rn_staleAfter = stale_after staleAfter, rn_plans = None,
      rn_criteriaLoop = map_option (\<lambda>g. board_criteria_loop g (commenter cfg depth)) guard, rn_now = bd_now\<rparr>"

definition bp_cancel :: "uuid \<Rightarrow> board \<Rightarrow> board" where
  "bp_cancel runID b = b\<lparr>bd_runner := snd (Cancel runID (bd_runner b))\<rparr>"

definition board_controller :: "board_config \<Rightarrow> board Controller" where
  "board_controller cfg =
     \<lparr>ct_GetRun = (\<lambda>b runID. run_GetByID runID (bd_runs b)), ct_CancelIfLive = bp_cancelIfLive,
      ct_CreateRun = bp_createRun, ct_CreateEvent = bp_createEvent,
      ct_GetTask = (\<lambda>b repositoryID taskID. store_Get repositoryID taskID (bd_db b)),
      ct_BlockOnCancel = bp_blockOnCancel, ct_Cancel = bp_cancel, ct_Enqueue = bp_Enqueue,
      ct_actorUserID = bc_actorUserID cfg\<rparr>"

section \<open>What a pass does to the runs\<close>

context board_frame
begin

lemma Criteria_frame:
  assumes "bt_ID task = card" and "keeps c"
  shows "R b (snd (CriteriaLoop_Hold (Some (board_criteria_loop g c)) r task runs b))"
proof -
  let ?g = "board_criteria_loop g c"
  have ports: "lg_BlockOnResource ?g = Some bp_block" "lg_parks ?g = Some board_journal" "lg_comments ?g = Some c"
    "lg_ListByTask ?g = Some (\<lambda>b taskID limit. Inr (event_ListByTask taskID limit (bd_events b)))"
    by (simp_all add: board_criteria_loop_def)
  have park: "R b (snd (criteria_park ?g r task n b))" for n
  proof (cases "bt_Column task = TaskColumnBlocked")
    case True
    then show ?thesis by (simp add: criteria_park_def ports R_refl)
  next
    case False
    obtain result b' where blk: "bp_block r card ResourceHumanDecision (lg_detail ?g n) b = (result, b')"
      by (cases "bp_block r card ResourceHumanDecision (lg_detail ?g n) b")
    have b': "R b b'" using R_block [of b r "lg_detail ?g n"] blk by simp
    then show ?thesis
      using False blk assms(1) R_trans [OF b' journal_frame [OF assms(1)]]
      by (cases result) (simp_all add: criteria_park_def ports)
  qed
  have "R b (snd (case criteria_park ?g r task n b of (False, s') \<Rightarrow> (False, s')
      | (True, s') \<Rightarrow> (True, criteria_comment ?g r task n opens s')))" for n opens
  proof -
    obtain held b' where lp: "criteria_park ?g r task n b = (held, b')" by (cases "criteria_park ?g r task n b")
    have b': "R b b'" using park [of n] lp by simp
    then show ?thesis
      using lp R_trans [OF b' keepsD [OF assms(2)]] assms(1) by (cases held) (simp_all add: criteria_comment_def ports)
  qed
  then show ?thesis by (simp add: CriteriaLoop_Hold_def ports R_refl Let_def)
qed

end

text \<open>Everything but the verdict on stale runs only adds queued runs.\<close>

definition fresh_runs :: "time \<Rightarrow> TaskAgentRun list \<Rightarrow> bool" where
  "fresh_runs at new \<longleftrightarrow> list_all (\<lambda>r. is_pending r \<and> run_UpdatedAt r = at) new"

definition runs_grow :: "board \<Rightarrow> board \<Rightarrow> bool" where
  "runs_grow b b' \<longleftrightarrow> bd_now b' = bd_now b \<and> (\<exists>new. bd_runs b' = bd_runs b @ new \<and> fresh_runs (bd_now b) new)"

lemma runs_grow_same: "bd_now b' = bd_now b \<Longrightarrow> bd_runs b' = bd_runs b \<Longrightarrow> runs_grow b b'"
  by (simp add: runs_grow_def fresh_runs_def)

lemma runs_grow_trans:
  assumes "runs_grow a b" and "runs_grow b c"
  shows "runs_grow a c"
proof -
  obtain n m where "bd_runs b = bd_runs a @ n" "fresh_runs (bd_now a) n" "bd_runs c = bd_runs b @ m" "fresh_runs (bd_now b) m"
    using assms by (auto simp: runs_grow_def)
  then show ?thesis using assms by (auto simp: runs_grow_def fresh_runs_def)
qed

lemma now_with_db: "db_now (f (bd_db b)) = db_now (bd_db b) \<Longrightarrow> bd_now (with_db f b) = bd_now b"
  by (simp add: bd_now_def)

lemma createRun_grows:
  assumes "is_pending run"
  shows "runs_grow b (snd (bp_createRun run b))"
  using assms
  by (auto simp: bp_createRun_def run_Create_def runs_grow_def fresh_runs_def bd_now_def bd_db_def new_run_def
      is_pending_def Let_def split: option.split)

interpretation queueing: board_frame runs_grow cardID for cardID
proof unfold_locales
  fix b1 b2 b3 show "runs_grow b1 b2 \<Longrightarrow> runs_grow b2 b3 \<Longrightarrow> runs_grow b1 b3" by (rule runs_grow_trans)
next
  fix b :: board and agent e show "runs_grow b (snd (bp_createRun (pending_run cardID agent e) b))"
    by (rule createRun_grows) simp
qed (auto intro!: runs_grow_same simp: bp_createEvent_def bp_RecordMove_def bp_AttachAgent_def bp_Enqueue_def
      bp_createComment_def bp_mark_def bp_block_def BlockOnResource_def MarkWorkOrderWaiting_def split_beta
      bd_now_def bd_db_def with_db_def split: option.splits)

lemma commenter_queues: "queueing.keeps cardID (commenter cfg depth)"
proof (induction depth)
  case 0
  show ?case by (simp add: queueing.keeps_def runs_grow_same bd_now_def bd_db_def)
next
  case (Suc depth)
  then show ?case unfolding commenter_note by (rule queueing.noting_frame)
qed

lemma dispatch_grows: "runs_grow b (snd (board_Dispatch cfg depth input b))"
  unfolding board_Dispatch_def by (rule queueing.Dispatch_frame [OF refl commenter_queues])

lemma never_started_grows: "runs_grow b (dispatchNeverStarted (board_reconciler cfg depth staleAfter guard) candidates b)"
proof (induction candidates arbitrary: b)
  case Nil
  then show ?case by (simp add: runs_grow_same)
next
  case (Cons x candidates)
  let ?r = "board_reconciler cfg depth staleAfter guard"
  obtain task runs where x: "x = (task, runs)" by (cases x)
  have sent: "runs_grow b (snd (rn_dispatch ?r input b))" for input
    by (simp add: board_reconciler_def dispatch_grows)
  have held: "runs_grow b (snd (CriteriaLoop_Hold (Some g) (bt_RepositoryID task) task runs b))"
    if guarded: "rn_criteriaLoop ?r = Some g" for g
  proof -
    obtain g0 where "g = board_criteria_loop g0 (commenter cfg depth)"
      using guarded by (auto simp: board_reconciler_def)
    then show ?thesis using queueing.Criteria_frame [OF refl commenter_queues] by simp
  qed
  have "\<exists>b1. runs_grow b b1 \<and> dispatchNeverStarted ?r (x # candidates) b = dispatchNeverStarted ?r candidates b1"
    unfolding x dispatchNeverStarted.simps
    by (rule exI, rule conjI [OF _ refl]) (use sent held in \<open>auto simp: runs_grow_same split: list.split option.split\<close>)
  then obtain b1 where b1: "runs_grow b b1" "dispatchNeverStarted ?r (x # candidates) b = dispatchNeverStarted ?r candidates b1"
    by blast
  show ?case unfolding b1(2) by (rule runs_grow_trans [OF b1(1) Cons.IH])
qed

section \<open>Exactly the stale runs fail\<close>

definition stale_run :: "time \<Rightarrow> time \<Rightarrow> TaskAgentRun \<Rightarrow> bool" where
  "stale_run cutoff pendingCutoff r \<longleftrightarrow>
     is_live r \<and> run_UpdatedAt r < (if is_pending r then pendingCutoff else cutoff)"

definition recovered_run :: "time \<Rightarrow> TaskAgentRun \<Rightarrow> TaskAgentRun" where
  "recovered_run at r =
     r\<lparr>run_Status := TaskAgentRunStatusFailed,
       run_Summary := (if run_Summary r = '''' then staleSummary else run_Summary r), run_UpdatedAt := at\<rparr>"

lemma recovered_not_stale [simp]: "\<not> stale_run cutoff pendingCutoff (recovered_run at r)"
  by (simp add: stale_run_def recovered_run_def is_live_def is_pending_def is_running_def col_defs)

lemma recovered_id [simp]: "run_ID (recovered_run at r) = run_ID r"
  by (simp add: recovered_run_def)

lemma found_task: "store_GetByID i db = Inl err \<Longrightarrow> errors_Is err ErrBoardTaskNotFound"
  by (auto simp: store_GetByID_def errors_Is_def split: option.splits)

text \<open>One stale run: its row fails, and what follows only queues.\<close>

lemma recover_one:
  assumes distinct: "distinct (map run_ID old)" and runs: "bd_runs b = old @ new" and fresh: "fresh_runs (bd_now b) new"
    and r: "r \<in> set old" "is_live r" "run_UpdatedAt r < limit" and limit: "limit \<le> bd_now b"
  shows "\<exists>b1 new1. recoverStale (board_reconciler cfg depth staleAfter guard) r task limit b = b1 \<and> bd_now b1 = bd_now b \<and>
    bd_runs b1 = map (\<lambda>q. if q = r then recovered_run (bd_now b) q else q) old @ new1 \<and> fresh_runs (bd_now b) new1"
proof -
  let ?rec = "board_reconciler cfg depth staleAfter guard"
  let ?summary = "if run_Summary r = '''' then staleSummary else run_Summary r"
  define P where "P = (\<lambda>q :: TaskAgentRun. run_ID q = run_ID r \<and> is_live q \<and> run_UpdatedAt q < limit)"
  define f where "f = (\<lambda>q :: TaskAgentRun. q\<lparr>run_Status := TaskAgentRunStatusFailed,
    run_Summary := (if ?summary = '''' then run_Summary q else ?summary), run_UpdatedAt := bd_now b\<rparr>)"
  have same: "P q \<longleftrightarrow> q = r" if "q \<in> set old" for q
    using distinct r that by (auto simp: P_def distinct_map dest: inj_onD)
  have "f r = recovered_run (bd_now b) r" by (simp add: f_def recovered_run_def staleSummary_def)
  then have old: "change_runs P f old = map (\<lambda>q. if q = r then recovered_run (bd_now b) q else q) old"
    unfolding change_runs_def by (intro map_cong refl) (simp add: same)
  have new: "change_runs P f new = new"
    unfolding change_runs_def
    by (intro map_idI) (use fresh limit in \<open>auto simp: fresh_runs_def list_all_iff P_def\<close>)
  define b0 where "b0 = b\<lparr>bd_runs := map (\<lambda>q. if q = r then recovered_run (bd_now b) q else q) old @ new\<rparr>"
  have "list_ex P (bd_runs b)" using same r(1) runs by (auto simp: list_ex_iff)
  moreover have "change_runs P f (bd_runs b) = change_runs P f old @ change_runs P f new"
    by (simp add: runs change_runs_def)
  ultimately have "bp_failStale (run_ID r) limit ?summary b = (Inr True, b0)"
    by (simp add: bp_failStale_def FailIfStale_def Let_def P_def [symmetric] f_def [symmetric] old new b0_def)
  then have "\<exists>b1. recoverStale ?rec r task limit b = b1 \<and> runs_grow b0 b1"
    by (auto simp: recoverStale_def board_reconciler_def settlePlan_def runs_grow_same intro: dispatch_grows split: option.split)
  moreover have "bd_now b0 = bd_now b" by (simp add: b0_def bd_now_def bd_db_def)
  ultimately show ?thesis using fresh by (auto simp: runs_grow_def b0_def fresh_runs_def)
qed

lemma recover_all:
  assumes "distinct L" and "set L \<subseteq> set old" and "list_all is_live L" and "distinct (map run_ID old)"
    and "bd_runs b = old @ new" and "fresh_runs (bd_now b) new" and "cutoff \<le> bd_now b" and "pendingCutoff \<le> bd_now b"
  shows "\<exists>new'. bd_now (recover_loop (board_reconciler cfg depth staleAfter guard) cutoff pendingCutoff L b) = bd_now b \<and>
    bd_runs (recover_loop (board_reconciler cfg depth staleAfter guard) cutoff pendingCutoff L b) =
      map (\<lambda>q. if q \<in> set L \<and> stale_run cutoff pendingCutoff q then recovered_run (bd_now b) q else q) old @ new' \<and>
    fresh_runs (bd_now b) new'"
  using assms
proof (induction L arbitrary: old new b)
  case Nil
  then show ?case by simp
next
  case (Cons r L)
  let ?rec = "board_reconciler cfg depth staleAfter guard" and ?now = "bd_now b"
  let ?stale = "stale_run cutoff pendingCutoff"
  let ?limit = "if is_pending r then pendingCutoff else cutoff"
  show ?case
  proof (cases "run_UpdatedAt r < ?limit")
    case False
    then have r: "\<not> ?stale r" by (simp add: stale_run_def)
    have "(\<lambda>q. if q \<in> set (r # L) \<and> ?stale q then recovered_run ?now q else q) =
        (\<lambda>q. if q \<in> set L \<and> ?stale q then recovered_run ?now q else q)"
      using r by (auto simp: fun_eq_iff)
    moreover have "recover_loop ?rec cutoff pendingCutoff (r # L) b = recover_loop ?rec cutoff pendingCutoff L b"
      using False by (simp add: Let_def)
    ultimately show ?thesis using Cons.IH [of old b new] Cons.prems by simp
  next
    case True
    have r: "r \<in> set old" "is_live r" "?stale r"
      using Cons.prems True by (simp_all add: stale_run_def)
    obtain task where loop: "recover_loop ?rec cutoff pendingCutoff (r # L) b =
        recover_loop ?rec cutoff pendingCutoff L (recoverStale ?rec r task ?limit b)"
    proof (cases "store_GetByID (run_TaskID r) (bd_db b)")
      case (Inl err)
      then have "recover_loop ?rec cutoff pendingCutoff (r # L) b =
          recover_loop ?rec cutoff pendingCutoff L (recoverStale ?rec r None ?limit b)"
        using True found_task [OF Inl] by (simp add: Let_def board_reconciler_def)
      then show ?thesis by (rule that)
    next
      case (Inr t)
      then have "recover_loop ?rec cutoff pendingCutoff (r # L) b =
          recover_loop ?rec cutoff pendingCutoff L (recoverStale ?rec r (Some t) ?limit b)"
        using True by (simp add: Let_def board_reconciler_def)
      then show ?thesis by (rule that)
    qed
    have "?limit \<le> ?now" using Cons.prems(7,8) by simp
    from recover_one [OF Cons.prems(4,5,6) r(1,2) True this, of cfg depth staleAfter guard task]
    obtain b1 new1 where b1: "recoverStale ?rec r task ?limit b = b1" "bd_now b1 = ?now"
      "bd_runs b1 = map (\<lambda>q. if q = r then recovered_run ?now q else q) old @ new1" "fresh_runs ?now new1"
      by blast
    let ?old1 = "map (\<lambda>q. if q = r then recovered_run ?now q else q) old"
    have ids: "map run_ID ?old1 = map run_ID old" by simp
    have "distinct L" "set L \<subseteq> set ?old1" "list_all is_live L" "distinct (map run_ID ?old1)"
      using Cons.prems(1-4) unfolding ids by auto
    moreover have "fresh_runs (bd_now b1) new1" "cutoff \<le> bd_now b1" "pendingCutoff \<le> bd_now b1"
      using b1(2,4) Cons.prems(7,8) by simp_all
    ultimately obtain new2 where new2:
      "bd_now (recover_loop ?rec cutoff pendingCutoff L b1) = bd_now b1"
      "bd_runs (recover_loop ?rec cutoff pendingCutoff L b1) =
        map (\<lambda>q. if q \<in> set L \<and> ?stale q then recovered_run (bd_now b1) q else q) ?old1 @ new2"
      "fresh_runs (bd_now b1) new2"
      using Cons.IH [of ?old1 b1 new1] b1(3) by blast
    have "map (\<lambda>q. if q \<in> set L \<and> ?stale q then recovered_run ?now q else q) ?old1 =
        map (\<lambda>q. if q \<in> set (r # L) \<and> ?stale q then recovered_run ?now q else q) old"
      using r(3) by auto
    then show ?thesis unfolding loop b1(1) using new2 b1(2) by auto
  qed
qed

lemma list_stale_runs:
  assumes "distinct (map run_ID runs)"
  shows "distinct (ListStale cutoff runs)" and "set (ListStale cutoff runs) = {r \<in> set runs. is_live r \<and> run_UpdatedAt r < cutoff}"
  using assms by (auto simp: ListStale_def distinct_map)

text \<open>
  C30: A pass of the reconciler fails exactly the runs whose last sign of life is too old: a running run
  that has been silent since before the cutoff, a queued run that has been silent since before the
  cutoff or for more than two minutes, whichever is the shorter silence. Every other run stays as it
  is, and what is dispatched again only adds queued runs. The ids of the runs are distinct and the
  cutoff is not in the future.
\<close>
theorem reconcile_fails_exactly_stale:
  assumes "distinct (map run_ID (bd_runs b))" and "cutoff \<le> bd_now b"
  shows "\<exists>new. bd_runs (reconcile (board_reconciler cfg depth staleAfter guard) cutoff b) =
      map (\<lambda>r. if is_live r \<and> run_UpdatedAt r <
             (if is_pending r then max cutoff (bd_now b - pendingStaleAfter) else cutoff)
           then recovered_run (bd_now b) r else r) (bd_runs b) @ new \<and>
    list_all (\<lambda>r. is_pending r \<and> run_UpdatedAt r = bd_now b) new"
proof -
  let ?rec = "board_reconciler cfg depth staleAfter guard" and ?pc = "max cutoff (bd_now b - pendingStaleAfter)"
  define L where "L = ListStale ?pc (bd_runs b)"
  define b1 where "b1 = recover_loop ?rec cutoff ?pc L b"
  have L: "distinct L" "set L \<subseteq> set (bd_runs b)" "list_all is_live L"
    using list_stale_runs [OF assms(1), of ?pc] by (auto simp: L_def list_all_iff)
  have "?pc \<le> bd_now b" using assms(2) by (simp add: pendingStaleAfter_def)
  then obtain new1 where new1: "bd_now b1 = bd_now b"
    "bd_runs b1 = map (\<lambda>q. if q \<in> set L \<and> stale_run cutoff ?pc q then recovered_run (bd_now b) q else q) (bd_runs b) @ new1"
    "fresh_runs (bd_now b) new1"
    using recover_all [OF L assms(1) append_Nil2 [symmetric] _ assms(2), of ?pc cfg depth staleAfter guard]
    unfolding b1_def [symmetric] by (simp add: fresh_runs_def) blast
  have "map (\<lambda>q. if q \<in> set L \<and> stale_run cutoff ?pc q then recovered_run (bd_now b) q else q) (bd_runs b) =
      map (\<lambda>r. if is_live r \<and> run_UpdatedAt r < (if is_pending r then ?pc else cutoff)
             then recovered_run (bd_now b) r else r) (bd_runs b)"
  proof (intro map_cong refl)
    fix q assume q: "q \<in> set (bd_runs b)"
    have "q \<in> set L \<longleftrightarrow> is_live q \<and> run_UpdatedAt q < ?pc"
      unfolding L_def list_stale_runs(2) [OF assms(1)] using q by simp
    then have "q \<in> set L \<and> stale_run cutoff ?pc q \<longleftrightarrow>
        is_live q \<and> run_UpdatedAt q < (if is_pending q then ?pc else cutoff)"
      unfolding stale_run_def by (cases "is_pending q") auto
    then show "(if q \<in> set L \<and> stale_run cutoff ?pc q then recovered_run (bd_now b) q else q) =
        (if is_live q \<and> run_UpdatedAt q < (if is_pending q then ?pc else cutoff) then recovered_run (bd_now b) q else q)"
      by simp
  qed
  then have runs1: "bd_runs b1 = map (\<lambda>r. if is_live r \<and> run_UpdatedAt r < (if is_pending r then ?pc else cutoff)
             then recovered_run (bd_now b) r else r) (bd_runs b) @ new1"
    using new1(2) by simp
  have "reconcile ?rec cutoff b = dispatchNeverStarted ?rec
      (ListDispatchCandidates (int maxConsecutiveFailedRuns) (bd_db b1) (bd_runs b1)) b1"
    unfolding reconcile_def Let_def b1_def L_def
    by (simp add: board_reconciler_def)
  then obtain new2 where "bd_runs (reconcile ?rec cutoff b) = bd_runs b1 @ new2" "fresh_runs (bd_now b1) new2"
    using never_started_grows [of b1 cfg depth staleAfter guard] by (auto simp: runs_grow_def)
  then show ?thesis using runs1 new1(1,3) by (auto simp: fresh_runs_def)
qed

lemma reconcile_fails_exactly_stale_witness:
  "\<exists>new. map run_Status (bd_runs (reconcile (board_reconciler small_config 1 0 None) 100
      ((small_board False)\<lparr>bd_tables := (bd_tables (small_board False))\<lparr>ot_db := (ot_db (bd_tables (small_board False)))
         \<lparr>db_now := 10 ^ 12\<rparr>\<rparr>,
        bd_runs := [(pending_run 2 7 3)\<lparr>run_ID := 1, run_Status := TaskAgentRunStatusRunning, run_UpdatedAt := 99\<rparr>,
          (pending_run 1 7 3)\<lparr>run_ID := 2, run_Status := TaskAgentRunStatusRunning, run_UpdatedAt := 100\<rparr>]\<rparr>))) =
    [TaskAgentRunStatusFailed, TaskAgentRunStatusRunning] @ new"
proof -
  let ?runs = "[(pending_run 2 7 3)\<lparr>run_ID := 1, run_Status := TaskAgentRunStatusRunning, run_UpdatedAt := 99\<rparr>,
      (pending_run 1 7 3)\<lparr>run_ID := 2, run_Status := TaskAgentRunStatusRunning, run_UpdatedAt := 100\<rparr>]"
  let ?b = "(small_board False)\<lparr>bd_tables := (bd_tables (small_board False))\<lparr>ot_db := (ot_db (bd_tables (small_board False)))
      \<lparr>db_now := 10 ^ 12\<rparr>\<rparr>, bd_runs := ?runs\<rparr>"
  have 1: "distinct (map run_ID (bd_runs ?b))" by simp
  have 2: "100 \<le> bd_now ?b" by (simp add: bd_now_def bd_db_def)
  have 3: "bd_runs ?b = ?runs" by simp
  show ?thesis
    using reconcile_fails_exactly_stale [OF 1 2, of small_config 1 0 None] unfolding 3
    by (auto simp: is_live_def is_pending_def is_running_def recovered_run_def col_defs)
qed

section \<open>What a human's stop and repeat do\<close>

lemma GetByID_row: "run_GetByID runID runs = Inr run \<Longrightarrow> run \<in> set runs \<and> run_ID run = runID"
  by (auto simp: run_GetByID_def dest: find_SomeD split: option.splits)

lemma cancelled_rows:
  assumes "distinct (map run_ID runs)" and "run \<in> set runs" and "is_live run"
  shows "CancelIfLive at (run_ID run) why runs =
    (Some (run\<lparr>run_Status := TaskAgentRunStatusCancelled,
        run_Summary := (if why = '''' then run_Summary run else why), run_UpdatedAt := at\<rparr>),
     map (\<lambda>r. if r = run then r\<lparr>run_Status := TaskAgentRunStatusCancelled,
        run_Summary := (if why = '''' then run_Summary r else why), run_UpdatedAt := at\<rparr> else r) runs)"
proof -
  let ?P = "\<lambda>r. run_ID r = run_ID run \<and> is_live r"
  have same: "?P r \<longleftrightarrow> r = run" if "r \<in> set runs" for r
    using assms that by (auto simp: distinct_map dest: inj_onD)
  have "find ?P runs = Some run"
  proof (cases "find ?P runs")
    case None
    then show ?thesis using assms(2,3) by (auto simp: find_None_all)
  next
    case (Some r)
    then show ?thesis using same find_SomeD [OF Some] by blast
  qed
  moreover have "change_runs ?P f runs = map (\<lambda>r. if r = run then f r else r) runs" for f
    unfolding change_runs_def by (intro map_cong refl) (simp add: same)
  ultimately show ?thesis by (simp add: CancelIfLive_def Let_def)
qed

lemma cancel_ends:
  "rr_cancels r runID = Some i \<Longrightarrow> i < length (rr_goroutines r) \<Longrightarrow> go_over (rr_goroutines (snd (Cancel runID r)) ! i)"
  by (simp add: Cancel_def end_context_def)

lemma cancel_queue: "rr_queue (snd (Cancel runID r)) = rr_queue r"
  by (simp add: Cancel_def split: option.split)

text \<open>
  C31: A human's stop of a live run cancels that run and no other, ends the context of the goroutine
  registered for it in the runner, moves its card to Blocked with the reason, the time and the column
  it came from (a card already there keeps the column it remembers), and records one event with the
  run, its agent, the reason and the user who asked; no other card changes and nothing is queued.
\<close>
theorem cancel_stops_the_run:
  assumes "distinct (map run_ID (bd_runs b))" and "run_GetByID runID (bd_runs b) = Inr run"
    and "is_live run" and "store_Get repositoryID (run_TaskID run) (bd_db b) = Inr task"
    and "why = (if reason = '''' then defaultCancelReason else reason)"
  shows "\<exists>b' e. CancelRun (board_controller cfg) repositoryID (run_TaskID run) runID reason b =
      (Inr (run\<lparr>run_Status := TaskAgentRunStatusCancelled, run_Summary := why, run_UpdatedAt := bd_now b\<rparr>), b') \<and>
    bd_runs b' = map (\<lambda>r. if r = run
      then r\<lparr>run_Status := TaskAgentRunStatusCancelled, run_Summary := why, run_UpdatedAt := bd_now b\<rparr> else r) (bd_runs b) \<and>
    db_tasks (bd_db b') = map (\<lambda>r. if bt_ID r = run_TaskID run \<and> bt_RepositoryID r = repositoryID
      then r\<lparr>bt_Column := ''blocked'',
             bt_BlockedOriginColumn := (if bt_Column r = ''blocked'' then bt_BlockedOriginColumn r else bt_Column r),
             bt_BlockedQuestion := why, bt_BlockedAt := Some (bd_now b), bt_UpdatedAt := bd_now b\<rparr>
      else r) (db_tasks (bd_db b)) \<and>
    (\<forall>i. rr_cancels (bd_runner b) runID = Some i \<and> i < length (rr_goroutines (bd_runner b)) \<longrightarrow>
       go_over (rr_goroutines (bd_runner b') ! i)) \<and> bd_jobs b' = bd_jobs b \<and>
    bd_events b' = bd_events b @ [e] \<and> ev_RepositoryID e = repositoryID \<and> ev_TaskID e = run_TaskID run \<and>
    ev_EventType e = BoardEventTaskRunCancelled \<and>
    ev_Payload e = Some [(''run_id'', PString (uuid_String runID)),
      (''agent_id'', PString (uuid_String (run_AgentID run))), (''reason'', PString why),
      (''actor'', PString ''human'')] \<and>
    ev_ActorUserID e = (if bc_actorUserID cfg = '''' then None else Some (bc_actorUserID cfg))"
proof -
  have run: "run \<in> set (bd_runs b)" "run_ID run = runID" using GetByID_row [OF assms(2)] by simp_all
  have why: "why \<noteq> ''''" using assms(5) by (simp add: defaultCancelReason_def)
  show ?thesis
    using cancelled_rows [OF assms(1) run(1) assms(3), of "bd_now b" why] assms(2,4) why
    unfolding run(2) CancelRun_def Let_def assms(5) [symmetric]
    by (simp add: board_controller_def bp_cancelIfLive_def bp_blockOnCancel_def bp_createEvent_def event_Create_def
        control_event_def Let_def split_beta bd_db_def with_db_def col_defs BlockOnCancel_def update_rows_def
        park_row_def owned_def bd_now_def bp_cancel_def cancel_ends cancel_queue EventPayloadActor_def
        EventActorHuman_def)
qed

lemma cancel_missed: "bp_cancelIfLive runID why b = (Inr None, b1) \<Longrightarrow> b1 = b"
proof -
  assume missed: "bp_cancelIfLive runID why b = (Inr None, b1)"
  let ?P = "\<lambda>r. run_ID r = runID \<and> is_live r"
  have "find ?P (bd_runs b) = None" using missed by (simp add: bp_cancelIfLive_def CancelIfLive_def Let_def split: prod.splits)
  then have "change_runs ?P f (bd_runs b) = bd_runs b" for f
    unfolding change_runs_def find_None_all by (intro map_idI) auto
  then show ?thesis using missed by (auto simp: bp_cancelIfLive_def CancelIfLive_def Let_def)
qed

lemma cancel_answers: "bp_cancelIfLive runID why b \<noteq> (Inl err, b1)"
  by (simp add: bp_cancelIfLive_def split_beta)

text \<open>
  A stop or a repeat that is refused - no such run, another card's run, a run already over or still
  going, a blocked or missing card - leaves the board as it was.
\<close>
theorem refused_control_changes_nothing:
  assumes "CancelRun (board_controller cfg) repositoryID taskID runID reason b = (Inl err, b') \<or>
    RerunRun (board_controller cfg) repositoryID taskID runID b = (Inl err, b')"
  shows "b' = b"
  using assms
proof
  assume "CancelRun (board_controller cfg) repositoryID taskID runID reason b = (Inl err, b')"
  then show ?thesis
    by (auto simp: CancelRun_def board_controller_def Let_def cancel_answers dest: cancel_missed
        split: sum.splits if_splits prod.splits option.splits)
next
  assume "RerunRun (board_controller cfg) repositoryID taskID runID b = (Inl err, b')"
  then show ?thesis
    by (auto simp: RerunRun_def board_controller_def bp_createRun_def bp_createEvent_def Let_def
        split: sum.splits if_splits prod.splits)
qed

definition run_board :: "RunStatus \<Rightarrow> board" where
  "run_board status = (small_board False)\<lparr>bd_runs :=
     [(pending_run 2 7 3)\<lparr>run_ID := 60, run_Status := status\<rparr>, (pending_run 2 8 3)\<lparr>run_ID := 61\<rparr>]\<rparr>"

lemma cancel_stops_the_run_witness:
  "\<exists>run b'. CancelRun (board_controller small_config) 1 2 60 '''' (run_board TaskAgentRunStatusRunning) = (Inr run, b') \<and>
     map run_Status (bd_runs b') = [TaskAgentRunStatusCancelled, TaskAgentRunStatusPending]"
proof -
  let ?b = "run_board TaskAgentRunStatusRunning"
  let ?run = "(pending_run 2 7 3)\<lparr>run_ID := 60, run_Status := TaskAgentRunStatusRunning\<rparr>"
  have 1: "distinct (map run_ID (bd_runs ?b))" by (simp add: run_board_def)
  have 2: "run_GetByID 60 (bd_runs ?b) = Inr ?run" by (simp add: run_board_def run_GetByID_def)
  have 3: "is_live ?run" by (simp add: is_live_def is_running_def)
  have "\<not> (case store_Get 1 2 (bd_db ?b) of Inl err \<Rightarrow> True | Inr task \<Rightarrow> False)" by code_simp
  then obtain task where 4: "store_Get 1 (run_TaskID ?run) (bd_db ?b) = Inr task"
    by (auto split: sum.splits)
  have rows: "bd_runs ?b = [?run, (pending_run 2 8 3)\<lparr>run_ID := 61\<rparr>]" by (simp add: run_board_def)
  show ?thesis
    using cancel_stops_the_run [OF 1 2 3 4 refl, of small_config "''''"] unfolding rows
    by (auto simp: pending_run_def)
qed

lemma refused_control_changes_nothing_witness:
  "snd (RerunRun (board_controller small_config) 1 2 60 (run_board TaskAgentRunStatusRunning)) =
     run_board TaskAgentRunStatusRunning"
proof -
  have "RerunRun (board_controller small_config) 1 2 60 (run_board TaskAgentRunStatusRunning) =
      (Inl ErrRunNotTerminal, run_board TaskAgentRunStatusRunning)"
    by (simp add: RerunRun_def board_controller_def run_board_def run_GetByID_def TaskAgentRunIsTerminal_def
        col_defs)
  then show ?thesis
    using refused_control_changes_nothing [of small_config 1 2 60 "''''" "run_board TaskAgentRunStatusRunning" ErrRunNotTerminal]
    by simp
qed

text \<open>
  C32: A repeated run belongs to the same card and agent and is queued; when the agent already has a
  queued run for the card it is that one, otherwise it is one row more. One job for it goes to the end
  of the runner's queue if that holds fewer than 256 jobs; with a full queue the request succeeds as
  well, but no job is made. Only a finished run of a card that is not blocked is repeated.
\<close>
theorem rerun_queues_once:
  assumes "RerunRun (board_controller cfg) repositoryID taskID runID b = (Inr fresh, b')"
  shows "\<exists>run \<in> set (bd_runs b). run_ID run = runID \<and> run_TaskID run = taskID \<and> TaskAgentRunIsTerminal (run_Status run) \<and>
    run_of taskID (run_AgentID run) fresh \<and> is_pending fresh \<and> bd_tables b' = bd_tables b \<and>
    (if HasPendingForTask taskID (run_AgentID run) (bd_runs b)
     then fresh \<in> set (bd_runs b) \<and> bd_runs b' = bd_runs b else bd_runs b' = bd_runs b @ [fresh]) \<and>
    (\<exists>task. store_Get repositoryID taskID (bd_db b) = Inr task \<and> bt_BlockedAt task = None \<and>
       (if length (bd_jobs b) < 256
        then \<exists>job. bd_jobs b' = bd_jobs b @ [job] \<and> job_Run job = fresh \<and> job_Task job = task
        else bd_jobs b' = bd_jobs b))"
proof -
  let ?c = "board_controller cfg"
  obtain run where run: "run_GetByID runID (bd_runs b) = Inr run" "run_TaskID run = taskID"
    "TaskAgentRunIsTerminal (run_Status run)"
    using assms by (auto simp: RerunRun_def board_controller_def split: sum.splits if_splits)
  obtain task where task: "store_Get repositoryID taskID (bd_db b) = Inr task" "bt_BlockedAt task = None"
    using assms run by (auto simp: RerunRun_def board_controller_def split: sum.splits if_splits)
  define event where "event = (control_event ?c repositoryID taskID BoardEventTaskRerunRequested
    [(''source_run_id'', PString (uuid_String runID)), (''agent_id'', PString (uuid_String (run_AgentID run))),
     (EventPayloadActor, PString EventActorHuman)])\<lparr>ev_ID := bd_nextID b, ev_CreatedAt := bd_now b\<rparr>"
  define b1 where "b1 = b\<lparr>bd_events := bd_events b @ [event], bd_nextID := bd_nextID b + 1\<rparr>"
  let ?a = "run_AgentID run"
  obtain b2 where created: "bp_createRun (pending_run taskID ?a (ev_ID event)) b1 = (Inr fresh, b2)"
    and b': "b' = bp_Enqueue \<lparr>job_Run = fresh, job_Event = event, job_Task = task, job_RepositoryID = repositoryID,
      job_EnteredFrom = '''', job_ColumnInstruction = ''''\<rparr> b2"
    using assms run task
    by (auto simp: RerunRun_def board_controller_def bp_createEvent_def event_Create_def event_def b1_def
        control_event_def Let_def split: sum.splits prod.splits)
  have b1: "bd_runs b1 = bd_runs b" "bd_jobs b1 = bd_jobs b" "bd_tables b1 = bd_tables b" by (simp_all add: b1_def)
  have "run_of taskID ?a fresh \<and> is_pending fresh \<and> bd_jobs b2 = bd_jobs b \<and> bd_tables b2 = bd_tables b \<and>
    (if HasPendingForTask taskID ?a (bd_runs b) then fresh \<in> set (bd_runs b) \<and> bd_runs b2 = bd_runs b
     else bd_runs b2 = bd_runs b @ [fresh])"
  proof (cases "HasPendingForTask taskID ?a (bd_runs b)")
    case False
    then show ?thesis using created createRun_board [of taskID ?a b1 "ev_ID event"] b1 by (auto simp: run_of_def)
  next
    case True
    let ?P = "\<lambda>r. run_of taskID ?a r \<and> is_pending r"
    obtain q where q: "find ?P (bd_runs b) = Some q"
      using True by (cases "find ?P (bd_runs b)") (auto simp: HasPendingForTask_def list_ex_iff find_None_all)
    then have "bp_createRun (pending_run taskID ?a (ev_ID event)) b1 = (Inr q, b1\<lparr>bd_nextID := bd_nextID b1 + 1\<rparr>)"
      unfolding bp_createRun_def run_Create_def by (simp add: b1(1))
    then show ?thesis using created b1 True find_SomeD [OF q] by auto
  qed
  then show ?thesis
    using GetByID_row [OF run(1)] run(2,3) task unfolding b' bp_Enqueue_def
    by (intro bexI [of _ run]) (auto simp: Enqueue_def markQueued_def runnerQueue_def)
qed

lemma rerun_queues_once_witness:
  "\<exists>fresh b'. RerunRun (board_controller small_config) 1 2 60 (run_board TaskAgentRunStatusFailed) = (Inr fresh, b') \<and>
     bd_runs b' = bd_runs (run_board TaskAgentRunStatusFailed) @ [fresh]"
proof -
  let ?b = "run_board TaskAgentRunStatusFailed"
  have "\<not> (case fst (RerunRun (board_controller small_config) 1 2 60 ?b) of Inl err \<Rightarrow> True | Inr run \<Rightarrow> False)"
    by code_simp
  then obtain fresh b' where run: "RerunRun (board_controller small_config) 1 2 60 ?b = (Inr fresh, b')"
    by (cases "RerunRun (board_controller small_config) 1 2 60 ?b") (auto split: sum.splits)
  have "list_all (\<lambda>r. run_ID r = 60 \<longrightarrow> \<not> HasPendingForTask 2 (run_AgentID r) (bd_runs ?b)) (bd_runs ?b)"
    by code_simp
  then show ?thesis using rerun_queues_once [OF run] run by (auto simp: list_all_iff)
qed

end
