(* ===== verification/Slot_Wait.thy ===== *)
theory Slot_Wait
  imports Slot_Gate
begin

text \<open>
  How goroutines wait at the gate of \<open>server/internal/application/board/slot_gate.go\<close>: the condition
  variable behind \<open>slot_acquire\<close>, with its list of sleepers. A step is a region under the mutex, or one
  of the two things done without it: a context ends, and the function that \<open>acquire\<close> has registered
  with \<open>context.AfterFunc\<close> broadcasts. \<open>cond.Wait\<close> joins the sleepers before it lets go of the mutex,
  so a goroutine that has seen the gate full keeps the mutex until it sleeps (\<open>SawFull\<close>). \<open>Signal\<close> wakes
  the goroutine that has slept longest, \<open>Broadcast\<close> all of them. \<open>stop\<close> may come too late, so a bell
  that is set stays set when \<open>acquire\<close> returns.
\<close>

section \<open>The condition variable\<close>

datatype waiter_state = Outside | Asking | SawFull | Asleep | Holding

record waiter =
  wt_state :: waiter_state
  wt_over :: bool
  wt_bell :: bool

record waiting_room =
  wr_gate :: slotGate
  wr_waiters :: "waiter list"
  wr_asleep :: "nat list"
  wr_mutex :: "nat option"

definition wr_new :: "nat \<Rightarrow> waiting_room" where
  "wr_new n =
     \<lparr>wr_gate = newSlotGate,
      wr_waiters = replicate n \<lparr>wt_state = Outside, wt_over = False, wt_bell = False\<rparr>,
      wr_asleep = [], wr_mutex = None\<rparr>"

definition put_waiter :: "nat \<Rightarrow> waiter_state \<Rightarrow> waiting_room \<Rightarrow> waiting_room" where
  "put_waiter i st c = c\<lparr>wr_waiters := (wr_waiters c)[i := (wr_waiters c ! i)\<lparr>wt_state := st\<rparr>]\<rparr>"

definition cond_Signal :: "waiting_room \<Rightarrow> waiting_room" where
  "cond_Signal c = (case wr_asleep c of [] \<Rightarrow> c | i # is \<Rightarrow> put_waiter i Asking (c\<lparr>wr_asleep := is\<rparr>))"

definition cond_Broadcast :: "waiting_room \<Rightarrow> waiting_room" where
  "cond_Broadcast c =
     c\<lparr>wr_waiters := map (\<lambda>w. if wt_state w = Asleep then w\<lparr>wt_state := Asking\<rparr> else w) (wr_waiters c),
       wr_asleep := []\<rparr>"

datatype wait_event =
    AskSlot nat
  | LookAtGate nat
  | FallAsleep nat
  | GiveBack nat
  | ChangeLimit int
  | EndContext nat
  | RingBell nat

definition in_acquire :: "waiter_state \<Rightarrow> bool" where
  "in_acquire st \<longleftrightarrow> st = Asking \<or> st = SawFull \<or> st = Asleep"

text \<open>The events of goroutine \<open>i\<close>.\<close>

definition ask_slot :: "nat \<Rightarrow> waiting_room \<Rightarrow> waiting_room option" where
  "ask_slot i c =
     (let w = wr_waiters c ! i in
      if wt_state w \<noteq> Outside then None
      else Some (c\<lparr>wr_waiters := (wr_waiters c)[i := w\<lparr>wt_bell := wt_over w, wt_state := Asking\<rparr>]\<rparr>))"

definition look_at_gate :: "nat \<Rightarrow> waiting_room \<Rightarrow> waiting_room option" where
  "look_at_gate i c =
     (if wt_state (wr_waiters c ! i) \<noteq> Asking \<or> wr_mutex c \<noteq> None then None
      else case slot_acquire (wt_over (wr_waiters c ! i)) (wr_gate c) of
          None \<Rightarrow> Some (put_waiter i SawFull (c\<lparr>wr_mutex := Some i\<rparr>))
        | Some (True, g) \<Rightarrow> Some (put_waiter i Holding (c\<lparr>wr_gate := g\<rparr>))
        | Some (False, g) \<Rightarrow> Some (put_waiter i Outside c))"

definition fall_asleep :: "nat \<Rightarrow> waiting_room \<Rightarrow> waiting_room option" where
  "fall_asleep i c =
     (if wt_state (wr_waiters c ! i) \<noteq> SawFull then None
      else Some (put_waiter i Asleep (c\<lparr>wr_asleep := wr_asleep c @ [i], wr_mutex := None\<rparr>)))"

definition give_back :: "nat \<Rightarrow> waiting_room \<Rightarrow> waiting_room option" where
  "give_back i c =
     (if wt_state (wr_waiters c ! i) \<noteq> Holding \<or> wr_mutex c \<noteq> None then None
      else Some (cond_Signal (put_waiter i Outside (c\<lparr>wr_gate := slot_release (wr_gate c)\<rparr>))))"

definition change_limit :: "int \<Rightarrow> waiting_room \<Rightarrow> waiting_room option" where
  "change_limit n c =
     (if wr_mutex c \<noteq> None then None
      else Some (cond_Broadcast (c\<lparr>wr_gate := setLimit n (wr_gate c)\<rparr>)))"

definition end_waiter :: "nat \<Rightarrow> waiting_room \<Rightarrow> waiting_room" where
  "end_waiter i c =
     (let w = wr_waiters c ! i in
      c\<lparr>wr_waiters := (wr_waiters c)[i := w\<lparr>wt_over := True, wt_bell := wt_bell w \<or> in_acquire (wt_state w)\<rparr>]\<rparr>)"

definition ring_bell :: "nat \<Rightarrow> waiting_room \<Rightarrow> waiting_room option" where
  "ring_bell i c =
     (let w = wr_waiters c ! i in
      if \<not> wt_bell w then None
      else Some (cond_Broadcast (c\<lparr>wr_waiters := (wr_waiters c)[i := w\<lparr>wt_bell := False\<rparr>]\<rparr>)))"

definition wait_step :: "wait_event \<Rightarrow> waiting_room \<Rightarrow> waiting_room option" where
  "wait_step e c =
     (let known = (\<lambda>i. i < length (wr_waiters c)) in
      case e of
        AskSlot i \<Rightarrow> if known i then ask_slot i c else None
      | LookAtGate i \<Rightarrow> if known i then look_at_gate i c else None
      | FallAsleep i \<Rightarrow> if known i then fall_asleep i c else None
      | GiveBack i \<Rightarrow> if known i then give_back i c else None
      | ChangeLimit n \<Rightarrow> change_limit n c
      | EndContext i \<Rightarrow> if known i then Some (end_waiter i c) else None
      | RingBell i \<Rightarrow> if known i then ring_bell i c else None)"

fun wait_steps :: "wait_event list \<Rightarrow> waiting_room \<Rightarrow> waiting_room option" where
  "wait_steps [] c = Some c"
| "wait_steps (e # es) c = (case wait_step e c of None \<Rightarrow> None | Some c1 \<Rightarrow> wait_steps es c1)"

inductive in_room :: "nat \<Rightarrow> waiting_room \<Rightarrow> bool" for n where
  in_room_new: "in_room n (wr_new n)"
| in_room_step: "in_room n c \<Longrightarrow> wait_step e c = Some c' \<Longrightarrow> in_room n c'"

lemma in_room_steps: "in_room n c \<Longrightarrow> wait_steps es c = Some c' \<Longrightarrow> in_room n c'"
  by (induction es arbitrary: c) (auto split: option.splits intro: in_room_step)

section \<open>Counting\<close>

definition head_count :: "waiter_state \<Rightarrow> waiting_room \<Rightarrow> int" where
  "head_count st c = int (length (filter (\<lambda>w. wt_state w = st) (wr_waiters c)))"

lemma filter_update_count:
  "i < length xs \<Longrightarrow> int (length (filter P (xs[i := y]))) = int (length (filter P xs)) - of_bool (P (xs ! i)) + of_bool (P y)"
proof (induction xs arbitrary: i)
  case (Cons x xs)
  then show ?case by (cases i) auto
qed simp

lemma head_count_put:
  "i < length (wr_waiters c) \<Longrightarrow> head_count st (put_waiter i st' c) =
     head_count st c - of_bool (wt_state (wr_waiters c ! i) = st) + of_bool (st' = st)"
  by (simp add: head_count_def put_waiter_def filter_update_count)

lemma head_count_frame [simp]:
  "head_count st (c\<lparr>wr_gate := g\<rparr>) = head_count st c" "head_count st (c\<lparr>wr_asleep := a\<rparr>) = head_count st c"
  "head_count st (c\<lparr>wr_mutex := m\<rparr>) = head_count st c"
  by (simp_all add: head_count_def)

lemma head_count_pos:
  assumes "i < length (wr_waiters c)" and "wt_state (wr_waiters c ! i) = st"
  shows "0 < head_count st c"
proof -
  have "wr_waiters c ! i \<in> set (filter (\<lambda>w. wt_state w = st) (wr_waiters c))" using assms by simp
  then have "filter (\<lambda>w. wt_state w = st) (wr_waiters c) \<noteq> []" by (metis empty_iff list.set(1))
  then show ?thesis by (simp add: head_count_def)
qed

lemma head_count_nonneg: "0 \<le> head_count st c"
  by (simp add: head_count_def)

lemma put_waiter_frame [simp]:
  "wr_gate (put_waiter i st c) = wr_gate c" "wr_asleep (put_waiter i st c) = wr_asleep c"
  "wr_mutex (put_waiter i st c) = wr_mutex c" "length (wr_waiters (put_waiter i st c)) = length (wr_waiters c)"
  by (simp_all add: put_waiter_def)

lemma put_waiter_nth:
  "i < length (wr_waiters c) \<Longrightarrow> j < length (wr_waiters c) \<Longrightarrow>
   wr_waiters (put_waiter i st c) ! j = (if j = i then (wr_waiters c ! i)\<lparr>wt_state := st\<rparr> else wr_waiters c ! j)"
  by (simp add: put_waiter_def)

text \<open>Who sleeps is on the list, once; who has seen the gate full has the mutex; the gate counts holders.\<close>

definition stands :: "waiter_state \<Rightarrow> waiting_room \<Rightarrow> nat \<Rightarrow> bool" where
  "stands st c i \<longleftrightarrow> i < length (wr_waiters c) \<and> wt_state (wr_waiters c ! i) = st"

definition room_ok :: "waiting_room \<Rightarrow> bool" where
  "room_ok c \<longleftrightarrow>
     distinct (wr_asleep c) \<and> (\<forall>i. i \<in> set (wr_asleep c) \<longleftrightarrow> stands Asleep c i) \<and>
     (\<forall>i. wr_mutex c = Some i \<longleftrightarrow> stands SawFull c i) \<and> sg_used (wr_gate c) = head_count Holding c"

lemma room_okI:
  assumes "distinct (wr_asleep c)" and "\<And>i. i \<in> set (wr_asleep c) \<longleftrightarrow> stands Asleep c i"
    and "\<And>i. wr_mutex c = Some i \<longleftrightarrow> stands SawFull c i" and "sg_used (wr_gate c) = head_count Holding c"
  shows "room_ok c"
  using assms by (simp add: room_ok_def)

lemma room_okD:
  assumes "room_ok c"
  shows "distinct (wr_asleep c)" "i \<in> set (wr_asleep c) \<longleftrightarrow> stands Asleep c i"
    "wr_mutex c = Some i \<longleftrightarrow> stands SawFull c i" "sg_used (wr_gate c) = head_count Holding c"
  using assms by (simp_all add: room_ok_def)

lemma stands_put:
  "wr_waiters c' = wr_waiters c \<Longrightarrow> i < length (wr_waiters c) \<Longrightarrow>
   stands st' (put_waiter i st c') j \<longleftrightarrow> (if j = i then st = st' else stands st' c j)"
  by (cases "j = i") (auto simp: stands_def put_waiter_def)

text \<open>While nobody is over: a free slot has an awake goroutine on its way to it for as long as one sleeps.\<close>

definition no_slot_wasted :: "waiting_room \<Rightarrow> bool" where
  "no_slot_wasted c \<longleftrightarrow>
     (wr_mutex c \<noteq> None \<longrightarrow> 0 < sg_limit (wr_gate c) \<and> sg_limit (wr_gate c) \<le> sg_used (wr_gate c)) \<and>
     (wr_asleep c \<noteq> [] \<longrightarrow>
        0 < sg_limit (wr_gate c) \<and> sg_limit (wr_gate c) \<le> sg_used (wr_gate c) + head_count Asking c)"

definition all_live :: "waiting_room \<Rightarrow> bool" where
  "all_live c \<longleftrightarrow> (\<forall>w \<in> set (wr_waiters c). \<not> wt_over w)"

lemma room_ok_put:
  assumes ok: "room_ok c" and i: "i < length (wr_waiters c)" and same: "wr_waiters c' = wr_waiters c"
    and asleep: "distinct (wr_asleep c')" "i \<in> set (wr_asleep c') \<longleftrightarrow> st = Asleep"
      "\<And>j. j \<noteq> i \<Longrightarrow> j \<in> set (wr_asleep c') \<longleftrightarrow> j \<in> set (wr_asleep c)"
    and mutex: "wr_mutex c' = Some i \<longleftrightarrow> st = SawFull" "\<And>j. j \<noteq> i \<Longrightarrow> wr_mutex c' = Some j \<longleftrightarrow> wr_mutex c = Some j"
    and used: "sg_used (wr_gate c') =
      sg_used (wr_gate c) - of_bool (wt_state (wr_waiters c ! i) = Holding) + of_bool (st = Holding)"
  shows "room_ok (put_waiter i st c')"
proof (rule room_okI)
  fix j
  show "j \<in> set (wr_asleep (put_waiter i st c')) \<longleftrightarrow> stands Asleep (put_waiter i st c') j"
    using asleep(2) asleep(3) [of j] room_okD(2) [OF ok, of j] by (simp add: stands_put [OF same i])
  show "wr_mutex (put_waiter i st c') = Some j \<longleftrightarrow> stands SawFull (put_waiter i st c') j"
    using mutex(1) mutex(2) [of j] room_okD(3) [OF ok, of j] by (simp add: stands_put [OF same i])
next
  have "head_count Holding c' = head_count Holding c" by (simp add: head_count_def same)
  then show "sg_used (wr_gate (put_waiter i st c')) = head_count Holding (put_waiter i st c')"
    using used room_okD(4) [OF ok] i by (simp add: head_count_put same)
qed (use asleep(1) in simp)

lemma stands_broadcast:
  "stands st (cond_Broadcast c) j \<longleftrightarrow>
     (if st = Asleep then False else if st = Asking then stands Asking c j \<or> stands Asleep c j else stands st c j)"
  by (auto simp: stands_def cond_Broadcast_def)

lemma head_count_broadcast:
  assumes "st \<noteq> Asleep" and "st \<noteq> Asking"
  shows "head_count st (cond_Broadcast c) = head_count st c"
proof -
  have "length (filter (\<lambda>w. wt_state w = st) (map (\<lambda>w. if wt_state w = Asleep then w\<lparr>wt_state := Asking\<rparr> else w) ws)) =
      length (filter (\<lambda>w. wt_state w = st) ws)" for ws
    using assms by (induction ws) auto
  then show ?thesis by (simp add: head_count_def cond_Broadcast_def)
qed

lemma cond_Broadcast_frame [simp]:
  "wr_gate (cond_Broadcast c) = wr_gate c" "wr_mutex (cond_Broadcast c) = wr_mutex c" "wr_asleep (cond_Broadcast c) = []"
  "length (wr_waiters (cond_Broadcast c)) = length (wr_waiters c)"
  by (simp_all add: cond_Broadcast_def)

lemma room_ok_broadcast: "room_ok c \<Longrightarrow> room_ok (cond_Broadcast c)"
  by (rule room_okI) (simp_all add: stands_broadcast head_count_broadcast room_okD)

lemma room_ok_signal:
  assumes ok: "room_ok c"
  shows "room_ok (cond_Signal c)"
proof (cases "wr_asleep c")
  case Nil
  then show ?thesis using ok by (simp add: cond_Signal_def)
next
  case (Cons i rest)
  then have i: "stands Asleep c i" using room_okD(2) [OF ok, of i] by simp
  then have "wr_mutex c \<noteq> Some i" using room_okD(3) [OF ok, of i] by (simp add: stands_def)
  then have "room_ok (put_waiter i Asking (c\<lparr>wr_asleep := rest\<rparr>))"
    using i room_okD(1) [OF ok] Cons by (intro room_ok_put [OF ok]) (auto simp: stands_def)
  then show ?thesis by (simp add: cond_Signal_def Cons)
qed

lemma room_ok_marks:
  assumes "room_ok c" and "i < length (wr_waiters c)" and same: "wt_state w = wt_state (wr_waiters c ! i)"
  shows "room_ok (c\<lparr>wr_waiters := (wr_waiters c)[i := w]\<rparr>)"
proof -
  let ?c = "c\<lparr>wr_waiters := (wr_waiters c)[i := w]\<rparr>"
  have "stands st ?c j \<longleftrightarrow> stands st c j" for st j
    using same by (cases "j = i") (auto simp: stands_def)
  moreover have "head_count Holding ?c = head_count Holding c"
    using assms(2) by (simp add: head_count_def filter_update_count same)
  ultimately show ?thesis using room_okD [OF assms(1)] by (intro room_okI) simp_all
qed

lemma room_ok_step:
  assumes ok: "room_ok c" and step: "wait_step e c = Some c'"
  shows "room_ok c'"
proof (cases e)
  case (AskSlot i)
  then have i: "i < length (wr_waiters c)" and out: "wt_state (wr_waiters c ! i) = Outside"
    and c': "c' = put_waiter i Asking (c\<lparr>wr_waiters := (wr_waiters c)[i := (wr_waiters c ! i)\<lparr>wt_bell := wt_over (wr_waiters c ! i)\<rparr>]\<rparr>)"
    using step by (auto simp: wait_step_def ask_slot_def put_waiter_def Let_def split: if_splits)
  have marked: "room_ok (c\<lparr>wr_waiters := (wr_waiters c)[i := (wr_waiters c ! i)\<lparr>wt_bell := wt_over (wr_waiters c ! i)\<rparr>]\<rparr>)"
    by (rule room_ok_marks [OF ok i]) simp
  show ?thesis
    unfolding c' using out i room_okD(2,3) [OF ok, of i] room_okD(1) [OF ok]
    by (intro room_ok_put [OF marked]) (auto simp: stands_def)
next
  case (LookAtGate i)
  then have i: "i < length (wr_waiters c)" and look: "look_at_gate i c = Some c'"
    using step by (auto simp: wait_step_def split: if_splits)
  have at: "wt_state (wr_waiters c ! i) = Asking" "wr_mutex c = None"
    using look by (auto simp: look_at_gate_def split: if_splits)
  then have free: "i \<notin> set (wr_asleep c)" using room_okD(2) [OF ok, of i] by (simp add: stands_def)
  show ?thesis
  proof (cases "slot_acquire (wt_over (wr_waiters c ! i)) (wr_gate c)")
    case None
    then have "c' = put_waiter i SawFull (c\<lparr>wr_mutex := Some i\<rparr>)" using look at by (simp add: look_at_gate_def)
    then show ?thesis using i at free room_okD(1) [OF ok] by (auto intro!: room_ok_put [OF ok])
  next
    case (Some r)
    then show ?thesis
    proof (cases r)
      case (Pair ok' g)
      have "c' = (if ok' then put_waiter i Holding (c\<lparr>wr_gate := g\<rparr>) else put_waiter i Outside c)"
        using look at Some Pair by (cases ok') (simp_all add: look_at_gate_def)
      moreover have "ok' \<Longrightarrow> sg_used g = sg_used (wr_gate c) + 1"
        using slot.taken [of "wt_over (wr_waiters c ! i)" "wr_gate c" g] Some Pair by simp
      ultimately show ?thesis
        using i at free room_okD(1) [OF ok] by (auto intro!: room_ok_put [OF ok])
    qed
  qed
next
  case (FallAsleep i)
  then have i: "i < length (wr_waiters c)" and saw: "wt_state (wr_waiters c ! i) = SawFull"
    and c': "c' = put_waiter i Asleep (c\<lparr>wr_asleep := wr_asleep c @ [i], wr_mutex := None\<rparr>)"
    using step by (auto simp: wait_step_def fall_asleep_def split: if_splits)
  have "wr_mutex c = Some i" "i \<notin> set (wr_asleep c)"
    using room_okD(2,3) [OF ok, of i] i saw by (simp_all add: stands_def)
  then show ?thesis unfolding c' using i saw room_okD(1) [OF ok] by (auto intro!: room_ok_put [OF ok])
next
  case (GiveBack i)
  then have i: "i < length (wr_waiters c)" and at: "wt_state (wr_waiters c ! i) = Holding" "wr_mutex c = None"
    and c': "c' = cond_Signal (put_waiter i Outside (c\<lparr>wr_gate := slot_release (wr_gate c)\<rparr>))"
    using step by (auto simp: wait_step_def give_back_def split: if_splits)
  have "0 < sg_used (wr_gate c)" using head_count_pos [OF i at(1)] room_okD(4) [OF ok] by simp
  moreover have "i \<notin> set (wr_asleep c)" using room_okD(2) [OF ok, of i] at by (simp add: stands_def)
  ultimately show ?thesis
    unfolding c' using i at room_okD(1) [OF ok]
    by (intro room_ok_signal room_ok_put [OF ok]) (auto simp: slot.given)
next
  case (ChangeLimit n)
  then have "c' = cond_Broadcast (c\<lparr>wr_gate := setLimit n (wr_gate c)\<rparr>)"
    using step by (auto simp: wait_step_def change_limit_def split: if_splits)
  moreover have "room_ok (c\<lparr>wr_gate := setLimit n (wr_gate c)\<rparr>)"
    using ok by (simp add: room_ok_def stands_def slot.cap_held)
  ultimately show ?thesis by (simp add: room_ok_broadcast)
next
  case (EndContext i)
  then show ?thesis
    using step room_ok_marks [OF ok, of i] by (auto simp: wait_step_def end_waiter_def Let_def split: if_splits)
next
  case (RingBell i)
  then show ?thesis
    using step room_ok_marks [OF ok, of i]
    by (auto simp: wait_step_def ring_bell_def Let_def intro!: room_ok_broadcast split: if_splits)
qed

lemma room_ok_new: "room_ok (wr_new n)"
  by (rule room_okI) (auto simp: wr_new_def newSlotGate_def head_count_def stands_def)

lemma in_room_ok: "in_room n c \<Longrightarrow> room_ok c"
  by (induction rule: in_room.induct) (auto intro: room_ok_new room_ok_step)

section \<open>No slot is wasted\<close>

definition overs :: "waiting_room \<Rightarrow> bool list" where
  "overs c = map wt_over (wr_waiters c)"

lemma all_live_overs: "all_live c \<longleftrightarrow> True \<notin> set (overs c)"
  by (auto simp: all_live_def overs_def)

lemma overs_update: "wt_over x = wt_over (ws ! i) \<Longrightarrow> map wt_over (ws[i := x]) = map wt_over ws"
  by (cases "i < length ws") (simp_all add: map_update list_update_same_conv list_update_beyond)

lemma overs_put [simp]: "overs (put_waiter i st c) = overs c"
  by (simp add: overs_def put_waiter_def overs_update)

lemma overs_frame [simp]:
  "overs (c\<lparr>wr_gate := g\<rparr>) = overs c" "overs (c\<lparr>wr_asleep := a\<rparr>) = overs c" "overs (c\<lparr>wr_mutex := m\<rparr>) = overs c"
  by (simp_all add: overs_def)

lemma overs_broadcast [simp]: "overs (cond_Broadcast c) = overs c"
  by (simp add: overs_def cond_Broadcast_def)

lemma overs_signal [simp]: "overs (cond_Signal c) = overs c"
  by (simp add: cond_Signal_def split: list.split)

lemma step_overs:
  assumes "wait_step e c = Some c'" and "True \<notin> set (overs c')"
  shows "overs c' = overs c"
proof (cases e)
  case (EndContext i)
  then have "i < length (overs c)" and "overs c' = (overs c)[i := True]"
    using assms(1) by (auto simp: wait_step_def end_waiter_def overs_def map_update Let_def split: if_splits)
  then show ?thesis using assms(2) set_update_memI [of i "overs c" True] by simp
qed (use assms(1) in \<open>auto simp: wait_step_def ask_slot_def look_at_gate_def fall_asleep_def give_back_def
    change_limit_def ring_bell_def Let_def overs_update overs_def [of "c\<lparr>wr_waiters := _\<rparr>"] overs_def [symmetric]
    split: if_splits option.splits prod.splits bool.splits\<close>)

text \<open>Whoever may look at the gate or go to sleep.\<close>

lemma asking_put:
  "wr_waiters c' = wr_waiters c \<Longrightarrow> i < length (wr_waiters c) \<Longrightarrow> head_count Asking (put_waiter i st c') =
     head_count Asking c - of_bool (wt_state (wr_waiters c ! i) = Asking) + of_bool (st = Asking)"
  by (subst head_count_put) (simp_all add: head_count_def)

lemma no_slot_wasted_signal:
  assumes ok: "room_ok c" and "wr_mutex c = None"
    and "wr_asleep c \<noteq> [] \<Longrightarrow> 0 < sg_limit (wr_gate c) \<and> sg_limit (wr_gate c) \<le> sg_used (wr_gate c) + head_count Asking c + 1"
  shows "no_slot_wasted (cond_Signal c)"
proof (cases "wr_asleep c")
  case Nil
  then show ?thesis using assms(2) by (simp add: cond_Signal_def no_slot_wasted_def)
next
  case (Cons i rest)
  then have i: "stands Asleep c i" using room_okD(2) [OF ok, of i] by simp
  then have "head_count Asking (put_waiter i Asking (c\<lparr>wr_asleep := rest\<rparr>)) = head_count Asking c + 1"
    by (subst asking_put [of _ c]) (simp_all add: stands_def)
  then show ?thesis using assms(2,3) Cons by (simp add: cond_Signal_def no_slot_wasted_def)
qed

lemma no_slot_wasted_step:
  assumes ok: "room_ok c" and live: "all_live c" and inv: "no_slot_wasted c"
    and step: "wait_step e c = Some c'" and calm: "all_live c'"
  shows "no_slot_wasted c'"
proof (cases e)
  case (AskSlot i)
  then have i: "i < length (wr_waiters c)" and out: "wt_state (wr_waiters c ! i) = Outside"
    and c': "c' = c\<lparr>wr_waiters := (wr_waiters c)[i := (wr_waiters c ! i)\<lparr>wt_bell := wt_over (wr_waiters c ! i), wt_state := Asking\<rparr>]\<rparr>"
    using step by (auto simp: wait_step_def ask_slot_def Let_def split: if_splits)
  have "head_count Asking c' = head_count Asking c + 1"
    unfolding c' using i out by (simp add: head_count_def filter_update_count)
  then show ?thesis using inv unfolding no_slot_wasted_def by (auto simp: c')
next
  case (LookAtGate i)
  then have i: "i < length (wr_waiters c)" and look: "look_at_gate i c = Some c'"
    using step by (auto simp: wait_step_def split: if_splits)
  have at: "wt_state (wr_waiters c ! i) = Asking" "wr_mutex c = None"
    using look by (auto simp: look_at_gate_def split: if_splits)
  have "\<not> wt_over (wr_waiters c ! i)" using live i by (simp add: all_live_def)
  then consider (full) "slot_acquire False (wr_gate c) = None" "c' = put_waiter i SawFull (c\<lparr>wr_mutex := Some i\<rparr>)"
    | (took) g where "slot_acquire False (wr_gate c) = Some (True, g)" "c' = put_waiter i Holding (c\<lparr>wr_gate := g\<rparr>)"
    using look at slot.refused [of False "wr_gate c"]
    by (auto simp: look_at_gate_def split: option.splits prod.splits bool.splits)
  then show ?thesis
  proof cases
    case full
    then show ?thesis
      using inv slot.waits [OF full(1)] i head_count_pos [OF i at(1)] by (auto simp: no_slot_wasted_def asking_put)
  next
    case took
    then show ?thesis
      using inv slot.taken [OF took(1)] i at by (auto simp: no_slot_wasted_def asking_put [of _ c])
  qed
next
  case (FallAsleep i)
  then have i: "i < length (wr_waiters c)" and saw: "wt_state (wr_waiters c ! i) = SawFull"
    and c': "c' = put_waiter i Asleep (c\<lparr>wr_asleep := wr_asleep c @ [i], wr_mutex := None\<rparr>)"
    using step by (auto simp: wait_step_def fall_asleep_def split: if_splits)
  have "wr_mutex c = Some i" using room_okD(3) [OF ok, of i] i saw by (simp add: stands_def)
  then show ?thesis
    unfolding c' using inv i saw head_count_nonneg [of Asking c] by (auto simp: no_slot_wasted_def asking_put [of _ c])
next
  case (GiveBack i)
  then have i: "i < length (wr_waiters c)" and at: "wt_state (wr_waiters c ! i) = Holding" "wr_mutex c = None"
    and c': "c' = cond_Signal (put_waiter i Outside (c\<lparr>wr_gate := slot_release (wr_gate c)\<rparr>))"
    using step by (auto simp: wait_step_def give_back_def split: if_splits)
  have used: "0 < sg_used (wr_gate c)" using head_count_pos [OF i at(1)] room_okD(4) [OF ok] by simp
  have "i \<notin> set (wr_asleep c)" using room_okD(2) [OF ok, of i] at by (simp add: stands_def)
  then have "room_ok (put_waiter i Outside (c\<lparr>wr_gate := slot_release (wr_gate c)\<rparr>))"
    using i at used room_okD(1) [OF ok] by (intro room_ok_put [OF ok]) (auto simp: slot.given)
  then show ?thesis
    unfolding c' using inv at i used
    by (intro no_slot_wasted_signal) (auto simp: no_slot_wasted_def asking_put [of _ c] slot.given slot.given_cap)
next
  case (ChangeLimit n)
  then show ?thesis
    using step by (auto simp: wait_step_def change_limit_def no_slot_wasted_def split: if_splits)
next
  case (EndContext i)
  then have "i < length (overs c)" and "overs c' = (overs c)[i := True]"
    using step by (auto simp: wait_step_def end_waiter_def overs_def map_update Let_def split: if_splits)
  then show ?thesis using calm set_update_memI [of i "overs c" True] by (simp add: all_live_overs)
next
  case (RingBell i)
  then show ?thesis
    using step inv by (auto simp: wait_step_def ring_bell_def no_slot_wasted_def Let_def split: if_splits)
qed

lemma in_room_unwasted: "in_room n c \<Longrightarrow> all_live c \<Longrightarrow> no_slot_wasted c"
proof (induction rule: in_room.induct)
  case in_room_new
  then show ?case by (simp add: no_slot_wasted_def wr_new_def)
next
  case (in_room_step c e c')
  then have "all_live c" using step_overs [OF in_room_step(2)] by (simp add: all_live_overs)
  then show ?case using in_room_step no_slot_wasted_step [OF in_room_ok] by blast
qed

text \<open>
  C34: No goroutine waits at a gate that could let it through, as long as no context has ended: while one
  is in \<open>acquire\<close>, either one of those in there can make its next step (look at the gate, or go to sleep
  after it has seen the gate full), or the limit is on and that many goroutines hold a slot. So a
  release that wakes only the longest sleeper loses no slot, whoever else comes by meanwhile.
\<close>
theorem no_waiter_left_asleep:
  assumes "in_room n c" and "\<forall>w \<in> set (wr_waiters c). \<not> wt_over w"
    and "w \<in> set (wr_waiters c)" and "wt_state w \<in> {Asking, SawFull, Asleep}"
  shows "(\<exists>i. wait_step (LookAtGate i) c \<noteq> None \<or> wait_step (FallAsleep i) c \<noteq> None) \<or>
    0 < sg_limit (wr_gate c) \<and> sg_limit (wr_gate c) \<le> int (length (filter (\<lambda>w. wt_state w = Holding) (wr_waiters c)))"
proof (cases "wr_mutex c")
  case (Some i)
  then have "stands SawFull c i" using room_okD(3) [OF in_room_ok [OF assms(1)], of i] by simp
  then have "wait_step (FallAsleep i) c \<noteq> None" by (simp add: stands_def wait_step_def fall_asleep_def)
  then show ?thesis by blast
next
  case None
  obtain i where i: "i < length (wr_waiters c)" "w = wr_waiters c ! i" using assms(3) by (auto simp: in_set_conv_nth)
  show ?thesis
  proof (cases "\<exists>j < length (wr_waiters c). wt_state (wr_waiters c ! j) = Asking")
    case True
    then obtain j where "j < length (wr_waiters c)" "wt_state (wr_waiters c ! j) = Asking" by blast
    then have "wait_step (LookAtGate j) c \<noteq> None"
      using None by (auto simp: wait_step_def look_at_gate_def split: option.split prod.split bool.split)
    then show ?thesis by blast
  next
    case False
    have ok: "room_ok c" by (rule in_room_ok [OF assms(1)])
    have "\<not> stands SawFull c i" using None room_okD(3) [OF ok, of i] by simp
    then have "stands Asleep c i" using assms(4) i False by (auto simp: stands_def)
    then have "wr_asleep c \<noteq> []" using room_okD(2) [OF ok, of i] by auto
    moreover have "no_slot_wasted c" using in_room_unwasted [OF assms(1)] assms(2) by (simp add: all_live_def)
    moreover have "head_count Asking c = 0"
      using False by (auto simp: head_count_def filter_empty_conv in_set_conv_nth)
    ultimately show ?thesis using room_okD(4) [OF ok] by (simp add: no_slot_wasted_def head_count_def)
  qed
qed

text \<open>
  A context that ends at the wrong moment does lose one. Goroutine 1 has looked at its context and seen
  the gate full; its context ends and the broadcast finds nobody asleep; 1 goes to sleep, then 2. The
  release wakes 1, which leaves without the slot, and 2 sleeps at an empty gate.
\<close>

definition lost_signal :: "wait_event list" where
  "lost_signal =
     [ChangeLimit 1, AskSlot 0, LookAtGate 0, AskSlot 1, AskSlot 2, LookAtGate 1, EndContext 1, RingBell 1,
      FallAsleep 1, LookAtGate 2, FallAsleep 2, GiveBack 0, LookAtGate 1]"

lemma cancelled_waiter_swallows_signal:
  "case wait_steps lost_signal (wr_new 3) of
     None \<Rightarrow> False
   | Some c \<Rightarrow> map wt_state (wr_waiters c) = [Outside, Outside, Asleep] \<and> sg_used (wr_gate c) = 0 \<and>
       sg_limit (wr_gate c) = 1 \<and> list_all (\<lambda>w. \<not> wt_bell w) (wr_waiters c)"
  by code_simp

definition one_waits :: "wait_event list" where
  "one_waits = [ChangeLimit 1, AskSlot 0, LookAtGate 0, AskSlot 1, LookAtGate 1, FallAsleep 1]"

lemma one_waits_run:
  "case wait_steps one_waits (wr_new 2) of
     None \<Rightarrow> False
   | Some c \<Rightarrow> map wt_state (wr_waiters c) = [Holding, Asleep] \<and> list_all (\<lambda>w. \<not> wt_over w) (wr_waiters c) \<and>
       length (wr_waiters c) = 2 \<and> wr_mutex c = None"
  by code_simp

lemma no_waiter_left_asleep_witness:
  "\<exists>c. wait_steps one_waits (wr_new 2) = Some c \<and> 0 < sg_limit (wr_gate c) \<and> sg_limit (wr_gate c) \<le> 1"
proof -
  obtain c where c: "wait_steps one_waits (wr_new 2) = Some c"
    and st: "map wt_state (wr_waiters c) = [Holding, Asleep]" and live: "list_all (\<lambda>w. \<not> wt_over w) (wr_waiters c)"
    and len: "length (wr_waiters c) = 2"
    using one_waits_run by (auto split: option.splits)
  obtain v w where ws: "wr_waiters c = [v, w]" "wt_state v = Holding" "wt_state w = Asleep"
    using st by (auto simp: map_eq_Cons_conv)
  have stuck: "wait_step (LookAtGate i) c = None \<and> wait_step (FallAsleep i) c = None" for i
  proof (cases "i < 2")
    case True
    then have "i = 0 \<or> i = 1" by linarith
    then show ?thesis using ws by (auto simp: wait_step_def look_at_gate_def fall_asleep_def)
  next
    case False
    then show ?thesis by (simp add: wait_step_def len)
  qed
  have "0 < sg_limit (wr_gate c) \<and> sg_limit (wr_gate c) \<le> int (length (filter (\<lambda>w. wt_state w = Holding) (wr_waiters c)))"
    using no_waiter_left_asleep [OF in_room_steps [OF in_room_new c], of w] live stuck ws by (auto simp: list_all_iff)
  then show ?thesis using c ws by simp
qed

end
