(* ===== verification/Runner_Live.thy ===== *)
theory Runner_Live
  imports Runner
begin

text \<open>
  What holds of the runner's schedule: a task has one run at a time, the limits on agents and tasks are
  kept, no parked run is forgotten unless one ahead of it is dropped, the runner is never stuck while
  one of the two limits is off, and its own steps come to an end. In this schedule a goroutine that waits
  for a slot goes on as soon as a look at the gate would let it through; when such a look comes is the
  matter of \<open>Slot_Wait\<close>. The last section holds the two ways the runner does get stuck.
\<close>

section \<open>One run of a task, and no more than the limits\<close>

definition at_work :: "Runner \<Rightarrow> goroutine list" where
  "at_work r = filter (\<lambda>g. go_phase g \<in> {Executing, Running}) (rr_goroutines r)"

text \<open>
  C33: Two runs of a task are never at work at once, whatever arrives, is stopped or answered and in
  whatever order the goroutines proceed: a run that starts while another holds its task waits.
\<close>
theorem one_run_per_task:
  assumes "reached r" and "i < length (rr_goroutines r)" and "j < length (rr_goroutines r)"
    and "go_phase (rr_goroutines r ! i) \<in> {Executing, Running}"
    and "go_phase (rr_goroutines r ! j) \<in> {Executing, Running}"
    and "go_task (rr_goroutines r ! i) = go_task (rr_goroutines r ! j)"
    and "go_task (rr_goroutines r ! i) \<noteq> uuid_Nil"
  shows "i = j"
  by (rule tasks_told_unique [OF tasks_told_reached [OF assms(1)] assms(2,3) _ _ assms(6,7)])
    (use assms(4,5) in auto)

definition limits_within :: "int \<Rightarrow> int \<Rightarrow> runner_event \<Rightarrow> bool" where
  "limits_within A K e =
     (case e of
        Go i a \<Rightarrow> (case concurrencyLimits (an_settings a) of (agents, tasks) \<Rightarrow> agents \<in> {1..A} \<and> tasks \<in> {1..K})
      | _ \<Rightarrow> True)"

definition caps_kept :: "int \<Rightarrow> int \<Rightarrow> Runner \<Rightarrow> bool" where
  "caps_kept A K r \<longleftrightarrow>
     sg_limit (rr_agentSlots r) \<in> {0..A} \<and> sg_limit (rr_taskSlots r) \<in> {0..K} \<and>
     sg_used (rr_agentSlots r) \<le> A \<and> sg_used (rr_taskSlots r) \<le> K \<and>
     (\<forall>g \<in> set (rr_goroutines r). go_phase g \<in> {AgentWait, Beginning, TaskWait} \<longrightarrow>
        0 < sg_limit (rr_agentSlots r) \<and> 0 < sg_limit (rr_taskSlots r))"

lemma set_go_to: "g \<in> set (rr_goroutines (go_to i ph r)) \<Longrightarrow>
    g \<in> set (rr_goroutines r) \<or> g = (rr_goroutines r ! i)\<lparr>go_phase := ph\<rparr>"
  unfolding go_to_def by (auto dest: set_update_subset_insert [THEN subsetD])

lemma caps_kept_go_to:
  assumes "caps_kept A K r" and "rr_goroutines r1 = rr_goroutines r"
    and "sg_limit (rr_agentSlots r1) = sg_limit (rr_agentSlots r)"
    and "sg_limit (rr_taskSlots r1) = sg_limit (rr_taskSlots r)"
    and "sg_used (rr_agentSlots r1) \<le> A" and "sg_used (rr_taskSlots r1) \<le> K"
    and "ph \<in> {AgentWait, Beginning, TaskWait} \<Longrightarrow> 0 < sg_limit (rr_agentSlots r) \<and> 0 < sg_limit (rr_taskSlots r)"
  shows "caps_kept A K (go_to i ph r1)"
  using assms unfolding caps_kept_def by (auto dest!: set_go_to)

lemma released_used: "sg_used (slot_release g) \<le> sg_used g"
  by (simp add: slot_release_def)

lemma advance_caps:
  assumes step: "advance i a r = Some r'" and i: "i < length (rr_goroutines r)" and inv: "caps_kept A K r"
    and lim: "limits_within A K (Go i a)"
  shows "caps_kept A K r'"
proof -
  let ?g = "rr_goroutines r ! i"
  have used: "sg_used (rr_agentSlots r) \<le> A" "sg_used (rr_taskSlots r) \<le> K"
    and caps: "sg_limit (rr_agentSlots r) \<le> A" "sg_limit (rr_taskSlots r) \<le> K"
    using inv by (simp_all add: caps_kept_def)
  have past: "go_phase ?g \<in> {AgentWait, Beginning, TaskWait} \<Longrightarrow>
      0 < sg_limit (rr_agentSlots r) \<and> 0 < sg_limit (rr_taskSlots r)"
    using inv nth_mem [OF i] unfolding caps_kept_def by blast
  note same = caps_kept_go_to [OF inv, where i = i]
  from step show ?thesis
  proof (cases rule: advance_cases)
    case (limiting agents tasks)
    then have "1 \<le> agents" "agents \<le> A" "1 \<le> tasks" "tasks \<le> K"
      using lim by (simp_all add: limits_within_def)
    then show ?thesis
      using inv unfolding limiting(3) caps_kept_def
      by (auto simp: slot.cap_set slot.cap_held dest!: set_go_to)
  next
    case (agent_slot s)
    then show ?thesis
      using used past caps slot.taken [OF agent_slot(2)]
      by (auto intro!: same slot.taken_within [OF agent_slot(2)])
  next
    case (task_slot s)
    then show ?thesis
      using used past caps slot.taken [OF task_slot(2)]
      by (auto intro!: same slot.taken_within [OF task_slot(2)])
  next
    case (beginning ph r1)
    then show ?thesis using used past beginTask_kept [OF beginning(2)] by (auto intro!: same)
  next
    case (ending h ph r1)
    then show ?thesis
      using used endTask_kept [OF ending(2)] endTask_late [OF ending(2)] unfolding ending(3)
      by (intro same) auto
  next
    case (releasing ends)
    show ?thesis
      unfolding releasing(2) using used released_used [of "rr_agentSlots r"]
      by (cases ends; intro same) (auto simp: slot.given_cap)
  next
    case (slot_back h n)
    show ?thesis
      unfolding slot_back(2) using used released_used [of "rr_taskSlots r"] by (intro same) (auto simp: slot.given_cap)
  next
    case (passed_none h n)
    then show ?thesis using used by (cases h) (auto intro!: same)
  next
    case (passed h j)
    then show ?thesis using used by (cases h) (auto intro!: same)
  qed (use used in \<open>auto intro!: same\<close>)
qed

lemma caps_kept_cong:
  assumes "caps_kept A K r" and "rr_agentSlots r' = rr_agentSlots r" and "rr_taskSlots r' = rr_taskSlots r"
    and "\<And>g. g \<in> set (rr_goroutines r') \<Longrightarrow>
          go_phase g \<in> {AgentWait, Beginning, TaskWait} \<Longrightarrow> \<exists>g' \<in> set (rr_goroutines r). go_phase g' = go_phase g"
  shows "caps_kept A K r'"
  unfolding caps_kept_def
proof (intro conjI ballI impI)
  fix g
  assume "g \<in> set (rr_goroutines r')" and "go_phase g \<in> {AgentWait, Beginning, TaskWait}"
  then obtain g' where "g' \<in> set (rr_goroutines r)" "go_phase g' \<in> {AgentWait, Beginning, TaskWait}"
    using assms(4) by metis
  then have "0 < sg_limit (rr_agentSlots r) \<and> 0 < sg_limit (rr_taskSlots r)"
    using assms(1) unfolding caps_kept_def by blast
  then show "0 < sg_limit (rr_agentSlots r')" "0 < sg_limit (rr_taskSlots r')"
    using assms(2,3) by simp_all
qed (use assms(1-3) in \<open>auto simp: caps_kept_def\<close>)

lemma end_context_phases:
  "g \<in> set (rr_goroutines (end_context i r)) \<Longrightarrow> \<exists>g' \<in> set (rr_goroutines r). go_phase g' = go_phase g \<and> go_job g' = go_job g"
  unfolding end_context_def by (auto split: if_splits dest!: set_update_subset_insert [THEN subsetD])

lemma step_caps:
  assumes "runner_step e r = Some r'" and inv: "caps_kept A K r" and "limits_within A K e"
  shows "caps_kept A K r'"
proof (cases e)
  case (Go i a)
  then show ?thesis using assms advance_caps [of i a r r' A K] by (simp split: if_splits)
next
  case (Beat i answer)
  then show ?thesis
    using assms(1) by (intro caps_kept_cong [OF inv]) (auto dest: end_context_phases split: if_splits sum.splits)
next
  case (StopRun runID)
  then show ?thesis
    using assms(1) by (intro caps_kept_cong [OF inv]) (auto simp: Cancel_def dest: end_context_phases split: option.splits)
next
  case (Arrive job)
  then show ?thesis using assms(1) by (intro caps_kept_cong [OF inv]) auto
next
  case Receive
  then show ?thesis using assms(1) by (intro caps_kept_cong [OF inv]) (auto split: if_splits list.splits)
qed (use assms(1) in \<open>auto intro!: caps_kept_cong [OF inv] split: if_splits\<close>)

lemma steps_caps:
  "runner_steps es r = Some r' \<Longrightarrow> caps_kept A K r \<Longrightarrow> \<forall>e \<in> set es. limits_within A K e \<Longrightarrow> caps_kept A K r'"
  by (induction es arbitrary: r) (auto split: option.splits intro: step_caps)

lemma length_filter_weaker: "(\<And>x. P x \<Longrightarrow> Q x) \<Longrightarrow> length (filter P xs) \<le> length (filter Q xs)"
  by (induction xs) auto

lemma reached_run: "runner_steps es NewRunner = Some r \<Longrightarrow> reached r"
  using reached_steps [OF reached_new] .

text \<open>
  C35: While every reading of the settings gives between one and \<open>A\<close> agents and between one and \<open>K\<close>
  tasks, no more than \<open>A\<close> runs and no more than \<open>K\<close> tasks are at work at once.
\<close>
theorem limits_respected:
  assumes run: "runner_steps es NewRunner = Some r" and "1 \<le> A" and "1 \<le> K"
    and lim: "\<forall>e \<in> set es. limits_within A K e"
  shows "int (length (at_work r)) \<le> A \<and> int (card (go_task ` set (at_work r) - {uuid_Nil})) \<le> K"
proof -
  have "caps_kept A K NewRunner"
    using assms(2,3) by (simp add: caps_kept_def NewRunner_def newSlotGate_def)
  then have caps: "caps_kept A K r" using steps_caps [OF run _ lim] by simp
  have r: "reached r" using reached_run [OF run] .
  have "length (at_work r) \<le> length (filter (\<lambda>g. has_agent (go_phase g)) (rr_goroutines r))"
    unfolding at_work_def by (rule length_filter_weaker) auto
  then have "int (length (at_work r)) \<le> agents_at_work r" by (simp add: tally_def)
  moreover have "agents_at_work r \<le> A"
    using caps agents_counted [OF r] by (simp add: caps_kept_def)
  moreover have "go_task ` set (at_work r) - {uuid_Nil} \<subseteq> rr_taskSlotHeld r"
  proof
    fix T
    assume "T \<in> go_task ` set (at_work r) - {uuid_Nil}"
    then obtain i where "i < length (rr_goroutines r)" "go_phase (rr_goroutines r ! i) \<in> {Executing, Running}"
      "T = go_task (rr_goroutines r ! i)" "T \<noteq> uuid_Nil"
      by (auto simp: at_work_def in_set_conv_nth)
    then show "T \<in> rr_taskSlotHeld r"
      using slots_told_reached [OF r] by (auto simp: slots_told_def Let_def)
  qed
  then have "card (go_task ` set (at_work r) - {uuid_Nil}) \<le> card (rr_taskSlotHeld r)"
    using slots_told_reached [OF r] by (intro card_mono) (auto simp: slots_told_def)
  moreover have "int (card (rr_taskSlotHeld r)) \<le> K"
    using caps slots_told_reached [OF r] tally_nonneg [of "\<lambda>g. between_slots (go_phase g)" r]
    unfolding caps_kept_def slots_told_def by linarith
  ultimately show ?thesis by simp
qed

section \<open>Nothing is forgotten\<close>

text \<open>
  A job falls out of the runner before it has ended its task: its run was over before it began, its
  context ended while it waited for an agent slot, or the queue was full when it was its turn.
\<close>

definition falls_out :: "runner_event \<Rightarrow> Runner \<Rightarrow> bool" where
  "falls_out e r =
     (case e of
        Arrive job \<Rightarrow> job_id job = uuid_Nil
      | Go i a \<Rightarrow>
          i < length (rr_goroutines r) \<and>
          (case go_phase (rr_goroutines r ! i) of
             Checking \<Rightarrow> alreadyStopped (an_row a)
           | AgentWait \<Rightarrow> go_over (rr_goroutines r ! i) \<or> rr_over r
           | Passing holding next_job \<Rightarrow> next_job \<noteq> None \<and> runnerQueue \<le> length (rr_queue r)
           | _ \<Rightarrow> False)
      | _ \<Rightarrow> False)"

inductive smooth :: "Runner \<Rightarrow> bool" where
  smooth_new: "smooth NewRunner"
| smooth_step: "smooth r \<Longrightarrow> \<not> falls_out e r \<Longrightarrow> runner_step e r = Some r' \<Longrightarrow> smooth r'"

lemma smooth_reached: "smooth r \<Longrightarrow> reached r"
  by (induction rule: smooth.induct) (auto intro: reached.intros)

fun carried :: "phase \<Rightarrow> RunJob option" where
  "carried (SlotBack holding n) = n"
| "carried (Passing holding n) = n"
| "carried ph = None"

definition early :: "phase \<Rightarrow> bool" where
  "early ph \<longleftrightarrow> ph \<in> {Registering, Checking, Limiting, AgentWait, Beginning}"

text \<open>A goroutine that will begin on the task, or wake a job that will.\<close>

definition brings :: "uuid \<Rightarrow> goroutine \<Rightarrow> bool" where
  "brings T g \<longleftrightarrow> early (go_phase g) \<and> go_task g = T \<or>
     (\<exists>j. carried (go_phase g) = Some j \<and> job_task j = T)"

definition coming :: "uuid \<Rightarrow> Runner \<Rightarrow> bool" where
  "coming T r \<longleftrightarrow> (\<exists>j \<in> set (rr_queue r). job_task j = T) \<or> (\<exists>g \<in> set (rr_goroutines r). brings T g)"

definition jobs_named :: "Runner \<Rightarrow> bool" where
  "jobs_named r \<longleftrightarrow> (\<forall>j \<in> set (rr_queue r). job_id j \<noteq> uuid_Nil) \<and>
     (\<forall>g \<in> set (rr_goroutines r). job_id (go_job g) \<noteq> uuid_Nil \<and>
        (\<forall>j. carried (go_phase g) = Some j \<longrightarrow> job_id j \<noteq> uuid_Nil)) \<and>
     (\<forall>T. \<forall>j \<in> set (rr_parked r T). job_id j \<noteq> uuid_Nil \<and> job_task j = T \<and> T \<noteq> uuid_Nil)"

definition parked_wait :: "Runner \<Rightarrow> bool" where
  "parked_wait r \<longleftrightarrow> (\<forall>T. rr_parked r T \<noteq> [] \<longrightarrow> rr_activeTasks r T \<noteq> None \<or> coming T r)"

definition slots_used :: "Runner \<Rightarrow> bool" where
  "slots_used r \<longleftrightarrow> (\<forall>T \<in> rr_taskSlotHeld r. rr_activeTasks r T \<noteq> None \<or> rr_parked r T \<noteq> [])"

lemma bex_update:
  assumes "i < length xs"
  shows "(\<exists>g \<in> set (xs[i := y]). P g) \<longleftrightarrow> P y \<or> (\<exists>k < length xs. k \<noteq> i \<and> P (xs ! k))"
proof -
  have "(\<exists>g \<in> set (xs[i := y]). P g) \<longleftrightarrow> (\<exists>k < length (xs[i := y]). P (xs[i := y] ! k))"
    by (metis in_set_conv_nth)
  then show ?thesis using assms by (auto simp: nth_list_update)
qed

lemma coming_go_to:
  assumes "rr_goroutines r1 = rr_goroutines r" and i: "i < length (rr_goroutines r)"
  shows "coming T (go_to i ph r1) \<longleftrightarrow> (\<exists>j \<in> set (rr_queue r1). job_task j = T) \<or>
    brings T ((rr_goroutines r ! i)\<lparr>go_phase := ph\<rparr>) \<or>
    (\<exists>k < length (rr_goroutines r). k \<noteq> i \<and> brings T (rr_goroutines r ! k))"
  using assms(1) bex_update [OF i, where P = "brings T" and y = "(rr_goroutines r ! i)\<lparr>go_phase := ph\<rparr>"]
  by (simp add: coming_def go_to_def)

lemma coming_same:
  "i < length (rr_goroutines r) \<Longrightarrow> coming T r \<longleftrightarrow> (\<exists>j \<in> set (rr_queue r). job_task j = T) \<or>
    brings T (rr_goroutines r ! i) \<or> (\<exists>k < length (rr_goroutines r). k \<noteq> i \<and> brings T (rr_goroutines r ! k))"
  using bex_update [of i "rr_goroutines r", where P = "brings T" and y = "rr_goroutines r ! i"] by (simp add: coming_def)

lemma coming_kept:
  assumes "coming T r" and "rr_goroutines r1 = rr_goroutines r" and i: "i < length (rr_goroutines r)"
    and "set (rr_queue r) \<subseteq> set (rr_queue r1)"
    and "brings T (rr_goroutines r ! i) \<Longrightarrow>
      brings T ((rr_goroutines r ! i)\<lparr>go_phase := ph\<rparr>) \<or> (\<exists>j \<in> set (rr_queue r1). job_task j = T)"
  shows "coming T (go_to i ph r1)"
  using assms(1,4,5) by (auto simp: coming_go_to [OF assms(2) i] coming_same [OF i])

lemma jobs_named_go_to:
  assumes "jobs_named r" and "rr_goroutines r1 = rr_goroutines r" and i: "i < length (rr_goroutines r)"
    and "set (rr_queue r1) \<subseteq> insert j (set (rr_queue r))" and "job_id j \<noteq> uuid_Nil"
    and "\<And>n. carried ph = Some n \<Longrightarrow> job_id n \<noteq> uuid_Nil"
    and "\<And>T k. k \<in> set (rr_parked r1 T) \<Longrightarrow> job_id k \<noteq> uuid_Nil \<and> job_task k = T \<and> T \<noteq> uuid_Nil"
  shows "jobs_named (go_to i ph r1)"
proof -
  have g: "job_id (go_job g) \<noteq> uuid_Nil \<and> (\<forall>n. carried (go_phase g) = Some n \<longrightarrow> job_id n \<noteq> uuid_Nil)"
    if "g \<in> set (rr_goroutines (go_to i ph r1))" for g
    using set_go_to [OF that] assms(1,2,6) nth_mem [OF i] unfolding jobs_named_def by auto
  show ?thesis
    unfolding jobs_named_def
    using assms(1,4,5,7) g by (auto simp: jobs_named_def)
qed

lemma beginTask_parked:
  assumes "beginTask j r = (ph, r1)"
  shows "rr_parked r1 T = rr_parked r T \<or> T = job_task j \<and> T \<noteq> uuid_Nil \<and> rr_parked r1 T = rr_parked r T @ [j]"
    and "rr_activeTasks r T \<noteq> None \<Longrightarrow> rr_activeTasks r1 T \<noteq> None"
    and "T = job_task j \<Longrightarrow> T \<noteq> uuid_Nil \<Longrightarrow> rr_activeTasks r1 T \<noteq> None"
    and "carried ph = None"
  using assms by (auto simp: beginTask_def Let_def split: if_splits option.splits)

lemma endTask_parked:
  assumes "endTask h x r = (ph, r1)"
  shows "T \<noteq> x \<Longrightarrow> rr_parked r1 T = rr_parked r T \<and> rr_activeTasks r1 T = rr_activeTasks r T"
    and "set (rr_parked r1 T) \<subseteq> set (rr_parked r T)"
    and "x \<noteq> uuid_Nil \<Longrightarrow> rr_parked r x \<noteq> [] \<Longrightarrow> carried ph = Some (hd (rr_parked r x)) \<and> rr_parked r1 x = tl (rr_parked r x)"
    and "x \<noteq> uuid_Nil \<Longrightarrow> rr_parked r x = [] \<Longrightarrow> carried ph = None \<and> rr_parked r1 x = []"
    and "x = uuid_Nil \<Longrightarrow> carried ph = None \<and> r1 = r"
    and "rr_taskSlotHeld r1 \<subseteq> rr_taskSlotHeld r"
    and "x \<noteq> uuid_Nil \<Longrightarrow> x \<in> rr_taskSlotHeld r1 \<Longrightarrow> rr_parked r1 x \<noteq> []"
  using assms by (auto simp: endTask_def Let_def split: if_splits list.splits dest: list.set_sel(2))

text \<open>A step of one goroutine, when it does not fall out.\<close>

lemma advance_jobs_named:
  assumes step: "advance i a r = Some r'" and i: "i < length (rr_goroutines r)" and inv: "jobs_named r"
  shows "jobs_named r'"
proof -
  let ?g = "rr_goroutines r ! i"
  have own: "job_id (go_job ?g) \<noteq> uuid_Nil" "\<And>n. carried (go_phase ?g) = Some n \<Longrightarrow> job_id n \<noteq> uuid_Nil"
    using inv nth_mem [OF i] by (auto simp: jobs_named_def)
  have parked: "\<And>T k. k \<in> set (rr_parked r T) \<Longrightarrow> job_id k \<noteq> uuid_Nil \<and> job_task k = T \<and> T \<noteq> uuid_Nil"
    using inv by (auto simp: jobs_named_def)
  note same = jobs_named_go_to [OF inv _ i _ own(1)]
  from step show ?thesis
  proof (cases rule: advance_cases)
    case (beginning ph r1)
    have "job_id k \<noteq> uuid_Nil \<and> job_task k = T \<and> T \<noteq> uuid_Nil" if "k \<in> set (rr_parked r1 T)" for k T
      using beginTask_parked(1) [OF beginning(2), of T] that own(1) by (auto dest: parked)
    then show ?thesis
      unfolding beginning(3)
      using beginTask_kept [OF beginning(2)] beginTask_parked(4) [OF beginning(2)] by (intro same) auto
  next
    case (ending h ph r1)
    have waiting: "carried ph = Some n \<Longrightarrow> n \<in> set (rr_parked r (go_task ?g))" for n
      using endTask_parked(3-5) [OF ending(2)]
      by (cases "go_task ?g = uuid_Nil"; cases "rr_parked r (go_task ?g) = []") auto
    have rest: "job_id k \<noteq> uuid_Nil \<and> job_task k = T \<and> T \<noteq> uuid_Nil" if "k \<in> set (rr_parked r1 T)" for k T
      using that endTask_parked(2) [OF ending(2)] parked by blast
    show ?thesis
      unfolding ending(3)
      using endTask_kept [OF ending(2)] parked [OF waiting] rest by (intro same) auto
  next
    case (releasing ends)
    then show ?thesis by (cases ends) (auto intro!: same dest: parked)
  next
    case (slot_back h n)
    then show ?thesis using own(2) by (auto intro!: same dest: parked)
  next
    case (passed_none h n)
    then show ?thesis by (cases h) (auto intro!: same dest: parked)
  next
    case (passed h j)
    have q: "set (rr_queue (Enqueue j r)) \<subseteq> insert j (set (rr_queue r))" by (auto simp: Enqueue_def)
    show ?thesis
      unfolding passed(3) using passed(2) q
      by (cases h; intro jobs_named_go_to [OF inv _ i, of _ j]) (auto dest: parked)
  qed (auto intro!: same dest: parked)
qed

lemma advance_parked_wait:
  assumes step: "advance i a r = Some r'" and i: "i < length (rr_goroutines r)"
    and inv: "parked_wait r" and named: "jobs_named r" and stays: "\<not> falls_out (Go i a) r"
  shows "parked_wait r'"
  unfolding parked_wait_def
proof (intro allI impI)
  fix T
  let ?g = "rr_goroutines r ! i"
  assume waiting: "rr_parked r' T \<noteq> []"
  have held: "rr_activeTasks r T \<noteq> None \<or> coming T r" if "rr_parked r T \<noteq> []"
    using inv that by (simp add: parked_wait_def)
  have filed: "T \<noteq> uuid_Nil" if "rr_parked r T \<noteq> []"
    using named that hd_in_set [OF that] unfolding jobs_named_def by blast
  note same = coming_kept [OF _ _ i, of T]
  from step show "rr_activeTasks r' T \<noteq> None \<or> coming T r'"
  proof (cases rule: advance_cases)
    case stopped
    then show ?thesis using stays i by (simp add: falls_out_def)
  next
    case no_agent_slot
    then show ?thesis using stays i by (simp add: falls_out_def)
  next
    case (beginning ph r1)
    show ?thesis
    proof (cases "T = go_task ?g \<and> T \<noteq> uuid_Nil")
      case True
      then show ?thesis using beginTask_parked(3) [OF beginning(2)] beginning(3) by auto
    next
      case False
      then have p: "rr_parked r T \<noteq> []"
        using waiting beginTask_parked(1) [OF beginning(2), of T] beginning(3) by auto
      then have "\<not> brings T ?g" using False filed beginning(1) by (auto simp: brings_def)
      then have "coming T r \<Longrightarrow> coming T (go_to i ph r1)"
        using beginTask_kept [OF beginning(2)] i by (intro coming_kept) auto
      then show ?thesis
        using held [OF p] beginTask_parked(2) [OF beginning(2), of T] unfolding beginning(3) by auto
    qed
  next
    case (ending h ph r1)
    show ?thesis
    proof (cases "T = go_task ?g")
      case True
      have p: "rr_parked r T \<noteq> []"
        using waiting endTask_parked(2) [OF ending(2), of T] ending(3) by auto
      then have j: "carried ph = Some (hd (rr_parked r T))" "job_task (hd (rr_parked r T)) = T"
        using endTask_parked(3) [OF ending(2)] filed [OF p] True named hd_in_set [OF p]
        unfolding jobs_named_def by auto
      then have "brings T (?g\<lparr>go_phase := ph\<rparr>)" by (simp add: brings_def)
      then show ?thesis
        using coming_go_to [OF endTask_kept(1) [OF ending(2)] i] ending(3) by simp
    next
      case False
      have "\<not> brings T ?g" using ending(1) by (simp add: brings_def early_def)
      then have "coming T r \<Longrightarrow> coming T (go_to i ph r1)"
        using endTask_kept [OF ending(2)] i by (intro coming_kept) auto
      then show ?thesis
        using held endTask_parked(1) [OF ending(2) False] waiting unfolding ending(3) by auto
    qed
  next
    case (passed h j)
    have room: "length (rr_queue r) < runnerQueue"
      using stays i passed(1) by (simp add: falls_out_def)
    have "coming T r \<Longrightarrow> coming T (go_to i ph (Enqueue j r))" for ph
      using i passed(1) room by (intro coming_kept) (auto simp: brings_def early_def Enqueue_def)
    then show ?thesis using held waiting unfolding passed(3) by auto
  next
    case (passed_none h n)
    then have "\<not> brings T ?g"
      using named nth_mem [OF i] by (auto simp: brings_def early_def jobs_named_def)
    then show ?thesis
      using held waiting unfolding passed_none(3) by (auto intro: same)
  qed (use held waiting in \<open>auto simp: brings_def early_def intro!: same\<close>)
qed

lemma advance_slots_used:
  assumes step: "advance i a r = Some r'" and i: "i < length (rr_goroutines r)"
    and inv: "slots_used r" and told: "tasks_told r" and slots: "slots_told r"
  shows "slots_used r'"
  unfolding slots_used_def
proof (intro ballI)
  fix T
  let ?g = "rr_goroutines r ! i"
  assume T: "T \<in> rr_taskSlotHeld r'"
  have held: "rr_activeTasks r T \<noteq> None \<or> rr_parked r T \<noteq> []" if "T \<in> rr_taskSlotHeld r"
    using inv that by (simp add: slots_used_def)
  from step show "rr_activeTasks r' T \<noteq> None \<or> rr_parked r' T \<noteq> []"
  proof (cases rule: advance_cases)
    case (beginning ph r1)
    then show ?thesis
      using T held beginTask_kept [OF beginning(2)] beginTask_parked(1,2) [OF beginning(2), of T] by auto
  next
    case (ending h ph r1)
    show ?thesis
    proof (cases "T = go_task ?g \<and> T \<noteq> uuid_Nil")
      case True
      then show ?thesis using T endTask_parked(7) [OF ending(2)] ending(3) by auto
    next
      case False
      then have "rr_parked r1 T = rr_parked r T \<and> rr_activeTasks r1 T = rr_activeTasks r T"
        using endTask_parked(1) [OF ending(2), of T] endTask_parked(5) [OF ending(2)] by auto
      then show ?thesis using T held endTask_parked(6) [OF ending(2)] ending(3) by auto
    qed
  next
    case marking
    have Tnil: "go_task ?g \<noteq> uuid_Nil"
      using slots i marking(1) by (auto simp: slots_told_def waits_slot_def Let_def)
    have "1 \<le> tally (on_task (go_task ?g)) r"
      using tally_pos [OF nth_mem [OF i], of "on_task (go_task ?g)"] marking(1) by (simp add: on_task_def)
    then have "rr_activeTasks r (go_task ?g) \<noteq> None"
      using told Tnil by (cases "rr_activeTasks r (go_task ?g)") (auto simp: tasks_told_def)
    then show ?thesis using T held marking(2) by auto
  qed (use T held in auto)
qed

lemma coming_cong:
  assumes "coming T r" and "set (rr_queue r) \<subseteq> set (rr_queue r')"
    and "(\<lambda>g. (go_phase g, go_job g)) ` set (rr_goroutines r) \<subseteq> (\<lambda>g. (go_phase g, go_job g)) ` set (rr_goroutines r')"
  shows "coming T r'"
  using assms(1) unfolding coming_def
proof
  assume "\<exists>g \<in> set (rr_goroutines r). brings T g"
  then obtain g where "g \<in> set (rr_goroutines r)" "brings T g" ..
  moreover from this(1) obtain g' where "g' \<in> set (rr_goroutines r')" "go_phase g' = go_phase g" "go_job g' = go_job g"
    using assms(3) by auto
  ultimately have "brings T g'" and "g' \<in> set (rr_goroutines r')" by (simp_all add: brings_def)
  then show "(\<exists>j \<in> set (rr_queue r'). job_task j = T) \<or> (\<exists>g \<in> set (rr_goroutines r'). brings T g)" by blast
qed (use assms(2) in auto)

lemma end_context_views:
  "(\<lambda>g. (go_phase g, go_job g)) ` set (rr_goroutines (end_context i r)) =
   (\<lambda>g. (go_phase g, go_job g)) ` set (rr_goroutines r)"
proof -
  have "map (\<lambda>g. (go_phase g, go_job g)) (rr_goroutines (end_context i r)) =
      map (\<lambda>g. (go_phase g, go_job g)) (rr_goroutines r)"
    by (simp add: end_context_def map_update list_update_same_conv)
  then show ?thesis by (metis set_map)
qed

lemma jobs_named_cong:
  assumes "jobs_named r" and "set (rr_queue r') \<subseteq> set (rr_queue r)" and "rr_parked r' = rr_parked r"
    and "(\<lambda>g. (go_phase g, go_job g)) ` set (rr_goroutines r') = (\<lambda>g. (go_phase g, go_job g)) ` set (rr_goroutines r)"
  shows "jobs_named r'"
proof -
  have "job_id (go_job g) \<noteq> uuid_Nil \<and> (\<forall>j. carried (go_phase g) = Some j \<longrightarrow> job_id j \<noteq> uuid_Nil)"
    if "g \<in> set (rr_goroutines r')" for g
  proof -
    have "(go_phase g, go_job g) \<in> (\<lambda>g. (go_phase g, go_job g)) ` set (rr_goroutines r)"
      using that unfolding assms(4) [symmetric] by (rule imageI)
    then obtain g' where g': "g' \<in> set (rr_goroutines r)" "go_phase g = go_phase g'" "go_job g = go_job g'"
      by auto
    then show ?thesis using assms(1) unfolding jobs_named_def g'(2,3) by blast
  qed
  then show ?thesis using assms(1-3) by (auto simp: jobs_named_def)
qed

text \<open>The invariant of a runner that no job has fallen out of.\<close>

definition smooth_inv :: "Runner \<Rightarrow> bool" where
  "smooth_inv r \<longleftrightarrow> jobs_named r \<and> parked_wait r \<and> slots_used r"

lemma smooth_inv_cong:
  assumes "smooth_inv r" and "rr_queue r' = rr_queue r" and "rr_parked r' = rr_parked r"
    and "rr_activeTasks r' = rr_activeTasks r" and "rr_taskSlotHeld r' = rr_taskSlotHeld r"
    and "(\<lambda>g. (go_phase g, go_job g)) ` set (rr_goroutines r') = (\<lambda>g. (go_phase g, go_job g)) ` set (rr_goroutines r)"
  shows "smooth_inv r'"
proof -
  have "coming T r \<Longrightarrow> coming T r'" for T
    by (rule coming_cong) (use assms(2,6) in auto)
  then show ?thesis
    using assms jobs_named_cong [of r r'] by (auto simp: smooth_inv_def parked_wait_def slots_used_def)
qed

lemma smooth_inv_over: "smooth_inv r \<Longrightarrow> smooth_inv (end_context i r)"
  by (rule smooth_inv_cong) (simp_all add: end_context_views)

lemma smooth_inv_step:
  assumes step: "runner_step e r = Some r'" and inv: "smooth_inv r" and stays: "\<not> falls_out e r" and r: "reached r"
  shows "smooth_inv r'"
proof (cases e)
  case (Go i a)
  then have "i < length (rr_goroutines r)" "advance i a r = Some r'"
    using step by (simp_all split: if_splits)
  then show ?thesis
    using inv stays Go tasks_told_reached [OF r] slots_told_reached [OF r]
      advance_jobs_named advance_parked_wait advance_slots_used unfolding smooth_inv_def by blast
next
  case (Arrive job)
  then have "job_id job \<noteq> uuid_Nil" using stays by (simp add: falls_out_def)
  moreover have r': "r' = Enqueue job r" using step Arrive by simp
  moreover have q: "rr_queue (Enqueue job r) = rr_queue r \<or> rr_queue (Enqueue job r) = rr_queue r @ [job]"
    by (simp add: Enqueue_def)
  moreover have "coming T (Enqueue job r)" if "coming T r" for T
    using q by (intro coming_cong [OF that]) auto
  ultimately show ?thesis
    using inv unfolding smooth_inv_def parked_wait_def slots_used_def jobs_named_def r' by (auto dest: spec)
next
  case Receive
  then obtain job jobs where q: "rr_queue r = job # jobs"
    and r': "r' = r\<lparr>rr_queue := jobs, rr_loop := Polling, rr_goroutines := rr_goroutines r @
        [\<lparr>go_job = job, go_phase = Registering, go_over = False\<rparr>]\<rparr>"
    using step by (auto split: if_splits list.splits)
  have "coming T r'" if "coming T r" for T
    using that unfolding coming_def q r' by (auto simp: brings_def early_def)
  then show ?thesis
    using inv q r' by (auto simp: smooth_inv_def parked_wait_def slots_used_def jobs_named_def)
next
  case (Beat i answer)
  then show ?thesis
    using step smooth_inv_over [OF inv] inv by (auto split: if_splits sum.splits)
next
  case (StopRun runID)
  then show ?thesis
    using step smooth_inv_over [OF inv] inv by (auto simp: Cancel_def split: option.splits)
next
  case Poll
  then show ?thesis using step by (intro smooth_inv_cong [OF inv]) (auto split: if_splits)
next
  case Quit
  then show ?thesis using step by (intro smooth_inv_cong [OF inv]) (auto split: if_splits)
next
  case CloseDrain
  then show ?thesis using step by (intro smooth_inv_cong [OF inv]) auto
next
  case CancelAll
  then show ?thesis using step by (intro smooth_inv_cong [OF inv]) auto
qed

lemma smooth_inv_reached: "smooth r \<Longrightarrow> smooth_inv r"
proof (induction rule: smooth.induct)
  case smooth_new
  then show ?case
    by (simp add: NewRunner_def smooth_inv_def jobs_named_def parked_wait_def slots_used_def)
next
  case (smooth_step r e r')
  then show ?case using smooth_inv_step smooth_reached by blast
qed

definition quiet :: "Runner \<Rightarrow> bool" where
  "quiet r \<longleftrightarrow> rr_queue r = [] \<and> (\<forall>g \<in> set (rr_goroutines r). go_phase g = Gone)"

text \<open>
  When everything that reached the runner has come to an end and no job fell out on the way, no job
  is left parked, no task is held, and every agent and task slot is free.
\<close>
theorem quiet_runner_is_empty:
  assumes "smooth r" and "quiet r"
  shows "rr_parked r T = [] \<and> (T \<noteq> uuid_Nil \<longrightarrow> rr_activeTasks r T = None) \<and> rr_taskSlotHeld r = {} \<and>
    sg_used (rr_agentSlots r) = 0 \<and> sg_used (rr_taskSlots r) = 0"
proof -
  have r: "reached r" using smooth_reached [OF assms(1)] .
  have gone: "\<forall>g \<in> set (rr_goroutines r). go_phase g = Gone" using assms(2) by (simp add: quiet_def)
  have none: "tally P r = 0" if "\<And>g. go_phase g = Gone \<Longrightarrow> \<not> P g" for P
    using that gone by (auto simp: tally_def filter_empty_conv)
  have free: "rr_activeTasks r T = None" if "T \<noteq> uuid_Nil" for T
    using tasks_told_reached [OF r] that none [of "on_task T"]
    by (cases "rr_activeTasks r T") (auto simp: tasks_told_def on_task_def)
  have inv: "smooth_inv r" using smooth_inv_reached [OF assms(1)] .
  have no_coming: "\<not> coming T r" for T
    using assms(2) gone by (auto simp: coming_def quiet_def brings_def early_def)
  have parked: "rr_parked r T = []" for T
  proof (rule ccontr)
    assume p: "rr_parked r T \<noteq> []"
    then have "T \<noteq> uuid_Nil"
      using inv hd_in_set [OF p] unfolding smooth_inv_def jobs_named_def by blast
    then have "rr_activeTasks r T = None" by (rule free)
    moreover have "rr_activeTasks r T \<noteq> None \<or> coming T r"
      using inv p by (simp add: smooth_inv_def parked_wait_def)
    ultimately have "coming T r" by simp
    with no_coming [of T] show False by (rule notE)
  qed
  have slots: "slots_told r" using slots_told_reached [OF r] .
  have "rr_taskSlotHeld r = {}"
  proof (rule equals0I)
    fix U
    assume U: "U \<in> rr_taskSlotHeld r"
    then have "U \<noteq> uuid_Nil" using slots by (auto simp: slots_told_def)
    moreover have "rr_activeTasks r U \<noteq> None \<or> rr_parked r U \<noteq> []"
      using inv U by (simp add: smooth_inv_def slots_used_def)
    ultimately show False using parked [of U] free [of U] by simp
  qed
  then show ?thesis
    using parked free agents_counted [OF r] slots none [of "\<lambda>g. has_agent (go_phase g)"]
      none [of "\<lambda>g. between_slots (go_phase g)"]
    by (simp add: slots_told_def)
qed

section \<open>Never stuck, and an end to it\<close>

definition internal :: "runner_event \<Rightarrow> bool" where
  "internal e \<longleftrightarrow> (case e of Poll \<Rightarrow> True | Receive \<Rightarrow> True | Go i a \<Rightarrow> True | _ \<Rightarrow> False)"

definition stuck :: "Runner \<Rightarrow> bool" where
  "stuck r \<longleftrightarrow> (\<forall>e. internal e \<longrightarrow> runner_step e r = None)"

definition waits_full :: "Runner \<Rightarrow> phase \<Rightarrow> bool" where
  "waits_full r ph \<longleftrightarrow> ph = Gone \<or>
     ph = AgentWait \<and> 0 < sg_limit (rr_agentSlots r) \<and> sg_limit (rr_agentSlots r) \<le> sg_used (rr_agentSlots r) \<or>
     ph = TaskWait \<and> 0 < sg_limit (rr_taskSlots r) \<and> sg_limit (rr_taskSlots r) \<le> sg_used (rr_taskSlots r)"

lemma advance_waits: "advance i a r = None \<Longrightarrow> waits_full r (go_phase (rr_goroutines r ! i))"
  using slot.waits
  by (cases "go_phase (rr_goroutines r ! i)")
    (auto simp: waits_full_def advance_def Let_def split: option.splits prod.splits if_splits)

lemma stuck_waits:
  assumes "stuck r" and "g \<in> set (rr_goroutines r)"
  shows "waits_full r (go_phase g)"
proof -
  obtain i where i: "i < length (rr_goroutines r)" "rr_goroutines r ! i = g"
    using assms(2) by (auto simp: in_set_conv_nth)
  have "runner_step (Go i undefined) r = None"
    using assms(1) unfolding stuck_def by (elim allE [of _ "Go i undefined"]) (simp add: internal_def)
  then show ?thesis using i advance_waits [of i undefined r] by simp
qed

lemma stuck_queue:
  assumes "stuck r" and "rr_loop r \<noteq> Exited"
  shows "rr_queue r = []"
proof -
  have none: "runner_step e r = None" if "internal e" for e using assms(1) that by (simp add: stuck_def)
  show ?thesis using assms(2) none [of Poll] none [of Receive]
    by (cases "rr_loop r") (auto simp: internal_def split: list.splits if_splits)
qed

lemma held_task_idle:
  assumes "reached r" and "stuck r" and "T \<in> rr_taskSlotHeld r"
  shows "rr_activeTasks r T = None"
proof (rule ccontr)
  have slots: "slots_told r" using slots_told_reached [OF assms(1)] .
  assume "rr_activeTasks r T \<noteq> None"
  moreover have "T \<noteq> uuid_Nil" using slots assms(3) by (auto simp: slots_told_def)
  ultimately have "\<not> tally (on_task T) r \<le> 0"
    using tasks_told_reached [OF assms(1)] by (simp add: tasks_told_def)
  then obtain i where i: "i < length (rr_goroutines r)" "on_task T (rr_goroutines r ! i)"
    by (auto simp: tally_zero in_set_conv_nth)
  then have "go_phase (rr_goroutines r ! i) = TaskWait"
    using stuck_waits [OF assms(2) nth_mem [OF i(1)]] by (auto simp: waits_full_def on_task_def)
  then show False
    using i slots assms(3) by (auto simp: slots_told_def waits_slot_def on_task_def Let_def)
qed

text \<open>A run that waits for a task slot waits for a task whose next run waits for an agent slot.\<close>

lemma task_wait_behind_agent:
  assumes "smooth r" and "stuck r" and "rr_queue r = []"
    and "g \<in> set (rr_goroutines r)" and "go_phase g = TaskWait"
  shows "\<exists>g \<in> set (rr_goroutines r). go_phase g = AgentWait"
proof -
  have r: "reached r" and inv: "smooth_inv r"
    using smooth_reached [OF assms(1)] smooth_inv_reached [OF assms(1)] .
  have "tally (\<lambda>g. between_slots (go_phase g)) r = 0"
    using stuck_waits [OF assms(2)] by (force simp: tally_def filter_empty_conv waits_full_def)
  then have "rr_taskSlotHeld r \<noteq> {}"
    using stuck_waits [OF assms(2,4)] assms(5) slots_told_reached [OF r]
    by (auto simp: slots_told_def waits_full_def)
  then obtain T where T: "T \<in> rr_taskSlotHeld r" by auto
  then have "rr_activeTasks r T = None" by (rule held_task_idle [OF r assms(2)])
  moreover from this have "rr_parked r T \<noteq> []"
    using inv T by (auto simp: smooth_inv_def slots_used_def dest: bspec)
  ultimately have "coming T r"
    using inv by (auto simp: smooth_inv_def parked_wait_def dest: spec)
  then obtain g' where g': "g' \<in> set (rr_goroutines r)" "brings T g'"
    using assms(3) by (auto simp: coming_def)
  then have "go_phase g' = AgentWait"
    using stuck_waits [OF assms(2) g'(1)] by (auto simp: waits_full_def brings_def early_def)
  then show ?thesis using g' by blast
qed

text \<open>
  As long as one of the two limits is off, a runner that is up and that no job has fallen out of can
  take a step of its own until everything it was given has come to an end, if every goroutine that a
  look at a gate would let through comes to look.
\<close>
theorem runner_never_stuck:
  assumes "smooth r" and "rr_loop r \<noteq> Exited"
    and "sg_limit (rr_agentSlots r) = 0 \<or> sg_limit (rr_taskSlots r) = 0"
    and "stuck r"
  shows "quiet r"
proof -
  have queue: "rr_queue r = []" using stuck_queue [OF assms(4,2)] .
  have "go_phase g = Gone" if g: "g \<in> set (rr_goroutines r)" for g
  proof (rule ccontr)
    assume "go_phase g \<noteq> Gone"
    then have "\<exists>g \<in> set (rr_goroutines r). go_phase g = AgentWait"
      using stuck_waits [OF assms(4) g] task_wait_behind_agent [OF assms(1,4) queue g] g
      by (auto simp: waits_full_def)
    then have limit: "0 < sg_limit (rr_agentSlots r)" "0 < sg_used (rr_agentSlots r)"
      using stuck_waits [OF assms(4)] by (force simp: waits_full_def)+
    then have "\<not> agents_at_work r \<le> 0"
      using agents_counted [OF smooth_reached [OF assms(1)]] by simp
    then obtain g' where g': "g' \<in> set (rr_goroutines r)" "has_agent (go_phase g')"
      by (auto simp: tally_zero)
    then show False
      using stuck_waits [OF assms(4) g'(1)] limit assms(3) by (auto simp: waits_full_def)
  qed
  then show ?thesis using queue by (simp add: quiet_def)
qed

text \<open>What is left to do: every step of the runner's own takes something off.\<close>

fun rank :: "phase \<Rightarrow> nat" where
  "rank Registering = 30" | "rank Checking = 29" | "rank Limiting = 28" | "rank AgentWait = 27"
| "rank Beginning = 26" | "rank TaskWait = 25" | "rank Marking = 24" | "rank Executing = 23"
| "rank Running = 22" | "rank (Releasing ends) = (if ends then 21 else 2)" | "rank (Ending holding) = 20"
| "rank (SlotBack holding n) = (if n = None then 4 else 37)"
| "rank (Passing holding n) = (if n = None then 3 else 36)"
| "rank Leaving = 1" | "rank Gone = 0"

definition parked_total :: "(uuid \<Rightarrow> RunJob list) \<Rightarrow> nat" where
  "parked_total f = (\<Sum>T \<in> UNIV. length (f T))"

definition left_to_do :: "Runner \<Rightarrow> nat" where
  "left_to_do r = 33 * length (rr_queue r) + sum_list (map (\<lambda>g. rank (go_phase g)) (rr_goroutines r)) +
     20 * parked_total (rr_parked r) + (if rr_loop r = Polling then 1 else 0)"

lemma sum_list_update:
  "i < length xs \<Longrightarrow> sum_list (map f (xs[i := y])) + (f (xs ! i) :: nat) = sum_list (map f xs) + f y"
proof (induction xs arbitrary: i)
  case (Cons x xs)
  then show ?case by (cases i) auto
qed simp

lemma parked_total_upd: "parked_total (f(x := ys)) + length (f x) = parked_total f + length ys"
  by (simp add: parked_total_def sum.remove [of UNIV x])

lemma left_to_do_go_to:
  assumes "rr_goroutines r1 = rr_goroutines r" and "i < length (rr_goroutines r)"
  shows "left_to_do (go_to i ph r1) + rank (go_phase (rr_goroutines r ! i)) = rank ph + left_to_do r1"
  using sum_list_update [OF assms(2), of "\<lambda>g. rank (go_phase g)" "(rr_goroutines r ! i)\<lparr>go_phase := ph\<rparr>"] assms(1)
  by (simp add: left_to_do_def go_to_def)

lemma left_to_do_cong:
  "rr_queue r1 = rr_queue r \<Longrightarrow> rr_goroutines r1 = rr_goroutines r \<Longrightarrow> rr_parked r1 = rr_parked r \<Longrightarrow>
   rr_loop r1 = rr_loop r \<Longrightarrow> left_to_do r1 = left_to_do r"
  by (simp add: left_to_do_def)

lemma beginTask_left:
  "beginTask j r = (ph, r1) \<Longrightarrow> left_to_do r1 + rank ph < left_to_do r + 26"
  using parked_total_upd [of "rr_parked r" "job_task j" "rr_parked r (job_task j) @ [j]"]
  by (auto simp: beginTask_def left_to_do_def Let_def split: if_splits option.splits)

lemma endTask_left:
  assumes "endTask h x r = (ph, r1)"
  shows "left_to_do r1 + rank ph < left_to_do r + 20"
proof -
  have "parked_total ((rr_parked r)(x := tl (rr_parked r x))) + length (rr_parked r x) =
      parked_total (rr_parked r) + length (tl (rr_parked r x))"
    by (rule parked_total_upd)
  then show ?thesis
    using assms by (cases "rr_parked r x") (auto simp: endTask_def left_to_do_def Let_def split: if_splits)
qed

lemma Enqueue_left: "left_to_do (Enqueue j r) \<le> left_to_do r + 33"
  by (simp add: Enqueue_def left_to_do_def)

lemma internal_step_less:
  assumes "internal e" and step: "runner_step e r = Some r'"
  shows "left_to_do r' < left_to_do r"
proof (cases e)
  case Poll
  then show ?thesis using step by (auto simp: left_to_do_def split: if_splits)
next
  case Receive
  then show ?thesis using step by (auto simp: left_to_do_def split: if_splits list.splits)
next
  case (Go i a)
  then have i: "i < length (rr_goroutines r)" and adv: "advance i a r = Some r'"
    using step by (simp_all split: if_splits)
  note moved = left_to_do_go_to [OF _ i]
  have same: "left_to_do (go_to i ph r1) < left_to_do r"
    if "rr_goroutines r1 = rr_goroutines r" "rr_queue r1 = rr_queue r" "rr_parked r1 = rr_parked r"
      "rr_loop r1 = rr_loop r" "rank ph < rank (go_phase (rr_goroutines r ! i))" for ph r1
    using moved [OF that(1), of ph] left_to_do_cong [OF that(2,1,3,4)] that(5) by simp
  from adv show ?thesis
  proof (cases rule: advance_cases)
    case (beginning ph r1)
    then show ?thesis
      using moved [OF beginTask_kept(1) [OF beginning(2)], of ph] beginTask_left [OF beginning(2)] by simp
  next
    case (ending h ph r1)
    then show ?thesis
      using moved [OF endTask_kept(1) [OF ending(2)], of ph] endTask_left [OF ending(2)] by simp
  next
    case (passed h j)
    then show ?thesis
      using moved [of "Enqueue j r" "if h then Releasing False else Leaving"] Enqueue_left [of j r]
      by (cases h) simp_all
  next
    case (passed_none h n)
    then show ?thesis by (cases h) (auto intro!: same)
  next
    case (releasing ends)
    then show ?thesis by (cases ends) (auto intro!: same)
  qed (auto intro!: same)
qed (use assms(1) in \<open>simp_all add: internal_def\<close>)

text \<open>
  C36: The runner's own steps come to an end: from any state, and whatever the goroutines are answered,
  there are no more of them than \<open>left_to_do\<close> counts, 33 for every job in the queue, up to 37 for every
  goroutine and 20 for every parked job.
\<close>
theorem runner_settles:
  assumes "runner_steps es r = Some r'" and "\<forall>e \<in> set es. internal e"
  shows "length es + left_to_do r' \<le> left_to_do r"
  using assms
proof (induction es arbitrary: r)
  case (Cons e es)
  then obtain r1 where r1: "runner_step e r = Some r1" "runner_steps es r1 = Some r'"
    by (auto split: option.splits)
  have "left_to_do r1 < left_to_do r"
    using internal_step_less [OF _ r1(1)] Cons.prems(2) by simp
  moreover have "length es + left_to_do r' \<le> left_to_do r1"
    using Cons.IH [OF r1(2)] Cons.prems(2) by simp
  ultimately show ?case by simp
qed simp

section \<open>Runs of the runner, and two ways it gets stuck\<close>

definition sample_job :: "uuid \<Rightarrow> uuid \<Rightarrow> RunJob" where
  "sample_job runID taskID =
     \<lparr>job_Run = (pending_run taskID 9 3)\<lparr>run_ID := runID\<rparr>,
      job_Event = \<lparr>ev_ID = 3, ev_RepositoryID = 1, ev_TaskID = taskID, ev_EventType = BoardEventTaskMoved,
        ev_Payload = None, ev_ActorUserID = None, ev_CreatedAt = 0\<rparr>,
      job_Task = zero_BoardTask\<lparr>bt_ID := taskID\<rparr>, job_RepositoryID = 1, job_EnteredFrom = '''',
      job_ColumnInstruction = ''''\<rparr>"

definition answers :: "int \<Rightarrow> int \<Rightarrow> run_answers" where
  "answers agents tasks = \<lparr>an_row = None, an_settings = Some (Inr (agents, tasks)), an_claimed = True\<rparr>"

text \<open>\<open>n\<close> jobs are taken from the queue; \<open>n\<close> steps of goroutine \<open>i\<close>.\<close>

definition take_jobs :: "nat \<Rightarrow> runner_event list" where
  "take_jobs n = concat (replicate n [Poll, Receive])"

definition steps_of :: "nat \<Rightarrow> nat \<Rightarrow> run_answers \<Rightarrow> runner_event list" where
  "steps_of n i a = replicate n (Go i a)"

definition two_of_a_task :: "runner_event list" where
  "two_of_a_task = map Arrive [sample_job 1 5, sample_job 2 5] @ take_jobs 2 @
     steps_of 8 0 (answers 2 1) @ steps_of 5 1 (answers 2 1)"

lemma two_of_a_task_run:
  "case runner_steps two_of_a_task NewRunner of
     None \<Rightarrow> False
   | Some r \<Rightarrow> map go_phase (rr_goroutines r) = [Running, Releasing False] \<and>
       map go_task (rr_goroutines r) = [5, 5]"
  by code_simp

fun stay_in :: "runner_event list \<Rightarrow> Runner \<Rightarrow> bool" where
  "stay_in [] r = True"
| "stay_in (e # es) r = (\<not> falls_out e r \<and> (case runner_step e r of None \<Rightarrow> False | Some r1 \<Rightarrow> stay_in es r1))"

lemma smooth_steps: "smooth r \<Longrightarrow> stay_in es r \<Longrightarrow> runner_steps es r = Some r' \<Longrightarrow> smooth r'"
  by (induction es arbitrary: r) (auto split: option.splits intro: smooth_step)

definition blocked_runner :: "Runner \<Rightarrow> bool" where
  "blocked_runner r \<longleftrightarrow> rr_loop r = Receiving \<and> rr_queue r = [] \<and> \<not> rr_over r \<and>
     list_all (\<lambda>g. go_phase g = Gone \<or>
       \<not> go_over g \<and> (go_phase g = AgentWait \<and> 0 < sg_limit (rr_agentSlots r) \<and> sg_limit (rr_agentSlots r) \<le> sg_used (rr_agentSlots r) \<or>
         go_phase g = TaskWait \<and> 0 < sg_limit (rr_taskSlots r) \<and> sg_limit (rr_taskSlots r) \<le> sg_used (rr_taskSlots r)))
       (rr_goroutines r)"

lemma blocked_stuck:
  assumes "blocked_runner r"
  shows "stuck r"
  unfolding stuck_def
proof (intro allI impI)
  fix e
  assume "internal e"
  show "runner_step e r = None"
  proof (cases e)
    case (Go i a)
    have "advance i a r = None" if "i < length (rr_goroutines r)"
      using assms that unfolding blocked_runner_def list_all_length
      by (auto simp: advance_def Let_def slot_acquire_def)
    then show ?thesis using Go by simp
  qed (use assms \<open>internal e\<close> in \<open>auto simp: blocked_runner_def internal_def\<close>)
qed

text \<open>Two runs of one task: the first works, the second is parked, woken and works.\<close>

definition both_done :: "run_answers \<Rightarrow> runner_event list" where
  "both_done a = map Arrive [sample_job 1 5, sample_job 2 5] @ take_jobs 2 @
     steps_of 8 0 a @ steps_of 7 1 a @ steps_of 6 0 a @ take_jobs 1 @ steps_of 14 2 a @ [Poll]"

lemma both_done_run:
  "case runner_steps (both_done (answers 2 1)) NewRunner of
     None \<Rightarrow> False
   | Some r \<Rightarrow> map go_phase (rr_goroutines r) = [Gone, Gone, Gone] \<and> rr_queue r = [] \<and> blocked_runner r"
  by code_simp

lemma both_done_stay: "stay_in (both_done (answers 2 1)) NewRunner"
  by code_simp

text \<open>
  A run that a human stops while it is queued is skipped when its turn comes, and the runs parked behind
  it are not woken: the runner comes to rest with a job parked and a task slot taken.
\<close>

definition stopped_in_line :: "runner_event list" where
  "stopped_in_line = map Arrive [sample_job 1 5, sample_job 2 5, sample_job 3 5] @ take_jobs 3 @
     steps_of 8 0 (answers 2 1) @ steps_of 7 1 (answers 2 1) @ steps_of 7 2 (answers 2 1) @
     steps_of 5 0 (answers 2 1) @ take_jobs 1 @
     steps_of 3 3 ((answers 2 1)\<lparr>an_row := Some (Inr ((pending_run 5 9 3)\<lparr>run_Status := TaskAgentRunStatusCancelled\<rparr>))\<rparr>)"

lemma stopped_run_strands:
  "case runner_steps stopped_in_line NewRunner of
     None \<Rightarrow> False
   | Some r \<Rightarrow> list_all (\<lambda>g. go_phase g = Gone) (rr_goroutines r) \<and> rr_queue r = [] \<and>
       map job_id (rr_parked r 5) = [3] \<and> sg_used (rr_taskSlots r) = 1 \<and> sg_limit (rr_taskSlots r) = 1"
  by code_simp

text \<open>
  With both limits on, no job falling out and nobody stopped, the runner can get stuck: the slot of a
  task whose next run is queued stays taken while two runs of other tasks wait for it with all the
  agent slots, and the queued run waits for an agent slot.
\<close>

definition crossed_waits :: "runner_event list" where
  "crossed_waits =
     map Arrive [sample_job 1 5, sample_job 2 5, sample_job 3 5, sample_job 4 6, sample_job 5 7] @ take_jobs 5 @
     steps_of 8 0 (answers 2 1) @ steps_of 7 1 (answers 2 1) @ steps_of 7 2 (answers 2 1) @
     steps_of 5 3 (answers 2 1) @ steps_of 3 4 (answers 2 1) @ steps_of 2 0 (answers 2 1) @
     steps_of 2 4 (answers 2 1) @ steps_of 3 0 (answers 2 1) @ take_jobs 1 @ steps_of 3 5 (answers 2 1) @ [Poll]"

lemma slots_deadlock:
  "stay_in crossed_waits NewRunner \<and>
   (case runner_steps crossed_waits NewRunner of
      None \<Rightarrow> False
    | Some r \<Rightarrow> blocked_runner r \<and>
        map go_phase (rr_goroutines r) = [Gone, Gone, Gone, TaskWait, TaskWait, AgentWait])"
  by code_simp

section \<open>Witnesses\<close>

lemma one_run_per_task_witness:
  "\<exists>r. runner_steps two_of_a_task NewRunner = Some r \<and> go_phase (rr_goroutines r ! 0) = Running \<and>
     go_phase (rr_goroutines r ! 1) \<notin> {Executing, Running}"
proof -
  obtain r where r: "runner_steps two_of_a_task NewRunner = Some r"
    and ph: "map go_phase (rr_goroutines r) = [Running, Releasing False]"
    and task: "map go_task (rr_goroutines r) = [5, 5]"
    using two_of_a_task_run by (auto split: option.splits)
  have len: "length (rr_goroutines r) = 2" using arg_cong [OF ph, of length] by simp
  have 0: "go_phase (rr_goroutines r ! 0) = Running"
    using arg_cong [OF ph, of "\<lambda>xs. xs ! 0"] len by simp
  have same: "go_task (rr_goroutines r ! 0) = 5" "go_task (rr_goroutines r ! 1) = 5"
    using arg_cong [OF task, of "\<lambda>xs. xs ! 0"] arg_cong [OF task, of "\<lambda>xs. xs ! 1"] len by simp_all
  have "go_phase (rr_goroutines r ! 1) \<notin> {Executing, Running}"
  proof
    assume "go_phase (rr_goroutines r ! 1) \<in> {Executing, Running}"
    then have "(0::nat) = 1"
      using one_run_per_task [OF reached_run [OF r], of 0 1] len 0 same by (simp add: uuid_Nil_def)
    then show False by simp
  qed
  then show ?thesis using r 0 by blast
qed

lemma limits_respected_witness:
  "\<exists>r. runner_steps (both_done (answers 2 1)) NewRunner = Some r \<and> int (length (at_work r)) \<le> 2 \<and>
     int (card (go_task ` set (at_work r) - {uuid_Nil})) \<le> 1"
proof -
  obtain r where r: "runner_steps (both_done (answers 2 1)) NewRunner = Some r"
    using both_done_run by (auto split: option.splits)
  have "list_all (limits_within 2 1) (both_done (answers 2 1))" by code_simp
  then show ?thesis
    using limits_respected [OF r, of 2 1] r by (auto simp: list_all_iff)
qed

lemma both_done_quiet:
  obtains r where "runner_steps (both_done (answers 2 1)) NewRunner = Some r" "smooth r" "quiet r" "stuck r" "rr_loop r = Receiving"
proof -
  obtain r where r: "runner_steps (both_done (answers 2 1)) NewRunner = Some r"
    and ph: "map go_phase (rr_goroutines r) = [Gone, Gone, Gone]" and q: "rr_queue r = []" and b: "blocked_runner r"
    using both_done_run by (auto split: option.splits)
  have "set (map go_phase (rr_goroutines r)) = {Gone}" by (simp add: ph)
  then have "quiet r" using q by (auto simp: quiet_def)
  then show ?thesis
    using that r smooth_steps [OF smooth_new both_done_stay r] blocked_stuck [OF b] b by (simp add: blocked_runner_def)
qed

lemma quiet_runner_is_empty_witness:
  "\<exists>r. runner_steps (both_done (answers 2 1)) NewRunner = Some r \<and> rr_parked r 5 = [] \<and>
     sg_used (rr_taskSlots r) = 0"
proof -
  obtain r where r: "runner_steps (both_done (answers 2 1)) NewRunner = Some r" "smooth r" "quiet r"
    by (rule both_done_quiet)
  then show ?thesis using quiet_runner_is_empty [OF r(2,3), of 5] by blast
qed

text \<open>The same two runs, with no limit on agents or tasks.\<close>

lemma unlimited_run:
  "stay_in (both_done (answers 0 0)) NewRunner \<and>
   (case runner_steps (both_done (answers 0 0)) NewRunner of
      None \<Rightarrow> False
    | Some r \<Rightarrow> blocked_runner r \<and> sg_limit (rr_agentSlots r) = 0)"
  by code_simp

lemma runner_never_stuck_witness:
  "\<exists>r. runner_steps (both_done (answers 0 0)) NewRunner = Some r \<and> quiet r"
proof -
  obtain r where r: "runner_steps (both_done (answers 0 0)) NewRunner = Some r" "blocked_runner r"
    "sg_limit (rr_agentSlots r) = 0"
    using unlimited_run by (auto split: option.splits)
  have "smooth r" using smooth_steps [OF smooth_new _ r(1)] unlimited_run by blast
  moreover have "rr_loop r \<noteq> Exited" using r(2) by (simp add: blocked_runner_def)
  ultimately show ?thesis using runner_never_stuck [of r] blocked_stuck [OF r(2)] r(1,3) by blast
qed

lemma runner_settles_witness:
  "\<exists>r'. runner_steps (take_jobs 1 @ steps_of 14 0 (answers 0 0)) (Enqueue (sample_job 1 5) NewRunner) = Some r' \<and>
     16 + left_to_do r' \<le> left_to_do (Enqueue (sample_job 1 5) NewRunner)"
proof -
  let ?es = "take_jobs 1 @ steps_of 14 0 (answers 0 0)"
  have "case runner_steps ?es (Enqueue (sample_job 1 5) NewRunner) of None \<Rightarrow> False | Some r \<Rightarrow> True"
    by code_simp
  then obtain r' where r': "runner_steps ?es (Enqueue (sample_job 1 5) NewRunner) = Some r'"
    by (auto split: option.splits)
  have "\<forall>e \<in> set ?es. internal e"
    by (auto simp: take_jobs_def steps_of_def internal_def)
  then show ?thesis
    using runner_settles [OF r'] r' by (simp add: take_jobs_def steps_of_def)
qed

end
