(* ===== verification/Cuts.thy ===== *)
theory Cuts
  imports Prelude
begin

text \<open>
  Texts cut to a number of bytes: \<open>TruncateHead\<close> and \<open>TruncateTail\<close> of
  \<open>server/internal/domain/text.go\<close>, which never cut a rune in two, and \<open>ShortSHA\<close> of
  \<open>domain/release_gate.go\<close>. A string is the list of its bytes.
\<close>

section \<open>Cuts\<close>

definition RuneStart :: "char \<Rightarrow> bool" where
  "RuneStart c \<longleftrightarrow> (let n = of_char c :: nat in n < 0x80 \<or> 0xC0 \<le> n)"

text \<open>The loop \<open>for cut > 0 && !RuneStart(s[cut])\<close> and its mirror image.\<close>

fun cut_back :: "string \<Rightarrow> nat \<Rightarrow> nat" where
  "cut_back s 0 = 0"
| "cut_back s (Suc n) = (if \<not> RuneStart (s ! Suc n) then cut_back s n else Suc n)"

fun drop_continuations :: "string \<Rightarrow> string" where
  "drop_continuations [] = []"
| "drop_continuations (c # cs) = (if \<not> RuneStart c then drop_continuations cs else c # cs)"

definition TruncateHead :: "string \<Rightarrow> int \<Rightarrow> string" where
  "TruncateHead s maxBytes =
     (if maxBytes \<le> 0 then '''' else if int (length s) \<le> maxBytes then s
      else take (cut_back s (nat maxBytes)) s)"

definition TruncateTail :: "string \<Rightarrow> int \<Rightarrow> string" where
  "TruncateTail s maxBytes =
     (if maxBytes \<le> 0 then '''' else if int (length s) \<le> maxBytes then s
      else drop_continuations (drop (length s - nat maxBytes) s))"

definition ShortSHA :: "string \<Rightarrow> string" where
  "ShortSHA sha = (if length sha < 12 then sha else take 12 sha)"

section \<open>What a cut keeps\<close>

text \<open>A text is a list of runes: a rune starts with a start byte and goes on with others.\<close>

definition rune :: "string \<Rightarrow> bool" where
  "rune r \<longleftrightarrow> (case r of [] \<Rightarrow> False | c # cs \<Rightarrow> RuneStart c \<and> list_all (\<lambda>d. \<not> RuneStart d) cs)"

lemma cut_back_le: "cut_back s n \<le> n"
  by (induction n) auto

lemma cut_back_start: "cut_back s n = 0 \<or> RuneStart (s ! cut_back s n)"
  by (induction n) auto

lemma cut_back_skips: "cut_back s n < m \<Longrightarrow> m \<le> n \<Longrightarrow> \<not> RuneStart (s ! m)"
proof (induction n)
  case (Suc n)
  then show ?case by (cases "m = Suc n") (auto split: if_splits)
qed simp

text \<open>The start bytes of a text are where its runes start.\<close>

lemma rune_starts:
  assumes "list_all rune rs" and "i < length (concat rs)"
  shows "RuneStart (concat rs ! i) \<longleftrightarrow> (\<exists>k < length rs. i = length (concat (take k rs)))"
  using assms
proof (induction rs arbitrary: i)
  case (Cons r rs)
  obtain c cs where r: "r = c # cs" "RuneStart c" "list_all (\<lambda>d. \<not> RuneStart d) cs"
    using Cons.prems(1) by (cases r) (auto simp: rune_def)
  show ?case
  proof (cases "i < length r")
    case True
    then have "RuneStart (concat (r # rs) ! i) \<longleftrightarrow> i = 0"
      using r by (cases i) (auto simp: nth_append list_all_length)
    moreover have "i = 0 \<longleftrightarrow> (\<exists>k < length (r # rs). i = length (concat (take k (r # rs))))"
    proof
      assume "i = 0"
      then show "\<exists>k < length (r # rs). i = length (concat (take k (r # rs)))" by (intro exI [of _ 0]) simp
    next
      assume "\<exists>k < length (r # rs). i = length (concat (take k (r # rs)))"
      then obtain k where "i = length (concat (take k (r # rs)))" by blast
      then show "i = 0" using True by (cases k) auto
    qed
    ultimately show ?thesis by blast
  next
    case False
    have ih: "RuneStart (concat rs ! (i - length r)) \<longleftrightarrow>
        (\<exists>k < length rs. i - length r = length (concat (take k rs)))"
      using Cons.IH [of "i - length r"] Cons.prems False by simp
    have "(\<exists>k < length (r # rs). i = length (concat (take k (r # rs)))) \<longleftrightarrow>
        (\<exists>k < length rs. i - length r = length (concat (take k rs)))"
    proof
      assume "\<exists>k < length (r # rs). i = length (concat (take k (r # rs)))"
      then obtain k where k: "k < length (r # rs)" "i = length (concat (take k (r # rs)))" by blast
      then obtain k' where "k = Suc k'" using False r by (cases k) auto
      then show "\<exists>k < length rs. i - length r = length (concat (take k rs))" using k by auto
    next
      assume "\<exists>k < length rs. i - length r = length (concat (take k rs))"
      then obtain k where "k < length rs" "i - length r = length (concat (take k rs))" by blast
      then show "\<exists>k < length (r # rs). i = length (concat (take k (r # rs)))"
        using False by (intro exI [of _ "Suc k"]) auto
    qed
    then show ?thesis using ih False by (simp add: nth_append)
  qed
qed simp

text \<open>
  Cutting a text to a number of bytes keeps the longest run of whole runes that fits: what is left
  are the text's first runes, within the bound, and one more rune would not have fitted.
\<close>
theorem head_keeps_whole_runes:
  assumes "list_all rune rs" and "0 < n" and "n < int (length (concat rs))"
  shows "\<exists>k < length rs. TruncateHead (concat rs) n = concat (take k rs) \<and>
    int (length (concat (take k rs))) \<le> n \<and> n < int (length (concat (take (Suc k) rs)))"
proof -
  let ?s = "concat rs" and ?cut = "cut_back (concat rs) (nat n)"
  have cut: "TruncateHead ?s n = take ?cut ?s" using assms by (simp add: TruncateHead_def)
  have le: "?cut \<le> nat n" by (rule cut_back_le)
  have rs: "rs \<noteq> []" using assms by auto
  have first: "RuneStart (?s ! 0)"
    using assms(1) rs by (cases rs) (auto simp: rune_def split: list.splits)
  have bound: "?cut < length ?s" using le assms by linarith
  have "RuneStart (?s ! ?cut)" using cut_back_start [of ?s "nat n"] first by auto
  then obtain k where k: "k < length rs" "?cut = length (concat (take k rs))"
    using rune_starts [OF assms(1) bound] by blast
  have "take ?cut ?s = concat (take k rs)"
    using k by (metis append_eq_conv_conj append_take_drop_id concat_append)
  moreover have "n < int (length (concat (take (Suc k) rs)))"
  proof (rule ccontr)
    let ?next = "length (concat (take (Suc k) rs))"
    assume "\<not> n < int ?next"
    then have next_le: "?next \<le> nat n" by linarith
    have "rs ! k \<noteq> []" using assms(1) k(1) by (auto simp: list_all_length rune_def split: list.splits)
    then have more: "?cut < ?next" using k by (simp add: take_Suc_conv_app_nth)
    have "?next < length ?s" using next_le assms(2,3) by linarith
    moreover have "Suc k < length rs"
    proof (rule ccontr)
      assume "\<not> Suc k < length rs"
      then have "take (Suc k) rs = rs" by simp
      then show False using calculation by simp
    qed
    ultimately have "RuneStart (?s ! ?next)" using rune_starts [OF assms(1)] by blast
    then show False using cut_back_skips [OF more next_le] by simp
  qed
  ultimately show ?thesis using cut k le assms(2) by (intro exI [of _ k]) auto
qed

definition dash_text :: "string list" where
  "dash_text = [''a'', [CHR 0xE2, CHR 0x80, CHR 0x94], ''b'']"

lemma head_keeps_whole_runes_witness:
  "\<exists>k < length dash_text. TruncateHead (concat dash_text) 3 = concat (take k dash_text) \<and>
     int (length (concat (take k dash_text))) \<le> 3 \<and> 3 < int (length (concat (take (Suc k) dash_text)))"
  by (rule head_keeps_whole_runes) code_simp+

end
