(* ===== verification/Pipelines.thy ===== *)
theory Pipelines
  imports Dispatcher Cuts
begin

text \<open>
  The CI pipelines of a task: the types of \<open>server/internal/domain/pipeline.go\<close> and \<open>PipelineStore\<close> of
  \<open>server/internal/adapter/storage/postgres/pipeline.go\<close>. The tables are the lists of their rows in
  insertion order; \<open>gen_random_uuid()\<close> and \<open>now()\<close> are arguments. The coverage percentages, floats
  that no decision reads, are left out.
\<close>

section \<open>Types\<close>

type_synonym PipelineTrigger = string
type_synonym PipelineStatus = string

named_theorems pipe_defs

definition PipelineTriggerReadyForQA :: PipelineTrigger where
  [pipe_defs]: "PipelineTriggerReadyForQA = ''ready_for_qa''"
definition PipelineTriggerManual :: PipelineTrigger where [pipe_defs]: "PipelineTriggerManual = ''manual''"
definition PipelineTriggerRetry :: PipelineTrigger where [pipe_defs]: "PipelineTriggerRetry = ''retry''"
definition PipelineTriggerStageDeploy :: PipelineTrigger where
  [pipe_defs]: "PipelineTriggerStageDeploy = ''stage_deploy''"
definition PipelineTriggerPreProdDeploy :: PipelineTrigger where
  [pipe_defs]: "PipelineTriggerPreProdDeploy = ''preprod_deploy''"
definition PipelineTriggerProdDeploy :: PipelineTrigger where
  [pipe_defs]: "PipelineTriggerProdDeploy = ''prod_deploy''"

definition PipelineStatusPending :: PipelineStatus where [pipe_defs]: "PipelineStatusPending = ''pending''"
definition PipelineStatusRunning :: PipelineStatus where [pipe_defs]: "PipelineStatusRunning = ''running''"
definition PipelineStatusSuccess :: PipelineStatus where [pipe_defs]: "PipelineStatusSuccess = ''success''"
definition PipelineStatusFailed :: PipelineStatus where [pipe_defs]: "PipelineStatusFailed = ''failed''"
definition PipelineStatusSkipped :: PipelineStatus where [pipe_defs]: "PipelineStatusSkipped = ''skipped''"

definition PipelineStatusOpensGate :: "PipelineStatus \<Rightarrow> bool" where
  "PipelineStatusOpensGate s \<longleftrightarrow> s = PipelineStatusSuccess \<or> s = PipelineStatusSkipped"

definition PipelineJobStatusSuccess :: string where [pipe_defs]: "PipelineJobStatusSuccess = ''success''"
definition PipelineJobStatusFailed :: string where [pipe_defs]: "PipelineJobStatusFailed = ''failed''"
definition PipelineJobStatusSkipped :: string where [pipe_defs]: "PipelineJobStatusSkipped = ''skipped''"

definition PipelineProviderGitHubActions :: string where
  [pipe_defs]: "PipelineProviderGitHubActions = ''github_actions''"
definition PipelineProviderNone :: string where [pipe_defs]: "PipelineProviderNone = ''none''"

definition PipelineGateReasonTimeout :: string where [pipe_defs]: "PipelineGateReasonTimeout = ''timeout''"
definition PipelineGateReasonCIUnavailable :: string where
  [pipe_defs]: "PipelineGateReasonCIUnavailable = ''ci_unavailable''"
definition PipelineGateReasonNoCI :: string where [pipe_defs]: "PipelineGateReasonNoCI = ''no_ci_configured''"

record TaskPipelineJob =
  pj_ID :: uuid
  pj_PipelineID :: uuid
  pj_Name :: string
  pj_Command :: string
  pj_Status :: string
  pj_ExitCode :: "int option"
  pj_Output :: string
  pj_DurationMS :: int
  pj_Position :: int
  pj_RunURL :: string

record TaskPipeline =
  pl_ID :: uuid
  pl_TaskID :: uuid
  pl_RepositoryID :: uuid
  pl_Trigger :: PipelineTrigger
  pl_Status :: PipelineStatus
  pl_Provider :: string
  pl_Note :: string
  pl_HeadSHA :: string
  pl_GateReason :: string
  pl_CreatedAt :: time
  pl_StartedAt :: "time option"
  pl_FinishedAt :: "time option"
  pl_Jobs :: "TaskPipelineJob list"

record TaskPipelineDigest =
  pd_Status :: string
  pd_GateReason :: string

definition isDeployTrigger :: "PipelineTrigger \<Rightarrow> bool" where
  "isDeployTrigger t \<longleftrightarrow>
     t = PipelineTriggerStageDeploy \<or> t = PipelineTriggerPreProdDeploy \<or> t = PipelineTriggerProdDeploy"

definition isProdOrPreProdDeployTrigger :: "PipelineTrigger \<Rightarrow> bool" where
  "isProdOrPreProdDeployTrigger t \<longleftrightarrow> t = PipelineTriggerPreProdDeploy \<or> t = PipelineTriggerProdDeploy"

definition unfinished :: "TaskPipeline \<Rightarrow> bool" where
  "unfinished p \<longleftrightarrow> pl_Status p = PipelineStatusPending \<or> pl_Status p = PipelineStatusRunning"

section \<open>The tables\<close>

record PipelineTables =
  pt_pipelines :: "TaskPipeline list"
  pt_jobs :: "TaskPipelineJob list"

text \<open>A row of the table never carries jobs: they are read from their own table.\<close>

definition pipeline_Create :: "uuid \<Rightarrow> time \<Rightarrow> TaskPipeline \<Rightarrow> PipelineTables \<Rightarrow> TaskPipeline \<times> PipelineTables" where
  "pipeline_Create newID at p t =
     (let row = p\<lparr>pl_ID := newID, pl_CreatedAt := at, pl_StartedAt := None, pl_FinishedAt := None,
                  pl_Jobs := []\<rparr>
      in (row, t\<lparr>pt_pipelines := pt_pipelines t @ [row]\<rparr>))"

definition written_pipeline :: "TaskPipeline \<Rightarrow> TaskPipeline \<Rightarrow> TaskPipeline" where
  "written_pipeline p row =
     row\<lparr>pl_Status := pl_Status p, pl_Note := pl_Note p, pl_StartedAt := pl_StartedAt p,
         pl_FinishedAt := pl_FinishedAt p, pl_Provider := pl_Provider p, pl_HeadSHA := pl_HeadSHA p,
         pl_GateReason := pl_GateReason p\<rparr>"

definition change_pipelines ::
  "(TaskPipeline \<Rightarrow> bool) \<Rightarrow> (TaskPipeline \<Rightarrow> TaskPipeline) \<Rightarrow> PipelineTables \<Rightarrow> PipelineTables" where
  "change_pipelines P f t =
     t\<lparr>pt_pipelines := map (\<lambda>row. if P row then f row else row) (pt_pipelines t)\<rparr>"

definition pipeline_row :: "uuid \<Rightarrow> PipelineTables \<Rightarrow> TaskPipeline option" where
  "pipeline_row i t = find (\<lambda>row. pl_ID row = i) (pt_pipelines t)"

definition pipeline_Update :: "TaskPipeline \<Rightarrow> PipelineTables \<Rightarrow> (go_error + TaskPipeline) \<times> PipelineTables" where
  "pipeline_Update p t =
     (case pipeline_row (pl_ID p) t of
        None \<Rightarrow> (Inl (ErrWrap ''update task pipeline'' (ErrStore ''no rows in result set'')), t)
      | Some row \<Rightarrow>
          (Inr (written_pipeline p row),
           change_pipelines (\<lambda>row. pl_ID row = pl_ID p) (written_pipeline p) t))"

definition pipeline_ClaimTerminal ::
  "TaskPipeline \<Rightarrow> PipelineTables \<Rightarrow> (go_error + TaskPipeline option) \<times> PipelineTables" where
  "pipeline_ClaimTerminal p t =
     (case pipeline_row (pl_ID p) t of
        None \<Rightarrow> (Inr None, t)
      | Some row \<Rightarrow>
          if \<not> unfinished row then (Inr None, t)
          else (Inr (Some (written_pipeline p row)),
                change_pipelines (\<lambda>row. pl_ID row = pl_ID p) (written_pipeline p) t))"

definition pipeline_SupersedePending :: "time \<Rightarrow> uuid \<Rightarrow> PipelineTables \<Rightarrow> PipelineTables" where
  "pipeline_SupersedePending at taskID =
     change_pipelines (\<lambda>row. pl_TaskID row = taskID \<and> pl_Status row = PipelineStatusPending)
       (\<lambda>row. row\<lparr>pl_Status := PipelineStatusFailed, pl_Note := ''superseded'', pl_FinishedAt := Some at\<rparr>)"

definition pipeline_FailStaleRunning :: "time \<Rightarrow> int \<Rightarrow> PipelineTables \<Rightarrow> PipelineTables" where
  "pipeline_FailStaleRunning at cutoffMinutes =
     (let cutoff = (if cutoffMinutes < 0 then 0 else cutoffMinutes) in
      change_pipelines (\<lambda>row. unfinished row \<and> pl_CreatedAt row < at - cutoff * 60 * 1000000000)
        (\<lambda>row. row\<lparr>pl_Status := PipelineStatusFailed, pl_Note := ''interrupted'', pl_FinishedAt := Some at\<rparr>))"

definition pipeline_CreateJob :: "uuid \<Rightarrow> TaskPipelineJob \<Rightarrow> PipelineTables \<Rightarrow> TaskPipelineJob \<times> PipelineTables" where
  "pipeline_CreateJob newID j t =
     (let row = j\<lparr>pj_ID := newID\<rparr> in (row, t\<lparr>pt_jobs := pt_jobs t @ [row]\<rparr>))"

definition pipeline_UpdateJob :: "TaskPipelineJob \<Rightarrow> PipelineTables \<Rightarrow> (go_error + TaskPipelineJob) \<times> PipelineTables" where
  "pipeline_UpdateJob j t =
     (let f = (\<lambda>row. row\<lparr>pj_Status := pj_Status j, pj_ExitCode := pj_ExitCode j, pj_Output := pj_Output j,
                          pj_DurationMS := pj_DurationMS j, pj_RunURL := pj_RunURL j\<rparr>)
      in case find (\<lambda>row. pj_ID row = pj_ID j) (pt_jobs t) of
           None \<Rightarrow> (Inl (ErrWrap ''update pipeline job'' (ErrStore ''no rows in result set'')), t)
         | Some row \<Rightarrow>
             (Inr (f row),
              t\<lparr>pt_jobs := map (\<lambda>row. if pj_ID row = pj_ID j then f row else row) (pt_jobs t)\<rparr>))"

section \<open>Reads\<close>

definition pipeline_ListJobs :: "PipelineTables \<Rightarrow> uuid \<Rightarrow> TaskPipelineJob list" where
  "pipeline_ListJobs t i = sort_key pj_Position (filter (\<lambda>j. pj_PipelineID j = i) (pt_jobs t))"

definition with_jobs :: "PipelineTables \<Rightarrow> TaskPipeline \<Rightarrow> TaskPipeline" where
  "with_jobs t row = row\<lparr>pl_Jobs := pipeline_ListJobs t (pl_ID row)\<rparr>"

definition pipeline_Get :: "PipelineTables \<Rightarrow> uuid \<Rightarrow> TaskPipeline option" where
  "pipeline_Get t i = map_option (with_jobs t) (pipeline_row i t)"

definition taskPipelineHistoryLimit :: nat where "taskPipelineHistoryLimit = 100"

definition newest_first :: "PipelineTables \<Rightarrow> uuid \<Rightarrow> TaskPipeline list" where
  "newest_first t taskID =
     sort_key (\<lambda>row. - pl_CreatedAt row) (filter (\<lambda>row. pl_TaskID row = taskID) (pt_pipelines t))"

definition pipeline_ListByTask :: "PipelineTables \<Rightarrow> uuid \<Rightarrow> TaskPipeline list" where
  "pipeline_ListByTask t taskID =
     map (with_jobs t) (take taskPipelineHistoryLimit (newest_first t taskID))"

definition pipeline_LatestByTask :: "PipelineTables \<Rightarrow> uuid \<Rightarrow> TaskPipeline option" where
  "pipeline_LatestByTask t taskID =
     (case newest_first t taskID of [] \<Rightarrow> None | row # rows \<Rightarrow> Some (with_jobs t row))"

text \<open>\<open>DISTINCT ON (task_id)\<close> keeps the newest row of each task.\<close>

definition pipeline_LatestStatusByTasks ::
  "PipelineTables \<Rightarrow> uuid list \<Rightarrow> uuid \<Rightarrow> TaskPipelineDigest option" where
  "pipeline_LatestStatusByTasks t taskIDs taskID =
     (if taskID \<notin> set taskIDs then None
      else case newest_first t taskID of
          [] \<Rightarrow> None
        | row # rows \<Rightarrow> Some \<lparr>pd_Status = pl_Status row, pd_GateReason = pl_GateReason row\<rparr>)"

definition pipeline_ListUnfinished :: "PipelineTables \<Rightarrow> int \<Rightarrow> TaskPipeline list" where
  "pipeline_ListUnfinished t limit =
     (let n = (if limit \<le> 0 \<or> limit > 500 then 100 else limit)
      in take (nat n) (sort_key pl_CreatedAt (filter unfinished (pt_pipelines t))))"

definition pipeline_ListUnfinishedByHeadSHA :: "PipelineTables \<Rightarrow> uuid \<Rightarrow> string \<Rightarrow> TaskPipeline list" where
  "pipeline_ListUnfinishedByHeadSHA t repositoryID headSHA =
     (if headSHA = '''' then []
      else sort_key pl_CreatedAt
        (filter (\<lambda>row. pl_RepositoryID row = repositoryID \<and> pl_HeadSHA row = headSHA \<and> unfinished row)
           (pt_pipelines t)))"

definition pipeline_RecentDeploys :: "PipelineTables \<Rightarrow> uuid \<Rightarrow> int \<Rightarrow> TaskPipeline list" where
  "pipeline_RecentDeploys t repositoryID limit =
     (let n = (if limit \<le> 0 \<or> limit > 50 then 10 else limit)
      in take (nat n) (sort_key (\<lambda>row. - the (pl_FinishedAt row))
           (filter (\<lambda>row. pl_RepositoryID row = repositoryID \<and> isDeployTrigger (pl_Trigger row) \<and>
              pl_FinishedAt row \<noteq> None) (pt_pipelines t))))"

end
