(* ===== verification/Bounce_Guard.thy ===== *)
theory Bounce_Guard
  imports Pipelines
begin

text \<open>
  The brake on a red build that nobody fixes: \<open>PipelineBounceGuard\<close> of
  \<open>server/internal/application/board/pipeline_bounce_guard.go\<close>. It lets one failure of a commit send
  the card back, and holds the card when the same commit fails again before a human has touched it.
  Stores and texts are ports; a guard that was not built, or lacks a port, is \<open>None\<close>.
\<close>

section \<open>The guard\<close>

record 's PipelineBounceGuard =
  bg_pipelines :: "('s \<Rightarrow> uuid \<Rightarrow> go_error + TaskPipeline list) option"
  bg_tasks :: "'s commenter option"
  bg_parker :: "(uuid \<Rightarrow> uuid \<Rightarrow> string \<Rightarrow> string \<Rightarrow> 's \<Rightarrow> (go_error + TaskColumn) \<times> 's) option"
  bg_parks :: "'s ParkJournal option"
  bg_events :: "('s \<Rightarrow> uuid \<Rightarrow> int \<Rightarrow> go_error + BoardEvent list) option"
  bg_reader :: "('s \<Rightarrow> uuid \<Rightarrow> uuid \<Rightarrow> go_error + BoardTask) option"
  bg_comment :: "string \<Rightarrow> string"
  bg_noteLabel :: string

datatype bounceAction = bounceFailOpen | bouncePark | bounceExplain | bounceSilent

definition MoveReasonPipelineLoopParked :: string where
  [col_defs]: "MoveReasonPipelineLoopParked = ''pipeline_loop_parked''"

text \<open>The zero time stands for no human event, as it does in the code.\<close>

definition humanTouchWindow :: "'s PipelineBounceGuard \<Rightarrow> uuid \<Rightarrow> time \<Rightarrow> 's \<Rightarrow> time option" where
  "humanTouchWindow g taskID reaches s =
     (case bg_events g of
        None \<Rightarrow> Some 0
      | Some listByTask \<Rightarrow>
          (case listByTask s taskID reviewLoopHistoryDepth of
             Inl err \<Rightarrow> None
           | Inr history \<Rightarrow>
               if reviewLoopHistoryDepth \<le> int (length history) \<and> \<not> historyReaches history reaches
               then None
               else Some (case lastHumanEventAt history of None \<Rightarrow> 0 | Some at \<Rightarrow> at)))"

definition pipelineBookkeepingNote :: "string \<Rightarrow> bool" where
  "pipelineBookkeepingNote note \<longleftrightarrow>
     str_Contains (ToLower note) ''supersede'' \<or> str_Contains (ToLower note) ''interrupted''"

definition pipelineReachedVerdict :: "TaskPipeline \<Rightarrow> bool" where
  "pipelineReachedVerdict p =
     (if pl_FinishedAt p = None then False
      else if TrimSpace (pl_Provider p) = '''' \<or> TrimSpace (pl_Provider p) = PipelineProviderNone then False
      else \<not> pipelineBookkeepingNote (pl_Note p))"

fun prior_loop :: "TaskPipeline \<Rightarrow> string \<Rightarrow> time \<Rightarrow> TaskPipeline list \<Rightarrow> int \<Rightarrow> int" where
  "prior_loop pipeline headSHA since [] n = n"
| "prior_loop pipeline headSHA since (other # history) n =
     (if pl_ID other = pl_ID pipeline then prior_loop pipeline headSHA since history n
      else if pl_Status other \<noteq> PipelineStatusFailed then prior_loop pipeline headSHA since history n
      else if isDeployTrigger (pl_Trigger other) then prior_loop pipeline headSHA since history n
      else if \<not> EqualFold (TrimSpace (pl_HeadSHA other)) headSHA
      then prior_loop pipeline headSHA since history n
      else if \<not> pipelineReachedVerdict other then prior_loop pipeline headSHA since history n
      else if pl_CreatedAt other > pl_CreatedAt pipeline then prior_loop pipeline headSHA since history n
      else if \<not> time_IsZero since \<and> \<not> pl_CreatedAt other > since
      then prior_loop pipeline headSHA since history n
      else prior_loop pipeline headSHA since history (n + 1))"

definition priorSameCommitFailures :: "TaskPipeline list \<Rightarrow> TaskPipeline \<Rightarrow> string \<Rightarrow> time \<Rightarrow> int" where
  "priorSameCommitFailures history pipeline headSHA since = prior_loop pipeline headSHA since history 0"

definition parkableTask :: "BoardTask \<Rightarrow> bool" where
  "parkableTask task \<longleftrightarrow> bt_Column task \<noteq> TaskColumnBlocked \<and> TrimSpace (bt_BlockedResource task) = ''''"

definition heldAction :: "BoardTask \<Rightarrow> bounceAction" where
  "heldAction task =
     (if bt_Column task \<noteq> TaskColumnBlocked then bounceSilent
      else if EqualFold (TrimSpace (bt_BlockedResource task)) ResourceHumanDecision then bounceSilent
      else bounceExplain)"

definition parkTarget :: "'s PipelineBounceGuard \<Rightarrow> uuid \<Rightarrow> BoardTask \<Rightarrow> 's \<Rightarrow> BoardTask \<times> bounceAction" where
  "parkTarget g repositoryID snapshot s =
     (case bg_reader g of
        None \<Rightarrow> if parkableTask snapshot then (snapshot, bouncePark) else (snapshot, heldAction snapshot)
      | Some getTask \<Rightarrow>
          (case getTask s repositoryID (bt_ID snapshot) of
             Inl err \<Rightarrow> (snapshot, bounceFailOpen)
           | Inr fresh \<Rightarrow>
               if \<not> parkableTask fresh then (fresh, heldAction fresh)
               else if bt_Column fresh \<noteq> bt_Column snapshot then (fresh, bounceSilent)
               else (fresh, bouncePark)))"

definition bounce_body :: "'s PipelineBounceGuard \<Rightarrow> TaskPipeline \<Rightarrow> string \<Rightarrow> string" where
  "bounce_body g pipeline headSHA =
     bg_comment g (ShortSHA headSHA) @
     (let note = TrimSpace (pl_Note pipeline) in
      if note \<noteq> '''' then [CHR 0x0A, CHR 0x0A] @ bg_noteLabel g @ '': '' @ TruncateTail note 500 else '''')"

definition bounce_comment ::
  "'s PipelineBounceGuard \<Rightarrow> uuid \<Rightarrow> BoardTask \<Rightarrow> TaskPipeline \<Rightarrow> string \<Rightarrow> 's \<Rightarrow> 's" where
  "bounce_comment g repositoryID task pipeline headSHA s =
     (case bg_tasks g of
        None \<Rightarrow> s
      | Some addComment \<Rightarrow>
          addComment repositoryID (bt_ID task) (system_comment (bounce_body g pipeline headSHA)) s)"

definition bounce_detail :: "string \<Rightarrow> string" where
  "bounce_detail headSHA =
     ''pipeline is still failing for '' @ ShortSHA headSHA @ '' with no new commit '' @
     [CHR 0xE2, CHR 0x80, CHR 0x94] @ '' a human has to fix CI or move this task on''"

definition bounce_park :: "'s PipelineBounceGuard \<Rightarrow> uuid \<Rightarrow> BoardTask \<Rightarrow> string \<Rightarrow> 's \<Rightarrow> bool \<times> 's" where
  "bounce_park g repositoryID task headSHA s =
     (case bg_parker g of
        None \<Rightarrow> (False, s)
      | Some blockOn \<Rightarrow>
          if bt_Column task = TaskColumnBlocked then (False, s)
          else case blockOn repositoryID (bt_ID task) ResourceHumanDecision
                 (bounce_detail headSHA) s of
              (Inl err, s1) \<Rightarrow> (False, s1)
            | (Inr previous, s1) \<Rightarrow>
                (True, journal_Record (bg_parks g) repositoryID task previous ResourceHumanDecision
                         MoveReasonPipelineLoopParked s1))"

definition bounce_act ::
  "'s PipelineBounceGuard \<Rightarrow> uuid \<Rightarrow> BoardTask \<times> bounceAction \<Rightarrow> TaskPipeline \<Rightarrow> string \<Rightarrow> 's \<Rightarrow> bool \<times> 's" where
  "bounce_act g repositoryID decision pipeline headSHA s =
     (case decision of
        (target, bounceFailOpen) \<Rightarrow> (False, s)
      | (target, bouncePark) \<Rightarrow>
          (case bounce_park g repositoryID target headSHA s of
             (False, s1) \<Rightarrow> (False, s1)
           | (True, s1) \<Rightarrow> (True, bounce_comment g repositoryID target pipeline headSHA s1))
      | (target, bounceExplain) \<Rightarrow> (True, bounce_comment g repositoryID target pipeline headSHA s)
      | (target, bounceSilent) \<Rightarrow> (True, s))"

definition Bounce_Hold ::
  "'s PipelineBounceGuard option \<Rightarrow> uuid \<Rightarrow> BoardTask \<Rightarrow> TaskPipeline \<Rightarrow> 's \<Rightarrow> bool \<times> 's" where
  "Bounce_Hold guard repositoryID task pipeline s =
     (case guard of
        None \<Rightarrow> (False, s)
      | Some g \<Rightarrow>
          (case bg_pipelines g of
             None \<Rightarrow> (False, s)
           | Some listByTask \<Rightarrow>
               let headSHA = TrimSpace (pl_HeadSHA pipeline) in
               if headSHA = '''' then (False, s)
               else case listByTask s (bt_ID task) of
                   Inl err \<Rightarrow> (False, s)
                 | Inr history \<Rightarrow>
                     (case humanTouchWindow g (bt_ID task) (pl_CreatedAt pipeline) s of
                        None \<Rightarrow> (False, s)
                      | Some since \<Rightarrow>
                          if priorSameCommitFailures history pipeline headSHA since = 0 then (False, s)
                          else bounce_act g repositoryID (parkTarget g repositoryID task s)
                                 pipeline headSHA s)))"

section \<open>When a red build is held\<close>

text \<open>An earlier verdict on the same commit, since a human last touched the card.\<close>

definition failed_before :: "TaskPipeline \<Rightarrow> time \<Rightarrow> TaskPipeline \<Rightarrow> bool" where
  "failed_before pipeline since other \<longleftrightarrow>
     pl_ID other \<noteq> pl_ID pipeline \<and> pl_Status other = PipelineStatusFailed \<and>
     \<not> isDeployTrigger (pl_Trigger other) \<and>
     EqualFold (TrimSpace (pl_HeadSHA other)) (TrimSpace (pl_HeadSHA pipeline)) \<and>
     pipelineReachedVerdict other \<and> pl_CreatedAt other \<le> pl_CreatedAt pipeline \<and>
     (since = 0 \<or> since < pl_CreatedAt other)"

lemma prior_loop_count:
  "prior_loop pipeline (TrimSpace (pl_HeadSHA pipeline)) since history n =
     n + int (length (filter (failed_before pipeline since) history))"
  by (induction history arbitrary: n) (auto simp: failed_before_def time_IsZero_def not_less)

lemma priorSameCommitFailures_none:
  "priorSameCommitFailures history pipeline (TrimSpace (pl_HeadSHA pipeline)) since = 0 \<longleftrightarrow>
     \<not> list_ex (failed_before pipeline since) history"
  by (simp add: priorSameCommitFailures_def prior_loop_count filter_empty_conv list_ex_iff)

lemma parkTarget_read:
  assumes "bg_reader g = Some getTask" and "getTask s repositoryID (bt_ID task) = Inr fresh"
  shows "parkTarget g repositoryID task s =
    (fresh, if \<not> parkableTask fresh then heldAction fresh
            else if bt_Column fresh \<noteq> bt_Column task then bounceSilent else bouncePark)"
  using assms by (simp add: parkTarget_def)

lemma heldAction_holds: "heldAction task = bounceSilent \<or> heldAction task = bounceExplain"
  by (simp add: heldAction_def)

lemma bounce_act_holds:
  assumes "bg_parker g = Some blockOn" and "action = bouncePark \<Longrightarrow> parkableTask target"
  shows "fst (bounce_act g repositoryID (target, action) pipeline headSHA s) \<longleftrightarrow>
    action \<noteq> bounceFailOpen \<and>
    (action = bouncePark \<longrightarrow> \<not> isl (fst (blockOn repositoryID (bt_ID target) ResourceHumanDecision
       (bounce_detail headSHA) s)))"
  using assms
  by (cases action)
    (auto simp: bounce_act_def bounce_park_def parkableTask_def split: prod.splits sum.splits bool.splits)

text \<open>
  C18: A red build that can be judged is held for its commit. Let the build carry a commit, a parker be
  wired, and the card, its pipelines and the time a human last touched it all be readable (the last is
  not once the card has 500 older events, see \<open>long_history_bounces\<close>). Then the guard holds the build
  exactly when an earlier pipeline of the card for the same commit failed with a verdict since that
  touch, except when the card could be parked and the parking failed.
\<close>
theorem same_commit_held:
  assumes "bg_pipelines g = Some listByTask" and "listByTask s (bt_ID task) = Inr history"
    and "humanTouchWindow g (bt_ID task) (pl_CreatedAt pipeline) s = Some since"
    and "bg_reader g = Some getTask" and "getTask s repositoryID (bt_ID task) = Inr fresh"
    and "bg_parker g = Some blockOn" and "TrimSpace (pl_HeadSHA pipeline) \<noteq> ''''"
  shows "fst (Bounce_Hold (Some g) repositoryID task pipeline s) \<longleftrightarrow>
    list_ex (failed_before pipeline since) history \<and>
    (parkableTask fresh \<and> bt_Column fresh = bt_Column task \<longrightarrow>
      \<not> isl (fst (blockOn repositoryID (bt_ID fresh) ResourceHumanDecision
        (bounce_detail (TrimSpace (pl_HeadSHA pipeline))) s)))"
proof -
  let ?action = "if \<not> parkableTask fresh then heldAction fresh
    else if bt_Column fresh \<noteq> bt_Column task then bounceSilent else bouncePark"
  have "fst (bounce_act g repositoryID (fresh, ?action) pipeline (TrimSpace (pl_HeadSHA pipeline)) s) \<longleftrightarrow>
      ?action \<noteq> bounceFailOpen \<and> (?action = bouncePark \<longrightarrow>
        \<not> isl (fst (blockOn repositoryID (bt_ID fresh) ResourceHumanDecision
          (bounce_detail (TrimSpace (pl_HeadSHA pipeline))) s)))"
    using assms(6) by (rule bounce_act_holds) (use heldAction_holds [of fresh] in \<open>auto split: if_splits\<close>)
  then show ?thesis
    using assms heldAction_holds [of fresh]
    by (auto simp: Bounce_Hold_def Let_def priorSameCommitFailures_none parkTarget_read split: if_splits)
qed

text \<open>The human touch, over the stored events of the task, when they fit the window.\<close>

definition touched :: "BoardEvent list \<Rightarrow> uuid \<Rightarrow> time" where
  "touched events taskID =
     (case lastHumanEventAt (event_ListByTask taskID reviewLoopHistoryDepth events) of
        None \<Rightarrow> 0 | Some at \<Rightarrow> at)"

lemma humanTouchWindow_stored:
  assumes "bg_events g = Some (\<lambda>s taskID limit. Inr (event_ListByTask taskID limit (events s)))"
    and "length (filter (\<lambda>e. ev_TaskID e = taskID) (events s)) < 500"
  shows "humanTouchWindow g taskID reaches s = Some (touched (events s) taskID)"
  using assms
  by (simp add: humanTouchWindow_def touched_def reviewLoopHistoryDepth_def event_ListByTask_def)

text \<open>
  The store hands out the oldest events, so a card with a longer history loses this brake too: every
  red build whose pipeline is younger than the window's last event goes through.
\<close>

lemma long_history_bounces:
  assumes "bg_events g = Some (\<lambda>s taskID limit. Inr (event_ListByTask taskID limit events))"
    and "sorted (map ev_CreatedAt events)" and "500 \<le> length (filter (\<lambda>e. ev_TaskID e = bt_ID task) events)"
    and "\<forall>e \<in> set events. ev_CreatedAt e < pl_CreatedAt pipeline"
  shows "Bounce_Hold (Some g) repositoryID task pipeline s = (False, s)"
proof -
  let ?window = "take 500 (filter (\<lambda>e. ev_TaskID e = bt_ID task) events)"
  have window: "event_ListByTask (bt_ID task) reviewLoopHistoryDepth events = ?window"
    using assms(2) by (rule ListByTask_oldest) (simp add: reviewLoopHistoryDepth_def)
  have "?window \<noteq> []" using assms(3) by auto
  then have "last ?window \<in> set events" by (meson filter_is_subset in_mono in_set_takeD last_in_set)
  then have "humanTouchWindow g (bt_ID task) (pl_CreatedAt pipeline) s = None"
    using assms \<open>?window \<noteq> []\<close> window
    by (auto simp: humanTouchWindow_def historyReaches_def reviewLoopHistoryDepth_def)
  then show ?thesis
    by (simp add: Bounce_Hold_def Let_def split: option.splits sum.splits)
qed

text \<open>A guard over stored pipelines and events, and two red builds of one commit.\<close>

definition red_build :: "uuid \<Rightarrow> time \<Rightarrow> TaskPipeline" where
  "red_build i at =
     \<lparr>pl_ID = i, pl_TaskID = 2, pl_RepositoryID = 1, pl_Trigger = PipelineTriggerReadyForQA,
      pl_Status = PipelineStatusFailed, pl_Provider = PipelineProviderGitHubActions, pl_Note = '''',
      pl_HeadSHA = ''c0ffee'', pl_GateReason = '''', pl_CreatedAt = at, pl_StartedAt = Some at,
      pl_FinishedAt = Some (at + 1), pl_Jobs = []\<rparr>"

definition judged_card :: BoardTask where
  "judged_card = zero_BoardTask\<lparr>bt_ID := 2, bt_RepositoryID := 1, bt_Column := TaskColumnCodeReview\<rparr>"

definition stored_guard :: "TaskPipeline list \<Rightarrow> BoardEvent list \<Rightarrow> unit PipelineBounceGuard" where
  "stored_guard rows events =
     \<lparr>bg_pipelines = Some (\<lambda>s i. Inr (pipeline_ListByTask \<lparr>pt_pipelines = rows, pt_jobs = []\<rparr> i)),
      bg_tasks = None, bg_parker = Some (\<lambda>r t res d s. (Inr TaskColumnCodeReview, s)), bg_parks = None,
      bg_events = Some (\<lambda>s i limit. Inr (event_ListByTask i limit events)),
      bg_reader = Some (\<lambda>s r i. Inr judged_card), bg_comment = (\<lambda>sha. ''''), bg_noteLabel = ''''\<rparr>"

lemma same_commit_held_witness:
  "fst (Bounce_Hold (Some (stored_guard [red_build 5 10, red_build 6 20] [])) 1 judged_card (red_build 6 20) ()) \<and>
   \<not> fst (Bounce_Hold (Some (stored_guard [red_build 5 10, red_build 6 20] [human_comment 15]))
       1 judged_card (red_build 6 20) ())"
proof
  have held: "fst (Bounce_Hold (Some (stored_guard [red_build 5 10, red_build 6 20] events)) 1 judged_card
      (red_build 6 20) ()) \<longleftrightarrow> list_ex (failed_before (red_build 6 20) since)
        (pipeline_ListByTask \<lparr>pt_pipelines = [red_build 5 10, red_build 6 20], pt_jobs = []\<rparr> 2)"
    if "humanTouchWindow (stored_guard [red_build 5 10, red_build 6 20] events) 2 20 () = Some since"
    for events since
    using that
    by (subst same_commit_held [where since = since and fresh = judged_card
          and listByTask = "\<lambda>s i. Inr (pipeline_ListByTask \<lparr>pt_pipelines = [red_build 5 10, red_build 6 20], pt_jobs = []\<rparr> i)"
          and getTask = "\<lambda>s r i. Inr judged_card"
          and blockOn = "\<lambda>r t res d s. (Inr TaskColumnCodeReview, s)"])
      (simp_all add: stored_guard_def judged_card_def red_build_def, code_simp?)
  show "fst (Bounce_Hold (Some (stored_guard [red_build 5 10, red_build 6 20] [])) 1 judged_card (red_build 6 20) ())"
    by (subst held [where since = 0]) code_simp+
  show "\<not> fst (Bounce_Hold (Some (stored_guard [red_build 5 10, red_build 6 20] [human_comment 15]))
       1 judged_card (red_build 6 20) ())"
    by (subst held [where since = 15]) code_simp+
qed

end
