(* ===== verification/Pipeline_Runner.thy ===== *)
theory Pipeline_Runner
  imports Bounce_Guard
begin

text \<open>
  The CI pipelines of the board: \<open>PipelineRunner\<close> of
  \<open>server/internal/application/board/pipeline.go\<close>, which starts a pipeline, watches its jobs on GitHub
  and acts on the verdict, with the pull-request number of \<open>domain/task_pull_request.go\<close>. Stores,
  git, GitHub and rendered texts are ports. A loop that polls GitHub runs over the list of the
  answers it gets; the list ends where the context does. The 30-second contexts of the final writes
  are the caller's.
\<close>

section \<open>GitHub\<close>

datatype gh_error = apiError int string | gh_wrap string gh_error | gh_other string

fun gh_text :: "gh_error \<Rightarrow> string" where
  "gh_text (apiError status message) = ''github api: '' @ itoa status @ '' '' @ message"
| "gh_text (gh_wrap m e) = m @ '': '' @ gh_text e"
| "gh_text (gh_other m) = m"

text \<open>\<open>errors.As\<close> finds the API error in the chain.\<close>

fun gh_api :: "gh_error \<Rightarrow> (int \<times> string) option" where
  "gh_api (apiError status message) = Some (status, message)"
| "gh_api (gh_wrap m e) = gh_api e"
| "gh_api (gh_other m) = None"

definition ciUnavailableMessage :: "string \<Rightarrow> bool" where
  "ciUnavailableMessage message \<longleftrightarrow>
     list_ex (\<lambda>needle. str_Contains (ToLower message) needle)
       [''billing'', ''spending limit'', ''quota'', ''payment'', ''actions is disabled'',
        ''actions are disabled'', ''upgrade'', ''has been disabled'', ''not allowed to run'']"

definition IsCIUnavailable :: "gh_error \<Rightarrow> bool" where
  "IsCIUnavailable err =
     (case gh_api err of
        None \<Rightarrow> False
      | Some (status, message) \<Rightarrow>
          if status = 402 then True else if status = 403 then ciUnavailableMessage message else False)"

definition IsCIUnavailableText :: "string \<Rightarrow> bool" where
  "IsCIUnavailableText txt \<longleftrightarrow>
     str_Contains (ToLower txt) ''github api: 402'' \<or> ciUnavailableMessage (ToLower txt)"

definition IsRefAlreadyExists :: "gh_error \<Rightarrow> bool" where
  "IsRefAlreadyExists err =
     (case gh_api err of
        None \<Rightarrow> False
      | Some (status, message) \<Rightarrow> status = 422 \<and> str_Contains (ToLower message) ''already exists'')"

definition HasPrefix :: "string \<Rightarrow> string \<Rightarrow> bool" where "HasPrefix s p \<longleftrightarrow> prefix p s"

definition TrimSuffix :: "string \<Rightarrow> string \<Rightarrow> string" where
  "TrimSuffix s sfx = (if suffix sfx s then take (length s - length sfx) s else s)"

definition owner_repo :: "string \<Rightarrow> (string \<times> string) option" where
  "owner_repo s =
     (case str_Split CHR ''/'' (TrimSuffix s ''.git'') of
        owner # repo # rest \<Rightarrow> if owner = '''' \<or> repo = '''' then None else Some (owner, repo)
      | _ \<Rightarrow> None)"

definition ParseOwnerRepo :: "string \<Rightarrow> (string \<times> string) option" where
  "ParseOwnerRepo origin =
     (let s = TrimSpace origin in
      if HasPrefix s ''git@github.com:'' then owner_repo (drop (length ''git@github.com:'') s)
      else case str_Index s ''github.com/'' of
          None \<Rightarrow> None
        | Some i \<Rightarrow> owner_repo (drop (i + length ''github.com/'') s))"

record gh_RunJob =
  rj_ID :: int
  rj_Name :: string
  rj_Status :: string
  rj_Conclusion :: string
  rj_HTMLURL :: string
  rj_StartedAt :: "time option"
  rj_CompletedAt :: "time option"

record WorkflowRun =
  wr_ID :: int
  wr_RunNumber :: int
  wr_HeadSHA :: string
  wr_HeadBranch :: string
  wr_Status :: string
  wr_Conclusion :: string
  wr_Event :: string
  wr_HTMLURL :: string
  wr_CreatedAt :: time
  wr_RunStartedAt :: time
  wr_UpdatedAt :: time

text \<open>
  What GitHub answers at one moment: the reads take the token, the owner and the repository first.
\<close>

record github =
  gh_ListRunsByHeadSHA :: "string \<Rightarrow> string \<Rightarrow> string \<Rightarrow> string \<Rightarrow> gh_error + WorkflowRun list"
  gh_ListRunJobs :: "string \<Rightarrow> string \<Rightarrow> string \<Rightarrow> int \<Rightarrow> gh_error + gh_RunJob list"
  gh_ListWorkflowRunsByFileBranch ::
    "string \<Rightarrow> string \<Rightarrow> string \<Rightarrow> string \<Rightarrow> string \<Rightarrow> gh_error + WorkflowRun list"
  gh_GetJobLogs :: "string \<Rightarrow> string \<Rightarrow> string \<Rightarrow> int \<Rightarrow> gh_error + string"
  gh_DefaultBranch :: "string \<Rightarrow> string \<Rightarrow> string \<Rightarrow> gh_error + string"

record TaskGitInfo =
  gi_Owner :: string
  gi_Repo :: string
  gi_Branch :: string
  gi_HeadSHA :: string

section \<open>Pull requests\<close>

definition int64_max :: int where "int64_max = 2 ^ 63 - 1"

text \<open>\<open>strconv.Atoi\<close>: an optional sign and digits, within 64 bits.\<close>

definition Atoi :: "string \<Rightarrow> int option" where
  "Atoi s =
     (let (negative, ds) = (case s of c # cs \<Rightarrow> if c = CHR ''-'' then (True, cs)
                              else if c = CHR ''+'' then (False, cs) else (False, s) | [] \<Rightarrow> (False, []))
      in if ds = [] \<or> \<not> list_all is_digit ds then None
         else let n = digits_value ds; v = (if negative then - n else n)
              in if v > int64_max \<or> v < - int64_max - 1 then None else Some v)"

definition trim_slashes :: "string \<Rightarrow> string" where
  "trim_slashes s = rev (dropWhile (\<lambda>c. c = CHR ''/'') (rev (dropWhile (\<lambda>c. c = CHR ''/'') s)))"

fun pull_number :: "string list \<Rightarrow> int option" where
  "pull_number (segment # number # segments) =
     (if segment \<noteq> ''pull'' \<and> segment \<noteq> ''pulls'' then pull_number (number # segments)
      else case Atoi number of None \<Rightarrow> None | Some n \<Rightarrow> if n \<le> 0 then None else Some n)"
| "pull_number segments = None"

definition ParsePullRequestNumber :: "string \<Rightarrow> int option" where
  "ParsePullRequestNumber prURL =
     (let s = TrimSpace prURL in
      if s = '''' then None
      else pull_number (str_Split CHR ''/''
        (trim_slashes (takeWhile (\<lambda>c. c \<noteq> CHR ''#'' \<and> c \<noteq> CHR ''?'') s))))"

section \<open>The runner and its ports\<close>

record RepositoryPipelineJob =
  rpj_ID :: uuid
  rpj_RepositoryID :: uuid
  rpj_SubProjectPath :: string
  rpj_SubRepoKind :: string
  rpj_Category :: string
  rpj_TargetKind :: string
  rpj_TargetRef :: string
  rpj_AutoDetected :: bool

definition PipelineCategoryValidate :: string where [pipe_defs]: "PipelineCategoryValidate = ''validate''"
definition PipelineCategoryBuild :: string where [pipe_defs]: "PipelineCategoryBuild = ''build''"
definition PipelineCategoryTest :: string where [pipe_defs]: "PipelineCategoryTest = ''test''"
definition PipelineCategoryMutationTest :: string where
  [pipe_defs]: "PipelineCategoryMutationTest = ''mutation_test''"
definition PipelineCategoryStageDeploy :: string where
  [pipe_defs]: "PipelineCategoryStageDeploy = ''stage_deploy''"
definition PipelineCategoryPreProdDeploy :: string where
  [pipe_defs]: "PipelineCategoryPreProdDeploy = ''preprod_deploy''"
definition PipelineCategoryProdDeploy :: string where
  [pipe_defs]: "PipelineCategoryProdDeploy = ''prod_deploy''"
definition PipelineTargetJob :: string where [pipe_defs]: "PipelineTargetJob = ''job''"
definition PipelineTargetWorkflow :: string where [pipe_defs]: "PipelineTargetWorkflow = ''workflow''"

definition MoveReasonPipelineFailed :: string where
  [col_defs]: "MoveReasonPipelineFailed = ''pipeline_failed''"
definition MoveReasonDeployReleased :: string where
  [col_defs]: "MoveReasonDeployReleased = ''deploy_released''"
definition DeployEnvStage :: string where [pipe_defs]: "DeployEnvStage = ''stage''"
definition DeployEnvPreProd :: string where [pipe_defs]: "DeployEnvPreProd = ''preprod''"
definition DeployEnvProd :: string where [pipe_defs]: "DeployEnvProd = ''prod''"

definition pipelineMaxWait :: duration where "pipelineMaxWait = 30 * 60 * 1000000000"
definition PipelineGateWindow :: duration where "PipelineGateWindow = 45 * 60 * 1000000000"
definition pipelineNoRunGrace :: duration where "pipelineNoRunGrace = 5 * 60 * 1000000000"
definition pipelineGateSweepBatch :: int where "pipelineGateSweepBatch = 100"
definition jobLogTailLimit :: int where "jobLogTailLimit = 10000"
definition pipeline_queue_size :: nat where "pipeline_queue_size = 64"

record pipelineJob =
  jb_Pipeline :: TaskPipeline
  jb_RepositoryID :: uuid
  jb_Task :: BoardTask

record 's TaskUpdater =
  tu_UpdateTask :: "uuid \<Rightarrow> uuid \<Rightarrow> UpdateBoardTaskRequest \<Rightarrow> 's \<Rightarrow> 's"
  tu_AddComment :: "'s commenter"

record 's PipelineGit =
  pg_TaskDir :: "'s \<Rightarrow> uuid \<Rightarrow> go_error + string"
  pg_Stat :: "'s \<Rightarrow> string \<Rightarrow> bool"
  pg_EnsurePullRequest :: "string \<Rightarrow> 's \<Rightarrow> (go_error + string) \<times> 's"
  pg_PushBranch :: "string \<Rightarrow> 's \<Rightarrow> go_error option \<times> 's"
  pg_TaskGitInfo :: "'s \<Rightarrow> string \<Rightarrow> go_error + TaskGitInfo"

record 's PipelineStore =
  st_Create :: "TaskPipeline \<Rightarrow> 's \<Rightarrow> (go_error + TaskPipeline) \<times> 's"
  st_Update :: "TaskPipeline \<Rightarrow> 's \<Rightarrow> (go_error + TaskPipeline) \<times> 's"
  st_ClaimTerminal :: "TaskPipeline \<Rightarrow> 's \<Rightarrow> (go_error + TaskPipeline option) \<times> 's"
  st_SupersedePending :: "uuid \<Rightarrow> 's \<Rightarrow> 's"
  st_CreateJob :: "TaskPipelineJob \<Rightarrow> 's \<Rightarrow> (go_error + TaskPipelineJob) \<times> 's"
  st_Get :: "'s \<Rightarrow> uuid \<Rightarrow> go_error + TaskPipeline option"
  st_ListByTask :: "'s \<Rightarrow> uuid \<Rightarrow> go_error + TaskPipeline list"
  st_LatestByTask :: "'s \<Rightarrow> uuid \<Rightarrow> go_error + TaskPipeline option"
  st_ListUnfinished :: "'s \<Rightarrow> int \<Rightarrow> go_error + TaskPipeline list"
  st_ListUnfinishedByHeadSHA :: "'s \<Rightarrow> uuid \<Rightarrow> string \<Rightarrow> go_error + TaskPipeline list"

text \<open>
  The remote address is the one field of the repository a pipeline reads, the provider that of a
  deploy target; \<open>None\<close> of a store read is \<open>ErrPipelineNotFound\<close>. The queue, a channel of 64 places,
  and the ids in flight are the runner's own memory.
\<close>

record 's PipelinePorts =
  pr_jobs :: "('s \<Rightarrow> uuid \<Rightarrow> go_error + RepositoryPipelineJob list) option"
  pr_RemoteURL :: "'s \<Rightarrow> uuid \<Rightarrow> go_error + string"
  pr_tasks :: "'s TaskUpdater option"
  pr_qa :: "(uuid \<Rightarrow> BoardTask \<Rightarrow> uuid \<Rightarrow> string \<Rightarrow> 's \<Rightarrow> go_error option \<times> 's) option"
  pr_git :: "'s PipelineGit option"
  pr_tokens :: "('s \<Rightarrow> go_error + string) option"
  pr_DispatchWorkflow :: "string \<Rightarrow> string \<Rightarrow> string \<Rightarrow> string \<Rightarrow> string \<Rightarrow> 's \<Rightarrow> gh_error option \<times> 's"
  pr_CreateTag :: "string \<Rightarrow> string \<Rightarrow> string \<Rightarrow> string \<Rightarrow> string \<Rightarrow> 's \<Rightarrow> gh_error option \<times> 's"
  pr_deployTarget :: "('s \<Rightarrow> uuid \<Rightarrow> string \<Rightarrow> string \<Rightarrow> go_error + string) option"
  pr_incidents :: "(uuid \<Rightarrow> string \<Rightarrow> string \<Rightarrow> string \<Rightarrow> 's \<Rightarrow> 's) option"
  pr_stage :: "(uuid \<Rightarrow> 's \<Rightarrow> 's) option"
  pr_stores :: "(uuid \<Rightarrow> string \<Rightarrow> string \<Rightarrow> 's \<Rightarrow> 's) option"
  pr_SetTaskPullRequest :: "(uuid \<Rightarrow> string \<Rightarrow> int \<Rightarrow> 's \<Rightarrow> 's) option"
  pr_taskReader :: "('s \<Rightarrow> uuid \<Rightarrow> uuid \<Rightarrow> go_error + BoardTask) option"
  pr_workflows :: "('s \<Rightarrow> TaskType \<Rightarrow> go_error + Workflow) option"
  pr_components :: "('s \<Rightarrow> uuid \<Rightarrow> uuid \<Rightarrow> go_error + string) option"
  pr_bounces :: "'s PipelineBounceGuard option"
  pr_errorText :: "go_error \<Rightarrow> string"
  pr_durationText :: "duration \<Rightarrow> string"
  pr_postDeployNotes :: "string \<Rightarrow> string"
  pr_deploySkip :: "string \<Rightarrow> string"
  pr_couldNotStart :: "string \<Rightarrow> string"
  pr_noGreenBuild :: string
  pr_failure :: "string \<Rightarrow> string \<Rightarrow> string"
  pr_failureBlockedCI :: "string \<Rightarrow> string \<Rightarrow> string"

record 's PipelineRunner = "'s PipelinePorts" +
  pr_store :: "'s PipelineStore"
  pr_now :: "'s \<Rightarrow> time"
  pr_queue :: "'s \<Rightarrow> pipelineJob list"
  pr_set_queue :: "pipelineJob list \<Rightarrow> 's \<Rightarrow> 's"
  pr_inflight :: "'s \<Rightarrow> uuid list"
  pr_set_inflight :: "uuid list \<Rightarrow> 's \<Rightarrow> 's"

definition system_says :: "'s PipelineRunner \<Rightarrow> uuid \<Rightarrow> uuid \<Rightarrow> string \<Rightarrow> 's \<Rightarrow> 's" where
  "system_says p repositoryID taskID content s =
     (case pr_tasks p of
        None \<Rightarrow> s
      | Some tasks \<Rightarrow> tu_AddComment tasks repositoryID taskID (system_comment content) s)"

definition token_of :: "'s PipelineRunner \<Rightarrow> 's \<Rightarrow> string" where
  "token_of p s =
     (case pr_tokens p of
        None \<Rightarrow> ''''
      | Some tokens \<Rightarrow> (case tokens s of Inl err \<Rightarrow> '''' | Inr t \<Rightarrow> TrimSpace t))"

definition job_mappings :: "'s PipelineRunner \<Rightarrow> uuid \<Rightarrow> 's \<Rightarrow> RepositoryPipelineJob list" where
  "job_mappings p repositoryID s =
     (case pr_jobs p of
        None \<Rightarrow> []
      | Some listByRepository \<Rightarrow>
          (case listByRepository s repositoryID of Inl err \<Rightarrow> [] | Inr m \<Rightarrow> m))"

section \<open>Starting a pipeline\<close>

definition zero_TaskPipeline :: TaskPipeline where
  "zero_TaskPipeline =
     \<lparr>pl_ID = uuid_Nil, pl_TaskID = uuid_Nil, pl_RepositoryID = uuid_Nil, pl_Trigger = '''',
      pl_Status = '''', pl_Provider = '''', pl_Note = '''', pl_HeadSHA = '''', pl_GateReason = '''',
      pl_CreatedAt = 0, pl_StartedAt = None, pl_FinishedAt = None, pl_Jobs = []\<rparr>"

datatype trigger_error = ErrPipelineActive | trigger_failed go_error

definition enqueue_job :: "'s PipelineRunner \<Rightarrow> pipelineJob \<Rightarrow> 's \<Rightarrow> 's" where
  "enqueue_job p job s =
     (if length (pr_queue p s) < pipeline_queue_size then pr_set_queue p (pr_queue p s @ [job]) s else s)"

definition pipeline_active :: "'s PipelineRunner \<Rightarrow> uuid \<Rightarrow> PipelineTrigger \<Rightarrow> 's \<Rightarrow> bool" where
  "pipeline_active p taskID trig s \<longleftrightarrow>
     (trig = PipelineTriggerManual \<or> trig = PipelineTriggerRetry) \<and>
     (case st_LatestByTask (pr_store p) s taskID of
        Inr (Some latest) \<Rightarrow> unfinished latest
      | _ \<Rightarrow> False)"

definition trigger_pipeline ::
  "'s PipelineRunner \<Rightarrow> uuid \<Rightarrow> BoardTask \<Rightarrow> PipelineTrigger \<Rightarrow> bool \<Rightarrow> 's \<Rightarrow>
   (trigger_error + TaskPipeline) \<times> 's" where
  "trigger_pipeline p repositoryID task trig supersede s =
     (if pipeline_active p (bt_ID task) trig s then (Inl ErrPipelineActive, s)
      else
        let s1 = (if supersede then st_SupersedePending (pr_store p) (bt_ID task) s else s) in
        case st_Create (pr_store p)
               (zero_TaskPipeline\<lparr>pl_TaskID := bt_ID task, pl_RepositoryID := repositoryID,
                  pl_Trigger := trig, pl_Status := PipelineStatusPending\<rparr>) s1 of
          (Inl err, s2) \<Rightarrow> (Inl (trigger_failed err), s2)
        | (Inr created, s2) \<Rightarrow>
            (Inr created,
             enqueue_job p \<lparr>jb_Pipeline = created, jb_RepositoryID = repositoryID, jb_Task = task\<rparr> s2))"

definition Trigger ::
  "'s PipelineRunner \<Rightarrow> uuid \<Rightarrow> BoardTask \<Rightarrow> PipelineTrigger \<Rightarrow> 's \<Rightarrow> (trigger_error + TaskPipeline) \<times> 's" where
  "Trigger p repositoryID task trig = trigger_pipeline p repositoryID task trig True"

definition TriggerDeploy ::
  "'s PipelineRunner \<Rightarrow> uuid \<Rightarrow> BoardTask \<Rightarrow> PipelineTrigger \<Rightarrow> 's \<Rightarrow> (trigger_error + TaskPipeline) \<times> 's" where
  "TriggerDeploy p repositoryID task trig = trigger_pipeline p repositoryID task trig False"

section \<open>What a pipeline waits for\<close>

record mappingTarget =
  mt_label :: string
  mt_ref :: string
  mt_category :: string

definition mapping_target :: "RepositoryPipelineJob \<Rightarrow> mappingTarget" where
  "mapping_target m =
     \<lparr>mt_label = (if rpj_SubRepoKind m \<noteq> '''' then rpj_SubRepoKind m @ '':'' @ rpj_Category m
                   else rpj_Category m),
      mt_ref = rpj_TargetRef m, mt_category = rpj_Category m\<rparr>"

definition filterMappings :: "RepositoryPipelineJob list \<Rightarrow> string \<Rightarrow> string list \<Rightarrow> mappingTarget list" where
  "filterMappings mappings targetKind categories =
     map mapping_target
       (filter (\<lambda>m. \<not> (rpj_TargetKind m \<noteq> targetKind \<or> rpj_Category m \<notin> set categories \<or>
                       rpj_TargetRef m = '''')) mappings)"

definition normalizeComponentPath :: "string \<Rightarrow> string" where
  "normalizeComponentPath path = (let p = TrimSpace path in if p = ''.'' then '''' else p)"

definition scopeMappingsToComponent ::
  "RepositoryPipelineJob list \<Rightarrow> string option \<Rightarrow> RepositoryPipelineJob list" where
  "scopeMappingsToComponent mappings componentPath =
     (case componentPath of
        None \<Rightarrow> mappings
      | Some path \<Rightarrow>
          filter (\<lambda>m. normalizeComponentPath (rpj_SubProjectPath m) = normalizeComponentPath path) mappings)"

definition resolveComponentPath :: "'s PipelineRunner \<Rightarrow> uuid \<Rightarrow> uuid option \<Rightarrow> 's \<Rightarrow> string option" where
  "resolveComponentPath p repositoryID componentID s =
     (case (componentID, pr_components p) of
        (Some i, Some componentPath) \<Rightarrow>
          (case componentPath s repositoryID i of Inl err \<Rightarrow> None | Inr path \<Rightarrow> Some path)
      | _ \<Rightarrow> None)"

definition check_categories :: "string list" where
  "check_categories =
     [PipelineCategoryValidate, PipelineCategoryBuild, PipelineCategoryTest, PipelineCategoryMutationTest]"

section \<open>What GitHub reported\<close>

type_synonym reported = "string \<Rightarrow> gh_RunJob option"

definition completed :: "gh_RunJob \<Rightarrow> bool" where "completed rj \<longleftrightarrow> rj_Status rj = ''completed''"
definition succeeded :: "gh_RunJob \<Rightarrow> bool" where "succeeded rj \<longleftrightarrow> rj_Conclusion rj = ''success''"

definition mergeJob :: "reported \<Rightarrow> gh_RunJob \<Rightarrow> reported" where
  "mergeJob byName rj =
     (if (case byName (rj_Name rj) of None \<Rightarrow> True | Some prev \<Rightarrow> \<not> completed prev \<and> completed rj)
      then byName(rj_Name rj \<mapsto> rj) else byName)"

definition merge_runs :: "github \<Rightarrow> string \<Rightarrow> string \<Rightarrow> string \<Rightarrow> WorkflowRun list \<Rightarrow> reported" where
  "merge_runs gh token owner repo runs =
     foldl (\<lambda>byName run.
         case gh_ListRunJobs gh token owner repo (wr_ID run) of
           Inl err \<Rightarrow> byName
         | Inr runJobs \<Rightarrow> foldl mergeJob byName runJobs) Map.empty runs"

definition collectHeadJobs :: "github \<Rightarrow> TaskGitInfo \<Rightarrow> string \<Rightarrow> reported" where
  "collectHeadJobs gh gitInfo token =
     (case gh_ListRunsByHeadSHA gh token (gi_Owner gitInfo) (gi_Repo gitInfo) (gi_HeadSHA gitInfo) of
        Inl err \<Rightarrow> Map.empty
      | Inr runs \<Rightarrow> merge_runs gh token (gi_Owner gitInfo) (gi_Repo gitInfo) runs)"

fun fold_jobs :: "string \<Rightarrow> WorkflowRun \<Rightarrow> gh_RunJob \<Rightarrow> gh_RunJob list \<Rightarrow> gh_RunJob" where
  "fold_jobs label run out [] = out"
| "fold_jobs label run out (j # jobs) =
     (if \<not> completed j then out\<lparr>rj_Status := ''in_progress'', rj_Conclusion := ''''\<rparr>
      else if \<not> succeeded j
      then \<lparr>rj_ID = rj_ID j, rj_Name = label, rj_Status = ''completed'', rj_Conclusion = rj_Conclusion j,
            rj_HTMLURL = (if rj_HTMLURL j = '''' then wr_HTMLURL run else rj_HTMLURL j),
            rj_StartedAt = rj_StartedAt j, rj_CompletedAt = rj_CompletedAt j\<rparr>
      else fold_jobs label run out jobs)"

definition plain_job :: "string \<Rightarrow> string \<Rightarrow> string \<Rightarrow> string \<Rightarrow> gh_RunJob" where
  "plain_job name status conclusion url =
     \<lparr>rj_ID = 0, rj_Name = name, rj_Status = status, rj_Conclusion = conclusion, rj_HTMLURL = url,
      rj_StartedAt = None, rj_CompletedAt = None\<rparr>"

definition foldRunJobs :: "string \<Rightarrow> WorkflowRun \<Rightarrow> gh_RunJob list \<Rightarrow> gh_RunJob" where
  "foldRunJobs label run jobs =
     fold_jobs label run (plain_job label ''completed'' ''success'' (wr_HTMLURL run)) jobs"

definition deploy_job :: "github \<Rightarrow> TaskGitInfo \<Rightarrow> string \<Rightarrow> string \<Rightarrow> time \<Rightarrow> mappingTarget \<Rightarrow> gh_RunJob option" where
  "deploy_job gh gitInfo token ref after t =
     (case gh_ListWorkflowRunsByFileBranch gh token (gi_Owner gitInfo) (gi_Repo gitInfo) (mt_ref t) ref of
        Inl err \<Rightarrow> None
      | Inr runs \<Rightarrow>
          (case find (\<lambda>cand. \<not> wr_CreatedAt cand < after - 60 * 1000000000) runs of
             None \<Rightarrow> None
           | Some run \<Rightarrow>
               (case gh_ListRunJobs gh token (gi_Owner gitInfo) (gi_Repo gitInfo) (wr_ID run) of
                  Inr (j # jobs) \<Rightarrow> Some (foldRunJobs (mt_ref t) run (j # jobs))
                | _ \<Rightarrow> Some (plain_job (mt_ref t) (wr_Status run) (wr_Conclusion run) (wr_HTMLURL run)))))"

definition collectDeployJobs ::
  "github \<Rightarrow> TaskGitInfo \<Rightarrow> string \<Rightarrow> string \<Rightarrow> mappingTarget list \<Rightarrow> time \<Rightarrow> reported" where
  "collectDeployJobs gh gitInfo token ref targets after =
     foldl (\<lambda>byName t.
         case deploy_job gh gitInfo token ref after t of
           None \<Rightarrow> byName | Some rj \<Rightarrow> byName(mt_ref t \<mapsto> rj)) Map.empty targets"

definition jobLog :: "github \<Rightarrow> TaskGitInfo \<Rightarrow> string \<Rightarrow> gh_RunJob \<Rightarrow> string" where
  "jobLog gh gitInfo token rj =
     (if rj_ID rj = 0 then ''job failed (conclusion='' @ rj_Conclusion rj @ '')''
      else case gh_GetJobLogs gh token (gi_Owner gitInfo) (gi_Repo gitInfo) (rj_ID rj) of
          Inl err \<Rightarrow> ''job failed (conclusion='' @ rj_Conclusion rj @ ''); could not fetch logs: '' @ gh_text err
        | Inr logs \<Rightarrow>
            TrimSpace (if int (length logs) > jobLogTailLimit then TruncateTail logs jobLogTailLimit else logs))"

section \<open>The verdict\<close>

definition go_div :: "int \<Rightarrow> int \<Rightarrow> int" where
  "go_div a b = (if a < 0 then - (- a div b) else a div b)"

definition duration_ms :: "gh_RunJob \<Rightarrow> int" where
  "duration_ms rj =
     (case (rj_StartedAt rj, rj_CompletedAt rj) of
        (Some from, Some till) \<Rightarrow> go_div (till - from) 1000000
      | _ \<Rightarrow> 0)"

definition judged_job ::
  "github \<Rightarrow> uuid \<Rightarrow> TaskGitInfo \<Rightarrow> string \<Rightarrow> int \<Rightarrow> mappingTarget \<Rightarrow> gh_RunJob option \<Rightarrow> TaskPipelineJob" where
  "judged_job gh pipelineID gitInfo token i t report =
     (let pj = \<lparr>pj_ID = uuid_Nil, pj_PipelineID = pipelineID, pj_Name = mt_label t, pj_Command = mt_ref t,
                pj_Status = '''', pj_ExitCode = None, pj_Output = '''', pj_DurationMS = 0, pj_Position = i,
                pj_RunURL = (case report of None \<Rightarrow> '''' | Some rj \<Rightarrow> rj_HTMLURL rj)\<rparr>
      in case report of
           None \<Rightarrow> pj\<lparr>pj_Status := PipelineJobStatusFailed,
                     pj_Output := ''GitHub Actions job/workflow not found: '' @ mt_ref t\<rparr>
         | Some rj \<Rightarrow>
             if \<not> completed rj
             then pj\<lparr>pj_Status := PipelineJobStatusFailed,
                    pj_Output := ''timed out: the job did not finish within 30m''\<rparr>
             else if succeeded rj
             then pj\<lparr>pj_Status := PipelineJobStatusSuccess, pj_DurationMS := duration_ms rj\<rparr>
             else pj\<lparr>pj_Status := PipelineJobStatusFailed, pj_Output := jobLog gh gitInfo token rj\<rparr>)"

definition persistJob :: "'s PipelineRunner \<Rightarrow> TaskPipelineJob \<Rightarrow> 's \<Rightarrow> TaskPipelineJob \<times> 's" where
  "persistJob p pj s =
     (case st_CreateJob (pr_store p) pj s of
        (Inl err, s1) \<Rightarrow> (pj, s1)
      | (Inr created, s1) \<Rightarrow> (created, s1))"

fun judge_loop ::
  "'s PipelineRunner \<Rightarrow> github \<Rightarrow> uuid \<Rightarrow> TaskGitInfo \<Rightarrow> string \<Rightarrow> reported \<Rightarrow> int \<Rightarrow> mappingTarget list \<Rightarrow>
   PipelineStatus \<Rightarrow> 's \<Rightarrow> (TaskPipelineJob list \<times> PipelineStatus) \<times> 's" where
  "judge_loop p gh pipelineID gitInfo token byName i [] status s = (([], status), s)"
| "judge_loop p gh pipelineID gitInfo token byName i (t # ts) status s =
     (let pj = judged_job gh pipelineID gitInfo token i t (byName (mt_ref t));
          status' = (if pj_Status pj = PipelineJobStatusSuccess then status else PipelineStatusFailed);
          (saved, s1) = persistJob p pj s;
          ((jobs, final), s2) = judge_loop p gh pipelineID gitInfo token byName (i + 1) ts status' s1
      in ((saved # jobs, final), s2))"

definition all_terminal :: "mappingTarget list \<Rightarrow> reported \<Rightarrow> bool" where
  "all_terminal targets byName \<longleftrightarrow>
     list_all (\<lambda>t. case byName (mt_ref t) of None \<Rightarrow> False | Some rj \<Rightarrow> completed rj) targets"

definition evaluate ::
  "'s PipelineRunner \<Rightarrow> github \<Rightarrow> uuid \<Rightarrow> TaskGitInfo \<Rightarrow> string \<Rightarrow> mappingTarget list \<Rightarrow> reported \<Rightarrow> bool \<Rightarrow>
   's \<Rightarrow> (TaskPipelineJob list \<times> PipelineStatus) option \<times> 's" where
  "evaluate p gh pipelineID gitInfo token targets byName timedOut s =
     (if \<not> all_terminal targets byName \<and> \<not> timedOut then (None, s)
      else case judge_loop p gh pipelineID gitInfo token byName 0 targets PipelineStatusSuccess s of
          (result, s1) \<Rightarrow> (Some result, s1))"

definition anyReportedFailure :: "mappingTarget list \<Rightarrow> reported \<Rightarrow> bool" where
  "anyReportedFailure targets byName \<longleftrightarrow>
     list_ex (\<lambda>t. case byName (mt_ref t) of None \<Rightarrow> False | Some rj \<Rightarrow> completed rj \<and> \<not> succeeded rj) targets"

definition hasRealSuccessJob :: "TaskPipelineJob list \<Rightarrow> bool" where
  "hasRealSuccessJob jobs \<longleftrightarrow> list_ex (\<lambda>j. pj_Status j = PipelineJobStatusSuccess) jobs"

section \<open>Reporting a red pipeline\<close>

definition job_report :: "TaskPipelineJob \<Rightarrow> string" where
  "job_report j =
     (let out = (if int (length (pj_Output j)) > 4000 then TruncateTail (pj_Output j) 4000 else pj_Output j)
      in pj_Name j @ '':'' @ [CHR 0x0A] @ TrimSpace out)"

definition failed_jobs :: "TaskPipeline \<Rightarrow> TaskPipelineJob list" where
  "failed_jobs p = filter (\<lambda>j. pj_Status j = PipelineJobStatusFailed) (pl_Jobs p)"

definition pipelineFailureReport :: "TaskPipeline \<Rightarrow> string" where
  "pipelineFailureReport p = str_Join [CHR 0x0A, CHR 0x0A] (map job_report (failed_jobs p))"

definition failing_stage :: "TaskPipeline \<Rightarrow> string" where
  "failing_stage p = (case failed_jobs p of [] \<Rightarrow> ''pipeline'' | j # js \<Rightarrow> pj_Name j)"

definition move_request :: "TaskColumn \<Rightarrow> string \<Rightarrow> UpdateBoardTaskRequest" where
  "move_request col reason = empty_UpdateBoardTaskRequest\<lparr>req_Column := Some col, req_SystemReason := reason\<rparr>"

definition failure_comment :: "'s PipelineRunner \<Rightarrow> bool \<Rightarrow> string \<Rightarrow> string \<Rightarrow> string" where
  "failure_comment p blockedCI stage report =
     (let comment = (if blockedCI then pr_failureBlockedCI p stage report else pr_failure p stage report)
      in if int (length comment) > 3000
         then TruncateHead comment 3000 @ [CHR 0x0A, CHR 0xE2, CHR 0x80, CHR 0xA6] @ ''(truncated)''
         else comment)"

definition blocked_by_ci :: "TaskPipeline \<Rightarrow> bool" where
  "blocked_by_ci pipeline \<longleftrightarrow>
     isDeployTrigger (pl_Trigger pipeline) \<and> IsCIUnavailableText (pipelineFailureReport pipeline)"

definition reportPipelineFailure :: "'s PipelineRunner \<Rightarrow> pipelineJob \<Rightarrow> TaskPipeline \<Rightarrow> 's \<Rightarrow> 's" where
  "reportPipelineFailure p job pipeline s =
     (case pr_tasks p of
        None \<Rightarrow> s
      | Some tasks \<Rightarrow>
          let s1 = tu_AddComment tasks (jb_RepositoryID job) (bt_ID (jb_Task job))
                     (system_comment (failure_comment p (blocked_by_ci pipeline) (failing_stage pipeline)
                       (pipelineFailureReport pipeline))) s
          in if blocked_by_ci pipeline then s1
             else tu_UpdateTask tasks (jb_RepositoryID job) (bt_ID (jb_Task job))
                    (move_request TaskColumnNeedRevision MoveReasonPipelineFailed) s1)"

definition incident_env :: "PipelineTrigger \<Rightarrow> string" where
  "incident_env t =
     (if t = PipelineTriggerPreProdDeploy then DeployEnvPreProd
      else if t = PipelineTriggerProdDeploy then DeployEnvProd else DeployEnvStage)"

definition reportDeployIncident :: "'s PipelineRunner \<Rightarrow> pipelineJob \<Rightarrow> TaskPipeline \<Rightarrow> 's \<Rightarrow> 's" where
  "reportDeployIncident p job pipeline s =
     (case pr_incidents p of
        None \<Rightarrow> s
      | Some ingest \<Rightarrow>
          let report = pipelineFailureReport pipeline;
              detail = (if int (length report) > 4000 then TruncateTail report 4000 else report)
          in ingest (jb_RepositoryID job) (incident_env (pl_Trigger pipeline)) (bt_Key (jb_Task job)) detail s)"

end
