(* ===== verification/Pipeline_Gate.thy ===== *)
theory Pipeline_Gate
  imports Pipeline_Runner Task_Ports
begin

text \<open>
  How a pipeline ends: the polls, \<open>finalize\<close> and what it sets off in
  \<open>server/internal/application/board/pipeline.go\<close>, and the sweeper of \<open>pipeline_gate.go\<close>, which
  settles a pipeline nobody watches any more and opens the code-review gate when no verdict can come.
\<close>

section \<open>Marks on an unfinished pipeline\<close>

definition markProvider :: "'s PipelineRunner \<Rightarrow> TaskPipeline \<Rightarrow> string \<Rightarrow> 's \<Rightarrow> TaskPipeline \<times> 's" where
  "markProvider p pipeline provider s =
     (if pl_Provider pipeline = provider then (pipeline, s)
      else let marked = pipeline\<lparr>pl_Provider := provider\<rparr> in
        case st_Update (pr_store p) marked s of
          (Inl err, s1) \<Rightarrow> (marked, s1)
        | (Inr updated, s1) \<Rightarrow> (updated\<lparr>pl_Jobs := pl_Jobs marked\<rparr>, s1))"

definition markHeadSHA :: "'s PipelineRunner \<Rightarrow> TaskPipeline \<Rightarrow> string \<Rightarrow> 's \<Rightarrow> TaskPipeline \<times> 's" where
  "markHeadSHA p pipeline headSHA0 s =
     (let headSHA = TrimSpace headSHA0 in
      if headSHA = '''' \<or> pl_HeadSHA pipeline = headSHA then (pipeline, s)
      else let marked = pipeline\<lparr>pl_HeadSHA := headSHA\<rparr> in
        case st_Update (pr_store p) marked s of
          (Inl err, s1) \<Rightarrow> (marked, s1)
        | (Inr updated, s1) \<Rightarrow> (updated\<lparr>pl_Jobs := pl_Jobs marked\<rparr>, s1))"

section \<open>What a verdict sets off\<close>

definition moveTask :: "'s PipelineRunner \<Rightarrow> pipelineJob \<Rightarrow> TaskColumn \<Rightarrow> 's \<Rightarrow> 's" where
  "moveTask p job col s =
     (case pr_tasks p of
        None \<Rightarrow> s
      | Some tasks \<Rightarrow>
          tu_UpdateTask tasks (jb_RepositoryID job) (bt_ID (jb_Task job))
            (move_request col MoveReasonDeployReleased) s)"

definition markStoreSubmitted :: "'s PipelineRunner \<Rightarrow> uuid \<Rightarrow> TaskPipelineJob list \<Rightarrow> 's \<Rightarrow> 's" where
  "markStoreSubmitted p repositoryID jobs s =
     (case (pr_stores p, pr_deployTarget p) of
        (Some submitted, Some target) \<Rightarrow>
          if \<not> hasRealSuccessJob jobs then s
          else (case target s repositoryID '''' DeployEnvProd of
              Inl err \<Rightarrow> s
            | Inr provider \<Rightarrow>
                if \<not> IsStoreProvider provider then s
                else submitted repositoryID (StoreProviderPlatform provider) '''' s)
      | _ \<Rightarrow> s)"

definition postDeployNotes :: "'s PipelineRunner \<Rightarrow> pipelineJob \<Rightarrow> 's \<Rightarrow> 's" where
  "postDeployNotes p job s =
     (let task = (case pr_taskReader p of
            None \<Rightarrow> jb_Task job
          | Some getTask \<Rightarrow>
              (case getTask s (jb_RepositoryID job) (bt_ID (jb_Task job)) of
                 Inl err \<Rightarrow> jb_Task job | Inr fresh \<Rightarrow> fresh))
      in case bt_AfterDeploy task of
           None \<Rightarrow> s
         | Some notes \<Rightarrow>
             if TrimSpace notes = '''' then s
             else system_says p (jb_RepositoryID job) (bt_ID (jb_Task job))
                    (pr_postDeployNotes p (TrimSpace notes)) s)"

definition skip_note :: "TaskPipelineJob list \<Rightarrow> string" where
  "skip_note jobs =
     (case jobs of
        [] \<Rightarrow> ''no deploy workflow configured''
      | j # js \<Rightarrow> if TrimSpace (pj_Name j) \<noteq> '''' then pj_Name j else ''no deploy workflow configured'')"

definition reportDeploySkip :: "'s PipelineRunner \<Rightarrow> pipelineJob \<Rightarrow> TaskPipelineJob list \<Rightarrow> 's \<Rightarrow> 's" where
  "reportDeploySkip p job jobs s =
     system_says p (jb_RepositoryID job) (bt_ID (jb_Task job)) (pr_deploySkip p (skip_note jobs)) s"

definition deployMapped :: "'s PipelineRunner \<Rightarrow> uuid \<Rightarrow> string \<Rightarrow> 's \<Rightarrow> bool" where
  "deployMapped p repositoryID category s \<longleftrightarrow>
     list_ex (\<lambda>m. rpj_Category m = category \<and> rpj_TargetKind m = PipelineTargetWorkflow \<and>
                  TrimSpace (rpj_TargetRef m) \<noteq> '''') (job_mappings p repositoryID s)"

definition stage_deployed :: "'s PipelineRunner \<Rightarrow> pipelineJob \<Rightarrow> TaskPipelineJob list \<Rightarrow> 's \<Rightarrow> 's" where
  "stage_deployed p job jobs s =
     (case pr_stage p of
        None \<Rightarrow> s
      | Some verified \<Rightarrow> if hasRealSuccessJob jobs then verified (bt_ID (jb_Task job)) s else s)"

definition released :: "'s PipelineRunner \<Rightarrow> pipelineJob \<Rightarrow> TaskPipelineJob list \<Rightarrow> 's \<Rightarrow> 's" where
  "released p job jobs s =
     moveTask p job TaskColumnReleased (if hasRealSuccessJob jobs then s else reportDeploySkip p job jobs s)"

definition prod_deployed :: "'s PipelineRunner \<Rightarrow> pipelineJob \<Rightarrow> TaskPipelineJob list \<Rightarrow> 's \<Rightarrow> 's" where
  "prod_deployed p job jobs s =
     postDeployNotes p job (released p job jobs (markStoreSubmitted p (jb_RepositoryID job) jobs s))"

definition preprod_deployed :: "'s PipelineRunner \<Rightarrow> pipelineJob \<Rightarrow> TaskPipelineJob list \<Rightarrow> 's \<Rightarrow> 's" where
  "preprod_deployed p job jobs s =
     (if deployMapped p (jb_RepositoryID job) PipelineCategoryProdDeploy s
      then snd (TriggerDeploy p (jb_RepositoryID job) (jb_Task job) PipelineTriggerProdDeploy s)
      else released p job jobs s)"

definition green_effects :: "'s PipelineRunner \<Rightarrow> pipelineJob \<Rightarrow> TaskPipeline \<Rightarrow> TaskPipelineJob list \<Rightarrow> 's \<Rightarrow> 's" where
  "green_effects p job pipeline jobs s =
     (if pl_Trigger pipeline = PipelineTriggerStageDeploy then stage_deployed p job jobs s
      else if pl_Trigger pipeline = PipelineTriggerProdDeploy then prod_deployed p job jobs s
      else if pl_Trigger pipeline = PipelineTriggerPreProdDeploy then preprod_deployed p job jobs s
      else case pr_qa p of
          None \<Rightarrow> s
        | Some dispatchQA \<Rightarrow>
            snd (dispatchQA (jb_RepositoryID job) (jb_Task job) (pl_ID pipeline) (pl_GateReason pipeline) s))"

definition red_effects :: "'s PipelineRunner \<Rightarrow> pipelineJob \<Rightarrow> TaskPipeline \<Rightarrow> 's \<Rightarrow> 's" where
  "red_effects p job pipeline s =
     (if isDeployTrigger (pl_Trigger pipeline)
      then reportPipelineFailure p job pipeline (reportDeployIncident p job pipeline s)
      else case Bounce_Hold (pr_bounces p) (jb_RepositoryID job) (jb_Task job) pipeline s of
          (True, s1) \<Rightarrow> s1
        | (False, s1) \<Rightarrow> reportPipelineFailure p job pipeline s1)"

definition superseded :: "TaskPipeline \<Rightarrow> TaskPipeline list \<Rightarrow> bool" where
  "superseded pipeline others \<longleftrightarrow>
     list_ex (\<lambda>other. \<not> (pl_ID other = pl_ID pipeline \<or>
        isDeployTrigger (pl_Trigger other) \<noteq> isDeployTrigger (pl_Trigger pipeline)) \<and>
        pl_CreatedAt other > pl_CreatedAt pipeline) others"

definition verdict_effects :: "'s PipelineRunner \<Rightarrow> pipelineJob \<Rightarrow> TaskPipeline \<Rightarrow> TaskPipelineJob list \<Rightarrow> 's \<Rightarrow> 's" where
  "verdict_effects p job pipeline jobs s =
     (if (case st_ListByTask (pr_store p) s (bt_ID (jb_Task job)) of
            Inl err \<Rightarrow> False | Inr others \<Rightarrow> superseded pipeline others) then s
      else if PipelineStatusOpensGate (pl_Status pipeline) then green_effects p job pipeline jobs s
      else if pl_Status pipeline = PipelineStatusFailed then red_effects p job pipeline s
      else s)"

definition finalize ::
  "'s PipelineRunner \<Rightarrow> pipelineJob \<Rightarrow> TaskPipeline \<Rightarrow> PipelineStatus \<Rightarrow> TaskPipelineJob list \<Rightarrow> 's \<Rightarrow>
   go_error option \<times> 's" where
  "finalize p job pipeline status jobs s =
     (case st_ClaimTerminal (pr_store p)
             (pipeline\<lparr>pl_Status := status, pl_FinishedAt := Some (pr_now p s), pl_Jobs := jobs\<rparr>) s of
        (Inl err, s1) \<Rightarrow> (Some err, s1)
      | (Inr None, s1) \<Rightarrow> (None, s1)
      | (Inr (Some claimed), s1) \<Rightarrow>
          (None, verdict_effects p job (claimed\<lparr>pl_Jobs := jobs\<rparr>) jobs s1))"

section \<open>Ends without a verdict\<close>

definition skipped_job :: "uuid \<Rightarrow> string \<Rightarrow> string \<Rightarrow> string \<Rightarrow> TaskPipelineJob" where
  "skipped_job pipelineID name command output =
     \<lparr>pj_ID = uuid_Nil, pj_PipelineID = pipelineID, pj_Name = name, pj_Command = command,
      pj_Status = PipelineJobStatusSkipped, pj_ExitCode = None, pj_Output = output, pj_DurationMS = 0,
      pj_Position = 0, pj_RunURL = ''''\<rparr>"

definition finishNoChecks ::
  "'s PipelineRunner \<Rightarrow> pipelineJob \<Rightarrow> TaskPipeline \<Rightarrow> string \<Rightarrow> 's \<Rightarrow> go_error option \<times> 's" where
  "finishNoChecks p job pipeline note s =
     (case persistJob p (skipped_job (pl_ID pipeline) note '''' '''') s of
        (created, s1) \<Rightarrow>
          finalize p job (pipeline\<lparr>pl_Provider := PipelineProviderNone\<rparr>) PipelineStatusSkipped [created] s1)"

definition settle ::
  "'s PipelineRunner \<Rightarrow> TaskPipeline \<Rightarrow> PipelineStatus \<Rightarrow> string \<Rightarrow> string \<Rightarrow> TaskPipelineJob list \<Rightarrow> 's \<Rightarrow>
   go_error option \<times> 's" where
  "settle p pipeline status provider note jobs s =
     (case st_Update (pr_store p)
             (pipeline\<lparr>pl_Status := status, pl_Provider := provider, pl_Note := note,
                pl_FinishedAt := Some (pr_now p s), pl_Jobs := jobs\<rparr>) s of
        (Inl err, s1) \<Rightarrow> (Some err, s1)
      | (Inr updated, s1) \<Rightarrow> (None, s1))"

definition persistNoWorkspace :: "'s PipelineRunner \<Rightarrow> TaskPipeline \<Rightarrow> string \<Rightarrow> 's \<Rightarrow> go_error option \<times> 's" where
  "persistNoWorkspace p pipeline note =
     settle p pipeline PipelineStatusFailed PipelineProviderNone note []"

definition finishNoWorkspace ::
  "'s PipelineRunner \<Rightarrow> pipelineJob \<Rightarrow> TaskPipeline \<Rightarrow> string \<Rightarrow> 's \<Rightarrow> go_error option \<times> 's" where
  "finishNoWorkspace p job pipeline note s =
     persistNoWorkspace p pipeline note
       (system_says p (jb_RepositoryID job) (bt_ID (jb_Task job)) (pr_couldNotStart p note) s)"

definition finishInterrupted ::
  "'s PipelineRunner \<Rightarrow> TaskPipeline \<Rightarrow> TaskPipelineJob list \<Rightarrow> 's \<Rightarrow> go_error option \<times> 's" where
  "finishInterrupted p pipeline jobs =
     settle p pipeline PipelineStatusFailed (pl_Provider pipeline) ''interrupted'' jobs"

definition settleQuietly :: "'s PipelineRunner \<Rightarrow> TaskPipeline \<Rightarrow> string \<Rightarrow> 's \<Rightarrow> go_error option \<times> 's" where
  "settleQuietly p pipeline note = settle p pipeline PipelineStatusSkipped (pl_Provider pipeline) note []"

section \<open>Polling\<close>

text \<open>One poll: the time of the deadline check and what GitHub answers; \<open>None\<close> when the context ends.\<close>

fun pollJobs ::
  "'s PipelineRunner \<Rightarrow> uuid \<Rightarrow> TaskGitInfo \<Rightarrow> string \<Rightarrow> mappingTarget list \<Rightarrow> time \<Rightarrow> (time \<times> github) list \<Rightarrow>
   's \<Rightarrow> (TaskPipelineJob list \<times> PipelineStatus) option \<times> 's" where
  "pollJobs p pipelineID gitInfo token targets deadline [] s = (None, s)"
| "pollJobs p pipelineID gitInfo token targets deadline ((at, gh) # polls) s =
     (case evaluate p gh pipelineID gitInfo token targets (collectHeadJobs gh gitInfo token) (at > deadline) s of
        (Some result, s1) \<Rightarrow> (Some result, s1)
      | (None, s1) \<Rightarrow> pollJobs p pipelineID gitInfo token targets deadline polls s1)"

fun dispatch_targets ::
  "'s PipelineRunner \<Rightarrow> TaskGitInfo \<Rightarrow> string \<Rightarrow> string \<Rightarrow> mappingTarget list \<Rightarrow> (string \<Rightarrow> string option) \<Rightarrow> 's \<Rightarrow>
   (string \<Rightarrow> string option) \<times> 's" where
  "dispatch_targets p gitInfo token ref [] errs s = (errs, s)"
| "dispatch_targets p gitInfo token ref (t # ts) errs s =
     (case pr_DispatchWorkflow p token (gi_Owner gitInfo) (gi_Repo gitInfo) (mt_ref t) ref s of
        (None, s1) \<Rightarrow> dispatch_targets p gitInfo token ref ts errs s1
      | (Some err, s1) \<Rightarrow> dispatch_targets p gitInfo token ref ts (errs(mt_ref t \<mapsto> gh_text err)) s1)"

definition with_dispatch_errors :: "(string \<Rightarrow> string option) \<Rightarrow> reported \<Rightarrow> reported" where
  "with_dispatch_errors errs byName =
     (\<lambda>wf. case byName wf of
        Some rj \<Rightarrow> Some rj
      | None \<Rightarrow> map_option (\<lambda>msg. plain_job wf ''completed'' (''dispatch failed: '' @ msg) '''') (errs wf))"

fun pollDeployLoop ::
  "'s PipelineRunner \<Rightarrow> uuid \<Rightarrow> TaskGitInfo \<Rightarrow> string \<Rightarrow> string \<Rightarrow> mappingTarget list \<Rightarrow> (string \<Rightarrow> string option) \<Rightarrow>
   time \<Rightarrow> time \<Rightarrow> (time \<times> github) list \<Rightarrow> 's \<Rightarrow> (TaskPipelineJob list \<times> PipelineStatus) option \<times> 's" where
  "pollDeployLoop p pipelineID gitInfo token ref targets errs after deadline [] s = (None, s)"
| "pollDeployLoop p pipelineID gitInfo token ref targets errs after deadline ((at, gh) # polls) s =
     (case evaluate p gh pipelineID gitInfo token targets
             (with_dispatch_errors errs (collectDeployJobs gh gitInfo token ref targets after)) (at > deadline) s of
        (Some result, s1) \<Rightarrow> (Some result, s1)
      | (None, s1) \<Rightarrow> pollDeployLoop p pipelineID gitInfo token ref targets errs after deadline polls s1)"

definition pollDeploys ::
  "'s PipelineRunner \<Rightarrow> uuid \<Rightarrow> TaskGitInfo \<Rightarrow> string \<Rightarrow> string \<Rightarrow> mappingTarget list \<Rightarrow> (time \<times> github) list \<Rightarrow>
   's \<Rightarrow> (TaskPipelineJob list \<times> PipelineStatus) option \<times> 's" where
  "pollDeploys p pipelineID gitInfo token ref targets polls s =
     (case dispatch_targets p gitInfo token ref targets Map.empty s of
        (errs, s1) \<Rightarrow>
          pollDeployLoop p pipelineID gitInfo token ref targets errs (pr_now p s)
            (pr_now p s1 + pipelineMaxWait) polls s1)"

section \<open>Running a pipeline\<close>

definition runQAGate ::
  "'s PipelineRunner \<Rightarrow> pipelineJob \<Rightarrow> TaskPipeline \<Rightarrow> TaskGitInfo \<Rightarrow> string \<Rightarrow> RepositoryPipelineJob list \<Rightarrow>
   (time \<times> github) list \<Rightarrow> bool \<Rightarrow> 's \<Rightarrow> go_error option \<times> 's" where
  "runQAGate p job pipeline0 gitInfo token mappings polls over s =
     (let targets = filterMappings
            (scopeMappingsToComponent mappings
              (resolveComponentPath p (jb_RepositoryID job) (bt_ComponentID (jb_Task job)) s))
            PipelineTargetJob check_categories
      in if targets = [] then finishNoChecks p job pipeline0 ''no checks configured'' s
         else case markProvider p pipeline0 PipelineProviderGitHubActions s of
           (pipeline, s1) \<Rightarrow>
             (case pollJobs p (pl_ID pipeline) gitInfo token targets (pr_now p s1 + pipelineMaxWait) polls s1 of
                (None, s2) \<Rightarrow> finishInterrupted p pipeline [] s2
              | (Some (jobs, status), s2) \<Rightarrow>
                  if over then finishInterrupted p pipeline jobs s2
                  else finalize p job pipeline status jobs s2))"

definition ReleaseTagForCommit :: "string \<Rightarrow> string" where
  "ReleaseTagForCommit sha = ''release/'' @ ShortSHA (TrimSpace sha)"

definition merge_commit_missing :: "BoardTask \<Rightarrow> string" where
  "merge_commit_missing task =
     ''task '' @ bt_Key task @ '' has no merge commit recorded '' @ [CHR 0xE2, CHR 0x80, CHR 0x94] @
     '' a prod/preprod deploy ships the exact commit a task merged, not whatever the default branch currently points at''"

definition deployRef ::
  "'s PipelineRunner \<Rightarrow> github \<Rightarrow> string \<Rightarrow> TaskGitInfo \<Rightarrow> BoardTask \<Rightarrow> 's \<Rightarrow> (string + string) \<times> 's" where
  "deployRef p gh token gitInfo task s =
     (let sha = TrimSpace (bt_MergeCommitSHA task); tag = ReleaseTagForCommit sha in
      if sha = '''' then (Inl (merge_commit_missing task), s)
      else case pr_CreateTag p token (gi_Owner gitInfo) (gi_Repo gitInfo) tag sha s of
          (err, s1) \<Rightarrow>
            if (case err of None \<Rightarrow> True | Some e \<Rightarrow> IsRefAlreadyExists e) then (Inr tag, s1)
            else (case gh_DefaultBranch gh token (gi_Owner gitInfo) (gi_Repo gitInfo) of
                Inr branch \<Rightarrow> (Inr (if branch \<noteq> '''' then branch else ''main''), s1)
              | Inl e \<Rightarrow> (Inr ''main'', s1)))"

definition deploy_category :: "PipelineTrigger \<Rightarrow> string" where
  "deploy_category t =
     (if t = PipelineTriggerPreProdDeploy then PipelineCategoryPreProdDeploy
      else if t = PipelineTriggerProdDeploy then PipelineCategoryProdDeploy
      else PipelineCategoryStageDeploy)"

definition runDeploy ::
  "'s PipelineRunner \<Rightarrow> github \<Rightarrow> pipelineJob \<Rightarrow> TaskPipeline \<Rightarrow> TaskGitInfo \<Rightarrow> string \<Rightarrow>
   RepositoryPipelineJob list \<Rightarrow> (time \<times> github) list \<Rightarrow> bool \<Rightarrow> 's \<Rightarrow> go_error option \<times> 's" where
  "runDeploy p gh job pipeline0 gitInfo token mappings polls over s =
     (case (if isProdOrPreProdDeployTrigger (pl_Trigger pipeline0)
            then deployRef p gh token gitInfo (jb_Task job) s else (Inr (gi_Branch gitInfo), s)) of
        (Inl refusal, s1) \<Rightarrow> finishNoWorkspace p job pipeline0 refusal s1
      | (Inr ref, s1) \<Rightarrow>
          let category = deploy_category (pl_Trigger pipeline0);
              targets = filterMappings
                (scopeMappingsToComponent mappings
                  (resolveComponentPath p (jb_RepositoryID job) (bt_ComponentID (jb_Task job)) s1))
                PipelineTargetWorkflow [category]
          in if targets = []
             then finishNoChecks p job pipeline0 (''no '' @ category @ '' workflow configured'') s1
             else case markProvider p pipeline0 PipelineProviderGitHubActions s1 of
               (pipeline, s2) \<Rightarrow>
                 (case pollDeploys p (pl_ID pipeline) gitInfo token ref targets polls s2 of
                    (None, s3) \<Rightarrow> finishInterrupted p pipeline [] s3
                  | (Some (jobs, status), s3) \<Rightarrow>
                      if over then finishInterrupted p pipeline jobs s3
                      else finalize p job pipeline status jobs s3))"

definition recordTaskPR :: "'s PipelineRunner \<Rightarrow> uuid \<Rightarrow> string \<Rightarrow> 's \<Rightarrow> 's" where
  "recordTaskPR p taskID prURL s =
     (case pr_SetTaskPullRequest p of
        None \<Rightarrow> s
      | Some set_pr \<Rightarrow>
          if TrimSpace prURL = '''' then s
          else set_pr taskID (TrimSpace prURL)
                 (case ParsePullRequestNumber prURL of None \<Rightarrow> 0 | Some n \<Rightarrow> n) s)"

definition publish_branch :: "'s PipelineRunner \<Rightarrow> 's PipelineGit \<Rightarrow> string \<Rightarrow> uuid \<Rightarrow> 's \<Rightarrow> 's" where
  "publish_branch p git dir taskID s =
     (case pg_EnsurePullRequest git dir s of
        (Inr prURL, s1) \<Rightarrow> recordTaskPR p taskID prURL s1
      | (Inl err, s1) \<Rightarrow>
          (case pg_PushBranch git dir s1 of
             (Some err', s2) \<Rightarrow> s2
           | (None, s2) \<Rightarrow>
               (case pg_EnsurePullRequest git dir s2 of
                  (Inl err', s3) \<Rightarrow> s3
                | (Inr retryURL, s3) \<Rightarrow> recordTaskPR p taskID retryURL s3)))"

definition resolveGitInfo :: "'s PipelineRunner \<Rightarrow> pipelineJob \<Rightarrow> 's \<Rightarrow> (go_error + TaskGitInfo) \<times> 's" where
  "resolveGitInfo p job s =
     (case pr_git p of
        None \<Rightarrow> (Inl (ErrStore ''git client is not configured''), s)
      | Some git \<Rightarrow>
          (case pg_TaskDir git s (bt_ID (jb_Task job)) of
             Inl err \<Rightarrow> (Inl err, s)
           | Inr dir \<Rightarrow>
               if \<not> pg_Stat git s dir then (Inl (ErrStore (''task workspace not found: '' @ dir)), s)
               else let s1 = (if isProdOrPreProdDeployTrigger (pl_Trigger (jb_Pipeline job)) then s
                              else publish_branch p git dir (bt_ID (jb_Task job)) s)
                    in (pg_TaskGitInfo git s1 dir, s1)))"

definition run_pipeline ::
  "'s PipelineRunner \<Rightarrow> github \<Rightarrow> (time \<times> github) list \<Rightarrow> bool \<Rightarrow> pipelineJob \<Rightarrow> TaskPipeline \<Rightarrow> 's \<Rightarrow>
   go_error option \<times> 's" where
  "run_pipeline p gh polls over job running s =
     (case resolveGitInfo p job s of
        (Inl err, s1) \<Rightarrow>
          finishNoWorkspace p job running (''could not resolve git info: '' @ pr_errorText p err) s1
      | (Inr gitInfo, s1) \<Rightarrow>
          (case markHeadSHA p running (gi_HeadSHA gitInfo) s1 of
             (pipeline, s2) \<Rightarrow>
               let token = token_of p s2; mappings = job_mappings p (jb_RepositoryID job) s2 in
               if token = '''' then
                 finishNoWorkspace p job pipeline
                   (''GitHub is not connected '' @ [CHR 0xE2, CHR 0x80, CHR 0x94] @ '' the pipeline cannot run'') s2
               else if isDeployTrigger (pl_Trigger pipeline)
               then runDeploy p gh job pipeline gitInfo token mappings polls over s2
               else runQAGate p job pipeline gitInfo token mappings polls over s2))"

definition start_running ::
  "'s PipelineRunner \<Rightarrow> github \<Rightarrow> (time \<times> github) list \<Rightarrow> bool \<Rightarrow> pipelineJob \<Rightarrow> 's \<Rightarrow> go_error option \<times> 's" where
  "start_running p gh polls over job s =
     (case st_Update (pr_store p)
             ((jb_Pipeline job)\<lparr>pl_Status := PipelineStatusRunning, pl_StartedAt := Some (pr_now p s)\<rparr>) s of
        (Inl err, s1) \<Rightarrow> (Some err, s1)
      | (Inr running, s1) \<Rightarrow> run_pipeline p gh polls over job running s1)"

text \<open>The id is in flight for the whole call; a worker takes the next job off the queue.\<close>

definition execute ::
  "'s PipelineRunner \<Rightarrow> github \<Rightarrow> (time \<times> github) list \<Rightarrow> bool \<Rightarrow> pipelineJob \<Rightarrow> 's \<Rightarrow> go_error option \<times> 's" where
  "execute p gh polls over job s =
     (let i = pl_ID (jb_Pipeline job);
          s1 = pr_set_inflight p (i # pr_inflight p s) s;
          (err, s2) =
            (if (case st_Get (pr_store p) s1 i of
                   Inr (Some current) \<Rightarrow> pl_Status current \<noteq> PipelineStatusPending
                 | _ \<Rightarrow> False)
             then (None, s1) else start_running p gh polls over job s1)
      in (err, pr_set_inflight p (removeAll i (pr_inflight p s2)) s2))"

definition worker_step ::
  "'s PipelineRunner \<Rightarrow> github \<Rightarrow> (time \<times> github) list \<Rightarrow> bool \<Rightarrow> 's \<Rightarrow> 's" where
  "worker_step p gh polls over s =
     (case pr_queue p s of
        [] \<Rightarrow> s
      | job # jobs \<Rightarrow> snd (execute p gh polls over job (pr_set_queue p jobs s)))"

section \<open>The sweeper\<close>

definition gateReasonLabel :: "string \<Rightarrow> string" where
  "gateReasonLabel reason =
     (if reason = PipelineGateReasonNoCI then ''no CI configured''
      else if reason = PipelineGateReasonCIUnavailable then ''CI unavailable''
      else if reason = PipelineGateReasonTimeout then ''CI did not report in time''
      else ''gate opened'')"

definition pipelineGateNoGreenBuildComment :: "'s PipelineRunner \<Rightarrow> string \<Rightarrow> string \<Rightarrow> string" where
  "pipelineGateNoGreenBuildComment p reason note =
     pr_noGreenBuild p @ '' '' @ gateReasonLabel reason @ '': '' @ note @ ''.''"

definition openGate ::
  "'s PipelineRunner \<Rightarrow> pipelineJob \<Rightarrow> TaskPipeline \<Rightarrow> string \<Rightarrow> string \<Rightarrow> 's \<Rightarrow> go_error option \<times> 's" where
  "openGate p job pipeline reason note s =
     (case persistJob p (skipped_job (pl_ID pipeline) (gateReasonLabel reason) reason note) s of
        (created, s1) \<Rightarrow>
          finalize p job
            (pipeline\<lparr>pl_Provider := PipelineProviderNone, pl_GateReason := reason, pl_Note := note\<rparr>)
            PipelineStatusSkipped [created]
            (system_says p (jb_RepositoryID job) (bt_ID (jb_Task job))
              (pipelineGateNoGreenBuildComment p reason note) s1))"

definition gate_workflowFor :: "'s PipelineRunner \<Rightarrow> TaskType \<Rightarrow> 's \<Rightarrow> Workflow option" where
  "gate_workflowFor p taskType s =
     (case pr_workflows p of
        None \<Rightarrow> None
      | Some read \<Rightarrow> (case read s taskType of Inl err \<Rightarrow> None | Inr flow \<Rightarrow> Some flow))"

text \<open>An unanswered question waits, and opens the gate once the window is over.\<close>

definition open_if_expired ::
  "'s PipelineRunner \<Rightarrow> bool \<Rightarrow> pipelineJob \<Rightarrow> TaskPipeline \<Rightarrow> string \<Rightarrow> string \<Rightarrow> 's \<Rightarrow> go_error option \<times> 's" where
  "open_if_expired p expired job fresh reason note s =
     (if expired then openGate p job fresh reason note s else (None, s))"

definition resolve_reported ::
  "'s PipelineRunner \<Rightarrow> github \<Rightarrow> bool \<Rightarrow> string \<Rightarrow> pipelineJob \<Rightarrow> TaskPipeline \<Rightarrow> TaskGitInfo \<Rightarrow> string \<Rightarrow>
   mappingTarget list \<Rightarrow> reported \<Rightarrow> 's \<Rightarrow> go_error option \<times> 's" where
  "resolve_reported p gh expired windowText job fresh gitInfo token targets byName s =
     (case evaluate p gh (pl_ID fresh) gitInfo token targets byName False s of
        (Some (jobs, status), s1) \<Rightarrow>
          (case markProvider p fresh PipelineProviderGitHubActions s1 of
             (marked, s2) \<Rightarrow> finalize p job marked status jobs s2)
      | (None, s1) \<Rightarrow>
          if \<not> expired then (None, s1)
          else if anyReportedFailure targets byName then
            (case evaluate p gh (pl_ID fresh) gitInfo token targets byName True s1 of
               (Some (jobs, status), s2) \<Rightarrow>
                 (case markProvider p fresh PipelineProviderGitHubActions s2 of
                    (marked, s3) \<Rightarrow> finalize p job marked status jobs s3)
             | (None, s2) \<Rightarrow>
                 openGate p job fresh PipelineGateReasonTimeout (''no build result arrived within '' @ windowText) s2)
          else openGate p job fresh PipelineGateReasonTimeout
                 (''no build result arrived within '' @ windowText) s1)"

definition em_dash :: string where "em_dash = [CHR 0xE2, CHR 0x80, CHR 0x94]"

definition gate_targets :: "'s PipelineRunner \<Rightarrow> uuid \<Rightarrow> 's \<Rightarrow> mappingTarget list" where
  "gate_targets p repositoryID s =
     filterMappings (job_mappings p repositoryID s) PipelineTargetJob check_categories"

definition gate_remote :: "'s PipelineRunner \<Rightarrow> uuid \<Rightarrow> 's \<Rightarrow> (string \<times> string) option" where
  "gate_remote p repositoryID s =
     (case pr_RemoteURL p s repositoryID of Inl err \<Rightarrow> None | Inr url \<Rightarrow> ParseOwnerRepo url)"

definition resolve_runs ::
  "'s PipelineRunner \<Rightarrow> github \<Rightarrow> bool \<Rightarrow> duration \<Rightarrow> pipelineJob \<Rightarrow> TaskPipeline \<Rightarrow> string \<Rightarrow> string \<times> string \<Rightarrow>
   mappingTarget list \<Rightarrow> 's \<Rightarrow> go_error option \<times> 's" where
  "resolve_runs p gh expired window job fresh token remote targets s =
     (let (owner, repoName) = remote;
          gitInfo = \<lparr>gi_Owner = owner, gi_Repo = repoName, gi_Branch = '''', gi_HeadSHA = pl_HeadSHA fresh\<rparr>
      in case gh_ListRunsByHeadSHA gh token owner repoName (pl_HeadSHA fresh) of
           Inl err \<Rightarrow>
             if IsCIUnavailable err
             then openGate p job fresh PipelineGateReasonCIUnavailable
                    (''GitHub refused to report Actions runs for this repository ('' @ gh_text err @ '')'') s
             else open_if_expired p expired job fresh PipelineGateReasonTimeout
                    (''no build result arrived within '' @ pr_durationText p window @
                     '' and GitHub could not be reached to ask why'') s
         | Inr runs \<Rightarrow>
             if runs = [] then
               open_if_expired p (pr_now p s - pl_CreatedAt fresh \<ge> pipelineNoRunGrace) job fresh
                 PipelineGateReasonCIUnavailable
                 (''no GitHub Actions run exists for '' @ ShortSHA (pl_HeadSHA fresh) @ '' '' @ em_dash @
                  '' CI is disabled, out of quota, or no workflow triggers on this branch'') s
             else resolve_reported p gh expired (pr_durationText p window) job fresh gitInfo token targets
                    (merge_runs gh token owner repoName runs) s)"

definition resolve_waiting ::
  "'s PipelineRunner \<Rightarrow> github \<Rightarrow> bool \<Rightarrow> duration \<Rightarrow> pipelineJob \<Rightarrow> TaskPipeline \<Rightarrow> 's \<Rightarrow> go_error option \<times> 's" where
  "resolve_waiting p gh expired window job fresh s =
     (let targets = gate_targets p (pl_RepositoryID fresh) s; token = token_of p s in
      if targets = []
      then openGate p job fresh PipelineGateReasonNoCI
             ''no validate/build/test job is mapped for this repository, so there was never a check to wait for'' s
      else if token = ''''
      then open_if_expired p expired job fresh PipelineGateReasonCIUnavailable
             ''GitHub is not connected, so no build result can reach the board'' s
      else case gate_remote p (pl_RepositoryID fresh) s of
          None \<Rightarrow>
            open_if_expired p expired job fresh PipelineGateReasonCIUnavailable
              ''this repository has no GitHub remote, so its Actions runs cannot be read'' s
        | Some remote \<Rightarrow>
            if TrimSpace (pl_HeadSHA fresh) = ''''
            then open_if_expired p expired job fresh PipelineGateReasonTimeout
                   ''this pipeline never recorded the commit it was about, so its result cannot be looked up'' s
            else resolve_runs p gh expired window job fresh token remote targets s)"

definition resolve_fresh ::
  "'s PipelineRunner \<Rightarrow> github \<Rightarrow> duration \<Rightarrow> TaskPipeline \<Rightarrow> 's \<Rightarrow> go_error option \<times> 's" where
  "resolve_fresh p gh window fresh s =
     (case pr_taskReader p of
        None \<Rightarrow> (Some (ErrText ''pipeline gate: no task reader wired'' [uuid_String (pl_ID fresh)]), s)
      | Some getTask \<Rightarrow>
          (case getTask s (pl_RepositoryID fresh) (pl_TaskID fresh) of
             Inl err \<Rightarrow> (Some (ErrWrap ''pipeline gate: read task'' err), s)
           | Inr task \<Rightarrow>
               if (case gate_workflowFor p (bt_TaskType task) s of
                     None \<Rightarrow> False
                   | Some flow \<Rightarrow> \<not> wf_Has flow (bt_Column task) BehaviourWaitForCI)
               then settleQuietly p fresh ''the task left the CI-gated column before this pipeline reported'' s
               else resolve_waiting p gh (pr_now p s - pl_CreatedAt fresh \<ge> window) window
                      \<lparr>jb_Pipeline = fresh, jb_RepositoryID = pl_RepositoryID fresh, jb_Task = task\<rparr> fresh s))"

definition ResolveUnfinished ::
  "'s PipelineRunner \<Rightarrow> github \<Rightarrow> TaskPipeline \<Rightarrow> duration \<Rightarrow> 's \<Rightarrow> go_error option \<times> 's" where
  "ResolveUnfinished p gh pipeline window0 s =
     (let window = (if window0 \<le> 0 then PipelineGateWindow else window0) in
      if pl_ID pipeline \<in> set (pr_inflight p s) then (None, s)
      else if isDeployTrigger (pl_Trigger pipeline) then (None, s)
      else case st_Get (pr_store p) s (pl_ID pipeline) of
          Inl err \<Rightarrow> (Some err, s)
        | Inr None \<Rightarrow> (None, s)
        | Inr (Some fresh) \<Rightarrow>
            if \<not> unfinished fresh then (None, s) else resolve_fresh p gh window fresh s)"

fun resolve_loop ::
  "'s PipelineRunner \<Rightarrow> github \<Rightarrow> duration \<Rightarrow> ('s \<Rightarrow> bool) \<Rightarrow> TaskPipeline list \<Rightarrow> 's \<Rightarrow> 's" where
  "resolve_loop p gh window over [] s = s"
| "resolve_loop p gh window over (pipeline # pipelines) s =
     (if over s then s
      else resolve_loop p gh window over pipelines (snd (ResolveUnfinished p gh pipeline window s)))"

definition gate_sweep :: "'s PipelineRunner \<Rightarrow> github \<Rightarrow> duration \<Rightarrow> ('s \<Rightarrow> bool) \<Rightarrow> 's \<Rightarrow> 's" where
  "gate_sweep p gh window over s =
     (case st_ListUnfinished (pr_store p) s pipelineGateSweepBatch of
        Inl err \<Rightarrow> s
      | Inr pipelines \<Rightarrow> resolve_loop p gh window over pipelines s)"

definition ResolveByHeadSHA ::
  "'s PipelineRunner \<Rightarrow> github \<Rightarrow> uuid \<Rightarrow> string \<Rightarrow> 's \<Rightarrow> (go_error + nat) \<times> 's" where
  "ResolveByHeadSHA p gh repositoryID headSHA0 s =
     (let headSHA = TrimSpace headSHA0 in
      if headSHA = '''' then (Inr 0, s)
      else case st_ListUnfinishedByHeadSHA (pr_store p) s repositoryID headSHA of
          Inl err \<Rightarrow> (Inl err, s)
        | Inr pipelines \<Rightarrow>
            (Inr (length pipelines),
             resolve_loop p gh PipelineGateWindow (\<lambda>s. False) pipelines s))"

end
