(* ===== verification/Pipeline_World.thy ===== *)
theory Pipeline_World
  imports Pipeline_Gate
begin

text \<open>
  The pipelines over their tables: what the runner relies on in its store and in the rest of the
  board, and the stored runner, whose store is \<open>PipelineStore\<close> of the tables and whose other ports
  are those of any board beside them.
\<close>

section \<open>The sweeper's decision, in one table\<close>

definition all_green :: "mappingTarget list \<Rightarrow> reported \<Rightarrow> bool" where
  "all_green targets byName \<longleftrightarrow>
     list_all (\<lambda>t. case byName (mt_ref t) of None \<Rightarrow> False | Some rj \<Rightarrow> completed rj \<and> succeeded rj) targets"

definition verdict_of :: "mappingTarget list \<Rightarrow> reported \<Rightarrow> PipelineStatus" where
  "verdict_of targets byName =
     (if all_green targets byName then PipelineStatusSuccess else PipelineStatusFailed)"

definition card_left :: "'s PipelineRunner \<Rightarrow> BoardTask \<Rightarrow> 's \<Rightarrow> bool" where
  "card_left p task s \<longleftrightarrow>
     (case gate_workflowFor p (bt_TaskType task) s of
        None \<Rightarrow> False | Some flow \<Rightarrow> \<not> wf_Has flow (bt_Column task) BehaviourWaitForCI)"

definition runs_verdict ::
  "mappingTarget list \<Rightarrow> reported \<Rightarrow> bool \<Rightarrow> string \<Rightarrow> (PipelineStatus \<times> string) option" where
  "runs_verdict targets byName expired reason =
     (if all_terminal targets byName then Some (verdict_of targets byName, reason)
      else if \<not> expired then None
      else if anyReportedFailure targets byName then Some (PipelineStatusFailed, reason)
      else Some (PipelineStatusSkipped, PipelineGateReasonTimeout))"

definition open_when :: "bool \<Rightarrow> string \<Rightarrow> (PipelineStatus \<times> string) option" where
  "open_when due reason = (if due then Some (PipelineStatusSkipped, reason) else None)"

definition gate_verdict ::
  "'s PipelineRunner \<Rightarrow> github \<Rightarrow> duration \<Rightarrow> TaskPipeline \<Rightarrow> BoardTask \<Rightarrow> 's \<Rightarrow> (PipelineStatus \<times> string) option" where
  "gate_verdict p gh window row task s =
     (let targets = gate_targets p (pl_RepositoryID row) s;
          age = pr_now p s - pl_CreatedAt row;
          expired = (age \<ge> window)
      in if card_left p task s then Some (PipelineStatusSkipped, pl_GateReason row)
         else if targets = [] then Some (PipelineStatusSkipped, PipelineGateReasonNoCI)
         else case (token_of p s, gate_remote p (pl_RepositoryID row) s) of
             (c # cs, Some (owner, repo)) \<Rightarrow>
               if TrimSpace (pl_HeadSHA row) = '''' then open_when expired PipelineGateReasonTimeout
               else (case gh_ListRunsByHeadSHA gh (c # cs) owner repo (pl_HeadSHA row) of
                   Inl err \<Rightarrow>
                     if IsCIUnavailable err then open_when True PipelineGateReasonCIUnavailable
                     else open_when expired PipelineGateReasonTimeout
                 | Inr [] \<Rightarrow> open_when (age \<ge> pipelineNoRunGrace) PipelineGateReasonCIUnavailable
                 | Inr (r # rs) \<Rightarrow>
                     runs_verdict targets (merge_runs gh (c # cs) owner repo (r # rs)) expired (pl_GateReason row))
           | _ \<Rightarrow> open_when expired PipelineGateReasonCIUnavailable)"

section \<open>What the runner relies on\<close>

definition same_row :: "TaskPipeline \<Rightarrow> TaskPipeline \<Rightarrow> bool" where
  "same_row f row \<longleftrightarrow> f\<lparr>pl_Jobs := pl_Jobs row\<rparr> = row"

definition write_rows :: "TaskPipeline \<Rightarrow> TaskPipeline list \<Rightarrow> TaskPipeline list" where
  "write_rows q rows = map (\<lambda>row. if pl_ID row = pl_ID q then written_pipeline q row else row) rows"

definition row_of_id :: "uuid \<Rightarrow> TaskPipeline list \<Rightarrow> TaskPipeline option" where
  "row_of_id i rows = find (\<lambda>row. pl_ID row = i) rows"

lemma written_pipeline_simps [simp]:
  "pl_ID (written_pipeline q row) = pl_ID row" "pl_TaskID (written_pipeline q row) = pl_TaskID row"
  "pl_RepositoryID (written_pipeline q row) = pl_RepositoryID row"
  "pl_Trigger (written_pipeline q row) = pl_Trigger row" "pl_CreatedAt (written_pipeline q row) = pl_CreatedAt row"
  "pl_Status (written_pipeline q row) = pl_Status q" "pl_Provider (written_pipeline q row) = pl_Provider q"
  "pl_GateReason (written_pipeline q row) = pl_GateReason q" "pl_FinishedAt (written_pipeline q row) = pl_FinishedAt q"
  "pl_HeadSHA (written_pipeline q row) = pl_HeadSHA q" "pl_Jobs (written_pipeline q row) = pl_Jobs row"
  by (simp_all add: written_pipeline_def)

lemma row_of_id_write:
  "row_of_id i (write_rows q rows) =
     map_option (\<lambda>row. if i = pl_ID q then written_pipeline q row else row) (row_of_id i rows)"
  by (induction rows) (auto simp: row_of_id_def write_rows_def)

lemma row_of_id_SomeD: "row_of_id i rows = Some row \<Longrightarrow> pl_ID row = i \<and> row \<in> set rows"
  unfolding row_of_id_def by (auto dest: find_SomeD)

lemma same_row_fields:
  assumes "same_row f row"
  shows "pl_ID f = pl_ID row" and "pl_Trigger f = pl_Trigger row" and "pl_GateReason f = pl_GateReason row"
    and "pl_CreatedAt f = pl_CreatedAt row" and "pl_HeadSHA f = pl_HeadSHA row" and "pl_Status f = pl_Status row"
    and "pl_RepositoryID f = pl_RepositoryID row" and "pl_TaskID f = pl_TaskID row" and "unfinished f = unfinished row"
    and "pl_Provider f = pl_Provider row" and "pl_Note f = pl_Note row" and "pl_StartedAt f = pl_StartedAt row"
    and "pl_FinishedAt f = pl_FinishedAt row"
  using assms by (cases f; cases row; simp add: same_row_def unfinished_def)+

text \<open>Two tables that differ at most in the row of one id, its id and trigger kept.\<close>

definition row_touched :: "uuid \<Rightarrow> TaskPipeline list \<Rightarrow> TaskPipeline list \<Rightarrow> bool" where
  "row_touched i old new \<longleftrightarrow>
     (\<exists>f. new = map f old \<and>
        (\<forall>r. pl_ID (f r) = pl_ID r \<and> pl_Trigger (f r) = pl_Trigger r \<and> (pl_ID r \<noteq> i \<longrightarrow> f r = r)))"

lemma row_touched_refl [simp]: "row_touched i old old"
  unfolding row_touched_def by (intro exI [of _ id]) simp

lemma row_touched_trans:
  assumes "row_touched i old mid" and "row_touched i mid new"
  shows "row_touched i old new"
proof -
  obtain f where f: "mid = map f old"
    "\<And>r. pl_ID (f r) = pl_ID r \<and> pl_Trigger (f r) = pl_Trigger r \<and> (pl_ID r \<noteq> i \<longrightarrow> f r = r)"
    using assms(1) unfolding row_touched_def by blast
  obtain g where g: "new = map g mid"
    "\<And>r. pl_ID (g r) = pl_ID r \<and> pl_Trigger (g r) = pl_Trigger r \<and> (pl_ID r \<noteq> i \<longrightarrow> g r = r)"
    using assms(2) unfolding row_touched_def by blast
  show ?thesis unfolding row_touched_def using f g by (intro exI [of _ "g \<circ> f"]) simp
qed

lemma write_touches: "row_touched (pl_ID q) old (write_rows q old)"
  unfolding row_touched_def write_rows_def by (intro exI conjI, rule refl) auto

lemma touched_trigger:
  assumes "row_touched i old new"
  shows "map_option pl_Trigger (row_of_id j new) = map_option pl_Trigger (row_of_id j old)"
proof -
  obtain f where new: "new = map f old" and f: "\<And>r. pl_ID (f r) = pl_ID r \<and> pl_Trigger (f r) = pl_Trigger r"
    using assms unfolding row_touched_def by blast
  show ?thesis unfolding new using f by (induction old) (auto simp: row_of_id_def)
qed

lemma touched_other:
  assumes "row_touched i old new" and "j \<noteq> i"
  shows "row_of_id j new = row_of_id j old"
proof -
  obtain f where new: "new = map f old" and f: "\<And>r. pl_ID (f r) = pl_ID r \<and> (pl_ID r \<noteq> i \<longrightarrow> f r = r)"
    using assms unfolding row_touched_def by blast
  show ?thesis unfolding new using f assms(2) by (induction old) (auto simp: row_of_id_def)
qed

locale pipeline_store =
  fixes rows :: "'s \<Rightarrow> TaskPipeline list" and p :: "'s PipelineRunner"
  assumes get: "row_of_id i (rows s) = Some row \<Longrightarrow>
      \<exists>f. st_Get (pr_store p) s i = Inr (Some f) \<and> same_row f row"
    and get_none: "row_of_id i (rows s) = None \<Longrightarrow> st_Get (pr_store p) s i = Inr None"
    and update: "row_of_id (pl_ID q) (rows s) = Some row \<Longrightarrow>
      \<exists>s1. st_Update (pr_store p) q s = (Inr (written_pipeline q row), s1) \<and> rows s1 = write_rows q (rows s)"
    and claim: "row_of_id (pl_ID q) (rows s) = Some row \<Longrightarrow> unfinished row \<Longrightarrow>
      \<exists>s1. st_ClaimTerminal (pr_store p) q s = (Inr (Some (written_pipeline q row)), s1) \<and>
           rows s1 = write_rows q (rows s)"
    and claim_lost: "row_of_id (pl_ID q) (rows s) = Some row \<Longrightarrow> \<not> unfinished row \<Longrightarrow>
      st_ClaimTerminal (pr_store p) q s = (Inr None, s)"
    and job_kept: "rows (snd (st_CreateJob (pr_store p) j s)) = rows s"
    and comment_kept: "pr_tasks p = Some tasks \<Longrightarrow> rows (tu_AddComment tasks r t c s) = rows s"
    and move_kept: "pr_tasks p = Some tasks \<Longrightarrow> rows (tu_UpdateTask tasks r t req s) = rows s"
    and qa_kept: "pr_qa p = Some qa \<Longrightarrow> rows (snd (qa r task i reason s)) = rows s"
    and bounce_kept: "rows (snd (Bounce_Hold (pr_bounces p) r task pipeline s)) = rows s"
begin

lemma says_kept: "rows (system_says p r t c s) = rows s"
  by (simp add: system_says_def comment_kept split: option.split)

lemma persist_kept: "rows (snd (persistJob p pj s)) = rows s"
  using job_kept [of pj s]
  by (auto simp: persistJob_def split: prod.splits sum.splits)

lemma judge_kept: "rows (snd (judge_loop p gh i gitInfo token byName n ts status s)) = rows s"
proof (induction ts arbitrary: n status s)
  case (Cons t ts)
  let ?pj = "judged_job gh i gitInfo token n t (byName (mt_ref t))"
  show ?case
    using Cons.IH [of "n + 1" "if pj_Status ?pj = PipelineJobStatusSuccess then status else PipelineStatusFailed"
        "snd (persistJob p ?pj s)"] persist_kept [of ?pj s]
    by (simp add: Let_def split_beta)
qed simp

lemma evaluate_kept: "rows (snd (evaluate p gh i gitInfo token targets byName timedOut s)) = rows s"
  using judge_kept [of gh i gitInfo token byName 0 targets PipelineStatusSuccess s]
  by (auto simp: evaluate_def split_beta)

lemma mark_row:
  assumes "same_row f row" and "row_of_id (pl_ID row) (rows s) = Some row"
  shows "same_row (fst (markProvider p f prov s)) (row\<lparr>pl_Provider := prov\<rparr>) \<and>
    row_of_id (pl_ID row) (rows (snd (markProvider p f prov s))) = Some (row\<lparr>pl_Provider := prov\<rparr>)"
proof (cases "pl_Provider f = prov")
  case True
  then have "prov = pl_Provider row" using same_row_fields(10) [OF assms(1)] by simp
  then show ?thesis using True assms by (simp add: markProvider_def)
next
  case False
  let ?q = "f\<lparr>pl_Provider := prov\<rparr>"
  have "row_of_id (pl_ID ?q) (rows s) = Some row" using assms same_row_fields [OF assms(1)] by simp
  then obtain s1 where "st_Update (pr_store p) ?q s = (Inr (written_pipeline ?q row), s1)"
      and "rows s1 = write_rows ?q (rows s)"
    using update by blast
  moreover have "written_pipeline ?q row = row\<lparr>pl_Provider := prov\<rparr>"
    using same_row_fields [OF assms(1)] by (simp add: written_pipeline_def)
  ultimately show ?thesis
    using False assms same_row_fields [OF assms(1)]
    by (simp add: markProvider_def row_of_id_write same_row_def Let_def)
qed

lemma red_kept:
  assumes "\<not> isDeployTrigger (pl_Trigger pipeline)"
  shows "rows (red_effects p job pipeline s) = rows s"
proof -
  have "rows (reportPipelineFailure p job pipeline s) = rows s" for s
    by (simp add: reportPipelineFailure_def Let_def comment_kept move_kept split: option.split)
  then show ?thesis
    using assms bounce_kept [of "jb_RepositoryID job" "jb_Task job" pipeline s]
    by (auto simp: red_effects_def split: prod.splits bool.splits)
qed

lemma green_kept:
  assumes "\<not> isDeployTrigger (pl_Trigger pipeline)"
  shows "rows (green_effects p job pipeline jobs s) = rows s"
  using assms by (auto simp: green_effects_def isDeployTrigger_def qa_kept split: option.split)

lemma verdict_kept:
  assumes "\<not> isDeployTrigger (pl_Trigger pipeline)"
  shows "rows (verdict_effects p job pipeline jobs s) = rows s"
  using assms by (simp add: verdict_effects_def red_kept green_kept)

lemma finalize_row:
  assumes "row_of_id (pl_ID row) (rows s) = Some row" and "pl_ID f = pl_ID row"
    and "unfinished row" and "\<not> isDeployTrigger (pl_Trigger row)"
  shows "\<exists>row'. row_of_id (pl_ID row) (rows (snd (finalize p job f status jobs s))) = Some row' \<and>
    pl_Status row' = status \<and> pl_GateReason row' = pl_GateReason f \<and> pl_FinishedAt row' = Some (pr_now p s)"
proof -
  let ?q = "f\<lparr>pl_Status := status, pl_FinishedAt := Some (pr_now p s), pl_Jobs := jobs\<rparr>"
  have "row_of_id (pl_ID ?q) (rows s) = Some row" using assms by simp
  then obtain s1 where claimed: "st_ClaimTerminal (pr_store p) ?q s = (Inr (Some (written_pipeline ?q row)), s1)"
      and written: "rows s1 = write_rows ?q (rows s)"
    using claim assms(3) by blast
  have "rows (snd (finalize p job f status jobs s)) = rows s1"
    using claimed assms(4) by (simp add: finalize_def verdict_kept)
  then show ?thesis using written assms(1,2) by (simp add: row_of_id_write)
qed

lemma openGate_row:
  assumes "row_of_id (pl_ID row) (rows s) = Some row" and "pl_ID f = pl_ID row"
    and "unfinished row" and "\<not> isDeployTrigger (pl_Trigger row)"
  shows "\<exists>row'. row_of_id (pl_ID row) (rows (snd (openGate p job f reason note s))) = Some row' \<and>
    pl_Status row' = PipelineStatusSkipped \<and> pl_GateReason row' = reason \<and> pl_FinishedAt row' \<noteq> None"
proof -
  let ?j = "skipped_job (pl_ID f) (gateReasonLabel reason) reason note"
  let ?s1 = "system_says p (jb_RepositoryID job) (bt_ID (jb_Task job))
      (pipelineGateNoGreenBuildComment p reason note) (snd (persistJob p ?j s))"
  have "row_of_id (pl_ID row) (rows ?s1) = Some row"
    using assms(1) by (simp add: says_kept persist_kept)
  from finalize_row [OF this, where f = "f\<lparr>pl_Provider := PipelineProviderNone, pl_GateReason := reason, pl_Note := note\<rparr>"]
  show ?thesis using assms(2-) by (fastforce simp: openGate_def split_beta)
qed

lemma settle_row:
  assumes "row_of_id (pl_ID row) (rows s) = Some row" and "pl_ID f = pl_ID row"
  shows "\<exists>row'. row_of_id (pl_ID row) (rows (snd (settle p f status prov note jobs s))) = Some row' \<and>
    pl_Status row' = status \<and> pl_GateReason row' = pl_GateReason f \<and> pl_FinishedAt row' \<noteq> None"
proof -
  let ?q = "f\<lparr>pl_Status := status, pl_Provider := prov, pl_Note := note, pl_FinishedAt := Some (pr_now p s), pl_Jobs := jobs\<rparr>"
  have "row_of_id (pl_ID ?q) (rows s) = Some row" using assms by simp
  then obtain s1 where "st_Update (pr_store p) ?q s = (Inr (written_pipeline ?q row), s1)"
      and "rows s1 = write_rows ?q (rows s)"
    using update by blast
  then show ?thesis using assms by (simp add: settle_def row_of_id_write)
qed

end

section \<open>The verdict a pipeline gets\<close>

lemma judged_green:
  "pj_Status (judged_job gh i gitInfo token n t report) = PipelineJobStatusSuccess \<longleftrightarrow>
     (case report of None \<Rightarrow> False | Some rj \<Rightarrow> completed rj \<and> succeeded rj)"
  by (simp add: judged_job_def Let_def pipe_defs split: option.split)

lemma judge_status:
  "snd (fst (judge_loop p gh i gitInfo token byName n ts status s)) =
     (if all_green ts byName then status else PipelineStatusFailed)"
proof (induction ts arbitrary: n status s)
  case (Cons t ts)
  show ?case
    by (auto simp: Let_def split_beta Cons.IH judged_green all_green_def split: option.splits)
qed (simp add: all_green_def)

lemma evaluate_status:
  "map_option snd (fst (evaluate p gh i gitInfo token targets byName timedOut s)) =
     (if \<not> all_terminal targets byName \<and> \<not> timedOut then None else Some (verdict_of targets byName))"
  using judge_status [of p gh i gitInfo token byName 0 targets PipelineStatusSuccess s]
  by (cases "fst (judge_loop p gh i gitInfo token byName 0 targets PipelineStatusSuccess s)")
    (auto simp: evaluate_def split_beta verdict_of_def)

lemma failure_not_green: "anyReportedFailure targets byName \<Longrightarrow> \<not> all_green targets byName"
  by (auto simp: anyReportedFailure_def all_green_def list_ex_iff list_all_iff split: option.splits)

text \<open>What became of the row, against the table.\<close>

definition settled_as :: "(PipelineStatus \<times> string) option \<Rightarrow> TaskPipeline \<Rightarrow> TaskPipeline option \<Rightarrow> bool" where
  "settled_as verdict row after \<longleftrightarrow>
     (case verdict of
        None \<Rightarrow> after = Some row
      | Some (status, reason) \<Rightarrow>
          (\<exists>row'. after = Some row' \<and> pl_Status row' = status \<and> pl_GateReason row' = reason \<and>
             pl_FinishedAt row' \<noteq> None))"

context pipeline_store
begin

lemma reported_row:
  assumes row: "row_of_id (pl_ID row) (rows s) = Some row" and f: "same_row f row"
    and un: "unfinished row" and nd: "\<not> isDeployTrigger (pl_Trigger row)"
  shows "settled_as (runs_verdict targets byName expired (pl_GateReason row)) row
    (row_of_id (pl_ID row) (rows (snd (resolve_reported p gh expired txt job f gitInfo token targets byName s))))"
proof -
  have marked: "\<exists>row'. row_of_id (pl_ID row) (rows (snd (finalize p job (fst (markProvider p f prov s'))
        status jobs (snd (markProvider p f prov s'))))) = Some row' \<and> pl_Status row' = status \<and>
      pl_GateReason row' = pl_GateReason row \<and> pl_FinishedAt row' \<noteq> None"
    if "rows s' = rows s" for prov s' status jobs
  proof -
    let ?row = "row\<lparr>pl_Provider := prov\<rparr>"
    from mark_row [OF f] row that have m: "same_row (fst (markProvider p f prov s')) ?row"
      and r: "row_of_id (pl_ID ?row) (rows (snd (markProvider p f prov s'))) = Some ?row" by auto
    from finalize_row [OF r, where f = "fst (markProvider p f prov s')" and job = job and status = status and jobs = jobs]
    show ?thesis using un nd same_row_fields [OF m] by (auto simp: unfinished_def)
  qed
  have id: "pl_ID f = pl_ID row" using same_row_fields [OF f] by simp
  let ?e = "\<lambda>timedOut. evaluate p gh (pl_ID f) gitInfo token targets byName timedOut"
  have opened: "\<exists>row'. row_of_id (pl_ID row) (rows (snd (openGate p job f reason msg s'))) = Some row' \<and>
      pl_Status row' = PipelineStatusSkipped \<and> pl_GateReason row' = reason \<and> pl_FinishedAt row' \<noteq> None"
    if "rows s' = rows s" for reason msg s'
    using openGate_row [of row s' f] row id un nd that by simp
  show ?thesis
  proof (cases "?e False s")
    case (Pair r1 s1)
    have s1: "rows s1 = rows s" using evaluate_kept [of gh "pl_ID f" gitInfo token targets byName False s] Pair by simp
    have st1: "map_option snd r1 = (if \<not> all_terminal targets byName then None else Some (verdict_of targets byName))"
      using evaluate_status [of p gh "pl_ID f" gitInfo token targets byName False s] Pair by simp
    show ?thesis
    proof (cases r1)
      case None
      then have nt: "\<not> all_terminal targets byName" using st1 by (simp split: if_splits)
      obtain r2 s2 where e2: "?e True s1 = (r2, s2)" by (cases "?e True s1")
      have s2: "rows s2 = rows s"
        using evaluate_kept [of gh "pl_ID f" gitInfo token targets byName True s1] e2 s1 by simp
      have st2: "map_option snd r2 = Some (verdict_of targets byName)"
        using evaluate_status [of p gh "pl_ID f" gitInfo token targets byName True s1] e2 by simp
      then obtain jobs where r2: "r2 = Some (jobs, verdict_of targets byName)" by auto
      show ?thesis
        using None Pair nt e2 r2 s1 s2 row marked [OF s2] opened [OF s1] failure_not_green [of targets byName]
        by (auto simp: resolve_reported_def settled_as_def runs_verdict_def split_beta verdict_of_def)
    next
      case (Some result)
      then have "all_terminal targets byName \<and> snd result = verdict_of targets byName"
        using st1 by (auto split: if_splits)
      then show ?thesis
        using Some Pair marked [OF s1]
        by (auto simp: resolve_reported_def settled_as_def runs_verdict_def split_beta)
    qed
  qed
qed

lemma opened_row:
  assumes "row_of_id (pl_ID row) (rows s) = Some row" and "same_row f row"
    and "unfinished row" and "\<not> isDeployTrigger (pl_Trigger row)"
  shows "settled_as (open_when due reason) row
    (row_of_id (pl_ID row) (rows (snd (open_if_expired p due job f reason note s))))"
  using openGate_row [OF assms(1) same_row_fields(1) [OF assms(2)] assms(3,4)] assms(1)
  by (auto simp: settled_as_def open_when_def open_if_expired_def)

lemma resolved_row:
  assumes row: "row_of_id (pl_ID row) (rows s) = Some row" and un: "unfinished row"
    and nd: "\<not> isDeployTrigger (pl_Trigger row)" and free: "pl_ID row \<notin> set (pr_inflight p s)"
    and reader: "pr_taskReader p = Some getTask"
    and task: "getTask s (pl_RepositoryID row) (pl_TaskID row) = Inr task"
    and window: "0 < window"
  shows "settled_as (gate_verdict p gh window row task s) row
    (row_of_id (pl_ID row) (rows (snd (ResolveUnfinished p gh row window s))))"
proof -
  obtain f where got: "st_Get (pr_store p) s (pl_ID row) = Inr (Some f)" and f: "same_row f row"
    using get [OF row] by blast
  note fields = same_row_fields [OF f]
  have resolved: "ResolveUnfinished p gh row window s = resolve_fresh p gh window f s"
    using got free nd un window fields by (simp add: ResolveUnfinished_def Let_def)
  let ?job = "\<lparr>jb_Pipeline = f, jb_RepositoryID = pl_RepositoryID f, jb_Task = task\<rparr>"
  have settled: "settled_as (Some (PipelineStatusSkipped, pl_GateReason row)) row
      (row_of_id (pl_ID row) (rows (snd (settleQuietly p f msg s))))" for msg
    using settle_row [OF row fields(1)] fields by (auto simp: settleQuietly_def settled_as_def)
  have opened: "settled_as (open_when due reason) row
      (row_of_id (pl_ID row) (rows (snd (open_if_expired p due ?job f reason msg s))))" for due reason msg
    by (rule opened_row [OF row f un nd])
  have always: "settled_as (Some (PipelineStatusSkipped, reason)) row
      (row_of_id (pl_ID row) (rows (snd (openGate p ?job f reason msg s))))" for reason msg
    using opened [of True reason msg] by (simp add: open_when_def open_if_expired_def)
  have waiting: "settled_as (gate_verdict p gh window row task s) row
      (row_of_id (pl_ID row) (rows (snd (resolve_waiting p gh (window \<le> pr_now p s - pl_CreatedAt row) window ?job f s))))"
    if "\<not> card_left p task s"
  proof (cases "gate_targets p (pl_RepositoryID row) s = []")
    case True
    then show ?thesis using that always fields by (simp add: resolve_waiting_def gate_verdict_def Let_def)
  next
    case targets: False
    show ?thesis
    proof (cases "token_of p s = '''' \<or> gate_remote p (pl_RepositoryID row) s = None")
      case True
      then show ?thesis
        using that targets opened fields
        by (auto simp: resolve_waiting_def gate_verdict_def Let_def split: list.split option.split)
    next
      case False
      then obtain c cs owner repo where token: "token_of p s = c # cs"
          and remote: "gate_remote p (pl_RepositoryID row) s = Some (owner, repo)"
        by (cases "token_of p s") auto
      show ?thesis
      proof (cases "TrimSpace (pl_HeadSHA row) = ''''")
        case True
        then show ?thesis
          using that targets opened fields token remote
          by (simp add: resolve_waiting_def gate_verdict_def Let_def)
      next
        case sha: False
        show ?thesis
          using that targets fields token remote sha always opened reported_row [OF row f un nd]
          by (cases "gh_ListRunsByHeadSHA gh (c # cs) owner repo (pl_HeadSHA row)")
            (auto simp: resolve_waiting_def gate_verdict_def resolve_runs_def open_when_def Let_def split: list.split)
      qed
    qed
  qed
  show ?thesis
  proof (cases "card_left p task s")
    case True
    then show ?thesis
      using resolved reader task fields settled
      by (auto simp: resolve_fresh_def card_left_def gate_verdict_def split: option.splits)
  next
    case False
    then have "resolve_fresh p gh window f s =
        resolve_waiting p gh (window \<le> pr_now p s - pl_CreatedAt row) window ?job f s"
      using reader task fields by (auto simp: resolve_fresh_def card_left_def split: option.splits)
    then show ?thesis using waiting [OF False] resolved by simp
  qed
qed

end

section \<open>A look at one pipeline touches no other\<close>

context pipeline_store
begin

lemma mark_touches:
  assumes "same_row f row" and "row_of_id (pl_ID row) (rows s) = Some row"
  shows "row_touched (pl_ID row) (rows s) (rows (snd (markProvider p f prov s)))"
proof (cases "pl_Provider f = prov")
  case False
  let ?q = "f\<lparr>pl_Provider := prov\<rparr>"
  have id: "pl_ID ?q = pl_ID row" using same_row_fields [OF assms(1)] by simp
  then obtain s1 where "st_Update (pr_store p) ?q s = (Inr (written_pipeline ?q row), s1)"
      and "rows s1 = write_rows ?q (rows s)"
    using update [of ?q s row] assms(2) by auto
  then show ?thesis using False write_touches [of ?q "rows s"] id by (simp add: markProvider_def Let_def)
qed (simp add: markProvider_def)

lemma finalize_touches:
  assumes "row_of_id (pl_ID row) (rows s) = Some row" and "pl_ID f = pl_ID row"
    and "unfinished row" and "\<not> isDeployTrigger (pl_Trigger row)"
  shows "row_touched (pl_ID row) (rows s) (rows (snd (finalize p job f status jobs s)))"
proof -
  let ?q = "f\<lparr>pl_Status := status, pl_FinishedAt := Some (pr_now p s), pl_Jobs := jobs\<rparr>"
  obtain s1 where claimed: "st_ClaimTerminal (pr_store p) ?q s = (Inr (Some (written_pipeline ?q row)), s1)"
      and written: "rows s1 = write_rows ?q (rows s)"
    using claim [of ?q s row] assms by auto
  have "rows (snd (finalize p job f status jobs s)) = rows s1"
    using claimed assms(4) by (simp add: finalize_def verdict_kept)
  then show ?thesis using written write_touches [of ?q "rows s"] assms(2) by simp
qed

lemma openGate_touches:
  assumes "row_of_id (pl_ID row) (rows s) = Some row" and "pl_ID f = pl_ID row"
    and "unfinished row" and "\<not> isDeployTrigger (pl_Trigger row)"
  shows "row_touched (pl_ID row) (rows s) (rows (snd (openGate p job f reason note s)))"
proof -
  let ?j = "skipped_job (pl_ID f) (gateReasonLabel reason) reason note"
  let ?s1 = "system_says p (jb_RepositoryID job) (bt_ID (jb_Task job))
      (pipelineGateNoGreenBuildComment p reason note) (snd (persistJob p ?j s))"
  have "rows ?s1 = rows s" by (simp add: says_kept persist_kept)
  then show ?thesis
    using finalize_touches [of row ?s1 "f\<lparr>pl_Provider := PipelineProviderNone, pl_GateReason := reason, pl_Note := note\<rparr>"]
      assms by (simp add: openGate_def split_beta)
qed

lemma reported_touches:
  assumes row: "row_of_id (pl_ID row) (rows s) = Some row" and f: "same_row f row"
    and un: "unfinished row" and nd: "\<not> isDeployTrigger (pl_Trigger row)"
  shows "row_touched (pl_ID row) (rows s)
    (rows (snd (resolve_reported p gh expired txt job f gitInfo token targets byName s)))"
proof -
  have marked: "row_touched (pl_ID row) (rows s) (rows (snd (finalize p job (fst (markProvider p f prov s'))
        status jobs (snd (markProvider p f prov s')))))"
    if same: "rows s' = rows s" for prov s' status jobs
  proof -
    let ?row = "row\<lparr>pl_Provider := prov\<rparr>"
    from mark_row [OF f] row same have m: "same_row (fst (markProvider p f prov s')) ?row"
      and r: "row_of_id (pl_ID ?row) (rows (snd (markProvider p f prov s'))) = Some ?row" by auto
    have "row_touched (pl_ID row) (rows (snd (markProvider p f prov s')))
        (rows (snd (finalize p job (fst (markProvider p f prov s')) status jobs (snd (markProvider p f prov s')))))"
      using finalize_touches [OF r] un nd same_row_fields [OF m] by (auto simp: unfinished_def)
    then show ?thesis
      using row_touched_trans mark_touches [OF f, of s' prov] row same by auto
  qed
  have opened: "row_touched (pl_ID row) (rows s) (rows (snd (openGate p job f reason msg s')))"
    if "rows s' = rows s" for reason msg s'
    using openGate_touches [of row s' f] row same_row_fields(1) [OF f] un nd that by simp
  let ?e = "\<lambda>timedOut. evaluate p gh (pl_ID f) gitInfo token targets byName timedOut"
  obtain r1 s1 where e1: "?e False s = (r1, s1)" by (cases "?e False s")
  obtain r2 s2 where e2: "?e True s1 = (r2, s2)" by (cases "?e True s1")
  have s1: "rows s1 = rows s" using evaluate_kept [of gh "pl_ID f" gitInfo token targets byName False s] e1 by simp
  have s2: "rows s2 = rows s"
    using evaluate_kept [of gh "pl_ID f" gitInfo token targets byName True s1] e2 s1 by simp
  show ?thesis
    using e1 e2 s1 marked [OF s1] marked [OF s2] opened [OF s1] opened [OF s2]
    by (auto simp: resolve_reported_def split_beta split: option.split prod.split)
qed

lemma fresh_touches:
  assumes row: "row_of_id (pl_ID row) (rows s) = Some row" and f: "same_row f row"
    and un: "unfinished row" and nd: "\<not> isDeployTrigger (pl_Trigger row)"
  shows "row_touched (pl_ID row) (rows s) (rows (snd (resolve_fresh p gh window f s)))"
proof -
  have opened: "row_touched (pl_ID row) (rows s) (rows (snd (openGate p job f reason msg s)))" for job reason msg
    using row same_row_fields(1) [OF f] un nd by (rule openGate_touches)
  then have due: "row_touched (pl_ID row) (rows s) (rows (snd (open_if_expired p due job f reason msg s)))"
    for due job reason msg by (simp add: open_if_expired_def)
  have runs: "row_touched (pl_ID row) (rows s) (rows (snd (resolve_runs p gh due window job f token remote targets s)))"
    for due job token remote targets
    using opened due reported_touches [OF row f un nd]
    by (auto simp: resolve_runs_def Let_def split: prod.split sum.split)
  have settled: "row_touched (pl_ID row) (rows s) (rows (snd (settleQuietly p f msg s)))" for msg
  proof -
    let ?q = "f\<lparr>pl_Status := PipelineStatusSkipped, pl_Provider := pl_Provider f, pl_Note := msg,
        pl_FinishedAt := Some (pr_now p s), pl_Jobs := []\<rparr>"
    obtain s1 where "st_Update (pr_store p) ?q s = (Inr (written_pipeline ?q row), s1)"
        and "rows s1 = write_rows ?q (rows s)"
      using update [of ?q s row] row same_row_fields(1) [OF f] by auto
    then show ?thesis
      using write_touches [of ?q "rows s"] same_row_fields(1) [OF f] by (simp add: settleQuietly_def settle_def)
  qed
  show ?thesis
    using opened due runs settled
    by (auto simp: resolve_fresh_def resolve_waiting_def Let_def split: option.split sum.split)
qed

lemma resolved_touches:
  assumes "map_option pl_Trigger (row_of_id (pl_ID q) (rows s)) \<in> {None, Some (pl_Trigger q)}"
  shows "row_touched (pl_ID q) (rows s) (rows (snd (ResolveUnfinished p gh q window s)))"
proof (cases "row_of_id (pl_ID q) (rows s)")
  case None
  then show ?thesis using get_none by (simp add: ResolveUnfinished_def Let_def)
next
  case (Some row)
  obtain f where got: "st_Get (pr_store p) s (pl_ID q) = Inr (Some f)" and f: "same_row f row"
    using get [OF Some] by blast
  have "pl_ID row = pl_ID q" "pl_Trigger row = pl_Trigger q"
    using assms Some row_of_id_SomeD [OF Some] by auto
  then show ?thesis
    using got fresh_touches [of row s f] f Some same_row_fields(9) [OF f]
    by (auto simp: ResolveUnfinished_def Let_def)
qed

lemma loop_keeps_row:
  assumes "\<forall>q \<in> set qs. map_option pl_Trigger (row_of_id (pl_ID q) (rows s)) \<in> {None, Some (pl_Trigger q)}"
    and "i \<notin> pl_ID ` set qs"
  shows "row_of_id i (rows (resolve_loop p gh window over qs s)) = row_of_id i (rows s)"
  using assms
proof (induction qs arbitrary: s)
  case (Cons q qs)
  let ?s = "snd (ResolveUnfinished p gh q window s)"
  have touched: "row_touched (pl_ID q) (rows s) (rows ?s)"
    using Cons.prems(1) by (intro resolved_touches) simp
  have "row_of_id i (rows (resolve_loop p gh window over qs ?s)) = row_of_id i (rows ?s)"
    using Cons.prems touched_trigger [OF touched] by (intro Cons.IH) auto
  then show ?case using touched_other [OF touched, of i] Cons.prems(2) by simp
qed simp

end

section \<open>The stored runner\<close>

text \<open>\<open>pw_board\<close> is the rest of the board; ids are handed out in order.\<close>

record 'm pipeline_world =
  pw_tables :: PipelineTables
  pw_nextID :: uuid
  pw_now :: time
  pw_queue :: "pipelineJob list"
  pw_inflight :: "uuid list"
  pw_board :: 'm

definition on_board :: "('m \<Rightarrow> 'm) \<Rightarrow> 'm pipeline_world \<Rightarrow> 'm pipeline_world" where
  "on_board f w = w\<lparr>pw_board := f (pw_board w)\<rparr>"

definition asking_board :: "('m \<Rightarrow> 'a \<times> 'm) \<Rightarrow> 'm pipeline_world \<Rightarrow> 'a \<times> 'm pipeline_world" where
  "asking_board f w = (case f (pw_board w) of (r, m) \<Rightarrow> (r, w\<lparr>pw_board := m\<rparr>))"

definition in_tables ::
  "(PipelineTables \<Rightarrow> 'a \<times> PipelineTables) \<Rightarrow> 'm pipeline_world \<Rightarrow> 'a \<times> 'm pipeline_world" where
  "in_tables f w = (case f (pw_tables w) of (r, t) \<Rightarrow> (r, w\<lparr>pw_tables := t\<rparr>))"

definition with_id ::
  "(uuid \<Rightarrow> PipelineTables \<Rightarrow> 'a \<times> PipelineTables) \<Rightarrow> 'm pipeline_world \<Rightarrow> 'a \<times> 'm pipeline_world" where
  "with_id f w = in_tables (f (pw_nextID w)) (w\<lparr>pw_nextID := pw_nextID w + 1\<rparr>)"

definition right_value :: "'a \<times> 'b \<Rightarrow> ('e + 'a) \<times> 'b" where "right_value x = (Inr (fst x), snd x)"

definition stored_pipelines :: "'m pipeline_world PipelineStore" where
  "stored_pipelines =
     \<lparr>st_Create = (\<lambda>q w. right_value (with_id (\<lambda>i. pipeline_Create i (pw_now w) q) w)),
      st_Update = (\<lambda>q. in_tables (pipeline_Update q)),
      st_ClaimTerminal = (\<lambda>q. in_tables (pipeline_ClaimTerminal q)),
      st_SupersedePending = (\<lambda>t w. w\<lparr>pw_tables := pipeline_SupersedePending (pw_now w) t (pw_tables w)\<rparr>),
      st_CreateJob = (\<lambda>j w. right_value (with_id (\<lambda>i. pipeline_CreateJob i j) w)),
      st_Get = (\<lambda>w i. Inr (pipeline_Get (pw_tables w) i)),
      st_ListByTask = (\<lambda>w t. Inr (pipeline_ListByTask (pw_tables w) t)),
      st_LatestByTask = (\<lambda>w t. Inr (pipeline_LatestByTask (pw_tables w) t)),
      st_ListUnfinished = (\<lambda>w n. Inr (pipeline_ListUnfinished (pw_tables w) n)),
      st_ListUnfinishedByHeadSHA = (\<lambda>w r sha. Inr (pipeline_ListUnfinishedByHeadSHA (pw_tables w) r sha))\<rparr>"

definition board_updater :: "'m TaskUpdater \<Rightarrow> 'm pipeline_world TaskUpdater" where
  "board_updater u =
     \<lparr>tu_UpdateTask = (\<lambda>r t req. on_board (tu_UpdateTask u r t req)),
      tu_AddComment = (\<lambda>r t c. on_board (tu_AddComment u r t c))\<rparr>"

definition board_journal :: "'m ParkJournal \<Rightarrow> 'm pipeline_world ParkJournal" where
  "board_journal j =
     \<lparr>pj_Create = (\<lambda>e. asking_board (pj_Create j e)),
      pj_RecordMove = map_option (\<lambda>move r t c at. on_board (move r t c at)) (pj_RecordMove j)\<rparr>"

definition board_guard :: "'m PipelineBounceGuard \<Rightarrow> 'm pipeline_world PipelineBounceGuard" where
  "board_guard g =
     \<lparr>bg_pipelines = Some (\<lambda>w t. Inr (pipeline_ListByTask (pw_tables w) t)),
      bg_tasks = map_option (\<lambda>say r t c. on_board (say r t c)) (bg_tasks g),
      bg_parker = map_option (\<lambda>block r t res d. asking_board (block r t res d)) (bg_parker g),
      bg_parks = map_option board_journal (bg_parks g),
      bg_events = map_option (\<lambda>list w. list (pw_board w)) (bg_events g),
      bg_reader = map_option (\<lambda>read w. read (pw_board w)) (bg_reader g),
      bg_comment = bg_comment g, bg_noteLabel = bg_noteLabel g\<rparr>"

definition board_git :: "'m PipelineGit \<Rightarrow> 'm pipeline_world PipelineGit" where
  "board_git g =
     \<lparr>pg_TaskDir = (\<lambda>w. pg_TaskDir g (pw_board w)), pg_Stat = (\<lambda>w. pg_Stat g (pw_board w)),
      pg_EnsurePullRequest = (\<lambda>d. asking_board (pg_EnsurePullRequest g d)),
      pg_PushBranch = (\<lambda>d. asking_board (pg_PushBranch g d)),
      pg_TaskGitInfo = (\<lambda>w. pg_TaskGitInfo g (pw_board w))\<rparr>"

definition stored_runner :: "'m PipelinePorts \<Rightarrow> 'm pipeline_world PipelineRunner" where
  "stored_runner b =
     \<lparr>pr_jobs = map_option (\<lambda>f w. f (pw_board w)) (pr_jobs b),
      pr_RemoteURL = (\<lambda>w. pr_RemoteURL b (pw_board w)),
      pr_tasks = map_option board_updater (pr_tasks b),
      pr_qa = map_option (\<lambda>f r t i reason. asking_board (f r t i reason)) (pr_qa b),
      pr_git = map_option board_git (pr_git b),
      pr_tokens = map_option (\<lambda>f w. f (pw_board w)) (pr_tokens b),
      pr_DispatchWorkflow = (\<lambda>t r n wf ref. asking_board (pr_DispatchWorkflow b t r n wf ref)),
      pr_CreateTag = (\<lambda>t r n tag sha. asking_board (pr_CreateTag b t r n tag sha)),
      pr_deployTarget = map_option (\<lambda>f w. f (pw_board w)) (pr_deployTarget b),
      pr_incidents = map_option (\<lambda>f r e k d. on_board (f r e k d)) (pr_incidents b),
      pr_stage = map_option (\<lambda>f t. on_board (f t)) (pr_stage b),
      pr_stores = map_option (\<lambda>f r p v. on_board (f r p v)) (pr_stores b),
      pr_SetTaskPullRequest = map_option (\<lambda>f t url n. on_board (f t url n)) (pr_SetTaskPullRequest b),
      pr_taskReader = map_option (\<lambda>f w. f (pw_board w)) (pr_taskReader b),
      pr_workflows = map_option (\<lambda>f w. f (pw_board w)) (pr_workflows b),
      pr_components = map_option (\<lambda>f w. f (pw_board w)) (pr_components b),
      pr_bounces = map_option board_guard (pr_bounces b),
      pr_errorText = pr_errorText b, pr_durationText = pr_durationText b,
      pr_postDeployNotes = pr_postDeployNotes b, pr_deploySkip = pr_deploySkip b,
      pr_couldNotStart = pr_couldNotStart b, pr_noGreenBuild = pr_noGreenBuild b,
      pr_failure = pr_failure b, pr_failureBlockedCI = pr_failureBlockedCI b,
      pr_store = stored_pipelines, pr_now = pw_now, pr_queue = pw_queue,
      pr_set_queue = (\<lambda>q w. w\<lparr>pw_queue := q\<rparr>), pr_inflight = pw_inflight,
      pr_set_inflight = (\<lambda>is w. w\<lparr>pw_inflight := is\<rparr>)\<rparr>"

definition world_rows :: "'m pipeline_world \<Rightarrow> TaskPipeline list" where
  "world_rows w = pt_pipelines (pw_tables w)"

lemma on_board_rows [simp]: "world_rows (on_board f w) = world_rows w"
  by (simp add: world_rows_def on_board_def)

lemma asking_board_rows [simp]: "world_rows (snd (asking_board f w)) = world_rows w"
  by (simp add: world_rows_def asking_board_def split_beta)

lemma journal_rows: "world_rows (journal_Record (map_option board_journal j) r t c res reason w) = world_rows w"
proof (cases j)
  case (Some j')
  have "world_rows (case pj_RecordMove (board_journal j') of None \<Rightarrow> w' | Some move \<Rightarrow> move r i c' at w') =
      world_rows w'" for i c' at w'
    by (simp add: board_journal_def split: option.split)
  moreover have "world_rows (snd (pj_Create (board_journal j') e w)) = world_rows w" for e
    by (simp add: board_journal_def)
  ultimately show ?thesis
    using Some by (auto simp: journal_Record_def Let_def split_beta split: sum.split) 
qed (simp add: journal_Record_def)

lemma guard_rows: "world_rows (snd (Bounce_Hold (map_option board_guard g) r task pipeline w)) = world_rows w"
proof (cases g)
  case (Some g')
  let ?g = "board_guard g'"
  have said: "world_rows (bounce_comment ?g r t q sha w') = world_rows w'" for t q sha w'
    by (simp add: bounce_comment_def board_guard_def split: option.split)
  have parked: "world_rows (snd (bounce_park ?g r t sha w')) = world_rows w'" for t sha w'
    by (simp add: bounce_park_def board_guard_def journal_rows split_beta split: option.split sum.split)
  have "world_rows (snd (bounce_act ?g r d q sha w')) = world_rows w'" for d q sha w'
    using parked [of "fst d" sha w'] by (cases "snd d")
      (auto simp: bounce_act_def said split_beta split: prod.splits bool.splits)
  then show ?thesis
    using Some by (auto simp: Bounce_Hold_def Let_def split: option.split sum.split)
qed (simp add: Bounce_Hold_def)

lemma job_rows: "world_rows (snd (right_value (with_id (\<lambda>i. pipeline_CreateJob i j) w))) = world_rows w"
  by (simp add: world_rows_def right_value_def with_id_def in_tables_def pipeline_CreateJob_def Let_def)

interpretation stored: pipeline_store world_rows "stored_runner b" for b :: "'m PipelinePorts"
proof unfold_locales
  fix i and s :: "'m pipeline_world" and row
  assume "row_of_id i (world_rows s) = Some row"
  then show "\<exists>f. st_Get (pr_store (stored_runner b)) s i = Inr (Some f) \<and> same_row f row"
    by (auto simp: stored_runner_def stored_pipelines_def pipeline_Get_def pipeline_row_def row_of_id_def
        world_rows_def same_row_def with_jobs_def)
next
  fix i and s :: "'m pipeline_world"
  assume "row_of_id i (world_rows s) = None"
  then show "st_Get (pr_store (stored_runner b)) s i = Inr None"
    by (simp add: stored_runner_def stored_pipelines_def pipeline_Get_def pipeline_row_def row_of_id_def world_rows_def)
next
  fix q row :: TaskPipeline and s :: "'m pipeline_world"
  assume row: "row_of_id (pl_ID q) (world_rows s) = Some row"
  then show "\<exists>s1. st_Update (pr_store (stored_runner b)) q s = (Inr (written_pipeline q row), s1) \<and>
      world_rows s1 = write_rows q (world_rows s)"
    by (simp add: stored_runner_def stored_pipelines_def pipeline_Update_def pipeline_row_def row_of_id_def
        world_rows_def in_tables_def change_pipelines_def write_rows_def)
  show "\<exists>s1. st_ClaimTerminal (pr_store (stored_runner b)) q s = (Inr (Some (written_pipeline q row)), s1) \<and>
      world_rows s1 = write_rows q (world_rows s)" if "unfinished row"
    using row that
    by (simp add: stored_runner_def stored_pipelines_def pipeline_ClaimTerminal_def pipeline_row_def row_of_id_def
        world_rows_def in_tables_def change_pipelines_def write_rows_def)
  show "st_ClaimTerminal (pr_store (stored_runner b)) q s = (Inr None, s)" if "\<not> unfinished row"
    using row that
    by (simp add: stored_runner_def stored_pipelines_def pipeline_ClaimTerminal_def pipeline_row_def row_of_id_def
        world_rows_def in_tables_def)
qed (auto simp: stored_runner_def stored_pipelines_def board_updater_def guard_rows job_rows)

end
