(* ===== verification/Pipeline_Live.thy ===== *)
theory Pipeline_Live
  imports Pipeline_World
begin

text \<open>
  What the pipelines promise: the sweeper settles every pipeline by its decision table, none waits
  past the window, a red build never opens the gate, and a verdict is claimed once as long as no
  stale copy is written back. The lemmas of the last section show where the code falls short.
\<close>

section \<open>The sweeper's verdict\<close>

lemma stored_settles:
  assumes "row_of_id i (world_rows w) = Some row" and "unfinished row"
    and "\<not> isDeployTrigger (pl_Trigger row)" and "i \<notin> set (pw_inflight w)"
    and "pr_taskReader b = Some getTask"
    and "getTask (pw_board w) (pl_RepositoryID row) (pl_TaskID row) = Inr task" and "0 < window"
  shows "settled_as (gate_verdict (stored_runner b) gh window row task w) row
    (row_of_id i (world_rows (snd (ResolveUnfinished (stored_runner b) gh row window w))))"
proof -
  have "pl_ID row = i" using row_of_id_SomeD [OF assms(1)] by simp
  moreover have "pr_inflight (stored_runner b) w = pw_inflight w"
    and "pr_taskReader (stored_runner b) = Some (\<lambda>w. getTask (pw_board w))"
    using assms(5) by (simp_all add: stored_runner_def)
  ultimately show ?thesis
    using stored.resolved_row [of row w b "\<lambda>w. getTask (pw_board w)" task window gh] assms by auto
qed


lemma verdict_when_expired:
  assumes "max window pipelineNoRunGrace \<le> pr_now p s - pl_CreatedAt row"
  shows "gate_verdict p gh window row task s \<noteq> None"
  using assms
  by (auto simp: gate_verdict_def Let_def open_when_def runs_verdict_def
      split: option.split list.split sum.split if_splits)

lemma verdict_terminal:
  assumes "gate_verdict p gh window row task s = Some (status, reason)"
  shows "status \<in> {PipelineStatusSuccess, PipelineStatusFailed, PipelineStatusSkipped}"
  using assms
  by (auto simp: gate_verdict_def Let_def open_when_def runs_verdict_def verdict_of_def
      split: option.splits list.splits sum.splits if_splits)

lemma expired_look_ends:
  assumes "row_of_id i (world_rows w) = Some row" and "unfinished row"
    and "\<not> isDeployTrigger (pl_Trigger row)" and "i \<notin> set (pw_inflight w)"
    and "pr_taskReader b = Some getTask"
    and "getTask (pw_board w) (pl_RepositoryID row) (pl_TaskID row) = Inr task" and "0 < window"
    and "max window pipelineNoRunGrace \<le> pw_now w - pl_CreatedAt row"
  shows "\<exists>row'. row_of_id i (world_rows (snd (ResolveUnfinished (stored_runner b) gh row window w))) = Some row' \<and>
    \<not> unfinished row' \<and> pl_FinishedAt row' \<noteq> None"
proof -
  let ?p = "stored_runner b"
  have "max window pipelineNoRunGrace \<le> pr_now ?p w - pl_CreatedAt row"
    using assms(8) by (simp add: stored_runner_def)
  from verdict_when_expired [OF this] obtain status reason
    where v: "gate_verdict ?p gh window row task w = Some (status, reason)" by (metis not_None_eq surj_pair)
  moreover have "status \<notin> {PipelineStatusPending, PipelineStatusRunning}"
    using verdict_terminal [OF v] by (auto simp: pipe_defs)
  ultimately show ?thesis
    using stored_settles [OF assms(1-7), of gh] by (auto simp: settled_as_def unfinished_def)
qed

lemma deploys_skipped:
  "\<forall>q \<in> set qs. isDeployTrigger (pl_Trigger q) \<Longrightarrow>
   resolve_loop p gh window (\<lambda>s. False) (qs @ rest) s = resolve_loop p gh window (\<lambda>s. False) rest s"
  by (induction qs) (auto simp: ResolveUnfinished_def)

lemma row_of_id_unique:
  "distinct (map pl_ID rows) \<Longrightarrow> row \<in> set rows \<Longrightarrow> row_of_id (pl_ID row) rows = Some row"
  by (induction rows) (auto simp: row_of_id_def image_iff)

lemma listed_row:
  assumes "distinct (map pl_ID (world_rows w))"
    and "pipeline_ListUnfinished (pw_tables w) pipelineGateSweepBatch = qs" and "q \<in> set qs"
  shows "row_of_id (pl_ID q) (world_rows w) = Some q \<and> unfinished q"
proof -
  have "q \<in> set (world_rows w) \<and> unfinished q"
    using assms(2,3) by (auto simp: pipeline_ListUnfinished_def world_rows_def dest!: in_set_takeD)
  then show ?thesis using row_of_id_unique [OF assms(1)] by blast
qed

lemma listed_distinct:
  assumes "distinct (map pl_ID (world_rows w))"
  shows "distinct (map pl_ID (pipeline_ListUnfinished (pw_tables w) n))"
proof -
  have "distinct (map pl_ID (filter unfinished (world_rows w)))" using assms by (rule distinct_map_filter)
  then have "distinct (map pl_ID (sort_key pl_CreatedAt (filter unfinished (world_rows w))))"
    by (simp add: distinct_map)
  then show ?thesis
    unfolding pipeline_ListUnfinished_def Let_def world_rows_def [symmetric] take_map [symmetric] by (rule distinct_take)
qed

text \<open>
  C11: A pass of the gate sweeper ends the pipeline that has waited longest. Let the hundred oldest
  unfinished pipelines it lists begin with deploys, which it skips, and then one that is no deploy,
  is not being polled by a worker, whose card can be read, and whose window (and the five minutes'
  grace for a first run) is over. After a pass that runs to its end this pipeline is finished, whatever
  GitHub answers and whatever becomes of the other ones. When a hundred deploys never end, a pass
  reaches no other pipeline (see \<open>stuck_deploys_starve_the_gate\<close>), which the hypothesis excludes.
\<close>
theorem no_pipeline_waits_forever:
  assumes "distinct (map pl_ID (world_rows w))"
    and "pipeline_ListUnfinished (pw_tables w) pipelineGateSweepBatch = deploys @ row # others"
    and "\<forall>q \<in> set deploys. isDeployTrigger (pl_Trigger q)"
    and "\<not> isDeployTrigger (pl_Trigger row)" and "pl_ID row \<notin> set (pw_inflight w)"
    and "pr_taskReader b = Some getTask"
    and "getTask (pw_board w) (pl_RepositoryID row) (pl_TaskID row) = Inr task" and "0 < window"
    and "max window pipelineNoRunGrace \<le> pw_now w - pl_CreatedAt row"
  shows "\<exists>row'. row_of_id (pl_ID row) (world_rows (gate_sweep (stored_runner b) gh window (\<lambda>s. False) w)) = Some row' \<and>
    \<not> unfinished row' \<and> pl_FinishedAt row' \<noteq> None"
proof -
  let ?p = "stored_runner b" and ?i = "pl_ID row"
  let ?w = "snd (ResolveUnfinished ?p gh row window w)"
  have row: "row_of_id ?i (world_rows w) = Some row" "unfinished row"
    using listed_row [OF assms(1,2), of row] by simp_all
  have "st_ListUnfinished (pr_store ?p) w pipelineGateSweepBatch = Inr (deploys @ row # others)"
    using assms(2) by (simp add: stored_runner_def stored_pipelines_def)
  then have sweep: "gate_sweep ?p gh window (\<lambda>s. False) w = resolve_loop ?p gh window (\<lambda>s. False) others ?w"
    by (simp add: gate_sweep_def deploys_skipped [OF assms(3)])
  have touched: "row_touched ?i (world_rows w) (world_rows ?w)"
    by (rule stored.resolved_touches) (simp add: row)
  have others: "row_of_id (pl_ID q) (world_rows w) = Some q" if "q \<in> set others" for q
    using listed_row [OF assms(1,2), of q] that by simp
  have "?i \<notin> pl_ID ` set others"
    using listed_distinct [OF assms(1), of pipelineGateSweepBatch] unfolding assms(2) by simp
  then have "row_of_id ?i (world_rows (resolve_loop ?p gh window (\<lambda>s. False) others ?w)) = row_of_id ?i (world_rows ?w)"
    using touched_trigger [OF touched] others by (intro stored.loop_keeps_row) simp_all
  then show ?thesis
    using expired_look_ends [OF row assms(4-9), of gh] unfolding sweep by simp
qed



section \<open>A verdict is claimed once\<close>

datatype pipe_op =
    op_Create uuid time TaskPipeline
  | op_Update TaskPipeline
  | op_Claim TaskPipeline
  | op_Supersede time uuid
  | op_FailStale time int
  | op_CreateJob uuid TaskPipelineJob

fun pipe_op_step :: "pipe_op \<Rightarrow> PipelineTables \<Rightarrow> PipelineTables" where
  "pipe_op_step (op_Create i at q) t = snd (pipeline_Create i at q t)"
| "pipe_op_step (op_Update q) t = snd (pipeline_Update q t)"
| "pipe_op_step (op_Claim q) t = snd (pipeline_ClaimTerminal q t)"
| "pipe_op_step (op_Supersede at task) t = pipeline_SupersedePending at task t"
| "pipe_op_step (op_FailStale at n) t = pipeline_FailStaleRunning at n t"
| "pipe_op_step (op_CreateJob i j) t = snd (pipeline_CreateJob i j t)"

fun wins :: "uuid \<Rightarrow> pipe_op \<Rightarrow> PipelineTables \<Rightarrow> bool" where
  "wins i (op_Claim q) t \<longleftrightarrow> pl_ID q = i \<and> fst (pipeline_ClaimTerminal q t) \<noteq> Inr None"
| "wins i other t \<longleftrightarrow> False"

fun claims_won :: "uuid \<Rightarrow> pipe_op list \<Rightarrow> PipelineTables \<Rightarrow> nat" where
  "claims_won i [] t = 0"
| "claims_won i (op # ops) t = (if wins i op t then 1 else 0) + claims_won i ops (pipe_op_step op t)"

text \<open>No write takes an ended pipeline back, and every claim carries a final status.\<close>

fun no_stale_write :: "uuid \<Rightarrow> pipe_op list \<Rightarrow> PipelineTables \<Rightarrow> bool" where
  "no_stale_write i [] t \<longleftrightarrow> True"
| "no_stale_write i (op # ops) t \<longleftrightarrow>
     (case op of
        op_Update q \<Rightarrow> pl_ID q = i \<longrightarrow> \<not> unfinished q \<or> (\<exists>row. pipeline_row i t = Some row \<and> unfinished row)
      | op_Claim q \<Rightarrow> pl_ID q = i \<longrightarrow> \<not> unfinished q
      | _ \<Rightarrow> True) \<and> no_stale_write i ops (pipe_op_step op t)"

definition ended :: "uuid \<Rightarrow> PipelineTables \<Rightarrow> bool" where
  "ended i t \<longleftrightarrow> (\<exists>row. pipeline_row i t = Some row \<and> \<not> unfinished row)"

lemma pipeline_row_change:
  assumes "\<And>row. pl_ID (f row) = pl_ID row"
  shows "pipeline_row i (change_pipelines P f t) =
    map_option (\<lambda>row. if P row then f row else row) (pipeline_row i t)"
proof -
  have "find (\<lambda>row. pl_ID row = i) (map (\<lambda>row. if P row then f row else row) rows) =
      map_option (\<lambda>row. if P row then f row else row) (find (\<lambda>row. pl_ID row = i) rows)" for rows
    by (induction rows) (auto simp: assms)
  then show ?thesis by (simp add: pipeline_row_def change_pipelines_def)
qed

lemma unfinished_written [simp]: "unfinished (written_pipeline q row) = unfinished q"
  by (simp add: unfinished_def)

lemma pipeline_row_ID: "pipeline_row i t = Some row \<Longrightarrow> pl_ID row = i"
  unfolding pipeline_row_def by (drule find_SomeD) simp

lemma written_row:
  "pipeline_row i (change_pipelines (\<lambda>row. pl_ID row = pl_ID q) (written_pipeline q) t) =
     map_option (\<lambda>row. if i = pl_ID q then written_pipeline q row else row) (pipeline_row i t)"
  by (subst pipeline_row_change) (auto simp: map_option_case dest: pipeline_row_ID split: option.split)

lemma created_row_kept: "pipeline_row i t = Some row \<Longrightarrow> pipeline_row i (snd (pipeline_Create j at q t)) = Some row"
proof -
  have "find P xs = Some x \<Longrightarrow> find P (xs @ ys) = Some x" for P and xs ys :: "TaskPipeline list" and x
    by (induction xs) auto
  then show "pipeline_row i t = Some row \<Longrightarrow> pipeline_row i (snd (pipeline_Create j at q t)) = Some row"
    by (simp add: pipeline_Create_def pipeline_row_def Let_def)
qed

lemma ended_step:
  assumes "ended i t" and "no_stale_write i [op] t"
  shows "ended i (pipe_op_step op t)"
proof -
  obtain row where row: "pipeline_row i t = Some row" and fin: "\<not> unfinished row"
    using assms(1) by (auto simp: ended_def)
  show ?thesis
  proof (cases op)
    case (op_Create j at q)
    then show ?thesis
      using row fin by (auto simp: ended_def created_row_kept)
  next
    case (op_Update q)
    then show ?thesis
      using row fin assms(2)
      by (cases "pipeline_row (pl_ID q) t") (auto simp: ended_def pipeline_Update_def written_row)
  next
    case (op_Claim q)
    then show ?thesis
      using row fin assms(2)
      by (cases "pipeline_row (pl_ID q) t") (auto simp: ended_def pipeline_ClaimTerminal_def written_row)
  next
    case (op_Supersede at task)
    then show ?thesis
      using row fin by (auto simp: ended_def pipeline_SupersedePending_def pipeline_row_change unfinished_def)
  next
    case (op_FailStale at n)
    then show ?thesis
      using row fin by (auto simp: ended_def pipeline_FailStaleRunning_def pipeline_row_change Let_def)
  next
    case (op_CreateJob j q)
    then show ?thesis
      using row fin by (auto simp: ended_def pipeline_CreateJob_def pipeline_row_def Let_def)
  qed
qed

lemma ended_wins_no_more: "ended i t \<Longrightarrow> no_stale_write i ops t \<Longrightarrow> claims_won i ops t = 0"
proof (induction ops arbitrary: t)
  case (Cons op ops)
  have "\<not> wins i op t"
    using Cons.prems(1) by (cases op) (auto simp: ended_def pipeline_ClaimTerminal_def)
  moreover have "ended i (pipe_op_step op t)"
    using Cons.prems by (intro ended_step) auto
  ultimately show ?case using Cons by simp
qed simp

lemma winner_ends:
  assumes "wins i op t" and "no_stale_write i [op] t"
  shows "ended i (pipe_op_step op t)"
proof -
  obtain q where op: "op = op_Claim q" and q: "pl_ID q = i" "fst (pipeline_ClaimTerminal q t) \<noteq> Inr None"
    using assms(1) by (cases op) auto
  then show ?thesis
    using assms(2)
    by (auto simp: ended_def pipeline_ClaimTerminal_def written_row split: option.splits if_splits)
qed

text \<open>
  C12: Whatever the replicas write to the pipeline tables, and in whatever order, at most one of them
  wins the claim on a pipeline's end and fires its effects, provided that no stale copy of the
  pipeline is written back over its end.
\<close>
theorem verdict_claimed_once:
  assumes "no_stale_write i ops t"
  shows "claims_won i ops t \<le> 1"
  using assms
proof (induction ops arbitrary: t)
  case (Cons op ops)
  show ?case
  proof (cases "wins i op t")
    case True
    then have "ended i (pipe_op_step op t)" using Cons.prems by (intro winner_ends) auto
    then have "claims_won i ops (pipe_op_step op t) = 0" using Cons.prems by (intro ended_wins_no_more) auto
    then show ?thesis by simp
  next
    case False
    then show ?thesis using Cons by simp
  qed
qed simp

section \<open>A small board\<close>

text \<open>One mapped check, a repository on GitHub, and a board that only notes what it is told.\<close>

definition mapped :: "string \<Rightarrow> string \<Rightarrow> RepositoryPipelineJob" where
  "mapped path ref =
     \<lparr>rpj_ID = 1, rpj_RepositoryID = 1, rpj_SubProjectPath = path, rpj_SubRepoKind = '''',
      rpj_Category = PipelineCategoryBuild, rpj_TargetKind = PipelineTargetJob, rpj_TargetRef = ref,
      rpj_AutoDetected = False\<rparr>"

definition noting_ports :: "RepositoryPipelineJob list \<Rightarrow> BoardTask \<Rightarrow> string list PipelinePorts" where
  "noting_ports mappings task =
     \<lparr>pr_jobs = Some (\<lambda>s r. Inr mappings), pr_RemoteURL = (\<lambda>s r. Inr ''https://github.com/o/r.git''),
      pr_tasks = Some \<lparr>tu_UpdateTask = (\<lambda>r t req s. s @ [''moved'']), tu_AddComment = (\<lambda>r t c s. s @ [''said''])\<rparr>,
      pr_qa = Some (\<lambda>r t i reason s. (None, s @ [''reviewer''])), pr_git = None,
      pr_tokens = Some (\<lambda>s. Inr ''token''), pr_DispatchWorkflow = (\<lambda>t r n wf ref s. (None, s)),
      pr_CreateTag = (\<lambda>t r n tag sha s. (None, s)), pr_deployTarget = None, pr_incidents = None,
      pr_stage = None, pr_stores = None, pr_SetTaskPullRequest = None,
      pr_taskReader = Some (\<lambda>s r t. Inr task), pr_workflows = None,
      pr_components = Some (\<lambda>s r c. Inr ''api''), pr_bounces = None, pr_errorText = (\<lambda>e. ''''),
      pr_durationText = (\<lambda>d. ''45m0s''), pr_postDeployNotes = (\<lambda>n. n), pr_deploySkip = (\<lambda>n. n),
      pr_couldNotStart = (\<lambda>n. n), pr_noGreenBuild = '''', pr_failure = (\<lambda>a b. ''''),
      pr_failureBlockedCI = (\<lambda>a b. '''')\<rparr>"

definition run_job :: "string \<Rightarrow> string \<Rightarrow> string \<Rightarrow> gh_RunJob" where
  "run_job name status conclusion = plain_job name status conclusion ''''"

definition workflow_run :: WorkflowRun where
  "workflow_run =
     \<lparr>wr_ID = 1, wr_RunNumber = 1, wr_HeadSHA = ''c0ffee'', wr_HeadBranch = '''', wr_Status = ''completed'',
      wr_Conclusion = '''', wr_Event = ''push'', wr_HTMLURL = '''', wr_CreatedAt = 0, wr_RunStartedAt = 0,
      wr_UpdatedAt = 0\<rparr>"

definition github_of :: "gh_RunJob list \<Rightarrow> github" where
  "github_of jobs =
     \<lparr>gh_ListRunsByHeadSHA = (\<lambda>t r n sha. Inr [workflow_run]), gh_ListRunJobs = (\<lambda>t r n i. Inr jobs),
      gh_ListWorkflowRunsByFileBranch = (\<lambda>t r n f b. Inr []), gh_GetJobLogs = (\<lambda>t r n i. Inr ''''),
      gh_DefaultBranch = (\<lambda>t r n. Inr ''main'')\<rparr>"

definition waiting_row :: "string \<Rightarrow> TaskPipeline" where
  "waiting_row provider =
     (red_build 5 10)\<lparr>pl_Status := PipelineStatusPending, pl_Provider := provider, pl_FinishedAt := None,
        pl_StartedAt := None\<rparr>"

definition small_world :: "TaskPipeline list \<Rightarrow> time \<Rightarrow> string list pipeline_world" where
  "small_world rows now =
     \<lparr>pw_tables = \<lparr>pt_pipelines = rows, pt_jobs = []\<rparr>, pw_nextID = 100, pw_now = now, pw_queue = [],
      pw_inflight = [], pw_board = []\<rparr>"

abbreviation one_check :: "string list PipelinePorts" where
  "one_check \<equiv> noting_ports [mapped '''' ''build''] judged_card"



lemma no_pipeline_waits_forever_witness:
  "\<exists>row'. row_of_id 5 (world_rows (gate_sweep (stored_runner one_check)
        (github_of [run_job ''build'' ''queued'' '''']) PipelineGateWindow (\<lambda>s. False)
        (small_world [waiting_row '''', (waiting_row '''')\<lparr>pl_ID := 6, pl_Trigger := PipelineTriggerPreProdDeploy,
           pl_CreatedAt := 5\<rparr>, (waiting_row '''')\<lparr>pl_ID := 7, pl_CreatedAt := 12\<rparr>] 3000000000000))) = Some row' \<and>
     \<not> unfinished row' \<and> pl_FinishedAt row' \<noteq> None"
proof -
  let ?deploy = "(waiting_row '''')\<lparr>pl_ID := 6, pl_Trigger := PipelineTriggerPreProdDeploy, pl_CreatedAt := 5\<rparr>"
  let ?later = "(waiting_row '''')\<lparr>pl_ID := 7, pl_CreatedAt := 12\<rparr>"
  let ?w = "small_world [waiting_row '''', ?deploy, ?later] 3000000000000"
  have listed: "pipeline_ListUnfinished (pw_tables ?w) pipelineGateSweepBatch = [?deploy] @ waiting_row '''' # [?later]"
    by code_simp
  have id: "pl_ID (waiting_row '''') = 5" by (simp add: waiting_row_def red_build_def)
  show ?thesis
    using no_pipeline_waits_forever [OF _ listed, of one_check "\<lambda>s r t. Inr judged_card" judged_card PipelineGateWindow]
    unfolding id
    by (simp add: PipelineGateWindow_def pipelineNoRunGrace_def small_world_def waiting_row_def red_build_def
        world_rows_def noting_ports_def isDeployTrigger_def pipe_defs)
qed


text \<open>Two replicas end one pipeline, after it was created and marked.\<close>

definition two_claims :: "pipe_op list" where
  "two_claims =
     [op_Create 5 10 (waiting_row ''''), op_Update ((waiting_row '''')\<lparr>pl_Provider := PipelineProviderGitHubActions\<rparr>),
      op_Claim ((waiting_row '''')\<lparr>pl_Status := PipelineStatusSuccess\<rparr>),
      op_Claim ((waiting_row '''')\<lparr>pl_Status := PipelineStatusFailed\<rparr>)]"

lemma verdict_claimed_once_witness:
  "claims_won 5 two_claims \<lparr>pt_pipelines = [], pt_jobs = []\<rparr> \<le> 1 \<and>
   claims_won 5 two_claims \<lparr>pt_pipelines = [], pt_jobs = []\<rparr> = 1"
proof
  have "no_stale_write 5 two_claims \<lparr>pt_pipelines = [], pt_jobs = []\<rparr>"
    by (simp add: two_claims_def pipeline_Create_def pipeline_Update_def pipeline_row_def waiting_row_def
        red_build_def unfinished_def Let_def pipe_defs)
  then show "claims_won 5 two_claims \<lparr>pt_pipelines = [], pt_jobs = []\<rparr> \<le> 1" by (rule verdict_claimed_once)
  show "claims_won 5 two_claims \<lparr>pt_pipelines = [], pt_jobs = []\<rparr> = 1" by code_simp
qed

section \<open>Where the code falls short\<close>

text \<open>
  Two replicas that both read a pipeline before either ends it: marking the provider writes the stale
  copy of the second over the end the first has claimed, so both win and the reviewer is called twice.
  A pipeline whose provider was recorded before is safe.
\<close>

lemma stale_mark_fires_twice:
  "pw_board (snd (resolve_fresh (stored_runner one_check) (github_of [run_job ''build'' ''completed'' ''success''])
       PipelineGateWindow (waiting_row '''')
     (snd (resolve_fresh (stored_runner one_check) (github_of [run_job ''build'' ''completed'' ''success''])
       PipelineGateWindow (waiting_row '''') (small_world [waiting_row ''''] 20))))) = [''reviewer'', ''reviewer'']"
  "pw_board (snd (resolve_fresh (stored_runner one_check) (github_of [run_job ''build'' ''completed'' ''success''])
       PipelineGateWindow (waiting_row PipelineProviderGitHubActions)
     (snd (resolve_fresh (stored_runner one_check) (github_of [run_job ''build'' ''completed'' ''success''])
       PipelineGateWindow (waiting_row PipelineProviderGitHubActions)
       (small_world [waiting_row PipelineProviderGitHubActions] 20))))) = [''reviewer'']"
  by code_simp+

text \<open>
  The worker waits for the checks of the task's own component; the sweeper waits for those of the
  whole repository, and fails a card for a check of another component.
\<close>

definition api_card :: BoardTask where "api_card = judged_card\<lparr>bt_ComponentID := Some 3\<rparr>"

abbreviation two_components :: "string list PipelinePorts" where
  "two_components \<equiv> noting_ports [mapped ''api'' ''api-build'', mapped ''web'' ''web-build''] api_card"

abbreviation web_red :: github where
  "web_red \<equiv> github_of [run_job ''api-build'' ''completed'' ''success'', run_job ''web-build'' ''completed'' ''failure'']"

lemma sweeper_ignores_component:
  "map_option pl_Status (row_of_id 5 (world_rows (snd (runQAGate (stored_runner two_components)
      \<lparr>jb_Pipeline = waiting_row '''', jb_RepositoryID = 1, jb_Task = api_card\<rparr> (waiting_row '''')
      \<lparr>gi_Owner = ''o'', gi_Repo = ''r'', gi_Branch = '''', gi_HeadSHA = ''c0ffee''\<rparr> ''token''
      [mapped ''api'' ''api-build'', mapped ''web'' ''web-build''] [(20, web_red)] False
      (small_world [waiting_row ''''] 20))))) = Some PipelineStatusSuccess"
  "map_option pl_Status (row_of_id 5 (world_rows (snd (ResolveUnfinished (stored_runner two_components) web_red
      (waiting_row '''') PipelineGateWindow (small_world [waiting_row ''''] 20))))) = Some PipelineStatusFailed"
  by code_simp+

text \<open>
  A pass looks at the hundred oldest unfinished pipelines, deploys included, and skips the deploys:
  a hundred deploys that never ended keep the sweeper from every other pipeline.
\<close>

lemma only_deploys_skipped:
  "\<forall>q \<in> set qs. isDeployTrigger (pl_Trigger q) \<Longrightarrow> resolve_loop p gh window over qs s = s"
  by (induction qs) (auto simp: ResolveUnfinished_def)

lemma stuck_deploys_starve_the_gate:
  assumes "sorted (map pl_CreatedAt (world_rows w))"
    and "filter unfinished (world_rows w) = deploys @ others" and "100 \<le> length deploys"
    and "\<forall>q \<in> set deploys. isDeployTrigger (pl_Trigger q)"
  shows "gate_sweep (stored_runner b) gh window over w = w"
proof -
  have "sorted (map pl_CreatedAt (filter unfinished (world_rows w)))" using assms(1) by (rule sorted_filter)
  then have "pipeline_ListUnfinished (pw_tables w) pipelineGateSweepBatch = take 100 (deploys @ others)"
    using assms(2) by (simp add: pipeline_ListUnfinished_def pipelineGateSweepBatch_def world_rows_def
        sort_key_id_if_sorted)
  also have "\<dots> = take 100 deploys" using assms(3) by simp
  finally have listed: "st_ListUnfinished (pr_store (stored_runner b)) w pipelineGateSweepBatch = Inr (take 100 deploys)"
    by (simp add: stored_runner_def stored_pipelines_def)
  have "\<forall>q \<in> set (take 100 deploys). isDeployTrigger (pl_Trigger q)" using assms(4) by (auto dest: in_set_takeD)
  then show ?thesis using listed only_deploys_skipped by (simp add: gate_sweep_def)
qed

end
