(* ===== verification/Run_Evidence.thy ===== *)
theory Run_Evidence
  imports Sweepers Cuts Task_Ports
begin

text \<open>
  What a run leaves behind that its end is judged on: the ledger of the tools it used
  (\<open>server/internal/application/registry/tool_usage.go\<close>), the messages and the response of an agent's
  turn, the evidence checks and the history of its earlier runs
  (\<open>server/internal/application/board/runner.go\<close>, \<open>run_context.go\<close>, \<open>stage_skip.go\<close>), and the paths
  of a change that only its pipeline can check (\<open>server/internal/domain/github_scope.go\<close>).
\<close>

section \<open>The ledger of tools\<close>

text \<open>
  A Go map from names to counts is a list of pairs with distinct names; an absent name counts 0. A
  nil tracker is \<open>None\<close>.
\<close>

type_synonym tool_counts = "(string \<times> int) list"

record ToolUsage =
  tu_counts :: tool_counts
  tu_errors :: tool_counts

definition NewToolUsage :: ToolUsage where
  "NewToolUsage = \<lparr>tu_counts = [], tu_errors = []\<rparr>"

definition tool_count :: "tool_counts \<Rightarrow> string \<Rightarrow> int" where
  "tool_count m name = (case map_of m name of None \<Rightarrow> 0 | Some n \<Rightarrow> n)"

fun count_one :: "string \<Rightarrow> tool_counts \<Rightarrow> tool_counts" where
  "count_one name [] = [(name, 1)]"
| "count_one name ((other, n) # m) =
     (if other = name then (other, n + 1) # m else (other, n) # count_one name m)"

definition Record :: "string \<Rightarrow> ToolUsage option \<Rightarrow> ToolUsage option" where
  "Record name usage =
     (case usage of
        None \<Rightarrow> None
      | Some u \<Rightarrow> if name = '''' then Some u else Some (u\<lparr>tu_counts := count_one name (tu_counts u)\<rparr>))"

definition RecordError :: "string \<Rightarrow> ToolUsage option \<Rightarrow> ToolUsage option" where
  "RecordError name usage =
     (case usage of
        None \<Rightarrow> None
      | Some u \<Rightarrow> if name = '''' then Some u else Some (u\<lparr>tu_errors := count_one name (tu_errors u)\<rparr>))"

definition Failures :: "ToolUsage option \<Rightarrow> tool_counts" where
  "Failures usage = (case usage of None \<Rightarrow> [] | Some u \<Rightarrow> tu_errors u)"

definition usage_Totals :: "ToolUsage option \<Rightarrow> int \<times> int" where
  "usage_Totals usage =
     (case usage of
        None \<Rightarrow> (0, 0)
      | Some u \<Rightarrow>
          (sum_list (map snd (tu_counts u)) + sum_list (map snd (tu_errors u)),
           sum_list (map snd (tu_errors u))))"

definition usage_Count :: "ToolUsage option \<Rightarrow> string \<Rightarrow> int" where
  "usage_Count usage name = (case usage of None \<Rightarrow> 0 | Some u \<Rightarrow> tool_count (tu_counts u) name)"

definition Snapshot :: "ToolUsage option \<Rightarrow> tool_counts" where
  "Snapshot usage = (case usage of None \<Rightarrow> [] | Some u \<Rightarrow> tu_counts u)"

definition UsageDelta :: "tool_counts \<Rightarrow> tool_counts \<Rightarrow> tool_counts" where
  "UsageDelta before after =
     filter (\<lambda>(_, n). 0 < n) (map (\<lambda>(name, n). (name, n - tool_count before name)) after)"

definition UsedAny :: "ToolUsage option \<Rightarrow> string list \<Rightarrow> bool" where
  "UsedAny usage names =
     (case usage of
        None \<Rightarrow> False
      | Some u \<Rightarrow> list_ex (\<lambda>name. 0 < tool_count (tu_counts u) name) names)"

text \<open>The order of a map's entries is fixed by the sort: by count downwards, then by name.\<close>

fun bytes_less :: "string \<Rightarrow> string \<Rightarrow> bool" where
  "bytes_less [] ys = (ys \<noteq> [])"
| "bytes_less (x # xs) [] = False"
| "bytes_less (x # xs) (y # ys) = (byte x < byte y \<or> x = y \<and> bytes_less xs ys)"

definition more_failures :: "string \<times> int \<Rightarrow> string \<times> int \<Rightarrow> bool" where
  "more_failures a b \<longleftrightarrow> (if snd a \<noteq> snd b then snd a > snd b else bytes_less (fst a) (fst b))"

text \<open>The multiplication sign of the message is two bytes of UTF-8.\<close>

definition renderFailurePattern :: "tool_counts \<Rightarrow> string" where
  "renderFailurePattern failures =
     str_Join '', '' (map (\<lambda>(name, n). name @ '' failed '' @ itoa n @ [CHR 0xC3, CHR 0x97])
       (take 3 (go_sort more_failures failures)))"

definition stampToolStats :: "ToolUsage option \<Rightarrow> TaskAgentRun \<Rightarrow> TaskAgentRun" where
  "stampToolStats usage run =
     run\<lparr>run_ToolCalls := fst (usage_Totals usage), run_ToolErrors := snd (usage_Totals usage),
         run_ErrorPattern := TruncateHead (renderFailurePattern (Failures usage)) 500\<rparr>"

record TokenTotals =
  tt_LLMCalls :: int
  tt_PromptTokens :: int
  tt_CompletionTokens :: int
  tt_CacheReadTokens :: int
  tt_CacheWriteTokens :: int

definition stampTokenUsage :: "TokenTotals \<Rightarrow> TaskAgentRun \<Rightarrow> TaskAgentRun" where
  "stampTokenUsage t run =
     run\<lparr>run_LLMCalls := tt_LLMCalls t, run_PromptTokens := tt_PromptTokens t,
         run_CompletionTokens := tt_CompletionTokens t, run_CacheReadTokens := tt_CacheReadTokens t,
         run_CacheWriteTokens := tt_CacheWriteTokens t\<rparr>"

section \<open>Turns of an agent\<close>

datatype MessageRole = RoleSystem | RoleUser | RoleAssistant | RoleTool

record Message =
  msg_Role :: MessageRole
  msg_Content :: string

record ClarificationRequest =
  clar_Context :: string
  clar_Questions :: string

record ResourceBlock =
  rb_Resource :: string
  rb_Detail :: string

record VerificationResult =
  vr_Passed :: bool
  vr_Issues :: "string list"
  vr_Summary :: string

record AgentResponse =
  resp_Message :: Message
  resp_Clarification :: "ClarificationRequest option"
  resp_ResourceBlock :: "ResourceBlock option"
  resp_CLISessionID :: string
  resp_Verification :: "VerificationResult option"
  resp_Transcript :: "Message list"

record QuotaBlock =
  qb_ResumeAt :: time
  qb_CLISessionID :: string
  qb_Detail :: string
  qb_Provider :: string

record BudgetExhaustedError =
  be_Error :: string
  be_Partial :: string
  be_Stats :: string

text \<open>
  What a turn fails with, as \<open>errors.As\<close> finds it in the wrap chain; a run ends with one of these or
  with a verdict of its own.
\<close>

datatype run_error =
    RunQuota QuotaBlock
  | RunBudget BudgetExhaustedError
  | RunFailed go_error
  | RunParkedTooOften int QuotaBlock
  | ErrUngroundedAnalysis
  | ErrUngroundedQA
  | ErrUngroundedPMUAT

definition QuotaBlockOf :: "run_error \<Rightarrow> QuotaBlock option" where
  "QuotaBlockOf err = (case err of RunQuota q \<Rightarrow> Some q | _ \<Rightarrow> None)"

definition says :: "MessageRole \<Rightarrow> string \<Rightarrow> Message" where
  "says role content = \<lparr>msg_Role = role, msg_Content = content\<rparr>"

definition followUpHistory :: "Message list \<Rightarrow> AgentResponse \<Rightarrow> Message list" where
  "followUpHistory opening resp =
     (if resp_Transcript resp \<noteq> [] then resp_Transcript resp
      else opening @ [says RoleAssistant (msg_Content (resp_Message resp))])"

definition set_content :: "string \<Rightarrow> AgentResponse \<Rightarrow> AgentResponse" where
  "set_content content resp = resp\<lparr>resp_Message := (resp_Message resp)\<lparr>msg_Content := content\<rparr>\<rparr>"

section \<open>Evidence\<close>

definition isUngroundedAnalysis ::
  "Workflow \<Rightarrow> BoardTask \<Rightarrow> AgentResponse \<Rightarrow> ToolUsage option \<Rightarrow> bool" where
  "isUngroundedAnalysis w task resp usage =
     (if \<not> TypeHas w BehaviourRequireRepoGrounding \<or>
         \<not> wf_Has w (bt_Column task) BehaviourAdvanceOnDocument \<or>
         resp_Clarification resp \<noteq> None \<or> usage = None then False
      else \<not> UsedAny usage CodeExplorationTools)"

definition isUngroundedQA ::
  "Workflow \<Rightarrow> BoardTask \<Rightarrow> AgentResponse \<Rightarrow> ToolUsage option \<Rightarrow> bool" where
  "isUngroundedQA w task resp usage =
     (if resp_Clarification resp \<noteq> None \<or> usage = None \<or>
         \<not> wf_Has w (bt_Column task) BehaviourRequireExecutionEvidence then False
      else \<not> UsedAny usage QAExecutionTools)"

definition isUngroundedPMUAT ::
  "Workflow \<Rightarrow> BoardTask \<Rightarrow> AgentResponse \<Rightarrow> ToolUsage option \<Rightarrow> bool" where
  "isUngroundedPMUAT w task resp usage =
     (if resp_Clarification resp \<noteq> None \<or> usage = None then False
      else if \<not> wf_Has w (bt_Column task) BehaviourRequireProductCheck then False
      else \<not> UsedAny usage PMUATExecutionTools)"

definition TestCaseStatusPassed :: TestCaseStatus where
  [col_defs]: "TestCaseStatusPassed = ''passed''"

definition pmApprovedThisRun :: "AcceptanceCriterion \<Rightarrow> time \<Rightarrow> bool" where
  "pmApprovedThisRun c runStartedAt =
     list_ex (\<lambda>check. chk_Role check = CriterionReviewRolePM \<and> chk_Approved check \<and>
                runStartedAt < chk_CheckedAt check) (crit_Checks c)"

definition pmApprovedUncoveredCriterion ::
  "Workflow \<Rightarrow> BoardTask \<Rightarrow> AcceptanceCriterion list \<Rightarrow> TaskTestCase list \<Rightarrow> ToolUsage option \<Rightarrow>
   time \<Rightarrow> bool" where
  "pmApprovedUncoveredCriterion w task criteria testCases usage runStartedAt =
     (if usage = None \<or> \<not> wf_Has w (bt_Column task) BehaviourRequireProductCheck then False
      else let passed = (\<lambda>c. list_ex (\<lambda>tc. tc_CriterionID tc = Some (crit_ID c) \<and>
                              tc_Status tc = TestCaseStatusPassed) testCases);
               uncovered = list_ex (\<lambda>c. pmApprovedThisRun c runStartedAt \<and> \<not> passed c) criteria
        in if \<not> uncovered then False else \<not> UsedAny usage PMUATExecutionTools)"

text \<open>The calls that ran a command and failed.\<close>

definition failedVerificationCalls :: "ToolUsage option \<Rightarrow> int" where
  "failedVerificationCalls usage =
     sum_list (map (tool_count (Failures usage)) ImplementationVerificationTools)"

section \<open>Changes only the pipeline can check\<close>

definition str_TrimPrefix :: "string \<Rightarrow> string \<Rightarrow> string" where
  "str_TrimPrefix s pre = (if prefix pre s then drop (length pre) s else s)"

definition isCIConfigPath :: "string \<Rightarrow> bool" where
  "isCIConfigPath path =
     (let p = ToLower (str_TrimPrefix
            (map (\<lambda>c. if c = CHR 0x5C then CHR ''/'' else c) (TrimSpace path)) ''./'')
      in list_ex (\<lambda>pre. prefix pre p)
           [''.github/workflows/'', ''.github/actions/'', ''.circleci/'', ''.buildkite/''] \<or>
         p \<in> set [''.gitlab-ci.yml'', ''azure-pipelines.yml'', ''bitbucket-pipelines.yml'', ''jenkinsfile'',
           ''.github/dependabot.yml'', ''.github/dependabot.yaml''])"

definition CIConfigOnly :: "string list \<Rightarrow> bool" where
  "CIConfigOnly paths = (if paths = [] then False else list_all isCIConfigPath paths)"

section \<open>Earlier runs\<close>

definition maxConsecutiveQuotaParks :: int where "maxConsecutiveQuotaParks = 5"
definition quotaParkHistoryDepth :: nat where "quotaParkHistoryDepth = 6"
definition previousRunsDepth :: int where "previousRunsDepth = 12"

fun quotaParkStreak :: "TaskAgentRun list \<Rightarrow> uuid \<Rightarrow> int" where
  "quotaParkStreak [] currentRunID = 0"
| "quotaParkStreak (prev # runs) currentRunID =
     (if run_ID prev = currentRunID then quotaParkStreak runs currentRunID
      else if run_QuotaResumeAt prev = None then 0
      else 1 + quotaParkStreak runs currentRunID)"

definition latestCLISession :: "TaskAgentRun list \<Rightarrow> uuid \<Rightarrow> uuid \<Rightarrow> string \<Rightarrow> string" where
  "latestCLISession prevRuns currentRunID agentID provider =
     (case find (\<lambda>prev. run_ID prev \<noteq> currentRunID) prevRuns of
        None \<Rightarrow> ''''
      | Some prev \<Rightarrow>
          if run_AgentID prev \<noteq> agentID then ''''
          else if run_QuotaResumeAt prev = None then ''''
          else if run_CLIProvider prev \<noteq> '''' \<and> run_CLIProvider prev \<noteq> provider then ''''
          else run_CLISessionID prev)"

text \<open>\<open>filepath.Clean\<close> is the parameter \<open>clean\<close>.\<close>

definition sameWorkspace :: "(string \<Rightarrow> string) \<Rightarrow> string \<Rightarrow> string \<Rightarrow> bool" where
  "sameWorkspace clean recorded current =
     (if recorded = '''' \<or> current = '''' then False else clean recorded = clean current)"

definition LLMProviderClaudeCode :: string where [col_defs]: "LLMProviderClaudeCode = ''claude_code''"

definition revisionCLISession ::
  "(string \<Rightarrow> string) \<Rightarrow> TaskAgentRun list \<Rightarrow> uuid \<Rightarrow> uuid \<Rightarrow> string \<Rightarrow> string" where
  "revisionCLISession clean prevRuns currentRunID agentID workDir =
     (case find (\<lambda>prev. run_ID prev \<noteq> currentRunID \<and> run_AgentID prev = agentID) prevRuns of
        None \<Rightarrow> ''''
      | Some prev \<Rightarrow>
          if run_CLISessionID prev = '''' \<or> run_CLIProvider prev \<noteq> LLMProviderClaudeCode \<or>
             \<not> sameWorkspace clean (run_WorkspacePath prev) workDir then ''''
          else run_CLISessionID prev)"

definition stampCLISession :: "string \<Rightarrow> string \<Rightarrow> TaskAgentRun \<Rightarrow> TaskAgentRun" where
  "stampCLISession sessionID provider run =
     (if sessionID = '''' then run
      else run\<lparr>run_CLISessionID := sessionID, run_CLIProvider := provider\<rparr>)"

text \<open>\<open>note\<close> renders the pattern of the last failed run that left one.\<close>

definition previousRunFailuresMessage ::
  "(string \<Rightarrow> string) \<Rightarrow> TaskAgentRun list \<Rightarrow> uuid \<Rightarrow> string" where
  "previousRunFailuresMessage rendering runs currentRunID =
     (case find (\<lambda>prev. \<not> (run_ID prev = currentRunID \<or> run_ErrorPattern prev = '''') \<and>
                        run_Status prev = TaskAgentRunStatusFailed) runs of
        None \<Rightarrow> ''''
      | Some prev \<Rightarrow> rendering (run_ErrorPattern prev))"

definition cliAskPolicy :: "ToolPolicy \<Rightarrow> TaskType \<Rightarrow> ToolPolicy" where
  "cliAskPolicy p taskType =
     (if IsDocumentWork taskType \<or> tp_AllowTools p = [] then p else EnsureAskUserTool p)"

end
