(* ===== verification/Hand_Off.thy ===== *)
theory Hand_Off
  imports Run_Evidence Workflow_Service
begin

text \<open>
  What the runner does to a card when one of its runs is over, from
  \<open>server/internal/application/board/runner.go\<close>: entering the working column, the hand-off to review on
  a diff or on a document, sending the card back, and parking it on a resource, a quota, a question or
  a missing token (\<open>questions_context.go\<close>). Stores, git, the agent loop and the catalog's texts are
  ports; an interface the wired object may not implement is an \<open>option\<close>.
\<close>

section \<open>Ports\<close>

record TaskQuestion =
  tq_Key :: string
  tq_Prompt :: string
  tq_Blocking :: bool
  tq_Status :: string

definition QuestionStatusOpen :: string where [col_defs]: "QuestionStatusOpen = ''open''"

definition PendingBlocking :: "TaskQuestion \<Rightarrow> bool" where
  "PendingBlocking q \<longleftrightarrow> tq_Blocking q \<and> tq_Status q = QuestionStatusOpen"

text \<open>
  \<open>LatestApprovedReviewPatchID\<close> gives the approved patch and the time of the approval, if any.
\<close>

record 's RunTasks =
  rt_UpdateTask ::
    "uuid \<Rightarrow> uuid \<Rightarrow> UpdateBoardTaskRequest \<Rightarrow> 's \<Rightarrow> (go_error + BoardTask) \<times> 's"
  rt_AddComment :: "'s commenter"
  rt_ListComments :: "'s \<Rightarrow> uuid \<Rightarrow> uuid \<Rightarrow> go_error + TaskComment list"
  rt_GetTask :: "('s \<Rightarrow> uuid \<Rightarrow> uuid \<Rightarrow> go_error + BoardTask) option"
  rt_ListTaskCriteria :: "('s \<Rightarrow> uuid \<Rightarrow> go_error + AcceptanceCriterion list) option"
  rt_ListTestCases :: "('s \<Rightarrow> uuid \<Rightarrow> go_error + TaskTestCase list) option"
  rt_ListQuestionsByTask :: "('s \<Rightarrow> uuid \<Rightarrow> go_error + TaskQuestion list) option"
  rt_LatestApprovedReviewPatchID :: "('s \<Rightarrow> uuid \<Rightarrow> TaskColumn \<Rightarrow> (string \<times> time) option) option"

text \<open>The error of a push, as \<open>errors.Is\<close> finds it.\<close>

datatype push_error = PushWorkflowScope | PushFailed go_error

record 's RunGit =
  wg_CommitAndPush :: "string \<Rightarrow> string \<Rightarrow> 's \<Rightarrow> push_error option \<times> 's"
  wg_TaskDiff :: "'s \<Rightarrow> string \<Rightarrow> go_error + string"
  wg_TaskChangedFiles :: "'s \<Rightarrow> string \<Rightarrow> go_error + string list"
  wg_TaskPatchID :: "('s \<Rightarrow> string \<Rightarrow> go_error + string) option"
  wg_HeadSHA :: "('s \<Rightarrow> string \<Rightarrow> go_error + string) option"

record 's TaskBlocker =
  bl_BlockOnQuestion :: "uuid \<Rightarrow> uuid \<Rightarrow> uuid \<Rightarrow> string \<Rightarrow> 's \<Rightarrow> 's"
  bl_BlockOnResource :: "uuid \<Rightarrow> uuid \<Rightarrow> string \<Rightarrow> string \<Rightarrow> 's \<Rightarrow> (go_error + TaskColumn) \<times> 's"

record 's ChatSessions =
  cs_Exists :: "'s \<Rightarrow> uuid \<Rightarrow> bool"
  cs_Create :: "string \<Rightarrow> string \<Rightarrow> string \<Rightarrow> uuid \<Rightarrow> uuid \<Rightarrow> 's \<Rightarrow> (go_error + uuid) \<times> 's"
  cs_AppendMessage :: "uuid \<Rightarrow> string \<Rightarrow> ClarificationRequest \<Rightarrow> 's \<Rightarrow> 's"

record HandOffTexts =
  ht_handoffUnverified :: string
  ht_handoffFailedCommands :: "int \<Rightarrow> string"
  ht_handoffUnseenUI :: string
  ht_codeReviewRefused :: "string \<Rightarrow> string"
  ht_codeReviewRefusedRevision :: "string \<Rightarrow> string"
  ht_analizReviewRefused :: "string \<Rightarrow> string"
  ht_analizReviewRefusedRevision :: "string \<Rightarrow> string"
  ht_pushWorkflowScopeComment :: string
  ht_pushWorkflowScopeDetail :: string
  ht_questionsBlockDetail :: "string list \<Rightarrow> string"
  ht_clarificationQuestions :: "ClarificationRequest \<Rightarrow> string"
  ht_ungroundedAnalysis :: string
  ht_ungroundedQA :: string
  ht_noUIEvidence :: string
  ht_ungroundedPMUAT :: string
  ht_pmUncoveredCriterion :: string
  ht_rejectedDraftLabel :: string
  ht_rejectedReportReplan :: string
  ht_rejectedReportReapprove :: string
  ht_outOfBudgetKeptPublished :: string
  ht_outOfBudgetKeptLocal :: string
  ht_outOfBudgetComment :: "string \<Rightarrow> string \<Rightarrow> string \<Rightarrow> string"
  ht_unsettledCriteriaReport :: "AcceptanceCriterion list \<Rightarrow> string"
  ht_unsettledCriteriaSummary :: "int \<Rightarrow> string"
  ht_criteriaSweep :: "AcceptanceCriterion list \<Rightarrow> nat \<Rightarrow> string"
  ht_reviewSweep :: "TaskColumn \<Rightarrow> TaskColumn \<Rightarrow> CriterionReviewRole option \<Rightarrow> AcceptanceCriterion list \<Rightarrow> string"
  ht_reviewVerdictAsk :: "TaskColumn \<Rightarrow> string"
  ht_stuckVerdictNote :: "CriterionReviewRole \<Rightarrow> AcceptanceCriterion list \<Rightarrow> string"
  ht_stuckColumn :: "TaskColumn \<Rightarrow> TaskColumn \<Rightarrow> string \<Rightarrow> string"
  ht_diffSkipSummary :: "TaskColumn \<Rightarrow> string \<Rightarrow> time \<Rightarrow> string"
  ht_verifyFix :: "string \<Rightarrow> string"
  ht_verificationExhausted :: "int \<Rightarrow> string"
  ht_verificationFailure :: "string \<Rightarrow> string"
  ht_verificationFailureRevision :: "string \<Rightarrow> string"
  ht_planVerificationFailure :: "VerificationResult \<Rightarrow> string"
  ht_errorText :: "run_error \<Rightarrow> string"
  ht_moveErrorText :: "go_error \<Rightarrow> string"
  ht_providerLabel :: "string \<Rightarrow> string"
  ht_timeText :: "time \<Rightarrow> string"

text \<open>
  The ledger, the token count and the CLI session are the run's own memory, which the agent's turns
  change. \<open>rp_RunTask\<close> is a turn of the agent in the in-process loop, \<open>rp_Execute\<close> one of a host
  executor with its question sink: given a history the agent answers or fails, and may have done
  anything to the board. \<open>rp_check\<close> is one verification pass over a checkout: its verdict, its report
  and the advisory checks it leaves for later. \<open>rp_isDigest\<close> tells a findings digest by its header,
  \<open>rp_HasDecided\<close> is \<open>HasDecided\<close> of the reviewers' quorum (\<open>Review_Quorum\<close>).
\<close>

record advisoryChecks =
  ac_workspace :: string
  ac_coverage :: bool
  ac_mutation :: bool
  ac_commit :: string

record 's RunPorts =
  rp_tasks :: "'s RunTasks option"
  rp_Update :: "TaskAgentRun \<Rightarrow> 's \<Rightarrow> (go_error + TaskAgentRun) \<times> 's"
  rp_blocker :: "'s TaskBlocker option"
  rp_parks :: "'s ParkJournal option"
  rp_sessions :: "'s ChatSessions option"
  rp_Notify :: "(string \<Rightarrow> string \<Rightarrow> 's \<Rightarrow> 's) option"
  rp_Workflow :: "('s \<Rightarrow> TaskType \<Rightarrow> go_error + Workflow) option"
  rp_git :: "'s RunGit option"
  rp_StartIndexBranch :: "(uuid \<Rightarrow> string \<Rightarrow> string \<Rightarrow> 's \<Rightarrow> 's) option"
  rp_RepositoryKind :: "('s \<Rightarrow> uuid \<Rightarrow> go_error + string) option"
  rp_HasDecided :: "uuid \<Rightarrow> TaskColumn \<Rightarrow> uuid \<Rightarrow> 's \<Rightarrow> bool"
  rp_RunTask :: "Message list \<Rightarrow> 's \<Rightarrow> (run_error + AgentResponse) \<times> 's"
  rp_Execute :: "Message list \<Rightarrow> 's \<Rightarrow> (AgentResponse \<times> run_error option) \<times> 's"
  rp_hosted :: "string \<Rightarrow> bool"
  rp_usage :: "'s \<Rightarrow> ToolUsage option"
  rp_tokens :: "'s \<Rightarrow> TokenTotals"
  rp_cliSession :: "'s \<Rightarrow> string"
  rp_setCLISession :: "string \<Rightarrow> 's \<Rightarrow> 's"
  rp_stopped :: "'s \<Rightarrow> bool"
  rp_now :: "'s \<Rightarrow> time"
  rp_verifyEnabled :: bool
  rp_verifyFixAttempts :: int
  rp_check :: "string \<Rightarrow> 's \<Rightarrow> (bool \<times> string \<times> advisoryChecks) \<times> 's"
  rp_digest :: "'s \<Rightarrow> string"
  rp_isDigest :: "string \<Rightarrow> bool"
  rp_commitMessage :: "string \<Rightarrow> string \<Rightarrow> 's \<Rightarrow> string"
  rp_startBackground :: "advisoryChecks \<Rightarrow> 's \<Rightarrow> 's"
  rp_texts :: HandOffTexts

definition zero_Workflow :: Workflow where
  "zero_Workflow =
     \<lparr>wf_Type = \<lparr>td_Key = '''', td_Label = '''', td_KeyPrefix = '''', td_Position = 0, td_IsDefault = False,
        td_IsDefect = False, td_AssigneeRoleID = None, td_AssigneeMode = '''', td_Behaviours = [],
        td_BuiltIn = False, td_TaskCount = 0\<rparr>,
      wf_Stages = []\<rparr>"

definition run_workflowFor :: "'s RunPorts \<Rightarrow> TaskType \<Rightarrow> 's \<Rightarrow> Workflow" where
  "run_workflowFor p taskType s =
     (case rp_Workflow p of
        None \<Rightarrow> zero_Workflow
      | Some workflow \<Rightarrow> (case workflow s taskType of Inl err \<Rightarrow> zero_Workflow | Inr w \<Rightarrow> w))"

section \<open>Reading and moving the card\<close>

definition commentSystem :: "'s RunPorts \<Rightarrow> RunJob \<Rightarrow> string \<Rightarrow> 's \<Rightarrow> 's" where
  "commentSystem p job content s =
     (case rp_tasks p of
        None \<Rightarrow> s
      | Some tasks \<Rightarrow>
          if content = '''' then s
          else rt_AddComment tasks (job_RepositoryID job) (bt_ID (job_Task job)) (system_comment content) s)"

definition job_GetTask :: "'s RunPorts \<Rightarrow> RunJob \<Rightarrow> 's \<Rightarrow> (go_error + BoardTask) option" where
  "job_GetTask p job s =
     map_option (\<lambda>getTask. getTask s (job_RepositoryID job) (bt_ID (job_Task job)))
       (Option.bind (rp_tasks p) rt_GetTask)"

definition taskLeftColumn :: "'s RunPorts \<Rightarrow> RunJob \<Rightarrow> 's \<Rightarrow> bool" where
  "taskLeftColumn p job s =
     (case job_GetTask p job s of
        Some (Inr fresh) \<Rightarrow> bt_Column fresh \<noteq> bt_Column (job_Task job)
      | _ \<Rightarrow> False)"

definition agent_move :: "RunJob \<Rightarrow> TaskColumn \<Rightarrow> UpdateBoardTaskRequest" where
  "agent_move job column =
     empty_UpdateBoardTaskRequest\<lparr>req_Column := Some column, req_Actor := TaskActorAgent,
       req_ActorAgentID := Some (run_AgentID (job_Run job))\<rparr>"

definition system_move :: "TaskColumn \<Rightarrow> string \<Rightarrow> UpdateBoardTaskRequest" where
  "system_move column reason =
     empty_UpdateBoardTaskRequest\<lparr>req_Column := Some column, req_SystemReason := reason\<rparr>"

definition job_UpdateTask ::
  "'s RunTasks \<Rightarrow> RunJob \<Rightarrow> UpdateBoardTaskRequest \<Rightarrow> 's \<Rightarrow> (go_error + BoardTask) \<times> 's" where
  "job_UpdateTask tasks job req s =
     rt_UpdateTask tasks (job_RepositoryID job) (bt_ID (job_Task job)) req s"

definition sendBackForRevision ::
  "'s RunPorts \<Rightarrow> RunJob \<Rightarrow> Workflow \<Rightarrow> string \<Rightarrow> string \<Rightarrow> 's \<Rightarrow> bool \<times> 's" where
  "sendBackForRevision p job w comment reason s =
     (case rp_tasks p of
        None \<Rightarrow> (False, s)
      | Some tasks \<Rightarrow>
          if taskLeftColumn p job s then (False, s)
          else let s1 = commentSystem p job comment s in
            if Stage w TaskColumnNeedRevision = None then (False, s1)
            else case job_UpdateTask tasks job (system_move TaskColumnNeedRevision reason) s1 of
                (Inl err, s2) \<Rightarrow> (False, s2)
              | (Inr moved, s2) \<Rightarrow> (True, s2))"

definition enterWorkingColumn :: "'s RunPorts \<Rightarrow> RunJob \<Rightarrow> 's \<Rightarrow> BoardTask \<times> 's" where
  "enterWorkingColumn p job s =
     (let task = job_Task job in
      case rp_tasks p of
        None \<Rightarrow> (task, s)
      | Some tasks \<Rightarrow>
          let w = run_workflowFor p (bt_TaskType task) s in
          if \<not> wf_Has w (bt_Column task) BehaviourAutoEnter then (task, s)
          else case wf_Param w (bt_Column task) BehaviourAutoEnter ''to'' of
              None \<Rightarrow> (task, s)
            | Some column \<Rightarrow>
                if column = '''' then (task, s)
                else if wf_Param w (bt_Column task) BehaviourAutoEnter ''assignee_only'' = Some ''true'' \<and>
                        bt_AssigneeAgentID task \<noteq> Some (run_AgentID (job_Run job)) then (task, s)
                else case job_UpdateTask tasks job (agent_move job column) s of
                    (Inl err, s') \<Rightarrow> (task, s')
                  | (Inr updated, s') \<Rightarrow> (updated, s'))"

section \<open>Handing the work over\<close>

definition MoveReasonHandoffUnverified :: string where
  [col_defs]: "MoveReasonHandoffUnverified = ''handoff_unverified''"
definition MoveReasonHandoffUnseenUI :: string where
  [col_defs]: "MoveReasonHandoffUnseenUI = ''handoff_unseen_ui''"
definition MoveReasonHandoffRefused :: string where
  [col_defs]: "MoveReasonHandoffRefused = ''handoff_refused''"

definition handleRefusedAdvance ::
  "'s RunPorts \<Rightarrow> RunJob \<Rightarrow> Workflow \<Rightarrow> go_error \<Rightarrow> (string \<Rightarrow> string) \<Rightarrow> (string \<Rightarrow> string) \<Rightarrow> 's \<Rightarrow> 's" where
  "handleRefusedAdvance p job w moveErr stayText revisionText s =
     (let reason = ht_moveErrorText (rp_texts p) moveErr in
      if Stage w TaskColumnNeedRevision \<noteq> None \<and> IsMoveRefusal (Some moveErr)
      then snd (sendBackForRevision p job w (revisionText reason) MoveReasonHandoffRefused s)
      else commentSystem p job (stayText reason) s)"

definition uiRepo :: "'s RunPorts \<Rightarrow> uuid \<Rightarrow> 's \<Rightarrow> bool" where
  "uiRepo p repositoryID s =
     (case rp_RepositoryKind p of
        None \<Rightarrow> False
      | Some kind \<Rightarrow>
          (case kind s repositoryID of Inl err \<Rightarrow> False | Inr k \<Rightarrow> RepoHasUI k))"

text \<open>\<open>workspaceChanges\<close>: the run's change set in its checkout, nothing without one.\<close>

record 's taskChanges =
  ch_TaskDiff :: "'s \<Rightarrow> go_error + string"
  ch_TaskChangedFiles :: "'s \<Rightarrow> go_error + string list"

definition workspaceChanges :: "'s RunGit option \<Rightarrow> string \<Rightarrow> 's taskChanges" where
  "workspaceChanges git workspace =
     (case git of
        None \<Rightarrow> \<lparr>ch_TaskDiff = (\<lambda>s. Inr ''''), ch_TaskChangedFiles = (\<lambda>s. Inr [])\<rparr>
      | Some g \<Rightarrow>
          if workspace = '''' then \<lparr>ch_TaskDiff = (\<lambda>s. Inr ''''), ch_TaskChangedFiles = (\<lambda>s. Inr [])\<rparr>
          else \<lparr>ch_TaskDiff = (\<lambda>s. wg_TaskDiff g s workspace),
                ch_TaskChangedFiles = (\<lambda>s. wg_TaskChangedFiles g s workspace)\<rparr>)"

definition ciConfigOnly :: "'s taskChanges \<Rightarrow> 's \<Rightarrow> bool" where
  "ciConfigOnly changes s =
     (case ch_TaskChangedFiles changes s of Inl err \<Rightarrow> False | Inr files \<Rightarrow> CIConfigOnly files)"

definition needs_ui_evidence :: "'s taskChanges \<Rightarrow> 's \<Rightarrow> bool" where
  "needs_ui_evidence changes s =
     (case ch_TaskChangedFiles changes s of Inl err \<Rightarrow> True | Inr files \<Rightarrow> DiffNeedsUIEvidence files)"

definition advanceOnChanges ::
  "'s RunPorts \<Rightarrow> RunJob \<Rightarrow> Workflow \<Rightarrow> 's taskChanges \<Rightarrow> ToolUsage option \<Rightarrow> 's \<Rightarrow> bool \<times> 's" where
  "advanceOnChanges p job w changes usage s =
     (case rp_tasks p of
        None \<Rightarrow> (False, s)
      | Some tasks \<Rightarrow>
          (case wf_Param w (bt_Column (job_Task job)) BehaviourAdvanceOnDiff ''to'' of
             None \<Rightarrow> (False, s)
           | Some target \<Rightarrow>
               if target = '''' then (False, s)
               else case ch_TaskDiff changes s of
                   Inl err \<Rightarrow> (False, s)
                 | Inr diff \<Rightarrow>
                     if TrimSpace diff = '''' then (False, s)
                     else if taskLeftColumn p job s then (False, s)
                     else if usage \<noteq> None \<and> \<not> UsedAny usage ImplementationVerificationTools \<and>
                             \<not> ciConfigOnly changes s then
                       (let failed = failedVerificationCalls usage;
                            comment = (if 0 < failed then ht_handoffFailedCommands (rp_texts p) failed
                                       else ht_handoffUnverified (rp_texts p))
                        in (False, snd (sendBackForRevision p job w comment MoveReasonHandoffUnverified s)))
                     else if usage \<noteq> None \<and> uiRepo p (job_RepositoryID job) s \<and>
                             \<not> UsedAny usage UIObservationTools \<and> needs_ui_evidence changes s then
                       (False, snd (sendBackForRevision p job w (ht_handoffUnseenUI (rp_texts p))
                                      MoveReasonHandoffUnseenUI s))
                     else case job_UpdateTask tasks job (agent_move job target) s of
                         (Inl err, s1) \<Rightarrow>
                           (False, handleRefusedAdvance p job w err (ht_codeReviewRefused (rp_texts p))
                                     (ht_codeReviewRefusedRevision (rp_texts p)) s1)
                       | (Inr moved, s1) \<Rightarrow> (True, s1)))"

definition advanceToCodeReview ::
  "'s RunPorts \<Rightarrow> RunJob \<Rightarrow> Workflow \<Rightarrow> string \<Rightarrow> ToolUsage option \<Rightarrow> 's \<Rightarrow> bool \<times> 's" where
  "advanceToCodeReview p job w taskWorkspace usage s =
     (if rp_git p = None \<or> taskWorkspace = '''' then (False, s)
      else advanceOnChanges p job w (workspaceChanges (rp_git p) taskWorkspace) usage s)"

definition advanceToAnalizReview ::
  "'s RunPorts \<Rightarrow> RunJob \<Rightarrow> Workflow \<Rightarrow> ToolUsage option \<Rightarrow> 's \<Rightarrow> 's" where
  "advanceToAnalizReview p job w usage s =
     (case rp_tasks p of
        None \<Rightarrow> s
      | Some tasks \<Rightarrow>
          (case wf_Param w (bt_Column (job_Task job)) BehaviourAdvanceOnDocument ''to'' of
             None \<Rightarrow> s
           | Some target \<Rightarrow>
               if target = '''' then s
               else if usage \<noteq> None \<and> \<not> UsedAny usage AnalizDocumentTools then s
               else if taskLeftColumn p job s then s
               else case job_UpdateTask tasks job (agent_move job target) s of
                   (Inl err, s1) \<Rightarrow>
                     handleRefusedAdvance p job w err (ht_analizReviewRefused (rp_texts p))
                       (ht_analizReviewRefusedRevision (rp_texts p)) s1
                 | (Inr moved, s1) \<Rightarrow> s1))"

end
