(* ===== verification/Run_Parks.thy ===== *)
theory Run_Parks
  imports Hand_Off
begin

text \<open>
  The ways a run of \<open>server/internal/application/board/runner.go\<close> ends without a hand-off: parked on a
  resource, on open questions, on a token or on a spent quota, waiting for an answer in a chat, or
  failed with a row and a comment that say why.
\<close>

section \<open>Parking the card\<close>

definition MoveReasonResourceBlocked :: string where
  [col_defs]: "MoveReasonResourceBlocked = ''resource_blocked''"
definition MoveReasonQuotaExhausted :: string where
  [col_defs]: "MoveReasonQuotaExhausted = ''quota_exhausted''"
definition MoveReasonPushWorkflowScope :: string where
  [col_defs]: "MoveReasonPushWorkflowScope = ''push_workflow_scope''"

text \<open>\<open>BlockOnResource\<close> and, when it succeeds, the journal; and whether it did.\<close>

definition park_run :: "'s RunPorts \<Rightarrow> RunJob \<Rightarrow> string \<Rightarrow> string \<Rightarrow> string \<Rightarrow> 's \<Rightarrow> bool \<times> 's" where
  "park_run p job resource detail reason s =
     (case rp_blocker p of
        None \<Rightarrow> (False, s)
      | Some blk \<Rightarrow>
          (case bl_BlockOnResource blk (job_RepositoryID job) (bt_ID (job_Task job)) resource detail s of
             (Inl err, s') \<Rightarrow> (False, s')
           | (Inr previous, s') \<Rightarrow>
               (True, journal_Record (rp_parks p) (job_RepositoryID job) (job_Task job) previous resource
                        reason s')))"

definition parkOnWorkflowScope :: "'s RunPorts \<Rightarrow> RunJob \<Rightarrow> 's \<Rightarrow> 's" where
  "parkOnWorkflowScope p job s =
     snd (park_run p job ResourceHumanDecision (ht_pushWorkflowScopeDetail (rp_texts p))
            MoveReasonPushWorkflowScope
            (commentSystem p job (ht_pushWorkflowScopeComment (rp_texts p)) s))"

definition parkOnResource :: "'s RunPorts \<Rightarrow> RunJob \<Rightarrow> ResourceBlock \<Rightarrow> 's \<Rightarrow> 's" where
  "parkOnResource p job block s =
     (let detail = TrimSpace (rb_Detail block);
          detail = (if detail = '''' then ''waiting for '' @ rb_Resource block else detail)
      in snd (park_run p job (rb_Resource block) detail MoveReasonResourceBlocked s))"

text \<open>\<open>strings.Fields\<close>: the words between runs of white space.\<close>

function fields_loop :: "string \<Rightarrow> string \<Rightarrow> string list" where
  "fields_loop word [] = (if word = '''' then [] else [rev word])"
| "fields_loop word (c # cs) =
     (if space_at_front (c # cs) = 0 then fields_loop (c # word) cs
      else (if word = '''' then [] else [rev word]) @
           fields_loop '''' (drop (space_at_front (c # cs)) (c # cs)))"
  by pat_completeness auto
termination
proof (relation "measure (\<lambda>(_, s). length s)", simp, simp)
  fix word :: string and c cs
  assume "space_at_front (c # cs) \<noteq> 0"
  with space_at_front_le [of "c # cs"]
  show "(('''', drop (space_at_front (c # cs)) (c # cs)), word, c # cs) \<in> measure (\<lambda>(_, s). length s)"
    by simp
qed

definition oneLineQuestion :: "string \<Rightarrow> string" where
  "oneLineQuestion s = str_Join '' '' (fields_loop '''' s)"

definition questionsFor :: "'s RunPorts \<Rightarrow> uuid \<Rightarrow> 's \<Rightarrow> TaskQuestion list" where
  "questionsFor p taskID s =
     (case Option.bind (rp_tasks p) rt_ListQuestionsByTask of
        None \<Rightarrow> []
      | Some listQuestions \<Rightarrow> (case listQuestions s taskID of Inl err \<Rightarrow> [] | Inr items \<Rightarrow> items))"

definition questionsBlockDetail :: "'s RunPorts \<Rightarrow> TaskQuestion list \<Rightarrow> string" where
  "questionsBlockDetail p items =
     ht_questionsBlockDetail (rp_texts p) (map (\<lambda>q. tq_Key q @ '': '' @ oneLineQuestion (tq_Prompt q)) items)"

definition blockOnPendingQuestions :: "'s RunPorts \<Rightarrow> RunJob \<Rightarrow> 's \<Rightarrow> bool \<times> 's" where
  "blockOnPendingQuestions p job s =
     (if \<not> IsDocumentWork (bt_TaskType (job_Task job)) then (False, s)
      else let pending = filter PendingBlocking (questionsFor p (bt_ID (job_Task job)) s) in
        if rp_blocker p = None \<or> pending = [] then (False, s)
        else park_run p job ResourceAnalysisQuestions (questionsBlockDetail p pending)
               MoveReasonResourceBlocked s)"

section \<open>Waiting for an answer\<close>

definition clarificationSession ::
  "'s ChatSessions \<Rightarrow> RunJob \<Rightarrow> Agent \<Rightarrow> string \<Rightarrow> 's \<Rightarrow> uuid option \<times> 's" where
  "clarificationSession sessions job agentRec rootPath s =
     (let open_new = (\<lambda>s.
            case cs_Create sessions (TruncateHead (''Question: '' @ bt_Title (job_Task job)) 120)
                   (agent_Model agentRec) rootPath (job_RepositoryID job) (run_AgentID (job_Run job)) s of
              (Inl err, s') \<Rightarrow> (None, s')
            | (Inr sessionID, s') \<Rightarrow> (Some sessionID, s'))
      in case bt_ClarificationSessionID (job_Task job) of
           None \<Rightarrow> open_new s
         | Some existing \<Rightarrow> if cs_Exists sessions s existing then (Some existing, s) else open_new s)"

definition openClarificationChat ::
  "'s RunPorts \<Rightarrow> RunJob \<Rightarrow> Agent \<Rightarrow> string \<Rightarrow> ClarificationRequest \<Rightarrow> string \<Rightarrow> 's \<Rightarrow> 's" where
  "openClarificationChat p job agentRec answer clar rootPath s =
     (case rp_sessions p of
        None \<Rightarrow> s
      | Some sessions \<Rightarrow>
          (case clarificationSession sessions job agentRec rootPath s of
             (None, s1) \<Rightarrow> s1
           | (Some sessionID, s1) \<Rightarrow>
               let content = (if TrimSpace answer = '''' then clar_Context clar else TrimSpace answer);
                   s2 = cs_AppendMessage sessions sessionID content clar s1;
                   s3 = (case rp_blocker p of
                           None \<Rightarrow> s2
                         | Some blk \<Rightarrow>
                             bl_BlockOnQuestion blk (job_RepositoryID job) (bt_ID (job_Task job)) sessionID
                               (ht_clarificationQuestions (rp_texts p) clar) s2)
               in case rp_Notify p of
                    None \<Rightarrow> s3
                  | Some notify \<Rightarrow>
                      notify (agent_Name agentRec @ '' asked a question'')
                        (bt_Title (job_Task job) @ '': '' @ clar_Context clar) s3))"

section \<open>Failing the run\<close>

text \<open>A run whose row is gone was deleted with its task, which is no error.\<close>

definition end_run :: "'s RunPorts \<Rightarrow> TaskAgentRun \<Rightarrow> run_error option \<Rightarrow> 's \<Rightarrow> run_error option \<times> 's" where
  "end_run p run err s =
     (case rp_Update p run s of
        (Inl updateErr, s') \<Rightarrow>
          (if errors_Is updateErr ErrTaskAgentRunNotFound then None else Some (RunFailed updateErr), s')
      | (Inr updated, s') \<Rightarrow> (err, s'))"

definition failRun :: "'s RunPorts \<Rightarrow> TaskAgentRun \<Rightarrow> run_error \<Rightarrow> 's \<Rightarrow> run_error option \<times> 's" where
  "failRun p run err s =
     end_run p (run\<lparr>run_Status := TaskAgentRunStatusFailed,
                    run_Summary := TruncateHead (ht_errorText (rp_texts p) err) 500\<rparr>) (Some err) s"

text \<open>The closure \<open>fail\<close> of \<open>execute\<close>: a run that was asked to stop reports nothing.\<close>

definition fail_run :: "'s RunPorts \<Rightarrow> TaskAgentRun \<Rightarrow> run_error \<Rightarrow> 's \<Rightarrow> run_error option \<times> 's" where
  "fail_run p run cause s = (if rp_stopped p s then (None, s) else failRun p run cause s)"

definition note_failure :: "'s RunPorts \<Rightarrow> RunJob \<Rightarrow> string \<Rightarrow> 's \<Rightarrow> 's" where
  "note_failure p job content s =
     (case rp_tasks p of
        None \<Rightarrow> s
      | Some tasks \<Rightarrow>
          rt_AddComment tasks (job_RepositoryID job) (bt_ID (job_Task job))
            (system_comment (TruncateHead content 3000)) s)"

definition draft_note :: "string \<Rightarrow> AgentResponse \<Rightarrow> string" where
  "draft_note label resp =
     (let summary = TrimSpace (msg_Content (resp_Message resp)) in
      if summary = '''' then ''''
      else [CHR 0x0A, CHR 0x0A] @ label @ [CHR 0x0A, CHR 0x0A] @ summary)"

definition reject_run ::
  "'s RunPorts \<Rightarrow> RunJob \<Rightarrow> TaskAgentRun \<Rightarrow> AgentResponse \<Rightarrow> string \<Rightarrow> string \<Rightarrow> run_error \<Rightarrow> 's \<Rightarrow>
   run_error option \<times> 's" where
  "reject_run p job run resp reason label err s =
     end_run p (run\<lparr>run_Status := TaskAgentRunStatusFailed, run_Summary := TruncateHead reason 500\<rparr>)
       (Some err) (note_failure p job (reason @ draft_note label resp) s)"

definition failRunUngrounded ::
  "'s RunPorts \<Rightarrow> RunJob \<Rightarrow> TaskAgentRun \<Rightarrow> AgentResponse \<Rightarrow> 's \<Rightarrow> run_error option \<times> 's" where
  "failRunUngrounded p job run resp =
     reject_run p job run resp (ht_ungroundedAnalysis (rp_texts p)) (ht_rejectedDraftLabel (rp_texts p))
       ErrUngroundedAnalysis"

definition failRunUngroundedQA ::
  "'s RunPorts \<Rightarrow> RunJob \<Rightarrow> TaskAgentRun \<Rightarrow> AgentResponse \<Rightarrow> string \<Rightarrow> 's \<Rightarrow> run_error option \<times> 's" where
  "failRunUngroundedQA p job run resp reason =
     reject_run p job run resp reason (ht_rejectedReportReplan (rp_texts p)) ErrUngroundedQA"

definition failRunUngroundedPMUAT ::
  "'s RunPorts \<Rightarrow> RunJob \<Rightarrow> TaskAgentRun \<Rightarrow> AgentResponse \<Rightarrow> string \<Rightarrow> 's \<Rightarrow> run_error option \<times> 's" where
  "failRunUngroundedPMUAT p job run resp reason =
     reject_run p job run resp reason (ht_rejectedReportReapprove (rp_texts p)) ErrUngroundedPMUAT"

definition push_work :: "'s RunPorts \<Rightarrow> string \<Rightarrow> string \<Rightarrow> string \<Rightarrow> 's \<Rightarrow> push_error option \<times> 's" where
  "push_work p workspace messagePrefix summary s =
     (case rp_git p of
        None \<Rightarrow> (None, s)
      | Some git \<Rightarrow> wg_CommitAndPush git workspace (rp_commitMessage p messagePrefix summary s) s)"

definition index_branch :: "'s RunPorts \<Rightarrow> RunJob \<Rightarrow> string \<Rightarrow> string \<Rightarrow> 's \<Rightarrow> 's" where
  "index_branch p job branch workspace s =
     (case rp_StartIndexBranch p of
        None \<Rightarrow> s
      | Some startIndex \<Rightarrow>
          if branch = '''' then s else startIndex (job_RepositoryID job) branch workspace s)"

definition failRunOutOfBudget ::
  "'s RunPorts \<Rightarrow> RunJob \<Rightarrow> TaskAgentRun \<Rightarrow> string \<Rightarrow> string \<Rightarrow> BudgetExhaustedError \<Rightarrow> 's \<Rightarrow>
   run_error option \<times> 's" where
  "failRunOutOfBudget p job run workspace branch budgetErr s =
     (let published = PublishesBranch (bt_TaskType (job_Task job));
          s1 = (if workspace \<noteq> '''' \<and> published
                then case push_work p workspace ''wip: '' (be_Partial budgetErr) s of
                    (Some pushErr, s') \<Rightarrow> s'
                  | (None, s') \<Rightarrow> index_branch p job branch workspace s'
                else s);
          kept = (if published then ht_outOfBudgetKeptPublished (rp_texts p)
                  else ht_outOfBudgetKeptLocal (rp_texts p));
          s2 = note_failure p job
                 (ht_outOfBudgetComment (rp_texts p) (be_Error budgetErr) kept (be_Partial budgetErr)) s1;
          summary = (if be_Partial budgetErr = '''' then be_Error budgetErr
                     else be_Partial budgetErr @ '' ['' @ be_Stats budgetErr @ '']'')
      in end_run p (run\<lparr>run_Status := TaskAgentRunStatusFailed, run_Summary := TruncateHead summary 500\<rparr>)
           (Some (RunBudget budgetErr)) s2)"

section \<open>A spent quota\<close>

definition quota_resume :: "time \<Rightarrow> QuotaBlock \<Rightarrow> int \<Rightarrow> time" where
  "quota_resume now block streak =
     (if time_IsZero (qb_ResumeAt block) \<or> \<not> now + minutes 1 < qb_ResumeAt block
      then now + QuotaParkWindow streak else qb_ResumeAt block)"

definition quota_summary :: "'s RunPorts \<Rightarrow> QuotaBlock \<Rightarrow> time \<Rightarrow> string" where
  "quota_summary p block resumeAt =
     (let label = ht_providerLabel (rp_texts p) (qb_Provider block);
          head = (if label = '''' then ''usage limit reached'' else label @ '' usage limit reached'')
      in TruncateHead (head @ '' '' @ [CHR 0xE2, CHR 0x80, CHR 0x94] @
           '' the task resumes automatically after '' @ ht_timeText (rp_texts p) resumeAt @ ''. '' @
           qb_Detail block) 500)"

definition quota_run :: "'s RunPorts \<Rightarrow> Agent \<Rightarrow> QuotaBlock \<Rightarrow> time \<Rightarrow> TaskAgentRun \<Rightarrow> TaskAgentRun" where
  "quota_run p agentRec block resumeAt run =
     (let provider = (if qb_Provider block = '''' then agent_ProviderType agentRec else qb_Provider block) in
      (stampCLISession (qb_CLISessionID block) provider
         (run\<lparr>run_Status := TaskAgentRunStatusCompleted, run_CLISessionID := '''', run_CLIProvider := ''''\<rparr>))
        \<lparr>run_QuotaResumeAt := Some resumeAt, run_Summary := quota_summary p block resumeAt\<rparr>)"

definition parkOnQuota ::
  "'s RunPorts \<Rightarrow> RunJob \<Rightarrow> TaskAgentRun \<Rightarrow> Agent \<Rightarrow> QuotaBlock \<Rightarrow> int \<Rightarrow> 's \<Rightarrow> run_error option \<times> 's" where
  "parkOnQuota p job run agentRec block streak s =
     (let run' = quota_run p agentRec block (quota_resume (rp_now p s) block streak) run in
      case rp_Update p run' s of
        (Inl err, s1) \<Rightarrow> (Some (RunFailed (ErrWrap ''record the agent cli quota park'' err)), s1)
      | (Inr updated, s1) \<Rightarrow>
          (None, snd (park_run p job ResourceClaudeCodeQuota (run_Summary run') MoveReasonQuotaExhausted s1)))"

definition quotaOrPark ::
  "'s RunPorts \<Rightarrow> RunJob \<Rightarrow> TaskAgentRun \<Rightarrow> Agent \<Rightarrow> TaskAgentRun list \<Rightarrow> QuotaBlock \<Rightarrow> 's \<Rightarrow>
   run_error option \<times> 's" where
  "quotaOrPark p job run agentRec prevRuns block0 s =
     (let block = (if qb_CLISessionID block0 = '''' then block0\<lparr>qb_CLISessionID := rp_cliSession p s\<rparr>
                   else block0);
          streak = quotaParkStreak prevRuns (run_ID run)
      in if maxConsecutiveQuotaParks \<le> streak then fail_run p run (RunParkedTooOften streak block) s
         else parkOnQuota p job run agentRec block streak s)"

end
