(* ===== verification/Run_Finish.thy ===== *)
theory Run_Finish
  imports Run_Parks
begin

text \<open>
  From an agent's last word to the run's last row: the verification rounds
  (\<open>server/internal/application/board/verify.go\<close>), the sweeps over open criteria and missing verdicts
  (\<open>criteria_sweep.go\<close>, \<open>review_sweep.go\<close>), the gate that is skipped for an unchanged diff
  (\<open>stage_skip.go\<close>) and the end of \<open>execute\<close> (\<open>runner.go\<close>, \<open>advisory_checks.go\<close>). The prompts and the
  commands a repository is verified with are ports.
\<close>

section \<open>Verification rounds\<close>

definition MoveReasonVerificationFailed :: string where
  [col_defs]: "MoveReasonVerificationFailed = ''verification_failed''"
definition MoveReasonPlanVerificationFailed :: string where
  [col_defs]: "MoveReasonPlanVerificationFailed = ''plan_verification_failed''"

definition newline :: string where "newline = [CHR 0x0A]"

definition reportPlanVerificationFailure ::
  "'s RunPorts \<Rightarrow> RunJob \<Rightarrow> VerificationResult \<Rightarrow> 's \<Rightarrow> 's" where
  "reportPlanVerificationFailure p job verdict s =
     (case rp_tasks p of
        None \<Rightarrow> s
      | Some tasks \<Rightarrow>
          rt_AddComment tasks (job_RepositoryID job) (bt_ID (job_Task job))
            (system_comment (TruncateTail (ht_planVerificationFailure (rp_texts p) verdict) 3000)) s)"

definition reportVerificationFailure :: "'s RunPorts \<Rightarrow> RunJob \<Rightarrow> string \<Rightarrow> 's \<Rightarrow> 's" where
  "reportVerificationFailure p job failReport s =
     (case rp_tasks p of
        None \<Rightarrow> s
      | Some tasks \<Rightarrow>
          let report = (if 3000 < length failReport
                        then TruncateHead failReport 3000 @ newline @ [CHR 0xE2, CHR 0x80, CHR 0xA6] @ ''(truncated)''
                        else failReport);
              w = run_workflowFor p (bt_TaskType (job_Task job)) s;
              hasRevision = Stage w TaskColumnNeedRevision \<noteq> None;
              comment = (if hasRevision then ht_verificationFailureRevision (rp_texts p) report
                         else ht_verificationFailure (rp_texts p) report);
              s1 = rt_AddComment tasks (job_RepositoryID job) (bt_ID (job_Task job)) (system_comment comment) s
          in if hasRevision then s1
             else let column = (case WorkColumn w of None \<Rightarrow> TaskColumnInProgress | Some c \<Rightarrow> c)
               in snd (job_UpdateTask tasks job (system_move column MoveReasonVerificationFailed) s1))"

definition coverageWarningMarker :: string where "coverageWarningMarker = ''[coverage warning]''"

definition verified_note :: "string \<Rightarrow> string" where
  "verified_note report =
     newline @ newline @ ''[verification] '' @ report @
     (if str_Contains report ''[unverified]''
      then newline @ ''Say in your hand-off what was not checked instead of reporting a clean build.'' else '''') @
     (if str_Contains report coverageWarningMarker
      then newline @ ''The coverage warning does not hold this hand-off: report the figure in your summary and continue.''
      else '''')"

definition withFindingsDigest :: "'s RunPorts \<Rightarrow> Message list \<Rightarrow> string \<Rightarrow> Message list" where
  "withFindingsDigest p history digest =
     (if digest = '''' then history
      else filter (\<lambda>m. \<not> (msg_Role m = RoleSystem \<and> rp_isDigest p (msg_Content m))) history @
           [says RoleSystem digest])"

definition fix_history :: "'s RunPorts \<Rightarrow> Message list \<Rightarrow> AgentResponse \<Rightarrow> string \<Rightarrow> 's \<Rightarrow> Message list" where
  "fix_history p history resp failReport s =
     (if resp_Transcript resp \<noteq> [] then resp_Transcript resp
      else withFindingsDigest p (history @ [says RoleAssistant (msg_Content (resp_Message resp))])
             (rp_digest p s)) @
     [says RoleUser (ht_verifyFix (rp_texts p) failReport)]"

definition no_checks :: advisoryChecks where
  "no_checks = \<lparr>ac_workspace = '''', ac_coverage = False, ac_mutation = False, ac_commit = ''''\<rparr>"

record verified =
  vf_resp :: AgentResponse
  vf_ok :: bool
  vf_quota :: "QuotaBlock option"
  vf_checks :: advisoryChecks

definition not_verified :: "AgentResponse \<Rightarrow> QuotaBlock option \<Rightarrow> verified" where
  "not_verified resp quota = \<lparr>vf_resp = resp, vf_ok = False, vf_quota = quota, vf_checks = no_checks\<rparr>"

text \<open>\<open>attempts\<close> is the number asked for, the recursion counts the fix rounds that are left.\<close>

fun verify_rounds ::
  "'s RunPorts \<Rightarrow> RunJob \<Rightarrow> string \<Rightarrow> int \<Rightarrow> nat \<Rightarrow> Message list \<Rightarrow> AgentResponse \<Rightarrow> 's \<Rightarrow> verified \<times> 's" where
  "verify_rounds p job workspace attempts left history resp s =
     (case rp_check p workspace s of
        ((True, report, deferred), s1) \<Rightarrow>
          (\<lparr>vf_resp = (if report = '''' then resp
              else set_content (TrimSpace (msg_Content (resp_Message resp) @ verified_note report)) resp),
            vf_ok = True, vf_quota = None, vf_checks = deferred\<rparr>, s1)
      | ((False, report, deferred), s1) \<Rightarrow>
          (case left of
             0 \<Rightarrow>
               (not_verified (set_content (TrimSpace (msg_Content (resp_Message resp) @ newline @ newline @
                   ht_verificationExhausted (rp_texts p) attempts)) resp) None,
                reportVerificationFailure p job report s1)
           | Suc n \<Rightarrow>
               let turn = fix_history p history resp report s1 in
               (case rp_RunTask p turn s1 of
                  (Inl err, s2) \<Rightarrow>
                    (case QuotaBlockOf err of
                       Some quota \<Rightarrow> (not_verified resp (Some quota), s2)
                     | None \<Rightarrow> (not_verified resp None, reportVerificationFailure p job report s2))
                | (Inr fixed, s2) \<Rightarrow> verify_rounds p job workspace attempts n turn fixed s2)))"

declare verify_rounds.simps [simp del]

definition fix_attempts :: "'s RunPorts \<Rightarrow> int" where
  "fix_attempts p = (if rp_verifyFixAttempts p \<le> 0 then 2 else rp_verifyFixAttempts p)"

definition verifyAndFix ::
  "'s RunPorts \<Rightarrow> RunJob \<Rightarrow> string \<Rightarrow> Message list \<Rightarrow> AgentResponse \<Rightarrow> 's \<Rightarrow> verified \<times> 's" where
  "verifyAndFix p job workspace history resp s =
     verify_rounds p job workspace (fix_attempts p) (nat (fix_attempts p)) history resp s"

section \<open>Open criteria\<close>

definition criteriaSweepRounds :: nat where "criteriaSweepRounds = 3"

definition sweepsOwnCriteria :: "Workflow \<Rightarrow> TaskColumn \<Rightarrow> bool" where
  "sweepsOwnCriteria w column =
     (if wf_Has w column BehaviourCriterionVerdict then False
      else KindOf w column \<in> {StageKindQueue, StageKindWork, StageKindRework})"

definition allCriteria :: "'s RunPorts \<Rightarrow> RunJob \<Rightarrow> 's \<Rightarrow> AcceptanceCriterion list" where
  "allCriteria p job s =
     (case Option.bind (rp_tasks p) rt_ListTaskCriteria of
        None \<Rightarrow> []
      | Some listCriteria \<Rightarrow>
          (case listCriteria s (bt_ID (job_Task job)) of Inl err \<Rightarrow> [] | Inr items \<Rightarrow> items))"

definition run_openCriteria :: "'s RunPorts \<Rightarrow> RunJob \<Rightarrow> 's \<Rightarrow> AcceptanceCriterion list" where
  "run_openCriteria p job s = filter (\<lambda>c. \<not> Tasks.Settled c) (allCriteria p job s)"

definition add_system_comment :: "'s RunPorts \<Rightarrow> RunJob \<Rightarrow> string \<Rightarrow> 's \<Rightarrow> 's" where
  "add_system_comment p job content s =
     (case rp_tasks p of
        None \<Rightarrow> s
      | Some tasks \<Rightarrow>
          rt_AddComment tasks (job_RepositoryID job) (bt_ID (job_Task job)) (system_comment content) s)"

fun criteria_rounds ::
  "'s RunPorts \<Rightarrow> RunJob \<Rightarrow> Message list \<Rightarrow> nat \<Rightarrow> Message list \<Rightarrow> AgentResponse \<Rightarrow>
   AcceptanceCriterion list \<Rightarrow> 's \<Rightarrow> (bool \<times> QuotaBlock option) \<times> 's" where
  "criteria_rounds p job history 0 stacked current opens s =
     ((False, None), add_system_comment p job (ht_unsettledCriteriaReport (rp_texts p) opens) s)"
| "criteria_rounds p job history (Suc n) stacked current opens s =
     (let ask = says RoleUser (ht_criteriaSweep (rp_texts p) opens (criteriaSweepRounds - n));
          stacked' = stacked @ [ask];
          turn = (if resp_Transcript current \<noteq> [] then followUpHistory history current @ [ask] else stacked')
      in case rp_RunTask p turn s of
           (Inl err, s1) \<Rightarrow> ((True, QuotaBlockOf err), s1)
         | (Inr swept, s1) \<Rightarrow>
             (case run_openCriteria p job s1 of
                [] \<Rightarrow> ((True, None), s1)
              | c # cs \<Rightarrow>
                  criteria_rounds p job history n stacked'
                    (if resp_Transcript swept \<noteq> [] then swept else current) (c # cs) s1))"

definition sweepOpenCriteria ::
  "'s RunPorts \<Rightarrow> RunJob \<Rightarrow> Message list \<Rightarrow> AgentResponse \<Rightarrow> 's \<Rightarrow> (bool \<times> QuotaBlock option) \<times> 's" where
  "sweepOpenCriteria p job history resp s =
     (let w = run_workflowFor p (bt_TaskType (job_Task job)) s; opens = run_openCriteria p job s in
      if \<not> sweepsOwnCriteria w (bt_Column (job_Task job)) \<or> opens = [] then ((True, None), s)
      else criteria_rounds p job history criteriaSweepRounds
             (history @ [says RoleAssistant (msg_Content (resp_Message resp))]) resp opens s)"

section \<open>Verdicts\<close>

definition reviewExitColumn :: "Workflow \<Rightarrow> TaskColumn \<Rightarrow> TaskColumn option" where
  "reviewExitColumn w column =
     (case wf_Param w column BehaviourReviewVerdictSweep ''pass_to'' of
        None \<Rightarrow> None | Some target \<Rightarrow> if target = '''' then None else Some target)"

definition missingVerdicts :: "'s RunPorts \<Rightarrow> RunJob \<Rightarrow> CriterionReviewRole \<Rightarrow> 's \<Rightarrow> AcceptanceCriterion list" where
  "missingVerdicts p job role s =
     filter (\<lambda>c. \<not> list_ex (\<lambda>check. chk_Role check = role) (crit_Checks c)) (allCriteria p job s)"

definition str_Trim :: "string \<Rightarrow> string \<Rightarrow> string" where
  "str_Trim cutset s =
     rev (dropWhile (\<lambda>c. c \<in> set cutset) (rev (dropWhile (\<lambda>c. c \<in> set cutset) s)))"

definition verdictColumn :: "string \<Rightarrow> TaskColumn \<Rightarrow> TaskColumn option" where
  "verdictColumn answer exit =
     (let word = ToUpper (str_Trim
            ([CHR 0x60] @ ''*_.!'' @ [CHR 0x22, CHR 0x27, CHR 0x20, CHR 0x0A, CHR 0x09]) (TrimSpace answer))
      in if word = ''APPROVE'' then Some exit
         else if word = ''REVISE'' then Some TaskColumnNeedRevision else None)"

definition stuckVerdictNote :: "'s RunPorts \<Rightarrow> RunJob \<Rightarrow> 's \<Rightarrow> string" where
  "stuckVerdictNote p job s =
     (case verdict_role (run_workflowFor p (bt_TaskType (job_Task job)) s) (bt_Column (job_Task job)) of
        None \<Rightarrow> ''''
      | Some role \<Rightarrow>
          if missingVerdicts p job role s = [] then ''''
          else ht_stuckVerdictNote (rp_texts p) role (missingVerdicts p job role s))"

definition finalizeReviewVerdict ::
  "'s RunPorts \<Rightarrow> RunJob \<Rightarrow> Message list \<Rightarrow> TaskColumn \<Rightarrow> 's \<Rightarrow> (bool \<times> QuotaBlock option) \<times> 's" where
  "finalizeReviewVerdict p job history exit s =
     (case rp_tasks p of
        None \<Rightarrow> ((False, None), s)
      | Some tasks \<Rightarrow>
          if (case verdict_role (run_workflowFor p (bt_TaskType (job_Task job)) s)
                     (bt_Column (job_Task job)) of
                None \<Rightarrow> False | Some role \<Rightarrow> missingVerdicts p job role s \<noteq> [])
          then ((False, None), s)
          else case rp_RunTask p (history @ [says RoleUser (ht_reviewVerdictAsk (rp_texts p) exit)]) s of
              (Inl err, s1) \<Rightarrow> ((False, QuotaBlockOf err), s1)
            | (Inr resp, s1) \<Rightarrow>
                (case verdictColumn (msg_Content (resp_Message resp)) exit of
                   None \<Rightarrow> ((False, None), s1)
                 | Some target \<Rightarrow>
                     (case job_UpdateTask tasks job (agent_move job target) s1 of
                        (Inl err, s2) \<Rightarrow> ((False, None), s2)
                      | (Inr moved, s2) \<Rightarrow> ((True, None), s2))))"

definition sweepReviewVerdict ::
  "'s RunPorts \<Rightarrow> RunJob \<Rightarrow> Message list \<Rightarrow> AgentResponse \<Rightarrow> 's \<Rightarrow> QuotaBlock option \<times> 's" where
  "sweepReviewVerdict p job history resp s =
     (let task = job_Task job; w = run_workflowFor p (bt_TaskType task) s in
      if resp_Clarification resp \<noteq> None \<or> resp_ResourceBlock resp \<noteq> None then (None, s)
      else case reviewExitColumn w (bt_Column task) of
          None \<Rightarrow> (None, s)
        | Some exit \<Rightarrow>
            (case job_GetTask p job s of
               Some (Inr fresh) \<Rightarrow>
                 if bt_Column fresh \<noteq> bt_Column task then (None, s)
                 else if rp_HasDecided p (bt_ID task) (bt_Column task) (run_AgentID (job_Run job)) s
                 then (None, s)
                 else
                   let role = verdict_role w (bt_Column task);
                       missing = (case role of None \<Rightarrow> [] | Some r \<Rightarrow> missingVerdicts p job r s);
                       turn = followUpHistory history resp @
                         [says RoleUser (ht_reviewSweep (rp_texts p) (bt_Column task) exit role missing)]
                   in (case rp_RunTask p turn s of
                         (Inl err, s1) \<Rightarrow> (QuotaBlockOf err, s1)
                       | (Inr swept, s1) \<Rightarrow>
                           (case job_GetTask p job s1 of
                              Some (Inr after) \<Rightarrow>
                                if bt_Column after \<noteq> bt_Column task then (None, s1)
                                else
                                  (case finalizeReviewVerdict p job
                                          (if resp_Transcript swept \<noteq> [] then resp_Transcript swept else turn)
                                          exit s1 of
                                     ((moved, Some quota), s2) \<Rightarrow> (Some quota, s2)
                                   | ((True, None), s2) \<Rightarrow> (None, s2)
                                   | ((False, None), s2) \<Rightarrow>
                                       (None, add_system_comment p job
                                          (ht_stuckColumn (rp_texts p) (bt_Column task) exit
                                            (stuckVerdictNote p job s2)) s2))
                            | _ \<Rightarrow> (None, s1)))
             | _ \<Rightarrow> (None, s)))"

section \<open>A gate that has already passed this diff\<close>

definition MoveReasonUnchangedDiff :: string where
  [col_defs]: "MoveReasonUnchangedDiff = ''unchanged_diff''"

definition criterionApprovalFor :: "AcceptanceCriterion \<Rightarrow> CriterionReviewRole \<Rightarrow> CriterionCheck option" where
  "criterionApprovalFor c role = find (\<lambda>check. chk_Role check = role) (crit_Checks c)"

text \<open>The earliest of the approvals; \<open>earliest\<close> is zero until one was seen.\<close>

fun approvals_of :: "CriterionReviewRole \<Rightarrow> string \<Rightarrow> AcceptanceCriterion list \<Rightarrow> time \<Rightarrow> time option" where
  "approvals_of role patchID [] earliest = Some earliest"
| "approvals_of role patchID (c # cs) earliest =
     (case criterionApprovalFor c role of
        None \<Rightarrow> None
      | Some check \<Rightarrow>
          if \<not> chk_Approved check \<or> chk_VerifiedPatchID check = '''' \<or> chk_VerifiedPatchID check \<noteq> patchID
          then None
          else approvals_of role patchID cs
                 (if time_IsZero earliest \<or> chk_CheckedAt check < earliest then chk_CheckedAt check
                  else earliest))"

definition gateAlreadyApproved ::
  "'s RunPorts \<Rightarrow> RunJob \<Rightarrow> Workflow \<Rightarrow> string \<Rightarrow> 's \<Rightarrow> time option" where
  "gateAlreadyApproved p job w patchID s =
     (case verdict_role w (bt_Column (job_Task job)) of
        Some role \<Rightarrow>
          (if allCriteria p job s = [] then None else approvals_of role patchID (allCriteria p job s) 0)
      | None \<Rightarrow>
          (case Option.bind (rp_tasks p) rt_LatestApprovedReviewPatchID of
             None \<Rightarrow> None
           | Some latest \<Rightarrow>
               (case latest s (bt_ID (job_Task job)) (bt_Column (job_Task job)) of
                  None \<Rightarrow> None
                | Some (approvedPatchID, approvedAt) \<Rightarrow>
                    if approvedPatchID = '''' \<or> approvedPatchID \<noteq> patchID then None else Some approvedAt)))"

definition human_author :: "TaskComment \<Rightarrow> bool" where
  "human_author c \<longleftrightarrow> com_AuthorType c = ''human'' \<or> com_AuthorType c = ''user''"

definition humanCommentedAfter :: "'s RunTasks \<Rightarrow> RunJob \<Rightarrow> time \<Rightarrow> 's \<Rightarrow> bool" where
  "humanCommentedAfter tasks job after s =
     (case rt_ListComments tasks s (job_RepositoryID job) (bt_ID (job_Task job)) of
        Inl err \<Rightarrow> True
      | Inr comments \<Rightarrow> list_ex (\<lambda>c. human_author c \<and> after < com_CreatedAt c) comments)"

definition applyUnchangedDiffSkip ::
  "'s RunPorts \<Rightarrow> 's RunTasks \<Rightarrow> RunJob \<Rightarrow> TaskAgentRun \<Rightarrow> TaskColumn \<Rightarrow> string \<Rightarrow> time \<Rightarrow> 's \<Rightarrow> bool \<times> 's" where
  "applyUnchangedDiffSkip p tasks job run target patchID approvedAt s =
     (let summary = ht_diffSkipSummary (rp_texts p) (bt_Column (job_Task job)) (take 12 patchID) approvedAt in
      case job_UpdateTask tasks job (system_move target MoveReasonUnchangedDiff) s of
        (Inl err, s1) \<Rightarrow> (False, s1)
      | (Inr moved, s1) \<Rightarrow>
          (True, snd (rp_Update p (run\<lparr>run_Status := TaskAgentRunStatusCompleted,
                                       run_Summary := TruncateHead summary 500\<rparr>)
                        (rt_AddComment tasks (job_RepositoryID job) (bt_ID (job_Task job))
                           (system_comment summary) s1))))"

definition skipUnchangedDiffGate ::
  "'s RunPorts \<Rightarrow> RunJob \<Rightarrow> TaskAgentRun \<Rightarrow> string \<Rightarrow> 's \<Rightarrow> bool \<times> 's" where
  "skipUnchangedDiffGate p job run workspacePath s =
     (case (rp_tasks p, rp_git p) of
        (Some tasks, Some git) \<Rightarrow>
          (if workspacePath = '''' then (False, s)
           else case job_GetTask p job s of
               Some (Inr fresh) \<Rightarrow>
                 (if bt_Column fresh \<noteq> bt_Column (job_Task job) \<or> bt_BlockedQuestion fresh \<noteq> '''' then (False, s)
                  else case wg_TaskPatchID git of
                      None \<Rightarrow> (False, s)
                    | Some taskPatchID \<Rightarrow>
                        (case taskPatchID s workspacePath of
                           Inl err \<Rightarrow> (False, s)
                         | Inr patchID \<Rightarrow>
                             if patchID = '''' then (False, s)
                             else let w = run_workflowFor p (bt_TaskType (job_Task job)) s in
                               (case (reviewExitColumn w (bt_Column (job_Task job)),
                                      gateAlreadyApproved p job w patchID s) of
                                  (Some target, Some approvedAt) \<Rightarrow>
                                    (if time_IsZero approvedAt \<or> humanCommentedAfter tasks job approvedAt s
                                     then (False, s)
                                     else applyUnchangedDiffSkip p tasks job run target patchID approvedAt s)
                                | _ \<Rightarrow> (False, s))))
             | _ \<Rightarrow> (False, s))
      | _ \<Rightarrow> (False, s))"

section \<open>The end of a run\<close>

text \<open>
  A stage of the run's end either ends the run, with what \<open>execute\<close> returns, or hands on a value.
\<close>

definition stamp_run :: "'s RunPorts \<Rightarrow> TaskAgentRun \<Rightarrow> 's \<Rightarrow> TaskAgentRun" where
  "stamp_run p run s = stampTokenUsage (rp_tokens p s) (stampToolStats (rp_usage p s) run)"

definition run_turn ::
  "'s RunPorts \<Rightarrow> Agent \<Rightarrow> TaskAgentRun \<Rightarrow> Message list \<Rightarrow> 's \<Rightarrow>
   (run_error + AgentResponse) \<times> TaskAgentRun \<times> 's" where
  "run_turn p agentRec run history s =
     (if rp_hosted p (agent_ProviderType agentRec) then
        (case rp_Execute p history s of
           ((resp, err), s1) \<Rightarrow>
             let s2 = rp_setCLISession p (resp_CLISessionID resp) s1
             in (case err of None \<Rightarrow> Inr resp | Some e \<Rightarrow> Inl e,
                 stampCLISession (rp_cliSession p s2) (agent_ProviderType agentRec) run, s2))
      else (case rp_RunTask p history s of (result, s1) \<Rightarrow> (result, run, s1)))"

definition turn_failed ::
  "'s RunPorts \<Rightarrow> RunJob \<Rightarrow> TaskAgentRun \<Rightarrow> Agent \<Rightarrow> TaskAgentRun list \<Rightarrow> string \<Rightarrow> string \<Rightarrow> run_error \<Rightarrow>
   's \<Rightarrow> run_error option \<times> 's" where
  "turn_failed p job run agentRec prevRuns workspace branch err s =
     (case err of
        RunQuota quota \<Rightarrow> quotaOrPark p job run agentRec prevRuns quota s
      | RunBudget budgetErr \<Rightarrow> failRunOutOfBudget p job run workspace branch budgetErr s
      | _ \<Rightarrow> fail_run p run err s)"

text \<open>What is asked and what is waited for; neither ends the run.\<close>

definition open_waits ::
  "'s RunPorts \<Rightarrow> RunJob \<Rightarrow> Agent \<Rightarrow> AgentResponse \<Rightarrow> string \<Rightarrow> 's \<Rightarrow> 's" where
  "open_waits p job agentRec resp workDir s =
     (let s1 = (case resp_Clarification resp of
                  None \<Rightarrow> s
                | Some clar \<Rightarrow>
                    openClarificationChat p job agentRec (msg_Content (resp_Message resp)) clar workDir s)
      in case resp_ResourceBlock resp of None \<Rightarrow> s1 | Some block \<Rightarrow> parkOnResource p job block s1)"

definition waits :: "AgentResponse \<Rightarrow> bool" where
  "waits resp \<longleftrightarrow> resp_Clarification resp \<noteq> None \<or> resp_ResourceBlock resp \<noteq> None"

definition verify_run ::
  "'s RunPorts \<Rightarrow> RunJob \<Rightarrow> Workflow \<Rightarrow> Message list \<Rightarrow> AgentResponse \<Rightarrow> string \<Rightarrow> 's \<Rightarrow> verified \<times> 's" where
  "verify_run p job w history resp workspace s =
     (if rp_verifyEnabled p \<and> workspace \<noteq> '''' \<and> \<not> waits resp \<and>
         wf_Has w (bt_Column (job_Task job)) BehaviourBuildVerify
      then verifyAndFix p job workspace history resp s
      else (\<lparr>vf_resp = resp, vf_ok = True, vf_quota = None, vf_checks = no_checks\<rparr>, s))"

definition send_back_reason :: "verified \<Rightarrow> string" where
  "send_back_reason v =
     (if \<not> vf_ok v then MoveReasonVerificationFailed
      else case resp_Verification (vf_resp v) of
          None \<Rightarrow> ''''
        | Some verdict \<Rightarrow> if vr_Passed verdict then '''' else MoveReasonPlanVerificationFailed)"

definition plan_failed :: "AgentResponse \<Rightarrow> bool" where
  "plan_failed resp \<longleftrightarrow> (case resp_Verification resp of None \<Rightarrow> False | Some v \<Rightarrow> \<not> vr_Passed v)"

definition report_plan :: "'s RunPorts \<Rightarrow> RunJob \<Rightarrow> AgentResponse \<Rightarrow> 's \<Rightarrow> 's" where
  "report_plan p job resp s =
     (case resp_Verification resp of
        None \<Rightarrow> s
      | Some v \<Rightarrow> if vr_Passed v then s else reportPlanVerificationFailure p job v s)"

definition qaSkippedTheUI :: "'s RunPorts \<Rightarrow> RunJob \<Rightarrow> Workflow \<Rightarrow> ToolUsage option \<Rightarrow> 's \<Rightarrow> bool" where
  "qaSkippedTheUI p job w usage s =
     (if usage = None \<or> rp_RepositoryKind p = None \<or>
         \<not> wf_Has w (bt_Column (job_Task job)) BehaviourRequireExecutionEvidence then False
      else if UsedAny usage UIObservationTools then False
      else uiRepo p (job_RepositoryID job) s)"

definition taskTestCases :: "'s RunPorts \<Rightarrow> RunJob \<Rightarrow> 's \<Rightarrow> TaskTestCase list" where
  "taskTestCases p job s =
     (case Option.bind (rp_tasks p) rt_ListTestCases of
        None \<Rightarrow> []
      | Some listTestCases \<Rightarrow>
          (case listTestCases s (bt_ID (job_Task job)) of Inl err \<Rightarrow> [] | Inr items \<Rightarrow> items))"

definition pmSkippedCoverageEvidence ::
  "'s RunPorts \<Rightarrow> RunJob \<Rightarrow> Workflow \<Rightarrow> TaskAgentRun \<Rightarrow> ToolUsage option \<Rightarrow> 's \<Rightarrow> bool" where
  "pmSkippedCoverageEvidence p job w run usage s =
     (if usage = None \<or> \<not> wf_Has w (bt_Column (job_Task job)) BehaviourRequireProductCheck then False
      else pmApprovedUncoveredCriterion w (job_Task job) (allCriteria p job s) (taskTestCases p job s) usage
             (run_CreatedAt run))"

text \<open>The rejections, in order; the first that applies ends the run.\<close>

datatype rejection = UngroundedAnalysis | UngroundedQA | UnseenUI | UngroundedPMUAT | UncoveredCriterion

definition rejection_of ::
  "'s RunPorts \<Rightarrow> RunJob \<Rightarrow> Workflow \<Rightarrow> TaskAgentRun \<Rightarrow> AgentResponse \<Rightarrow> 's \<Rightarrow> rejection option" where
  "rejection_of p job w run resp s =
     (let usage = rp_usage p s; task = job_Task job in
      if resp_ResourceBlock resp = None \<and> isUngroundedAnalysis w task resp usage then Some UngroundedAnalysis
      else if resp_ResourceBlock resp = None \<and> isUngroundedQA w task resp usage then Some UngroundedQA
      else if \<not> waits resp \<and> qaSkippedTheUI p job w usage s then Some UnseenUI
      else if resp_ResourceBlock resp = None \<and> isUngroundedPMUAT w task resp usage then Some UngroundedPMUAT
      else if \<not> waits resp \<and> pmSkippedCoverageEvidence p job w run usage s then Some UncoveredCriterion
      else None)"

definition reject ::
  "'s RunPorts \<Rightarrow> RunJob \<Rightarrow> TaskAgentRun \<Rightarrow> AgentResponse \<Rightarrow> rejection \<Rightarrow> 's \<Rightarrow> run_error option \<times> 's" where
  "reject p job run resp r =
     (case r of
        UngroundedAnalysis \<Rightarrow> failRunUngrounded p job run resp
      | UngroundedQA \<Rightarrow> failRunUngroundedQA p job run resp (ht_ungroundedQA (rp_texts p))
      | UnseenUI \<Rightarrow> failRunUngroundedQA p job run resp (ht_noUIEvidence (rp_texts p))
      | UngroundedPMUAT \<Rightarrow> failRunUngroundedPMUAT p job run resp (ht_ungroundedPMUAT (rp_texts p))
      | UncoveredCriterion \<Rightarrow> failRunUngroundedPMUAT p job run resp (ht_pmUncoveredCriterion (rp_texts p)))"

definition sweep_run ::
  "'s RunPorts \<Rightarrow> RunJob \<Rightarrow> Message list \<Rightarrow> AgentResponse \<Rightarrow> 's \<Rightarrow> (bool \<times> QuotaBlock option) \<times> 's" where
  "sweep_run p job history resp s =
     (if waits resp then ((True, None), s)
      else case sweepOpenCriteria p job history resp s of
          ((settled, Some quota), s1) \<Rightarrow> ((settled, Some quota), s1)
        | ((settled, None), s1) \<Rightarrow>
            (case sweepReviewVerdict p job history resp s1 of (quota, s2) \<Rightarrow> ((settled, quota), s2)))"

definition closed_run ::
  "'s RunPorts \<Rightarrow> RunJob \<Rightarrow> TaskAgentRun \<Rightarrow> AgentResponse \<Rightarrow> bool \<Rightarrow> 's \<Rightarrow> TaskAgentRun" where
  "closed_run p job run resp settled s =
     (let summary =
            (if \<not> settled then ht_unsettledCriteriaSummary (rp_texts p) (int (length (run_openCriteria p job s)))
             else case resp_ResourceBlock resp of
                 Some block \<Rightarrow> ''Waiting for a shared resource: '' @ rb_Detail block
               | None \<Rightarrow>
                   (case resp_Clarification resp of
                      Some clar \<Rightarrow> ''Waiting for an answer: '' @ clar_Context clar
                    | None \<Rightarrow> TrimSpace (msg_Content (resp_Message resp))))
      in run\<lparr>run_Status := (if settled then TaskAgentRunStatusCompleted else TaskAgentRunStatusFailed),
             run_Summary := TruncateHead summary 500\<rparr>)"

definition checks_pending :: "advisoryChecks \<Rightarrow> bool" where
  "checks_pending c \<longleftrightarrow> ac_workspace c \<noteq> '''' \<and> (ac_coverage c \<or> ac_mutation c)"

definition handoffCommit :: "'s RunPorts \<Rightarrow> advisoryChecks \<Rightarrow> 's \<Rightarrow> string" where
  "handoffCommit p checks s =
     (case Option.bind (rp_git p) wg_HeadSHA of
        None \<Rightarrow> ''''
      | Some headSHA \<Rightarrow>
          if \<not> checks_pending checks then ''''
          else case headSHA s (ac_workspace checks) of Inl err \<Rightarrow> '''' | Inr sha \<Rightarrow> sha)"

definition startAdvisoryChecks :: "'s RunPorts \<Rightarrow> advisoryChecks \<Rightarrow> 's \<Rightarrow> 's" where
  "startAdvisoryChecks p checks s =
     (if \<not> checks_pending checks \<or> ac_commit checks = '''' then s
      else if Option.bind (rp_git p) wg_HeadSHA = None then s
      else rp_startBackground p checks s)"

text \<open>The push, whether GitHub refused it for the token, and the advisory checks with their commit.\<close>

definition push_stage ::
  "'s RunPorts \<Rightarrow> RunJob \<Rightarrow> string \<Rightarrow> string \<Rightarrow> string \<Rightarrow> advisoryChecks \<Rightarrow> 's \<Rightarrow> (bool \<times> advisoryChecks) \<times> 's" where
  "push_stage p job summary workspace branch checks s =
     (if \<not> PublishesBranch (bt_TaskType (job_Task job)) then ((False, checks), s)
      else case push_work p workspace '''' summary s of
          (Some PushWorkflowScope, s1) \<Rightarrow> ((True, checks), parkOnWorkflowScope p job s1)
        | (Some (PushFailed err), s1) \<Rightarrow> ((False, checks), s1)
        | (None, s1) \<Rightarrow>
            ((False, checks\<lparr>ac_commit := handoffCommit p checks s1\<rparr>), index_branch p job branch workspace s1))"

definition move_stage ::
  "'s RunPorts \<Rightarrow> RunJob \<Rightarrow> Workflow \<Rightarrow> bool \<Rightarrow> string \<Rightarrow> string \<Rightarrow> advisoryChecks \<Rightarrow> 's \<Rightarrow> 's" where
  "move_stage p job w buildVerified reason workspace checks s =
     (if buildVerified then
        (case advanceToCodeReview p job w workspace (rp_usage p s) s of
           (advanced, s1) \<Rightarrow>
             let s2 = (if advanced then startAdvisoryChecks p checks s1 else s1) in
             case blockOnPendingQuestions p job s2 of
               (True, s3) \<Rightarrow> s3
             | (False, s3) \<Rightarrow> advanceToAnalizReview p job w (rp_usage p s3) s3)
      else snd (sendBackForRevision p job w '''' reason s))"

definition hand_over ::
  "'s RunPorts \<Rightarrow> RunJob \<Rightarrow> Workflow \<Rightarrow> verified \<Rightarrow> string \<Rightarrow> string \<Rightarrow> string \<Rightarrow> 's \<Rightarrow> 's" where
  "hand_over p job w v summary workspace branch s =
     (if workspace = '''' \<or> waits (vf_resp v) \<or>
         \<not> wf_Has w (bt_Column (job_Task job)) BehaviourCommitOnFinish then s
      else case push_stage p job summary workspace branch (vf_checks v) s of
          ((True, checks), s1) \<Rightarrow> s1
        | ((False, checks), s1) \<Rightarrow>
            move_stage p job w (vf_ok v \<and> \<not> plan_failed (vf_resp v)) (send_back_reason v) workspace checks s1)"

definition close_run ::
  "'s RunPorts \<Rightarrow> RunJob \<Rightarrow> Workflow \<Rightarrow> TaskAgentRun \<Rightarrow> Agent \<Rightarrow> verified \<Rightarrow> bool \<Rightarrow> string \<Rightarrow> string \<Rightarrow>
   's \<Rightarrow> run_error option \<times> 's" where
  "close_run p job w run agentRec v settled workspace branch s =
     (let run1 = closed_run p job run (vf_resp v) settled s;
          s1 = hand_over p job w v (run_Summary run1) workspace branch s
      in case rp_Update p (stampCLISession (rp_cliSession p s1) (agent_ProviderType agentRec) run1) s1 of
           (Inl err, s2) \<Rightarrow> (Some (RunFailed err), s2)
         | (Inr updated, s2) \<Rightarrow> (None, s2))"

text \<open>After the agent's turn: \<open>run\<close> carries the turn's counts, which only a quota park refreshes.\<close>

definition judge_run ::
  "'s RunPorts \<Rightarrow> RunJob \<Rightarrow> Workflow \<Rightarrow> TaskAgentRun \<Rightarrow> Agent \<Rightarrow> TaskAgentRun list \<Rightarrow> Message list \<Rightarrow>
   verified \<Rightarrow> string \<Rightarrow> string \<Rightarrow> 's \<Rightarrow> run_error option \<times> 's" where
  "judge_run p job w run agentRec prevRuns history v workspace branch s =
     (case rejection_of p job w run (vf_resp v) s of
        Some r \<Rightarrow> reject p job run (vf_resp v) r s
      | None \<Rightarrow>
          (case sweep_run p job history (vf_resp v) s of
             ((settled, Some quota), s1) \<Rightarrow>
               quotaOrPark p job (stamp_run p run s1) agentRec prevRuns quota s1
           | ((settled, None), s1) \<Rightarrow> close_run p job w run agentRec v settled workspace branch s1))"

definition finish_run ::
  "'s RunPorts \<Rightarrow> RunJob \<Rightarrow> Workflow \<Rightarrow> TaskAgentRun \<Rightarrow> Agent \<Rightarrow> TaskAgentRun list \<Rightarrow> Message list \<Rightarrow>
   AgentResponse \<Rightarrow> string \<Rightarrow> string \<Rightarrow> string \<Rightarrow> 's \<Rightarrow> run_error option \<times> 's" where
  "finish_run p job w run agentRec prevRuns history resp workspace branch workDir s =
     (case verify_run p job w history resp workspace (open_waits p job agentRec resp workDir s) of
        (v, s1) \<Rightarrow>
          (case vf_quota v of
             Some quota \<Rightarrow> quotaOrPark p job (stamp_run p run s1) agentRec prevRuns quota s1
           | None \<Rightarrow>
               judge_run p job w run agentRec prevRuns history v workspace branch
                 (report_plan p job (vf_resp v) s1)))"

definition execute_turn ::
  "'s RunPorts \<Rightarrow> RunJob \<Rightarrow> Workflow \<Rightarrow> TaskAgentRun \<Rightarrow> Agent \<Rightarrow> TaskAgentRun list \<Rightarrow> Message list \<Rightarrow>
   string \<Rightarrow> string \<Rightarrow> string \<Rightarrow> 's \<Rightarrow> run_error option \<times> 's" where
  "execute_turn p job w run0 agentRec prevRuns history workspace branch workDir s =
     (case run_turn p agentRec run0 history s of
        (result, run1, s1) \<Rightarrow>
          let run = stamp_run p run1 s1 in
          if rp_stopped p s1 then (None, s1)
          else case result of
              Inl err \<Rightarrow> turn_failed p job run agentRec prevRuns workspace branch err s1
            | Inr resp \<Rightarrow>
                finish_run p job w run agentRec prevRuns history resp workspace branch workDir s1)"

end
