(* ===== verification/Run_Log.thy ===== *)
theory Run_Log
  imports Run_Finish
begin

text \<open>
  An observer for the end of a run: \<open>logged p\<close> is the ports \<open>p\<close> over a state that also keeps the list
  of what was asked of the agent, the card and the run's row, in order. The ports answer and change the
  state as before. The locale \<open>turn_frame\<close> carries a graded relation from the ports through every
  stage of a run's end that does not write the row; it is interpreted on \<open>logged\<close> twice, for the turns
  that are taken and for the rows that are written.
\<close>

section \<open>The observer\<close>

datatype run_call =
    TurnTaken
  | CardMoved UpdateBoardTaskRequest
  | CardParked string
  | RowWritten TaskAgentRun
  | WorkPushed

type_synonym 's observed = "'s \<times> run_call list"

definition reading :: "('s \<Rightarrow> 'a) \<Rightarrow> 's observed \<Rightarrow> 'a" where
  "reading f o1 = f (fst o1)"

definition changing :: "('s \<Rightarrow> 's) \<Rightarrow> 's observed \<Rightarrow> 's observed" where
  "changing f o1 = (f (fst o1), snd o1)"

definition answering :: "run_call list \<Rightarrow> ('s \<Rightarrow> 'a \<times> 's) \<Rightarrow> 's observed \<Rightarrow> 'a \<times> 's observed" where
  "answering calls f o1 = (case f (fst o1) of (a, s) \<Rightarrow> (a, s, snd o1 @ calls))"

definition logged_tasks :: "'s RunTasks \<Rightarrow> 's observed RunTasks" where
  "logged_tasks t =
     \<lparr>rt_UpdateTask = (\<lambda>r i req. answering [CardMoved req] (rt_UpdateTask t r i req)),
      rt_AddComment = (\<lambda>r i req. changing (rt_AddComment t r i req)),
      rt_ListComments = reading (rt_ListComments t),
      rt_GetTask = map_option reading (rt_GetTask t),
      rt_ListTaskCriteria = map_option reading (rt_ListTaskCriteria t),
      rt_ListTestCases = map_option reading (rt_ListTestCases t),
      rt_ListQuestionsByTask = map_option reading (rt_ListQuestionsByTask t),
      rt_LatestApprovedReviewPatchID = map_option reading (rt_LatestApprovedReviewPatchID t)\<rparr>"

definition logged_git :: "'s RunGit \<Rightarrow> 's observed RunGit" where
  "logged_git g =
     \<lparr>wg_CommitAndPush = (\<lambda>workspace msg. answering [WorkPushed] (wg_CommitAndPush g workspace msg)),
      wg_TaskDiff = reading (wg_TaskDiff g), wg_TaskChangedFiles = reading (wg_TaskChangedFiles g),
      wg_TaskPatchID = map_option reading (wg_TaskPatchID g), wg_HeadSHA = map_option reading (wg_HeadSHA g)\<rparr>"

definition logged_blocker :: "'s TaskBlocker \<Rightarrow> 's observed TaskBlocker" where
  "logged_blocker b =
     \<lparr>bl_BlockOnQuestion = (\<lambda>r i c q. changing (bl_BlockOnQuestion b r i c q)),
      bl_BlockOnResource = (\<lambda>r i resource d. answering [CardParked resource] (bl_BlockOnResource b r i resource d))\<rparr>"

definition logged_parks :: "'s ParkJournal \<Rightarrow> 's observed ParkJournal" where
  "logged_parks j =
     \<lparr>pj_Create = (\<lambda>e. answering [] (pj_Create j e)),
      pj_RecordMove = map_option (\<lambda>f r i c t. changing (f r i c t)) (pj_RecordMove j)\<rparr>"

definition logged_sessions :: "'s ChatSessions \<Rightarrow> 's observed ChatSessions" where
  "logged_sessions c =
     \<lparr>cs_Exists = reading (cs_Exists c),
      cs_Create = (\<lambda>a b d e f. answering [] (cs_Create c a b d e f)),
      cs_AppendMessage = (\<lambda>i m q. changing (cs_AppendMessage c i m q))\<rparr>"

definition logged :: "'s RunPorts \<Rightarrow> 's observed RunPorts" where
  "logged p =
     \<lparr>rp_tasks = map_option logged_tasks (rp_tasks p),
      rp_Update = (\<lambda>run. answering [RowWritten run] (rp_Update p run)),
      rp_blocker = map_option logged_blocker (rp_blocker p),
      rp_parks = map_option logged_parks (rp_parks p),
      rp_sessions = map_option logged_sessions (rp_sessions p),
      rp_Notify = map_option (\<lambda>f a b. changing (f a b)) (rp_Notify p),
      rp_Workflow = map_option reading (rp_Workflow p),
      rp_git = map_option logged_git (rp_git p),
      rp_StartIndexBranch = map_option (\<lambda>f a b c. changing (f a b c)) (rp_StartIndexBranch p),
      rp_RepositoryKind = map_option reading (rp_RepositoryKind p),
      rp_HasDecided = (\<lambda>a b c. reading (rp_HasDecided p a b c)),
      rp_RunTask = (\<lambda>history. answering [TurnTaken] (rp_RunTask p history)),
      rp_Execute = (\<lambda>history. answering [TurnTaken] (rp_Execute p history)),
      rp_hosted = rp_hosted p,
      rp_usage = reading (rp_usage p), rp_tokens = reading (rp_tokens p),
      rp_cliSession = reading (rp_cliSession p),
      rp_setCLISession = (\<lambda>i. changing (rp_setCLISession p i)),
      rp_stopped = reading (rp_stopped p), rp_now = reading (rp_now p),
      rp_verifyEnabled = rp_verifyEnabled p, rp_verifyFixAttempts = rp_verifyFixAttempts p,
      rp_check = (\<lambda>workspace. answering [] (rp_check p workspace)),
      rp_digest = reading (rp_digest p), rp_isDigest = rp_isDigest p,
      rp_commitMessage = (\<lambda>a b. reading (rp_commitMessage p a b)),
      rp_startBackground = (\<lambda>c. changing (rp_startBackground p c)),
      rp_texts = rp_texts p\<rparr>"

definition turns :: "run_call list \<Rightarrow> nat" where
  "turns calls = length (filter (\<lambda>c. c = TurnTaken) calls)"

fun row_of_call :: "run_call \<Rightarrow> TaskAgentRun option" where
  "row_of_call (RowWritten run) = Some run"
| "row_of_call _ = None"

definition rows :: "run_call list \<Rightarrow> TaskAgentRun list" where
  "rows calls = List.map_filter row_of_call calls"

lemma turns_append [simp]: "turns (a @ b) = turns a + turns b"
  by (simp add: turns_def)

lemma turns_calls [simp]:
  "turns [] = 0" "turns [TurnTaken] = 1" "turns [CardMoved r] = 0" "turns [CardParked x] = 0"
  "turns [RowWritten run] = 0" "turns [WorkPushed] = 0"
  by (simp_all add: turns_def)

lemma rows_append [simp]: "rows (a @ b) = rows a @ rows b"
  by (simp add: rows_def List.map_filter_def)

lemma rows_calls [simp]:
  "rows [] = []" "rows [TurnTaken] = []" "rows [CardMoved r] = []" "rows [CardParked x] = []"
  "rows [RowWritten run] = [run]" "rows [WorkPushed] = []"
  by (simp_all add: rows_def List.map_filter_def)

lemma answering_simps [simp]:
  "fst (answering calls f o1) = fst (f (fst o1))"
  "snd (answering calls f o1) = (snd (f (fst o1)), snd o1 @ calls)"
  by (simp_all add: answering_def split_beta)

lemma changing_simps [simp]: "fst (changing f o1) = f (fst o1)" "snd (changing f o1) = snd o1"
  by (simp_all add: changing_def)

lemma logged_simps [simp]:
  "rp_tasks (logged p) = map_option logged_tasks (rp_tasks p)"
  "rp_Update (logged p) run = answering [RowWritten run] (rp_Update p run)"
  "rp_blocker (logged p) = map_option logged_blocker (rp_blocker p)"
  "rp_parks (logged p) = map_option logged_parks (rp_parks p)"
  "rp_git (logged p) = map_option logged_git (rp_git p)"
  "rp_texts (logged p) = rp_texts p"
  "rp_verifyFixAttempts (logged p) = rp_verifyFixAttempts p"
  "rp_stopped (logged p) = reading (rp_stopped p)"
  "rp_now (logged p) = reading (rp_now p)"
  "rp_usage (logged p) = reading (rp_usage p)"
  "rp_cliSession (logged p) = reading (rp_cliSession p)"
  by (simp_all add: logged_def)

lemma fix_attempts_logged [simp]: "fix_attempts (logged p) = fix_attempts p"
  by (simp add: fix_attempts_def)

section \<open>A graded frame\<close>

locale turn_frame =
  fixes p :: "'s RunPorts" and R :: "nat \<Rightarrow> 's \<Rightarrow> 's \<Rightarrow> bool"
  assumes refl [intro, simp]: "R n s s"
    and trans: "R m s0 s1 \<Longrightarrow> R n s1 s2 \<Longrightarrow> R (m + n) s0 s2"
    and weaken: "R m s0 s1 \<Longrightarrow> m \<le> n \<Longrightarrow> R n s0 s1"
    and RunTask: "R 1 s (snd (rp_RunTask p history s))"
    and Execute: "R 1 s (snd (rp_Execute p history s))"
    and UpdateTask: "rp_tasks p = Some t \<Longrightarrow> R 0 s (snd (rt_UpdateTask t r i req s))"
    and AddComment: "rp_tasks p = Some t \<Longrightarrow> R 0 s (rt_AddComment t r i creq s)"
    and Question: "rp_blocker p = Some b \<Longrightarrow> R 0 s (bl_BlockOnQuestion b r i sid q s)"
    and Resource: "rp_blocker p = Some b \<Longrightarrow> R 0 s (snd (bl_BlockOnResource b r i res detail s))"
    and Journal: "rp_parks p = Some j \<Longrightarrow> R 0 s (snd (pj_Create j e s))"
    and Spans: "rp_parks p = Some j \<Longrightarrow> pj_RecordMove j = Some rec \<Longrightarrow> R 0 s (rec r i col at s)"
    and NewChat: "rp_sessions p = Some cs \<Longrightarrow> R 0 s (snd (cs_Create cs title mdl root r agent s))"
    and Append: "rp_sessions p = Some cs \<Longrightarrow> R 0 s (cs_AppendMessage cs sid msg clar s)"
    and Notify: "rp_Notify p = Some tell \<Longrightarrow> R 0 s (tell title body s)"
    and Push: "rp_git p = Some g \<Longrightarrow> R 0 s (snd (wg_CommitAndPush g ws msg s))"
    and Index: "rp_StartIndexBranch p = Some start \<Longrightarrow> R 0 s (start r br ws s)"
    and SetCLI: "R 0 s (rp_setCLISession p cli s)"
    and Check: "R 0 s (snd (rp_check p ws s))"
    and Background: "R 0 s (rp_startBackground p checks s)"
begin

lemma step0: "R 0 a b \<Longrightarrow> R n b c \<Longrightarrow> R n a c"
  using trans [of 0 a b n c] by simp

lemma after0: "R n a b \<Longrightarrow> R 0 b c \<Longrightarrow> R n a c"
  using trans [of n a b 0 c] by simp

lemma comment_frame: "R 0 s (commentSystem p job content s)" "R 0 s (add_system_comment p job content s)"
  "R 0 s (note_failure p job content s)"
  by (simp_all add: commentSystem_def add_system_comment_def note_failure_def AddComment split: option.split)

lemma move_frame: "rp_tasks p = Some t \<Longrightarrow> R 0 s (snd (job_UpdateTask t job req s))"
  by (simp add: job_UpdateTask_def UpdateTask)

lemma move_result: "rp_tasks p = Some t \<Longrightarrow> job_UpdateTask t job req s = (r, s') \<Longrightarrow> R 0 s s'"
  using move_frame [of t s job req] by simp

lemma journal_frame: "R 0 s (journal_Record (rp_parks p) r task from res reason s)"
proof (cases "rp_parks p")
  case (Some j)
  have created: "R 0 s s'" if "pj_Create j e s = (x, s')" for e x s'
    using Journal [OF Some, of s e] that by simp
  show ?thesis unfolding Some journal_Record_def
    by (auto simp: Let_def split: sum.split prod.split option.split
        intro: created step0 [OF created] Spans [OF Some])
qed (simp add: journal_Record_def)

lemma park_frame: "R 0 s (snd (park_run p job resource detail reason s))"
proof (cases "rp_blocker p")
  case (Some b)
  obtain x s1 where blocked: "bl_BlockOnResource b (job_RepositoryID job) (bt_ID (job_Task job)) resource detail s = (x, s1)"
    by (cases "bl_BlockOnResource b (job_RepositoryID job) (bt_ID (job_Task job)) resource detail s")
  have "R 0 s s1" using Resource [OF Some, of s _ _ resource detail] blocked by (metis snd_conv)
  then show ?thesis by (auto simp: park_run_def Some blocked intro: step0 journal_frame split: sum.split)
qed (simp add: park_run_def)

lemma send_back_frame: "R 0 s (snd (sendBackForRevision p job w comment reason s))"
  by (auto simp: sendBackForRevision_def Let_def split: option.split sum.split prod.split
      intro: comment_frame step0 [OF comment_frame(1)] move_result)

lemma refused_frame: "R 0 s (handleRefusedAdvance p job w err stay revision s)"
  by (simp add: handleRefusedAdvance_def Let_def send_back_frame comment_frame)

lemma advance_frame: "R 0 s (snd (advanceOnChanges p job w changes usage s))"
  by (auto simp: advanceOnChanges_def Let_def send_back_frame split: option.split sum.split prod.split
      intro: move_result step0 [OF move_result] refused_frame)

lemma code_review_frame: "R 0 s (snd (advanceToCodeReview p job w ws usage s))"
  by (simp add: advanceToCodeReview_def advance_frame)

lemma analiz_review_frame: "R 0 s (advanceToAnalizReview p job w usage s)"
  by (auto simp: advanceToAnalizReview_def split: option.split sum.split prod.split
      intro: move_result step0 [OF move_result] refused_frame)

lemma questions_frame: "R 0 s (snd (blockOnPendingQuestions p job s))"
  by (simp add: blockOnPendingQuestions_def Let_def park_frame)

lemma index_frame: "R 0 s (index_branch p job br ws s)"
  by (simp add: index_branch_def Index split: option.split)

lemma push_result: "push_work p ws pre summary s = (err, s1) \<Longrightarrow> R 0 s s1"
  using Push [of _ s ws] by (auto simp: push_work_def split: option.splits) (metis snd_conv)

lemma scope_frame: "R 0 s (parkOnWorkflowScope p job s)"
  by (simp add: parkOnWorkflowScope_def step0 [OF comment_frame(1) park_frame])

lemma push_stage_frame: "R 0 s (snd (push_stage p job summary ws br checks s))"
  by (auto simp: push_stage_def split: prod.split option.split push_error.split
      intro: push_result step0 [OF push_result] scope_frame index_frame)

lemma checks_frame: "R 0 s (startAdvisoryChecks p checks s)"
  by (simp add: startAdvisoryChecks_def Background)

lemma move_stage_frame: "R 0 s (move_stage p job w ok reason ws checks s)"
proof -
  obtain advanced s1 where adv: "advanceToCodeReview p job w ws (rp_usage p s) s = (advanced, s1)"
    by (cases "advanceToCodeReview p job w ws (rp_usage p s) s")
  define s2 where "s2 = (if advanced then startAdvisoryChecks p checks s1 else s1)"
  obtain held s3 where asked: "blockOnPendingQuestions p job s2 = (held, s3)"
    by (cases "blockOnPendingQuestions p job s2")
  have "R 0 s s1" using code_review_frame [of s job w ws "rp_usage p s"] adv by simp
  moreover have "R 0 s1 s2" by (simp add: s2_def checks_frame)
  moreover have "R 0 s2 s3" using questions_frame [of s2 job] asked by simp
  ultimately have "R 0 s s3" by (metis step0)
  then show ?thesis
    by (auto simp: move_stage_def adv s2_def [symmetric] asked send_back_frame split: bool.split
        intro: step0 analiz_review_frame)
qed

lemma hand_over_frame: "R 0 s (hand_over p job w v summary ws br s)"
proof -
  obtain refused checks s1 where pushed: "push_stage p job summary ws br (vf_checks v) s = ((refused, checks), s1)"
    by (metis surj_pair)
  have "R 0 s s1" using push_stage_frame [of s job summary ws br "vf_checks v"] pushed by simp
  then show ?thesis by (auto simp: hand_over_def pushed split: bool.split intro: step0 move_stage_frame)
qed

lemma verification_report_frame: "R 0 s (reportVerificationFailure p job report s)"
  by (auto simp: reportVerificationFailure_def Let_def AddComment split: option.split
      intro: step0 [OF AddComment move_frame])

lemma plan_report_frame: "R 0 s (report_plan p job resp s)"
  by (auto simp: report_plan_def reportPlanVerificationFailure_def AddComment split: option.split)

lemma turn_result: "rp_RunTask p history s = (r, s1) \<Longrightarrow> R (Suc 0) s s1"
  using RunTask [of s history] by simp

lemma check_result: "rp_check p ws s = (r, s1) \<Longrightarrow> R 0 s s1"
  using Check [of s ws] by simp

lemma one_turn: "R (Suc 0) a b \<Longrightarrow> R n b c \<Longrightarrow> R (Suc n) a c"
  using trans [of "Suc 0" a b n c] by simp

lemma free_turn: "R 0 a b \<Longrightarrow> R (Suc n) a b"
  by (rule weaken [of 0]) simp_all

lemma verify_rounds_frame: "R left s (snd (verify_rounds p job ws attempts left history resp s))"
proof (induction left arbitrary: history resp s)
  case 0
  obtain ok report deferred s1 where chk: "rp_check p ws s = ((ok, report, deferred), s1)" by (metis surj_pair)
  show ?case using check_result [OF chk]
    by (cases ok) (auto simp: verify_rounds.simps chk intro: step0 verification_report_frame)
next
  case (Suc n)
  obtain ok report deferred s1 where chk: "rp_check p ws s = ((ok, report, deferred), s1)" by (metis surj_pair)
  have checked: "R 0 s s1" by (rule check_result [OF chk])
  show ?case
  proof (cases ok)
    case True
    then show ?thesis using checked by (simp add: verify_rounds.simps [of p job ws attempts "Suc n"] chk free_turn)
  next
    case False
    obtain r s2 where turn: "rp_RunTask p (fix_history p history resp report s1) s1 = (r, s2)" by (metis surj_pair)
    have taken: "R (Suc 0) s s2" using step0 [OF checked turn_result [OF turn]] .
    then have turned: "R (Suc n) s s2" by (rule weaken) simp
    show ?thesis using False turned one_turn [OF taken Suc.IH]
      by (auto simp: verify_rounds.simps [of p job ws attempts "Suc n"] chk turn Let_def split: sum.split option.split
          intro: after0 [OF turned verification_report_frame])
  qed
qed

lemma verify_run_frame: "R (nat (fix_attempts p)) s (snd (verify_run p job w history resp ws s))"
  by (simp add: verify_run_def verifyAndFix_def verify_rounds_frame)

lemma criteria_rounds_frame: "R left s (snd (criteria_rounds p job history left stacked current opens s))"
proof (induction left arbitrary: stacked current opens s)
  case 0
  then show ?case by (simp add: comment_frame)
next
  case (Suc n)
  show ?case
    by (auto simp: Let_def split: sum.split prod.split list.split if_split
        intro: weaken [OF turn_result] one_turn [OF turn_result] Suc.IH)
qed

lemma criteria_frame: "R criteriaSweepRounds s (snd (sweepOpenCriteria p job history resp s))"
  by (auto simp: sweepOpenCriteria_def Let_def criteria_rounds_frame)

lemma finalize_frame: "R (Suc 0) s (snd (finalizeReviewVerdict p job history exit s))"
proof (cases "rp_tasks p")
  case (Some t)
  obtain r s1 where turn: "rp_RunTask p (history @ [says RoleUser (ht_reviewVerdictAsk (rp_texts p) exit)]) s = (r, s1)"
    by (metis surj_pair)
  show ?thesis
    by (auto simp: finalizeReviewVerdict_def Some turn split: option.split sum.split prod.split
        intro: turn_result [OF turn] after0 [OF turn_result [OF turn] move_result [OF Some]])
qed (simp add: finalizeReviewVerdict_def)

lemma verdict_frame: "R 2 s (snd (sweepReviewVerdict p job history resp s))"
proof -
  have swept: "R 2 s s1" if "rp_RunTask p turn s = (r, s1)" for turn r s1
    using weaken [OF turn_result [OF that], of 2] by simp
  have final: "R 2 s s2" if "rp_RunTask p turn s = (r, s1)"
    and "finalizeReviewVerdict p job h exit s1 = (x, s2)" for turn r s1 h exit x s2
    using one_turn [OF turn_result [OF that(1)], of "Suc 0" s2] finalize_frame [of s1 job h exit] that(2)
    by (simp add: numeral_2_eq_2)
  show ?thesis
    by (auto simp: sweepReviewVerdict_def Let_def split: option.split sum.split prod.split bool.split
        intro: swept final after0 [OF final comment_frame(2)])
qed

lemma sweep_frame: "R (criteriaSweepRounds + 2) s (snd (sweep_run p job history resp s))"
proof -
  obtain settled quota s1 where own: "sweepOpenCriteria p job history resp s = ((settled, quota), s1)"
    by (metis surj_pair)
  have first: "R criteriaSweepRounds s s1" using criteria_frame [of s job history resp] own by simp
  show ?thesis
  proof (cases quota)
    case None
    have "R (criteriaSweepRounds + 2) s (snd (sweepReviewVerdict p job history resp s1))"
      using trans [OF first verdict_frame] .
    then show ?thesis using None by (simp add: sweep_run_def own split_beta)
  next
    case (Some q)
    then show ?thesis using weaken [OF first] by (simp add: sweep_run_def own)
  qed
qed

lemma chat_frame: "R 0 s (openClarificationChat p job agentRec answer clar root s)"
proof (cases "rp_sessions p")
  case (Some cs)
  have opened: "R 0 s s1" if "clarificationSession cs job agentRec root s = (x, s1)" for x s1
    using that NewChat [OF Some]
    by (auto simp: clarificationSession_def Let_def split: option.splits prod.splits sum.splits if_splits)
      (metis snd_conv)+
  have asked: "R 0 s (case rp_blocker p of None \<Rightarrow> s2 | Some blk \<Rightarrow> bl_BlockOnQuestion blk r i sid q s2)"
    if "R 0 s s2" for r i sid q s2
    using that by (auto intro: step0 Question split: option.split)
  have told: "R 0 s (case rp_Notify p of None \<Rightarrow> s2 | Some notify \<Rightarrow> notify title body s2)"
    if "R 0 s s2" for title body s2
    using that by (auto intro: step0 Notify split: option.split)
  obtain x s1 where chat: "clarificationSession cs job agentRec root s = (x, s1)"
    by (cases "clarificationSession cs job agentRec root s")
  have said: "R 0 s (cs_AppendMessage cs sid msg clar s1)" for sid msg
    by (rule step0 [OF opened [OF chat] Append [OF Some]])
  show ?thesis
  proof (cases x)
    case None
    then show ?thesis using opened [OF chat] by (simp add: openClarificationChat_def Some chat)
  next
    case (Some sid)
    show ?thesis unfolding openClarificationChat_def \<open>rp_sessions p = Some cs\<close> chat Some Let_def
        option.case prod.case
      by (intro told asked said)
  qed
qed (simp add: openClarificationChat_def)

lemma waits_frame: "R 0 s (open_waits p job agentRec resp root s)"
  by (auto simp: open_waits_def Let_def parkOnResource_def chat_frame park_frame split: option.split
      intro: step0 [OF chat_frame park_frame])

lemma run_turn_frame: "run_turn p agentRec run history s = (r, run1, s1) \<Longrightarrow> R (Suc 0) s s1"
  using Execute [of s history] after0 [OF _ SetCLI] turn_result [of history s]
  by (auto simp: run_turn_def Let_def split: prod.splits if_splits)

end

text \<open>With a row store that is within the relation too, the frame holds of a whole run.\<close>

locale run_frame = turn_frame +
  assumes Update: "R 0 s (snd (rp_Update p run s))"
begin

lemma end_frame: "R 0 s (snd (end_run p run err s))"
  using Update [of s run] by (auto simp: end_run_def split: prod.split sum.split)

lemma fail_frame: "R 0 s (snd (fail_run p run err s))"
  by (simp add: fail_run_def failRun_def end_frame)

lemma reject_frame: "R 0 s (snd (reject p job run resp r s))"
  by (cases r) (simp_all add: reject_def failRunUngrounded_def failRunUngroundedQA_def failRunUngroundedPMUAT_def
      reject_run_def step0 [OF comment_frame(3) end_frame])

lemma quota_frame: "R 0 s (snd (quotaOrPark p job run agentRec prev block s))"
proof -
  have written: "R 0 s s1" if "rp_Update p run' s = (r, s1)" for run' r s1
    using Update [of s run'] that by simp
  show ?thesis
    by (auto simp: quotaOrPark_def Let_def fail_frame parkOnQuota_def split: prod.split sum.split
        intro: written step0 [OF written park_frame])
qed

lemma budget_frame: "R 0 s (snd (failRunOutOfBudget p job run ws br err s))"
proof -
  have pushed: "R 0 s (case push_work p ws pre summary s of (Some e, s') \<Rightarrow> s' | (None, s') \<Rightarrow> index_branch p job br ws s')"
    for pre summary
    by (auto split: prod.split option.split intro: push_result step0 [OF push_result] index_frame)
  show ?thesis unfolding failRunOutOfBudget_def Let_def
    by (rule step0 [OF _ step0 [OF comment_frame(3) end_frame]]) (simp add: pushed)
qed

lemma turn_failed_frame: "R 0 s (snd (turn_failed p job run agentRec prev ws br err s))"
  by (cases err) (simp_all add: turn_failed_def quota_frame budget_frame fail_frame)

lemma close_frame: "R 0 s (snd (close_run p job w run agentRec v settled ws br s))"
proof -
  have written: "R 0 a s1" if "rp_Update p run' a = (r, s1)" for run' r a s1
    using Update [of a run'] that by simp
  show ?thesis
    by (auto simp: close_run_def Let_def split: prod.split sum.split
        intro: step0 [OF hand_over_frame] dest: written)
qed

lemma judge_frame:
  "R (criteriaSweepRounds + 2) s (snd (judge_run p job w run agentRec prev history v ws br s))"
proof (cases "rejection_of p job w run (vf_resp v) s")
  case None
  obtain settled quota s1 where swept: "sweep_run p job history (vf_resp v) s = ((settled, quota), s1)"
    by (metis surj_pair)
  have "R (criteriaSweepRounds + 2) s s1" using sweep_frame [of s job history "vf_resp v"] swept by simp
  then show ?thesis
    by (auto simp: judge_run_def None swept split: option.split intro: after0 quota_frame close_frame)
next
  case (Some r)
  then show ?thesis by (simp add: judge_run_def weaken [OF reject_frame])
qed

lemma finish_frame:
  "R (nat (fix_attempts p) + (criteriaSweepRounds + 2)) s
     (snd (finish_run p job w run agentRec prev history resp ws br root s))"
proof -
  obtain v s1 where ver: "verify_run p job w history resp ws (open_waits p job agentRec resp root s) = (v, s1)"
    by (metis surj_pair)
  have verified: "R (nat (fix_attempts p)) s s1"
    using step0 [OF waits_frame verify_run_frame, of s job w history resp ws] by (metis ver snd_conv)
  show ?thesis
  proof (cases "vf_quota v")
    case None
    have "R (nat (fix_attempts p) + (criteriaSweepRounds + 2)) s
        (snd (judge_run p job w run agentRec prev history v ws br (report_plan p job (vf_resp v) s1)))"
      by (rule trans [OF after0 [OF verified plan_report_frame] judge_frame])
    then show ?thesis by (simp add: finish_run_def ver None)
  next
    case (Some quota)
    have "R (nat (fix_attempts p)) s (snd (quotaOrPark p job (stamp_run p run s1) agentRec prev quota s1))"
      by (rule after0 [OF verified quota_frame])
    then show ?thesis using weaken by (simp add: finish_run_def ver Some)
  qed
qed

lemma execute_frame:
  "R (Suc (nat (fix_attempts p) + (criteriaSweepRounds + 2))) s
     (snd (execute_turn p job w run agentRec prev history ws br root s))"
proof -
  obtain r run1 s1 where turn: "run_turn p agentRec run history s = (r, run1, s1)" by (metis surj_pair)
  have taken: "R (Suc 0) s s1" by (rule run_turn_frame [OF turn])
  show ?thesis
    using weaken [OF taken] one_turn [OF taken finish_frame] weaken [OF after0 [OF taken turn_failed_frame]]
    by (simp add: execute_turn_def turn Let_def split: sum.split)
qed

end

section \<open>What the observer sees\<close>

definition more_turns :: "nat \<Rightarrow> 's observed \<Rightarrow> 's observed \<Rightarrow> bool" where
  "more_turns n o1 o2 \<longleftrightarrow> turns (snd o2) \<le> turns (snd o1) + n"

definition same_rows :: "nat \<Rightarrow> 's observed \<Rightarrow> 's observed \<Rightarrow> bool" where
  "same_rows n o1 o2 \<longleftrightarrow> rows (snd o2) = rows (snd o1)"

lemmas logged_ports = logged_def logged_tasks_def logged_git_def logged_blocker_def logged_parks_def
  logged_sessions_def

interpretation taking_turns: run_frame "logged p" more_turns for p :: "'s RunPorts"
  by unfold_locales (auto simp: more_turns_def logged_ports)

interpretation writing_rows: turn_frame "logged p" same_rows for p :: "'s RunPorts"
  by unfold_locales (auto simp: same_rows_def logged_ports)

end
