(* ===== verification/Run_Finish_Live.thy ===== *)
theory Run_Finish_Live
  imports Run_Log
begin

text \<open>
  What the end of a run guarantees: how many turns it can take, that it writes its row once and for
  good, what a hand-off rests on, when a gate may be skipped, and how often a run may park on a quota.
\<close>

section \<open>Turns and rows\<close>

text \<open>
  C16: Whatever the agent, the stores and git do, a run is over after its own turn, the verification's
  fix rounds, three rounds over the open criteria and two for the verdict.
\<close>
theorem turns_of_a_run_bounded:
  "turns (snd (snd (execute_turn (logged p) job w run agentRec prevRuns history workspace branch workDir (s, []))))
     \<le> nat (fix_attempts p) + 6"
  using taking_turns.execute_frame [where p = p and s = "(s, [])"]
  by (simp add: more_turns_def criteriaSweepRounds_def add.commute)

definition settles :: "TaskAgentRun \<Rightarrow> 's observed \<Rightarrow> 's observed \<Rightarrow> bool" where
  "settles run o1 o2 \<longleftrightarrow>
     (\<exists>row. rows (snd o2) = rows (snd o1) @ [row] \<and> run_ID row = run_ID run \<and>
            TaskAgentRunIsTerminal (run_Status row))"

lemma terminal_statuses [simp]:
  "TaskAgentRunIsTerminal TaskAgentRunStatusCompleted" "TaskAgentRunIsTerminal TaskAgentRunStatusFailed"
  by (simp_all add: TaskAgentRunIsTerminal_def)

lemma settles_after: "same_rows n o1 o2 \<Longrightarrow> settles run o2 o3 \<Longrightarrow> settles run o1 o3"
  by (simp add: settles_def same_rows_def)

lemma settles_before: "settles run o1 o2 \<Longrightarrow> same_rows n o2 o3 \<Longrightarrow> settles run o1 o3"
  by (simp add: settles_def same_rows_def)

lemma write_settles:
  assumes "run_ID row = run_ID run" and "TaskAgentRunIsTerminal (run_Status row)"
  shows "settles run o1 (snd (rp_Update (logged p) row o1))"
  using assms by (simp add: settles_def)

lemma written_settles:
  assumes "rp_Update (logged p) row o1 = (r, o2)"
    and "run_ID row = run_ID run" and "TaskAgentRunIsTerminal (run_Status row)"
  shows "settles run o1 o2"
  using write_settles [where p = p and ?o1.0 = o1, OF assms(2,3)] unfolding assms(1) by simp

lemma end_settles:
  assumes "run_ID row = run_ID run" and "TaskAgentRunIsTerminal (run_Status row)"
  shows "settles run o1 (snd (end_run (logged p) row err o1))"
proof -
  obtain r o2 where wrote: "rp_Update (logged p) row o1 = (r, o2)" by (metis surj_pair)
  then show ?thesis using written_settles [OF wrote assms]
    by (simp only: end_run_def wrote) (simp split: sum.split)
qed

lemma stamped_ID [simp]:
  "run_ID (stampCLISession i provider run) = run_ID run"
  "run_Status (stampCLISession i provider run) = run_Status run"
  "run_ID (stamp_run p run s) = run_ID run"
  by (simp_all add: stampCLISession_def stamp_run_def stampTokenUsage_def stampToolStats_def)

lemma fail_settles:
  assumes "run_ID run' = run_ID run" and "\<And>s. \<not> rp_stopped p s"
  shows "settles run o1 (snd (fail_run (logged p) run' err o1))"
  using assms by (simp add: fail_run_def failRun_def reading_def) (rule end_settles; simp)

lemma reject_settles: "settles run o1 (snd (reject (logged p) job run resp r o1))"
  by (cases r) (simp_all add: reject_def failRunUngrounded_def failRunUngroundedQA_def
      failRunUngroundedPMUAT_def reject_run_def
      settles_after [OF writing_rows.comment_frame(3) end_settles])

lemma quota_settles:
  assumes "run_ID run' = run_ID run" and "\<And>s. \<not> rp_stopped p s"
  shows "settles run o1 (snd (quotaOrPark (logged p) job run' agentRec prev block0 o1))"
proof -
  have parked: "settles run o1 (snd (parkOnQuota (logged p) job run' agentRec block streak o1))" for block streak
  proof -
    let ?row = "quota_run (logged p) agentRec block (quota_resume (rp_now (logged p) o1) block streak) run'"
    obtain r o2 where wrote: "rp_Update (logged p) ?row o1 = (r, o2)" by (metis surj_pair)
    have settled: "settles run o1 o2"
      by (rule written_settles [OF wrote]) (simp_all add: quota_run_def Let_def assms(1))
    show ?thesis
    proof (cases r)
      case (Inl e)
      then show ?thesis using settled by (simp add: parkOnQuota_def Let_def wrote del: logged_simps)
    next
      case (Inr row)
      then show ?thesis using settles_before [OF settled writing_rows.park_frame]
        by (simp add: parkOnQuota_def Let_def wrote del: logged_simps)
    qed
  qed
  show ?thesis unfolding quotaOrPark_def Let_def using parked fail_settles [OF assms] by simp
qed

lemma budget_settles:
  assumes "run_ID run' = run_ID run"
  shows "settles run o1 (snd (failRunOutOfBudget (logged p) job run' ws br err o1))"
proof -
  have pushed: "same_rows 0 o1 (case push_work (logged p) ws pre summary o1 of
      (Some e, o2) \<Rightarrow> o2 | (None, o2) \<Rightarrow> index_branch (logged p) job br ws o2)" for pre summary
    by (auto split: prod.split option.split
        intro: writing_rows.push_result writing_rows.step0 [OF writing_rows.push_result writing_rows.index_frame])
  show ?thesis unfolding failRunOutOfBudget_def Let_def
    by (rule settles_after [where n = 0, OF _ settles_after [OF writing_rows.comment_frame(3) end_settles]])
      (simp_all add: pushed assms)
qed

lemma close_settles:
  assumes "run_ID run' = run_ID run"
  shows "settles run o1 (snd (close_run (logged p) job w run' agentRec v settled ws br o1))"
proof -
  let ?run = "closed_run (logged p) job run' (vf_resp v) settled o1"
  let ?o = "hand_over (logged p) job w v (run_Summary ?run) ws br o1"
  let ?row = "stampCLISession (rp_cliSession (logged p) ?o) (agent_ProviderType agentRec) ?run"
  obtain r o2 where wrote: "rp_Update (logged p) ?row ?o = (r, o2)" by (metis surj_pair)
  have "settles run ?o o2"
    by (rule written_settles [OF wrote]) (simp_all add: closed_run_def Let_def assms)
  then have "settles run o1 o2" by (rule settles_after [OF writing_rows.hand_over_frame])
  then show ?thesis by (simp add: close_run_def Let_def wrote split: sum.split del: logged_simps)
qed

lemma judge_settles:
  assumes "\<And>s. \<not> rp_stopped p s"
  shows "settles run o1 (snd (judge_run (logged p) job w run agentRec prev history v ws br o1))"
proof (cases "rejection_of (logged p) job w run (vf_resp v) o1")
  case None
  obtain settled quota o2 where swept: "sweep_run (logged p) job history (vf_resp v) o1 = ((settled, quota), o2)"
    by (metis surj_pair)
  have same: "same_rows (criteriaSweepRounds + 2) o1 o2"
    using writing_rows.sweep_frame [where p = p and s = o1 and job = job and history = history and resp = "vf_resp v"]
    by (simp add: swept)
  show ?thesis
    by (simp add: judge_run_def None swept settles_after [OF same quota_settles] settles_after [OF same close_settles]
        assms split: option.split)
next
  case (Some r)
  then show ?thesis by (simp add: judge_run_def reject_settles)
qed

lemma finish_settles:
  assumes "\<And>s. \<not> rp_stopped p s"
  shows "settles run o1 (snd (finish_run (logged p) job w run agentRec prev history resp ws br root o1))"
proof -
  obtain v o2 where ver: "verify_run (logged p) job w history resp ws
      (open_waits (logged p) job agentRec resp root o1) = (v, o2)"
    by (metis surj_pair)
  have same: "same_rows (nat (fix_attempts p)) o1 o2"
    using writing_rows.verify_run_frame [where p = p and s = "open_waits (logged p) job agentRec resp root o1" and
        job = job and w = w and history = history and resp = resp and ws = ws]
      writing_rows.waits_frame [where p = p and s = o1 and job = job and agentRec = agentRec and resp = resp and
        root = root]
    by (simp add: ver same_rows_def)
  show ?thesis
    by (simp add: finish_run_def ver settles_after [OF same quota_settles] assms
        settles_after [OF same settles_after [OF writing_rows.plan_report_frame judge_settles]] split: option.split)
qed

lemma turn_keeps_ID: "run_turn p agentRec run history s = (r, run1, s1) \<Longrightarrow> run_ID run1 = run_ID run"
  by (auto simp: run_turn_def Let_def split: prod.splits if_splits)

text \<open>
  C14: From its agent's turn to its end a run asks the store for exactly one write of its row. Whatever
  the agent, git, the cards and the stores answer, a run that nobody stops calls \<open>Update\<close> once in
  \<open>execute_turn\<close>, under its own id and with a terminal status, whether it completes, is rejected, fails,
  parks on a quota or runs out of budget. This is about the calls: the store can refuse the one write,
  and what \<open>execute\<close> writes before the turn, and on its exits before it, is not part of the model.
\<close>
theorem run_row_written_once:
  assumes "\<And>s. \<not> rp_stopped p s"
  shows "\<exists>row. rows (snd (snd (execute_turn (logged p) job w run agentRec prevRuns history workspace branch
      workDir (s, [])))) = [row] \<and> run_ID row = run_ID run \<and> TaskAgentRunIsTerminal (run_Status row)"
proof -
  obtain r run1 o1 where turn: "run_turn (logged p) agentRec run history (s, []) = (r, run1, o1)"
    by (metis surj_pair)
  let ?run = "stamp_run (logged p) run1 o1"
  have failed: "settles ?run o1 (snd (turn_failed (logged p) job ?run agentRec prevRuns workspace branch err o1))"
    for err
    using assms by (cases err) (simp_all add: turn_failed_def quota_settles fail_settles budget_settles)
  have "settles ?run (s, []) (snd (execute_turn (logged p) job w run agentRec prevRuns history workspace branch
      workDir (s, [])))"
    using assms settles_after [OF writing_rows.run_turn_frame [OF turn] failed]
      settles_after [OF writing_rows.run_turn_frame [OF turn] finish_settles]
    by (simp add: execute_turn_def turn Let_def reading_def split: sum.split)
  then show ?thesis by (simp add: settles_def turn_keeps_ID [OF turn])
qed

section \<open>What a hand-off rests on\<close>

fun by_agent :: "run_call \<Rightarrow> bool" where
  "by_agent (CardMoved req) = (req_Actor req = TaskActorAgent)"
| "by_agent _ = False"

definition agent_moves :: "run_call list \<Rightarrow> run_call list" where
  "agent_moves calls = filter by_agent calls"

lemma agent_moves_simps [simp]:
  "agent_moves [] = []" "agent_moves (a @ b) = agent_moves a @ agent_moves b"
  "agent_moves [c] = (if by_agent c then [c] else [])"
  by (simp_all add: agent_moves_def)


lemma system_actor [simp]: "req_Actor (system_move col reason) = TaskActorSystem"
  by (simp add: system_move_def empty_UpdateBoardTaskRequest_def)

lemma left_logged [simp]: "taskLeftColumn (logged p) job o1 = taskLeftColumn p job (fst o1)"
  by (cases "rp_tasks p") (auto simp: taskLeftColumn_def job_GetTask_def logged_tasks_def reading_def
      split: option.split)

lemma workspace_logged [simp]:
  "ch_TaskDiff (workspaceChanges (map_option logged_git g) ws) o1 = ch_TaskDiff (workspaceChanges g ws) (fst o1)"
  "ch_TaskChangedFiles (workspaceChanges (map_option logged_git g) ws) o1 =
     ch_TaskChangedFiles (workspaceChanges g ws) (fst o1)"
  by (cases g; simp add: workspaceChanges_def logged_git_def reading_def)+

lemma ui_logged [simp]: "uiRepo (logged p) r o1 = uiRepo p r (fst o1)"
  by (cases "rp_RepositoryKind p") (simp_all add: uiRepo_def logged_def reading_def)

lemma comment_calls [simp]: "snd (commentSystem (logged p) job content o1) = snd o1"
  by (simp add: commentSystem_def logged_tasks_def split: option.split)

lemma move_calls [simp]:
  "snd (snd (job_UpdateTask (logged_tasks t) job req o1)) = snd o1 @ [CardMoved req]"
  by (simp add: job_UpdateTask_def logged_tasks_def)

lemma moved_calls: "job_UpdateTask (logged_tasks t) job req o1 = (r, o2) \<Longrightarrow> snd o2 = snd o1 @ [CardMoved req]"
  using move_calls [of t job req o1] by simp

lemma send_back_calls [simp]:
  "agent_moves (snd (snd (sendBackForRevision (logged p) job w comment reason o1))) = agent_moves (snd o1)"
  by (auto simp: sendBackForRevision_def Let_def dest!: moved_calls split: option.split sum.split prod.split)

lemma refused_calls [simp]:
  "agent_moves (snd (handleRefusedAdvance (logged p) job w err stay revision o1)) = agent_moves (snd o1)"
  by (simp add: handleRefusedAdvance_def Let_def)


lemma journal_calls [simp]:
  "snd (journal_Record (map_option logged_parks j) r task from res reason o1) = snd o1"
  by (auto simp: journal_Record_def logged_parks_def answering_def Let_def split: option.split sum.split prod.split)

lemma park_calls [simp]:
  "agent_moves (snd (snd (park_run (logged p) job resource detail reason o1))) = agent_moves (snd o1)"
  by (auto simp: park_run_def logged_blocker_def answering_def split: option.split sum.split prod.split)


lemma index_calls [simp]: "snd (index_branch (logged p) job br ws o1) = snd o1"
  by (simp add: index_branch_def logged_def split: option.split)

lemma checks_calls [simp]: "snd (startAdvisoryChecks (logged p) checks o1) = snd o1"
  by (simp add: startAdvisoryChecks_def) (simp add: logged_def)




text \<open>A verdict on coverage is asked only where the check for any evidence has already failed the run.\<close>

lemma coverage_check_never_fires: "rejection_of p job w run resp s \<noteq> Some UncoveredCriterion"
  by (auto simp: rejection_of_def Let_def waits_def isUngroundedPMUAT_def pmSkippedCoverageEvidence_def
      pmApprovedUncoveredCriterion_def)

text \<open>The comment on a refused push says why a change that did not reach its pull request must not be
  reviewed; a push that fails for any other reason goes on all the same.\<close>

lemma failed_push_hands_over:
  assumes "PublishesBranch (bt_TaskType (job_Task job))"
    and "push_work p workspace '''' summary s = (Some (PushFailed err), s1)"
    and "workspace \<noteq> ''''" and "\<not> waits (vf_resp v)"
    and "wf_Has w (bt_Column (job_Task job)) BehaviourCommitOnFinish"
  shows "hand_over p job w v summary workspace branch s =
    move_stage p job w (vf_ok v \<and> \<not> plan_failed (vf_resp v)) (send_back_reason v) workspace (vf_checks v) s1"
  using assms by (simp add: hand_over_def push_stage_def)

section \<open>A gate that is skipped\<close>

text \<open>
  A gate has passed a patch at a time: every criterion carries the role's approval of it and the time is
  that of the earliest, or the column's last approving review was of this patch.
\<close>

definition passed_before :: "'s RunPorts \<Rightarrow> RunJob \<Rightarrow> Workflow \<Rightarrow> string \<Rightarrow> 's \<Rightarrow> time \<Rightarrow> bool" where
  "passed_before p job w patchID s at \<longleftrightarrow>
     (case verdict_role w (bt_Column (job_Task job)) of
        Some role \<Rightarrow>
          (let checks = map (\<lambda>c. criterionApprovalFor c role) (allCriteria p job s) in
           checks \<noteq> [] \<and>
           list_all (\<lambda>k. case k of None \<Rightarrow> False
                         | Some check \<Rightarrow> chk_Approved check \<and> chk_VerifiedPatchID check = patchID) checks \<and>
           at = Min (set (map (chk_CheckedAt \<circ> the) checks)))
      | None \<Rightarrow>
          (case Option.bind (rp_tasks p) rt_LatestApprovedReviewPatchID of
             None \<Rightarrow> False
           | Some latest \<Rightarrow> latest s (bt_ID (job_Task job)) (bt_Column (job_Task job)) = Some (patchID, at)))"

definition timed :: "AcceptanceCriterion list \<Rightarrow> bool" where
  "timed criteria \<longleftrightarrow> list_all (\<lambda>c. list_all (\<lambda>check. 0 < chk_CheckedAt check) (crit_Checks c)) criteria"

lemma approvals_time:
  assumes "approvals_of role patchID cs e = Some t" and "timed cs" and "0 \<le> e"
  shows "list_all (\<lambda>c. \<exists>k. criterionApprovalFor c role = Some k \<and> chk_Approved k \<and>
      chk_VerifiedPatchID k = patchID) cs \<and>
    t = (if cs = [] then e
         else let m = Min (set (map (chk_CheckedAt \<circ> (\<lambda>c. the (criterionApprovalFor c role))) cs))
           in if e = 0 then m else min e m)"
  using assms
proof (induction cs arbitrary: e)
  case (Cons c cs)
  obtain k where k: "criterionApprovalFor c role = Some k" "chk_Approved k" "chk_VerifiedPatchID k = patchID"
    and rest: "approvals_of role patchID cs
      (if time_IsZero e \<or> chk_CheckedAt k < e then chk_CheckedAt k else e) = Some t"
    using Cons.prems(1) by (auto split: option.splits if_splits)
  let ?e = "if time_IsZero e \<or> chk_CheckedAt k < e then chk_CheckedAt k else e"
  have pos: "0 < chk_CheckedAt k" "timed cs"
    using Cons.prems(2) k(1) by (auto simp: timed_def criterionApprovalFor_def find_Some_iff list_all_iff)
  have e: "0 \<le> ?e" "?e \<noteq> 0" "?e = (if e = 0 then chk_CheckedAt k else min e (chk_CheckedAt k))"
    using pos(1) Cons.prems(3) by (auto simp: time_IsZero_def)
  note IH = Cons.IH [OF rest pos(2) e(1)]
  show ?case using IH k e(2,3) by (cases "cs = []") (auto simp: Let_def min.assoc min.commute min.left_commute)
qed simp

text \<open>
  C15: A gate is passed over without its agent only for a diff whose patch it has approved as it stands,
  and only if no human has commented since the earliest of the approvals.
\<close>
theorem gate_skipped_for_the_approved_diff:
  assumes "fst (skipUnchangedDiffGate p job run workspace s)" and "rp_tasks p = Some tasks"
    and "timed (allCriteria p job s)"
  shows "\<exists>git taskPatchID patchID at comments.
    rp_git p = Some git \<and> wg_TaskPatchID git = Some taskPatchID \<and> taskPatchID s workspace = Inr patchID \<and>
    patchID \<noteq> '''' \<and>
    passed_before p job (run_workflowFor p (bt_TaskType (job_Task job)) s) patchID s at \<and>
    rt_ListComments tasks s (job_RepositoryID job) (bt_ID (job_Task job)) = Inr comments \<and>
    list_all (\<lambda>c. human_author c \<longrightarrow> com_CreatedAt c \<le> at) comments"
proof -
  let ?w = "run_workflowFor p (bt_TaskType (job_Task job)) s"
  obtain git taskPatchID patchID at where g: "rp_git p = Some git" "wg_TaskPatchID git = Some taskPatchID"
    "taskPatchID s workspace = Inr patchID" "patchID \<noteq> ''''" "gateAlreadyApproved p job ?w patchID s = Some at"
    "\<not> humanCommentedAfter tasks job at s"
    using assms(1) unfolding skipUnchangedDiffGate_def assms(2) Let_def
    by (auto split: option.splits sum.splits if_splits)
  have "passed_before p job ?w patchID s at"
  proof (cases "verdict_role ?w (bt_Column (job_Task job))")
    case None
    then show ?thesis using g(5) by (auto simp: gateAlreadyApproved_def passed_before_def split: option.splits if_splits)
  next
    case (Some role)
    then have cs: "allCriteria p job s \<noteq> []" "approvals_of role patchID (allCriteria p job s) 0 = Some at"
      using g(5) by (auto simp: gateAlreadyApproved_def split: if_splits)
    show ?thesis using approvals_time [OF cs(2) assms(3)] cs(1) Some
      by (auto simp: passed_before_def list_all_iff comp_def Let_def image_image)
  qed
  then show ?thesis using g by (auto simp: humanCommentedAfter_def list_ex_iff list_all_iff not_less split: sum.splits)
qed

section \<open>Parking on a quota\<close>

definition quota_parked :: "TaskAgentRun \<Rightarrow> bool" where
  "quota_parked run \<longleftrightarrow> run_QuotaResumeAt run \<noteq> None"

text \<open>
  The runs of a card, newest first, each of which found its own row on top of the history: it ended
  without a quota block, or with the row that \<open>quotaOrPark\<close> wrote for one.
\<close>

inductive quota_history :: "'s RunPorts \<Rightarrow> TaskAgentRun list \<Rightarrow> bool" for p where
  no_runs: "quota_history p []"
| other_end: "quota_history p h \<Longrightarrow> \<not> quota_parked run \<Longrightarrow> run_ID run \<notin> run_ID ` set h \<Longrightarrow>
    quota_history p (run # h)"
| quota_end: "quota_history p h \<Longrightarrow> \<not> quota_parked run \<Longrightarrow> run_ID run \<notin> run_ID ` set h \<Longrightarrow>
    row \<in> set (rows (snd (snd (quotaOrPark (logged p) job run agentRec
      (take quotaParkHistoryDepth (run # h)) block (s, []))))) \<Longrightarrow>
    quota_history p (row # h)"

lemma streak_count:
  "quotaParkStreak runs i = int (length (takeWhile quota_parked (filter (\<lambda>r. run_ID r \<noteq> i) runs)))"
  by (induction runs) (auto simp: quota_parked_def)

lemma own_streak:
  assumes "run_ID run \<notin> run_ID ` set h"
  shows "quotaParkStreak (take quotaParkHistoryDepth (run # h)) (run_ID run) =
    int (min 5 (length (takeWhile quota_parked h)))"
proof -
  have others: "filter (\<lambda>r. run_ID r \<noteq> run_ID run) (take 5 h) = take 5 h"
    using assms by (intro filter_True ballI) (metis imageI in_set_takeD)
  have "takeWhile quota_parked (take n h) = take n (takeWhile quota_parked h)" for n
    by (induction h arbitrary: n) (auto simp: take_Cons')
  then show ?thesis by (simp add: quotaParkHistoryDepth_def streak_count others min.commute)
qed

lemma parked_rows [simp]: "rows (snd (snd (park_run (logged p) job res d reason o1))) = rows (snd o1)"
  using writing_rows.park_frame [where p = p and s = o1] by (simp add: same_rows_def)

lemma quota_rows:
  assumes "row \<in> set (rows (snd (snd (quotaOrPark (logged p) job run agentRec prev block (s, [])))))"
    and "\<not> quota_parked run"
  shows "run_ID row = run_ID run \<and> (quota_parked row \<longleftrightarrow> quotaParkStreak prev (run_ID run) < 5)"
  using assms
  by (auto simp: quotaOrPark_def Let_def parkOnQuota_def fail_run_def failRun_def end_run_def answering_def
      maxConsecutiveQuotaParks_def quota_run_def quota_parked_def split: if_splits prod.splits sum.splits)

lemma quota_history_streaks:
  assumes "quota_history p h"
  shows "distinct (map run_ID h) \<and> (\<forall>k. length (takeWhile quota_parked (drop k h)) \<le> 5)"
  using assms
proof (induction rule: quota_history.induct)
  case (other_end h run)
  have "length (takeWhile quota_parked (drop k (run # h))) \<le> 5" for k
    using other_end by (cases k) simp_all
  then show ?case using other_end by simp
next
  case (quota_end h run row job agentRec block s)
  note row = quota_rows [OF quota_end(4,2), unfolded own_streak [OF quota_end(3)]]
  have "length (takeWhile quota_parked (drop k (row # h))) \<le> 5" for k
    using quota_end.IH spec [OF conjunct2 [OF quota_end.IH], of 0] row by (cases k) auto
  then show ?case using quota_end row by simp
qed simp

lemma full_streak_fails:
  assumes "quotaParkStreak prev (run_ID run) = 5" and "\<not> rp_stopped p s"
  shows "\<exists>row. rows (snd (snd (quotaOrPark (logged p) job run agentRec prev block (s, [])))) = [row] \<and>
    run_ID row = run_ID run \<and> run_Status row = TaskAgentRunStatusFailed \<and>
    run_QuotaResumeAt row = run_QuotaResumeAt run"
  using assms
  by (auto simp: quotaOrPark_def Let_def fail_run_def failRun_def end_run_def answering_def reading_def
      maxConsecutiveQuotaParks_def split: prod.splits sum.splits)

text \<open>
  C17: No card parks on a quota more than five runs in a row, as long as each of its runs finds its own
  row on top of the card's history when it ends (\<open>quota_history\<close>; a run queued meanwhile for another
  agent hides the streak, see \<open>queued_run_hides_the_streak\<close>). In such a history at most five
  neighbouring runs are parked on a quota, and when the newest five are, a sixth run that is blocked by
  a quota and not stopped writes its row as failed and not parked.
\<close>
theorem quota_parks_capped:
  assumes "quota_history p (newer @ parks @ older)" and "list_all quota_parked parks"
  shows "length parks \<le> 5 \<and>
    (newer = [] \<and> length parks = 5 \<longrightarrow>
      (\<forall>job run agentRec block s.
        \<not> quota_parked run \<and> run_ID run \<notin> run_ID ` set (parks @ older) \<and> \<not> rp_stopped p s \<longrightarrow>
        (\<exists>row. rows (snd (snd (quotaOrPark (logged p) job run agentRec
              (take quotaParkHistoryDepth (run # parks @ older)) block (s, [])))) = [row] \<and>
          run_ID row = run_ID run \<and> run_Status row = TaskAgentRunStatusFailed \<and> \<not> quota_parked row)))"
proof (intro conjI impI allI)
  have capped: "length (takeWhile quota_parked (parks @ older)) \<le> 5"
    using quota_history_streaks [OF assms(1)] by (metis append_eq_conv_conj)
  moreover have within: "length parks \<le> length (takeWhile quota_parked (parks @ older))"
    using assms(2) by (simp add: list_all_iff)
  ultimately show "length parks \<le> 5" by simp
  fix job run agentRec block s
  assume "newer = [] \<and> length parks = 5"
    and run: "\<not> quota_parked run \<and> run_ID run \<notin> run_ID ` set (parks @ older) \<and> \<not> rp_stopped p s"
  then have "quotaParkStreak (take quotaParkHistoryDepth (run # parks @ older)) (run_ID run) = 5"
    using own_streak [of run "parks @ older"] capped within by simp
  from full_streak_fails [OF this, of p s job agentRec block]
  show "\<exists>row. rows (snd (snd (quotaOrPark (logged p) job run agentRec
        (take quotaParkHistoryDepth (run # parks @ older)) block (s, [])))) = [row] \<and>
      run_ID row = run_ID run \<and> run_Status row = TaskAgentRunStatusFailed \<and> \<not> quota_parked row"
    using run by (auto simp: quota_parked_def)
qed

text \<open>A run that was queued meanwhile stands on top of the history and hides the parks below it.\<close>

lemma queued_run_hides_the_streak:
  assumes "\<not> quota_parked queued" and "run_ID queued \<noteq> run_ID run"
  shows "quotaParkStreak (take quotaParkHistoryDepth (queued # run # parks)) (run_ID run) = 0"
  using assms by (simp add: quotaParkHistoryDepth_def quota_parked_def)

section \<open>A small run\<close>

definition small_texts :: HandOffTexts where
  "small_texts =
     \<lparr>ht_handoffUnverified = ''ran nothing'', ht_handoffFailedCommands = (\<lambda>n. ''all failed''),
      ht_handoffUnseenUI = ''not seen'', ht_codeReviewRefused = id, ht_codeReviewRefusedRevision = id,
      ht_analizReviewRefused = id, ht_analizReviewRefusedRevision = id, ht_pushWorkflowScopeComment = ''scope'',
      ht_pushWorkflowScopeDetail = ''scope'', ht_questionsBlockDetail = concat,
      ht_clarificationQuestions = clar_Questions, ht_ungroundedAnalysis = ''no reading'',
      ht_ungroundedQA = ''no test'', ht_noUIEvidence = ''no screen'', ht_ungroundedPMUAT = ''no check'',
      ht_pmUncoveredCriterion = ''no case'', ht_rejectedDraftLabel = ''draft'', ht_rejectedReportReplan = ''report'',
      ht_rejectedReportReapprove = ''report'', ht_outOfBudgetKeptPublished = ''pushed'',
      ht_outOfBudgetKeptLocal = ''kept'', ht_outOfBudgetComment = (\<lambda>a b c. a @ b @ c),
      ht_unsettledCriteriaReport = (\<lambda>cs. ''open''), ht_unsettledCriteriaSummary = (\<lambda>n. ''open''),
      ht_criteriaSweep = (\<lambda>cs n. ''settle''), ht_reviewSweep = (\<lambda>a b c d. ''decide''),
      ht_reviewVerdictAsk = id, ht_stuckVerdictNote = (\<lambda>r cs. ''stuck''), ht_stuckColumn = (\<lambda>a b c. ''stuck''),
      ht_diffSkipSummary = (\<lambda>a b c. ''unchanged''), ht_verifyFix = id, ht_verificationExhausted = (\<lambda>n. ''red''),
      ht_verificationFailure = id, ht_verificationFailureRevision = id, ht_planVerificationFailure = vr_Summary,
      ht_errorText = (\<lambda>e. ''error''), ht_moveErrorText = (\<lambda>e. ''refused''), ht_providerLabel = id,
      ht_timeText = (\<lambda>t. ''later'')\<rparr>"

definition used_terminal :: ToolUsage where
  "used_terminal = \<lparr>tu_counts = [(''run_terminal'', 1)], tu_errors = []\<rparr>"

definition passed_criterion :: AcceptanceCriterion where
  "passed_criterion =
     \<lparr>crit_ID = 5, crit_TaskID = 1, crit_Text = ''works'', crit_Position = 0, crit_Completed = True,
      crit_CreatedAt = 1, crit_Canceled = False, crit_CancelReason = '''',
      crit_Checks = [\<lparr>chk_ID = 6, chk_CriterionID = 5, chk_Role = CriterionReviewRoleQA, chk_AgentID = None,
        chk_Approved = True, chk_Note = '''', chk_CheckedAt = 40, chk_VerifiedSHA = '''',
        chk_VerifiedPatchID = ''p1''\<rparr>]\<rparr>"

definition run_stage :: "TaskColumn \<Rightarrow> BehaviourRef list \<Rightarrow> WorkflowStage" where
  "run_stage col behaviours =
     \<lparr>ws_ID = 1, ws_TaskType = TaskTypeTask, ws_Column = col, ws_Position = 0, ws_OnPath = True,
      ws_Kind = StageKindReview, ws_Behaviours = behaviours, ws_Instructions = '''', ws_Participants = []\<rparr>"

definition run_workflow :: Workflow where
  "run_workflow = zero_Workflow\<lparr>wf_Stages :=
     [run_stage TaskColumnInProgress
        [\<lparr>br_Key = BehaviourCommitOnFinish, br_Params = []\<rparr>,
         \<lparr>br_Key = BehaviourAdvanceOnDiff, br_Params = [(''to'', TaskColumnCodeReview)]\<rparr>],
      run_stage TaskColumnInQA
        [\<lparr>br_Key = BehaviourCriterionVerdict, br_Params = [(''channel'', ''qa'')]\<rparr>,
         \<lparr>br_Key = BehaviourReviewVerdictSweep, br_Params = [(''pass_to'', TaskColumnPMUAT)]\<rparr>]]\<rparr>"

definition run_card :: "TaskColumn \<Rightarrow> BoardTask" where
  "run_card col = zero_BoardTask\<lparr>bt_ID := 1, bt_TaskType := TaskTypeTask, bt_Column := col\<rparr>"

definition run_job :: "TaskColumn \<Rightarrow> RunJob" where
  "run_job col =
     \<lparr>job_Run = (pending_run 1 3 4)\<lparr>run_ID := 7\<rparr>,
      job_Event = \<lparr>ev_ID = 4, ev_RepositoryID = 2, ev_TaskID = 1, ev_EventType = BoardEventTaskMoved,
        ev_Payload = None, ev_ActorUserID = None, ev_CreatedAt = 0\<rparr>,
      job_Task = run_card col, job_RepositoryID = 2, job_EnteredFrom = '''', job_ColumnInstruction = ''''\<rparr>"

definition run_tasks :: "TaskColumn \<Rightarrow> unit RunTasks" where
  "run_tasks col =
     \<lparr>rt_UpdateTask = (\<lambda>r i req s. (Inr (run_card col), s)), rt_AddComment = (\<lambda>r i req s. s),
      rt_ListComments = (\<lambda>s r i. Inr []), rt_GetTask = Some (\<lambda>s r i. Inr (run_card col)),
      rt_ListTaskCriteria = Some (\<lambda>s i. Inr [passed_criterion]), rt_ListTestCases = None,
      rt_ListQuestionsByTask = None, rt_LatestApprovedReviewPatchID = None\<rparr>"

definition run_git :: "unit RunGit" where
  "run_git =
     \<lparr>wg_CommitAndPush = (\<lambda>workspace msg s. (None, s)), wg_TaskDiff = (\<lambda>s workspace. Inr ''+ line''),
      wg_TaskChangedFiles = (\<lambda>s workspace. Inr [''main.go'']),
      wg_TaskPatchID = Some (\<lambda>s workspace. Inr ''p1''), wg_HeadSHA = None\<rparr>"

definition plain_answer :: AgentResponse where
  "plain_answer =
     \<lparr>resp_Message = says RoleAssistant ''done'', resp_Clarification = None, resp_ResourceBlock = None,
      resp_CLISessionID = '''', resp_Verification = None, resp_Transcript = []\<rparr>"

definition run_ports :: "TaskColumn \<Rightarrow> unit RunPorts" where
  "run_ports col =
     \<lparr>rp_tasks = Some (run_tasks col), rp_Update = (\<lambda>run s. (Inr run, s)), rp_blocker = None, rp_parks = None,
      rp_sessions = None, rp_Notify = None, rp_Workflow = Some (\<lambda>s t. Inr run_workflow),
      rp_git = Some run_git, rp_StartIndexBranch = None, rp_RepositoryKind = None,
      rp_HasDecided = (\<lambda>i col a s. False), rp_RunTask = (\<lambda>history s. (Inr plain_answer, s)),
      rp_Execute = (\<lambda>history s. ((plain_answer, None), s)), rp_hosted = (\<lambda>provider. False),
      rp_usage = (\<lambda>s. Some used_terminal),
      rp_tokens = (\<lambda>s. \<lparr>tt_LLMCalls = 1, tt_PromptTokens = 10, tt_CompletionTokens = 5, tt_CacheReadTokens = 0,
        tt_CacheWriteTokens = 0\<rparr>),
      rp_cliSession = (\<lambda>s. ''''), rp_setCLISession = (\<lambda>i s. s), rp_stopped = (\<lambda>s. False), rp_now = (\<lambda>s. 100),
      rp_verifyEnabled = True, rp_verifyFixAttempts = 0, rp_check = (\<lambda>workspace s. ((True, '''', no_checks), s)),
      rp_digest = (\<lambda>s. ''''), rp_isDigest = (\<lambda>t. False), rp_commitMessage = (\<lambda>a b s. b),
      rp_startBackground = (\<lambda>c s. s), rp_texts = small_texts\<rparr>"

definition run_agent :: Agent where
  "run_agent =
     \<lparr>agent_ID = 3, agent_Name = ''dev'', agent_Description = '''', agent_SubagentType = '''',
      agent_SystemPrompt = '''', agent_ProviderType = ''api'', agent_Model = ''m'', agent_ModelHeavy = '''',
      agent_MaxTurns = 0, agent_Effort = '''', agent_ToolPolicy = \<lparr>tp_AllowMCPServers = [], tp_AllowTools = []\<rparr>,
      agent_Enabled = True, agent_SelfEvolutionEnabled = False\<rparr>"

theorem run_row_written_once_witness:
  "\<exists>row. rows (snd (snd (execute_turn (logged (run_ports TaskColumnInProgress)) (run_job TaskColumnInProgress)
      run_workflow (job_Run (run_job TaskColumnInProgress)) run_agent [] [] ''ws'' ''t-1'' ''ws'' ((), [])))) = [row] \<and>
    run_ID row = run_ID (job_Run (run_job TaskColumnInProgress)) \<and> TaskAgentRunIsTerminal (run_Status row)"
  by (rule run_row_written_once) (simp add: run_ports_def)




theorem gate_skipped_for_the_approved_diff_witness:
  "\<exists>at. passed_before (run_ports TaskColumnInQA) (run_job TaskColumnInQA) run_workflow ''p1'' () at"
proof -
  have "fst (skipUnchangedDiffGate (run_ports TaskColumnInQA) (run_job TaskColumnInQA)
      (job_Run (run_job TaskColumnInQA)) ''ws'' ())"
    by code_simp
  moreover have "rp_tasks (run_ports TaskColumnInQA) = Some (run_tasks TaskColumnInQA)" by (simp add: run_ports_def)
  moreover have "timed (allCriteria (run_ports TaskColumnInQA) (run_job TaskColumnInQA) ())" by code_simp
  ultimately show ?thesis using gate_skipped_for_the_approved_diff
    by (fastforce simp: run_ports_def run_git_def run_workflowFor_def)
qed

definition small_block :: QuotaBlock where
  "small_block = \<lparr>qb_ResumeAt = 0, qb_CLISessionID = ''c'', qb_Detail = '''', qb_Provider = ''''\<rparr>"

theorem quota_parks_capped_witness:
  "\<exists>row. quota_history (run_ports TaskColumnInProgress) [row] \<and> quota_parked row \<and> length [row] \<le> 5"
proof -
  let ?p = "run_ports TaskColumnInProgress" and ?run = "job_Run (run_job TaskColumnInProgress)"
  let ?row = "quota_run (logged ?p) run_agent small_block (quota_resume 100 small_block 0) ?run"
  have fresh: "\<not> quota_parked ?run" by code_simp
  have "?row \<in> set (rows (snd (snd (quotaOrPark (logged ?p) (run_job TaskColumnInProgress) ?run run_agent
      (take quotaParkHistoryDepth [?run]) small_block ((), [])))))"
    by code_simp
  then have history: "quota_history ?p [?row]"
    by (rule quota_history.quota_end [OF quota_history.no_runs fresh, rotated]) simp
  moreover have "quota_parked ?row" by (simp add: quota_parked_def quota_run_def Let_def)
  ultimately show ?thesis using quota_parks_capped [of ?p "[]" "[?row]" "[]"] by auto
qed

end
