(* ===== verification/Spec2Isabelle.thy ===== *)
theory Spec2Isabelle
  imports Default_Workflow Task_Service Sweepers Reconciler Slot_Wait Runner_Live Pipeline_Live Run_Finish_Live
begin

text \<open>
  A model of the board core of TaskTrooper, the Go server under \<open>src/server/internal\<close>: the part that
  decides where a task may go, who may take it there, what it waits for, and what is recorded on the
  way. Agents, language models, version control and deployment are outside; they meet the core
  through ports.

  \<^bold>\<open>Parts, and the theories that model them.\<close>

  \<^item> \<open>Prelude\<close>: identifiers, times, Go's string functions and sorts, and the lemmas on lists
    the rest shares. \<open>Errors\<close>: the typed refusals and what \<open>errors.Is\<close> and
    \<open>IsMoveRefusal\<close> make of them (\<open>domain/move_refusal.go\<close> and its neighbours).
  \<^item> The data: \<open>Columns\<close>, \<open>Tasks\<close> (\<open>domain/board_task.go\<close>), \<open>Behaviours\<close> and
    \<open>Workflow\<close> (\<open>domain/workflow.go\<close>), \<open>Roles\<close> (\<open>domain/role.go\<close>, \<open>repo_area.go\<close>),
    \<open>Reviews\<close> (\<open>domain/task_review.go\<close>), \<open>Task_Keys\<close> (\<open>domain/taskkey\<close>), \<open>Order_Note\<close>
    (\<open>domain/task_order.go\<close>), \<open>Tool_Policy\<close> (\<open>domain/tool_policy.go\<close>).
  \<^item> The workflow engine: \<open>Workflow_Validate\<close> and \<open>Workflow_Service\<close>
    (\<open>application/workflow\<close>: the snapshot, the resolver, the checked writes) and
    \<open>Default_Workflow\<close> (the workflows of a fresh install).
  \<^item> The stores (\<open>adapter/storage/postgres\<close>): \<open>Task_Store\<close> (the task table with its parks
    and releases), \<open>Relations\<close> (the relation table), \<open>Span_Ledger\<close> (the visits of columns), and the
    verdict table inside \<open>Review_Quorum\<close>. A table is a list of rows; a statement is a function on
    it; a transaction that fails returns the tables it was given.
  \<^item> The rules of a move: \<open>Transitions\<close> (\<open>application/workspace\<close>), \<open>Board_Gates\<close>
    (\<open>application/repository\<close>: stage, criteria, test cases, work order, review chain),
    \<open>Review_Quorum\<close> (\<open>application/board/review_quorum.go\<close>) and the human review gate in
    \<open>Task_Ports\<close> (\<open>application/board/review_gate.go\<close>).
  \<^item> The order of work and of deploys: \<open>Work_Order\<close> (\<open>application/repository/workorder.go\<close>) and
    \<open>Order_Graph\<close>, which proves it acyclic over the tables.
  \<^item> The operations: \<open>Task_Edit\<close> is \<open>UpdateTask\<close> of \<open>application/repository/service.go\<close>, split
    where the code turns from checking to writing and from writing to its consequences
    (\<open>edit_plan\<close>, \<open>commit_edit\<close>); \<open>Task_Service\<close> is \<open>CreateTask\<close>, \<open>ClaimTask\<close>,
    \<open>DeleteTask\<close> and the operations on acceptance criteria; \<open>Comments\<close> is \<open>AddComment\<close>.
  \<^item> The event side: \<open>Events\<close> (the event table and its readers), \<open>Run_Store\<close> (the table of agent
    runs, \<open>postgres/board_config.go\<close>), \<open>Loop_Guards\<close> (\<open>review_loop_guard.go\<close>,
    \<open>criteria_loop_guard.go\<close>), \<open>Dispatcher\<close> (\<open>dispatcher.go\<close>, \<open>work_order.go\<close>,
    \<open>work_order_sweeper.go\<close> of \<open>application/board\<close>).
  \<^item> The composition: \<open>Board\<close> puts the dispatcher, its guards, the sweeper and \<open>AddComment\<close> over the
    tables and the runner's queue, as \<open>platform/runtime/runtime.go\<close> wires them; \<open>Dispatch_Effects\<close> shows
    what they do there.
  \<^item> What sets work going again: \<open>Sweepers\<close> (\<open>quota_sweeper.go\<close>, \<open>device_sweeper.go\<close>,
    \<open>deploy_sweeper.go\<close>, \<open>release_waker.go\<close>, \<open>resume.go\<close>) and \<open>Reconciler\<close> (\<open>reconciler.go\<close>, and
    a human's stop and repeat of a run in \<open>control.go\<close>), both over the same tables and runner.
  \<^item> The schedule of runs: \<open>Slot_Gate\<close> (one look at a gate of \<open>slot_gate.go\<close>), \<open>Slot_Wait\<close> (how
    goroutines sleep at it and are woken, its condition variable step by step), \<open>Runner\<close> (the queue,
    the parked runs and the limits of \<open>runner.go\<close>, as steps of interleaved goroutines) and
    \<open>Runner_Live\<close>, what holds of it.
  \<^item> The CI pipelines that guard code review: \<open>Pipelines\<close> (\<open>domain/pipeline.go\<close> and the tables of
    \<open>postgres/pipeline.go\<close>), \<open>Bounce_Guard\<close> (\<open>pipeline_bounce_guard.go\<close>), \<open>Pipeline_Runner\<close> and
    \<open>Pipeline_Gate\<close> (\<open>pipeline.go\<close> and \<open>pipeline_gate.go\<close>: the start of a pipeline, the verdict of its
    jobs, its end and what the end sets off, the sweeper), \<open>Pipeline_World\<close> (the runner over its
    tables) and \<open>Pipeline_Live\<close>, what holds of it. \<open>Cuts\<close> are the byte-bounded texts it reports.
  \<^item> The end of a run (\<open>execute\<close> of \<open>runner.go\<close> from the agent's turn on): \<open>Run_Evidence\<close> (what a run
    has called and what that proves: \<open>application/toolusage\<close>, \<open>usage/tokens.go\<close>, the evidence checks),
    \<open>Hand_Off\<close> (the ports of a run and the moves it makes: \<open>enterWorkingColumn\<close>,
    \<open>advanceToCodeReview\<close>, \<open>advanceToAnalizReview\<close>, \<open>sendBackForRevision\<close>), \<open>Run_Parks\<close> (\<open>failRun\<close>
    and its kin, the parks on resources, questions and quotas), \<open>Run_Finish\<close> (\<open>verifyAndFix\<close>,
    \<open>sweepOpenCriteria\<close>, \<open>sweepReviewVerdict\<close>, \<open>skipUnchangedDiffGate\<close>, and their composition
    \<open>execute_turn\<close>, cut where the code returns). \<open>Run_Log\<close> writes down the turns, rows and moves of a
    run, and \<open>Run_Finish_Live\<close> shows what holds of them.

  \<^bold>\<open>How the code is read.\<close> A Go string is a \<open>string\<close> of bytes, a \<open>uuid.UUID\<close> a \<open>128 word\<close>, a
  time or a duration an \<open>int\<close> of nanoseconds, a nil-able pointer an \<open>option\<close>, an \<open>error\<close> result the
  left of a sum. A struct of stores is a record of functions over one state, so that every call that
  changes state returns the new one; a port the service can be built without is an \<open>option\<close>. A message
  from the prompt catalog is the name of its template with its inputs. A loop is a function of its own
  with the source's variables as arguments.

  \<^bold>\<open>Interfaces.\<close> A \<open>locale\<close> states what one part promises another, and an interpretation shows that
  the model of the provider keeps it: \<open>key_sorter\<close> (a sort by a key is the stable one, \<open>Prelude\<close>,
  for the path of a workflow), \<open>park_claim\<close> (a park is released once, \<open>Task_Store\<close>),
  \<open>verdict_store\<close> (a recorded verdict stands, \<open>Review_Quorum\<close>), \<open>order_store\<close> (what relation
  writes do to the graph, \<open>Order_Graph\<close>), \<open>run_queue\<close> (what the run store and the queue promise the
  dispatcher, \<open>Dispatcher\<close>, kept by the board), and \<open>board_writes\<close>, \<open>board_marks\<close>, \<open>board_frame\<close> (what
  the port calls of a dispatch keep: of one that starts agents, of one that marks a card as waiting too,
  of one that may park it too; \<open>Board\<close>), \<open>slots\<close> (a gate counts its holders and keeps its limit,
  \<open>Slot_Gate\<close>, for the runner), \<open>pipeline_store\<close> (the pipeline rows under updates and claims, and
  that nothing else touches them; \<open>Pipeline_World\<close>), and \<open>turn_frame\<close> and \<open>run_frame\<close> (a relation every
  port call of a run keeps holds of the whole run, counted in turns; \<open>Run_Log\<close>).

  \<^bold>\<open>What is shown.\<close> Work that is done or released has passed every review stage of its type; an agent
  neither skips a review nor returns its own work; an approval is held for a human where a repository
  asks for it. A reviewers' quorum releases a card only when every subscriber has approved. The work order and the deploy order stay acyclic, the guard refuses exactly
  the edges that would close a cycle, and so some unfinished task can always be started. A parked task
  that is released leaves blocked for the column its park remembered. Task numbers are not reused and keys
  read back. The ledger of visits is contiguous. A product manager is never assigned a task by hand or
  by rule. Policies only narrow what an agent may call, and a stage that strips writers leaves its agents
  no tool to write, commit, merge or release with, unless it grants one.

  An agent has at most one queued run for a task, a task at most one running run while heartbeats
  arrive, and a run a human cancelled stays cancelled. A dispatch starts each agent of the column once
  and nobody else, and queues its jobs as far as the runner's queue has room; a card with unfinished
  blockers starts nobody and is marked instead, and one pass of the sweeper leaves marked exactly the cards that are still blocked. A dispatch that parks a card
  comments on it and so dispatches again, one level deep and no deeper. A pass of the quota sweeper
  announces every card that is due, an answer resumes a card once, a pass of the reconciler fails exactly
  the runs that were silent for too long, and a stop or a repeat of a run touches that run's card only.

  The runner never has two runs of a task at work, nor more agents or tasks than the limits; its own
  steps come to an end, it is not stuck before that while one of the limits is off, and unless a job
  falls out on the way nothing is left parked. \<open>stopped_run_strands\<close> and \<open>slots_deadlock\<close> show that the
  conditions of these are needed. At a slot gate no goroutine is left asleep at a free slot while no
  context ends; \<open>cancelled_waiter_swallows_signal\<close> shows how an ended one breaks this.

  The gate sweeper settles a pipeline as its decision table says; a pass ends the one that has waited
  longest once its window is over, unless a hundred deploys stand before it, and a look of the sweeper
  at a check that reported a failure never opens the gate. An end is claimed once while no stale copy
  is written back, and \<open>stale_mark_fires_twice\<close> shows one that is. A build is held when its commit has
  already failed since a human touched the card, as far as that can be read.

  A run takes a bounded number of turns and, from its first turn on, asks for one write of its row, with
  an end. Where a stage does not advance on a document, it hands its card to review only with passed
  checks, a diff and evidence for it; a gate is passed over only for a diff it has approved, and not
  after a human's comment; of six runs in a row that a quota blocks the last fails, unless, as
  \<open>queued_run_hides_the_streak\<close> shows, another run is queued between them.

  \<^bold>\<open>Bounds.\<close> \<open>walk\<close> counts visits down from \<open>relationWalkLimit\<close>, the source's 512; the theorems on
  cycles assume that no more tasks than that are in reach of any one, and \<open>chain_escapes\<close> shows that
  beyond it an edge that closes a cycle is let through. The pattern matcher of \<open>Tool_Policy\<close> counts
  down the length of the pattern. \<open>board_Dispatch\<close> takes a depth for the comments that dispatch again;
  \<open>dispatch_settles\<close> shows that every depth from 1 on gives the same board. A loop that polls GitHub
  runs over the list of the answers it gets, which ends where its context does. The loops of a run count
  down the rounds the code allows: the configured fix attempts (two by default), three sweeps of open
  criteria, two turns for a verdict. Every other loop is structural.

  \<^bold>\<open>Not modelled.\<close> How a run starts (its working copy and its prompt), the commands of a
  verification pass, the words of commit messages, the executors a run calls, the HTTP, MCP and CLI
  adapters, the other storage adapters, discovery and indexing of repositories, deployment, the cloud
  and store integrations, the desktop application and the prompt catalog: they are effects or text without rules
  of the board. What they do on a move enters \<open>UpdateTask\<close> as ports (\<open>hook_ports\<close>). Concurrency is
  modelled where the code relies on it, as single statements of the store. The coverage percentages of
  a pipeline, floats no decision of it reads, are left out.
\<close>

end
